(* ===== verification/Prelude.thy ===== *)
theory Prelude
  imports Main "HOL-Library.Word" "HOL-Library.Sublist"
begin

text \<open>
  What every component of the backend shares: Go's error results, the width of Go's
  integers, Go strings, buffered channels with non-blocking send and receive, the order in
  which a map is ranged over, and the locales for systems of steps that keep an invariant.
  The lemmas of this theory are about these notions only; nothing here models a file of
  the repository by itself.
\<close>

section \<open>Collections\<close>

named_theorems inv_intros
  \<open>facts of the form: the operation keeps the invariant of its component\<close>

named_theorems go_defs
  \<open>definitions of small Go helpers that component proofs unfold together\<close>

section \<open>Errors as values\<close>

text \<open>
  A Go function that returns \<open>(T, error)\<close> is a function into a sum: \<open>Inl e\<close> for
  a non-nil error, \<open>Inr v\<close> for a value. A panic is a constructor of the component's own
  outcome type.
\<close>

fun res_bind :: "'e + 'a \<Rightarrow> ('a \<Rightarrow> 'e + 'b) \<Rightarrow> 'e + 'b" where
  "res_bind (Inl e) f = Inl e"
| "res_bind (Inr a) f = f a"

lemma res_bind_Inr [simp]: "res_bind m f = Inr b \<longleftrightarrow> (\<exists>a. m = Inr a \<and> f a = Inr b)"
  by (cases m) auto

lemma res_bind_Inl [simp]:
  "res_bind m f = Inl e \<longleftrightarrow> m = Inl e \<or> (\<exists>a. m = Inr a \<and> f a = Inl e)"
  by (cases m) auto

text \<open>
  The error values of Go: a message, or a message that wraps another error
  (\<open>fmt.Errorf("...: %w", err)\<close>).
\<close>

datatype go_error = GoErr string | Wrap string go_error

text \<open>
  Code that acts on a state, may fail with an error, and may not return at all (\<open>None\<close>, for
  the loops that wait for the outside world).
\<close>

type_synonym ('s, 'a) io = "'s \<Rightarrow> ((go_error + 'a) \<times> 's) option"

definition io_ret :: "'a \<Rightarrow> ('s, 'a) io" where
  "io_ret a s = Some (Inr a, s)"

definition io_fail :: "go_error \<Rightarrow> ('s, 'a) io" where
  "io_fail e s = Some (Inl e, s)"

definition io_bind :: "('s, 'a) io \<Rightarrow> ('a \<Rightarrow> ('s, 'b) io) \<Rightarrow> ('s, 'b) io" where
  "io_bind m f s =
     (case m s of
        None \<Rightarrow> None
      | Some (Inl e, s') \<Rightarrow> Some (Inl e, s')
      | Some (Inr a, s') \<Rightarrow> f a s')"

text \<open>\<open>io_try\<close> hands an error to the caller as a value; \<open>io_wrap\<close> adds a message to it.\<close>

definition io_try :: "('s, 'a) io \<Rightarrow> ('s, go_error + 'a) io" where
  "io_try m s = map_option (\<lambda>(r, s'). (Inr r, s')) (m s)"

definition io_wrap :: "string \<Rightarrow> ('s, 'a) io \<Rightarrow> ('s, 'a) io" where
  "io_wrap msg m s =
     map_option (\<lambda>(r, s'). (case r of Inl e \<Rightarrow> Inl (Wrap msg e) | Inr a \<Rightarrow> Inr a, s')) (m s)"

definition io_get :: "('s \<Rightarrow> 'a) \<Rightarrow> ('s, 'a) io" where
  "io_get f s = Some (Inr (f s), s)"

definition io_put :: "('s \<Rightarrow> 's) \<Rightarrow> ('s, unit) io" where
  "io_put f s = Some (Inr (), f s)"

text \<open>A call of an external service: it answers, with a value or an error, in a new state.\<close>

definition io_call :: "('s \<Rightarrow> (go_error + 'a) \<times> 's) \<Rightarrow> ('s, 'a) io" where
  "io_call f s = Some (f s)"

definition io_panic :: "('s, 'a) io" where
  "io_panic s = None"

lemmas io_defs = io_ret_def io_fail_def io_bind_def io_try_def io_wrap_def io_get_def io_put_def io_call_def

lemma io_bind_Some:
  "io_bind m f s = Some (r, s'') \<longleftrightarrow>
     (\<exists>e. m s = Some (Inl e, s'') \<and> r = Inl e) \<or> (\<exists>a s'. m s = Some (Inr a, s') \<and> f a s' = Some (r, s''))"
  by (auto simp: io_bind_def split: option.splits sum.splits)

lemma io_bindE:
  assumes "io_bind m f s = Some (r, s'')"
  obtains (fail) e where "m s = Some (Inl e, s'')" and "r = Inl e"
    | (step) a s' where "m s = Some (Inr a, s')" and "f a s' = Some (r, s'')"
  using assms by (auto simp: io_bind_Some)

lemma io_try_Some: "io_try m s = Some (r, s') \<longleftrightarrow> (\<exists>x. r = Inr x \<and> m s = Some (x, s'))"
  by (auto simp: io_try_def)

lemma io_wrap_Inr: "io_wrap msg m s = Some (Inr x, s') \<longleftrightarrow> m s = Some (Inr x, s')"
  by (cases "m s") (auto simp: io_wrap_def split: sum.splits)

lemma io_wrap_Inl: "io_wrap msg m s = Some (Inl e, s') \<longleftrightarrow> (\<exists>e'. e = Wrap msg e' \<and> m s = Some (Inl e', s'))"
  by (cases "m s") (auto simp: io_wrap_def split: sum.splits)

text \<open>
  A part of the state that a computation leaves alone: it holds of the pieces, hence of
  what they are put together to.
\<close>

definition io_keeps :: "('s \<Rightarrow> 'p) \<Rightarrow> ('s, 'a) io \<Rightarrow> bool" where
  "io_keeps p m \<longleftrightarrow> (\<forall>s r s'. m s = Some (r, s') \<longrightarrow> p s' = p s)"

named_theorems io_keeps_intros \<open>computations that leave a part of the state alone\<close>

lemma io_keeps_ret [io_keeps_intros]: "io_keeps p (io_ret a)"
  by (simp add: io_keeps_def io_ret_def)

lemma io_keeps_fail [io_keeps_intros]: "io_keeps p (io_fail e)"
  by (simp add: io_keeps_def io_fail_def)

lemma io_keeps_get [io_keeps_intros]: "io_keeps p (io_get f)"
  by (simp add: io_keeps_def io_get_def)

lemma io_keeps_bind [io_keeps_intros]:
  "io_keeps p m \<Longrightarrow> (\<And>a. io_keeps p (f a)) \<Longrightarrow> io_keeps p (io_bind m f)"
  unfolding io_keeps_def io_bind_Some by metis

lemma io_keeps_try [io_keeps_intros]: "io_keeps p m \<Longrightarrow> io_keeps p (io_try m)"
  by (auto simp: io_keeps_def io_try_def)

lemma io_keeps_wrap [io_keeps_intros]: "io_keeps p m \<Longrightarrow> io_keeps p (io_wrap msg m)"
  by (auto simp: io_keeps_def io_wrap_def)

lemma io_keeps_if [io_keeps_intros]:
  "io_keeps p m \<Longrightarrow> io_keeps p n \<Longrightarrow> io_keeps p (if b then m else n)"
  by simp

lemma io_keeps_sum [io_keeps_intros]:
  "(\<And>e. io_keeps p (f e)) \<Longrightarrow> (\<And>a. io_keeps p (g a)) \<Longrightarrow>
     io_keeps p (case r of Inl e \<Rightarrow> f e | Inr a \<Rightarrow> g a)"
  by (cases r) auto

lemma io_keepsD: "io_keeps p m \<Longrightarrow> m s = Some (r, s') \<Longrightarrow> p s' = p s"
  by (simp add: io_keeps_def)

text \<open>
  What every step does to the state, as a preorder on states: it holds of a computation when it holds
  of its pieces.
\<close>

definition io_rel :: "('s \<Rightarrow> 's \<Rightarrow> bool) \<Rightarrow> ('s, 'a) io \<Rightarrow> bool" where
  "io_rel R m \<longleftrightarrow> (\<forall>s r s'. m s = Some (r, s') \<longrightarrow> R s s')"

lemma io_relD: "io_rel R m \<Longrightarrow> m s = Some (r, s') \<Longrightarrow> R s s'"
  by (simp add: io_rel_def)

lemma io_rel_put: "(\<And>s. R s (f s)) \<Longrightarrow> io_rel R (io_put f)"
  by (simp add: io_rel_def io_put_def)

lemma io_rel_try: "io_rel R m \<Longrightarrow> io_rel R (io_try m)"
  by (auto simp: io_rel_def io_try_def)

lemma io_rel_wrap: "io_rel R m \<Longrightarrow> io_rel R (io_wrap msg m)"
  by (auto simp: io_rel_def io_wrap_def)

lemma io_rel_option:
  "io_rel R m \<Longrightarrow> (\<And>x. io_rel R (f x)) \<Longrightarrow> io_rel R (case v of None \<Rightarrow> m | Some x \<Rightarrow> f x)"
  by (cases v) auto

lemma io_rel_sum:
  "(\<And>x. io_rel R (g x)) \<Longrightarrow> (\<And>x. io_rel R (f x)) \<Longrightarrow> io_rel R (case v of Inl x \<Rightarrow> g x | Inr x \<Rightarrow> f x)"
  by (cases v) auto

lemma io_rel_if: "io_rel R m \<Longrightarrow> io_rel R n \<Longrightarrow> io_rel R (if b then m else n)"
  by simp

locale state_order =
  fixes R :: "'s \<Rightarrow> 's \<Rightarrow> bool"
  assumes R_refl: "R s s"
    and R_trans: "R s t \<Longrightarrow> R t u \<Longrightarrow> R s u"
begin

lemma rel_ret: "io_rel R (io_ret a)"
  by (simp add: io_rel_def io_ret_def R_refl)

lemma rel_fail: "io_rel R (io_fail e)"
  by (simp add: io_rel_def io_fail_def R_refl)

lemma rel_get: "io_rel R (io_get f)"
  by (simp add: io_rel_def io_get_def R_refl)

lemma rel_bind: "io_rel R m \<Longrightarrow> (\<And>a. io_rel R (f a)) \<Longrightarrow> io_rel R (io_bind m f)"
  unfolding io_rel_def io_bind_Some by (metis R_trans)

lemma rel_here: "(\<And>s. io_rel R (f s)) \<Longrightarrow> io_rel R (\<lambda>s. f s s)"
  by (simp add: io_rel_def)

lemmas rel_intros = rel_ret rel_fail rel_get rel_bind io_rel_put io_rel_try io_rel_wrap
  io_rel_option io_rel_sum io_rel_if

end

text \<open>Computations that never end in an error, and triples about results and states.\<close>

definition io_ok :: "('s, 'a) io \<Rightarrow> bool" where
  "io_ok m \<longleftrightarrow> (\<forall>s r s'. m s = Some (r, s') \<longrightarrow> (\<exists>a. r = Inr a))"

lemma io_okD: "io_ok m \<Longrightarrow> m s = Some (r, s') \<Longrightarrow> \<exists>a. r = Inr a"
  unfolding io_ok_def by blast

named_theorems io_ok_intros \<open>computations that never end in an error\<close>

lemma io_ok_basic [io_ok_intros]: "io_ok (io_ret a)" "io_ok (io_get f)" "io_ok (io_put g)" "io_ok (io_try m)" "io_ok io_panic"
  by (auto simp: io_ok_def io_ret_def io_get_def io_put_def io_try_def io_panic_def)

lemma io_ok_bind [io_ok_intros]: "io_ok m \<Longrightarrow> (\<And>a. io_ok (f a)) \<Longrightarrow> io_ok (io_bind m f)"
  unfolding io_ok_def io_bind_Some by blast

lemma io_ok_cases [io_ok_intros]:
  "io_ok m \<Longrightarrow> io_ok n \<Longrightarrow> io_ok (if b then m else n)"
  "io_ok m \<Longrightarrow> (\<And>a. io_ok (f a)) \<Longrightarrow> io_ok (case v of None \<Rightarrow> m | Some a \<Rightarrow> f a)"
  "(\<And>e. io_ok (g e)) \<Longrightarrow> (\<And>a. io_ok (f a)) \<Longrightarrow> io_ok (case r of Inl e \<Rightarrow> g e | Inr a \<Rightarrow> f a)"
  "(\<And>a b. io_ok (h a b)) \<Longrightarrow> io_ok (case p of (a, b) \<Rightarrow> h a b)"
  by (auto split: option.split sum.split prod.split)

definition io_triple :: "('s \<Rightarrow> bool) \<Rightarrow> ('s, 'a) io \<Rightarrow> (go_error + 'a \<Rightarrow> 's \<Rightarrow> bool) \<Rightarrow> bool" where
  "io_triple P m Q \<longleftrightarrow> (\<forall>s r s'. P s \<longrightarrow> m s = Some (r, s') \<longrightarrow> Q r s')"

lemma io_tripleD: "io_triple P m Q \<Longrightarrow> P s \<Longrightarrow> m s = Some (r, s') \<Longrightarrow> Q r s'"
  by (simp add: io_triple_def)

lemma io_triple_bind:
  "io_triple P m (\<lambda>r s. case r of Inl e \<Rightarrow> Q (Inl e) s | Inr a \<Rightarrow> R a s) \<Longrightarrow> (\<And>a. io_triple (R a) (f a) Q) \<Longrightarrow>
     io_triple P (io_bind m f) Q"
  unfolding io_triple_def io_bind_Some by (metis sum.case)

lemma io_triple_mono: "io_triple P m Q \<Longrightarrow> (\<And>r s. Q r s \<Longrightarrow> Q' r s) \<Longrightarrow> io_triple P m Q'"
  unfolding io_triple_def by blast

lemma io_triple_try: "io_triple P m (\<lambda>r. Q (Inr r)) \<Longrightarrow> io_triple P (io_try m) Q"
  by (auto simp: io_triple_def io_try_Some)

lemma io_triple_if:
  "(b \<Longrightarrow> io_triple P m Q) \<Longrightarrow> (\<not> b \<Longrightarrow> io_triple P n Q) \<Longrightarrow> io_triple P (if b then m else n) Q"
  by simp

lemma io_triple_sum:
  "(\<And>e. r = Inl e \<Longrightarrow> io_triple P (g e) Q) \<Longrightarrow> (\<And>a. r = Inr a \<Longrightarrow> io_triple P (f a) Q) \<Longrightarrow>
     io_triple P (case r of Inl e \<Rightarrow> g e | Inr a \<Rightarrow> f a) Q"
  by (cases r) auto

text \<open>Computations that return, with a value or an error.\<close>

definition answers :: "('s, 'a) io \<Rightarrow> bool" where
  "answers m \<longleftrightarrow> (\<forall>s. m s \<noteq> None)"

named_theorems answers_intros \<open>computations that return, with a value or an error\<close>

lemma answers_basic [answers_intros]: "answers (io_ret a)" "answers (io_fail e)" "answers (io_call f)" "answers (io_get g)"
  by (simp_all add: answers_def io_defs)

lemma answers_bind [answers_intros]: "answers m \<Longrightarrow> (\<And>a. answers (f a)) \<Longrightarrow> answers (io_bind m f)"
  by (fastforce simp: answers_def io_bind_def split: option.split sum.split)

lemma answers_try [answers_intros]: "answers m \<Longrightarrow> answers (io_try m)" "answers m \<Longrightarrow> answers (io_wrap msg m)"
  by (simp_all add: answers_def io_try_def io_wrap_def)

lemma answers_cases [answers_intros]:
  "answers m \<Longrightarrow> answers n \<Longrightarrow> answers (if b then m else n)"
  "(\<And>e. answers (f e)) \<Longrightarrow> (\<And>a. answers (g a)) \<Longrightarrow> answers (case r of Inl e \<Rightarrow> f e | Inr a \<Rightarrow> g a)"
  "(\<And>a b. answers (h a b)) \<Longrightarrow> answers (case p of (a, b) \<Rightarrow> h a b)"
  "answers m \<Longrightarrow> (\<And>a. answers (g a)) \<Longrightarrow> answers (case x of None \<Rightarrow> m | Some a \<Rightarrow> g a)"
  by (auto split: sum.split prod.split option.split)

text \<open>What \<open>Error()\<close> returns.\<close>

fun error_text :: "go_error \<Rightarrow> string" where
  "error_text (GoErr s) = s"
| "error_text (Wrap s e) = s @ '': '' @ error_text e"

section \<open>Signed 64-bit integers\<close>

text \<open>
  Go's \<open>int\<close> and \<open>int64\<close> wrap around in two's complement. The models keep such
  values as \<open>int\<close> and pass every sum through \<open>i64\<close>.
\<close>

definition i64 :: "int \<Rightarrow> int" where
  "i64 x = signed_take_bit 63 x"

definition in_i64 :: "int \<Rightarrow> bool" where
  "in_i64 x \<longleftrightarrow> - (2 ^ 63) \<le> x \<and> x < 2 ^ 63"

lemma i64_id [simp]: "in_i64 x \<Longrightarrow> i64 x = x"
  unfolding i64_def in_i64_def by (simp add: signed_take_bit_int_eq_self)

lemma in_i64_i64 [simp]: "in_i64 (i64 x)"
  unfolding i64_def in_i64_def
  using signed_take_bit_int_greater_eq_minus_exp [of 63 x] signed_take_bit_int_less_exp [of 63 x]
  by simp

lemma i64_0 [simp]: "i64 0 = 0"
  by (simp add: i64_def)

lemma i64_add_left [simp]: "i64 (i64 x + y) = i64 (x + y)"
  using signed_take_bit_add [of 63 "signed_take_bit 63 x" y] signed_take_bit_add [of 63 x y]
  by (simp add: i64_def)

lemma i64_add_right [simp]: "i64 (x + i64 y) = i64 (x + y)"
  using i64_add_left [of y x] by (simp add: add.commute)

lemma i64_eq_iff: "i64 x = i64 y \<longleftrightarrow> (2 ^ 64) dvd (x - y)"
  unfolding i64_def
  by (simp add: signed_take_bit_eq_iff_take_bit_eq take_bit_eq_mod mod_eq_dvd_iff)

section \<open>Decimal numbers\<close>

text \<open>\<open>strconv.FormatInt(n, 10)\<close> and \<open>fmt\<close>'s \<open>%d\<close>.\<close>

fun show_nat :: "nat \<Rightarrow> string" where
  "show_nat n = (if n < 10 then [char_of (48 + n)] else show_nat (n div 10) @ [char_of (48 + n mod 10)])"

declare show_nat.simps [simp del]

definition show_int :: "int \<Rightarrow> string" where
  "show_int n = (if n < 0 then CHR ''-'' # show_nat (nat (- n)) else show_nat (nat n))"

text \<open>\<open>strconv.ParseInt(s, 10, 64)\<close>: an optional sign, at least one digit, a value that fits.\<close>

definition is_digit :: "char \<Rightarrow> bool" where
  "is_digit c \<longleftrightarrow> 48 \<le> (of_char c :: nat) \<and> (of_char c :: nat) \<le> 57"

definition digits_val :: "string \<Rightarrow> nat" where
  "digits_val s = foldl (\<lambda>v c. 10 * v + (of_char c - 48)) 0 s"

definition parse_nat :: "string \<Rightarrow> nat option" where
  "parse_nat s = (if s \<noteq> [] \<and> list_all is_digit s then Some (digits_val s) else None)"

definition parse_int64 :: "string \<Rightarrow> int option" where
  "parse_int64 s =
     (let r = (case s of
          c # t \<Rightarrow> if c = CHR ''-'' then map_option (\<lambda>n. - int n) (parse_nat t)
                   else if c = CHR ''+'' then map_option int (parse_nat t)
                   else map_option int (parse_nat s)
        | [] \<Rightarrow> None)
      in case r of None \<Rightarrow> None | Some n \<Rightarrow> if in_i64 n then Some n else None)"

lemma of_char_digit: "d < 10 \<Longrightarrow> of_char (char_of (48 + d :: nat)) = 48 + d"
  by (simp add: of_char_of)

lemma is_digit_char: "d < 10 \<Longrightarrow> is_digit (char_of (48 + d :: nat))"
  by (simp add: is_digit_def of_char_digit)

lemma digits_val_snoc: "digits_val (s @ [c]) = 10 * digits_val s + (of_char c - 48)"
  by (simp add: digits_val_def)

lemma show_nat_digits: "show_nat n \<noteq> [] \<and> list_all is_digit (show_nat n) \<and> digits_val (show_nat n) = n"
proof (induction n rule: show_nat.induct)
  case (1 n)
  show ?case
  proof (cases "n < 10")
    case True
    then show ?thesis
      by (subst show_nat.simps, subst (2) show_nat.simps, subst (3) show_nat.simps)
        (simp add: is_digit_char digits_val_def of_char_digit)
  next
    case False
    with 1 show ?thesis
      by (subst (1 2 3) show_nat.simps) (simp add: is_digit_char digits_val_snoc of_char_digit)
  qed
qed

lemma parse_show_nat [simp]: "parse_nat (show_nat n) = Some n"
  by (simp add: parse_nat_def show_nat_digits)

lemma digit_not_sign: "is_digit c \<Longrightarrow> c \<noteq> CHR ''-'' \<and> c \<noteq> CHR ''+''"
  by (auto simp: is_digit_def)

lemma parse_show_int [simp]: "in_i64 n \<Longrightarrow> parse_int64 (show_int n) = Some n"
proof (cases "n < 0")
  case True
  then show "in_i64 n \<Longrightarrow> ?thesis" by (simp add: parse_int64_def show_int_def)
next
  case False
  obtain c t where "show_nat (nat n) = c # t" "is_digit c"
    using show_nat_digits [of "nat n"] by (cases "show_nat (nat n)") auto
  with False show "in_i64 n \<Longrightarrow> ?thesis"
    using parse_show_nat [of "nat n"] digit_not_sign [of c]
    by (simp add: parse_int64_def show_int_def)
qed

lemma show_int_inj: "in_i64 m \<Longrightarrow> in_i64 n \<Longrightarrow> show_int m = show_int n \<Longrightarrow> m = n"
  using parse_show_int by (metis option.inject)

text \<open>Hexadecimal digits and numbers.\<close>

definition hex_digit :: "char \<Rightarrow> nat option" where
  "hex_digit c = (let n = of_char c in
     if 48 \<le> n \<and> n \<le> 57 then Some (n - 48) else if 97 \<le> n \<and> n \<le> 102 then Some (n - 87)
     else if 65 \<le> n \<and> n \<le> 70 then Some (n - 55) else None)"

definition parse_hex :: "string \<Rightarrow> nat option" where
  "parse_hex s = (if s = [] then None else foldl (\<lambda>r c. case (r, hex_digit c) of (Some v, Some d) \<Rightarrow> Some (16 * v + d) | _ \<Rightarrow> None) (Some 0) s)"

fun show_hex :: "nat \<Rightarrow> string" where
  "show_hex n =
     (let d = n mod 16; c = char_of (if d < 10 then 48 + d else 87 + d) in
      if n < 16 then [c] else show_hex (n div 16) @ [c])"

declare show_hex.simps [simp del]

section \<open>Texts\<close>

text \<open>
  \<open>strings.ToLower\<close> and \<open>strings.EqualFold\<close> on ASCII letters, \<open>strings.TrimSpace\<close>, \<open>strings.Trim\<close>, \<open>strings.Split\<close> at a character, and
  \<open>strings.Contains\<close>.
\<close>

definition lower :: "string \<Rightarrow> string" where
  "lower s = map (\<lambda>c. let n = (of_char c :: nat) in if 65 \<le> n \<and> n \<le> 90 then char_of (n + 32) else c) s"

definition EqualFold :: "string \<Rightarrow> string \<Rightarrow> bool" where
  "EqualFold a b \<longleftrightarrow> lower a = lower b"

definition is_white :: "char \<Rightarrow> bool" where
  "is_white c \<longleftrightarrow> (of_char c :: nat) \<in> {9, 10, 11, 12, 13, 32}"

definition TrimSpace :: "string \<Rightarrow> string" where
  "TrimSpace s = rev (dropWhile is_white (rev (dropWhile is_white s)))"

definition Trim :: "string \<Rightarrow> string \<Rightarrow> string" where
  "Trim s cutset = rev (dropWhile (\<lambda>c. c \<in> set cutset) (rev (dropWhile (\<lambda>c. c \<in> set cutset) s)))"

fun split_at_char :: "char \<Rightarrow> string \<Rightarrow> string list" where
  "split_at_char c [] = [[]]"
| "split_at_char c (x # xs) =
     (if x = c then [] # split_at_char c xs
      else (case split_at_char c xs of l # ls \<Rightarrow> (x # l) # ls | [] \<Rightarrow> [[x]]))"

fun contains :: "string \<Rightarrow> string \<Rightarrow> bool" where
  "contains sub [] = (sub = [])"
| "contains sub (c # s) = (prefix sub (c # s) \<or> contains sub s)"

lemma contains_sublist: "contains sub s \<longleftrightarrow> sublist sub s"
  by (induction s) (auto simp: sublist_Cons_right)

lemma contains_append: "contains sub s \<Longrightarrow> contains sub (a @ s @ b)"
  by (metis contains_sublist sublist_appendI sublist_order.order.trans)

section \<open>Buffered channels\<close>

text \<open>
  A buffered channel is the queue of its elements and its capacity. The code reaches its
  channels through \<open>select\<close> with a \<open>default\<close> branch, so a send or a receive either
  happens at once or is seen not to be possible.
\<close>

record 'a chan =
  buf :: "'a list"
  cap :: nat

definition make_chan :: "nat \<Rightarrow> 'a chan" where
  "make_chan n = \<lparr>buf = [], cap = n\<rparr>"

definition chan_try_send :: "'a \<Rightarrow> 'a chan \<Rightarrow> 'a chan option" where
  "chan_try_send x c =
     (if length (buf c) < cap c then Some (c\<lparr>buf := buf c @ [x]\<rparr>) else None)"

definition chan_try_recv :: "'a chan \<Rightarrow> ('a \<times> 'a chan) option" where
  "chan_try_recv c = (case buf c of [] \<Rightarrow> None | x # xs \<Rightarrow> Some (x, c\<lparr>buf := xs\<rparr>))"

definition chan_ok :: "'a chan \<Rightarrow> bool" where
  "chan_ok c \<longleftrightarrow> length (buf c) \<le> cap c"

text \<open>A send that gives up when the queue is full, over any queue.\<close>

definition send_or_drop :: "('a \<Rightarrow> 'q \<Rightarrow> 'q option) \<Rightarrow> 'a \<Rightarrow> 'q \<Rightarrow> 'q" where
  "send_or_drop send x q = (case send x q of Some q' \<Rightarrow> q' | None \<Rightarrow> q)"

text \<open>The contract of a bounded queue, and what follows from it for any client.\<close>

locale bounded_queue =
  fixes send :: "'a \<Rightarrow> 'q \<Rightarrow> 'q option"
    and recv :: "'q \<Rightarrow> ('a \<times> 'q) option"
    and contents :: "'q \<Rightarrow> 'a list"
    and bound :: "'q \<Rightarrow> nat"
    and ok :: "'q \<Rightarrow> bool"
  assumes send_full: "ok q \<Longrightarrow> send x q = None \<longleftrightarrow> length (contents q) = bound q"
    and send_some: "ok q \<Longrightarrow> send x q = Some q' \<Longrightarrow>
      contents q' = contents q @ [x] \<and> bound q' = bound q \<and> ok q'"
    and recv_empty: "ok q \<Longrightarrow> recv q = None \<longleftrightarrow> contents q = []"
    and recv_some: "ok q \<Longrightarrow> recv q = Some (x, q') \<Longrightarrow>
      contents q = x # contents q' \<and> bound q' = bound q \<and> ok q'"
    and ok_bound: "ok q \<Longrightarrow> length (contents q) \<le> bound q"
begin

lemma send_or_drop_ok: "ok q \<Longrightarrow> ok (send_or_drop send x q)"
  by (auto simp: send_or_drop_def dest: send_some split: option.split)

lemma send_or_drop_bound: "ok q \<Longrightarrow> bound (send_or_drop send x q) = bound q"
  by (auto simp: send_or_drop_def dest: send_some split: option.split)

lemma send_or_drop_contents:
  "ok q \<Longrightarrow> contents (send_or_drop send x q) =
     (if length (contents q) < bound q then contents q @ [x] else contents q)"
  using send_full [of q x] ok_bound [of q]
  by (auto simp: send_or_drop_def dest: send_some split: option.split)

lemma send_all_prefix:
  "ok q \<Longrightarrow> contents (fold (send_or_drop send) xs q) = contents q @ take (bound q - length (contents q)) xs"
proof (induction xs arbitrary: q)
  case Nil
  then show ?case by simp
next
  case (Cons x xs)
  then show ?case
    by (auto simp: send_or_drop_ok send_or_drop_bound send_or_drop_contents take_Cons'
        Suc_diff_Suc dest: ok_bound)
qed

lemma recv_after_send:
  assumes "ok q" and "contents q = []" and "send x q = Some q'"
  shows "\<exists>q''. recv q' = Some (x, q'') \<and> contents q'' = []"
proof -
  have q': "ok q'" "contents q' = [x]"
    using send_some [OF assms(1,3)] assms(2) by auto
  then obtain y q'' where "recv q' = Some (y, q'')"
    using recv_empty [of q'] by (cases "recv q'") auto
  then show ?thesis
    using recv_some [OF q'(1)] q'(2) by force
qed

end

interpretation go_chan: bounded_queue chan_try_send chan_try_recv buf cap chan_ok
  by unfold_locales
     (auto simp: chan_try_send_def chan_try_recv_def chan_ok_def split: if_splits list.splits)

lemma chan_ok_make [simp]: "chan_ok (make_chan n)"
  by (simp add: chan_ok_def make_chan_def)

section \<open>Ranging over a map\<close>

text \<open>
  \<open>for k, v := range m\<close> visits every key once, in an order the language leaves open. A
  model takes that order as an argument; \<open>range_order m ks\<close> says \<open>ks\<close> is one.
\<close>

definition range_order :: "('k \<rightharpoonup> 'v) \<Rightarrow> 'k list \<Rightarrow> bool" where
  "range_order m ks \<longleftrightarrow> distinct ks \<and> set ks = dom m"

lemma range_order_empty [simp]: "range_order Map.empty ks \<longleftrightarrow> ks = []"
  by (auto simp: range_order_def)

lemma range_order_length: "range_order m ks \<Longrightarrow> length ks = card (dom m)"
  by (metis distinct_card range_order_def)

lemma range_order_finite: "range_order m ks \<Longrightarrow> finite (dom m)"
  by (metis List.finite_set range_order_def)

lemma range_order_delete:
  "range_order m ks \<Longrightarrow> range_order (m(k := None)) (removeAll k ks)"
  by (auto simp: range_order_def distinct_removeAll)

lemma subseq_set: "subseq xs ys \<Longrightarrow> set xs \<subseteq> set ys"
  by (induction rule: list_emb.induct) auto

lemma subseq_distinct: "subseq xs ys \<Longrightarrow> distinct ys \<Longrightarrow> distinct xs"
  by (induction rule: list_emb.induct) (auto dest: subseq_set)

section \<open>Systems of steps\<close>

text \<open>
  A component that serves events one after another is a step function. An operation that
  keeps an invariant keeps it over every sequence of events.
\<close>

locale step_system =
  fixes step :: "'s \<Rightarrow> 'e \<Rightarrow> 's"
    and inv :: "'s \<Rightarrow> bool"
  assumes step_inv: "inv s \<Longrightarrow> inv (step s e)"
begin

lemma run_inv: "inv s \<Longrightarrow> inv (foldl step s es)"
  by (induction es arbitrary: s) (auto intro: step_inv)

end

end
