(* ===== verification/Queries.thy ===== *)
theory Queries
  imports Prelude
begin

text \<open>
  What a query promises about the tables behind it. A query is a function on a world of any type; \<open>view\<close> says what the tables hold in a world.
  A read changes nothing and finds what is there, or nothing, or fails; a write has its effect on success and may have it on failure: an insert or an
  update of the database creates the row if there is none. The rules put these promises together to triples about computations.
\<close>

section \<open>Replies of Redis\<close>

datatype redis_value = RInt int | RText string | RList "redis_value list" | RNil

section \<open>Promises\<close>

definition upsert :: "'r \<Rightarrow> 'k \<Rightarrow> ('r \<Rightarrow> 'r) \<Rightarrow> ('k \<rightharpoonup> 'r) \<Rightarrow> 'k \<rightharpoonup> 'r" where
  "upsert blank k f m = m(k \<mapsto> f (case m k of None \<Rightarrow> blank | Some r \<Rightarrow> r))"

definition reads :: "('w \<Rightarrow> 't) \<Rightarrow> ('w \<Rightarrow> 'a option \<times> 'w) \<Rightarrow> ('t \<Rightarrow> 'a \<Rightarrow> bool) \<Rightarrow> bool" where
  "reads view q found \<longleftrightarrow> (\<forall>w r w'. q w = (r, w') \<longrightarrow> view w' = view w \<and> (\<forall>a. r = Some a \<longrightarrow> found (view w) a))"

definition writes :: "('w \<Rightarrow> 't) \<Rightarrow> ('w \<Rightarrow> (go_error + unit) \<times> 'w) \<Rightarrow> ('t \<Rightarrow> 't) \<Rightarrow> bool" where
  "writes view e u \<longleftrightarrow>
     (\<forall>w r w'. e w = (r, w') \<longrightarrow> (r = Inr () \<longrightarrow> view w' = u (view w)) \<and> (view w' = view w \<or> view w' = u (view w)))"

definition keeps :: "('w \<Rightarrow> 't) \<Rightarrow> ('w \<Rightarrow> 'r \<times> 'w) \<Rightarrow> bool" where
  "keeps view q \<longleftrightarrow> (\<forall>w. view (snd (q w)) = view w)"

definition finds :: "('w \<Rightarrow> 't) \<Rightarrow> ('w \<Rightarrow> (go_error + 'a) \<times> 'w) \<Rightarrow> ('t \<Rightarrow> 'a \<Rightarrow> bool) \<Rightarrow> bool" where
  "finds view q found \<longleftrightarrow> (\<forall>w r w'. q w = (r, w') \<longrightarrow> view w' = view w \<and> (\<forall>a. r = Inr a \<longrightarrow> found (view w) a))"

section \<open>Rules\<close>

lemma write_triple: "writes view e u \<Longrightarrow> io_triple (\<lambda>w. view w = T) (io_call e) (\<lambda>r w. r = Inr () \<longrightarrow> view w = u T)"
  unfolding io_triple_def io_call_def writes_def by fastforce

lemma then_triple:
  assumes "io_triple P m (\<lambda>r w. \<forall>a. r = Inr a \<longrightarrow> R a w)" and "\<And>a. io_triple (R a) (f a) (\<lambda>r w. r = Inr b \<longrightarrow> Q w)"
  shows "io_triple P (io_bind m f) (\<lambda>r w. r = Inr b \<longrightarrow> Q w)"
  by (rule io_triple_bind [OF io_triple_mono [OF assms(1)] assms(2)]) (auto split: sum.split)

lemma write_unless: "writes view e u \<Longrightarrow> u T = T' \<Longrightarrow> io_triple (\<lambda>w. view w = T) (io_call e) (\<lambda>r w. r = Inr () \<longrightarrow> view w = T')"
  using write_triple [of view e u T] by simp

lemma seq_triple:
  assumes "io_triple P m (\<lambda>r w. r = Inr () \<longrightarrow> R w)" and "io_triple R n (\<lambda>r w. r = Inr b \<longrightarrow> Q w)"
  shows "io_triple P (io_bind m (\<lambda>_. n)) (\<lambda>r w. r = Inr b \<longrightarrow> Q w)"
  by (rule then_triple [where R = "\<lambda>_. R", OF io_triple_mono [OF assms(1)] assms(2)]) simp

lemma clock_triple:
  "(\<And>t. io_triple P (f t) Q) \<Longrightarrow> io_triple P (io_bind (io_get g) f) Q"
  by (auto simp: io_triple_def io_bind_def io_get_def)

lemma keeps_call [io_keeps_intros]: "keeps view q \<Longrightarrow> io_keeps view (io_call q)"
  by (auto simp: io_keeps_def keeps_def io_call_def) (metis snd_conv)

lemma find_triple: "finds view q found \<Longrightarrow> io_triple (\<lambda>w. view w = T) (io_call q) (\<lambda>r w. \<forall>a. r = Inr a \<longrightarrow> view w = T \<and> found T a)"
  unfolding io_triple_def io_call_def finds_def by fastforce

end
