(* ===== verification/Handlers.thy ===== *)
theory Handlers
  imports Queries
begin

text \<open>
  The http handlers of the dbserver as computations: a step gives a value, or the answer that ends the request. The rules of \<open>yields\<close> describe the
  world after the steps that have not ended it.
\<close>

section \<open>Steps\<close>

text \<open>A call that fails ends the request with an answer of its own; \<open>continue\<close> goes on after a step that has not ended it.\<close>

definition or_answer :: "(go_error \<Rightarrow> 'r) \<Rightarrow> ('w, 'a) io \<Rightarrow> ('w, 'r + 'a) io" where
  "or_answer f m = io_bind (io_try m) (\<lambda>r. io_ret (case r of Inl e \<Rightarrow> Inl (f e) | Inr a \<Rightarrow> Inr a))"

definition continue :: "('w, 'r + 'a) io \<Rightarrow> ('a \<Rightarrow> ('w, 'r + 'b) io) \<Rightarrow> ('w, 'r + 'b) io" where
  "continue m f = io_bind m (\<lambda>r. case r of Inl a \<Rightarrow> io_ret (Inl a) | Inr x \<Rightarrow> f x)"

definition stop_with :: "int \<Rightarrow> 'b \<Rightarrow> ('w, int \<times> 'b + 'a) io" where
  "stop_with status body = io_ret (Inl (status, body))"

definition go_on :: "'a \<Rightarrow> ('w, 'r + 'a) io" where
  "go_on a = io_ret (Inr a)"

definition answer_of :: "('w, 'r + 'r) io \<Rightarrow> ('w, 'r) io" where
  "answer_of m = io_bind m (\<lambda>r. io_ret (case r of Inl a \<Rightarrow> a | Inr a \<Rightarrow> a))"

text \<open>An error that is only logged.\<close>

definition logged :: "('w, 'a) io \<Rightarrow> ('w, 'r + unit) io" where
  "logged m = io_bind (io_try m) (\<lambda>_. go_on ())"

section \<open>Rules for steps that may answer\<close>

definition yields :: "('w \<Rightarrow> bool) \<Rightarrow> ('w, 'r + 'a) io \<Rightarrow> ('a \<Rightarrow> 'w \<Rightarrow> bool) \<Rightarrow> bool" where
  "yields P m Q \<longleftrightarrow> io_triple P m (\<lambda>r w. \<forall>a. r = Inr (Inr a) \<longrightarrow> Q a w)"

lemma yields_continue: "yields P m R \<Longrightarrow> (\<And>x. yields (R x) (f x) Q) \<Longrightarrow> yields P (continue m f) Q"
  unfolding yields_def io_triple_def continue_def io_bind_Some by (fastforce split: sum.splits simp: io_ret_def)

lemma yields_or_answer: "io_triple P m (\<lambda>r w. \<forall>a. r = Inr a \<longrightarrow> Q a w) \<Longrightarrow> yields P (or_answer g m) Q"
  unfolding yields_def io_triple_def or_answer_def io_bind_Some io_try_Some io_ret_def by (auto split: sum.splits) (metis sum.exhaust)

lemma yields_write: "writes view e u \<Longrightarrow> yields (\<lambda>w. view w = T) (or_answer g (io_call e)) (\<lambda>_ w. view w = u T)"
  by (rule yields_or_answer, rule io_triple_mono [OF write_triple]) auto

lemma yields_stop: "yields P (stop_with s b) Q"
  by (simp add: yields_def io_triple_def stop_with_def io_ret_def)

lemma yields_go_on: "(\<And>w. P w \<Longrightarrow> Q a w) \<Longrightarrow> yields P (go_on a) Q"
  by (simp add: yields_def io_triple_def go_on_def io_ret_def)

lemma yields_clock: "(\<And>now. yields P (f now) Q) \<Longrightarrow> yields P (io_bind (io_get g) f) Q"
  unfolding yields_def by (rule clock_triple)

lemma yields_keeps: "io_keeps view m \<Longrightarrow> yields (\<lambda>w. view w = T) m (\<lambda>_ w. view w = T)"
  by (auto simp: yields_def io_triple_def dest: io_keepsD)

lemma yields_mono: "yields P m Q \<Longrightarrow> (\<And>a w. Q a w \<Longrightarrow> Q' a w) \<Longrightarrow> yields P m Q'"
  unfolding yields_def by (erule io_triple_mono) blast

lemma yieldsD: "yields P m Q \<Longrightarrow> P w \<Longrightarrow> m w = Some (Inr (Inr a), w') \<Longrightarrow> Q a w'"
  unfolding yields_def by (drule (2) io_tripleD) blast

lemma keeps_answers [io_keeps_intros]:
  "io_keeps p m \<Longrightarrow> io_keeps p (or_answer g m)" "io_keeps p n \<Longrightarrow> (\<And>x. io_keeps p (f x)) \<Longrightarrow> io_keeps p (continue n f)"
  "io_keeps p (stop_with s b)" "io_keeps p (go_on a)" "io_keeps p k \<Longrightarrow> io_keeps p (logged k)"
  by (auto simp: or_answer_def continue_def stop_with_def go_on_def logged_def intro!: io_keeps_intros split: sum.split)

lemma keeps_option_case [io_keeps_intros]:
  "io_keeps p m \<Longrightarrow> (\<And>x. io_keeps p (f x)) \<Longrightarrow> io_keeps p (case v of None \<Rightarrow> m | Some x \<Rightarrow> f x)"
  by (simp split: option.split)

lemma continue_Some:
  "continue m f w = Some (r, w') \<longleftrightarrow>
     (\<exists>e. m w = Some (Inl e, w') \<and> r = Inl e) \<or> (\<exists>a. m w = Some (Inr (Inl a), w') \<and> r = Inr (Inl a)) \<or>
     (\<exists>x v. m w = Some (Inr (Inr x), v) \<and> f x v = Some (r, w'))"
  by (cases "m w") (auto simp: continue_def io_defs split: sum.splits)

lemma or_answer_Some:
  "or_answer g m w = Some (r, w') \<longleftrightarrow> (\<exists>e. m w = Some (Inl e, w') \<and> r = Inr (Inl (g e))) \<or> (\<exists>x. m w = Some (Inr x, w') \<and> r = Inr (Inr x))"
  by (cases "m w") (auto simp: or_answer_def io_defs split: sum.splits)

lemma answer_of_Some:
  "answer_of m w = Some (Inr a, w') \<longleftrightarrow> m w = Some (Inr (Inl a), w') \<or> m w = Some (Inr (Inr a), w')"
  by (cases "m w") (auto simp: answer_of_def io_defs split: sum.splits)

section \<open>Requests that are answered\<close>

text \<open>A computation that returns, and not with an error.\<close>

definition delivers :: "('w, 'a) io \<Rightarrow> bool" where
  "delivers m \<longleftrightarrow> answers m \<and> io_ok m"

named_theorems delivers_intros \<open>computations that return a value\<close>

lemma delivers_basic [delivers_intros]: "delivers (io_ret a)" "delivers (io_get f)"
  by (simp_all add: delivers_def answers_basic io_ok_basic)

lemma delivers_try [delivers_intros]: "answers m \<Longrightarrow> delivers (io_try m)"
  by (simp add: delivers_def answers_try io_ok_basic)

lemma delivers_bind [delivers_intros]: "delivers m \<Longrightarrow> (\<And>a. delivers (f a)) \<Longrightarrow> delivers (io_bind m f)"
  by (simp add: delivers_def answers_bind io_ok_bind)

lemma delivers_cases [delivers_intros]:
  "delivers m \<Longrightarrow> delivers n \<Longrightarrow> delivers (if b then m else n)"
  "(\<And>e. delivers (f e)) \<Longrightarrow> (\<And>a. delivers (g a)) \<Longrightarrow> delivers (case r of Inl e \<Rightarrow> f e | Inr a \<Rightarrow> g a)"
  "delivers k \<Longrightarrow> (\<And>a. delivers (h a)) \<Longrightarrow> delivers (case x of None \<Rightarrow> k | Some a \<Rightarrow> h a)"
  "(\<And>a b. delivers (l a b)) \<Longrightarrow> delivers (case p of (a, b) \<Rightarrow> l a b)"
  by (auto split: sum.split option.split prod.split)

lemma delivers_steps [delivers_intros]:
  "answers m \<Longrightarrow> delivers (or_answer g m)" "answers n \<Longrightarrow> delivers (logged n)" "delivers (stop_with s b)" "delivers (go_on a)"
  unfolding or_answer_def logged_def stop_with_def go_on_def by (intro delivers_intros; assumption?)+

lemma delivers_continue [delivers_intros]: "delivers m \<Longrightarrow> (\<And>x. delivers (f x)) \<Longrightarrow> delivers (continue m f)"
  unfolding continue_def by (intro delivers_intros)

lemma delivers_answer_of [delivers_intros]: "delivers m \<Longrightarrow> delivers (answer_of m)"
  unfolding answer_of_def by (intro delivers_intros)

lemma delivers_answers: "delivers m \<Longrightarrow> answers m"
  by (simp add: delivers_def)

lemma deliversD: "delivers m \<Longrightarrow> \<exists>a w'. m w = Some (Inr a, w')"
  unfolding delivers_def answers_def io_ok_def by (metis not_None_eq prod.exhaust)

end
