(* ===== verification/Access_Control.thy ===== *)
theory Access_Control
  imports Handlers
begin

text \<open>
  Who may use the dbserver, and how often (\<open>middleware/ratelimiter.go\<close>, \<open>middleware/apikeyauth.go\<close>, \<open>handlers/apikey.go\<close> with its repository and
  \<open>websocket/middleware.go\<close> of \<open>internal/dbserver\<close>). The script that Redis runs is a function on the counters; Redis itself and the table of the keys
  are fields of \<open>access_env\<close>. The limiter of the WebSocket connections is a map from addresses to numbers, which the steps of \<open>socket_step\<close> change.
  Headers that only inform the client, the use of the last call and metrics are left out.
\<close>

section \<open>The script of the rate limiter\<close>

text \<open>A counter has a value and, in milliseconds, the time after which it is gone.\<close>

type_synonym counters = "string \<rightharpoonup> int \<times> int option"

definition live :: "counters \<Rightarrow> int \<Rightarrow> string \<Rightarrow> (int \<times> int option) option" where
  "live m now k = (case m k of Some (n, Some d) \<Rightarrow> if d < now then None else Some (n, Some d) | r \<Rightarrow> r)"

definition INCR :: "string \<Rightarrow> int \<Rightarrow> counters \<Rightarrow> int \<times> counters" where
  "INCR k now m = (case live m now k of None \<Rightarrow> (1, m(k \<mapsto> (1, None))) | Some (n, d) \<Rightarrow> (n + 1, m(k \<mapsto> (n + 1, d))))"

definition EXPIRE :: "string \<Rightarrow> int \<Rightarrow> int \<Rightarrow> counters \<Rightarrow> counters" where
  "EXPIRE k seconds now m = (case live m now k of None \<Rightarrow> m | Some (n, _) \<Rightarrow> m(k \<mapsto> (n, Some (now + 1000 * seconds))))"

definition TTL :: "string \<Rightarrow> int \<Rightarrow> counters \<Rightarrow> int" where
  "TTL k now m = (case live m now k of None \<Rightarrow> - 2 | Some (_, None) \<Rightarrow> - 1 | Some (_, Some d) \<Rightarrow> (d - now + 500) div 1000)"

definition rateLimitScript :: "string \<Rightarrow> int \<Rightarrow> int \<Rightarrow> int \<Rightarrow> counters \<Rightarrow> redis_value \<times> counters" where
  "rateLimitScript key limit window now m =
     (let (current, m1) = INCR key now m;
          m2 = (if current = 1 then EXPIRE key window now m1 else m1);
          ttl = TTL key now m2
      in (RList (map RInt (if current > limit then [current, 0, ttl] else [current, limit - current, ttl])), m2))"

section \<open>Keys and requests\<close>

record ApiKey =
  Key :: string
  Owner :: string
  IsActive :: bool
  KeyRateLimit :: int

record 'w access_env =
  FindKey :: "string \<Rightarrow> 'w \<Rightarrow> (go_error + ApiKey) \<times> 'w"
  FindIsKeeper :: "string \<Rightarrow> 'w \<Rightarrow> (go_error + bool) \<times> 'w"
  TouchKey :: "string \<Rightarrow> 'w \<Rightarrow> (go_error + unit) \<times> 'w"
  HasLimiter :: bool
  EvalScript :: "string \<Rightarrow> int \<Rightarrow> int \<Rightarrow> 'w \<Rightarrow> (go_error + redis_value) \<times> 'w"

text \<open>
  The answer of the script must be a list of three; that its entries are numbers is not checked, and something else is a panic. The numbers that only go
  into headers are read for their type.
\<close>

fun as_int :: "redis_value \<Rightarrow> int option" where
  "as_int (RInt n) = Some n"
| "as_int _ = None"

definition script_values :: "redis_value \<Rightarrow> ('w, redis_value list) io" where
  "script_values result =
     (case result of
        RList values \<Rightarrow>
          if length values \<noteq> 3 then io_fail (GoErr ''invalid response from rate limit script'') else io_ret values
      | _ \<Rightarrow> io_fail (GoErr ''invalid response from rate limit script''))"

definition int64_of :: "redis_value \<Rightarrow> ('w, int) io" where
  "int64_of v = (case as_int v of None \<Rightarrow> io_panic | Some n \<Rightarrow> io_ret n)"

definition rate_key :: "ApiKey \<Rightarrow> string" where
  "rate_key apiKey = ''rate_limit:'' @ Key apiKey"

definition CheckRateLimitForKey :: "'w access_env \<Rightarrow> ApiKey \<Rightarrow> ('w, unit) io" where
  "CheckRateLimitForKey env apiKey =
     io_bind (io_call (EvalScript env (rate_key apiKey) (KeyRateLimit apiKey) 60)) (\<lambda>result.
     io_bind (script_values result) (\<lambda>values.
     io_bind (int64_of (values ! 0)) (\<lambda>current.
     if current > KeyRateLimit apiKey then io_fail (GoErr ''rate limit exceeded'') else io_ret ())))"

definition ApplyGinRateLimit :: "'w access_env \<Rightarrow> ApiKey \<Rightarrow> ('w, unit) io" where
  "ApplyGinRateLimit env apiKey =
     io_bind (io_call (EvalScript env (rate_key apiKey) (KeyRateLimit apiKey) 60)) (\<lambda>result.
     io_bind (script_values result) (\<lambda>values.
     io_bind (int64_of (values ! 0)) (\<lambda>current.
     io_bind (int64_of (values ! 1)) (\<lambda>remaining.
     io_bind (int64_of (values ! 2)) (\<lambda>reset.
     if current > KeyRateLimit apiKey then io_fail (GoErr ''rate limit exceeded'') else io_ret ())))))"

section \<open>The middleware of the http routes\<close>

text \<open>A request is aborted with a status and a text, or goes on with its key. The update of the last use runs in a goroutine and only logs its error.\<close>

definition checked_key :: "'w access_env \<Rightarrow> string \<Rightarrow> ('w, int \<times> string + ApiKey) io" where
  "checked_key env header =
     (if header = [] then stop_with 401 ''API key is required''
      else
        continue (or_answer (\<lambda>_. (403, ''Invalid or inactive API key'')) (io_call (FindKey env header))) (\<lambda>apiKey.
        if \<not> IsActive apiKey then stop_with 403 ''API key is inactive'' else go_on apiKey))"

definition limited_key :: "'w access_env \<Rightarrow> string \<Rightarrow> ApiKey \<Rightarrow> ('w, int \<times> string + ApiKey) io" where
  "limited_key env header apiKey =
     continue (logged (io_call (TouchKey env header))) (\<lambda>_.
     if HasLimiter env
     then continue (or_answer (\<lambda>_. (429, ''Rate limit exceeded'')) (ApplyGinRateLimit env apiKey)) (\<lambda>_. go_on apiKey)
     else go_on apiKey)"

definition GinMiddleware :: "'w access_env \<Rightarrow> string \<Rightarrow> ('w, int \<times> string + ApiKey) io" where
  "GinMiddleware env header = continue (checked_key env header) (limited_key env header)"

definition KeeperMiddleware :: "'w access_env \<Rightarrow> string \<Rightarrow> ('w, int \<times> string + ApiKey) io" where
  "KeeperMiddleware env header =
     continue (checked_key env header) (\<lambda>apiKey.
     continue (or_answer (\<lambda>_. (500, ''Internal server error'')) (io_call (FindIsKeeper env (Key apiKey)))) (\<lambda>isKeeper.
     if \<not> isKeeper then stop_with 403 ''Access denied. Keeper authorization required'' else limited_key env header apiKey))"

section \<open>Connections of the WebSocket server\<close>

definition extractUserIDFromApiKey :: "ApiKey \<Rightarrow> string" where
  "extractUserIDFromApiKey apiKey = (if Owner apiKey \<noteq> [] then Owner apiKey else ''system'')"

definition AuthenticateWebSocket :: "'w access_env \<Rightarrow> string \<Rightarrow> string \<Rightarrow> ('w, string \<times> string) io" where
  "AuthenticateWebSocket env query header =
     (let apiKey = (if query = [] then header else query) in
      if apiKey = [] then io_fail (GoErr ''API key is required for WebSocket connection'')
      else
        io_bind (io_try (io_call (FindKey env apiKey))) (\<lambda>r.
        case r of
          Inl _ \<Rightarrow> io_fail (GoErr ''Invalid or inactive API key'')
        | Inr apiKeyData \<Rightarrow>
            if \<not> IsActive apiKeyData then io_fail (GoErr ''API key is inactive'')
            else io_bind (io_try (io_call (TouchKey env apiKey))) (\<lambda>_. io_ret (apiKey, extractUserIDFromApiKey apiKeyData))))"

text \<open>The map of the connections: an address that is missing has none.\<close>

type_synonym connections = "string \<Rightarrow> int"

definition CheckRateLimit :: "'w access_env \<Rightarrow> int \<Rightarrow> string \<Rightarrow> ApiKey option \<Rightarrow> connections \<times> 'w \<Rightarrow> (bool \<times> connections \<times> 'w) option" where
  "CheckRateLimit env maxConns clientIP apiKey s =
     (case s of (conns, w) \<Rightarrow>
        if conns clientIP \<ge> maxConns then Some (False, conns, w)
        else
          (case (case apiKey of Some k \<Rightarrow> if HasLimiter env then CheckRateLimitForKey env k w else Some (Inr (), w) | None \<Rightarrow> Some (Inr (), w)) of
             None \<Rightarrow> None
           | Some (Inl _, w') \<Rightarrow> Some (False, conns, w')
           | Some (Inr _, w') \<Rightarrow> Some (True, conns(clientIP := i64 (conns clientIP + 1)), w')))"

definition ReleaseConnection :: "string \<Rightarrow> connections \<Rightarrow> connections" where
  "ReleaseConnection clientIP conns = (if conns clientIP > 0 then conns(clientIP := conns clientIP - 1) else conns)"

text \<open>
  A connection is refused with a status, dropped without an answer, or handed to the hub with its user and its key. \<open>done\<close> says whether the context of
  the request has ended when it is looked at, \<open>upgraded\<close> whether the upgrade succeeds.
\<close>

datatype outcome = Refused int string | Dropped | Connected string string

definition HandleWebSocketConnection ::
    "'w access_env \<Rightarrow> int \<Rightarrow> string \<Rightarrow> string \<Rightarrow> string \<Rightarrow> bool \<Rightarrow> bool \<Rightarrow> connections \<times> 'w \<Rightarrow> (outcome \<times> connections \<times> 'w) option" where
  "HandleWebSocketConnection env maxConns clientIP query header done upgraded s =
     (case s of (conns, w) \<Rightarrow>
        (case AuthenticateWebSocket env query header w of
           None \<Rightarrow> None
         | Some (Inl e, w1) \<Rightarrow> Some (Refused 401 (error_text e), conns, w1)
         | Some (Inr (apiKey, userID), w1) \<Rightarrow>
             (case FindKey env apiKey w1 of
                (Inl _, w2) \<Rightarrow> Some (Refused 401 ''Invalid API key'', conns, w2)
              | (Inr apiKeyData, w2) \<Rightarrow>
                  (case CheckRateLimit env maxConns clientIP (Some apiKeyData) (conns, w2) of
                     None \<Rightarrow> None
                   | Some (False, s3) \<Rightarrow> Some (Refused 429 ''Rate limit exceeded'', s3)
                   | Some (True, conns3, w3) \<Rightarrow>
                       if done \<or> \<not> upgraded then Some (Dropped, ReleaseConnection clientIP conns3, w3)
                       else Some (Connected userID apiKey, conns3, w3)))))"

text \<open>
  The running server: a request comes from an address, and a connection that was accepted ends at some time, which calls \<open>OnClose\<close> once. The open
  connections are kept as the list of their addresses; the rest of the server may change the world.
\<close>

record 'w socket_server =
  Connections :: connections
  Open :: "string list"
  World :: 'w

inductive socket_step :: "'w access_env \<Rightarrow> int \<Rightarrow> 'w socket_server \<Rightarrow> 'w socket_server \<Rightarrow> bool" for env maxConns where
  accept: "HandleWebSocketConnection env maxConns ip query header done upgraded (Connections s, World s) = Some (Connected u k, conns, w) \<Longrightarrow>
      socket_step env maxConns s (s\<lparr>Connections := conns, Open := ip # Open s, World := w\<rparr>)"
| turn_away: "HandleWebSocketConnection env maxConns ip query header done upgraded (Connections s, World s) = Some (out, conns, w) \<Longrightarrow>
      (\<forall>u k. out \<noteq> Connected u k) \<Longrightarrow> socket_step env maxConns s (s\<lparr>Connections := conns, World := w\<rparr>)"
| hang_up: "ip \<in> set (Open s) \<Longrightarrow>
      socket_step env maxConns s (s\<lparr>Connections := ReleaseConnection ip (Connections s), Open := remove1 ip (Open s)\<rparr>)"
| elsewhere: "socket_step env maxConns s (s\<lparr>World := w\<rparr>)"

inductive socket_reachable :: "'w access_env \<Rightarrow> int \<Rightarrow> 'w socket_server \<Rightarrow> bool" for env maxConns where
  start: "socket_reachable env maxConns \<lparr>Connections = (\<lambda>_. 0), Open = [], World = w\<rparr>"
| step: "socket_reachable env maxConns s \<Longrightarrow> socket_step env maxConns s t \<Longrightarrow> socket_reachable env maxConns t"

definition connections_ok :: "int \<Rightarrow> 'w socket_server \<Rightarrow> bool" where
  "connections_ok maxConns s \<longleftrightarrow> (\<forall>ip. Connections s ip = int (count_list (Open s) ip) \<and> Connections s ip \<le> maxConns)"

lemma check_result:
  assumes "CheckRateLimit env maxConns ip k (conns, w) = Some (ok, conns', w')"
  shows "if ok then conns ip < maxConns \<and> conns' = conns(ip := i64 (conns ip + 1)) else conns' = conns"
  using assms by (auto simp: CheckRateLimit_def split: option.splits sum.splits if_splits)

lemma handle_result:
  assumes "HandleWebSocketConnection env maxConns ip query header done upgraded (conns, w) = Some (out, conns', w')"
  shows "case out of Connected u k \<Rightarrow> conns ip < maxConns \<and> conns' = conns(ip := i64 (conns ip + 1))
    | Dropped \<Rightarrow> conns ip < maxConns \<and> conns' = ReleaseConnection ip (conns(ip := i64 (conns ip + 1)))
    | Refused _ _ \<Rightarrow> conns' = conns"
  using assms check_result [of env maxConns ip]
  by (auto simp: HandleWebSocketConnection_def split: option.splits sum.splits prod.splits if_splits bool.splits)

lemma release_after_accept: "0 \<le> conns ip \<Longrightarrow> conns ip < maxConns \<Longrightarrow> in_i64 maxConns \<Longrightarrow> ReleaseConnection ip (conns(ip := i64 (conns ip + 1))) = conns"
  by (auto simp: ReleaseConnection_def in_i64_def)

lemma count_remove1: "count_list (remove1 x xs) y = (if x = y \<and> x \<in> set xs then count_list xs y - 1 else count_list xs y)"
  by (induction xs) (auto simp: count_list_0_iff)

lemma connections_okD: "connections_ok maxConns s \<Longrightarrow> Connections s ip = int (count_list (Open s) ip)"
  "connections_ok maxConns s \<Longrightarrow> int (count_list (Open s) ip) \<le> maxConns"
  by (auto simp: connections_ok_def) metis

lemma socket_step_ok:
  assumes "socket_step env maxConns s t" and ok: "connections_ok maxConns s" and "in_i64 maxConns"
  shows "connections_ok maxConns t"
  using assms(1)
proof cases
  case (accept ip query header cancelled upgraded u k conns w)
  have "Connections s ip < maxConns" "conns = (Connections s)(ip := i64 (Connections s ip + 1))"
    using handle_result [OF accept(2)] by simp_all
  with connections_okD [OF ok] assms(3) show ?thesis
    by (simp add: accept(1) connections_ok_def in_i64_def)
next
  case (turn_away ip query header cancelled upgraded out conns w)
  have "0 \<le> Connections s ip" using connections_okD [OF ok] by simp
  then have "conns = Connections s"
    using handle_result [OF turn_away(2)] turn_away(3) release_after_accept [OF _ _ assms(3)] by (cases out) auto
  with connections_okD [OF ok] show ?thesis by (simp add: turn_away(1) connections_ok_def)
next
  case (hang_up ip)
  have "0 < count_list (Open s) ip" using hang_up(2) by (metis count_list_0_iff gr0I)
  with connections_okD [OF ok, of ip] have "int (count_list (Open s) ip - 1) = Connections s ip - 1" "Connections s ip > 0" by simp_all
  moreover have "Connections s x - 1 \<le> maxConns" for x
    using connections_okD(1,2) [OF ok, of x] by simp
  ultimately show ?thesis
    using connections_okD [OF ok] hang_up(2) by (auto simp: hang_up(1) connections_ok_def ReleaseConnection_def count_remove1)
next
  case (elsewhere w)
  with connections_okD [OF ok] show ?thesis by (simp add: connections_ok_def)
qed


section \<open>What a key is granted\<close>

text \<open>
  What Redis keeps and its clock, in milliseconds. A call of the script runs it once, at a time between the call and the answer; when the answer is lost it
  may have run or not.
\<close>

record limiter_db =
  Counters :: counters
  RedisTime :: int

definition runs_script :: "('w \<Rightarrow> limiter_db) \<Rightarrow> 'w access_env \<Rightarrow> bool" where
  "runs_script view env \<longleftrightarrow>
     (\<forall>k limit window w r w'. EvalScript env k limit window w = (r, w') \<longrightarrow>
       (let (v, m) = rateLimitScript k limit window (RedisTime (view w')) (Counters (view w)) in
        RedisTime (view w) \<le> RedisTime (view w') \<and>
        (case r of Inl _ \<Rightarrow> Counters (view w') = Counters (view w) \<or> Counters (view w') = m
         | Inr x \<Rightarrow> x = v \<and> Counters (view w') = m)))"

text \<open>
  The server under requests, http or WebSocket, with a log of those that were granted and their times. A key has a fixed limit; whatever else happens leaves
  the counters alone.
\<close>

inductive traffic :: "('w \<Rightarrow> limiter_db) \<Rightarrow> 'w access_env \<Rightarrow> (string \<Rightarrow> int) \<Rightarrow> 'w \<Rightarrow> (string \<times> int) list \<Rightarrow> bool" for view env lim where
  start: "Counters (view w) = Map.empty \<Longrightarrow> traffic view env lim w []"
| elsewhere: "traffic view env lim w granted \<Longrightarrow> Counters (view w') = Counters (view w) \<Longrightarrow> RedisTime (view w) \<le> RedisTime (view w') \<Longrightarrow>
      traffic view env lim w' granted"
| refused: "traffic view env lim w granted \<Longrightarrow> KeyRateLimit k = lim (Key k) \<Longrightarrow>
      CheckRateLimitForKey env k w = Some (Inl e, w') \<or> ApplyGinRateLimit env k w = Some (Inl e, w') \<Longrightarrow> traffic view env lim w' granted"
| granted: "traffic view env lim w granted \<Longrightarrow> KeyRateLimit k = lim (Key k) \<Longrightarrow>
      CheckRateLimitForKey env k w = Some (Inr (), w') \<or> ApplyGinRateLimit env k w = Some (Inr (), w') \<Longrightarrow>
      traffic view env lim w' ((Key k, RedisTime (view w')) # granted)"

definition in_window :: "string \<Rightarrow> int \<Rightarrow> string \<times> int \<Rightarrow> bool" where
  "in_window k s e \<longleftrightarrow> fst e = k \<and> s \<le> snd e \<and> snd e \<le> s + 60000"

text \<open>\<open>W\<close> are the times at which a counter of the key was started; a counter counts at least the requests that were granted while it lived.\<close>

definition windows_ok :: "string \<Rightarrow> int \<Rightarrow> (int \<times> int option) option \<Rightarrow> int \<Rightarrow> (string \<times> int) list \<Rightarrow> int set \<Rightarrow> bool" where
  "windows_ok k limit c now granted W \<longleftrightarrow>
     (\<forall>s \<in> W. s \<le> now \<and> int (length (filter (in_window k s) granted)) \<le> max 0 limit) \<and>
     (\<forall>s \<in> W. \<forall>s' \<in> W. s < s' \<longrightarrow> s + 60000 < s') \<and>
     (\<forall>e \<in> set granted. fst e = k \<longrightarrow> (\<exists>s \<in> W. in_window k s e)) \<and>
     (case c of None \<Rightarrow> W = {}
      | Some (n, d) \<Rightarrow> \<exists>s \<in> W. d = Some (s + 60000) \<and> (\<forall>s' \<in> W. s' \<le> s) \<and> 1 \<le> n \<and> int (length (filter (in_window k s) granted)) \<le> n)"

lemma windows_okD:
  assumes "windows_ok k limit c now granted W"
  shows "s \<in> W \<Longrightarrow> s \<le> now" "s \<in> W \<Longrightarrow> int (length (filter (in_window k s) granted)) \<le> max 0 limit"
    "s \<in> W \<Longrightarrow> s' \<in> W \<Longrightarrow> s < s' \<Longrightarrow> s + 60000 < s'"
    "e \<in> set granted \<Longrightarrow> fst e = k \<Longrightarrow> \<exists>s \<in> W. in_window k s e"
  using assms unfolding windows_ok_def by blast+

lemma windows_later: "windows_ok k limit c now granted W \<Longrightarrow> now \<le> now' \<Longrightarrow> windows_ok k limit c now' granted W"
  unfolding windows_ok_def by (meson order_trans)

lemma windows_other: "windows_ok k limit c now granted W \<Longrightarrow> k' \<noteq> k \<Longrightarrow> windows_ok k limit c now ((k', t) # granted) W"
proof -
  assume "k' \<noteq> k"
  then have "\<not> in_window k s (k', t)" for s by (simp add: in_window_def)
  then show "windows_ok k limit c now granted W \<Longrightarrow> ?thesis" using \<open>k' \<noteq> k\<close> by (cases c) (auto simp: windows_ok_def)
qed

text \<open>The counter after a run of the script, and whether the request is granted.\<close>

definition next_counter :: "(int \<times> int option) option \<Rightarrow> int \<Rightarrow> int \<times> int option" where
  "next_counter c now =
     (case c of Some (n, Some d) \<Rightarrow> if d < now then (1, Some (now + 60000)) else (n + 1, Some d)
      | Some (n, None) \<Rightarrow> (n + 1, None)
      | None \<Rightarrow> (1, Some (now + 60000)))"

lemma script_counter:
  assumes "case m k of Some (n, None) \<Rightarrow> False | Some (n, d) \<Rightarrow> 1 \<le> n | None \<Rightarrow> True"
  shows "\<exists>a b. rateLimitScript k limit 60 now m =
    (RList [RInt (fst (next_counter (m k) now)), RInt a, RInt b], m(k \<mapsto> next_counter (m k) now))"
  using assms
  by (auto simp: rateLimitScript_def INCR_def EXPIRE_def live_def next_counter_def Let_def split: option.splits if_splits prod.splits)

lemma windows_step:
  assumes "windows_ok k limit c now granted W" and "now \<le> now'"
  shows "\<exists>W'. windows_ok k limit (Some (next_counter c now')) now' granted W' \<and>
    (fst (next_counter c now') \<le> limit \<longrightarrow> windows_ok k limit (Some (next_counter c now')) now' ((k, now') # granted) W')"
proof (cases "case c of Some (n, Some d) \<Rightarrow> d < now' | _ \<Rightarrow> c = None")
  case True
  \<comment> \<open>a new counter\<close>
  have old: "snd e < now'" if "e \<in> set granted" "fst e = k" for e
    using assms(1) True that by (auto simp: windows_ok_def in_window_def split: option.splits prod.splits) force
  then have none: "filter (in_window k now') granted = []"
    by (auto simp: filter_empty_conv in_window_def) (metis leD)
  have W: "s + 60000 < now'" if "s \<in> W" for s
    using assms(1) True that by (auto simp: windows_ok_def split: option.splits prod.splits)
  have nc: "next_counter c now' = (1, Some (now' + 60000))"
    using True by (auto simp: next_counter_def split: option.splits prod.splits)
  have "\<not> in_window k s (k, now')" if "s \<in> W" for s using W [OF that] by (simp add: in_window_def)
  then show ?thesis
    using assms W none unfolding nc
    by (intro exI [of _ "insert now' W"]) (auto simp: windows_ok_def in_window_def intro: order_trans dest: W)
next
  case False
  then obtain n d where c: "c = Some (n, d)" by (cases c) auto
  obtain s where s: "s \<in> W" "d = Some (s + 60000)" "\<forall>s' \<in> W. s' \<le> s" "1 \<le> n" "int (length (filter (in_window k s) granted)) \<le> n"
    using assms(1) by (auto simp: windows_ok_def c)
  have now: "s \<le> now'" "now' \<le> s + 60000"
    using False s assms by (auto simp: c windows_ok_def)
  have nc: "next_counter c now' = (n + 1, d)" using False by (simp add: next_counter_def c s(2))
  have old: "\<not> in_window k s' (k, now')" if "s' \<in> W" "s' \<noteq> s" for s'
    using assms(1) s that now by (force simp: windows_ok_def in_window_def)
  have here: "in_window k s (k, now')" using now by (simp add: in_window_def)
  have same: "windows_ok k limit (Some (n + 1, d)) now' granted W"
    using assms s by (auto simp: windows_ok_def intro: order_trans)
  moreover have "windows_ok k limit (Some (n + 1, d)) now' ((k, now') # granted) W" if "n + 1 \<le> limit"
  proof -
    have count: "int (length (filter (in_window k x) ((k, now') # granted))) = int (length (filter (in_window k x) granted)) + (if x = s then 1 else 0)"
      if "x \<in> W" for x using old [OF that] here by auto
    have "int (length (filter (in_window k x) ((k, now') # granted))) \<le> max 0 limit" if "x \<in> W" for x
      using count [OF that] windows_okD(2) [OF assms(1) that] s(5) \<open>n + 1 \<le> limit\<close> by auto
    then show ?thesis
      using same s here count [OF s(1)] unfolding windows_ok_def by auto
  qed
  ultimately show ?thesis unfolding nc by auto
qed

lemma counter_shape: "windows_ok k limit c now granted W \<Longrightarrow> case c of Some (n, None) \<Rightarrow> False | Some (n, d) \<Rightarrow> 1 \<le> n | None \<Rightarrow> True"
  by (auto simp: windows_ok_def split: option.splits prod.splits)

lemma limited_call:
  assumes "runs_script view env" and "CheckRateLimitForKey env a w = Some (r, w') \<or> ApplyGinRateLimit env a w = Some (r, w')"
    and "case Counters (view w) (rate_key a) of Some (n, None) \<Rightarrow> False | Some (n, d) \<Rightarrow> 1 \<le> n | None \<Rightarrow> True"
  shows "RedisTime (view w) \<le> RedisTime (view w') \<and>
    (let c = next_counter (Counters (view w) (rate_key a)) (RedisTime (view w')); m = (Counters (view w))(rate_key a \<mapsto> c) in
     if r = Inr () then Counters (view w') = m \<and> fst c \<le> KeyRateLimit a
     else Counters (view w') = Counters (view w) \<or> Counters (view w') = m)"
proof -
  obtain x v where e: "EvalScript env (rate_key a) (KeyRateLimit a) 60 w = (x, v)" by (cases "EvalScript env (rate_key a) (KeyRateLimit a) 60 w")
  obtain p q where s: "rateLimitScript (rate_key a) (KeyRateLimit a) 60 (RedisTime (view v)) (Counters (view w)) =
      (RList [RInt (fst (next_counter (Counters (view w) (rate_key a)) (RedisTime (view v)))), RInt p, RInt q],
       (Counters (view w))(rate_key a \<mapsto> next_counter (Counters (view w) (rate_key a)) (RedisTime (view v))))"
    using script_counter [of "Counters (view w)" "rate_key a", OF assms(3)] by blast
  have "w' = v" using assms(2) e
    by (auto simp: CheckRateLimitForKey_def ApplyGinRateLimit_def io_defs script_values_def int64_of_def io_panic_def
        split: sum.splits option.splits redis_value.splits if_splits)
  have x: "RedisTime (view w) \<le> RedisTime (view v) \<and> (case x of
      Inl _ \<Rightarrow> Counters (view v) = Counters (view w) \<or>
        Counters (view v) = (Counters (view w))(rate_key a \<mapsto> next_counter (Counters (view w) (rate_key a)) (RedisTime (view v)))
    | Inr y \<Rightarrow> y = RList [RInt (fst (next_counter (Counters (view w) (rate_key a)) (RedisTime (view v)))), RInt p, RInt q] \<and>
        Counters (view v) = (Counters (view w))(rate_key a \<mapsto> next_counter (Counters (view w) (rate_key a)) (RedisTime (view v))))"
    using assms(1) [unfolded runs_script_def, rule_format, OF e] s by simp
  then show ?thesis
    using assms(2) e \<open>w' = v\<close>
    by (cases x) (auto simp: CheckRateLimitForKey_def ApplyGinRateLimit_def io_defs script_values_def int64_of_def Let_def split: if_splits)
qed

lemma traffic_windows:
  assumes "traffic view env lim w granted" and "runs_script view env"
  shows "\<exists>W. windows_ok k (lim k) (Counters (view w) (''rate_limit:'' @ k)) (RedisTime (view w)) granted W"
  using assms(1)
proof (induction arbitrary: k)
  case (start w)
  then show ?case by (intro exI [of _ "{}"]) (simp add: windows_ok_def)
next
  case (elsewhere w granted w')
  obtain W where "windows_ok k (lim k) (Counters (view w) (''rate_limit:'' @ k)) (RedisTime (view w)) granted W"
    using elsewhere.IH by blast
  from windows_later [OF this elsewhere.hyps(3)] elsewhere.hyps(2) show ?case by auto
next
  case (refused w granted a e w')
  obtain W where W: "windows_ok (Key a) (lim (Key a)) (Counters (view w) (rate_key a)) (RedisTime (view w)) granted W"
    using refused.IH by (auto simp: rate_key_def)
  note c = limited_call [OF assms(2) refused.hyps(3) counter_shape [OF W]]
  show ?case
  proof (cases "k = Key a")
    case True
    from c have t: "RedisTime (view w) \<le> RedisTime (view w')" by blast
    from c consider "Counters (view w') (rate_key a) = Counters (view w) (rate_key a)"
      | "Counters (view w') (rate_key a) = Some (next_counter (Counters (view w) (rate_key a)) (RedisTime (view w')))"
      by (auto simp: Let_def)
    then show ?thesis
      using windows_step [OF W t] windows_later [OF W t] True unfolding rate_key_def by cases auto
  next
    case False
    then have "Counters (view w') (''rate_limit:'' @ k) = Counters (view w) (''rate_limit:'' @ k)"
      using c by (auto simp: Let_def rate_key_def)
    moreover obtain V where "windows_ok k (lim k) (Counters (view w) (''rate_limit:'' @ k)) (RedisTime (view w)) granted V"
      using refused.IH by blast
    moreover have "RedisTime (view w) \<le> RedisTime (view w')" using c by blast
    ultimately show ?thesis using windows_later by fastforce
  qed
next
  case (granted w granted a w')
  obtain W where W: "windows_ok (Key a) (lim (Key a)) (Counters (view w) (rate_key a)) (RedisTime (view w)) granted W"
    using granted.IH by (auto simp: rate_key_def)
  note c = limited_call [OF assms(2) granted.hyps(3) counter_shape [OF W]]
  show ?case
  proof (cases "k = Key a")
    case True
    with c granted.hyps(2) windows_step [OF W, of "RedisTime (view w')"] show ?thesis by (auto simp: Let_def rate_key_def)
  next
    case False
    then have "Counters (view w') (''rate_limit:'' @ k) = Counters (view w) (''rate_limit:'' @ k)"
      using c by (auto simp: Let_def rate_key_def)
    moreover obtain V where "windows_ok k (lim k) (Counters (view w) (''rate_limit:'' @ k)) (RedisTime (view w)) granted V"
      using granted.IH by blast
    moreover have "RedisTime (view w) \<le> RedisTime (view w')" using c by blast
    ultimately show ?thesis using windows_other [OF windows_later] False by fastforce
  qed
qed

lemma filter_disj_length: "length (filter (\<lambda>e. P e \<or> Q e) xs) \<le> length (filter P xs) + length (filter Q xs)"
  by (induction xs) auto

lemma filter_mono_length: "(\<And>e. e \<in> set xs \<Longrightarrow> P e \<Longrightarrow> Q e) \<Longrightarrow> length (filter P xs) \<le> length (filter Q xs)"
  by (induction xs) auto

text \<open>The requests of a minute belong to two windows at most.\<close>

lemma one_window:
  assumes "windows_ok k limit c now granted W" and "0 \<le> limit"
  shows "int (length (filter (\<lambda>e. \<exists>s \<in> W. lo \<le> s \<and> s \<le> lo + 60000 \<and> in_window k s e) granted)) \<le> limit"
proof (cases "\<exists>s \<in> W. lo \<le> s \<and> s \<le> lo + 60000")
  case True
  then obtain s where s: "s \<in> W" "lo \<le> s" "s \<le> lo + 60000" by blast
  have "s' = s" if "s' \<in> W" "lo \<le> s'" "s' \<le> lo + 60000" for s'
    using windows_okD(3) [OF assms(1) s(1) that(1)] windows_okD(3) [OF assms(1) that(1) s(1)] s that by linarith
  then have "(\<exists>s \<in> W. lo \<le> s \<and> s \<le> lo + 60000 \<and> in_window k s e) \<longleftrightarrow> in_window k s e" for e
    using s by blast
  with windows_okD(2) [OF assms(1) s(1)] assms(2) show ?thesis by simp
next
  case False
  then have "\<not> (\<exists>s \<in> W. lo \<le> s \<and> s \<le> lo + 60000 \<and> in_window k s e)" for e by blast
  then have "filter (\<lambda>e. \<exists>s \<in> W. lo \<le> s \<and> s \<le> lo + 60000 \<and> in_window k s e) granted = []" by (simp only: filter_empty_conv) blast
  then show ?thesis using assms(2) by (simp only: list.size of_nat_0)
qed

text \<open>
  C20: Within any minute a key is granted at most twice its limit: the window of a counter is fixed, so a full window may end as the next one starts.
\<close>

theorem minute_limit:
  assumes "traffic view env lim w granted" and "runs_script view env" and "0 \<le> lim k"
  shows "int (length (filter (\<lambda>e. fst e = k \<and> t \<le> snd e \<and> snd e < t + 60000) granted)) \<le> 2 * lim k"
proof -
  obtain W where W: "windows_ok k (lim k) (Counters (view w) (''rate_limit:'' @ k)) (RedisTime (view w)) granted W"
    using traffic_windows [OF assms(1,2)] by blast
  let ?in = "\<lambda>lo e. \<exists>s \<in> W. lo \<le> s \<and> s \<le> lo + 60000 \<and> in_window k s e"
  have "?in (t - 60000) e \<or> ?in t e" if "e \<in> set granted" "fst e = k" "t \<le> snd e" "snd e < t + 60000" for e
  proof -
    note e = that
    obtain s where "s \<in> W" "in_window k s e" using windows_okD(4) [OF W e(1,2)] by blast
    moreover from this have "s \<le> snd e" "snd e \<le> s + 60000" by (simp_all add: in_window_def)
    then have "t - 60000 \<le> s \<and> s \<le> t - 60000 + 60000 \<or> t \<le> s \<and> s \<le> t + 60000" using e by linarith
    ultimately show ?thesis by blast
  qed
  then have "length (filter (\<lambda>e. fst e = k \<and> t \<le> snd e \<and> snd e < t + 60000) granted)
      \<le> length (filter (\<lambda>e. ?in (t - 60000) e \<or> ?in t e) granted)"
    by (intro filter_mono_length) blast
  also have "\<dots> \<le> length (filter (?in (t - 60000)) granted) + length (filter (?in t) granted)"
    by (rule filter_disj_length)
  finally show ?thesis
    using one_window [OF W assms(3), of "t - 60000"] one_window [OF W assms(3), of t] by linarith
qed

section \<open>The keys\<close>

record CreateApiKeyRequest =
  CkOwner :: string
  CkRateLimit :: int

record UpdateApiKeyRequest =
  UkKey :: string
  UkIsActive :: "bool option"
  UkRateLimit :: "int option"

text \<open>The values that are bound to the placeholders of a statement; a nil pointer is a null.\<close>

datatype cql = CText string | CBool bool | CInt int | CNull

record 'w key_env =
  InsertKey :: "ApiKey \<Rightarrow> 'w \<Rightarrow> (go_error + unit) \<times> 'w"
  KeysByOwner :: "string \<Rightarrow> 'w \<Rightarrow> (go_error + ApiKey list) \<times> 'w"
  KeyByKey :: "string \<Rightarrow> 'w \<Rightarrow> (go_error + ApiKey) \<times> 'w"
  UpdateKey :: "cql \<Rightarrow> cql \<Rightarrow> cql \<Rightarrow> 'w \<Rightarrow> (go_error + unit) \<times> 'w"
  DeleteKey :: "string \<Rightarrow> 'w \<Rightarrow> (go_error + unit) \<times> 'w"
  NewUUID :: "'w \<Rightarrow> string"

datatype key_answer = KeyFailure string | KeyData ApiKey | NoContent | KeyList "ApiKey list"

definition MaskApiKey :: "string \<Rightarrow> string" where
  "MaskApiKey key =
     (if length key \<le> 8 then key else take 4 key @ replicate (length key - 8) CHR ''*'' @ drop (length key - 4) key)"

definition GetApiKeyDataByOwner :: "'w key_env \<Rightarrow> string \<Rightarrow> ('w, ApiKey list) io" where
  "GetApiKeyDataByOwner env owner =
     io_bind (io_call (KeysByOwner env owner)) (\<lambda>apiKeys.
     if apiKeys = [] then io_fail (GoErr ''owner not found'') else io_ret apiKeys)"

definition CreateApiKey :: "'w key_env \<Rightarrow> go_error + CreateApiKeyRequest \<Rightarrow> ('w, int \<times> key_answer) io" where
  "CreateApiKey env body =
     (case body of
        Inl _ \<Rightarrow> io_ret (400, KeyFailure ''Invalid request body'')
      | Inr req \<Rightarrow>
          if CkOwner req = [] then io_ret (400, KeyFailure ''Owner is required'')
          else
            io_bind (io_get (NewUUID env)) (\<lambda>uuid.
            let apiKey = \<lparr>Key = ''TGRX-'' @ uuid, Owner = CkOwner req, IsActive = True,
              KeyRateLimit = (if CkRateLimit req \<le> 0 then 60 else CkRateLimit req)\<rparr> in
            answer_of (
              continue (or_answer (\<lambda>_. (500, KeyFailure ''Failed to create API key'')) (io_call (InsertKey env apiKey))) (\<lambda>_.
              go_on (201, KeyData apiKey)))))"

text \<open>The statement sets \<open>is_active\<close> and \<open>rate_limit\<close> of the row with a key, in this order; the repository binds the key first.\<close>

definition bound_bool :: "bool option \<Rightarrow> cql" where
  "bound_bool b = (case b of None \<Rightarrow> CNull | Some x \<Rightarrow> CBool x)"

definition bound_int :: "int option \<Rightarrow> cql" where
  "bound_int n = (case n of None \<Rightarrow> CNull | Some x \<Rightarrow> CInt x)"

definition StoreApiKey :: "'w key_env \<Rightarrow> UpdateApiKeyRequest \<Rightarrow> ('w, unit) io" where
  "StoreApiKey env req = io_call (UpdateKey env (CText (UkKey req)) (bound_bool (UkIsActive req)) (bound_int (UkRateLimit req)))"

definition updated_key :: "UpdateApiKeyRequest \<Rightarrow> ApiKey \<Rightarrow> ApiKey" where
  "updated_key req apiKey =
     (let a = (case UkIsActive req of None \<Rightarrow> apiKey | Some b \<Rightarrow> apiKey\<lparr>IsActive := b\<rparr>) in
      case UkRateLimit req of None \<Rightarrow> a | Some n \<Rightarrow> if n > 0 then a\<lparr>KeyRateLimit := n\<rparr> else a)"

definition UpdateApiKey :: "'w key_env \<Rightarrow> string \<Rightarrow> go_error + UpdateApiKeyRequest \<Rightarrow> ('w, int \<times> key_answer) io" where
  "UpdateApiKey env keyID body =
     (case body of
        Inl _ \<Rightarrow> io_ret (400, KeyFailure ''Invalid request body'')
      | Inr req \<Rightarrow>
          answer_of (
            continue (or_answer (\<lambda>_. (404, KeyFailure ''API key not found'')) (io_call (KeyByKey env keyID))) (\<lambda>apiKey.
            continue (or_answer (\<lambda>_. (500, KeyFailure ''Failed to update API key'')) (StoreApiKey env req)) (\<lambda>_.
            go_on (200, KeyData (updated_key req apiKey))))))"

text \<open>A masked key is resolved to the first key of the owner with this mask.\<close>

definition real_key :: "'w key_env \<Rightarrow> string \<Rightarrow> string \<Rightarrow> ('w, int \<times> key_answer + string) io" where
  "real_key env keyID owner =
     (if CHR ''*'' \<notin> set keyID then go_on keyID
      else if owner = [] then stop_with 400 (KeyFailure ''Owner is required when deleting by masked key'')
      else
        continue (or_answer (\<lambda>_. (404, KeyFailure ''No API keys found for this owner'')) (GetApiKeyDataByOwner env owner)) (\<lambda>apiKeys.
        case find (\<lambda>k. MaskApiKey (Key k) = keyID) apiKeys of
          None \<Rightarrow> stop_with 404 (KeyFailure ''API key not found for this owner'')
        | Some k \<Rightarrow> go_on (Key k)))"

definition DeleteApiKey :: "'w key_env \<Rightarrow> string \<Rightarrow> string \<Rightarrow> ('w, int \<times> key_answer) io" where
  "DeleteApiKey env keyID owner =
     answer_of (
       continue (real_key env keyID owner) (\<lambda>key.
       continue (or_answer (\<lambda>_. (500, KeyFailure ''Failed to delete API key'')) (io_call (DeleteKey env key))) (\<lambda>_.
       go_on (204, NoContent))))"

definition GetApiKeysByOwner :: "'w key_env \<Rightarrow> string \<Rightarrow> ('w, int \<times> key_answer) io" where
  "GetApiKeysByOwner env owner =
     (if owner = [] then io_ret (400, KeyFailure ''Owner is required'')
      else
        answer_of (
          continue (or_answer (\<lambda>_. (404, KeyFailure ''No API keys found for this owner'')) (GetApiKeyDataByOwner env owner)) (\<lambda>apiKeys.
          go_on (200, KeyList (map (\<lambda>k. k\<lparr>Key := MaskApiKey (Key k)\<rparr>) apiKeys)))))"

text \<open>
  What the statements do to the table of the keys: a value that does not fit the type of its column is an error before anything is sent.
\<close>

fun fits :: "cql \<Rightarrow> cql \<Rightarrow> cql \<Rightarrow> bool" where
  "fits active limit key \<longleftrightarrow>
     (active = CNull \<or> (\<exists>b \<in> {True, False}. active = CBool b)) \<and> (case limit of CInt _ \<Rightarrow> True | CNull \<Rightarrow> True | _ \<Rightarrow> False) \<and>
     (case key of CText _ \<Rightarrow> True | _ \<Rightarrow> False)"

definition implements_keys :: "('w \<Rightarrow> string \<rightharpoonup> ApiKey) \<Rightarrow> 'w key_env \<Rightarrow> bool" where
  "implements_keys view env \<longleftrightarrow>
     (\<forall>k. writes view (InsertKey env k) (\<lambda>t. t(Key k \<mapsto> k))) \<and>
     (\<forall>owner. finds view (KeysByOwner env owner) (\<lambda>t ks. \<forall>k \<in> set ks. t (Key k) = Some k \<and> Owner k = owner)) \<and>
     (\<forall>key. finds view (KeyByKey env key) (\<lambda>t k. t key = Some k \<and> Key k = key)) \<and>
     (\<forall>a b c w r w'. UpdateKey env a b c w = (r, w') \<longrightarrow>
       (if fits a b c then r = Inr () \<longrightarrow> (\<exists>key row. c = CText key \<and> view w' = (view w)(key \<mapsto> row)) else (\<exists>e. r = Inl e) \<and> view w' = view w)) \<and>
     (\<forall>key. writes view (DeleteKey env key) (\<lambda>t. t(key := None)))"

text \<open>
  C22: No request changes the limit of a key or blocks it: the values are bound in the wrong order, so every update fails.
\<close>

theorem api_key_never_changed:
  assumes "implements_keys view env" and "UpdateApiKey env keyID body w = Some (r, w')"
  shows "(\<exists>status text. r = Inr (status, KeyFailure text) \<and> status \<in> {400, 404, 500}) \<and> view w' = view w"
proof (cases body)
  case (Inr req)
  obtain a v where a: "KeyByKey env keyID w = (a, v)" by (cases "KeyByKey env keyID w")
  have v: "view v = view w" using assms(1) a by (auto simp: implements_keys_def finds_def)
  obtain b u where b: "UpdateKey env (CText (UkKey req)) (bound_bool (UkIsActive req)) (bound_int (UkRateLimit req)) v = (b, u)"
    by (cases "UpdateKey env (CText (UkKey req)) (bound_bool (UkIsActive req)) (bound_int (UkRateLimit req)) v")
  have u: "(\<exists>e. b = Inl e) \<and> view u = view v" using assms(1) b unfolding implements_keys_def by fastforce
  show ?thesis
    using assms(2) a b u v
    by (cases a) (auto simp: Inr UpdateApiKey_def StoreApiKey_def answer_of_def continue_def or_answer_def go_on_def io_defs)
qed (use assms(2) in \<open>auto simp: UpdateApiKey_def io_ret_def\<close>)

lemma keys_of_owner:
  assumes "implements_keys view env" and "GetApiKeyDataByOwner env owner w = Some (Inr ks, v)"
  shows "view v = view w \<and> (\<forall>k \<in> set ks. view w (Key k) = Some k \<and> Owner k = owner)"
proof -
  have "KeysByOwner env owner w = (Inr ks, v)"
    using assms(2) by (auto simp: GetApiKeyDataByOwner_def io_bind_Some io_call_def io_ret_def io_fail_def split: if_splits)
  then show ?thesis using assms(1) by (auto simp: implements_keys_def finds_def)
qed

lemma real_key_found:
  assumes "implements_keys view env" and "real_key env keyID owner w = Some (Inr (Inr key), v)"
  shows "view v = view w \<and> (if CHR ''*'' \<in> set keyID then MaskApiKey key = keyID \<and> (\<exists>k. view w key = Some k \<and> Owner k = owner) else key = keyID)"
proof (cases "CHR ''*'' \<in> set keyID")
  case True
  then obtain ks k where ks: "GetApiKeyDataByOwner env owner w = Some (Inr ks, v)" and k: "find (\<lambda>k. MaskApiKey (Key k) = keyID) ks = Some k" "key = Key k"
    using assms(2)
    by (auto simp: real_key_def continue_Some or_answer_Some stop_with_def go_on_def io_ret_def split: if_splits option.splits)
  from k have "k \<in> set ks" "MaskApiKey key = keyID" by (auto simp: find_Some_iff)
  with keys_of_owner [OF assms(1) ks] True k(2) show ?thesis by auto
qed (use assms(2) in \<open>simp add: real_key_def go_on_def io_ret_def\<close>)

text \<open>
  A deletion takes away at most one key: the named one, or, for a mask, one of the owner with this mask. A key that is named is deleted whoever owns it.
\<close>

theorem one_key_deleted:
  assumes "implements_keys view env" and "DeleteApiKey env keyID owner w = Some (Inr (204, NoContent), w')"
  shows "\<exists>key. view w' = (view w)(key := None) \<and>
    (if CHR ''*'' \<in> set keyID then MaskApiKey key = keyID \<and> (\<exists>k. view w key = Some k \<and> Owner k = owner) else key = keyID)"
proof -
  obtain key v where k: "real_key env keyID owner w = Some (Inr (Inr key), v)" and d: "DeleteKey env key v = (Inr (), w')"
    using assms(2)
    by (auto simp: DeleteApiKey_def answer_of_Some continue_Some or_answer_Some io_call_def go_on_def io_ret_def real_key_def stop_with_def
        split: if_splits option.splits)
  have "view w' = (view v)(key := None)" using assms(1) d by (auto simp: implements_keys_def writes_def)
  with real_key_found [OF assms(1) k] show ?thesis by auto
qed

section \<open>A server for examples\<close>

definition demo_key :: ApiKey where
  "demo_key = \<lparr>Key = ''TGRX-0123456789'', Owner = ''alice'', IsActive = True, KeyRateLimit = 2\<rparr>"

definition demo_keys :: "(string \<rightharpoonup> ApiKey) key_env" where
  "demo_keys = \<lparr>InsertKey = \<lambda>k t. (Inr (), t(Key k \<mapsto> k)),
     KeysByOwner = \<lambda>owner t. (Inr (case t ''TGRX-0123456789'' of Some k \<Rightarrow> if Owner k = owner \<and> Key k = ''TGRX-0123456789'' then [k] else [] | None \<Rightarrow> []), t),
     KeyByKey = \<lambda>key t. (case t key of Some k \<Rightarrow> if Key k = key then Inr k else Inl (GoErr ''not found'') | None \<Rightarrow> Inl (GoErr ''not found''), t),
     UpdateKey = \<lambda>a b c t. (Inl (GoErr ''can not marshal string into boolean''), t), DeleteKey = \<lambda>key t. (Inr (), t(key := None)), NewUUID = \<lambda>_. ''0''\<rparr>"

lemma demo_keys_implement: "implements_keys id demo_keys"
  by (auto simp: implements_keys_def demo_keys_def writes_def finds_def split: option.splits if_splits)

theorem api_key_never_changed_witness:
  "\<exists>status text. UpdateApiKey demo_keys ''TGRX-0123456789'' (Inr \<lparr>UkKey = ''TGRX-0123456789'', UkIsActive = Some False, UkRateLimit = None\<rparr>) [''TGRX-0123456789'' \<mapsto> demo_key] =
     Some (Inr (status, KeyFailure text), [''TGRX-0123456789'' \<mapsto> demo_key])"
proof -
  let ?body = "Inr \<lparr>UkKey = ''TGRX-0123456789'', UkIsActive = Some False, UkRateLimit = None\<rparr>" and ?t = "[''TGRX-0123456789'' \<mapsto> demo_key]"
  obtain r t where u: "UpdateApiKey demo_keys ''TGRX-0123456789'' ?body ?t = Some (r, t)"
    by (simp add: UpdateApiKey_def demo_keys_def demo_key_def StoreApiKey_def answer_of_def continue_def or_answer_def io_defs)
  from api_key_never_changed [OF demo_keys_implement this] u show ?thesis by auto
qed

theorem one_key_deleted_witness:
  "\<exists>t. DeleteApiKey demo_keys ''TGRX*******6789'' ''alice'' [''TGRX-0123456789'' \<mapsto> demo_key] = Some (Inr (204, NoContent), t) \<and> t ''TGRX-0123456789'' = None"
proof -
  obtain t where d: "DeleteApiKey demo_keys ''TGRX*******6789'' ''alice'' [''TGRX-0123456789'' \<mapsto> demo_key] = Some (Inr (204, NoContent), t)"
    by (simp add: DeleteApiKey_def real_key_def GetApiKeyDataByOwner_def MaskApiKey_def demo_keys_def demo_key_def answer_of_def continue_def or_answer_def go_on_def io_defs numeral_eq_Suc)
  from one_key_deleted [OF demo_keys_implement this] d show ?thesis by (auto split: if_splits)
qed

text \<open>Redis with its clock, a key with two requests in a minute, and no database.\<close>

definition demo_access :: "limiter_db access_env" where
  "demo_access = \<lparr>FindKey = \<lambda>k w. (if k = Key demo_key then Inr demo_key else Inl (GoErr ''not found''), w), FindIsKeeper = \<lambda>_ w. (Inr False, w),
     TouchKey = \<lambda>_ w. (Inr (), w), HasLimiter = True,
     EvalScript = \<lambda>k limit window w. (let (v, m) = rateLimitScript k limit window (RedisTime w) (Counters w) in (Inr v, w\<lparr>Counters := m\<rparr>))\<rparr>"

lemma demo_access_runs: "runs_script id demo_access"
  by (auto simp: runs_script_def demo_access_def split: prod.splits)

definition demo_db :: "int \<Rightarrow> (int \<times> int option) option \<Rightarrow> limiter_db" where
  "demo_db t c = \<lparr>Counters = (\<lambda>k. if k = ''rate_limit:TGRX-0123456789'' then c else None), RedisTime = t\<rparr>"

lemma demo_granted:
  assumes "fst (next_counter c t) \<le> 2" and "case c of Some (n, None) \<Rightarrow> False | Some (n, d) \<Rightarrow> 1 \<le> n | None \<Rightarrow> True"
  shows "CheckRateLimitForKey demo_access demo_key (demo_db t c) = Some (Inr (), demo_db t (Some (next_counter c t)))"
proof -
  have "rate_key demo_key = ''rate_limit:TGRX-0123456789''" by (simp add: rate_key_def demo_key_def)
  moreover obtain a b where "rateLimitScript ''rate_limit:TGRX-0123456789'' 2 60 t (Counters (demo_db t c)) =
      (RList [RInt (fst (next_counter c t)), RInt a, RInt b], (Counters (demo_db t c))(''rate_limit:TGRX-0123456789'' \<mapsto> next_counter c t))"
    using script_counter [of "Counters (demo_db t c)" "''rate_limit:TGRX-0123456789''" 2 t] assms(2) by (auto simp: demo_db_def)
  ultimately show ?thesis
    using assms(1) by (simp add: CheckRateLimitForKey_def demo_access_def demo_key_def io_defs script_values_def int64_of_def demo_db_def fun_eq_iff)
qed

text \<open>Three requests in less than three seconds are granted to a key with a limit of two, the last ones in a new window.\<close>

theorem minute_limit_witness:
  "\<exists>w granted. traffic id demo_access (\<lambda>_. 2) w granted \<and>
     length (filter (\<lambda>e. fst e = Key demo_key \<and> 60000 \<le> snd e \<and> snd e < 120000) granted) = 3 \<and>
     int (length (filter (\<lambda>e. fst e = Key demo_key \<and> 60000 \<le> snd e \<and> snd e < 120000) granted)) \<le> 2 * 2"
proof -
  let ?k = "Key demo_key" and ?t = "traffic id demo_access (\<lambda>_. 2)"
  have later: "?t (demo_db n c) g \<Longrightarrow> n \<le> n' \<Longrightarrow> ?t (demo_db n' c) g" for n n' c g
    by (erule traffic.elsewhere) (simp_all add: demo_db_def)
  have grant: "?t (demo_db n c) g \<Longrightarrow> fst (next_counter c n) \<le> 2 \<Longrightarrow> (case c of Some (n, None) \<Rightarrow> False | Some (n, d) \<Rightarrow> 1 \<le> n | None \<Rightarrow> True) \<Longrightarrow>
      ?t (demo_db n (Some (next_counter c n))) ((?k, n) # g)" for n c g
    using traffic.granted [of id demo_access "\<lambda>_. 2" "demo_db n c" g demo_key "demo_db n (Some (next_counter c n))"] demo_granted [of c n]
    by (simp add: demo_key_def demo_db_def)
  have "?t (demo_db 0 None) []" by (rule traffic.start) (simp add: demo_db_def)
  from grant [OF this] have "?t (demo_db 0 (Some (1, Some 60000))) [(?k, 0)]" by (simp add: next_counter_def)
  from grant [OF later [OF this, of 60000]] have "?t (demo_db 60000 (Some (2, Some 60000))) [(?k, 60000), (?k, 0)]" by (simp add: next_counter_def)
  from grant [OF later [OF this, of 60001]] have "?t (demo_db 60001 (Some (1, Some 120001))) [(?k, 60001), (?k, 60000), (?k, 0)]" by (simp add: next_counter_def)
  from grant [OF later [OF this, of 60002]]
  have t: "?t (demo_db 60002 (Some (2, Some 120001))) [(?k, 60002), (?k, 60001), (?k, 60000), (?k, 0)]" by (simp add: next_counter_def)
  from t minute_limit [OF t demo_access_runs, of ?k 60000] show ?thesis by (intro exI) (rule conjI, assumption, simp)
qed

lemma demo_access_simps: "FindKey demo_access (Key demo_key) w = (Inr demo_key, w)" "TouchKey demo_access k w = (Inr (), w)" "HasLimiter demo_access"
  "IsActive demo_key" "Owner demo_key = ''alice''" "Key demo_key \<noteq> []"
  by (simp_all add: demo_access_def demo_key_def)


end
