(* ===== verification/Float64.thy ===== *)
theory Float64
  imports Complex_Main Prelude "HOL-Library.Log_Nat"
begin

text \<open>
  Go's \<open>float64\<close> on finite values: a rational that IEEE 754 double precision represents,
  with every arithmetic result rounded to the nearest representable value, ties to even.
  Infinities and NaN are outside the model, and so is overflow past the largest double. The
  conversions from and to \<open>int64\<close> are here too; where a value is out of range the language
  leaves the result of the conversion to the implementation, and the model takes the value
  of the 64-bit Intel instruction, the least integer.
\<close>

type_synonym float64 = rat

definition ilog2 :: "rat \<Rightarrow> int" where
  "ilog2 r =
     (let (p, q) = quotient_of r; e = bitlen p - bitlen q
      in if 2 powi e \<le> r then e else e - 1)"

definition round_even :: "rat \<Rightarrow> int" where
  "round_even x =
     (let f = \<lfloor>x\<rfloor>; d = x - of_int f
      in if d < 1 / 2 then f else if 1 / 2 < d then f + 1 else if even f then f else f + 1)"

definition f64 :: "rat \<Rightarrow> float64" where
  "f64 r =
     (if r = 0 then 0
      else let k = max (ilog2 \<bar>r\<bar> - 52) (-1074)
           in of_int (round_even (r / 2 powi k)) * 2 powi k)"

definition f64_of_i64 :: "int \<Rightarrow> float64" where
  "f64_of_i64 n = f64 (of_int n)"

definition f64_mult :: "float64 \<Rightarrow> float64 \<Rightarrow> float64" where
  "f64_mult x y = f64 (x * y)"

definition f64_add :: "float64 \<Rightarrow> float64 \<Rightarrow> float64" where
  "f64_add x y = f64 (x + y)"

definition f64_div :: "float64 \<Rightarrow> float64 \<Rightarrow> float64" where
  "f64_div x y = f64 (x / y)"

definition f64_to_i64 :: "float64 \<Rightarrow> int" where
  "f64_to_i64 x =
     (let t = (if 0 \<le> x then \<lfloor>x\<rfloor> else \<lceil>x\<rceil>)
      in if in_i64 t then t else - (2 ^ 63))"

section \<open>Rounding is monotone and leaves representable integers alone\<close>

lemma round_even_bounds: "\<lfloor>x\<rfloor> \<le> round_even x" "round_even x \<le> \<lfloor>x\<rfloor> + 1"
  by (auto simp: round_even_def Let_def)

lemma round_even_of_int [simp]: "round_even (of_int n) = n"
  by (simp add: round_even_def)

lemma round_even_mono:
  assumes "x \<le> y"
  shows "round_even x \<le> round_even y"
proof (cases "\<lfloor>x\<rfloor> = \<lfloor>y\<rfloor>")
  case True
  with assms show ?thesis
    unfolding round_even_def Let_def by auto
next
  case False
  with floor_mono [OF assms] have "\<lfloor>x\<rfloor> + 1 \<le> \<lfloor>y\<rfloor>" by simp
  then show ?thesis
    using round_even_bounds [of x] round_even_bounds [of y] by linarith
qed

lemma bitlen_bounds_rat:
  assumes "0 < p"
  shows "(2::rat) powi (bitlen p - 1) \<le> of_int p" and "of_int p < (2::rat) powi bitlen p"
proof -
  have b: "2 ^ nat (bitlen p - 1) \<le> p" "p < 2 ^ nat (bitlen p)"
    using bitlen_bounds [OF assms] by auto
  have "0 < bitlen p" using assms bitlen_eq_zero_iff [of p] bitlen_nonneg [of p] by linarith
  then have e: "(2::rat) powi (bitlen p - 1) = of_int (2 ^ nat (bitlen p - 1))"
    "(2::rat) powi bitlen p = of_int (2 ^ nat (bitlen p))"
    by (simp_all add: power_int_def)
  show "(2::rat) powi (bitlen p - 1) \<le> of_int p" and "of_int p < (2::rat) powi bitlen p"
    unfolding e using b by (simp_all only: of_int_le_iff of_int_less_iff)
qed

lemma ilog2_bounds:
  assumes "0 < r"
  shows "2 powi ilog2 r \<le> r" and "r < 2 powi (ilog2 r + 1)"
proof -
  obtain p q where pq: "quotient_of r = (p, q)" by fastforce
  then have q: "0 < q" and r: "r = of_int p / of_int q"
    by (auto dest: quotient_of_denom_pos quotient_of_div)
  with assms have p: "0 < p" by (simp add: zero_less_divide_iff)
  define e where "e = bitlen p - bitlen q"
  have "r < 2 powi bitlen p / 2 powi (bitlen q - 1)"
    unfolding r using bitlen_bounds_rat [OF p] bitlen_bounds_rat [OF q] q p
    by (intro frac_less) auto
  also have "\<dots> = 2 powi (e + 1)"
    by (simp add: e_def power_int_diff [symmetric] algebra_simps)
  finally have up: "r < 2 powi (e + 1)" .
  have "2 powi (e - 1) = (2::rat) powi (bitlen p - 1) / 2 powi bitlen q"
    by (simp add: e_def power_int_diff [symmetric] algebra_simps)
  also have "\<dots> \<le> r"
    unfolding r using bitlen_bounds_rat [OF p] bitlen_bounds_rat [OF q] q p
    by (intro frac_le) auto
  finally have low: "2 powi (e - 1) \<le> r" .
  have il: "ilog2 r = (if 2 powi e \<le> r then e else e - 1)"
    by (simp add: ilog2_def pq e_def)
  show "2 powi ilog2 r \<le> r" using low il by simp
  show "r < 2 powi (ilog2 r + 1)" using up il by auto
qed

lemma ilog2_mono:
  assumes "0 < x" and "x \<le> y"
  shows "ilog2 x \<le> ilog2 y"
proof (rule ccontr)
  assume "\<not> ilog2 x \<le> ilog2 y"
  then have "(2::rat) powi (ilog2 y + 1) \<le> 2 powi ilog2 x"
    by (intro power_int_increasing) auto
  with ilog2_bounds [of x] ilog2_bounds [of y] assms show False by linarith
qed

lemma powi_ratio_int:
  assumes "k \<le> e"
  shows "(2::rat) powi e / 2 powi k = of_int (2 ^ nat (e - k))"
proof -
  have "(2::rat) powi e / 2 powi k = 2 powi (e - k)" by (simp add: power_int_diff)
  with assms show ?thesis by (simp add: power_int_def)
qed

lemma f64_0 [simp]: "f64 0 = 0"
  by (simp add: f64_def)

lemma f64_nonneg: "0 \<le> x \<Longrightarrow> 0 \<le> f64 x"
  using round_even_mono [of 0] round_even_of_int [of 0] unfolding f64_def Let_def
  by (auto intro!: mult_nonneg_nonneg simp del: round_even_of_int)

text \<open>A value above a power of two rounds to one above it; a value below, to one below.\<close>

lemma f64_ge_pow2:
  assumes "0 < x" and "2 powi e \<le> x" and "-1022 \<le> e"
  shows "2 powi e \<le> f64 x"
proof -
  define k where "k = max (ilog2 \<bar>x\<bar> - 52) (-1074)"
  define l where "l = ilog2 \<bar>x\<bar>"
  have le: "e \<le> l"
  proof (rule ccontr)
    assume "\<not> e \<le> l"
    then have "(2::rat) powi (l + 1) \<le> 2 powi e" by (intro power_int_increasing) auto
    with assms ilog2_bounds(2) [of x] show False by (simp add: l_def)
  qed
  with assms(3) have k: "k = l - 52" by (simp add: k_def l_def)
  have "of_int (2 ^ nat (l - k)) \<le> x / 2 powi k"
    unfolding powi_ratio_int [of k l, symmetric, OF eq_refl [THEN order_trans, of k "l - 52" l, OF k, simplified]]
    using ilog2_bounds(1) [of x] assms(1) by (simp add: l_def divide_right_mono)
  then have "2 ^ nat (l - k) \<le> round_even (x / 2 powi k)"
    using round_even_mono round_even_of_int by metis
  then have "of_int (2 ^ nat (l - k)) * 2 powi k \<le> of_int (round_even (x / 2 powi k)) * (2::rat) powi k"
    by (intro mult_right_mono) (simp_all only: of_int_le_iff, simp)
  moreover have "of_int (2 ^ nat (l - k)) * 2 powi k = (2::rat) powi l"
    using powi_ratio_int [of k l] by (simp add: k field_simps)
  moreover have "(2::rat) powi e \<le> 2 powi l" using le by (intro power_int_increasing) auto
  moreover have "f64 x = of_int (round_even (x / 2 powi k)) * 2 powi k"
    using assms(1) by (simp add: f64_def k_def Let_def)
  ultimately show ?thesis by linarith
qed

lemma f64_le_pow2:
  assumes "0 < x" and "x \<le> 2 powi e" and "max (ilog2 x - 52) (-1074) \<le> e"
  shows "f64 x \<le> 2 powi e"
proof -
  define k where "k = max (ilog2 \<bar>x\<bar> - 52) (-1074)"
  have k: "k \<le> e" using assms by (simp add: k_def)
  have "x / 2 powi k \<le> of_int (2 ^ nat (e - k))"
    unfolding powi_ratio_int [OF k, symmetric] using assms(2) by (simp add: divide_right_mono)
  then have "round_even (x / 2 powi k) \<le> 2 ^ nat (e - k)"
    using round_even_mono round_even_of_int by metis
  then have "of_int (round_even (x / 2 powi k)) * (2::rat) powi k \<le> of_int (2 ^ nat (e - k)) * 2 powi k"
    by (intro mult_right_mono) (simp_all only: of_int_le_iff, simp)
  moreover have "of_int (2 ^ nat (e - k)) * 2 powi k = (2::rat) powi e"
    using powi_ratio_int [OF k] by (simp add: field_simps)
  moreover have "f64 x = of_int (round_even (x / 2 powi k)) * 2 powi k"
    using assms(1) by (simp add: f64_def k_def Let_def)
  ultimately show ?thesis by linarith
qed

lemma f64_mono:
  assumes "0 \<le> x" and "x \<le> y"
  shows "f64 x \<le> f64 y"
proof (cases "x = 0")
  case True
  with assms show ?thesis by (simp add: f64_nonneg)
next
  case False
  with assms have x: "0 < x" and y: "0 < y" by auto
  define kx ky where "kx = max (ilog2 x - 52) (-1074)" and "ky = max (ilog2 y - 52) (-1074)"
  have "ilog2 x \<le> ilog2 y" using ilog2_mono x assms(2) by blast
  then consider "kx = ky" | "ilog2 x < ilog2 y" "-1022 \<le> ilog2 y" "kx \<le> ilog2 y"
    unfolding kx_def ky_def by linarith
  then show ?thesis
  proof cases
    case 1
    have "round_even (x / 2 powi kx) \<le> round_even (y / 2 powi kx)"
      using assms(2) by (intro round_even_mono divide_right_mono) auto
    with 1 x y show ?thesis
      by (simp add: f64_def Let_def kx_def ky_def mult_right_mono)
  next
    case 2
    have "x < 2 powi (ilog2 x + 1)" by (rule ilog2_bounds(2) [OF x])
    also have "\<dots> \<le> 2 powi ilog2 y" using 2 by (intro power_int_increasing) auto
    finally have "f64 x \<le> 2 powi ilog2 y"
      using f64_le_pow2 [OF x] 2(3) kx_def by simp
    also have "\<dots> \<le> f64 y"
      by (rule f64_ge_pow2 [OF y ilog2_bounds(1) [OF y] 2(2)])
    finally show ?thesis .
  qed
qed

lemma f64_of_int_exact:
  assumes "0 \<le> n" and "n \<le> 2 ^ 53"
  shows "f64 (of_int n) = of_int n"
proof (cases "n = 0")
  case True
  then show ?thesis by simp
next
  case False
  with assms have pos: "(0::rat) < of_int n" by simp
  define l where "l = ilog2 (of_int n)"
  define k where "k = max (l - 52) (-1074)"
  have "(2::rat) powi l \<le> 2 powi 53"
    using ilog2_bounds(1) [OF pos] assms(2)
    by (simp add: l_def power_int_def)
  moreover have "(2::rat) powi 54 \<le> 2 powi l" if "54 \<le> l"
    using that by (intro power_int_increasing) auto
  ultimately have l53: "l \<le> 53" by (cases "54 \<le> l") auto
  have key: "\<exists>m. of_int n / (2::rat) powi k = of_int m"
  proof (cases "k \<le> 0")
    case True
    then have "of_int n / (2::rat) powi k = of_int (n * 2 ^ nat (- k))"
      by (simp add: power_int_def field_simps)
    then show ?thesis by blast
  next
    case False
    with l53 have kl: "k = 1" "l = 53" by (auto simp: k_def)
    with ilog2_bounds(1) [OF pos] have "(2::rat) ^ 53 \<le> of_int n" by (simp add: l_def power_int_def)
    then have "2 ^ 53 \<le> n" by (metis of_int_le_iff of_int_numeral of_int_power)
    with assms(2) have "n = 2 * 2 ^ 52" by simp
    with kl show ?thesis by (intro exI [of _ "2 ^ 52"]) (simp add: power_int_def)
  qed
  then obtain m where m: "of_int n / (2::rat) powi k = of_int m" by blast
  have "f64 (of_int n) = of_int (round_even (of_int n / 2 powi k)) * 2 powi k"
    using pos by (simp add: f64_def Let_def k_def l_def)
  also have "\<dots> = of_int n / 2 powi k * 2 powi k" by (simp only: m round_even_of_int)
  finally show ?thesis by simp
qed

lemma f64_one [simp]: "f64 1 = 1"
  using f64_of_int_exact [of 1] by simp

text \<open>How a literal that no \<open>float64\<close> represents compares with zero and one.\<close>

lemma f64_literal [simp]:
  "0 \<le> x \<Longrightarrow> \<not> f64 x < 0" "0 \<le> x \<Longrightarrow> x \<le> 1 \<Longrightarrow> \<not> 1 < f64 x" "1 \<le> x \<Longrightarrow> \<not> f64 x < 1"
  using f64_nonneg [of x] f64_mono [of x 1] f64_mono [of 1 x] by simp_all

section \<open>Converting back\<close>

lemma f64_to_i64_nonneg: "0 \<le> x \<Longrightarrow> x < 2 ^ 63 \<Longrightarrow> f64_to_i64 x = \<lfloor>x\<rfloor>"
  using zero_le_floor [of x] by (simp add: f64_to_i64_def in_i64_def floor_less_iff)

lemma f64_to_i64_in [simp]: "in_i64 (f64_to_i64 x)"
  by (simp add: f64_to_i64_def Let_def in_i64_def)

text \<open>Scaling an integer by a factor of at least one does not lower it.\<close>

lemma f64_scale_ge:
  assumes "0 \<le> n" and "n \<le> 2 ^ 53" and "1 \<le> c" and "f64_mult (f64_of_i64 n) c < 2 ^ 63"
  shows "n \<le> f64_to_i64 (f64_mult (f64_of_i64 n) c)"
proof -
  have "of_int n * 1 \<le> of_int n * c"
    using assms by (intro mult_left_mono) auto
  then have "f64 (of_int n) \<le> f64 (of_int n * c)"
    using assms(1) by (intro f64_mono) auto
  then have "of_int n \<le> f64_mult (f64_of_i64 n) c"
    using assms(1,2) by (simp add: f64_mult_def f64_of_i64_def f64_of_int_exact)
  with assms(1,4) show ?thesis
    by (subst f64_to_i64_nonneg) (auto simp: le_floor_iff intro: order_trans [of 0 "of_int n"])
qed

text \<open>A share of a whole is between zero and one, after rounding too.\<close>

lemma f64_share:
  assumes "0 \<le> a" and "a \<le> b"
  shows "0 \<le> f64_div (f64_of_i64 a) (f64_of_i64 b) \<and> f64_div (f64_of_i64 a) (f64_of_i64 b) \<le> 1"
proof -
  have a: "0 \<le> f64_of_i64 a" "f64_of_i64 a \<le> f64_of_i64 b"
    using assms by (auto simp: f64_of_i64_def intro: f64_nonneg f64_mono)
  then have "0 \<le> f64_of_i64 a / f64_of_i64 b" "f64_of_i64 a / f64_of_i64 b \<le> 1"
    by (auto simp: divide_le_eq_1)
  then show ?thesis
    using f64_nonneg f64_mono [of "f64_of_i64 a / f64_of_i64 b" 1] by (simp add: f64_div_def)
qed

end
