(* ===== verification/Retry.thy ===== *)
theory Retry
  imports Float64
begin

text \<open>
  \<open>pkg/retry/retry.go\<close>: the configuration and its check, the delay arithmetic, and the
  retry loop that every client of the backend goes through. The operation and the
  environment (context, clock, random source) act on a state of any type; the loop threads
  it. The locale \<open>retry_client\<close> is the contract by which a component that retries an
  operation keeps its own invariant.
\<close>

section \<open>Configuration\<close>

record 'e RetryConfig =
  MaxRetries :: int
  InitialDelay :: int
  MaxDelay :: int
  BackoffFactor :: float64
  JitterFactor :: float64
  LogRetryAttempt :: bool
  ShouldRetry :: "('e \<Rightarrow> int \<Rightarrow> bool) option"

definition second :: int where "second = 1000000000"
definition millisecond :: int where "millisecond = 1000000"

definition DefaultRetryConfig :: "'e RetryConfig" where
  "DefaultRetryConfig =
     \<lparr>MaxRetries = 5, InitialDelay = second, MaxDelay = 30 * second, BackoffFactor = 2,
      JitterFactor = f64 (2 / 10), LogRetryAttempt = True, ShouldRetry = None\<rparr>"

datatype config_error =
  MaxRetriesNegative | InitialDelayNotPositive | MaxDelayNotPositive
| BackoffBelowOne | JitterOutOfRange

definition Validate :: "'e RetryConfig \<Rightarrow> config_error option" where
  "Validate c =
     (if MaxRetries c < 0 then Some MaxRetriesNegative
      else if InitialDelay c \<le> 0 then Some InitialDelayNotPositive
      else if MaxDelay c \<le> 0 then Some MaxDelayNotPositive
      else if BackoffFactor c < 1 then Some BackoffBelowOne
      else if JitterFactor c < 0 \<or> 1 < JitterFactor c then Some JitterOutOfRange
      else None)"

lemma Validate_None:
  "Validate c = None \<longleftrightarrow> 0 \<le> MaxRetries c \<and> 0 < InitialDelay c \<and> 0 < MaxDelay c \<and>
     1 \<le> BackoffFactor c \<and> 0 \<le> JitterFactor c \<and> JitterFactor c \<le> 1"
  by (auto simp: Validate_def)

section \<open>Delays\<close>

text \<open>
  The random source either fills eight bytes, read as a big-endian number, or fails and
  the code falls back on the value of \<open>math/rand\<close>.
\<close>

definition SecureFloat64 :: "64 word option \<Rightarrow> float64 \<Rightarrow> float64" where
  "SecureFloat64 rnd fallback =
     (case rnd of None \<Rightarrow> fallback
      | Some w \<Rightarrow> f64_div (f64 (of_int (uint w))) (2 ^ 64))"

definition CalculateDelayWithJitter :: "int \<Rightarrow> float64 \<Rightarrow> float64 \<Rightarrow> int" where
  "CalculateDelayWithJitter baseDelay jitterFactor u =
     (if 0 < jitterFactor
      then i64 (baseDelay + f64_to_i64 (f64_mult (f64_mult jitterFactor (f64_of_i64 baseDelay)) u))
      else baseDelay)"

definition CalculateNextDelay :: "int \<Rightarrow> float64 \<Rightarrow> int \<Rightarrow> int" where
  "CalculateNextDelay currentDelay backoffFactor maxDelay =
     (let nextDelay = f64_to_i64 (f64_mult (f64_of_i64 currentDelay) backoffFactor)
      in if maxDelay < nextDelay then maxDelay else nextDelay)"

fun delay_after :: "'e RetryConfig \<Rightarrow> nat \<Rightarrow> int" where
  "delay_after c 0 = InitialDelay c"
| "delay_after c (Suc n) = CalculateNextDelay (delay_after c n) (BackoffFactor c) (MaxDelay c)"

section \<open>The loop\<close>

datatype 'e retry_error =
  InvalidConfig config_error | CtxDone 'e | OpError 'e | Exhausted int "'e option"

definition config_msg :: "config_error \<Rightarrow> string" where
  "config_msg e =
     (case e of
        MaxRetriesNegative \<Rightarrow> ''MaxRetries must be >= 0''
      | InitialDelayNotPositive \<Rightarrow> ''InitialDelay must be positive''
      | MaxDelayNotPositive \<Rightarrow> ''MaxDelay must be positive''
      | BackoffBelowOne \<Rightarrow> ''BackoffFactor must be >= 1.0''
      | JitterOutOfRange \<Rightarrow> ''JitterFactor must be between 0.0 and 1.0'')"

text \<open>The error that the caller gets. After no attempt at all the code wraps a nil error.\<close>

definition retry_cause :: "go_error retry_error \<Rightarrow> go_error" where
  "retry_cause e =
     (case e of
        InvalidConfig c \<Rightarrow> Wrap ''invalid retry config'' (GoErr (config_msg c))
      | CtxDone m \<Rightarrow> m
      | OpError m \<Rightarrow> m
      | Exhausted n m \<Rightarrow> Wrap (''operation failed after '' @ show_int n @ '' attempts'')
          (case m of Some t \<Rightarrow> t | None \<Rightarrow> GoErr ''%!w(<nil>)''))"

record ('s, 'e) retry_env =
  ctx_err :: "'s \<Rightarrow> 'e option"
  wait_timer :: "int \<Rightarrow> 's \<Rightarrow> 'e option \<times> 's"
  rand_source :: "'s \<Rightarrow> (64 word option \<times> float64) \<times> 's"

definition may_retry :: "'e RetryConfig \<Rightarrow> 'e \<Rightarrow> int \<Rightarrow> bool" where
  "may_retry c e n = (case ShouldRetry c of None \<Rightarrow> True | Some p \<Rightarrow> p e n)"

definition jittered :: "('s, 'e) retry_env \<Rightarrow> 'e RetryConfig \<Rightarrow> int \<Rightarrow> 's \<Rightarrow> int \<times> 's" where
  "jittered env c delay s =
     (if 0 < JitterFactor c
      then (case rand_source env s of ((rnd, fb), s') \<Rightarrow>
              (CalculateDelayWithJitter delay (JitterFactor c) (SecureFloat64 rnd fb), s'))
      else (CalculateDelayWithJitter delay (JitterFactor c) 0, s))"

function Retry_loop ::
  "('s, 'e) retry_env \<Rightarrow> ('s \<Rightarrow> ('e + 'a) \<times> 's) \<Rightarrow> 'e RetryConfig \<Rightarrow> int \<Rightarrow> int \<Rightarrow> 'e option \<Rightarrow> 's
     \<Rightarrow> ('e retry_error + 'a) \<times> 's" where
  "Retry_loop env operation c attempt delay err s =
     (if attempt < MaxRetries c then
        (case ctx_err env s of
           Some e \<Rightarrow> (Inl (CtxDone e), s)
         | None \<Rightarrow>
             (case operation s of
                (Inr result, s1) \<Rightarrow> (Inr result, s1)
              | (Inl opErr, s1) \<Rightarrow>
                  if \<not> may_retry c opErr (attempt + 1) then (Inl (OpError opErr), s1)
                  else
                    (case jittered env c delay s1 of (sleepDuration, s2) \<Rightarrow>
                       (case wait_timer env sleepDuration s2 of
                          (None, s3) \<Rightarrow>
                            Retry_loop env operation c (attempt + 1)
                              (CalculateNextDelay delay (BackoffFactor c) (MaxDelay c)) (Some opErr) s3
                        | (Some e, s3) \<Rightarrow> (Inl (CtxDone e), s3)))))
      else (Inl (Exhausted (MaxRetries c) err), s))"
  by pat_completeness auto
termination
  by (relation "measure (\<lambda>(env, operation, c, attempt, delay, err, s). nat (MaxRetries c - attempt))") auto

declare Retry_loop.simps [simp del]

definition Retry ::
  "('s, 'e) retry_env \<Rightarrow> ('s \<Rightarrow> ('e + 'a) \<times> 's) \<Rightarrow> 'e RetryConfig option \<Rightarrow> 's
     \<Rightarrow> ('e retry_error + 'a) \<times> 's" where
  "Retry env operation retryConfig s =
     (case retryConfig of
        None \<Rightarrow> (let c = DefaultRetryConfig in Retry_loop env operation c 0 (InitialDelay c) None s)
      | Some c \<Rightarrow>
          (case Validate c of
             Some e \<Rightarrow> (Inl (InvalidConfig e), s)
           | None \<Rightarrow> Retry_loop env operation c 0 (InitialDelay c) None s))"

definition RetryFunc ::
  "('s, 'e) retry_env \<Rightarrow> ('s \<Rightarrow> 'e option \<times> 's) \<Rightarrow> 'e RetryConfig option \<Rightarrow> 's
     \<Rightarrow> 'e retry_error option \<times> 's" where
  "RetryFunc env operation config s =
     (case Retry env
             (\<lambda>s. case operation s of (None, s') \<Rightarrow> (Inr (), s') | (Some e, s') \<Rightarrow> (Inl e, s')) config s of
        (Inl e, s') \<Rightarrow> (Some e, s')
      | (Inr _, s') \<Rightarrow> (None, s'))"

section \<open>What a client may rely on\<close>

locale retry_client =
  fixes env :: "('s, 'e) retry_env"
    and operation :: "'s \<Rightarrow> ('e + 'a) \<times> 's"
    and inv :: "'s \<Rightarrow> bool"
    and good :: "'a \<Rightarrow> 's \<Rightarrow> bool"
  assumes op_inv: "inv s \<Longrightarrow> operation s = (r, s') \<Longrightarrow> inv s'"
    and op_good: "inv s \<Longrightarrow> operation s = (Inr v, s') \<Longrightarrow> good v s'"
    and timer_inv: "inv s \<Longrightarrow> wait_timer env d s = (r', s') \<Longrightarrow> inv s'"
    and rand_inv: "inv s \<Longrightarrow> rand_source env s = (u, s') \<Longrightarrow> inv s'"
begin

lemma jittered_inv: "inv s \<Longrightarrow> jittered env c d s = (r, s') \<Longrightarrow> inv s'"
  by (auto simp: jittered_def split: if_splits prod.splits dest: rand_inv)

lemma attempt_inv:
  "inv s \<Longrightarrow> operation s = (Inl e, s1) \<Longrightarrow> jittered env c d s1 = (d', s2) \<Longrightarrow>
     wait_timer env d' s2 = (r', s3) \<Longrightarrow> inv s3"
  by (blast dest: op_inv jittered_inv timer_inv)

lemma loop_inv:
  "inv s \<Longrightarrow> Retry_loop env operation c n d err s = (r, s') \<Longrightarrow>
     inv s' \<and> (\<forall>v. r = Inr v \<longrightarrow> good v s')"
proof (induction "nat (MaxRetries c - n)" arbitrary: n d err s r s' rule: less_induct)
  case less
  have IH: "inv t \<Longrightarrow> n < MaxRetries c \<Longrightarrow> Retry_loop env operation c (n + 1) d' err' t = (r', t') \<Longrightarrow>
      inv t' \<and> (\<forall>v. r' = Inr v \<longrightarrow> good v t')" for t d' err' r' t'
    by (rule less.hyps) auto
  show ?case
    using less.prems
    by (subst (asm) Retry_loop.simps)
      (auto split: if_splits option.splits prod.splits sum.splits
        dest: op_inv op_good attempt_inv IH [rotated 2])
qed

lemma Retry_inv:
  "inv s \<Longrightarrow> Retry env operation cfg s = (r, s') \<Longrightarrow> inv s' \<and> (\<forall>v. r = Inr v \<longrightarrow> good v s')"
  by (auto simp: Retry_def Let_def split: option.splits dest: loop_inv)

end

section \<open>How many times the operation runs\<close>

lemma loop_calls:
  fixes calls :: "'s \<Rightarrow> nat"
  assumes "\<And>s. calls (snd (operation s)) = Suc (calls s)"
    and "\<And>d s. calls (snd (wait_timer env d s)) = calls s"
    and "\<And>s. calls (snd (rand_source env s)) = calls s"
    and "Retry_loop env operation c n d err s = (r, s')"
  shows "calls s' \<le> calls s + nat (MaxRetries c - n) \<and>
    (\<forall>m e. r = Inl (Exhausted m e) \<longrightarrow> calls s' = calls s + nat (MaxRetries c - n))"
  using assms(4)
proof (induction "nat (MaxRetries c - n)" arbitrary: n d err s rule: less_induct)
  case less
  have jit: "calls t' = calls t" if "jittered env c d t = (x, t')" for x t t'
    using that assms(3) [of t] by (auto simp: jittered_def split: if_splits prod.splits)
  have op: "calls t' = Suc (calls t)" if "operation t = (x, t')" for x t t'
    using assms(1) [of t] that by simp
  have tim: "calls t' = calls t" if "wait_timer env k t = (x, t')" for k x t t'
    using assms(2) [of k t] that by simp
  show ?case
  proof (cases "n < MaxRetries c")
    case False
    with less.prems show ?thesis by (auto simp: Retry_loop.simps [of env operation c n])
  next
    case True
    then have N: "nat (MaxRetries c - n) = Suc (nat (MaxRetries c - (n + 1)))" by simp
    have IH: "Retry_loop env operation c (n + 1) d' err' t = (r, s') \<Longrightarrow>
       calls s' \<le> calls t + nat (MaxRetries c - (n + 1)) \<and>
       (\<forall>m e. r = Inl (Exhausted m e) \<longrightarrow> calls s' = calls t + nat (MaxRetries c - (n + 1)))" for t d' err'
      using True by (intro less.hyps) auto
    show ?thesis
      using less.prems True
      by (subst (asm) Retry_loop.simps)
        (auto simp: N split: if_splits option.splits prod.splits sum.splits dest!: op jit tim IH)
  qed
qed

text \<open>
  With a context that is never cancelled, the loop skips the attempts that fail with an
  error worth retrying, and reaches attempt \<open>k\<close> with the delay and the last error of
  the attempts before it.
\<close>

definition calm :: "('s, 'e) retry_env \<Rightarrow> bool" where
  "calm env \<longleftrightarrow> (\<forall>s. ctx_err env s = None) \<and> (\<forall>d s. wait_timer env d s = (None, s)) \<and>
     (\<forall>s. snd (rand_source env s) = s)"

lemma calm_jittered: "calm env \<Longrightarrow> \<exists>x. jittered env c d s = (x, s)"
  by (cases "rand_source env s")
     (force simp: jittered_def calm_def split: prod.splits dest: spec [of _ s])

lemma loop_skip:
  assumes "calm env" and "int k \<le> MaxRetries c"
    and "\<And>j. j < k \<Longrightarrow> out j = Inl (fails j) \<and> may_retry c (fails j) (int j + 1)"
  shows "Retry_loop env (\<lambda>n. (out n, Suc n)) c 0 (InitialDelay c) None 0 =
    Retry_loop env (\<lambda>n. (out n, Suc n)) c (int k) (delay_after c k)
      (if k = 0 then None else Some (fails (k - 1))) k"
  using assms(2,3)
proof (induction k)
  case 0
  then show ?case by simp
next
  case (Suc k)
  obtain x where "jittered env c (delay_after c k) (Suc k) = (x, Suc k)"
    using calm_jittered [OF assms(1)] by blast
  with Suc assms(1) show ?case
    by (simp add: Retry_loop.simps [of env _ c "int k"] calm_def add.commute)
qed

text \<open>A first attempt that succeeds ends the loop.\<close>

lemma Retry_at_once:
  assumes "Validate c = None" and "0 < MaxRetries c" and "ctx_err env s = None" and "operation s = (Inr v, s')"
  shows "Retry env operation (Some c) s = (Inr v, s')"
  using assms by (simp add: Retry_def Retry_loop.simps [of env operation c 0])

text \<open>When the predicate stops retrying from attempt \<open>m\<close> on, the operation runs at most \<open>m\<close> times.\<close>

lemma loop_calls_until:
  fixes calls :: "'s \<Rightarrow> nat" and ok :: "'s \<Rightarrow> bool"
  assumes op: "\<And>s r s'. ok s \<Longrightarrow> operation s = (r, s') \<Longrightarrow>
      ok s' \<and> calls s' = Suc (calls s) \<and> (\<exists>e. r = Inl e \<and> (\<forall>a. may_retry c e a \<longrightarrow> a < m))"
    and timer: "\<And>d s r s'. ok s \<Longrightarrow> wait_timer env d s = (r, s') \<Longrightarrow> ok s' \<and> calls s' = calls s"
    and rand: "\<And>s r s'. ok s \<Longrightarrow> rand_source env s = (r, s') \<Longrightarrow> ok s' \<and> calls s' = calls s"
  shows "ok s \<Longrightarrow> n < m \<Longrightarrow> Retry_loop env operation c n d err s = (r, s') \<Longrightarrow>
    calls s' \<le> calls s + nat (m - n) \<and> (\<exists>e. r = Inl e)"
proof (induction "nat (MaxRetries c - n)" arbitrary: n d err s rule: less_induct)
  case less
  have jit: "ok t' \<and> calls t' = calls t" if "ok t" "jittered env c d t = (x, t')" for d x t t'
    using that rand by (auto simp: jittered_def split: if_splits prod.splits)
  show ?case
  proof (cases "n < MaxRetries c \<and> ctx_err env s = None")
    case False
    then show ?thesis using less.prems(3) by (subst (asm) Retry_loop.simps) (auto split: if_splits option.splits)
  next
    case True
    obtain x s1 where x: "operation s = (x, s1)" by force
    from op [OF less.prems(1) x] obtain e where e: "x = Inl e" "ok s1" "calls s1 = Suc (calls s)"
      "may_retry c e (n + 1) \<Longrightarrow> n + 1 < m" by auto
    show ?thesis
    proof (cases "may_retry c e (n + 1)")
      case False
      then show ?thesis using less.prems(2,3) True x e by (subst (asm) Retry_loop.simps) auto
    next
      case retried: True
      obtain d' s2 where d: "jittered env c d s1 = (d', s2)" by force
      obtain z s3 where z: "wait_timer env d' s2 = (z, s3)" by force
      have s3: "ok s3" "calls s3 = Suc (calls s)" using jit [OF e(2) d] timer [OF _ z] e(3) by auto
      show ?thesis
      proof (cases z)
        case (Some e')
        then show ?thesis using less.prems(2,3) True x e d z s3 retried by (subst (asm) Retry_loop.simps) auto
      next
        case None
        then have "Retry_loop env operation c (n + 1) (CalculateNextDelay d (BackoffFactor c) (MaxDelay c)) (Some e) s3 = (r, s')"
          using less.prems(3) True x e(1) d z retried by (subst (asm) Retry_loop.simps) simp
        from less.hyps [OF _ s3(1) e(4) [OF retried] this] True e(4) [OF retried] s3(2) show ?thesis by auto
      qed
    qed
  qed
qed

section \<open>Properties\<close>

text \<open>
  C37: a retried operation runs at most \<open>MaxRetries\<close> times, and when the loop reports that
  every attempt failed it has run exactly that often.
\<close>

theorem Retry_calls_bounded:
  fixes calls :: "'s \<Rightarrow> nat"
  assumes "\<And>s. calls (snd (operation s)) = Suc (calls s)"
    and "\<And>d s. calls (snd (wait_timer env d s)) = calls s"
    and "\<And>s. calls (snd (rand_source env s)) = calls s"
    and "Retry env operation (Some c) s = (r, s')"
  shows "calls s' \<le> calls s + nat (MaxRetries c) \<and>
    (\<forall>m e. r = Inl (Exhausted m e) \<longrightarrow> calls s' = calls s + nat (MaxRetries c))"
proof (cases "Validate c")
  case None
  with assms(4) have "Retry_loop env operation c 0 (InitialDelay c) None s = (r, s')"
    by (simp add: Retry_def)
  from loop_calls [OF assms(1-3) this] show ?thesis by simp
next
  case (Some e)
  with assms(4) show ?thesis by (auto simp: Retry_def)
qed

definition quiet_env :: "(nat, string) retry_env" where
  "quiet_env = \<lparr>ctx_err = (\<lambda>_. None), wait_timer = (\<lambda>_ s. (None, s)),
     rand_source = (\<lambda>s. ((Some 0, 0), s))\<rparr>"

lemma calm_quiet [simp]: "calm quiet_env"
  by (simp add: calm_def quiet_env_def)

theorem Retry_calls_bounded_witness:
  "\<exists>r s'. Retry quiet_env (\<lambda>n. (Inl ''timeout'' :: string + unit, Suc n)) (Some DefaultRetryConfig) 0 = (r, s') \<and>
     s' \<le> 5"
proof -
  obtain r s' where R: "Retry quiet_env (\<lambda>n. (Inl ''timeout'' :: string + unit, Suc n))
      (Some DefaultRetryConfig) 0 = (r, s')" by fastforce
  have "s' \<le> 0 + nat (MaxRetries (DefaultRetryConfig :: string RetryConfig))"
    using Retry_calls_bounded [where calls = "\<lambda>n. n" and env = quiet_env, OF _ _ _ R]
    by (simp add: quiet_env_def)
  with R show ?thesis by (auto simp: DefaultRetryConfig_def)
qed

text \<open>
  with a context that is never cancelled, if attempt \<open>k\<close> (below \<open>MaxRetries\<close>) is the
  first to succeed and every earlier error is one the predicate allows to retry, the loop
  returns that attempt's value, after exactly \<open>k + 1\<close> runs of the operation.
\<close>

theorem Retry_first_success:
  assumes "calm env" and "Validate c = None" and "int k < MaxRetries c" and "out k = Inr v"
    and "\<And>j. j < k \<Longrightarrow> out j = Inl (fails j) \<and> may_retry c (fails j) (int j + 1)"
  shows "Retry env (\<lambda>n. (out n, Suc n)) (Some c) 0 = (Inr v, Suc k)"
proof -
  have "Retry env (\<lambda>n. (out n, Suc n)) (Some c) 0 =
      Retry_loop env (\<lambda>n. (out n, Suc n)) c (int k) (delay_after c k)
        (if k = 0 then None else Some (fails (k - 1))) k"
    using loop_skip [OF assms(1) _ assms(5), of k] assms(2,3) by (simp add: Retry_def)
  with assms show ?thesis
    by (simp add: Retry_loop.simps [of env _ c "int k"] calm_def)
qed

theorem Retry_first_success_witness:
  "Retry quiet_env (\<lambda>n. (if n < 2 then Inl ''timeout'' else Inr n, Suc n)) (Some DefaultRetryConfig) 0
     = (Inr 2, 3)"
  using Retry_first_success [of quiet_env DefaultRetryConfig 2
      "\<lambda>n. if n < 2 then Inl ''timeout'' else Inr n" 2 "\<lambda>_. ''timeout''"]
  by (simp add: DefaultRetryConfig_def Validate_def second_def may_retry_def numeral_3_eq_3)

text \<open>
  with a context that is never cancelled, if every one of the \<open>MaxRetries\<close> attempts
  fails with an error worth retrying, the loop reports exhaustion with the last error; with
  \<open>MaxRetries\<close> zero it does so without running the operation at all.
\<close>

theorem Retry_exhausted:
  assumes "calm env" and "Validate c = None" and "MaxRetries c = int k"
    and "\<And>j. j < k \<Longrightarrow> out j = Inl (fails j) \<and> may_retry c (fails j) (int j + 1)"
  shows "Retry env (\<lambda>n. (out n, Suc n)) (Some c) 0 =
    (Inl (Exhausted (int k) (if k = 0 then None else Some (fails (k - 1)))), k)"
  using loop_skip [OF assms(1) _ assms(4), of k] assms(2,3)
  by (simp add: Retry_def Retry_loop.simps [of env _ c "int k"])

theorem Retry_exhausted_witness:
  "Retry quiet_env (\<lambda>n. (Inl ''dial'', Suc n)) (Some DefaultRetryConfig) 0 =
     (Inl (Exhausted 5 (Some ''dial'')) :: string retry_error + unit, 5)"
  using Retry_exhausted [of quiet_env DefaultRetryConfig 5 "\<lambda>_. Inl ''dial''" "\<lambda>_. ''dial''"]
  by (simp add: DefaultRetryConfig_def Validate_def second_def may_retry_def)

section \<open>Delay bounds\<close>

lemma uint_minus1: "uint (- 1 :: 64 word) = 2 ^ 64 - 1"
  by (simp add: unsigned_minus_1_eq_mask mask_eq_exp_minus_1)

lemma next_delay_bounds:
  assumes "0 < d" and "d \<le> m" and "m \<le> 2 ^ 53" and "1 \<le> b"
    and "f64_mult (f64_of_i64 m) b < 2 ^ 63"
  shows "d \<le> CalculateNextDelay d b m" and "CalculateNextDelay d b m \<le> m"
proof -
  have "of_int d * b \<le> of_int m * b"
    using assms by (intro mult_right_mono) auto
  moreover have "0 \<le> of_int d * b" using assms by simp
  ultimately have "f64_mult (f64_of_i64 d) b < 2 ^ 63"
    using assms f64_mono [of "of_int d * b" "of_int m * b"]
    by (simp add: f64_mult_def f64_of_i64_def f64_of_int_exact)
  then have "d \<le> f64_to_i64 (f64_mult (f64_of_i64 d) b)"
    using assms by (intro f64_scale_ge) auto
  with assms show "d \<le> CalculateNextDelay d b m" and "CalculateNextDelay d b m \<le> m"
    by (simp_all add: CalculateNextDelay_def Let_def)
qed

lemma delay_after_range:
  assumes "Validate c = None" and "InitialDelay c \<le> MaxDelay c" and "MaxDelay c \<le> 2 ^ 53"
    and "f64_mult (f64_of_i64 (MaxDelay c)) (BackoffFactor c) < 2 ^ 63"
  shows "0 < delay_after c n \<and> delay_after c n \<le> MaxDelay c"
  using assms
proof (induction n)
  case 0
  then show ?case by (simp add: Validate_None)
next
  case (Suc n)
  then have n: "0 < delay_after c n" "delay_after c n \<le> MaxDelay c" by auto
  with Suc.prems next_delay_bounds [OF n, of "BackoffFactor c"] show ?case
    by (auto simp: Validate_None)
qed

text \<open>
  under a valid configuration whose initial delay does not exceed its maximum, whose
  maximum is at most \<open>2^53\<close> nanoseconds (about 104 days) and whose product with the backoff
  factor fits an \<open>int64\<close>, the base delays are positive, never shrink from one attempt to
  the next, and never exceed the maximum, rounding of the float arithmetic included.
\<close>

theorem delay_after_bounds:
  assumes "Validate c = None" and "InitialDelay c \<le> MaxDelay c" and "MaxDelay c \<le> 2 ^ 53"
    and "f64_mult (f64_of_i64 (MaxDelay c)) (BackoffFactor c) < 2 ^ 63"
  shows "0 < delay_after c n \<and> delay_after c n \<le> delay_after c (Suc n) \<and>
    delay_after c (Suc n) \<le> MaxDelay c"
proof -
  have n: "0 < delay_after c n" "delay_after c n \<le> MaxDelay c"
    using delay_after_range [OF assms] by auto
  with next_delay_bounds [OF n assms(3) _ assms(4)] assms(1) show ?thesis
    by (auto simp: Validate_None)
qed

theorem delay_after_bounds_witness:
  "delay_after (DefaultRetryConfig :: string RetryConfig) 3 \<le> delay_after (DefaultRetryConfig :: string RetryConfig) 4"
proof -
  have "f64_mult (f64_of_i64 (MaxDelay (DefaultRetryConfig :: string RetryConfig)))
      (BackoffFactor (DefaultRetryConfig :: string RetryConfig)) < 2 ^ 63"
    by code_simp
  then show ?thesis
    using delay_after_bounds [of "DefaultRetryConfig :: string RetryConfig" 3]
    by (simp add: DefaultRetryConfig_def Validate_def second_def numeral_eq_Suc)
qed

text \<open>
  jitter only lengthens a sleep, and at most doubles it: for a jitter factor and a
  random value between 0 and 1 the sleep lies between the base delay and twice the base
  delay.
\<close>

theorem jitter_bounds:
  assumes "0 \<le> d" and "d \<le> 2 ^ 53" and "j \<le> 1" and "0 \<le> u" and "u \<le> 1"
  shows "d \<le> CalculateDelayWithJitter d j u \<and> CalculateDelayWithJitter d j u \<le> 2 * d"
proof (cases "0 < j")
  case False
  with assms show ?thesis by (simp add: CalculateDelayWithJitter_def)
next
  case True
  define x where "x = f64_mult (f64_mult j (f64_of_i64 d)) u"
  have d: "f64_of_i64 d = of_int d"
    using assms by (simp add: f64_of_i64_def f64_of_int_exact)
  have "j * of_int d \<le> of_int d" using assms True by (simp add: mult_left_le_one_le)
  then have jd: "0 \<le> f64_mult j (f64_of_i64 d)" "f64_mult j (f64_of_i64 d) \<le> of_int d"
    using assms True f64_mono [of "j * of_int d" "of_int d"]
    by (simp_all add: f64_mult_def d f64_nonneg f64_of_int_exact)
  then have "f64_mult j (f64_of_i64 d) * u \<le> of_int d"
    using assms by (meson mult_left_le order_trans)
  then have x: "0 \<le> x" "x \<le> of_int d"
    using assms jd f64_mono [of "f64_mult j (f64_of_i64 d) * u" "of_int d"]
    by (simp_all add: x_def f64_mult_def f64_nonneg f64_of_int_exact)
  with assms(2) have "x < 2 ^ 63" by simp
  with x have "f64_to_i64 x = \<lfloor>x\<rfloor>" by (intro f64_to_i64_nonneg)
  moreover have fl: "0 \<le> \<lfloor>x\<rfloor>" "\<lfloor>x\<rfloor> \<le> d" using x by (auto simp: floor_le_iff)
  moreover have "in_i64 (d + f)" if "0 \<le> f" "f \<le> d" for f
    using that assms(1,2) by (simp add: in_i64_def)
  from this [OF fl] have "in_i64 (d + \<lfloor>x\<rfloor>)" .
  ultimately show ?thesis using True
    by (simp add: CalculateDelayWithJitter_def flip: x_def)
qed

theorem jitter_bounds_witness:
  "second \<le> CalculateDelayWithJitter second (2 / 10) (1 / 2)"
  using jitter_bounds [of second "2 / 10" "1 / 2"] by (simp add: second_def)

text \<open>
  the random value lies between 0 and 1, but the upper end is reached: the largest
  64-bit draw rounds up to \<open>2^64\<close> before the division, so \<open>SecureFloat64\<close> returns 1
  although its comment promises a value below 1.
\<close>

theorem SecureFloat64_range:
  "0 \<le> SecureFloat64 (Some w) fb \<and> SecureFloat64 (Some w) fb \<le> 1 \<and>
   SecureFloat64 (Some (- 1)) fb = 1"
proof -
  define n where "n = uint w"
  have "0 \<le> n" "n \<le> 2 ^ 64" using uint_bounded [of w] by (simp_all add: n_def)
  then have n: "0 \<le> (of_int n :: rat)" "(of_int n :: rat) \<le> 2 ^ 64"
    by (simp, metis of_int_le_iff of_int_numeral of_int_power)
  then have "f64 (of_int n) \<le> f64 (2 ^ 64)" by (intro f64_mono) auto
  also have "f64 (2 ^ 64) = 2 ^ 64" by code_simp
  finally have "f64 (of_int n) / 2 ^ 64 \<le> 1" by simp
  moreover have "0 \<le> f64 (of_int n) / 2 ^ 64" using n by (simp add: f64_nonneg)
  moreover have "f64 1 = 1" using f64_of_int_exact [of 1] by simp
  ultimately have "0 \<le> SecureFloat64 (Some w) fb" "SecureFloat64 (Some w) fb \<le> 1"
    using f64_mono [of "f64 (of_int n) / 2 ^ 64" 1]
    unfolding SecureFloat64_def f64_div_def option.case n_def [symmetric]
    by (auto intro: f64_nonneg)
  moreover have "f64_div (f64 (of_int (2 ^ 64 - 1))) (2 ^ 64) = 1" by code_simp
  then have "SecureFloat64 (Some (- 1)) fb = 1"
    unfolding SecureFloat64_def option.case
    by (subst uint_minus1) simp
  ultimately show ?thesis by simp
qed

end
