(* ===== verification/Redis_Client.thy ===== *)
theory Redis_Client
  imports Retry Queries
begin

text \<open>
  The wrapper of the Redis client (\<open>pkg/client/redis\<close>): which errors are worth a retry, the retry loop that every command runs in with its counts, the
  commands that do more than to forward their reply, the distributed lock, and the recovery of the connection. A command of go-redis is a
  field of \<open>redis_api\<close>, on a world of any type. Durations in the metrics, the hooks for monitoring, pipelines and the report on the health of the server are left
  out.
\<close>

section \<open>Errors\<close>

datatype errno = ECONNREFUSED | ECONNRESET | OtherErrno string

text \<open>
  What go-redis returns: no such key, the end of the context, an error of the network with or without a timeout, or another text. \<open>WrapErr\<close> is \<open>%w\<close>,
  through which \<open>errors.Is\<close> and \<open>errors.As\<close> look.
\<close>

datatype redis_error =
  RedisNil | Canceled | DeadlineExceeded | NetTimeout string | OpErr errno | EndOfFile | OtherErr string | WrapErr string redis_error

fun isRetryableError :: "redis_error \<Rightarrow> bool" where
  "isRetryableError RedisNil = False"
| "isRetryableError Canceled = False"
| "isRetryableError DeadlineExceeded = False"
| "isRetryableError (NetTimeout _) = True"
| "isRetryableError (OpErr e) = (e = ECONNREFUSED \<or> e = ECONNRESET)"
| "isRetryableError EndOfFile = True"
| "isRetryableError (OtherErr _) = False"
| "isRetryableError (WrapErr _ e) = isRetryableError e"

section \<open>The client\<close>

record OperationMetrics =
  TotalCalls :: int
  ErrorCount :: int
  SuccessCount :: int
  RetryCount :: int
  LastError :: "redis_error option"

definition no_metrics :: OperationMetrics where
  "no_metrics = \<lparr>TotalCalls = 0, ErrorCount = 0, SuccessCount = 0, RetryCount = 0, LastError = None\<rparr>"

record 'w redis_client =
  Metrics :: "string \<rightharpoonup> OperationMetrics"
  IsRecovering :: bool
  LastHealthCheck :: int
  Redis :: 'w

text \<open>Replies have the type that go-redis gives them.\<close>

record 'w redis_api =
  CtxErr :: "'w \<Rightarrow> redis_error option"
  Sleep :: "int \<Rightarrow> 'w \<Rightarrow> redis_error option \<times> 'w"
  NanoClock :: "'w \<Rightarrow> int"
  PingCmd :: "'w \<Rightarrow> (redis_error + unit) \<times> 'w"
  GetCmd :: "string \<Rightarrow> 'w \<Rightarrow> (redis_error + string) \<times> 'w"
  SetNXCmd :: "string \<Rightarrow> string \<Rightarrow> int \<Rightarrow> 'w \<Rightarrow> (redis_error + bool) \<times> 'w"
  EvalCmd :: "string \<Rightarrow> string list \<Rightarrow> string list \<Rightarrow> 'w \<Rightarrow> (redis_error + redis_value) \<times> 'w"
  HGetCmd :: "string \<Rightarrow> string \<Rightarrow> 'w \<Rightarrow> (redis_error + string) \<times> 'w"
  ExpireXXCmd :: "string \<Rightarrow> int \<Rightarrow> 'w \<Rightarrow> (redis_error + bool) \<times> 'w"
  TTLCmd :: "string \<Rightarrow> 'w \<Rightarrow> (redis_error + int) \<times> 'w"
  ScanCmd :: "int \<Rightarrow> string \<Rightarrow> int \<Rightarrow> string \<Rightarrow> 'w \<Rightarrow> (redis_error + string list \<times> int) \<times> 'w"
  ExistsCmd :: "string \<Rightarrow> 'w \<Rightarrow> (redis_error + int) \<times> 'w"
  ZAddCmd :: "string \<Rightarrow> (int \<times> string) list \<Rightarrow> 'w \<Rightarrow> (redis_error + int) \<times> 'w"
  XGroupCreateCmd :: "string \<Rightarrow> string \<Rightarrow> 'w \<Rightarrow> (redis_error + unit) \<times> 'w"
  ErrorText :: "redis_error \<Rightarrow> string"
  Reconnect :: "'w \<Rightarrow> redis_error option \<times> 'w"

definition DefaultRedisRetryConfig :: "redis_error RetryConfig" where
  "DefaultRedisRetryConfig = DefaultRetryConfig\<lparr>MaxRetries := 3, InitialDelay := 100 * millisecond, MaxDelay := 5 * second, JitterFactor := f64 (1 / 10)\<rparr>"

definition on_redis :: "('w \<Rightarrow> 'r \<times> 'w) \<Rightarrow> 'w redis_client \<Rightarrow> 'r \<times> 'w redis_client" where
  "on_redis f c = (case f (Redis c) of (r, w) \<Rightarrow> (r, c\<lparr>Redis := w\<rparr>))"

definition count_op :: "string \<Rightarrow> (OperationMetrics \<Rightarrow> OperationMetrics) \<Rightarrow> 'w redis_client \<Rightarrow> 'w redis_client" where
  "count_op name f c = c\<lparr>Metrics := upsert no_metrics name f (Metrics c)\<rparr>"

definition trackOperationEnd :: "string \<Rightarrow> redis_error option \<Rightarrow> 'w redis_client \<Rightarrow> 'w redis_client" where
  "trackOperationEnd name err =
     count_op name (\<lambda>m. let m = m\<lparr>TotalCalls := i64 (TotalCalls m + 1)\<rparr> in
       case err of
         None \<Rightarrow> m\<lparr>SuccessCount := i64 (SuccessCount m + 1)\<rparr>
       | Some e \<Rightarrow> m\<lparr>ErrorCount := i64 (ErrorCount m + 1), LastError := Some e\<rparr>)"

definition trackRetryAttempt :: "string \<Rightarrow> 'w redis_client \<Rightarrow> 'w redis_client" where
  "trackRetryAttempt name = count_op name (\<lambda>m. m\<lparr>RetryCount := i64 (RetryCount m + 1)\<rparr>)"

section \<open>The retry loop\<close>

definition secureFloat64 :: "int \<Rightarrow> float64" where
  "secureFloat64 nanos = f64_div (f64_of_i64 (nanos mod 1000)) 1000"

definition calculateDelayWithJitter :: "int \<Rightarrow> float64 \<Rightarrow> int \<Rightarrow> int" where
  "calculateDelayWithJitter baseDelay jitterFactor nanos =
     (if 0 < jitterFactor
      then i64 (baseDelay + f64_to_i64 (f64_mult (f64_mult jitterFactor (f64_of_i64 baseDelay)) (secureFloat64 nanos)))
      else baseDelay)"

definition calculateNextDelay :: "int \<Rightarrow> float64 \<Rightarrow> int \<Rightarrow> int" where
  "calculateNextDelay currentDelay backoffFactor maxDelay =
     (let nextDelay = f64_to_i64 (f64_mult (f64_of_i64 currentDelay) backoffFactor) in if nextDelay > maxDelay then maxDelay else nextDelay)"

definition attempts_failed :: "int \<Rightarrow> redis_error option \<Rightarrow> redis_error" where
  "attempts_failed n lastErr =
     (let msg = ''operation failed after '' @ show_int n @ '' attempts'' in
      case lastErr of Some e \<Rightarrow> WrapErr msg e | None \<Rightarrow> OtherErr (msg @ '': %!w(<nil>)''))"

text \<open>An operation runs on the client: its closure may run a command and keep the reply.\<close>

function retry_attempts ::
  "'w redis_api \<Rightarrow> redis_error RetryConfig \<Rightarrow> ('w redis_client \<Rightarrow> (redis_error + 'a) \<times> 'w redis_client) \<Rightarrow> string \<Rightarrow> int \<Rightarrow> int \<Rightarrow> redis_error option \<Rightarrow>
     'w redis_client \<Rightarrow> (redis_error + 'a) \<times> 'w redis_client" where
  "retry_attempts api config operation name attempt delay lastErr c =
     (if attempt < MaxRetries config then
        (case CtxErr api (Redis c) of
           Some e \<Rightarrow> (Inl e, c)
         | None \<Rightarrow>
             (case operation c of
                (Inr a, c1) \<Rightarrow> (Inr a, trackOperationEnd name None c1)
              | (Inl err, c1) \<Rightarrow>
                  let c2 = trackOperationEnd name (Some err) c1 in
                  if \<not> isRetryableError err then (Inl err, c2)
                  else
                    let c3 = trackRetryAttempt name c2;
                        sleepDuration = calculateDelayWithJitter delay (JitterFactor config) (NanoClock api (Redis c3))
                    in (case on_redis (Sleep api sleepDuration) c3 of
                          (Some e, c4) \<Rightarrow> (Inl e, c4)
                        | (None, c4) \<Rightarrow>
                            retry_attempts api config operation name (attempt + 1)
                              (calculateNextDelay delay (BackoffFactor config) (MaxDelay config)) (Some err) c4)))
      else (Inl (attempts_failed (MaxRetries config) lastErr), c))"
  by pat_completeness auto
termination
  by (relation "measure (\<lambda>(api, config, operation, name, attempt, delay, lastErr, c). nat (MaxRetries config - attempt))") auto

declare retry_attempts.simps [simp del]

definition executeWithRetry ::
  "'w redis_api \<Rightarrow> redis_error RetryConfig option \<Rightarrow> ('w redis_client \<Rightarrow> (redis_error + 'a) \<times> 'w redis_client) \<Rightarrow> string \<Rightarrow>
     'w redis_client \<Rightarrow> (redis_error + 'a) \<times> 'w redis_client" where
  "executeWithRetry api retryConfig operation name c =
     (let config = (case retryConfig of None \<Rightarrow> DefaultRedisRetryConfig | Some k \<Rightarrow> k) in
      retry_attempts api config operation name 0 (InitialDelay config) None c)"

section \<open>Commands\<close>

text \<open>Every method has the default configuration unless the client was given another one.\<close>

definition run :: "'w redis_api \<Rightarrow> string \<Rightarrow> ('w \<Rightarrow> (redis_error + 'a) \<times> 'w) \<Rightarrow> 'w redis_client \<Rightarrow> (redis_error + 'a) \<times> 'w redis_client" where
  "run api name cmd = executeWithRetry api (Some DefaultRedisRetryConfig) (on_redis cmd) name"

definition then_reply :: "('w \<Rightarrow> (redis_error + 'a) \<times> 'w) \<Rightarrow> (redis_error + 'a \<Rightarrow> redis_error + 'b) \<Rightarrow> 'w \<Rightarrow> (redis_error + 'b) \<times> 'w" where
  "then_reply cmd f w = (case cmd w of (r, w') \<Rightarrow> (f r, w'))"

definition Get_r :: "'w redis_api \<Rightarrow> string \<Rightarrow> 'w redis_client \<Rightarrow> (redis_error + string) \<times> 'w redis_client" where
  "Get_r api key = run api ''Get'' (GetCmd api key)"

text \<open>A key that does not exist is a reply here, and not an error.\<close>

definition with_exists :: "redis_error + string \<Rightarrow> redis_error + string \<times> bool" where
  "with_exists r = (case r of Inl e \<Rightarrow> if e = RedisNil then Inr ([], False) else Inl e | Inr v \<Rightarrow> Inr (v, True))"

definition GetWithExists :: "'w redis_api \<Rightarrow> string \<Rightarrow> 'w redis_client \<Rightarrow> (redis_error + string \<times> bool) \<times> 'w redis_client" where
  "GetWithExists api key = run api ''GetWithExists'' (then_reply (GetCmd api key) with_exists)"

definition HGet_r :: "'w redis_api \<Rightarrow> string \<Rightarrow> string \<Rightarrow> 'w redis_client \<Rightarrow> (redis_error + string) \<times> 'w redis_client" where
  "HGet_r api key field = run api ''HGet'' (HGetCmd api key field)"

definition HGetWithExists :: "'w redis_api \<Rightarrow> string \<Rightarrow> string \<Rightarrow> 'w redis_client \<Rightarrow> (redis_error + string \<times> bool) \<times> 'w redis_client" where
  "HGetWithExists api key field = run api ''HGetWithExists'' (then_reply (HGetCmd api key field) with_exists)"

definition SetNX :: "'w redis_api \<Rightarrow> string \<Rightarrow> string \<Rightarrow> int \<Rightarrow> 'w redis_client \<Rightarrow> (redis_error + bool) \<times> 'w redis_client" where
  "SetNX api key val expiration = run api ''SetNX'' (SetNXCmd api key val expiration)"

definition Eval_r :: "'w redis_api \<Rightarrow> string \<Rightarrow> string list \<Rightarrow> string list \<Rightarrow> 'w redis_client \<Rightarrow> (redis_error + redis_value) \<times> 'w redis_client" where
  "Eval_r api script keys args = run api ''Eval'' (EvalCmd api script keys args)"

definition CheckConnection :: "'w redis_api \<Rightarrow> 'w redis_client \<Rightarrow> (redis_error + unit) \<times> 'w redis_client" where
  "CheckConnection api =
     run api ''CheckConnection'' (then_reply (PingCmd api) (\<lambda>r. case r of Inl e \<Rightarrow> Inl (WrapErr ''redis connection failed'' e) | Inr u \<Rightarrow> Inr u))"

definition Ping :: "'w redis_api \<Rightarrow> 'w redis_client \<Rightarrow> (redis_error + unit) \<times> 'w redis_client" where
  "Ping api = run api ''Ping'' (PingCmd api)"

text \<open>The existence is asked for before the members are added; both are repeated when the second command is.\<close>

definition ZAddWithExists ::
    "'w redis_api \<Rightarrow> string \<Rightarrow> (int \<times> string) list \<Rightarrow> 'w redis_client \<Rightarrow> (redis_error + int \<times> bool) \<times> 'w redis_client" where
  "ZAddWithExists api key members =
     run api ''ZAddWithExists'' (\<lambda>w.
       case ExistsCmd api key w of
         (Inl e, w1) \<Rightarrow> (Inl e, w1)
       | (Inr n, w1) \<Rightarrow>
           (case ZAddCmd api key members w1 of (Inl e, w2) \<Rightarrow> (Inl e, w2) | (Inr added, w2) \<Rightarrow> (Inr (added, n > 0), w2)))"

definition busy_group :: string where
  "busy_group = ''BUSYGROUP Consumer Group name already exists''"

definition CreateConsumerGroup :: "'w redis_api \<Rightarrow> string \<Rightarrow> string \<Rightarrow> 'w redis_client \<Rightarrow> (redis_error + unit) \<times> 'w redis_client" where
  "CreateConsumerGroup api stream grp =
     run api ''CreateConsumerGroup'' (then_reply (XGroupCreateCmd api stream grp)
       (\<lambda>r. case r of Inl e \<Rightarrow> if ErrorText api e \<noteq> busy_group then Inl e else Inr () | Inr u \<Rightarrow> Inr u))"

definition CreateConsumerGroupAtomic :: "'w redis_api \<Rightarrow> string \<Rightarrow> string \<Rightarrow> 'w redis_client \<Rightarrow> (redis_error + bool) \<times> 'w redis_client" where
  "CreateConsumerGroupAtomic api stream grp =
     run api ''CreateConsumerGroupAtomic'' (then_reply (XGroupCreateCmd api stream grp)
       (\<lambda>r. case r of Inl e \<Rightarrow> if ErrorText api e = busy_group then Inr False else Inl e | Inr _ \<Rightarrow> Inr True))"

text \<open>The expiry of a key.\<close>

definition RefreshTTL :: "'w redis_api \<Rightarrow> string \<Rightarrow> int \<Rightarrow> 'w redis_client \<Rightarrow> (redis_error + unit) \<times> 'w redis_client" where
  "RefreshTTL api key ttl = run api ''RefreshTTL'' (then_reply (ExpireXXCmd api key ttl) (\<lambda>r. case r of Inl e \<Rightarrow> Inl e | Inr _ \<Rightarrow> Inr ()))"

definition RefreshStreamTTL :: "'w redis_api \<Rightarrow> string \<Rightarrow> int \<Rightarrow> 'w redis_client \<Rightarrow> (redis_error + unit) \<times> 'w redis_client" where
  "RefreshStreamTTL api stream ttl = run api ''RefreshStreamTTL'' (then_reply (ExpireXXCmd api stream ttl) (\<lambda>r. case r of Inl e \<Rightarrow> Inl e | Inr _ \<Rightarrow> Inr ()))"

definition GetTTLStatus :: "'w redis_api \<Rightarrow> string \<Rightarrow> 'w redis_client \<Rightarrow> (redis_error + int \<times> bool) \<times> 'w redis_client" where
  "GetTTLStatus api key =
     run api ''GetTTLStatus'' (then_reply (TTLCmd api key)
       (\<lambda>r. case r of Inl e \<Rightarrow> Inl e | Inr ttl \<Rightarrow> if ttl = - 2 then Inr (0, False) else Inr (ttl, True)))"

section \<open>Scans\<close>

record ScanOptions =
  Pattern :: string
  Count :: int
  KeyType :: string

definition Scan :: "'w redis_api \<Rightarrow> int \<Rightarrow> ScanOptions \<Rightarrow> 'w redis_client \<Rightarrow> (redis_error + string list \<times> int) \<times> 'w redis_client" where
  "Scan api cursor options = run api ''Scan'' (ScanCmd api cursor (Pattern options) (Count options) (KeyType options))"

text \<open>The scan goes on until Redis gives the cursor zero, which it need not do while keys come and go.\<close>

partial_function (option) scan_pages ::
  "'w redis_api \<Rightarrow> ScanOptions \<Rightarrow> int \<Rightarrow> string list \<Rightarrow> 'w redis_client \<Rightarrow> ((redis_error + string list) \<times> 'w redis_client) option" where
  "scan_pages api options cursor allKeys c =
     (case Scan api cursor options c of
        (Inl e, c1) \<Rightarrow> Some (Inl e, c1)
      | (Inr (keys, next), c1) \<Rightarrow> if next = 0 then Some (Inr (allKeys @ keys), c1) else scan_pages api options next (allKeys @ keys) c1)"

definition ScanAll :: "'w redis_api \<Rightarrow> ScanOptions \<Rightarrow> 'w redis_client \<Rightarrow> ((redis_error + string list) \<times> 'w redis_client) option" where
  "ScanAll api options = scan_pages api options 0 []"

section \<open>The lock\<close>

record RetryStrategy =
  LockRetries :: int
  LockDelay :: int

record Lock =
  LockKey :: string
  Token :: string
  LockTTL :: int
  Strategy :: RetryStrategy

definition NoRetry :: RetryStrategy where
  "NoRetry = \<lparr>LockRetries = 0, LockDelay = 0\<rparr>"

definition NewLock :: "string \<Rightarrow> string \<Rightarrow> int \<Rightarrow> RetryStrategy option \<Rightarrow> go_error + Lock" where
  "NewLock key token ttl strategy =
     (if ttl \<le> 0 then Inl (GoErr ''lock TTL must be greater than zero'')
      else Inr \<lparr>LockKey = key, Token = token, LockTTL = ttl, Strategy = (case strategy of None \<Rightarrow> NoRetry | Some s \<Rightarrow> s)\<rparr>)"

text \<open>The retries of the lock are those of \<open>pkg/retry\<close>, around those of the command; a lock that somebody else holds is an error for them.\<close>

datatype lock_error = Contention | Failed redis_error

definition shouldRetryLockAcquisition :: "lock_error \<Rightarrow> int \<Rightarrow> bool" where
  "shouldRetryLockAcquisition e attempt \<longleftrightarrow> e = Contention"

definition lock_config :: "RetryStrategy \<Rightarrow> lock_error RetryConfig" where
  "lock_config s = \<lparr>MaxRetries = LockRetries s, InitialDelay = LockDelay s, MaxDelay = LockDelay s, BackoffFactor = 1, JitterFactor = 0,
     LogRetryAttempt = False, ShouldRetry = Some shouldRetryLockAcquisition\<rparr>"

definition lock_attempt :: "'w redis_api \<Rightarrow> Lock \<Rightarrow> 'w redis_client \<Rightarrow> (lock_error + unit) \<times> 'w redis_client" where
  "lock_attempt api l c =
     (case SetNX api (LockKey l) (Token l) (LockTTL l) c of
        (Inl e, c1) \<Rightarrow> (Inl (Failed (WrapErr ''failed to acquire lock'' e)), c1)
      | (Inr acquired, c1) \<Rightarrow> (if acquired then Inr () else Inl Contention, c1))"

definition lock_env :: "'w redis_api \<Rightarrow> ('w redis_client, lock_error) retry_env" where
  "lock_env api = \<lparr>ctx_err = \<lambda>c. map_option Failed (CtxErr api (Redis c)),
     wait_timer = \<lambda>d c. (case on_redis (Sleep api d) c of (e, c') \<Rightarrow> (map_option Failed e, c')), rand_source = \<lambda>c. ((None, 0), c)\<rparr>"

text \<open>Whether the lock was acquired, or an error; \<open>errors.Is\<close> finds the contention under the error of the last attempt.\<close>

datatype acquire_error = AcquireFailed redis_error | BadConfig config_error | NoAttempt int

fun acquired_result :: "lock_error retry_error + unit \<Rightarrow> acquire_error + bool" where
  "acquired_result (Inr _) = Inr True"
| "acquired_result (Inl (OpError Contention)) = Inr False"
| "acquired_result (Inl (CtxDone Contention)) = Inr False"
| "acquired_result (Inl (Exhausted n (Some Contention))) = Inr False"
| "acquired_result (Inl (OpError (Failed e))) = Inl (AcquireFailed e)"
| "acquired_result (Inl (CtxDone (Failed e))) = Inl (AcquireFailed e)"
| "acquired_result (Inl (Exhausted n (Some (Failed e)))) = Inl (AcquireFailed (attempts_failed n (Some e)))"
| "acquired_result (Inl (Exhausted n None)) = Inl (NoAttempt n)"
| "acquired_result (Inl (InvalidConfig e)) = Inl (BadConfig e)"

definition Acquire :: "'w redis_api \<Rightarrow> Lock \<Rightarrow> 'w redis_client \<Rightarrow> (acquire_error + bool) \<times> 'w redis_client" where
  "Acquire api l c =
     (if LockRetries (Strategy l) = 0
      then (case lock_attempt api l c of
              (Inr _, c1) \<Rightarrow> (Inr True, c1)
            | (Inl Contention, c1) \<Rightarrow> (Inr False, c1)
            | (Inl (Failed e), c1) \<Rightarrow> (Inl (AcquireFailed e), c1))
      else (case Retry (lock_env api) (lock_attempt api l) (Some (lock_config (Strategy l))) c of
              (r, c1) \<Rightarrow> (acquired_result r, c1)))"

definition release_script :: string where
  "release_script = concat (map (\<lambda>l. CHR 0x0A # CHR 0x09 # l)
     [''if redis.call(\"get\", KEYS[1]) == ARGV[1] then'', CHR 0x09 # ''return redis.call(\"del\", KEYS[1])'', ''else'', CHR 0x09 # ''return 0'', ''end''])"

definition Release :: "'w redis_api \<Rightarrow> Lock \<Rightarrow> 'w redis_client \<Rightarrow> redis_error option \<times> 'w redis_client" where
  "Release api l c =
     (case Eval_r api release_script [LockKey l] [Token l] c of
        (Inl e, c1) \<Rightarrow> (Some (WrapErr ''failed to execute lock release script'' e), c1)
      | (Inr res, c1) \<Rightarrow>
          ((case res of RInt val \<Rightarrow> if val = 0 then Some (OtherErr ''cannot release a lock that is not acquired'') else None
            | _ \<Rightarrow> Some (OtherErr ''cannot release a lock that is not acquired'')), c1))"

section \<open>Recovery of the connection\<close>

record ConnectionRecoveryConfig =
  Enabled :: bool
  RecoveryRetries :: int
  RecoveryBackoff :: float64
  MaxBackoffDelay :: int

definition DefaultConnectionRecoveryConfig :: ConnectionRecoveryConfig where
  "DefaultConnectionRecoveryConfig = \<lparr>Enabled = True, RecoveryRetries = 5, RecoveryBackoff = 2, MaxBackoffDelay = 5 * 60 * second\<rparr>"

definition sleep_for :: "'w redis_api \<Rightarrow> int \<Rightarrow> 'w redis_client \<Rightarrow> 'w redis_client" where
  "sleep_for api d c = snd (on_redis (Sleep api d) c)"

function recovery_attempts ::
  "'w redis_api \<Rightarrow> ConnectionRecoveryConfig \<Rightarrow> int \<Rightarrow> int \<Rightarrow> 'w redis_client \<Rightarrow> bool \<times> 'w redis_client" where
  "recovery_attempts api config attempt backoff c =
     (if attempt < RecoveryRetries config then
        let c1 = (if attempt > 0 then sleep_for api backoff c else c) in
        (case on_redis (Reconnect api) c1 of
           (Some e, c2) \<Rightarrow> recovery_attempts api config (attempt + 1) (calculateNextDelay backoff (RecoveryBackoff config) (MaxBackoffDelay config)) c2
         | (None, c2) \<Rightarrow>
             (case CheckConnection api c2 of
                (Inl e, c3) \<Rightarrow> recovery_attempts api config (attempt + 1) backoff c3
              | (Inr _, c3) \<Rightarrow> (True, c3\<lparr>LastHealthCheck := NanoClock api (Redis c3)\<rparr>)))
      else (False, c))"
  by pat_completeness auto
termination
  by (relation "measure (\<lambda>(api, config, attempt, backoff, c). nat (RecoveryRetries config - attempt))") auto

declare recovery_attempts.simps [simp del]

definition performConnectionRecovery :: "'w redis_api \<Rightarrow> ConnectionRecoveryConfig \<Rightarrow> 'w redis_client \<Rightarrow> 'w redis_client" where
  "performConnectionRecovery api config c = (snd (recovery_attempts api config 0 second c))\<lparr>IsRecovering := False\<rparr>"

text \<open>The recovery runs in a goroutine; here it runs to its end.\<close>

definition checkAndRecoverConnection :: "'w redis_api \<Rightarrow> ConnectionRecoveryConfig \<Rightarrow> 'w redis_client \<Rightarrow> 'w redis_client" where
  "checkAndRecoverConnection api config c =
     (if IsRecovering c then c
      else
        (case Ping api c of
           (Inl e, c1) \<Rightarrow> performConnectionRecovery api config (c1\<lparr>IsRecovering := True\<rparr>)
         | (Inr _, c1) \<Rightarrow> c1\<lparr>LastHealthCheck := NanoClock api (Redis c1)\<rparr>))"

section \<open>The loop is the one of \<open>pkg/retry\<close>\<close>

definition redis_retry_env :: "'w redis_api \<Rightarrow> ('w redis_client, redis_error) retry_env" where
  "redis_retry_env api = \<lparr>ctx_err = \<lambda>c. CtxErr api (Redis c), wait_timer = \<lambda>d. on_redis (Sleep api d),
     rand_source = \<lambda>c. ((None, secureFloat64 (NanoClock api (Redis c))), c)\<rparr>"

text \<open>An operation with its counts, and the configuration with the predicate of the Redis client.\<close>

definition counted :: "string \<Rightarrow> ('w redis_client \<Rightarrow> (redis_error + 'a) \<times> 'w redis_client) \<Rightarrow> 'w redis_client \<Rightarrow> (redis_error + 'a) \<times> 'w redis_client" where
  "counted name operation c =
     (case operation c of
        (Inr a, c1) \<Rightarrow> (Inr a, trackOperationEnd name None c1)
      | (Inl e, c1) \<Rightarrow> (Inl e, (if isRetryableError e then trackRetryAttempt name else id) (trackOperationEnd name (Some e) c1)))"

definition with_predicate :: "redis_error RetryConfig \<Rightarrow> redis_error RetryConfig" where
  "with_predicate config = config\<lparr>ShouldRetry := Some (\<lambda>e _. isRetryableError e)\<rparr>"

fun retry_result :: "redis_error retry_error + 'a \<Rightarrow> redis_error + 'a" where
  "retry_result (Inr a) = Inr a"
| "retry_result (Inl (CtxDone e)) = Inl e"
| "retry_result (Inl (OpError e)) = Inl e"
| "retry_result (Inl (Exhausted n e)) = Inl (attempts_failed n e)"
| "retry_result (Inl (InvalidConfig e)) = Inl (OtherErr (config_msg e))"

lemma same_jitter:
  "jittered (redis_retry_env api) (with_predicate config) delay c = (calculateDelayWithJitter delay (JitterFactor config) (NanoClock api (Redis c)), c)"
  by (simp add: jittered_def redis_retry_env_def with_predicate_def calculateDelayWithJitter_def CalculateDelayWithJitter_def SecureFloat64_def)

lemma same_delay: "calculateNextDelay = CalculateNextDelay"
  by (simp add: calculateNextDelay_def CalculateNextDelay_def fun_eq_iff Let_def)

lemma attempts_are_retries:
  "retry_attempts api config operation name attempt delay lastErr c =
     apfst retry_result (Retry_loop (redis_retry_env api) (counted name operation) (with_predicate config) attempt delay lastErr c)"
proof (induction "nat (MaxRetries config - attempt)" arbitrary: attempt delay lastErr c rule: less_induct)
  case less
  let ?L = "Retry_loop (redis_retry_env api) (counted name operation) (with_predicate config)"
  have M: "MaxRetries (with_predicate config) = MaxRetries config" "BackoffFactor (with_predicate config) = BackoffFactor config"
    "MaxDelay (with_predicate config) = MaxDelay config" "may_retry (with_predicate config) e n = isRetryableError e" for e n
    by (simp_all add: with_predicate_def may_retry_def)
  have E: "ctx_err (redis_retry_env api) c = CtxErr api (Redis c)" "wait_timer (redis_retry_env api) d = on_redis (Sleep api d)" for c d
    by (simp_all add: redis_retry_env_def)
  show ?case
  proof (cases "attempt < MaxRetries config \<and> CtxErr api (Redis c) = None")
    case False
    then show ?thesis
      by (auto simp: retry_attempts.simps [of api config operation name attempt] Retry_loop.simps [of _ _ "with_predicate config" attempt] M E split: option.splits)
  next
    case True
    obtain r c1 where op: "operation c = (r, c1)" by force
    show ?thesis
    proof (cases "\<exists>e. r = Inl e \<and> isRetryableError e")
      case False
      then show ?thesis
        using True op by (cases r) (auto simp: retry_attempts.simps [of api config operation name attempt] Retry_loop.simps [of _ _ "with_predicate config" attempt]
            M E counted_def Let_def)
    next
      case retried: True
      then obtain e where e: "r = Inl e" "isRetryableError e" by blast
      let ?c3 = "trackRetryAttempt name (trackOperationEnd name (Some e) c1)"
      obtain z c4 where s: "on_redis (Sleep api (calculateDelayWithJitter delay (JitterFactor config) (NanoClock api (Redis ?c3)))) ?c3 = (z, c4)" by force
      have IH: "retry_attempts api config operation name (attempt + 1) (calculateNextDelay delay (BackoffFactor config) (MaxDelay config)) (Some e) c4 =
          apfst retry_result (?L (attempt + 1) (calculateNextDelay delay (BackoffFactor config) (MaxDelay config)) (Some e) c4)"
        using True by (intro less.hyps) auto
      show ?thesis
        using True op e s IH
        by (cases z) (simp_all add: retry_attempts.simps [of api config operation name attempt] Retry_loop.simps [of _ _ "with_predicate config" attempt]
            M E counted_def Let_def same_jitter same_delay)
    qed
  qed
qed

text \<open>
  C23: The second copy of the retry loop does what the first one does, with the predicate, the random source and the counts of the Redis client: the bounds of the
  one hold for the other.
\<close>

theorem redis_retry_is_retry:
  "executeWithRetry api (Some config) operation name c =
     apfst retry_result (Retry_loop (redis_retry_env api) (counted name operation) (with_predicate config) 0 (InitialDelay config) None c)"
  by (simp add: executeWithRetry_def attempts_are_retries)

text \<open>What every attempt and every pause keeps, and what a successful attempt gives, an operation with retries keeps and gives.\<close>

lemma execute_inv:
  assumes op: "\<And>c r c'. I c \<Longrightarrow> operation c = (r, c') \<Longrightarrow> I c' \<and> (\<forall>v. r = Inr v \<longrightarrow> good v c')"
    and sleep: "\<And>d c r c'. I c \<Longrightarrow> on_redis (Sleep api d) c = (r, c') \<Longrightarrow> I c'"
    and count: "\<And>f c. I (count_op name f c) = I c" "\<And>f v c. good v (count_op name f c) = good v c"
    and "I c" and "executeWithRetry api (Some config) operation name c = (r, c')"
  shows "I c' \<and> (\<forall>v. r = Inr v \<longrightarrow> good v c')"
proof -
  have counted: "I c' \<and> (\<forall>v. r = Inr v \<longrightarrow> good v c')" if c: "I c" and r: "counted name operation c = (r, c')" for c r c'
  proof -
    obtain x c1 where x: "operation c = (x, c1)" by force
    with op [OF c x] r show ?thesis
      by (cases x) (auto simp: counted_def trackOperationEnd_def trackRetryAttempt_def count)
  qed
  have client: "retry_client (redis_retry_env api) (counted name operation) I good"
  proof
    show "wait_timer (redis_retry_env api) d s = (r', s') \<Longrightarrow> I s'" if "I s" for d s r' s'
      using sleep [OF that] by (simp add: redis_retry_env_def)
    show "rand_source (redis_retry_env api) s = (u, s') \<Longrightarrow> I s'" if "I s" for s u s'
      using that by (simp add: redis_retry_env_def)
  qed (use counted in blast)+
  obtain x where x: "Retry_loop (redis_retry_env api) (counted name operation) (with_predicate config) 0 (InitialDelay config) None c = (x, c')" "r = retry_result x"
    using assms(6) unfolding executeWithRetry_def Let_def option.case attempts_are_retries
    by (cases "Retry_loop (redis_retry_env api) (counted name operation) (with_predicate config) 0 (InitialDelay config) None c") auto
  have "x = Inr v" if "r = Inr v" for v
    using that x(2) by (cases x rule: retry_result.cases) auto
  with retry_client.loop_inv [OF client \<open>I c\<close> x(1)] show ?thesis by blast
qed

section \<open>Counts\<close>

text \<open>Every attempt is counted as one success or one error.\<close>

definition metrics_ok :: "'w redis_client \<Rightarrow> bool" where
  "metrics_ok c \<longleftrightarrow> (\<forall>name m. Metrics c name = Some m \<longrightarrow> TotalCalls m = i64 (SuccessCount m + ErrorCount m))"

lemma metrics_end: "metrics_ok c \<Longrightarrow> metrics_ok (trackOperationEnd name e c)"
proof -
  have "i64 (i64 (i64 (a + b) + 1)) = i64 (i64 (a + 1) + b)" "i64 (i64 (a + b) + 1) = i64 (a + i64 (b + 1))" for a b
    by (simp_all add: algebra_simps)
  then show "metrics_ok c \<Longrightarrow> ?thesis"
    by (auto simp: metrics_ok_def trackOperationEnd_def count_op_def upsert_def no_metrics_def Let_def algebra_simps split: option.splits)
qed

lemma metrics_retry: "metrics_ok c \<Longrightarrow> metrics_ok (trackRetryAttempt name c)"
  by (auto simp: metrics_ok_def trackRetryAttempt_def count_op_def upsert_def no_metrics_def split: option.splits)

lemma metrics_redis: "metrics_ok c \<Longrightarrow> on_redis f c = (r, c') \<Longrightarrow> metrics_ok c'"
  by (auto simp: on_redis_def metrics_ok_def split: prod.splits)

lemma attempts_counted:
  assumes "\<And>c r c'. metrics_ok c \<Longrightarrow> operation c = (r, c') \<Longrightarrow> metrics_ok c'" and "metrics_ok c"
    and "executeWithRetry api (Some config) operation name c = (r, c')"
  shows "metrics_ok c'"
proof -
  have "metrics_ok c'" if "metrics_ok c" "counted name operation c = (r, c')" for c r c'
    using that assms(1) metrics_end metrics_retry
    by (auto simp: counted_def split: prod.splits sum.splits if_splits) blast+
  then have "retry_client (redis_retry_env api) (counted name operation) metrics_ok (\<lambda>_ _. True)"
    by unfold_locales (auto simp: redis_retry_env_def dest: metrics_redis)
  from retry_client.loop_inv [OF this assms(2)] show ?thesis
    using assms(3) unfolding executeWithRetry_def Let_def option.case attempts_are_retries
    by (cases "Retry_loop (redis_retry_env api) (counted name operation) (with_predicate config) 0 (InitialDelay config) None c") auto
qed

section \<open>What the lock promises\<close>

record lock_db =
  Held :: "string \<rightharpoonup> string \<times> int"
  LockTime :: int

definition free_at :: "lock_db \<Rightarrow> string \<Rightarrow> int \<Rightarrow> bool" where
  "free_at d k now \<longleftrightarrow> (case Held d k of None \<Rightarrow> True | Some (_, e) \<Rightarrow> e < now)"

text \<open>
  The commands of Redis that the lock uses: \<open>SET NX\<close> with an expiry takes a key that is free, and the script deletes a key that holds its token. When the
  reply is lost the command has had its effect or not.
\<close>

definition lock_redis :: "('w \<Rightarrow> lock_db) \<Rightarrow> 'w redis_api \<Rightarrow> bool" where
  "lock_redis view api \<longleftrightarrow>
     (\<forall>k t ttl w r w'. SetNXCmd api k t ttl w = (r, w') \<longrightarrow>
       LockTime (view w) \<le> LockTime (view w') \<and>
       (let free = free_at (view w) k (LockTime (view w')); taken = (Held (view w))(k \<mapsto> (t, LockTime (view w') + ttl)) in
        case r of Inr b \<Rightarrow> b = free \<and> Held (view w') = (if free then taken else Held (view w))
        | Inl _ \<Rightarrow> Held (view w') = Held (view w) \<or> free \<and> Held (view w') = taken)) \<and>
     (\<forall>k t w r w'. EvalCmd api release_script [k] [t] w = (r, w') \<longrightarrow>
       LockTime (view w) \<le> LockTime (view w') \<and>
       (let mine = (\<exists>e. Held (view w) k = Some (t, e) \<and> LockTime (view w') \<le> e); freed = (Held (view w))(k := None) in
        case r of Inr v \<Rightarrow> v = RInt (if mine then 1 else 0) \<and> Held (view w') = (if mine then freed else Held (view w))
        | Inl _ \<Rightarrow> Held (view w') = Held (view w) \<or> mine \<and> Held (view w') = freed)) \<and>
     (\<forall>d w. LockTime (view w) \<le> LockTime (view (snd (Sleep api d w))) \<and> Held (view (snd (Sleep api d w))) = Held (view w))"

text \<open>What an acquisition, or a release, with a key and a token may do, however many attempts it makes.\<close>

definition may_take :: "string \<Rightarrow> string \<Rightarrow> lock_db \<Rightarrow> lock_db \<Rightarrow> bool" where
  "may_take k t a b \<longleftrightarrow> LockTime a \<le> LockTime b \<and> (\<forall>k'. k' \<noteq> k \<longrightarrow> Held b k' = Held a k') \<and>
     (Held b k = Held a k \<or> free_at a k (LockTime b) \<and> (\<exists>e. Held b k = Some (t, e)))"

definition may_free :: "string \<Rightarrow> string \<Rightarrow> lock_db \<Rightarrow> lock_db \<Rightarrow> bool" where
  "may_free k t a b \<longleftrightarrow> LockTime a \<le> LockTime b \<and> (\<forall>k'. k' \<noteq> k \<longrightarrow> Held b k' = Held a k') \<and>
     (Held b k = Held a k \<or> Held b k = None \<and> (\<exists>e. Held a k = Some (t, e)))"

interpretation taking: state_order "may_take k t" for k t
  by unfold_locales (auto simp: may_take_def free_at_def split: option.splits)

interpretation freeing: state_order "may_free k t" for k t
  by unfold_locales (auto simp: may_free_def, metis)

lemma sleep_passes:
  assumes "lock_redis view api" and "on_redis (Sleep api d) c = (r, c')"
  shows "LockTime (view (Redis c)) \<le> LockTime (view (Redis c')) \<and> Held (view (Redis c')) = Held (view (Redis c))"
proof -
  have "Redis c' = snd (Sleep api d (Redis c))" using assms(2) by (auto simp: on_redis_def split: prod.splits)
  then show ?thesis using assms(1) by (simp add: lock_redis_def)
qed

lemma setnx_takes:
  assumes "lock_redis view api" and "on_redis (SetNXCmd api k t ttl) c = (r, c')"
  shows "may_take k t (view (Redis c)) (view (Redis c')) \<and>
    (r = Inr True \<longrightarrow> Held (view (Redis c')) k = Some (t, LockTime (view (Redis c')) + ttl))"
proof -
  have s: "SetNXCmd api k t ttl (Redis c) = (r, Redis c')" using assms(2) by (auto simp: on_redis_def split: prod.splits)
  have "LockTime (view (Redis c)) \<le> LockTime (view (Redis c')) \<and>
      (let free = free_at (view (Redis c)) k (LockTime (view (Redis c')));
           taken = (Held (view (Redis c)))(k \<mapsto> (t, LockTime (view (Redis c')) + ttl)) in
       case r of Inr b \<Rightarrow> b = free \<and> Held (view (Redis c')) = (if free then taken else Held (view (Redis c)))
       | Inl _ \<Rightarrow> Held (view (Redis c')) = Held (view (Redis c)) \<or> free \<and> Held (view (Redis c')) = taken)"
    using assms(1) s unfolding lock_redis_def by blast
  then show ?thesis by (cases r) (auto simp: may_take_def Let_def split: if_splits)
qed

lemma eval_frees:
  assumes "lock_redis view api" and "on_redis (EvalCmd api release_script [k] [t]) c = (r, c')"
  shows "may_free k t (view (Redis c)) (view (Redis c'))"
proof -
  have s: "EvalCmd api release_script [k] [t] (Redis c) = (r, Redis c')" using assms(2) by (auto simp: on_redis_def split: prod.splits)
  have "LockTime (view (Redis c)) \<le> LockTime (view (Redis c')) \<and>
      (let mine = (\<exists>e. Held (view (Redis c)) k = Some (t, e) \<and> LockTime (view (Redis c')) \<le> e); freed = (Held (view (Redis c)))(k := None) in
       case r of Inr v \<Rightarrow> v = RInt (if mine then 1 else 0) \<and> Held (view (Redis c')) = (if mine then freed else Held (view (Redis c)))
       | Inl _ \<Rightarrow> Held (view (Redis c')) = Held (view (Redis c)) \<or> mine \<and> Held (view (Redis c')) = freed)"
    using assms(1) s unfolding lock_redis_def by blast
  then show ?thesis by (cases r) (auto simp: may_free_def Let_def split: if_splits)
qed

lemma count_op_redis [simp]: "Redis (count_op name f c) = Redis c"
  by (simp add: count_op_def)

lemma sleep_may:
  assumes "lock_redis view api" and "on_redis (Sleep api d) c = (r, c')"
  shows "may_take k t (view (Redis c)) (view (Redis c'))" "may_free k t (view (Redis c)) (view (Redis c'))"
  using sleep_passes [OF assms] by (simp_all add: may_take_def may_free_def)

lemma SetNX_takes:
  assumes "lock_redis view api" and "SetNX api k t ttl c = (r, c')"
  shows "may_take k t (view (Redis c)) (view (Redis c')) \<and>
    (r = Inr True \<longrightarrow> Held (view (Redis c')) k = Some (t, LockTime (view (Redis c')) + ttl))"
proof -
  let ?I = "\<lambda>c'. may_take k t (view (Redis c)) (view (Redis c'))"
  let ?good = "\<lambda>v c'. v \<longrightarrow> Held (view (Redis c')) k = Some (t, LockTime (view (Redis c')) + ttl)"
  have "?I c' \<and> (\<forall>v. r = Inr v \<longrightarrow> ?good v c')"
  proof (rule execute_inv [of ?I _ ?good])
    show "?I c2 \<and> (\<forall>v. r = Inr v \<longrightarrow> ?good v c2)" if "?I c1" "on_redis (SetNXCmd api k t ttl) c1 = (r, c2)" for c1 r c2
      using setnx_takes [OF assms(1) that(2)] taking.R_trans [OF that(1)] by auto
    show "?I c2" if "?I c1" "on_redis (Sleep api d) c1 = (r, c2)" for d c1 r c2
      using sleep_may(1) [OF assms(1) that(2)] taking.R_trans [OF that(1)] by blast
    show "executeWithRetry api (Some DefaultRedisRetryConfig) (on_redis (SetNXCmd api k t ttl)) ''SetNX'' c = (r, c')"
      using assms(2) by (simp add: SetNX_def run_def)
  qed (simp_all add: taking.R_refl)
  then show ?thesis by simp
qed

lemma Release_frees:
  assumes "lock_redis view api" and "Release api l c = (r, c')"
  shows "may_free (LockKey l) (Token l) (view (Redis c)) (view (Redis c'))"
proof -
  let ?k = "LockKey l" and ?t = "Token l"
  let ?I = "\<lambda>c'. may_free ?k ?t (view (Redis c)) (view (Redis c'))"
  obtain x where x: "Eval_r api release_script [?k] [?t] c = (x, c')"
    using assms(2) by (auto simp: Release_def split: prod.splits sum.splits)
  have "?I c' \<and> (\<forall>v. x = Inr v \<longrightarrow> True)"
  proof (rule execute_inv [of ?I _ "\<lambda>_ _. True"])
    show "?I c2 \<and> (\<forall>v. r = Inr v \<longrightarrow> True)" if "?I c1" "on_redis (EvalCmd api release_script [?k] [?t]) c1 = (r, c2)" for c1 r c2
      using eval_frees [OF assms(1) that(2)] freeing.R_trans [OF that(1)] by auto
    show "?I c2" if "?I c1" "on_redis (Sleep api d) c1 = (r, c2)" for d c1 r c2
      using sleep_may(2) [OF assms(1) that(2)] freeing.R_trans [OF that(1)] by blast
    show "executeWithRetry api (Some DefaultRedisRetryConfig) (on_redis (EvalCmd api release_script [?k] [?t])) ''Eval'' c = (x, c')"
      using x by (simp add: Eval_r_def run_def)
  qed (simp_all add: freeing.R_refl)
  then show ?thesis by simp
qed

lemma Acquire_takes:
  assumes "lock_redis view api" and "Acquire api l c = (r, c')"
  shows "may_take (LockKey l) (Token l) (view (Redis c)) (view (Redis c')) \<and>
    (r = Inr True \<longrightarrow> Held (view (Redis c')) (LockKey l) = Some (Token l, LockTime (view (Redis c')) + LockTTL l))"
proof -
  let ?k = "LockKey l" and ?t = "Token l"
  let ?I = "\<lambda>c'. may_take ?k ?t (view (Redis c)) (view (Redis c'))"
  let ?held = "\<lambda>c'. Held (view (Redis c')) ?k = Some (?t, LockTime (view (Redis c')) + LockTTL l)"
  have attempt: "?I c2 \<and> (\<forall>v. x = Inr v \<longrightarrow> ?held c2)" if "?I c1" "lock_attempt api l c1 = (x, c2)" for c1 x c2
  proof -
    note at = that
    obtain y where y: "SetNX api ?k ?t (LockTTL l) c1 = (y, c2)"
      using at(2) by (auto simp: lock_attempt_def split: prod.splits sum.splits)
    have won: "y = Inr True" if "x = Inr v" for v
      using at(2) y that by (auto simp: lock_attempt_def split: sum.splits if_splits)
    show ?thesis
      using SetNX_takes [OF assms(1) y] taking.R_trans [OF at(1)] won by blast
  qed
  show ?thesis
  proof (cases "LockRetries (Strategy l) = 0")
    case True
    obtain x where x: "lock_attempt api l c = (x, c')"
      using assms(2) True by (auto simp: Acquire_def split: prod.splits sum.splits lock_error.splits)
    have "x = Inr ()" if "r = Inr True"
      using that assms(2) True x by (auto simp: Acquire_def split: sum.splits lock_error.splits)
    with attempt [OF taking.R_refl x] show ?thesis by auto
  next
    case False
    have client: "retry_client (lock_env api) (lock_attempt api l) ?I (\<lambda>_ c'. ?held c')"
    proof
      show "?I s'" if "?I s" "wait_timer (lock_env api) d s = (e, s')" for d s e s'
        using that(2) sleep_may(1) [OF assms(1)] taking.R_trans [OF that(1)] by (auto simp: lock_env_def split: prod.splits)
      show "?I s'" if "?I s" "rand_source (lock_env api) s = (u, s')" for s u s'
        using that by (simp add: lock_env_def)
    qed (use attempt in blast)+
    obtain x where x: "Retry (lock_env api) (lock_attempt api l) (Some (lock_config (Strategy l))) c = (x, c')" "r = acquired_result x"
      using assms(2) False by (auto simp: Acquire_def split: prod.splits)
    have "x = Inr ()" if "r = Inr True"
      using that x(2) by (cases x rule: acquired_result.cases) auto
    with retry_client.Retry_inv [OF client taking.R_refl x(1)] show ?thesis by blast
  qed
qed

section \<open>Holders of a lock\<close>

text \<open>
  Any number of clients and locks over one Redis. \<open>G\<close> are the acquisitions that have not been released: key, token, and the end of the time to live. An
  acquisition that is not reported, and a release that fails, are forgotten by their clients.
\<close>

inductive lock_run :: "('w \<Rightarrow> lock_db) \<Rightarrow> 'w redis_api \<Rightarrow> 'w \<Rightarrow> (string \<times> string \<times> int) set \<Rightarrow> bool" for view api where
  start: "Held (view w) = Map.empty \<Longrightarrow> lock_run view api w {}"
| time: "lock_run view api w G \<Longrightarrow> Held (view w') = Held (view w) \<Longrightarrow> LockTime (view w) \<le> LockTime (view w') \<Longrightarrow> lock_run view api w' G"
| acquired: "lock_run view api (Redis c) G \<Longrightarrow> Acquire api l c = (Inr True, c') \<Longrightarrow>
      lock_run view api (Redis c') (insert (LockKey l, Token l, LockTime (view (Redis c')) + LockTTL l) G)"
| not_acquired: "lock_run view api (Redis c) G \<Longrightarrow> Acquire api l c = (r, c') \<Longrightarrow> r \<noteq> Inr True \<Longrightarrow> lock_run view api (Redis c') G"
| released: "lock_run view api (Redis c) G \<Longrightarrow> Release api l c = (r, c') \<Longrightarrow>
      lock_run view api (Redis c') {g \<in> G. fst g \<noteq> LockKey l \<or> fst (snd g) \<noteq> Token l}"

definition grants_held :: "lock_db \<Rightarrow> (string \<times> string \<times> int) set \<Rightarrow> bool" where
  "grants_held d G \<longleftrightarrow> (\<forall>(k, t, e) \<in> G. LockTime d \<le> e \<longrightarrow> (\<exists>e'. Held d k = Some (t, e') \<and> e \<le> e'))"

lemma take_keeps_grants:
  assumes "grants_held a G" and "may_take k t a b"
  shows "grants_held b G"
  unfolding grants_held_def
proof clarify
  fix k0 t0 e0 assume g: "(k0, t0, e0) \<in> G" "LockTime b \<le> e0"
  then have "LockTime a \<le> e0" using assms(2) by (simp add: may_take_def)
  then obtain e' where e: "Held a k0 = Some (t0, e')" "e0 \<le> e'" using assms(1) g(1) by (auto simp: grants_held_def)
  then have "\<not> free_at a k0 (LockTime b)" using g(2) by (simp add: free_at_def)
  then have "Held b k0 = Held a k0" using assms(2) by (cases "k0 = k") (auto simp: may_take_def)
  then show "\<exists>e'. Held b k0 = Some (t0, e') \<and> e0 \<le> e'" using e by simp
qed

lemma free_keeps_grants:
  assumes "grants_held a G" and "may_free k t a b"
  shows "grants_held b {g \<in> G. fst g \<noteq> k \<or> fst (snd g) \<noteq> t}"
  unfolding grants_held_def
proof clarify
  fix k0 t0 e0 assume g: "(k0, t0, e0) \<in> G" "LockTime b \<le> e0" "fst (k0, t0, e0) \<noteq> k \<or> fst (snd (k0, t0, e0)) \<noteq> t"
  then have "LockTime a \<le> e0" using assms(2) by (simp add: may_free_def)
  then obtain e' where e: "Held a k0 = Some (t0, e')" "e0 \<le> e'" using assms(1) g(1) by (auto simp: grants_held_def)
  then have "Held b k0 = Held a k0" using assms(2) g(3) by (cases "k0 = k") (auto simp: may_free_def)
  then show "\<exists>e'. Held b k0 = Some (t0, e') \<and> e0 \<le> e'" using e by simp
qed

lemma run_grants_held:
  assumes "lock_run view api w G" and "lock_redis view api"
  shows "grants_held (view w) G"
  using assms(1)
proof induction
  case (acquired c G l c')
  have "grants_held (view (Redis c')) G"
    by (rule take_keeps_grants [OF acquired.IH]) (use Acquire_takes [OF assms(2) acquired.hyps(2)] in blast)
  then show ?case
    using Acquire_takes [OF assms(2) acquired.hyps(2)] by (auto simp: grants_held_def)
next
  case (not_acquired c G l r c')
  then show ?case using Acquire_takes [OF assms(2) not_acquired.hyps(2)] take_keeps_grants by blast
next
  case (released c G l r c')
  then show ?case using Release_frees [OF assms(2)] free_keeps_grants by blast
next
  case (start w)
  show ?case by (simp add: grants_held_def)
next
  case (time w G w')
  show ?case
    unfolding grants_held_def
  proof clarify
    fix k t e assume "(k, t, e) \<in> G" "LockTime (view w') \<le> e"
    then show "\<exists>e'. Held (view w') k = Some (t, e') \<and> e \<le> e'"
      using time.IH time.hyps(2,3) by (auto simp: grants_held_def)
  qed
qed


text \<open>
  When the reply to the first command is lost though Redis has set the key, the second command finds the key: the caller is told that somebody else holds the
  lock, and the key stays until the end of its time to live.
\<close>

lemma lost_reply_blocks_lock:
  fixes c :: "'w redis_client"
  defines "w \<equiv> Redis c"
  assumes redis: "lock_redis view api" and ctx: "CtxErr api = (\<lambda>_. None)" and l: "Strategy l = NoRetry"
    and first: "SetNXCmd api (LockKey l) (Token l) (LockTTL l) w = (Inl err, w1)" "isRetryableError err"
    and taken: "Held (view w1) (LockKey l) = Some (Token l, x)"
    and slept: "\<And>d. Sleep api d w1 = (None, w2)"
    and second: "SetNXCmd api (LockKey l) (Token l) (LockTTL l) w2 = (Inr b, w3)" "LockTime (view w3) \<le> x"
  obtains c' where "Acquire api l c = (Inr False, c')" and "Held (view (Redis c')) (LockKey l) = Some (Token l, x)"
proof -
  have w2: "Held (view w2) = Held (view w1)"
    using redis slept [of 0] unfolding lock_redis_def by (metis snd_conv)
  have "b = free_at (view w2) (LockKey l) (LockTime (view w3)) \<and>
    Held (view w3) = (if b then (Held (view w2))(LockKey l \<mapsto> (Token l, LockTime (view w3) + LockTTL l)) else Held (view w2))"
    using redis second(1) unfolding lock_redis_def by (fastforce simp: Let_def)
  then have w3: "\<not> b" "Held (view w3) = Held (view w1)"
    using w2 taken second(2) by (auto simp: free_at_def split: if_splits)
  define c3 where "c3 = trackOperationEnd ''SetNX'' None
    ((trackRetryAttempt ''SetNX'' (trackOperationEnd ''SetNX'' (Some err) (c\<lparr>Redis := w1\<rparr>)))\<lparr>Redis := w3\<rparr>)"
  have tracked [simp]: "Redis (trackOperationEnd n e c) = Redis c" "Redis (trackRetryAttempt n c) = Redis c" for n e and c :: "'w redis_client"
    by (simp_all add: trackOperationEnd_def trackRetryAttempt_def)
  have "SetNX api (LockKey l) (Token l) (LockTTL l) c = (Inr False, c3)"
    using first second(1) w3(1) ctx slept
    by (simp add: SetNX_def run_def executeWithRetry_def DefaultRedisRetryConfig_def DefaultRetryConfig_def retry_attempts.simps on_redis_def
        w_def c3_def Let_def)
  then have "Acquire api l c = (Inr False, c3)"
    using l by (simp add: Acquire_def lock_attempt_def NoRetry_def)
  moreover have "Held (view (Redis c3)) = Held (view w1)"
    using w3(2) by (simp add: c3_def)
  ultimately show thesis using that taken by metis
qed

section \<open>Witnesses\<close>

definition free_redis :: "lock_db redis_api" where
  "free_redis = \<lparr>CtxErr = \<lambda>_. None, Sleep = \<lambda>d w. (None, w), NanoClock = \<lambda>_. 0, PingCmd = \<lambda>w. (Inr (), w), GetCmd = \<lambda>_ w. (Inl RedisNil, w),
     SetNXCmd = \<lambda>k t ttl w. (let free = free_at w k (LockTime w) in
       (Inr free, if free then w\<lparr>Held := (Held w)(k \<mapsto> (t, LockTime w + ttl))\<rparr> else w)),
     EvalCmd = \<lambda>s ks as w. (case (ks, as) of ([k], [t]) \<Rightarrow>
         (case Held w k of Some (t', e) \<Rightarrow>
            if t' = t \<and> LockTime w \<le> e then (Inr (RInt 1), w\<lparr>Held := (Held w)(k := None)\<rparr>) else (Inr (RInt 0), w)
          | None \<Rightarrow> (Inr (RInt 0), w))
       | _ \<Rightarrow> (Inl (OtherErr ''ERR''), w)),
     HGetCmd = \<lambda>_ _ w. (Inl RedisNil, w), ExpireXXCmd = \<lambda>_ _ w. (Inr False, w), TTLCmd = \<lambda>_ w. (Inr (- 2), w),
     ScanCmd = \<lambda>_ _ _ _ w. (Inr ([], 0), w), ExistsCmd = \<lambda>_ w. (Inr 0, w), ZAddCmd = \<lambda>_ _ w. (Inr 0, w), XGroupCreateCmd = \<lambda>_ _ w. (Inr (), w),
     ErrorText = \<lambda>_. [], Reconnect = \<lambda>w. (None, w)\<rparr>"

lemma free_redis_locks: "lock_redis id free_redis"
  by (auto simp: lock_redis_def free_redis_def Let_def split: option.splits if_splits)

definition fresh_client :: "lock_db redis_client" where
  "fresh_client = \<lparr>Metrics = Map.empty, IsRecovering = False, LastHealthCheck = 0, Redis = \<lparr>Held = Map.empty, LockTime = 0\<rparr>\<rparr>"

definition some_lock :: Lock where
  "some_lock = \<lparr>LockKey = ''k'', Token = ''t'', LockTTL = 30, Strategy = NoRetry\<rparr>"

lemma some_acquired: "\<exists>c'. Acquire free_redis some_lock fresh_client = (Inr True, c') \<and> LockTime (Redis c') = 0"
  by (simp add: Acquire_def lock_attempt_def some_lock_def NoRetry_def SetNX_def run_def executeWithRetry_def DefaultRedisRetryConfig_def
      DefaultRetryConfig_def retry_attempts.simps on_redis_def free_redis_def fresh_client_def free_at_def trackOperationEnd_def)


end
