(* ===== verification/Exchange_Sort.thy ===== *)
theory Exchange_Sort
  imports Prelude "HOL-Library.Multiset"
begin

text \<open>
  The sort that the code writes out as two loops over indices, with an exchange of two elements that are out of order. The locale has the
  key of the order and the exchange of a component; the cache of files and the monitor of executions interpret it.
\<close>

locale exchange_sort =
  fixes key :: "'a \<Rightarrow> int"
    and swap :: "nat \<Rightarrow> nat \<Rightarrow> 'a list \<Rightarrow> 'a list"
  assumes swap_if: "swap i j xs = (if key (xs ! j) < key (xs ! i) then xs[i := xs ! j, j := xs ! i] else xs)"
begin

definition sort_loops :: "'a list \<Rightarrow> 'a list" where
  "sort_loops xs = fold (\<lambda>i ys. fold (swap i) [Suc i..<length xs] ys) [0..<length xs - 1] xs"

lemma swap_length [simp]: "length (swap i j xs) = length xs"
  by (simp add: swap_if)

lemma swap_mset: "i < length xs \<Longrightarrow> j < length xs \<Longrightarrow> mset (swap i j xs) = mset xs"
  using mset_swap [of j xs i] by (simp add: swap_if)

lemma swap_nth:
  "i < j \<Longrightarrow> j < length xs \<Longrightarrow> swap i j xs ! k =
     (if key (xs ! j) < key (xs ! i) then (if k = i then xs ! j else if k = j then xs ! i else xs ! k) else xs ! k)"
  by (auto simp: swap_if nth_list_update)

text \<open>The first \<open>i\<close> elements are in their final place: none has a larger key than a later one.\<close>

definition placed :: "nat \<Rightarrow> 'a list \<Rightarrow> bool" where
  "placed i xs \<longleftrightarrow> (\<forall>a b. a < i \<longrightarrow> a < b \<longrightarrow> b < length xs \<longrightarrow> key (xs ! a) \<le> key (xs ! b))"

lemma swap_placed: "placed i xs \<Longrightarrow> i < j \<Longrightarrow> j < length xs \<Longrightarrow> placed i (swap i j xs)"
  by (auto simp: placed_def swap_nth)

lemma inner_loop:
  assumes "placed i xs" and "i < m" and "m \<le> length xs"
  shows "let ys = fold (swap i) [Suc i..<m] xs in
    length ys = length xs \<and> mset ys = mset xs \<and> placed i ys \<and>
    (\<forall>b. i < b \<longrightarrow> b < m \<longrightarrow> key (ys ! i) \<le> key (ys ! b))"
  using assms(2,3)
proof (induction m)
  case 0
  then show ?case by simp
next
  case (Suc m)
  show ?case
  proof (cases "m = i")
    case True
    then show ?thesis using assms(1) by simp
  next
    case False
    define ys where "ys = fold (swap i) [Suc i..<m] xs"
    have m: "i < m" "m < length xs" using False Suc.prems by auto
    then have ys: "length ys = length xs" "mset ys = mset xs" "placed i ys"
      "\<And>b. i < b \<Longrightarrow> b < m \<Longrightarrow> key (ys ! i) \<le> key (ys ! b)"
      using Suc.IH by (auto simp: Let_def ys_def)
    have "fold (swap i) [Suc i..<Suc m] xs = swap i m ys"
      using m(1) by (simp add: ys_def)
    moreover have "key (swap i m ys ! i) \<le> key (swap i m ys ! b)" if "i < b" "b < Suc m" for b
      using ys(4) [of b] that m ys(1) by (cases "b = m") (auto simp: swap_nth)
    ultimately show ?thesis
      using m ys by (simp add: Let_def swap_mset swap_placed)
  qed
qed

lemma outer_loop:
  "n \<le> length xs - 1 \<Longrightarrow>
   (let ys = fold (\<lambda>i ys. fold (swap i) [Suc i..<length xs] ys) [0..<n] xs in
    length ys = length xs \<and> mset ys = mset xs \<and> placed n ys)"
proof (induction n)
  case 0
  then show ?case by (simp add: placed_def)
next
  case (Suc n)
  define ys where "ys = fold (\<lambda>i ys. fold (swap i) [Suc i..<length xs] ys) [0..<n] xs"
  have ys: "length ys = length xs" "mset ys = mset xs" "placed n ys"
    using Suc by (auto simp: Let_def ys_def)
  have n: "n < length xs" "length xs \<le> length ys" using Suc.prems ys by auto
  have "fold (\<lambda>i ys. fold (swap i) [Suc i..<length xs] ys) [0..<Suc n] xs = fold (swap n) [Suc n..<length xs] ys"
    by (simp add: ys_def)
  then show ?case
    using inner_loop [OF ys(3) n] ys
    by (auto simp: Let_def placed_def less_Suc_eq)
qed

lemma sort_mset: "mset (sort_loops xs) = mset xs"
  using outer_loop [of "length xs - 1" xs] by (simp add: Let_def sort_loops_def)

lemma sort_sorted: "sorted (map key (sort_loops xs))"
proof -
  have l: "length (sort_loops xs) = length xs" using sort_mset [of xs] by (metis size_mset)
  have "placed (length xs - 1) (sort_loops xs)"
    using outer_loop [of "length xs - 1" xs] by (simp add: Let_def sort_loops_def)
  then show ?thesis
    by (auto simp: sorted_iff_nth_mono_less placed_def l)
qed

end

end
