(* ===== verification/Decimal.thy ===== *)
theory Decimal
  imports Float64
begin

text \<open>
  The texts of numbers: \<open>strconv.ParseFloat\<close>, which the keeper and the condition scheduler use for what jobs,
  scripts and services give them.
\<close>

section \<open>Parsing\<close>

text \<open>
  \<open>strconv.ParseFloat(s, 64)\<close> on decimal texts: sign, digits with an optional point, optional exponent. Infinities,
  NaN and hexadecimal floats, which Go accepts too, are outside the model. Too large a value is an error.
\<close>

definition take_digits :: "string \<Rightarrow> string \<times> string" where
  "take_digits s = (takeWhile is_digit s, dropWhile is_digit s)"

definition split_sign :: "string \<Rightarrow> bool \<times> string" where
  "split_sign s = (case s of c # t \<Rightarrow> if c = CHR ''-'' then (True, t) else if c = CHR ''+'' then (False, t) else (False, s)
     | [] \<Rightarrow> (False, []))"

definition parse_exponent :: "string \<Rightarrow> int option" where
  "parse_exponent s =
     (case s of
        [] \<Rightarrow> Some 0
      | c # t \<Rightarrow>
          if c = CHR ''e'' \<or> c = CHR ''E'' then
            (case split_sign t of (neg, d) \<Rightarrow> map_option (\<lambda>n. if neg then - int n else int n) (parse_nat d))
          else None)"

definition parse_decimal :: "string \<Rightarrow> rat option" where
  "parse_decimal s =
     (case split_sign s of (neg, t) \<Rightarrow>
      case take_digits t of (whole, r) \<Rightarrow>
      case (case r of c # r' \<Rightarrow> if c = CHR ''.'' then take_digits r' else ([], r) | [] \<Rightarrow> ([], [])) of (fr, r'') \<Rightarrow>
        if whole @ fr = [] then None
        else map_option (\<lambda>e. (if neg then -1 else 1) * of_nat (digits_val (whole @ fr)) * 10 powi (e - int (length fr)))
               (parse_exponent r''))"

definition ParseFloat :: "string \<Rightarrow> go_error + float64" where
  "ParseFloat s =
     (case parse_decimal s of
        None \<Rightarrow> Inl (GoErr (''strconv.ParseFloat: parsing '' @ s @ '': invalid syntax''))
      | Some r \<Rightarrow>
          if 2 ^ 1024 \<le> \<bar>f64 r\<bar> then Inl (GoErr (''strconv.ParseFloat: parsing '' @ s @ '': value out of range''))
          else Inr (f64 r))"

section \<open>The texts of natural numbers\<close>

lemma takeWhile_dropWhile_all: "list_all P s \<Longrightarrow> takeWhile P s = s \<and> dropWhile P s = []"
  by (induction s) auto

lemma parse_decimal_nat: "parse_decimal (show_nat n) = Some (of_nat n)"
proof -
  obtain c t where s: "show_nat n = c # t" and c: "is_digit c" using show_nat_digits [of n] by (cases "show_nat n") auto
  then have "split_sign (show_nat n) = (False, show_nat n)" using digit_not_sign [of c] by (simp add: split_sign_def)
  moreover have "take_digits (show_nat n) = (show_nat n, [])"
    using show_nat_digits [of n] takeWhile_dropWhile_all [of is_digit "show_nat n"] by (simp add: take_digits_def)
  ultimately show ?thesis using show_nat_digits [of n] by (simp add: parse_decimal_def parse_exponent_def)
qed

lemma ParseFloat_nat:
  assumes "n < 2 ^ 256"
  shows "ParseFloat (show_nat n) = Inr (f64 (of_nat n)) \<and> f64 (of_nat n) \<le> 2 ^ 256"
proof -
  have "f64 (of_nat n) \<le> 2 powi 256" if "n \<noteq> 0"
  proof (rule f64_le_pow2)
    have "(of_nat n :: rat) < of_nat (2 ^ 256)" using assms by (simp only: of_nat_less_iff)
    then have n: "(of_nat n :: rat) < 2 powi 256" by (simp add: power_int_def)
    then show "(of_nat n :: rat) \<le> 2 powi 256" by simp
    show "(0::rat) < of_nat n" using that by simp
    have "(2::rat) powi ilog2 (of_nat n) \<le> of_nat n" by (rule ilog2_bounds) (use that in simp)
    then have "(2::rat) powi ilog2 (of_nat n) < 2 powi 256" using n by linarith
    then have "\<not> 256 \<le> ilog2 (of_nat n)" using power_int_increasing [of 256 "ilog2 (of_nat n)" "2::rat"] by linarith
    then show "max (ilog2 (of_nat n) - 52) (- 1074) \<le> 256" by simp
  qed
  then have le: "f64 (of_nat n) \<le> 2 ^ 256" by (cases "n = 0") (simp_all add: power_int_def)
  moreover have "(2::rat) ^ 256 < 2 ^ 1024" by (rule power_strict_increasing) auto
  moreover have "0 \<le> f64 (of_nat n)" by (simp add: f64_nonneg)
  ultimately show ?thesis by (simp only: ParseFloat_def parse_decimal_nat option.case abs_of_nonneg if_False not_le) auto
qed

lemma f64_of_nat_exact: "n \<le> 2 ^ 53 \<Longrightarrow> f64 (of_nat n) = of_nat n"
  using f64_of_int_exact [of "int n"] by simp

section \<open>Printing\<close>

text \<open>\<open>fmt.Sprintf("%.df", x)\<close>: rounded to \<open>d\<close> places, ties to even.\<close>

definition format_fixed :: "nat \<Rightarrow> float64 \<Rightarrow> string" where
  "format_fixed d x =
     (let n = nat (round_even (\<bar>x\<bar> * 10 ^ d)); fr = show_nat (n mod 10 ^ d)
      in (if x < 0 then ''-'' else []) @ show_nat (n div 10 ^ d) @ ''.'' @ replicate (d - length fr) CHR ''0'' @ fr)"

end
