(* ===== verification/Json.thy ===== *)
theory Json
  imports Float64
begin

text \<open>
  JSON values as Go sees them. A struct is encoded field by field, \<open>JObj\<close>; a number is exact when a struct
  is encoded and becomes a \<open>float64\<close> when a text is decoded into an \<open>interface{}\<close>: that is \<open>reparse\<close>.
  \<open>convertToLower\<close> (\<open>pkg/cryptography/ecdsa.go\<close> and \<open>pkg/proof/proof.go\<close>) puts the strings of an object into
  lower case, in nested objects too but not inside arrays. Numbers have a magnitude below \<open>10^21\<close>, where
  Go prints an integer and a \<open>float64\<close> of the same value alike.
\<close>

datatype json = JNull | JBool bool | JNum rat | JStr string | JArr "json list" | JObj "(string \<times> json) list"

definition j_int :: "int \<Rightarrow> json" where
  "j_int n = JNum (of_int n)"

text \<open>A nil slice or map is encoded as null; the model has no empty slice that is not nil.\<close>

definition j_list :: "('a \<Rightarrow> json) \<Rightarrow> 'a list \<Rightarrow> json" where
  "j_list f xs = (if xs = [] then JNull else JArr (map f xs))"

fun reparse :: "json \<Rightarrow> json" and reparse_fields :: "(string \<times> json) list \<Rightarrow> (string \<times> json) list" and
    reparse_list :: "json list \<Rightarrow> json list" where
  "reparse (JNum r) = JNum (f64 r)"
| "reparse (JArr xs) = JArr (reparse_list xs)"
| "reparse (JObj fs) = JObj (reparse_fields fs)"
| "reparse v = v"
| "reparse_fields [] = []"
| "reparse_fields ((k, v) # fs) = (k, reparse v) # reparse_fields fs"
| "reparse_list [] = []"
| "reparse_list (v # vs) = reparse v # reparse_list vs"

fun convertToLower :: "json \<Rightarrow> json" and lower_fields :: "(string \<times> json) list \<Rightarrow> (string \<times> json) list" where
  "convertToLower (JStr s) = JStr (lower s)"
| "convertToLower (JObj fs) = JObj (lower_fields fs)"
| "convertToLower v = v"
| "lower_fields [] = []"
| "lower_fields ((k, v) # fs) = (k, convertToLower v) # lower_fields fs"

lemma reparse_list_map: "reparse_list vs = map reparse vs"
  by (induction vs) simp_all

lemma reparse_fields_map: "reparse_fields fs = map (\<lambda>(k, v). (k, reparse v)) fs"
  by (induction fs) auto

lemma lower_fields_map: "lower_fields fs = map (\<lambda>(k, v). (k, convertToLower v)) fs"
  by (induction fs) auto

lemma reparse_length:
  "reparse (j_list f xs) = reparse (j_list g ys) \<Longrightarrow> length xs = length ys"
  by (auto simp: j_list_def reparse_list_map split: if_splits dest: map_eq_imp_length_eq)

text \<open>The integers that a \<open>float64\<close> holds exactly survive the decoding.\<close>

lemma reparse_int: "0 \<le> n \<Longrightarrow> n \<le> 2 ^ 53 \<Longrightarrow> reparse (j_int n) = j_int n"
  using f64_of_int_exact [of n] by (simp add: j_int_def)

end
