(* ===== verification/Task_Types.thy ===== *)
theory Task_Types
  imports Json
begin

text \<open>
  The data that schedulers, dispatcher, keepers and task monitor exchange (\<open>pkg/types/schedulers.go\<close>,
  \<open>pkg/types/keeper.go\<close>, \<open>internal/eventmonitor/types/types.go\<close>), with the JSON value of each struct after its tags. A time is a number of nanoseconds; its
  text is the argument \<open>tm\<close>. A job id is nil or a big integer, encoded as a decimal string. A pointer to a struct
  is an option. The unsigned counters of an action are below \<open>2 ^ 64\<close>; its \<open>ScriptMetadata\<close>, which no code
  sets, is left out.
\<close>

record TaskTargetData =
  TgJobID :: "int option"
  TgTaskID :: int
  TgTaskDefinitionID :: int
  TargetChainID :: string
  TargetContractAddress :: string
  TargetFunction :: string
  ABI :: string
  ArgType :: int
  Arguments :: "string list"
  DynamicArgumentsScriptUrl :: string
  TgIsImua :: bool
  ScriptStorage :: "(string \<times> string) list"
  ScriptLanguage :: string

record TaskTriggerData =
  TrTaskID :: int
  TrTaskDefinitionID :: int
  TrRecurring :: bool
  TrExpirationTime :: int
  CurrentTriggerTimestamp :: int
  NextTriggerTimestamp :: int
  TimeScheduleType :: string
  TimeCronExpression :: string
  TimeSpecificSchedule :: string
  TrTimeInterval :: int
  EventChainId :: string
  EventTxHash :: string
  EventTriggerContractAddress :: string
  EventTriggerName :: string
  TrConditionType :: string
  ConditionSourceType :: string
  ConditionSourceUrl :: string
  ConditionUpperLimit :: int
  ConditionLowerLimit :: int
  ConditionSatisfiedValue :: int

record PerformerData =
  OperatorID :: int
  PfKeeperAddress :: string
  PfIsImua :: bool

record SendTaskDataToKeeper =
  TaskID :: "int list"
  Performer :: PerformerData
  TargetData :: "TaskTargetData list"
  TriggerData :: "TaskTriggerData list"
  SchedulerID :: int
  ManagerSignature :: string

record SchedulerTaskRequest =
  RequestData :: SendTaskDataToKeeper
  Source :: string

record PerformerActionData =
  AcTaskID :: int
  ActionTxHash :: string
  GasUsed :: string
  AcStatus :: bool
  MemoryUsage :: int
  CPUPercentage :: float64
  NetworkRx :: int
  NetworkTx :: int
  BlockRead :: int
  BlockWrite :: int
  BandwidthRate :: float64
  TotalFee :: "int option"
  StaticComplexity :: float64
  DynamicComplexity :: float64
  ComplexityIndex :: float64
  ExecutionTimestamp :: int
  ConvertedArguments :: "json list"
  StorageUpdates :: "(string \<times> string) list"
  ScriptTargetContract :: string
  ScriptCalldata :: string

record ProofData =
  PrTaskID :: int
  ProofOfTask :: string
  CertificateHash :: string
  CertificateTimestamp :: int

record PerformerSignatureData =
  PsTaskID :: int
  PerformerSigningAddress :: string
  PerformerSignature :: string

record TaskManagerAPIResponse =
  Success :: bool
  RespTaskID :: "int list"
  Message :: string
  Timestamp :: string
  RespError :: string

record MonitoringRequest =
  MrRequestID :: string
  MrChainID :: string
  MrContractAddr :: string
  MrEventSig :: string
  MrWebhookURL :: string
  MrExpiresAt :: int
  MrFilterParam :: string
  MrFilterValue :: string

record EventNotification =
  EnRequestID :: string
  EnChainID :: string
  EnContractAddr :: string
  EnEventSig :: string
  EnBlockNumber :: "64 word"
  EnTxHash :: string
  EnLogIndex :: "64 word"
  EnTopics :: "string list"
  EnData :: string
  EnTimestamp :: int

record IPFSData =
  TaskData :: "SendTaskDataToKeeper option"
  ActionData :: "PerformerActionData option"
  Proof :: "ProofData option"
  Signature :: "PerformerSignatureData option"

section \<open>Zero values\<close>

definition no_performer :: PerformerData where
  "no_performer = \<lparr>OperatorID = 0, PfKeeperAddress = [], PfIsImua = False\<rparr>"

definition zero_target :: TaskTargetData where
  "zero_target = \<lparr>TgJobID = None, TgTaskID = 0, TgTaskDefinitionID = 0, TargetChainID = [], TargetContractAddress = [],
     TargetFunction = [], ABI = [], ArgType = 0, Arguments = [], DynamicArgumentsScriptUrl = [], TgIsImua = False,
     ScriptStorage = [], ScriptLanguage = []\<rparr>"

definition zero_trigger :: TaskTriggerData where
  "zero_trigger = \<lparr>TrTaskID = 0, TrTaskDefinitionID = 0, TrRecurring = False, TrExpirationTime = 0,
     CurrentTriggerTimestamp = 0, NextTriggerTimestamp = 0, TimeScheduleType = [], TimeCronExpression = [],
     TimeSpecificSchedule = [], TrTimeInterval = 0, EventChainId = [], EventTxHash = [], EventTriggerContractAddress = [],
     EventTriggerName = [], TrConditionType = [], ConditionSourceType = [], ConditionSourceUrl = [],
     ConditionUpperLimit = 0, ConditionLowerLimit = 0, ConditionSatisfiedValue = 0\<rparr>"

section \<open>JSON\<close>

text \<open>A field with \<open>omitempty\<close>.\<close>

definition j_omit :: "bool \<Rightarrow> string \<Rightarrow> json \<Rightarrow> (string \<times> json) list" where
  "j_omit e k v = (if e then [] else [(k, v)])"

text \<open>A pointer to a struct.\<close>

definition j_opt :: "('a \<Rightarrow> json) \<Rightarrow> 'a option \<Rightarrow> json" where
  "j_opt f x = (case x of None \<Rightarrow> JNull | Some y \<Rightarrow> f y)"

definition j_big :: "int option \<Rightarrow> json" where
  "j_big n = (case n of None \<Rightarrow> JNull | Some i \<Rightarrow> JStr (show_int i))"

definition j_target :: "TaskTargetData \<Rightarrow> json" where
  "j_target t = JObj ([(''job_id'', j_big (TgJobID t)), (''task_id'', j_int (TgTaskID t)),
     (''task_definition_id'', j_int (TgTaskDefinitionID t)), (''target_chain_id'', JStr (TargetChainID t)),
     (''target_contract_address'', JStr (TargetContractAddress t)), (''target_function'', JStr (TargetFunction t)),
     (''abi'', JStr (ABI t)), (''arg_type'', j_int (ArgType t)), (''arguments'', j_list JStr (Arguments t)),
     (''dynamic_arguments_script_url'', JStr (DynamicArgumentsScriptUrl t)), (''is_imua'', JBool (TgIsImua t))]
     @ j_omit (ScriptStorage t = []) ''script_storage'' (JObj (map (\<lambda>(k, v). (k, JStr v)) (ScriptStorage t)))
     @ j_omit (ScriptLanguage t = []) ''script_language'' (JStr (ScriptLanguage t)))"

definition j_trigger :: "(int \<Rightarrow> string) \<Rightarrow> TaskTriggerData \<Rightarrow> json" where
  "j_trigger tm t = JObj [(''task_id'', j_int (TrTaskID t)), (''task_definition_id'', j_int (TrTaskDefinitionID t)),
     (''recurring'', JBool (TrRecurring t)), (''expiration_time'', JStr (tm (TrExpirationTime t))),
     (''trigger_timestamp'', JStr (tm (CurrentTriggerTimestamp t))),
     (''next_trigger_timestamp'', JStr (tm (NextTriggerTimestamp t))),
     (''time_schedule_type'', JStr (TimeScheduleType t)), (''time_cron_expression'', JStr (TimeCronExpression t)),
     (''time_specific_schedule'', JStr (TimeSpecificSchedule t)), (''time_interval'', j_int (TrTimeInterval t)),
     (''event_chain_id'', JStr (EventChainId t)), (''event_tx_hash'', JStr (EventTxHash t)),
     (''event_trigger_contract_address'', JStr (EventTriggerContractAddress t)),
     (''event_trigger_name'', JStr (EventTriggerName t)), (''condition_type'', JStr (TrConditionType t)),
     (''condition_source_type'', JStr (ConditionSourceType t)), (''condition_source_url'', JStr (ConditionSourceUrl t)),
     (''condition_upper_limit'', j_int (ConditionUpperLimit t)), (''condition_lower_limit'', j_int (ConditionLowerLimit t)),
     (''condition_satisfied_value'', j_int (ConditionSatisfiedValue t))]"

definition j_performer :: "PerformerData \<Rightarrow> json" where
  "j_performer p = JObj [(''operator_id'', j_int (OperatorID p)), (''keeper_address'', JStr (PfKeeperAddress p)),
     (''is_imua'', JBool (PfIsImua p))]"

definition j_send :: "(int \<Rightarrow> string) \<Rightarrow> SendTaskDataToKeeper \<Rightarrow> json" where
  "j_send tm s = JObj [(''task_id'', j_list j_int (TaskID s)), (''performer_data'', j_performer (Performer s)),
     (''target_data'', j_list j_target (TargetData s)), (''trigger_data'', j_list (j_trigger tm) (TriggerData s)),
     (''scheduler_id'', j_int (SchedulerID s)), (''manager_signature'', JStr (ManagerSignature s))]"

definition j_action :: "(int \<Rightarrow> string) \<Rightarrow> PerformerActionData \<Rightarrow> json" where
  "j_action tm a = JObj ([(''task_id'', j_int (AcTaskID a)), (''action_tx_hash'', JStr (ActionTxHash a)),
     (''gas_used'', JStr (GasUsed a)), (''status'', JBool (AcStatus a)),
     (''memory_usage'', j_int (MemoryUsage a)), (''cpu_percentage'', JNum (CPUPercentage a)),
     (''network_rx'', j_int (NetworkRx a)), (''network_tx'', j_int (NetworkTx a)),
     (''block_read'', j_int (BlockRead a)), (''block_write'', j_int (BlockWrite a)),
     (''bandwidth_rate'', JNum (BandwidthRate a)),
     (''total_fee'', case TotalFee a of None \<Rightarrow> JNull | Some n \<Rightarrow> j_int n),
     (''static_complexity'', JNum (StaticComplexity a)), (''dynamic_complexity'', JNum (DynamicComplexity a)),
     (''complexity_index'', JNum (ComplexityIndex a)), (''execution_timestamp'', JStr (tm (ExecutionTimestamp a))),
     (''converted_arguments'', j_list id (ConvertedArguments a))]
     @ j_omit (StorageUpdates a = []) ''storage_updates'' (JObj (map (\<lambda>(k, v). (k, JStr v)) (StorageUpdates a)))
     @ j_omit (ScriptTargetContract a = []) ''script_target_contract'' (JStr (ScriptTargetContract a))
     @ j_omit (ScriptCalldata a = []) ''script_calldata'' (JStr (ScriptCalldata a)))"

definition j_proof :: "(int \<Rightarrow> string) \<Rightarrow> ProofData option \<Rightarrow> json" where
  "j_proof tm p = (case p of None \<Rightarrow> JNull | Some p \<Rightarrow> JObj [(''task_id'', j_int (PrTaskID p)),
     (''proof_of_task'', JStr (ProofOfTask p)), (''certificate_hash'', JStr (CertificateHash p)),
     (''certificate_timestamp'', JStr (tm (CertificateTimestamp p)))])"

definition j_signature :: "PerformerSignatureData option \<Rightarrow> json" where
  "j_signature p = (case p of None \<Rightarrow> JNull | Some p \<Rightarrow> JObj [(''task_id'', j_int (PsTaskID p)),
     (''performer_signing_address'', JStr (PerformerSigningAddress p)),
     (''performer_signature'', JStr (PerformerSignature p))])"

definition j_ipfs :: "(int \<Rightarrow> string) \<Rightarrow> IPFSData \<Rightarrow> json" where
  "j_ipfs tm d = JObj [(''task_data'', j_opt (j_send tm) (TaskData d)), (''action_data'', j_opt (j_action tm) (ActionData d)),
     (''proof_data'', j_proof tm (Proof d)), (''performer_signature_data'', j_signature (Signature d))]"

end
