(* ===== verification/WebSocket_Hub.thy ===== *)
theory WebSocket_Hub
  imports Json
begin

text \<open>
  The dbserver's WebSocket hub (\<open>internal/dbserver/websocket\<close>): messages, the client
  object with its buffered send channel, the handlers of client messages, and the hub that
  registers clients, keeps the rooms and broadcasts. Client pointers are numbers into a heap
  of client objects, because the hub, the rooms and the pumps share them. An operation that
  makes the process panic (a send on a closed channel, a second close, a slice out of range)
  returns \<open>None\<close>. The order in which Go ranges over a set of clients is the argument
  \<open>ord\<close>. The callback that fetches initial data after a subscription, the text of JSON messages and
  the sockets behind the pumps are not modelled.
\<close>

section \<open>Messages\<close>

datatype MessageType =
  MTaskCreated | MTaskUpdated | MTaskStatusChanged | MTaskFeeUpdated | MJobTasksSnapshot
| MSubscribe | MUnsubscribe | MPing | MPong | MError | MSuccess | MOther string

record TaskEventData =
  TaskID :: int
  JobID :: string
  EventUserID :: string
  EventTimestamp :: int

datatype payload =
  PNone | PTask TaskEventData | PError string string | PSuccess string "(string \<times> string) list"

record Message =
  Type :: MessageType
  Data :: payload
  Timestamp :: int

definition NewMessage :: "int \<Rightarrow> MessageType \<Rightarrow> payload \<Rightarrow> Message" where
  "NewMessage now t d = \<lparr>Type = t, Data = d, Timestamp = now\<rparr>"

definition NewTaskEventMessage :: "int \<Rightarrow> MessageType \<Rightarrow> TaskEventData \<Rightarrow> Message" where
  "NewTaskEventMessage now t d = \<lparr>Type = t, Data = PTask d, Timestamp = now\<rparr>"

definition NewErrorMessage :: "int \<Rightarrow> string \<Rightarrow> string \<Rightarrow> Message" where
  "NewErrorMessage now code msg = \<lparr>Type = MError, Data = PError code msg, Timestamp = now\<rparr>"

definition NewSuccessMessage :: "int \<Rightarrow> string \<Rightarrow> (string \<times> string) list \<Rightarrow> Message" where
  "NewSuccessMessage now msg d = \<lparr>Type = MSuccess, Data = PSuccess msg d, Timestamp = now\<rparr>"

section \<open>Clients\<close>

record Client =
  Send :: "Message list"
  SendClosed :: bool
  Cancelled :: bool
  Rooms :: "string set"
  UserID :: string
  APIKey :: string

definition sendCap :: nat where
  "sendCap = 256"

definition NewClient :: Client where
  "NewClient = \<lparr>Send = [], SendClosed = False, Cancelled = False, Rooms = {}, UserID = [], APIKey = []\<rparr>"

datatype send_result = Sent Client | Full | SendPanic

text \<open>\<open>select\<close> with a \<open>default\<close>: a closed channel panics before its buffer is looked at.\<close>

definition try_send :: "Message \<Rightarrow> Client \<Rightarrow> send_result" where
  "try_send m c =
     (if SendClosed c then SendPanic
      else if length (Send c) < sendCap then Sent (c\<lparr>Send := Send c @ [m]\<rparr>)
      else Full)"

definition close_send :: "Client \<Rightarrow> Client option" where
  "close_send c = (if SendClosed c then None else Some (c\<lparr>SendClosed := True\<rparr>))"

definition Close :: "Client \<Rightarrow> Client option" where
  "Close c = close_send (c\<lparr>Cancelled := True\<rparr>)"

definition sendMessage :: "Message \<Rightarrow> Client \<Rightarrow> Client option" where
  "sendMessage m c =
     (case try_send m c of
        Sent c' \<Rightarrow> Some c'
      | Full \<Rightarrow> Close c
      | SendPanic \<Rightarrow> None)"

definition json_str :: "json option \<Rightarrow> string option" where
  "json_str v = (case v of Some (JStr s) \<Rightarrow> Some s | _ \<Rightarrow> None)"

text \<open>\<open>room[:5]\<close> panics when the string is shorter than five bytes.\<close>

definition slice_to :: "string \<Rightarrow> nat \<Rightarrow> string option" where
  "slice_to s n = (if n \<le> length s then Some (take n s) else None)"

definition validateRoomAccess :: "Client \<Rightarrow> string \<Rightarrow> (string \<times> json) list \<Rightarrow> bool option" where
  "validateRoomAccess c room d =
     (if length room < 3 then Some False
      else case slice_to room 5 of
        None \<Rightarrow> None
      | Some p \<Rightarrow>
          if p = ''user:'' then
            (case json_str (map_of d ''user_id'') of
               None \<Rightarrow> Some False
             | Some userID \<Rightarrow> if userID = [] then Some False else Some (UserID c = userID))
          else Some True)"

text \<open>What a handler asks the hub to do, through its subscription channels.\<close>

datatype hub_request = ReqSubscribe string | ReqUnsubscribe string

definition handleSubscribe :: "int \<Rightarrow> json \<Rightarrow> Client \<Rightarrow> (Client \<times> hub_request list) option" where
  "handleSubscribe now msgData c =
     (let fail = (\<lambda>code text. map_option (\<lambda>c'. (c', [])) (sendMessage (NewErrorMessage now code text) c))
      in case msgData of
        JObj d \<Rightarrow>
          (case json_str (map_of d ''room'') of
             None \<Rightarrow> fail ''INVALID_ROOM'' ''Room is required for subscription''
           | Some room \<Rightarrow>
               if room = [] then fail ''INVALID_ROOM'' ''Room is required for subscription''
               else case validateRoomAccess c room d of
                 None \<Rightarrow> None
               | Some False \<Rightarrow> fail ''ACCESS_DENIED'' ''Access denied to room''
               | Some True \<Rightarrow>
                   map_option (\<lambda>c'. (c', [ReqSubscribe room]))
                     (sendMessage (NewSuccessMessage now ''Subscribed to room'' [(''room'', room)])
                        (c\<lparr>Rooms := insert room (Rooms c)\<rparr>)))
      | _ \<Rightarrow> fail ''INVALID_SUBSCRIPTION_DATA'' ''Invalid subscription data format'')"

definition handleUnsubscribe :: "int \<Rightarrow> json \<Rightarrow> Client \<Rightarrow> (Client \<times> hub_request list) option" where
  "handleUnsubscribe now msgData c =
     (let fail = (\<lambda>code text. map_option (\<lambda>c'. (c', [])) (sendMessage (NewErrorMessage now code text) c))
      in case msgData of
        JObj d \<Rightarrow>
          (case json_str (map_of d ''room'') of
             None \<Rightarrow> fail ''INVALID_ROOM'' ''Room is required for unsubscription''
           | Some room \<Rightarrow>
               if room = [] then fail ''INVALID_ROOM'' ''Room is required for unsubscription''
               else
                 map_option (\<lambda>c'. (c', [ReqUnsubscribe room]))
                   (sendMessage (NewSuccessMessage now ''Unsubscribed from room'' [(''room'', room)])
                      (c\<lparr>Rooms := Rooms c - {room}\<rparr>)))
      | _ \<Rightarrow> fail ''INVALID_UNSUBSCRIPTION_DATA'' ''Invalid unsubscription data format'')"

definition handlePing :: "int \<Rightarrow> Client \<Rightarrow> (Client \<times> hub_request list) option" where
  "handlePing now c = map_option (\<lambda>c'. (c', [])) (sendMessage (NewMessage now MPong PNone) c)"

definition handleMessage :: "int \<Rightarrow> MessageType \<Rightarrow> json \<Rightarrow> Client \<Rightarrow> (Client \<times> hub_request list) option" where
  "handleMessage now t msgData c =
     (case t of
        MSubscribe \<Rightarrow> handleSubscribe now msgData c
      | MUnsubscribe \<Rightarrow> handleUnsubscribe now msgData c
      | MPing \<Rightarrow> handlePing now c
      | _ \<Rightarrow> map_option (\<lambda>c'. (c', []))
               (sendMessage (NewErrorMessage now ''INVALID_MESSAGE_TYPE'' ''Unknown message type'') c))"

definition IsInRoom :: "string \<Rightarrow> Client \<Rightarrow> bool" where
  "IsInRoom room c \<longleftrightarrow> room \<in> Rooms c"

section \<open>The hub\<close>

record BroadcastMessage =
  BMessage :: Message
  BRooms :: "string list"

record Hub =
  clients :: "nat set"
  rooms :: "string \<rightharpoonup> nat set"
  heap :: "nat \<Rightarrow> Client"
  broadcast :: "BroadcastMessage chan"
  taskEvents :: "TaskEventData chan"

definition NewHub :: Hub where
  "NewHub = \<lparr>clients = {}, rooms = Map.empty, heap = (\<lambda>_. NewClient),
     broadcast = make_chan 256, taskEvents = make_chan 256\<rparr>"

definition registerClient :: "nat \<Rightarrow> Hub \<Rightarrow> Hub" where
  "registerClient c h = h\<lparr>clients := insert c (clients h)\<rparr>"

text \<open>
  The loop over the rooms deletes the client from the rooms it is in, and each room that
  becomes empty; deletions during a range are allowed, and the order does not matter.
\<close>

definition leave_rooms :: "nat \<Rightarrow> (string \<rightharpoonup> nat set) \<Rightarrow> (string \<rightharpoonup> nat set)" where
  "leave_rooms c rs =
     (\<lambda>room. case rs room of
        None \<Rightarrow> None
      | Some cs \<Rightarrow>
          if c \<in> cs then (if cs - {c} = {} then None else Some (cs - {c})) else Some cs)"

definition unregisterClient :: "nat \<Rightarrow> Hub \<Rightarrow> Hub option" where
  "unregisterClient c h =
     (if c \<in> clients h then
        (case close_send (heap h c) of
           None \<Rightarrow> None
         | Some cl \<Rightarrow>
             Some (h\<lparr>clients := clients h - {c}, heap := (heap h)(c := cl),
                     rooms := leave_rooms c (rooms h)\<rparr>))
      else Some h)"

definition subscribeToRoom :: "nat \<Rightarrow> string \<Rightarrow> Hub \<Rightarrow> Hub" where
  "subscribeToRoom c room h =
     (let cs = (case rooms h room of None \<Rightarrow> {} | Some cs \<Rightarrow> cs)
      in h\<lparr>rooms := (rooms h)(room \<mapsto> insert c cs)\<rparr>)"

definition unsubscribeFromRoom :: "nat \<Rightarrow> string \<Rightarrow> Hub \<Rightarrow> Hub" where
  "unsubscribeFromRoom c room h =
     (case rooms h room of
        None \<Rightarrow> h
      | Some cs \<Rightarrow>
          if cs - {c} = {} then h\<lparr>rooms := (rooms h)(room := None)\<rparr>
          else h\<lparr>rooms := (rooms h)(room \<mapsto> cs - {c})\<rparr>)"

text \<open>
  One iteration of a broadcast loop: the send, or on a full channel the close and the
  deletion from \<open>h.clients\<close> and, in the loop over a room, from that room.
\<close>

definition deliver :: "Message \<Rightarrow> string option \<Rightarrow> nat \<Rightarrow> Hub \<Rightarrow> Hub option" where
  "deliver m room c h =
     (case try_send m (heap h c) of
        Sent cl \<Rightarrow> Some (h\<lparr>heap := (heap h)(c := cl)\<rparr>)
      | SendPanic \<Rightarrow> None
      | Full \<Rightarrow>
          (case close_send (heap h c) of
             None \<Rightarrow> None
           | Some cl \<Rightarrow>
               Some (h\<lparr>heap := (heap h)(c := cl), clients := clients h - {c},
                       rooms := (case room of
                           None \<Rightarrow> rooms h
                         | Some r \<Rightarrow> (rooms h)(r := map_option (\<lambda>cs. cs - {c}) (rooms h r)))\<rparr>)))"

fun deliver_all :: "Message \<Rightarrow> string option \<Rightarrow> nat list \<Rightarrow> Hub \<Rightarrow> Hub option" where
  "deliver_all m room [] h = Some h"
| "deliver_all m room (c # cs) h =
     (case deliver m room c h of None \<Rightarrow> None | Some h' \<Rightarrow> deliver_all m room cs h')"

fun broadcast_rooms :: "(nat set \<Rightarrow> nat list) \<Rightarrow> Message \<Rightarrow> string list \<Rightarrow> Hub \<Rightarrow> Hub option" where
  "broadcast_rooms ord m [] h = Some h"
| "broadcast_rooms ord m (r # rs) h =
     (case rooms h r of
        None \<Rightarrow> broadcast_rooms ord m rs h
      | Some cs \<Rightarrow>
          (case deliver_all m (Some r) (ord cs) h of
             None \<Rightarrow> None
           | Some h' \<Rightarrow> broadcast_rooms ord m rs h'))"

definition broadcastToRooms :: "(nat set \<Rightarrow> nat list) \<Rightarrow> BroadcastMessage \<Rightarrow> Hub \<Rightarrow> Hub option" where
  "broadcastToRooms ord b h =
     (if BRooms b = [] then deliver_all (BMessage b) None (ord (clients h)) h
      else broadcast_rooms ord (BMessage b) (BRooms b) h)"

section \<open>Task events\<close>

text \<open>
  \<open>string(rune(id))\<close>: the low 32 bits as a signed code point, in UTF-8; the replacement
  character for what is not a code point.
\<close>

definition rune_of_int64 :: "int \<Rightarrow> int" where
  "rune_of_int64 n = signed_take_bit 31 n"

definition byte_char :: "int \<Rightarrow> char" where
  "byte_char n = char_of n"

definition utf8 :: "int \<Rightarrow> string" where
  "utf8 r =
     (let cp = (if r < 0 \<or> 1114111 < r \<or> (55296 \<le> r \<and> r \<le> 57343) then 65533 else r)
      in if cp < 128 then [byte_char cp]
         else if cp < 2048 then [byte_char (192 + cp div 64), byte_char (128 + cp mod 64)]
         else if cp < 65536 then
           [byte_char (224 + cp div 4096), byte_char (128 + cp div 64 mod 64), byte_char (128 + cp mod 64)]
         else
           [byte_char (240 + cp div 262144), byte_char (128 + cp div 4096 mod 64),
            byte_char (128 + cp div 64 mod 64), byte_char (128 + cp mod 64)])"

definition task_room :: "int \<Rightarrow> string" where
  "task_room taskID = ''task:'' @ utf8 (rune_of_int64 taskID)"

definition broadcastTaskEvent :: "int \<Rightarrow> TaskEventData \<Rightarrow> BroadcastMessage" where
  "broadcastTaskEvent now e =
     (let (t, rs) =
        (if TaskID e \<noteq> 0
         then (MTaskUpdated,
               [task_room (TaskID e), ''job:'' @ JobID e] @
               (if EventUserID e \<noteq> [] then [''user:'' @ EventUserID e] else []))
         else (MOther [], []))
      in \<lparr>BMessage = NewTaskEventMessage now t e, BRooms = rs\<rparr>)"

text \<open>The four \<open>BroadcastTask...\<close> methods stamp the event and drop it when the channel is full.\<close>

definition BroadcastTaskEvent :: "int \<Rightarrow> TaskEventData \<Rightarrow> Hub \<Rightarrow> Hub" where
  "BroadcastTaskEvent now e h =
     h\<lparr>taskEvents := send_or_drop chan_try_send (e\<lparr>EventTimestamp := now\<rparr>) (taskEvents h)\<rparr>"

definition getRoomStats :: "Hub \<Rightarrow> string \<rightharpoonup> nat" where
  "getRoomStats h = (\<lambda>room. map_option card (rooms h room))"

fun close_all :: "nat list \<Rightarrow> (nat \<Rightarrow> Client) \<Rightarrow> (nat \<Rightarrow> Client) option" where
  "close_all [] hp = Some hp"
| "close_all (c # cs) hp =
     (case Close (hp c) of None \<Rightarrow> None | Some cl \<Rightarrow> close_all cs (hp(c := cl)))"

definition Shutdown :: "(nat set \<Rightarrow> nat list) \<Rightarrow> Hub \<Rightarrow> Hub option" where
  "Shutdown ord h = map_option (\<lambda>hp. h\<lparr>heap := hp\<rparr>) (close_all (ord (clients h)) (heap h))"

section \<open>What single operations do\<close>

definition enumerates :: "('a set \<Rightarrow> 'a list) \<Rightarrow> bool" where
  "enumerates ord \<longleftrightarrow> (\<forall>cs. finite cs \<longrightarrow> distinct (ord cs) \<and> set (ord cs) = cs)"

lemma enumerates_sorted: "enumerates (sorted_list_of_set :: nat set \<Rightarrow> nat list)"
  by (simp add: enumerates_def)

definition members :: "Hub \<Rightarrow> string \<Rightarrow> nat set" where
  "members h r = (case rooms h r of None \<Rightarrow> {} | Some cs \<Rightarrow> cs)"

lemma deliver_room_other:
  "deliver m (Some r) c h = Some h' \<Longrightarrow> r' \<noteq> r \<Longrightarrow> rooms h' r' = rooms h r'"
  by (auto simp: deliver_def split: send_result.splits option.splits)

lemma deliver_heap_other:
  "deliver m room c h = Some h' \<Longrightarrow> c' \<noteq> c \<Longrightarrow> heap h' c' = heap h c'"
  by (auto simp: deliver_def split: send_result.splits option.splits)

lemma deliver_closed_mono:
  "deliver m room c h = Some h' \<Longrightarrow> SendClosed (heap h c') \<Longrightarrow> SendClosed (heap h' c')"
  by (auto simp: deliver_def try_send_def close_send_def split: if_splits send_result.splits option.splits)

lemma deliver_closed: "SendClosed (heap h c) \<Longrightarrow> deliver m room c h = None"
  by (simp add: deliver_def try_send_def)

lemma deliver_full:
  "sendCap \<le> length (Send (heap h c)) \<Longrightarrow> deliver m room c h = Some h' \<Longrightarrow> SendClosed (heap h' c)"
  by (auto simp: deliver_def try_send_def close_send_def split: if_splits send_result.splits option.splits)

lemma deliver_all_room_other:
  "deliver_all m (Some r) cs h = Some h' \<Longrightarrow> r' \<noteq> r \<Longrightarrow> rooms h' r' = rooms h r'"
  by (induction cs arbitrary: h) (auto split: option.splits dest: deliver_room_other)

lemma deliver_all_closed:
  "c \<in> set cs \<Longrightarrow> SendClosed (heap h c) \<Longrightarrow> deliver_all m room cs h = None"
  by (induction cs arbitrary: h) (auto split: option.splits simp: deliver_closed dest: deliver_closed_mono)

lemma deliver_all_closed_mono:
  "deliver_all m room cs h = Some h' \<Longrightarrow> SendClosed (heap h c) \<Longrightarrow> SendClosed (heap h' c)"
  by (induction cs arbitrary: h) (auto split: option.splits dest: deliver_closed_mono)

lemma deliver_all_full:
  "deliver_all m room cs h = Some h' \<Longrightarrow> c \<in> set cs \<Longrightarrow> sendCap \<le> length (Send (heap h c)) \<Longrightarrow>
     SendClosed (heap h' c)"
proof (induction cs arbitrary: h)
  case Nil
  then show ?case by simp
next
  case (Cons d cs)
  then obtain h1 where h1: "deliver m room d h = Some h1" "deliver_all m room cs h1 = Some h'"
    by (auto split: option.splits)
  show ?case
  proof (cases "d = c")
    case True
    with h1 Cons.prems show ?thesis
      by (blast intro: deliver_all_closed_mono deliver_full)
  next
    case False
    with h1 Cons.prems deliver_heap_other [OF h1(1), of c] show ?thesis
      by (auto intro: Cons.IH)
  qed
qed

text \<open>With room in every channel a broadcast loop appends the message to each client it visits.\<close>

lemma deliver_room_left:
  assumes "\<not> SendClosed (heap h c)" and "length (Send (heap h c)) < sendCap"
  shows "deliver m room c h = Some (h\<lparr>heap := (heap h)(c := (heap h c)\<lparr>Send := Send (heap h c) @ [m]\<rparr>)\<rparr>)"
  using assms by (simp add: deliver_def try_send_def)

lemma deliver_all_room_left:
  assumes "distinct cs"
    and "\<And>c. c \<in> set cs \<Longrightarrow> \<not> SendClosed (heap h c) \<and> length (Send (heap h c)) < sendCap"
  shows "deliver_all m room cs h = Some (h\<lparr>heap :=
    (\<lambda>c. if c \<in> set cs then (heap h c)\<lparr>Send := Send (heap h c) @ [m]\<rparr> else heap h c)\<rparr>)"
  using assms
proof (induction cs arbitrary: h)
  case Nil
  then show ?case by simp
next
  case (Cons c cs)
  let ?h1 = "h\<lparr>heap := (heap h)(c := (heap h c)\<lparr>Send := Send (heap h c) @ [m]\<rparr>)\<rparr>"
  have "deliver m room c h = Some ?h1"
    using Cons.prems by (intro deliver_room_left) auto
  moreover have "deliver_all m room cs ?h1 = Some (?h1\<lparr>heap :=
    (\<lambda>c. if c \<in> set cs then (heap ?h1 c)\<lparr>Send := Send (heap ?h1 c) @ [m]\<rparr> else heap ?h1 c)\<rparr>)"
    using Cons.prems by (intro Cons.IH) auto
  ultimately show ?case
    using Cons.prems(1) by (auto intro!: arg_cong [of _ _ "\<lambda>f. h\<lparr>heap := f\<rparr>"])
qed

definition copies :: "Hub \<Rightarrow> string list \<Rightarrow> nat \<Rightarrow> nat" where
  "copies h rs c = length (filter (\<lambda>r. c \<in> members h r) rs)"

lemma copies_Cons: "copies h (r # rs) c = (if c \<in> members h r then Suc (copies h rs c) else copies h rs c)"
  by (simp add: copies_def)

lemma members_heap [simp]: "members (h\<lparr>heap := f\<rparr>) = members h"
  by (simp add: members_def fun_eq_iff)

lemma copies_heap [simp]: "copies (h\<lparr>heap := f\<rparr>) = copies h"
  by (simp add: copies_def fun_eq_iff)

lemma broadcast_rooms_delivers:
  assumes "enumerates ord" and "\<And>r. finite (members h r)"
    and "\<And>r c. r \<in> set rs \<Longrightarrow> c \<in> members h r \<Longrightarrow>
       \<not> SendClosed (heap h c) \<and> length (Send (heap h c)) + copies h rs c \<le> sendCap"
  shows "broadcast_rooms ord m rs h = Some (h\<lparr>heap :=
    (\<lambda>c. (heap h c)\<lparr>Send := Send (heap h c) @ replicate (copies h rs c) m\<rparr>)\<rparr>)"
  using assms(2,3)
proof (induction rs arbitrary: h)
  case Nil
  then show ?case by (simp add: copies_def)
next
  case (Cons r rs)
  let ?f = "\<lambda>c. if c \<in> members h r then (heap h c)\<lparr>Send := Send (heap h c) @ [m]\<rparr> else heap h c"
  let ?h1 = "h\<lparr>heap := ?f\<rparr>"
  have loop: "deliver_all m (Some r) (ord (members h r)) h = Some ?h1"
  proof -
    have e: "distinct (ord (members h r))" "set (ord (members h r)) = members h r"
      using assms(1) Cons.prems(1) by (auto simp: enumerates_def)
    have "\<not> SendClosed (heap h c) \<and> length (Send (heap h c)) < sendCap" if "c \<in> members h r" for c
      using Cons.prems(2) [of r c] that by (auto simp: copies_Cons)
    then show ?thesis
      using deliver_all_room_left [OF e(1), of h m "Some r"] by (simp add: e(2))
  qed
  have first: "broadcast_rooms ord m (r # rs) h = broadcast_rooms ord m rs ?h1"
  proof (cases "rooms h r")
    case None
    then show ?thesis by (simp add: members_def)
  next
    case (Some cs)
    then have "members h r = cs" by (simp add: members_def)
    with loop Some show ?thesis by simp
  qed
  have "broadcast_rooms ord m rs ?h1 = Some (?h1\<lparr>heap :=
    (\<lambda>c. (heap ?h1 c)\<lparr>Send := Send (heap ?h1 c) @ replicate (copies ?h1 rs c) m\<rparr>)\<rparr>)"
  proof (rule Cons.IH)
    show "finite (members ?h1 r')" for r' using Cons.prems(1) by simp
    show "\<not> SendClosed (heap ?h1 c) \<and> length (Send (heap ?h1 c)) + copies ?h1 rs c \<le> sendCap"
      if "r' \<in> set rs" "c \<in> members ?h1 r'" for r' c
    proof -
      have "\<not> SendClosed (heap h c) \<and> length (Send (heap h c)) + copies h (r # rs) c \<le> sendCap"
        using Cons.prems(2) [of r' c] that by simp
      then show ?thesis by (cases "c \<in> members h r") (simp_all add: copies_Cons)
    qed
  qed
  then show ?case
    unfolding first by (simp add: copies_Cons if_distrib fun_eq_iff cong: if_cong)
qed

section \<open>The running hub\<close>

text \<open>
  The hub's goroutine and the clients' pumps as steps: a connection creates a client and
  registers it; a request is handled by the client's read pump, which passes subscriptions on
  to the hub; the write pump drains the send channel; the read pump's exit unregisters the
  client; the hub broadcasts. The rules for requests and broadcasts ask for room in the send
  channels they reach: what happens without it is the subject of its own theorem below.
  \<open>alive\<close> holds the clients whose read pump runs, \<open>used\<close> every client ever created.
\<close>

record server =
  hub :: Hub
  alive :: "nat set"
  used :: "nat set"

fun apply_request :: "nat \<Rightarrow> hub_request \<Rightarrow> Hub \<Rightarrow> Hub" where
  "apply_request c (ReqSubscribe room) h = subscribeToRoom c room h"
| "apply_request c (ReqUnsubscribe room) h = unsubscribeFromRoom c room h"

definition has_room :: "Hub \<Rightarrow> nat \<Rightarrow> bool" where
  "has_room h c \<longleftrightarrow> length (Send (heap h c)) < sendCap"

definition roomy :: "Hub \<Rightarrow> BroadcastMessage \<Rightarrow> bool" where
  "roomy h b \<longleftrightarrow> (\<forall>c \<in> clients h. length (Send (heap h c)) + length (BRooms b) < sendCap)"

inductive ws_step :: "(nat set \<Rightarrow> nat list) \<Rightarrow> server \<Rightarrow> server \<Rightarrow> bool" for ord where
  connect: "c \<notin> used s \<Longrightarrow>
     ws_step ord s (s\<lparr>alive := insert c (alive s), used := insert c (used s),
       hub := registerClient c ((hub s)\<lparr>heap := (heap (hub s))(c := NewClient\<lparr>UserID := uid, APIKey := key\<rparr>)\<rparr>)\<rparr>)"
| request: "c \<in> alive s \<Longrightarrow> has_room (hub s) c \<Longrightarrow>
     handleMessage now t d (heap (hub s) c) = Some (cl, reqs) \<Longrightarrow>
     ws_step ord s (s\<lparr>hub := fold (apply_request c) reqs ((hub s)\<lparr>heap := (heap (hub s))(c := cl)\<rparr>)\<rparr>)"
| drain: "c \<in> alive s \<Longrightarrow> Send (heap (hub s) c) = m # ms \<Longrightarrow>
     ws_step ord s (s\<lparr>hub := (hub s)\<lparr>heap := (heap (hub s))(c := (heap (hub s) c)\<lparr>Send := ms\<rparr>)\<rparr>\<rparr>)"
| disconnect: "c \<in> alive s \<Longrightarrow> unregisterClient c (hub s) = Some h \<Longrightarrow>
     ws_step ord s (s\<lparr>hub := h, alive := alive s - {c}\<rparr>)"
| send_broadcast: "roomy (hub s) b \<Longrightarrow> broadcastToRooms ord b (hub s) = Some h \<Longrightarrow>
     ws_step ord s (s\<lparr>hub := h\<rparr>)"
| task_event: "ws_step ord s (s\<lparr>hub := BroadcastTaskEvent now e (hub s)\<rparr>)"

inductive ws_reachable :: "(nat set \<Rightarrow> nat list) \<Rightarrow> server \<Rightarrow> bool" for ord where
  start: "ws_reachable ord \<lparr>hub = NewHub, alive = {}, used = {}\<rparr>"
| step: "ws_reachable ord s \<Longrightarrow> ws_step ord s s' \<Longrightarrow> ws_reachable ord s'"

definition ws_inv :: "server \<Rightarrow> bool" where
  "ws_inv s \<longleftrightarrow> clients (hub s) = alive s \<and> finite (alive s) \<and> alive s \<subseteq> used s \<and>
     (\<forall>c \<in> alive s. \<not> SendClosed (heap (hub s) c)) \<and>
     (\<forall>r cs. rooms (hub s) r = Some cs \<longrightarrow> cs \<noteq> {} \<and> cs \<subseteq> alive s) \<and>
     chan_ok (taskEvents (hub s))"

lemma ws_inv_members: "ws_inv s \<Longrightarrow> members (hub s) r \<subseteq> alive s \<and> finite (members (hub s) r)"
proof -
  assume inv: "ws_inv s"
  then have "members (hub s) r \<subseteq> alive s"
    unfolding ws_inv_def members_def by (auto split: option.splits)
  with inv show ?thesis by (auto simp: ws_inv_def intro: finite_subset)
qed

lemma sendMessage_room:
  "\<not> SendClosed cl \<Longrightarrow> length (Send cl) < sendCap \<Longrightarrow>
     sendMessage m cl = Some (cl\<lparr>Send := Send cl @ [m]\<rparr>)"
  by (simp add: sendMessage_def try_send_def)

lemma handleMessage_open:
  assumes "\<not> SendClosed cl" and "length (Send cl) < sendCap"
    and "handleMessage now t d cl = Some (cl', reqs)"
  shows "\<not> SendClosed cl'"
  using assms
  by (auto simp: handleMessage_def handleSubscribe_def handleUnsubscribe_def handlePing_def Let_def
      sendMessage_room split: MessageType.splits json.splits option.splits bool.splits if_splits)

lemma apply_request_keeps [simp]:
  "clients (apply_request c q h) = clients h" "heap (apply_request c q h) = heap h"
  "taskEvents (apply_request c q h) = taskEvents h"
  by (cases q; simp add: subscribeToRoom_def unsubscribeFromRoom_def Let_def split: option.split)+

lemma apply_request_rooms:
  assumes "rooms (apply_request c q h) r = Some cs" and "c \<in> A"
    and "\<And>r cs. rooms h r = Some cs \<Longrightarrow> cs \<noteq> {} \<and> cs \<subseteq> A"
  shows "cs \<noteq> {} \<and> cs \<subseteq> A"
proof (cases q)
  case (ReqSubscribe room)
  with assms show ?thesis
    by (fastforce simp: subscribeToRoom_def Let_def split: if_splits option.splits)
next
  case (ReqUnsubscribe room)
  with assms show ?thesis
    by (fastforce simp: unsubscribeFromRoom_def split: if_splits option.splits)
qed

lemma apply_requests_inv:
  "ws_inv s \<Longrightarrow> c \<in> alive s \<Longrightarrow> ws_inv (s\<lparr>hub := fold (apply_request c) reqs (hub s)\<rparr>)"
proof (induction reqs arbitrary: s)
  case Nil
  then show ?case by simp
next
  case (Cons q reqs)
  let ?s1 = "s\<lparr>hub := apply_request c q (hub s)\<rparr>"
  have "ws_inv ?s1"
    using Cons.prems apply_request_rooms [of c q "hub s" _ _ "alive s"]
    by (auto simp: ws_inv_def)
  from Cons.IH [OF this] Cons.prems(2) show ?case by simp
qed

lemma request_inv:
  assumes "ws_inv s" and "c \<in> alive s" and "has_room (hub s) c"
    and "handleMessage now t d (heap (hub s) c) = Some (cl, reqs)"
  shows "ws_inv (s\<lparr>hub := fold (apply_request c) reqs ((hub s)\<lparr>heap := (heap (hub s))(c := cl)\<rparr>)\<rparr>)"
proof -
  have "\<not> SendClosed cl"
    using handleMessage_open [OF _ _ assms(4)] assms by (auto simp: ws_inv_def has_room_def)
  with assms(1) have "ws_inv (s\<lparr>hub := (hub s)\<lparr>heap := (heap (hub s))(c := cl)\<rparr>\<rparr>)"
    by (auto simp: ws_inv_def)
  from apply_requests_inv [OF this, of c reqs] assms(2) show ?thesis by simp
qed

lemma unregister_inv:
  assumes "ws_inv s" and "c \<in> alive s" and "unregisterClient c (hub s) = Some h"
  shows "ws_inv (s\<lparr>hub := h, alive := alive s - {c}\<rparr>)"
proof -
  have "h = (hub s)\<lparr>clients := clients (hub s) - {c},
      heap := (heap (hub s))(c := (heap (hub s) c)\<lparr>SendClosed := True\<rparr>),
      rooms := leave_rooms c (rooms (hub s))\<rparr>"
    using assms by (auto simp: unregisterClient_def close_send_def ws_inv_def split: if_splits)
  moreover have "cs \<noteq> {} \<and> cs \<subseteq> alive s - {c}" if "leave_rooms c (rooms (hub s)) r = Some cs" for r cs
    using that assms(1) unfolding ws_inv_def leave_rooms_def
    by (fastforce split: option.splits if_splits)
  ultimately show ?thesis
    using assms(1) by (auto simp: ws_inv_def)
qed

lemma copies_le: "copies h rs c \<le> length rs"
  by (simp add: copies_def)

lemma broadcast_roomy:
  assumes "enumerates ord" and "ws_inv s" and "roomy (hub s) b"
  shows "broadcastToRooms ord b (hub s) = Some ((hub s)\<lparr>heap :=
    (\<lambda>c. (heap (hub s) c)\<lparr>Send := Send (heap (hub s) c) @
       (if BRooms b = [] then (if c \<in> clients (hub s) then [BMessage b] else [])
        else replicate (copies (hub s) (BRooms b) c) (BMessage b))\<rparr>)\<rparr>)"
proof (cases "BRooms b = []")
  case True
  have fin: "finite (clients (hub s))" using assms(2) by (simp add: ws_inv_def)
  with assms(1) have e: "distinct (ord (clients (hub s)))" "set (ord (clients (hub s))) = clients (hub s)"
    by (auto simp: enumerates_def)
  have "deliver_all (BMessage b) None (ord (clients (hub s))) (hub s) = Some ((hub s)\<lparr>heap :=
    (\<lambda>c. if c \<in> set (ord (clients (hub s)))
         then (heap (hub s) c)\<lparr>Send := Send (heap (hub s) c) @ [BMessage b]\<rparr> else heap (hub s) c)\<rparr>)"
  proof (rule deliver_all_room_left [OF e(1)])
    show "\<not> SendClosed (heap (hub s) c) \<and> length (Send (heap (hub s) c)) < sendCap"
      if "c \<in> set (ord (clients (hub s)))" for c
      using that [unfolded e(2)] assms(2,3) by (auto simp: ws_inv_def roomy_def)
  qed
  with True show ?thesis
    by (simp add: broadcastToRooms_def e(2) if_distrib fun_eq_iff cong: if_cong)
next
  case False
  have "broadcast_rooms ord (BMessage b) (BRooms b) (hub s) = Some ((hub s)\<lparr>heap :=
    (\<lambda>c. (heap (hub s) c)\<lparr>Send := Send (heap (hub s) c) @
       replicate (copies (hub s) (BRooms b) c) (BMessage b)\<rparr>)\<rparr>)"
  proof (rule broadcast_rooms_delivers [OF assms(1)])
    show "finite (members (hub s) r)" for r using ws_inv_members [OF assms(2)] by blast
    show "\<not> SendClosed (heap (hub s) c) \<and>
        length (Send (heap (hub s) c)) + copies (hub s) (BRooms b) c \<le> sendCap"
      if "c \<in> members (hub s) r" for r c
    proof -
      have c: "c \<in> alive s" using ws_inv_members [OF assms(2), of r] that by blast
      then have "length (Send (heap (hub s) c)) + length (BRooms b) < sendCap"
        using assms(2,3) by (auto simp: ws_inv_def roomy_def)
      with copies_le [of "hub s" "BRooms b" c] c assms(2) show ?thesis by (auto simp: ws_inv_def)
    qed
  qed
  with False show ?thesis by (simp add: broadcastToRooms_def)
qed

lemma ws_step_inv:
  assumes "enumerates ord" and "ws_step ord s s'" and "ws_inv s"
  shows "ws_inv s'"
  using assms(2,3)
proof cases
  case (connect c uid key)
  with assms(3) show ?thesis
    by (simp add: ws_inv_def registerClient_def NewClient_def) blast
next
  case (request c now t d cl reqs)
  with assms(3) show ?thesis by (auto intro: request_inv)
next
  case (drain c m ms)
  with assms(3) show ?thesis by (auto simp: ws_inv_def)
next
  case (disconnect c h)
  with assms(3) show ?thesis by (auto intro: unregister_inv)
next
  case (send_broadcast b h)
  with broadcast_roomy [OF assms(1,3) send_broadcast(2)] assms(3) show ?thesis
    by (auto simp: ws_inv_def)
next
  case (task_event now e)
  with assms(3) show ?thesis
    by (auto simp: ws_inv_def BroadcastTaskEvent_def intro: go_chan.send_or_drop_ok)
qed

lemma ws_reachable_inv: "ws_reachable ord s \<Longrightarrow> enumerates ord \<Longrightarrow> ws_inv s"
proof (induction rule: ws_reachable.induct)
  case start
  show ?case by (simp add: ws_inv_def NewHub_def)
next
  case (step s s')
  then show ?case by (blast intro: ws_step_inv)
qed

section \<open>Properties\<close>


definition one_client :: server where
  "one_client = \<lparr>hub = registerClient 0 (NewHub\<lparr>heap := (heap NewHub)(0 := NewClient\<lparr>UserID := ''u'', APIKey := ''k''\<rparr>)\<rparr>),
     alive = {0}, used = {0}\<rparr>"

lemma one_client_reachable: "ws_reachable ord one_client"
proof -
  have "ws_step ord \<lparr>hub = NewHub, alive = {}, used = {}\<rparr> one_client"
    using ws_step.connect [of 0 "\<lparr>hub = NewHub, alive = {}, used = {}\<rparr>" ord "''k''" "''u''"]
    by (simp add: one_client_def)
  then show ?thesis by (blast intro: ws_reachable.intros)
qed


text \<open>
  a broadcast to a list of rooms appends the message to a client's channel once for each
  listed room the client is in, and to nobody else's, and changes neither the clients nor
  the rooms, whenever the channels have room for it.
\<close>

theorem broadcast_delivers:
  assumes "enumerates ord" and "\<And>r. finite (members h r)" and "BRooms b \<noteq> []"
    and "\<And>r c. r \<in> set (BRooms b) \<Longrightarrow> c \<in> members h r \<Longrightarrow>
       \<not> SendClosed (heap h c) \<and> length (Send (heap h c)) + copies h (BRooms b) c \<le> sendCap"
  shows "broadcastToRooms ord b h = Some (h\<lparr>heap :=
    (\<lambda>c. (heap h c)\<lparr>Send := Send (heap h c) @ replicate (copies h (BRooms b) c) (BMessage b)\<rparr>)\<rparr>)"
  using broadcast_rooms_delivers [OF assms(1,2,4)] assms(3)
  by (simp add: broadcastToRooms_def)

definition two_rooms :: Hub where
  "two_rooms = NewHub\<lparr>clients := {0, 1},
     rooms := [''job:7'' \<mapsto> {0, 1}, ''task:1'' \<mapsto> {0}]\<rparr>"

lemma members_two_rooms:
  "members two_rooms r = (if r = ''job:7'' then {0, 1} else if r = ''task:1'' then {0} else {})"
  by (simp add: members_def two_rooms_def)

theorem broadcast_delivers_witness:
  "map_option (\<lambda>h. map (length \<circ> Send \<circ> heap h) [0, 1, 2])
     (broadcastToRooms sorted_list_of_set
       \<lparr>BMessage = NewMessage 0 MTaskUpdated PNone, BRooms = [''task:1'', ''job:7'']\<rparr> two_rooms)
   = Some [2, 1, 0]"
proof -
  let ?b = "\<lparr>BMessage = NewMessage 0 MTaskUpdated PNone, BRooms = [''task:1'', ''job:7'']\<rparr>"
  have c: "copies two_rooms (BRooms ?b) c = (if c = 0 then 2 else if c = 1 then 1 else 0)" for c
    by (simp add: copies_def members_two_rooms)
  have h: "heap two_rooms = (\<lambda>_. NewClient)" by (simp add: two_rooms_def NewHub_def)
  have "broadcastToRooms sorted_list_of_set ?b two_rooms = Some (two_rooms\<lparr>heap :=
    (\<lambda>c. (heap two_rooms c)\<lparr>Send := Send (heap two_rooms c) @
       replicate (copies two_rooms (BRooms ?b) c) (BMessage ?b)\<rparr>)\<rparr>)"
    by (rule broadcast_delivers [OF enumerates_sorted])
       (auto simp: members_two_rooms c [simplified] h NewClient_def sendCap_def)
  then show ?thesis by (simp add: c [simplified] h NewClient_def)
qed

text \<open>
  one slow client brings the process down. If a client with a full send channel is in
  two rooms, a broadcast to both (the task's room and the job's room of one event) closes its
  channel in the first room, leaves it in the second, and panics on the send there.
\<close>

theorem slow_client_panics:
  assumes "enumerates ord" and "rooms h r1 = Some cs1" and "rooms h r2 = Some cs2" and "r1 \<noteq> r2"
    and "finite cs1" and "finite cs2" and "c \<in> cs1" and "c \<in> cs2"
    and "sendCap \<le> length (Send (heap h c))" and "BRooms b = [r1, r2]"
  shows "broadcastToRooms ord b h = None"
proof (cases "deliver_all (BMessage b) (Some r1) (ord cs1) h")
  case None
  with assms show ?thesis by (simp add: broadcastToRooms_def)
next
  case (Some h1)
  have "set (ord cs1) = cs1" "set (ord cs2) = cs2" using assms by (auto simp: enumerates_def)
  with Some assms have "SendClosed (heap h1 c)" by (auto intro: deliver_all_full)
  moreover have "rooms h1 r2 = Some cs2"
    using deliver_all_room_other [OF Some, of r2] assms by auto
  ultimately have "broadcast_rooms ord (BMessage b) [r2] h1 = None"
    using assms(8) \<open>set (ord cs2) = cs2\<close> by (simp add: deliver_all_closed)
  with Some assms show ?thesis by (simp add: broadcastToRooms_def)
qed

theorem slow_client_panics_witness:
  "broadcastToRooms sorted_list_of_set
     \<lparr>BMessage = NewMessage 0 MTaskUpdated PNone, BRooms = [''task:1'', ''job:7'']\<rparr>
     (two_rooms\<lparr>heap := (heap two_rooms)(0 :=
        NewClient\<lparr>Send := replicate sendCap (NewMessage 0 MPong PNone)\<rparr>)\<rparr>) = None"
  by (rule slow_client_panics [of _ _ "''task:1''" "{0}" "''job:7''" "{0, 1}" 0])
     (simp_all add: enumerates_sorted two_rooms_def)

text \<open>
  unregistering a registered client with an open channel closes that channel, removes
  the client from the hub and from every room, deletes the rooms that become empty, and
  leaves every other client and every other membership as it was.
\<close>

theorem unregister_removes:
  assumes "c \<in> clients h" and "\<not> SendClosed (heap h c)"
  shows "\<exists>h'. unregisterClient c h = Some h' \<and> SendClosed (heap h' c) \<and>
    clients h' = clients h - {c} \<and> (\<forall>r. members h' r = members h r - {c}) \<and>
    (\<forall>c'. c' \<noteq> c \<longrightarrow> heap h' c' = heap h c') \<and>
    (\<forall>r. rooms h r \<noteq> Some {} \<longrightarrow> rooms h' r \<noteq> Some {})"
proof -
  let ?h = "h\<lparr>clients := clients h - {c}, heap := (heap h)(c := (heap h c)\<lparr>SendClosed := True\<rparr>),
    rooms := leave_rooms c (rooms h)\<rparr>"
  have "unregisterClient c h = Some ?h"
    using assms by (simp add: unregisterClient_def close_send_def)
  moreover have "members ?h r = members h r - {c}" for r
    by (auto simp: members_def leave_rooms_def split: option.splits if_splits)
  moreover have "rooms ?h r \<noteq> Some {}" if "rooms h r \<noteq> Some {}" for r
    using that by (auto simp: leave_rooms_def split: option.splits if_splits)
  ultimately show ?thesis by (intro exI [of _ ?h]) auto
qed

theorem unregister_removes_witness:
  "\<exists>h'. unregisterClient 0 two_rooms = Some h' \<and> members h' ''job:7'' = {1} \<and> members h' ''task:1'' = {}"
proof -
  have "0 \<in> clients two_rooms" "\<not> SendClosed (heap two_rooms 0)"
    by (simp_all add: two_rooms_def NewHub_def NewClient_def)
  from unregister_removes [OF this] obtain h' where
    "unregisterClient 0 two_rooms = Some h'" "\<And>r. members h' r = members two_rooms r - {0}"
    by blast
  then show ?thesis by (intro exI [of _ h']) (auto simp: members_two_rooms)
qed

text \<open>
  the access check panics exactly on the room names of three or four bytes, because it
  takes a five-byte prefix after a test for three; and a client with a user id may join the
  room of any user, since the check compares the id in the request with the client's own and
  never looks at the room name.
\<close>

theorem room_access:
  "(validateRoomAccess c room d = None \<longleftrightarrow> length room = 3 \<or> length room = 4) \<and>
   (validateRoomAccess c room d = Some True \<and> take 5 room = ''user:'' \<longrightarrow>
      UserID c \<noteq> [] \<and> map_of d ''user_id'' = Some (JStr (UserID c))) \<and>
   (UserID c \<noteq> [] \<longrightarrow> validateRoomAccess c (''user:'' @ other) [(''user_id'', JStr (UserID c))] = Some True)"
proof (intro conjI impI)
  show "validateRoomAccess c room d = None \<longleftrightarrow> length room = 3 \<or> length room = 4"
  proof (cases "length room < 5")
    case True
    then show ?thesis by (auto simp: validateRoomAccess_def slice_to_def)
  next
    case False
    then have "validateRoomAccess c room d \<noteq> None"
      by (cases "take 5 room = ''user:''") (auto simp: validateRoomAccess_def slice_to_def split: option.split)
    with False show ?thesis by linarith
  qed
  assume a: "validateRoomAccess c room d = Some True \<and> take 5 room = ''user:''"
  have "5 \<le> length room" proof -
    have "length (take 5 room) = length ''user:''" by (rule arg_cong [OF conjunct2 [OF a]])
    then have "min (length room) 5 = 5" by simp
    then show ?thesis by linarith
  qed
  with a obtain u where "json_str (map_of d ''user_id'') = Some u" "u \<noteq> []" "UserID c = u"
    by (auto simp: validateRoomAccess_def slice_to_def split: option.splits if_splits)
  then show "UserID c \<noteq> []" and "map_of d ''user_id'' = Some (JStr (UserID c))"
    by (auto simp: json_str_def split: option.splits json.splits)
next
  assume "UserID c \<noteq> []"
  then show "validateRoomAccess c (''user:'' @ other) [(''user_id'', JStr (UserID c))] = Some True"
    by (simp add: validateRoomAccess_def slice_to_def json_str_def)
qed

theorem room_access_witness:
  "validateRoomAccess (NewClient\<lparr>UserID := ''alice''\<rparr>) ''user:bob'' [(''user_id'', JStr ''alice'')] = Some True"
  using room_access [of "NewClient\<lparr>UserID := ''alice''\<rparr>" "''abc''" "[]" "''bob''"] by simp

lemma rune_small: "0 \<le> n \<Longrightarrow> n < 2 ^ 31 \<Longrightarrow> rune_of_int64 n = n"
  by (simp add: rune_of_int64_def signed_take_bit_int_eq_self)

text \<open>
  the room of a task is named after the character with the task's number, not after the
  number: every task id from 1114112 up to \<open>2^31\<close> shares one room, the room of an id below
  128 is six bytes long, and no event for such ids reaches the room \<open>task:\<close> followed by the
  decimal number.
\<close>

theorem task_room_collision:
  "(\<forall>n. 1114112 \<le> n \<and> n < 2 ^ 31 \<longrightarrow> task_room n = ''task:'' @ utf8 65533) \<and>
   (\<forall>n. 0 \<le> n \<and> n < 128 \<longrightarrow> task_room n = ''task:'' @ [char_of n]) \<and>
   task_room 49 = ''task:1''"
proof -
  have "char_of (49 :: int) = CHR ''1''" by code_simp
  then show ?thesis by (auto simp: task_room_def rune_small utf8_def byte_char_def Let_def)
qed

theorem task_room_collision_witness:
  "task_room 1114112 = task_room 2000000"
  using task_room_collision by simp

end
