(* ===== verification/Container_Pool.thy ===== *)
theory Container_Pool
  imports Float64
begin

text \<open>
  The pool of docker containers of one language (\<open>pkg/dockerexecutor/container/pool.go\<close>).
  The docker client, the temporary directories, the clock and the id generator are not in
  the repository: they are the fields of \<open>docker_api\<close>, functions on a world of any type that
  answer with a value or an error. Container objects are shared by the pool's map and its
  ready queue, so the map is the set of its keys and the objects live in a heap \<open>objs\<close>.
  Each method runs as one step; the creation loop of \<open>initialize\<close> runs its goroutines one
  after another.
\<close>

section \<open>Data\<close>

datatype Language = LangGo | LangPy | LangJS | LangTS | LangNode | LangOther string

datatype ContainerStatus = Pending | Running | Stopped | Ready | Error

record PooledContainer =
  Status :: ContainerStatus
  LastUsed :: int
  WorkingDir :: string
  ImageName :: string
  PLanguage :: Language
  CreatedAt :: int
  CError :: "go_error option"

record PoolStats =
  TotalContainers :: nat
  ReadyContainers :: nat
  BusyContainers :: nat
  ErrorContainers :: nat
  UtilizationRate :: float64
  CreatedCount :: nat

record pool_config =
  Language :: Language
  CfgImage :: string
  LangEnvironment :: "string list"
  DockerEnvironment :: "string list"
  MemoryLimitBytes :: int
  CPULimit :: float64
  MaxContainers :: nat
  MinContainers :: nat
  InitScript :: string
  CleanupScript :: string

record container_spec =
  Image :: string
  Cmd :: "string list"
  Tty :: bool
  SpecWorkingDir :: string
  Env :: "string list"
  Binds :: "string list"
  Memory :: int
  NanoCPUs :: int
  Privileged :: bool

record 'w docker_api =
  ContainerCreate :: "container_spec \<Rightarrow> string \<Rightarrow> 'w \<Rightarrow> (go_error + string) \<times> 'w"
  ContainerStart :: "string \<Rightarrow> 'w \<Rightarrow> (go_error + unit) \<times> 'w"
  ContainerRemove :: "string \<Rightarrow> 'w \<Rightarrow> (go_error + unit) \<times> 'w"
  ContainerInspect :: "string \<Rightarrow> 'w \<Rightarrow> (go_error + bool) \<times> 'w"
  ExecCreate :: "string \<Rightarrow> string list \<Rightarrow> 'w \<Rightarrow> (go_error + string) \<times> 'w"
  ExecAttach :: "string \<Rightarrow> 'w \<Rightarrow> (go_error + unit) \<times> 'w"
  ExecStart :: "string \<Rightarrow> 'w \<Rightarrow> (go_error + unit) \<times> 'w"
  ExecInspect :: "string \<Rightarrow> 'w \<Rightarrow> (go_error + (bool \<times> int)) \<times> 'w"
  CleanupContainer :: "string \<Rightarrow> 'w \<Rightarrow> (go_error + unit) \<times> 'w"
  MkTempDir :: "Language \<Rightarrow> 'w \<Rightarrow> (go_error + string) \<times> 'w"
  AbsPath :: "string \<Rightarrow> 'w \<Rightarrow> (go_error + string) \<times> 'w"
  NewUUID :: "'w \<Rightarrow> (go_error + string) \<times> 'w"
  Sleep :: "int \<Rightarrow> 'w \<Rightarrow> (go_error + unit) \<times> 'w"
  TimerFired :: "'w \<Rightarrow> bool"
  Now :: "'w \<Rightarrow> int"
  CtxWins :: "'w \<Rightarrow> (go_error + unit) \<times> 'w"

record 'w pool =
  containers :: "string set"
  objs :: "string \<Rightarrow> PooledContainer"
  readyQueue :: "string chan"
  waitQueue :: "unit chan"
  creationSemaphore :: "unit chan"
  stats :: PoolStats
  stopHealth :: bool
  world :: 'w

definition on_world :: "('w \<Rightarrow> (go_error + 'a) \<times> 'w) \<Rightarrow> ('w pool, 'a) io" where
  "on_world f p = (case f (world p) of (r, w) \<Rightarrow> Some (r, p\<lparr>world := w\<rparr>))"

lemma on_world_total: "\<exists>y q. on_world f p = Some (y, q)"
  by (cases "f (world p)") (simp add: on_world_def)

text \<open>Everything of the pool but the world: what a call of docker leaves alone.\<close>

definition core :: "'w pool \<Rightarrow>
    string set \<times> (string \<Rightarrow> PooledContainer) \<times> string chan \<times> unit chan \<times> unit chan \<times> PoolStats \<times> bool" where
  "core p = (containers p, objs p, readyQueue p, waitQueue p, creationSemaphore p, stats p, stopHealth p)"

lemma core_on_world [io_keeps_intros]: "io_keeps core (on_world f)"
  by (auto simp: io_keeps_def on_world_def core_def split: prod.splits)

section \<open>Construction\<close>

definition fill_tokens :: "nat \<Rightarrow> unit chan \<Rightarrow> unit chan" where
  "fill_tokens n c = fold (\<lambda>_. send_or_drop chan_try_send ()) [0..<n] c"

definition newContainerPool :: "pool_config \<Rightarrow> (string \<Rightarrow> PooledContainer) \<Rightarrow> 'w \<Rightarrow> 'w pool" where
  "newContainerPool cfg o0 w =
     \<lparr>containers = {}, objs = o0,
      readyQueue = make_chan (MaxContainers cfg), waitQueue = make_chan (MaxContainers cfg),
      creationSemaphore = fill_tokens (MaxContainers cfg) (make_chan (MaxContainers cfg)),
      stats = \<lparr>TotalContainers = 0, ReadyContainers = 0, BusyContainers = 0, ErrorContainers = 0,
               UtilizationRate = 0, CreatedCount = 0\<rparr>,
      stopHealth = False, world = w\<rparr>"

definition with_status :: "ContainerStatus \<Rightarrow> 'w pool \<Rightarrow> string set" where
  "with_status st p = {c \<in> containers p. Status (objs p c) = st}"

definition updateStats :: "'w pool \<Rightarrow> 'w pool" where
  "updateStats p =
     (let total = card (containers p); busy = card (with_status Running p)
      in p\<lparr>stats := (stats p)
           \<lparr>ReadyContainers := card (with_status Ready p), BusyContainers := busy,
            ErrorContainers := card (with_status Error p), TotalContainers := total,
            UtilizationRate :=
              (if 0 < total then f64_div (f64_of_i64 (int busy)) (f64_of_i64 (int total))
               else UtilizationRate (stats p))\<rparr>\<rparr>)"

section \<open>Running a command in a container\<close>

text \<open>The loop that inspects an exec until its process has ended.\<close>

partial_function (option) exec_wait ::
  "'w docker_api \<Rightarrow> string \<Rightarrow> string \<Rightarrow> string \<Rightarrow> 'w pool \<Rightarrow> ((go_error + unit) \<times> 'w pool) option" where
  "exec_wait api msgInspect msgExit ex p =
     (case ExecInspect api ex (world p) of
        (Inl e, w) \<Rightarrow> Some (Inl (Wrap msgInspect e), p\<lparr>world := w\<rparr>)
      | (Inr (running, code), w) \<Rightarrow>
          if \<not> running then
            Some (if code \<noteq> 0 then Inl (GoErr (msgExit @ show_int code)) else Inr (), p\<lparr>world := w\<rparr>)
          else exec_wait api msgInspect msgExit ex (p\<lparr>world := snd (Sleep api 100000000 w)\<rparr>))"

partial_function (option) verify_wait ::
  "'w docker_api \<Rightarrow> string \<Rightarrow> 'w pool \<Rightarrow> ((go_error + unit) \<times> 'w pool) option" where
  "verify_wait api ex p =
     (if TimerFired api (world p) then Some (Inl (GoErr ''container verification timed out''), p)
      else case ExecInspect api ex (world p) of
        (Inl e, w) \<Rightarrow> Some (Inl (Wrap ''failed to inspect verification exec'' e), p\<lparr>world := w\<rparr>)
      | (Inr (running, code), w) \<Rightarrow>
          if \<not> running then
            Some (if code \<noteq> 0
                  then Inl (GoErr (''container verification failed with exit code: '' @ show_int code))
                  else Inr (), p\<lparr>world := w\<rparr>)
          else verify_wait api ex (p\<lparr>world := snd (Sleep api 100000000 w)\<rparr>))"

definition start_exec ::
  "'w docker_api \<Rightarrow> string \<Rightarrow> string \<Rightarrow> string \<Rightarrow> string \<Rightarrow> string \<Rightarrow> ('w pool, string) io" where
  "start_exec api msgCreate msgAttach msgStart containerID script =
     io_bind (io_wrap msgCreate (on_world (ExecCreate api containerID [''sh'', ''-c'', script]))) (\<lambda>ex.
     io_bind (io_wrap msgAttach (on_world (ExecAttach api ex))) (\<lambda>_.
     io_bind (io_wrap msgStart (on_world (ExecStart api ex))) (\<lambda>_.
     io_ret ex)))"

definition testCmd :: "Language \<Rightarrow> string" where
  "testCmd l =
     (case l of
        LangGo \<Rightarrow> ''cd /code && go version''
      | LangPy \<Rightarrow> ''cd /code && python --version''
      | LangJS \<Rightarrow> ''cd /code && node --version''
      | LangNode \<Rightarrow> ''cd /code && node --version''
      | LangTS \<Rightarrow> ''cd /code && tsc --version''
      | LangOther _ \<Rightarrow> ''cd /code && echo '' @ [CHR 0x27] @ ''ready'' @ [CHR 0x27])"

definition verifyContainerReady :: "'w docker_api \<Rightarrow> pool_config \<Rightarrow> string \<Rightarrow> ('w pool, unit) io" where
  "verifyContainerReady api cfg containerID =
     io_bind (start_exec api ''failed to create verification exec'' ''failed to attach to verification exec''
                ''failed to start verification exec'' containerID (testCmd (Language cfg)))
       (verify_wait api)"

definition initializeContainer :: "'w docker_api \<Rightarrow> pool_config \<Rightarrow> string \<Rightarrow> ('w pool, unit) io" where
  "initializeContainer api cfg containerID =
     io_bind (start_exec api ''failed to create initialization exec'' ''failed to attach to initialization exec''
                ''failed to start initialization exec'' containerID (InitScript cfg)) (\<lambda>ex.
     io_bind (exec_wait api ''failed to inspect initialization exec''
                ''container initialization failed with exit code: '' ex) (\<lambda>_.
     io_wrap ''container verification failed'' (verifyContainerReady api cfg containerID)))"

definition resetContainer :: "'w docker_api \<Rightarrow> pool_config \<Rightarrow> string \<Rightarrow> ('w pool, unit) io" where
  "resetContainer api cfg containerID =
     io_bind (start_exec api ''failed to create reset exec'' ''failed to attach to reset exec''
                ''failed to start reset exec'' containerID (CleanupScript cfg))
       (exec_wait api ''failed to inspect reset exec'' ''container reset failed with exit code: '')"

section \<open>Creating a container\<close>

text \<open>The ten inspections after the start; \<open>n\<close> of them are left.\<close>

fun wait_running :: "'w docker_api \<Rightarrow> string \<Rightarrow> nat \<Rightarrow> ('w pool, string) io" where
  "wait_running api containerID 0 =
     io_fail (GoErr (''container '' @ containerID @ '' failed to start properly''))"
| "wait_running api containerID (Suc n) =
     io_bind (io_wrap ''failed to inspect container after start'' (on_world (ContainerInspect api containerID)))
       (\<lambda>running.
          if running then io_ret containerID
          else io_bind (on_world (Sleep api 500000000)) (\<lambda>_. wait_running api containerID n))"

definition spec_of :: "pool_config \<Rightarrow> string \<Rightarrow> container_spec" where
  "spec_of cfg hostMountPath =
     \<lparr>Image = CfgImage cfg, Cmd = [''sh'', ''-c'', ''tail -f /dev/null''], Tty = True,
      SpecWorkingDir = ''/code'', Env = DockerEnvironment cfg @ LangEnvironment cfg,
      Binds = [hostMountPath @ '':/code:rw'', ''/var/run/dockerexecutor.sock:/var/run/dockerexecutor.sock''],
      Memory = MemoryLimitBytes cfg,
      NanoCPUs = f64_to_i64 (f64_mult (CPULimit cfg) 1000000000), Privileged = True\<rparr>"

definition lang_name :: "Language \<Rightarrow> string" where
  "lang_name l = (case l of LangGo \<Rightarrow> ''go'' | LangPy \<Rightarrow> ''py'' | LangJS \<Rightarrow> ''js'' | LangTS \<Rightarrow> ''ts''
     | LangNode \<Rightarrow> ''node'' | LangOther s \<Rightarrow> s)"

definition generateContainerName :: "'w docker_api \<Rightarrow> pool_config \<Rightarrow> ('w pool, string) io" where
  "generateContainerName api cfg =
     io_bind (on_world (NewUUID api)) (\<lambda>u.
     io_ret (''triggerx-executor-'' @ lang_name (Language cfg) @ ''-'' @ take 8 u))"

definition createContainer :: "'w docker_api \<Rightarrow> pool_config \<Rightarrow> string \<Rightarrow> ('w pool, string) io" where
  "createContainer api cfg codePath =
     io_bind (io_wrap ''failed to get absolute path'' (on_world (AbsPath api codePath))) (\<lambda>hostMountPath.
     io_bind (generateContainerName api cfg) (\<lambda>containerName.
     io_bind (io_wrap ''failed to create container''
                (on_world (ContainerCreate api (spec_of cfg hostMountPath) containerName))) (\<lambda>containerID.
     io_bind (io_try (on_world (ContainerStart api containerID))) (\<lambda>started.
       case started of
         Inl e \<Rightarrow>
           io_bind (io_try (on_world (ContainerRemove api containerID))) (\<lambda>_.
           io_fail (Wrap ''failed to start container'' e))
       | Inr _ \<Rightarrow> wait_running api containerID 10))))"

definition enqueue_ready :: "string \<Rightarrow> 'w pool \<Rightarrow> 'w pool" where
  "enqueue_ready c p = p\<lparr>readyQueue := send_or_drop chan_try_send c (readyQueue p)\<rparr>"

definition add_container :: "'w docker_api \<Rightarrow> pool_config \<Rightarrow> string \<Rightarrow> string \<Rightarrow> 'w pool \<Rightarrow> 'w pool" where
  "add_container api cfg containerID tmpDir p =
     updateStats (p\<lparr>containers := insert containerID (containers p),
        objs := (objs p)(containerID :=
          \<lparr>Status = Ready, LastUsed = Now api (world p), WorkingDir = tmpDir,
           ImageName = CfgImage cfg, PLanguage = Language cfg, CreatedAt = Now api (world p), CError = None\<rparr>),
        stats := (stats p)\<lparr>CreatedCount := Suc (CreatedCount (stats p))\<rparr>\<rparr>)"

definition createPreparedContainer :: "'w docker_api \<Rightarrow> pool_config \<Rightarrow> ('w pool, string) io" where
  "createPreparedContainer api cfg =
     io_bind (io_wrap ''failed to create temp directory'' (on_world (MkTempDir api (Language cfg)))) (\<lambda>tmpDir.
     io_bind (io_wrap ''failed to create container'' (createContainer api cfg tmpDir)) (\<lambda>containerID.
     io_bind (io_try (initializeContainer api cfg containerID)) (\<lambda>r.
       case r of
         Inl e \<Rightarrow>
           io_bind (io_try (on_world (CleanupContainer api containerID))) (\<lambda>_.
           io_fail (Wrap ''failed to initialize container'' e))
       | Inr _ \<Rightarrow>
           io_bind (io_put (\<lambda>p. enqueue_ready containerID (add_container api cfg containerID tmpDir p))) (\<lambda>_.
           io_ret containerID))))"

section \<open>Taking a container and giving it back\<close>

definition mark_running :: "'w docker_api \<Rightarrow> string \<Rightarrow> 'w pool \<Rightarrow> 'w pool" where
  "mark_running api c p =
     p\<lparr>objs := (objs p)(c := (objs p c)\<lparr>Status := Running, LastUsed := Now api (world p)\<rparr>)\<rparr>"

text \<open>
  \<open>getContainer\<close> takes a ready container, or a token and creates one, or has to wait. The
  wait ends with a container of the ready queue, with the context or with the timer. The token of
  a failed creation goes back with a blocking send, which finds the slot that the receive left free.
\<close>

datatype get_result = Got string | MustWait

definition release_token :: "'w pool \<Rightarrow> 'w pool" where
  "release_token p = p\<lparr>creationSemaphore := send_or_drop chan_try_send () (creationSemaphore p)\<rparr>"

definition getContainer :: "'w docker_api \<Rightarrow> pool_config \<Rightarrow> ('w pool, get_result) io" where
  "getContainer api cfg p =
     (case chan_try_recv (readyQueue p) of
        Some (c, q) \<Rightarrow> Some (Inr (Got c), updateStats (mark_running api c (p\<lparr>readyQueue := q\<rparr>)))
      | None \<Rightarrow>
          (case chan_try_recv (creationSemaphore p) of
             Some (_, q) \<Rightarrow>
               (case createPreparedContainer api cfg (p\<lparr>creationSemaphore := q\<rparr>) of
                  None \<Rightarrow> None
                | Some (Inl e, p') \<Rightarrow> Some (Inl (Wrap ''failed to create container for language'' e), release_token p')
                | Some (Inr c, p') \<Rightarrow> Some (Inr (Got c), mark_running api c p'))
           | None \<Rightarrow> Some (Inr MustWait, p)))"

datatype wake = WakeReady | WakeCtx go_error | WakeTimer

definition getContainer_wake :: "'w docker_api \<Rightarrow> wake \<Rightarrow> ('w pool, get_result) io" where
  "getContainer_wake api k p =
     (case k of
        WakeReady \<Rightarrow>
          (case chan_try_recv (readyQueue p) of
             Some (c, q) \<Rightarrow> Some (Inr (Got c), updateStats (mark_running api c (p\<lparr>readyQueue := q\<rparr>)))
           | None \<Rightarrow> Some (Inr MustWait, p))
      | WakeCtx e \<Rightarrow> Some (Inl e, p)
      | WakeTimer \<Rightarrow> Some (Inl (GoErr ''timeout waiting for container in language pool''), p))"

definition set_status :: "string \<Rightarrow> ContainerStatus \<Rightarrow> go_error option \<Rightarrow> 'w pool \<Rightarrow> 'w pool" where
  "set_status c st e p = p\<lparr>objs := (objs p)(c := (objs p c)\<lparr>Status := st, CError := e\<rparr>)\<rparr>"

definition drop_container :: "string \<Rightarrow> 'w pool \<Rightarrow> 'w pool" where
  "drop_container c p = p\<lparr>containers := containers p - {c}\<rparr>"

definition returnContainer :: "'w docker_api \<Rightarrow> pool_config \<Rightarrow> string \<Rightarrow> ('w pool, unit) io" where
  "returnContainer api cfg c p =
     (if c \<in> containers p then
        (case resetContainer api cfg c p of
           None \<Rightarrow> None
         | Some (Inl e, p1) \<Rightarrow>
             (case on_world (CleanupContainer api c) (updateStats (set_status c Error (Some e) p1)) of
                Some (Inr _, p2) \<Rightarrow> Some (Inl e, release_token (drop_container c p2))
              | Some (Inl _, p2) \<Rightarrow> Some (Inl e, p2)
              | None \<Rightarrow> None)
         | Some (Inr _, p1) \<Rightarrow>
             (let p2 = updateStats (set_status c Ready None p1)
              in case chan_try_send c (readyQueue p2) of
                   Some q \<Rightarrow> Some (Inr (), p2\<lparr>readyQueue := q\<rparr>)
                 | None \<Rightarrow> Some (Inr (), p2\<lparr>waitQueue := send_or_drop chan_try_send () (waitQueue p2)\<rparr>)))
      else Some (Inr (), p))"

section \<open>Starting, checking, failing and closing\<close>

text \<open>
  The goroutines of \<open>initialize\<close>, one after another; then the loop that collects their
  results, which the context may cut short; then the ready containers go to the queue, in
  the order of a range over the map, until it is full.
\<close>

fun create_many :: "'w docker_api \<Rightarrow> pool_config \<Rightarrow> nat \<Rightarrow> ('w pool, unit) io" where
  "create_many api cfg 0 = io_ret ()"
| "create_many api cfg (Suc n) =
     io_bind (io_try (createPreparedContainer api cfg)) (\<lambda>_. create_many api cfg n)"

fun collect :: "'w docker_api \<Rightarrow> nat \<Rightarrow> ('w pool, unit) io" where
  "collect api 0 = io_ret ()"
| "collect api (Suc n) =
     io_bind (io_wrap ''context cancelled during container initialization'' (on_world (CtxWins api)))
       (\<lambda>_. collect api n)"

fun populateReadyQueue :: "string list \<Rightarrow> 'w pool \<Rightarrow> 'w pool" where
  "populateReadyQueue [] p = p"
| "populateReadyQueue (c # cs) p =
     (if Status (objs p c) = Ready then
        (case chan_try_send c (readyQueue p) of
           Some q \<Rightarrow> populateReadyQueue cs (p\<lparr>readyQueue := q\<rparr>)
         | None \<Rightarrow> p)
      else populateReadyQueue cs p)"

definition initialize :: "'w docker_api \<Rightarrow> pool_config \<Rightarrow> (string set \<Rightarrow> string list) \<Rightarrow> ('w pool, unit) io" where
  "initialize api cfg ord =
     io_bind (create_many api cfg (MinContainers cfg)) (\<lambda>_.
     io_bind (collect api (MinContainers cfg)) (\<lambda>_.
     io_put (\<lambda>p. populateReadyQueue (ord (containers p)) p)))"

text \<open>One container of the health check; the ids to remove are collected at the end of the list.\<close>

definition check_one :: "'w docker_api \<Rightarrow> string \<Rightarrow> 'w pool \<times> string list \<Rightarrow> 'w pool \<times> string list" where
  "check_one api c st =
     (case st of (p, bad) \<Rightarrow>
        (case ContainerInspect api c (world p) of
           (Inl e, w) \<Rightarrow> (set_status c Error (Some e) (p\<lparr>world := w\<rparr>), bad @ [c])
         | (Inr running, w) \<Rightarrow>
             (let p = p\<lparr>world := w\<rparr>
              in if \<not> running
                 then (p\<lparr>objs := (objs p)(c := (objs p c)\<lparr>Status := Error\<rparr>)\<rparr>, bad @ [c])
                 else if Status (objs p c) = Error then (set_status c Ready None p, bad)
                 else (p, bad))))"

definition remove_unhealthy :: "'w docker_api \<Rightarrow> string \<Rightarrow> 'w pool \<Rightarrow> 'w pool" where
  "remove_unhealthy api c p =
     (let p1 = release_token (drop_container c p)
      in p1\<lparr>world := snd (CleanupContainer api c (world p1))\<rparr>)"

text \<open>\<open>ks\<close> is the order in which the range over the map visits the containers.\<close>

definition healthCheck :: "'w docker_api \<Rightarrow> string list \<Rightarrow> 'w pool \<Rightarrow> 'w pool" where
  "healthCheck api ks p =
     (case fold (check_one api) ks (p, []) of
        (p1, bad) \<Rightarrow> updateStats (fold (remove_unhealthy api) bad p1))"

definition getHealthCheckStats :: "'w pool \<Rightarrow> nat \<times> nat \<times> nat" where
  "getHealthCheckStats p =
     (card (containers p),
      card {c \<in> containers p. Status (objs p c) = Error \<or> Status (objs p c) = Stopped},
      card (with_status Error p))"

text \<open>The cleanup of a failed container runs in a goroutine of its own, \<open>failed_cleanup\<close>.\<close>

definition failed_cleanup :: "'w docker_api \<Rightarrow> string \<Rightarrow> 'w pool \<Rightarrow> 'w pool" where
  "failed_cleanup api c p = p\<lparr>world := snd (CleanupContainer api c (world p))\<rparr>"

definition markContainerAsFailed :: "string \<Rightarrow> go_error \<Rightarrow> 'w pool \<Rightarrow> 'w pool" where
  "markContainerAsFailed c e p =
     (if c \<in> containers p
      then release_token (updateStats (drop_container c (set_status c Error (Some e) p)))
      else p)"

definition close :: "'w docker_api \<Rightarrow> string list \<Rightarrow> 'w pool \<Rightarrow> 'w pool option" where
  "close api ks p =
     (if stopHealth p then None
      else Some ((fold (failed_cleanup api) ks (p\<lparr>stopHealth := True\<rparr>))\<lparr>containers := {}\<rparr>))"

section \<open>What docker calls leave alone\<close>

lemma core_sleep [simp]: "core (p\<lparr>world := w\<rparr>) = core p"
  by (simp add: core_def)

lemma exec_wait_core: "exec_wait api mi mx ex p = Some res \<Longrightarrow> core (snd res) = core p"
proof (rule exec_wait.raw_induct [where P = "\<lambda>api mi mx ex p res. core (snd res) = core p"], goal_cases)
  case (1 f api mi mx ex p res)
  then show ?case by (auto split: prod.splits sum.splits if_splits)
qed

lemma verify_wait_core: "verify_wait api ex p = Some res \<Longrightarrow> core (snd res) = core p"
proof (rule verify_wait.raw_induct [where P = "\<lambda>api ex p res. core (snd res) = core p"], goal_cases)
  case (1 f api ex p res)
  then show ?case by (auto split: prod.splits sum.splits if_splits)
qed

lemma core_exec_wait [io_keeps_intros]: "io_keeps core (exec_wait api mi mx ex)"
  by (force simp: io_keeps_def dest: exec_wait_core)

lemma core_verify_wait [io_keeps_intros]: "io_keeps core (verify_wait api ex)"
  by (force simp: io_keeps_def dest: verify_wait_core)

lemma core_start_exec [io_keeps_intros]: "io_keeps core (start_exec api m1 m2 m3 c s)"
  unfolding start_exec_def by (intro io_keeps_intros)

lemma core_initializeContainer [io_keeps_intros]: "io_keeps core (initializeContainer api cfg c)"
  unfolding initializeContainer_def verifyContainerReady_def by (intro io_keeps_intros)

lemma core_resetContainer [io_keeps_intros]: "io_keeps core (resetContainer api cfg c)"
  unfolding resetContainer_def by (intro io_keeps_intros)

lemma core_wait_running [io_keeps_intros]: "io_keeps core (wait_running api c n)"
  by (induction n) (auto intro!: io_keeps_intros)

lemma core_createContainer [io_keeps_intros]: "io_keeps core (createContainer api cfg path)"
  unfolding createContainer_def generateContainerName_def by (intro io_keeps_intros)

text \<open>A creation that fails leaves the pool as it was; one that succeeds registers one container.\<close>

lemma createPrepared_cases:
  assumes "createPreparedContainer api cfg p = Some (r, p')"
  shows "(\<exists>e. r = Inl e \<and> core p' = core p) \<or>
    (\<exists>c tmp q. r = Inr c \<and> core q = core p \<and> p' = enqueue_ready c (add_container api cfg c tmp q))"
  using assms unfolding createPreparedContainer_def
proof (cases rule: io_bindE)
  case (fail e)
  then have "core p' = core p"
    using io_keepsD [OF io_keeps_wrap [OF core_on_world]] by blast
  with fail show ?thesis by blast
next
  case (step tmp p1)
  then have p1: "core p1 = core p"
    using io_keepsD [OF io_keeps_wrap [OF core_on_world]] by blast
  from step(2) show ?thesis
  proof (cases rule: io_bindE)
    case (fail e)
    then have "core p' = core p1"
      using io_keepsD [OF io_keeps_wrap [OF core_createContainer]] by blast
    with p1 fail show ?thesis by simp
  next
    case (step c p2)
    then have p2: "core p2 = core p"
      using p1 io_keepsD [OF io_keeps_wrap [OF core_createContainer]] by metis
    from step(2) obtain x p3 where x: "initializeContainer api cfg c p2 = Some (x, p3)"
      "(case x of
         Inl e \<Rightarrow>
           io_bind (io_try (on_world (CleanupContainer api c))) (\<lambda>_.
           io_fail (Wrap ''failed to initialize container'' e))
       | Inr _ \<Rightarrow>
           io_bind (io_put (\<lambda>p. enqueue_ready c (add_container api cfg c tmp p))) (\<lambda>_.
           io_ret c)) p3 = Some (r, p')"
      by (auto simp: io_bind_Some io_try_Some)
    have p3: "core p3 = core p"
      using io_keepsD [OF core_initializeContainer x(1)] p2 by simp
    show ?thesis
    proof (cases x)
      case (Inl e)
      with x(2) have "r = Inl (Wrap ''failed to initialize container'' e)" "core p' = core p3"
        by (auto simp: io_bind_Some io_try_Some io_fail_def dest: io_keepsD [OF core_on_world])
      with p3 show ?thesis by simp
    next
      case (Inr u)
      with x(2) have "r = Inr c" "p' = enqueue_ready c (add_container api cfg c tmp p3)"
        by (auto simp: io_bind_Some io_put_def io_ret_def)
      with p3 show ?thesis by blast
    qed
  qed
qed

section \<open>The token budget\<close>

text \<open>
  A token of the creation semaphore stands for a container that may still be created. The
  budget counts containers and tokens together.
\<close>

definition tokens :: "'w pool \<Rightarrow> nat" where
  "tokens p = length (buf (creationSemaphore p))"

definition pool_inv :: "pool_config \<Rightarrow> nat \<Rightarrow> 'w pool \<Rightarrow> bool" where
  "pool_inv cfg B p \<longleftrightarrow> finite (containers p) \<and> chan_ok (creationSemaphore p) \<and>
     cap (creationSemaphore p) = MaxContainers cfg \<and> chan_ok (readyQueue p) \<and>
     card (containers p) + tokens p \<le> B"

lemma pool_inv_core: "core p' = core p \<Longrightarrow> pool_inv cfg B p' = pool_inv cfg B p"
  by (simp add: core_def pool_inv_def tokens_def)

lemma updateStats_parts [simp]:
  "containers (updateStats p) = containers p" "objs (updateStats p) = objs p"
  "readyQueue (updateStats p) = readyQueue p" "creationSemaphore (updateStats p) = creationSemaphore p"
  "waitQueue (updateStats p) = waitQueue p" "world (updateStats p) = world p"
  by (simp_all add: updateStats_def Let_def)

lemma tokens_updateStats [simp]: "tokens (updateStats p) = tokens p"
  by (simp add: tokens_def)

lemma updateStats_inv [inv_intros]: "pool_inv cfg B p \<Longrightarrow> pool_inv cfg B (updateStats p)"
  by (simp add: pool_inv_def)

lemma set_status_inv [inv_intros]: "pool_inv cfg B p \<Longrightarrow> pool_inv cfg B (set_status c st e p)"
  by (simp add: pool_inv_def set_status_def tokens_def)

lemma mark_running_inv [inv_intros]: "pool_inv cfg B p \<Longrightarrow> pool_inv cfg B (mark_running api c p)"
  by (simp add: pool_inv_def mark_running_def tokens_def)

lemma world_inv [inv_intros]: "pool_inv cfg B p \<Longrightarrow> pool_inv cfg B (p\<lparr>world := w\<rparr>)"
  by (simp add: pool_inv_def tokens_def)

lemma recv_ready_inv:
  "pool_inv cfg B p \<Longrightarrow> chan_try_recv (readyQueue p) = Some (c, q) \<Longrightarrow> pool_inv cfg B (p\<lparr>readyQueue := q\<rparr>)"
  by (auto simp: pool_inv_def tokens_def dest: go_chan.recv_some)

lemma recv_token_inv:
  "pool_inv cfg B p \<Longrightarrow> chan_try_recv (creationSemaphore p) = Some (u, q) \<Longrightarrow>
     pool_inv cfg B (p\<lparr>creationSemaphore := q\<rparr>) \<and>
     card (containers p) + tokens (p\<lparr>creationSemaphore := q\<rparr>) < B"
  by (auto simp: pool_inv_def tokens_def dest: go_chan.recv_some)

lemma enqueue_ready_inv [inv_intros]: "pool_inv cfg B p \<Longrightarrow> pool_inv cfg B (enqueue_ready c p)"
  by (simp add: pool_inv_def enqueue_ready_def tokens_def go_chan.send_or_drop_ok)

lemma add_container_inv:
  "pool_inv cfg B p \<Longrightarrow> card (containers p) + tokens p < B' \<Longrightarrow> B \<le> B' \<Longrightarrow>
     pool_inv cfg B' (add_container api cfg c tmp p)"
  using card_insert_le_m1 [of "card (containers p) + 1" "containers p" c]
  by (auto simp: pool_inv_def add_container_def tokens_def)

lemma release_token_inv:
  assumes "pool_inv cfg B p" and "card (containers p) + tokens p < B"
  shows "pool_inv cfg B (release_token p)"
proof -
  have "tokens (release_token p) \<le> Suc (tokens p)"
    using assms(1) by (auto simp: tokens_def release_token_def pool_inv_def go_chan.send_or_drop_contents)
  with assms show ?thesis
    by (simp add: pool_inv_def release_token_def go_chan.send_or_drop_ok go_chan.send_or_drop_bound)
qed

lemma drop_container_inv [inv_intros]: "pool_inv cfg B p \<Longrightarrow> pool_inv cfg B (drop_container c p)"
  using card_Diff1_le [of "containers p" c]
  by (auto simp: pool_inv_def drop_container_def tokens_def)

lemma drop_card:
  assumes "pool_inv cfg B p" and "c \<in> containers p"
  shows "card (containers (drop_container c p)) + tokens (drop_container c p) < B"
proof -
  have "card (containers p - {c}) < card (containers p)"
    using assms by (intro card_Diff1_less) (auto simp: pool_inv_def)
  then show ?thesis using assms by (auto simp: pool_inv_def drop_container_def tokens_def)
qed

lemma drop_release_inv:
  "pool_inv cfg B p \<Longrightarrow> c \<in> containers p \<Longrightarrow> pool_inv cfg B (release_token (drop_container c p))"
  by (intro release_token_inv drop_container_inv drop_card)

lemma create_inv:
  assumes "pool_inv cfg B p" and "card (containers p) + tokens p < B'" and "B \<le> B'"
    and "createPreparedContainer api cfg p = Some (r, p')"
  shows "pool_inv cfg B' p'"
proof -
  have weak: "pool_inv cfg B' p" using assms(1,3) by (auto simp: pool_inv_def)
  from createPrepared_cases [OF assms(4)] show ?thesis
  proof (elim disjE exE conjE)
    fix c tmp q
    assume q: "core q = core p" and p': "p' = enqueue_ready c (add_container api cfg c tmp q)"
    have "pool_inv cfg B q" using assms(1) pool_inv_core [OF q] by simp
    moreover have "card (containers q) + tokens q < B'" using q assms(2) by (simp add: core_def tokens_def)
    ultimately show ?thesis unfolding p' by (intro enqueue_ready_inv add_container_inv [OF _ _ assms(3)])
  qed (use weak pool_inv_core in auto)
qed

lemma getContainer_inv:
  assumes "pool_inv cfg B p" and "getContainer api cfg p = Some (r, p')"
  shows "pool_inv cfg B p'"
proof (cases "chan_try_recv (readyQueue p)")
  case (Some cq)
  with assms show ?thesis
    by (cases cq) (auto simp: getContainer_def intro!: inv_intros dest: recv_ready_inv)
next
  case None
  show ?thesis
  proof (cases "chan_try_recv (creationSemaphore p)")
    case None
    with \<open>chan_try_recv (readyQueue p) = None\<close> assms show ?thesis by (simp add: getContainer_def)
  next
    case (Some uq)
    obtain u q where uq: "chan_try_recv (creationSemaphore p) = Some (u, q)"
      using Some by (cases uq) auto
    let ?p = "p\<lparr>creationSemaphore := q\<rparr>"
    have p1: "pool_inv cfg B ?p" "card (containers ?p) + tokens ?p < B"
      using recv_token_inv [OF assms(1) uq] by auto
    obtain x p1 where x: "createPreparedContainer api cfg ?p = Some (x, p1)"
      using assms(2) None uq by (auto simp: getContainer_def split: option.splits)
    show ?thesis
    proof (cases x)
      case (Inl e)
      with createPrepared_cases [OF x] have c: "core p1 = core ?p" by auto
      have "pool_inv cfg B p1" using pool_inv_core [OF c] p1(1) by simp
      moreover have "card (containers p1) + tokens p1 < B"
        using c p1(2) by (simp add: core_def tokens_def)
      ultimately have "pool_inv cfg B (release_token p1)" by (rule release_token_inv)
      with Inl None uq x assms(2) show ?thesis
        by (auto simp: getContainer_def)
    next
      case (Inr c)
      have "pool_inv cfg B p1" using create_inv [OF p1 _ x] by simp
      with Inr None uq x assms(2) show ?thesis
        by (auto simp: getContainer_def intro: inv_intros)
    qed
  qed
qed

lemma getContainer_wake_inv:
  "pool_inv cfg B p \<Longrightarrow> getContainer_wake api k p = Some (r, p') \<Longrightarrow> pool_inv cfg B p'"
  by (auto simp: getContainer_wake_def split: wake.splits option.splits
      intro!: inv_intros dest: recv_ready_inv)

lemma returnContainer_inv:
  assumes "pool_inv cfg B p" and "returnContainer api cfg c p = Some (r, p')"
  shows "pool_inv cfg B p'"
proof (cases "c \<in> containers p")
  case False
  with assms show ?thesis by (simp add: returnContainer_def)
next
  case True
  then obtain x p1 where x: "resetContainer api cfg c p = Some (x, p1)"
    using assms(2) by (auto simp: returnContainer_def split: option.splits)
  have core1: "core p1 = core p" by (rule io_keepsD [OF core_resetContainer x])
  have p1: "pool_inv cfg B p1" "c \<in> containers p1"
    using assms(1) True pool_inv_core [OF core1] core1 by (simp_all add: core_def)
  show ?thesis
  proof (cases x)
    case (Inl e)
    let ?q = "updateStats (set_status c Error (Some e) p1)"
    have q0: "pool_inv cfg B ?q" using p1(1) by (intro inv_intros)
    have q1: "c \<in> containers ?q" using p1(2) by (simp add: set_status_def)
    obtain y q where y: "on_world (CleanupContainer api c) ?q = Some (y, q)"
      using on_world_total by blast
    have cq: "core q = core ?q" by (rule io_keepsD [OF core_on_world y])
    have "pool_inv cfg B q" "c \<in> containers q"
      using pool_inv_core [OF cq] cq q0 q1 by (simp_all add: core_def)
    with x Inl y True assms(2) show ?thesis
      by (auto simp: returnContainer_def split: sum.splits intro: drop_release_inv)
  next
    case (Inr u)
    let ?q = "updateStats (set_status c Ready None p1)"
    have q: "pool_inv cfg B ?q" using p1 by (intro inv_intros)
    with x Inr True assms(2) show ?thesis
      by (auto simp: returnContainer_def Let_def pool_inv_def tokens_def split: option.splits
          dest: go_chan.send_some)
  qed
qed

lemma create_many_inv:
  "pool_inv cfg B p \<Longrightarrow> create_many api cfg n p = Some (r, p') \<Longrightarrow> pool_inv cfg (B + n) p'"
proof (induction n arbitrary: p B)
  case 0
  then show ?case by (simp add: io_ret_def)
next
  case (Suc n)
  from Suc.prems(2) obtain x p1 where x: "createPreparedContainer api cfg p = Some (x, p1)"
    and rest: "create_many api cfg n p1 = Some (r, p')"
    by (auto simp: io_bind_Some io_try_Some)
  have "pool_inv cfg (Suc B) p1"
    by (rule create_inv [OF Suc.prems(1) _ _ x]) (use Suc.prems(1) in \<open>auto simp: pool_inv_def\<close>)
  from Suc.IH [OF this rest] show ?case by simp
qed

lemma create_many_tokens:
  "create_many api cfg n p = Some (r, p') \<Longrightarrow> creationSemaphore p' = creationSemaphore p"
proof (induction n arbitrary: p)
  case 0
  then show ?case by (simp add: io_ret_def)
next
  case (Suc n)
  from Suc.prems obtain x p1 where x: "createPreparedContainer api cfg p = Some (x, p1)"
    and rest: "create_many api cfg n p1 = Some (r, p')"
    by (auto simp: io_bind_Some io_try_Some)
  have "creationSemaphore p1 = creationSemaphore p"
    using createPrepared_cases [OF x]
    by (auto simp: core_def enqueue_ready_def add_container_def)
  with Suc.IH [OF rest] show ?case by simp
qed

lemma core_collect [io_keeps_intros]: "io_keeps core (collect api n)"
  by (induction n) (auto intro!: io_keeps_intros)

lemma populate_parts [simp]:
  "creationSemaphore (populateReadyQueue cs p) = creationSemaphore p \<and>
   containers (populateReadyQueue cs p) = containers p"
  by (induction cs arbitrary: p) (auto split: option.splits)

lemma populate_inv [inv_intros]: "pool_inv cfg B p \<Longrightarrow> pool_inv cfg B (populateReadyQueue cs p)"
proof (induction cs arbitrary: p)
  case Nil
  then show ?case by simp
next
  case (Cons c cs)
  have "pool_inv cfg B (p\<lparr>readyQueue := q\<rparr>)" if "chan_try_send c (readyQueue p) = Some q" for q
    using Cons.prems that by (auto simp: pool_inv_def tokens_def dest: go_chan.send_some)
  with Cons show ?case by (auto split: option.splits)
qed

lemma initialize_cases:
  assumes "initialize api cfg ord p = Some (r, p')"
  obtains x p1 p2 where "create_many api cfg (MinContainers cfg) p = Some (x, p1)" and "core p2 = core p1"
    and "p' = p2 \<or> p' = populateReadyQueue (ord (containers p2)) p2"
  using assms unfolding initialize_def
proof (cases rule: io_bindE)
  case (fail e)
  then show ?thesis using that by blast
next
  case (step u p1)
  from step(2) obtain y p2 where "collect api (MinContainers cfg) p1 = Some (y, p2)"
    and "p' = p2 \<or> p' = populateReadyQueue (ord (containers p2)) p2"
    by (auto simp: io_bind_Some io_put_def)
  then show ?thesis using that step(1) io_keepsD [OF core_collect] by blast
qed

lemma initialize_inv:
  assumes "pool_inv cfg B p" and "initialize api cfg ord p = Some (r, p')"
  shows "pool_inv cfg (B + MinContainers cfg) p'"
proof -
  obtain x p1 p2 where c: "create_many api cfg (MinContainers cfg) p = Some (x, p1)" "core p2 = core p1"
    and p': "p' = p2 \<or> p' = populateReadyQueue (ord (containers p2)) p2"
    using initialize_cases [OF assms(2)] .
  have "pool_inv cfg (B + MinContainers cfg) p2"
    using create_many_inv [OF assms(1) c(1)] pool_inv_core [OF c(2)] by simp
  then show ?thesis using p' populate_inv by auto
qed

lemma fill_tokens_ok:
  "chan_ok (fill_tokens n (make_chan n)) \<and> cap (fill_tokens n (make_chan n)) = n \<and>
   length (buf (fill_tokens n (make_chan n))) = n"
proof -
  have eq: "fill_tokens n c = fold (send_or_drop chan_try_send) (map (\<lambda>_. ()) [0..<n]) c" for c :: "unit chan"
    by (simp add: fill_tokens_def fold_map comp_def)
  have ok: "chan_ok (fold (send_or_drop chan_try_send) xs c) \<and> cap (fold (send_or_drop chan_try_send) xs c) = cap c"
    if "chan_ok c" for xs and c :: "unit chan"
    using that by (induction xs arbitrary: c) (auto simp: go_chan.send_or_drop_ok go_chan.send_or_drop_bound)
  have "buf (fill_tokens n (make_chan n)) = take n (map (\<lambda>_. ()) [0..<n])"
    unfolding eq using go_chan.send_all_prefix [of "make_chan n :: unit chan"]
    by (simp add: make_chan_def chan_ok_def)
  then show ?thesis
    unfolding eq using ok [of "make_chan n"] by (simp add: make_chan_def chan_ok_def)
qed

lemma new_pool_inv: "pool_inv cfg (MaxContainers cfg) (newContainerPool cfg o0 w)"
  using fill_tokens_ok [of "MaxContainers cfg"] by (simp add: newContainerPool_def pool_inv_def tokens_def)

lemma check_all:
  assumes "fold (check_one api) ks (p, bad) = (p', bad')"
  shows "containers p' = containers p \<and> creationSemaphore p' = creationSemaphore p \<and>
    readyQueue p' = readyQueue p \<and> (\<exists>ys. bad' = bad @ ys \<and> subseq ys ks)"
  using assms
proof (induction ks arbitrary: p bad)
  case Nil
  then show ?case by simp
next
  case (Cons k ks)
  obtain p1 bad1 where 1: "check_one api k (p, bad) = (p1, bad1)" by force
  have s: "containers p1 = containers p \<and> creationSemaphore p1 = creationSemaphore p \<and>
      readyQueue p1 = readyQueue p \<and> (bad1 = bad \<or> bad1 = bad @ [k])"
    using 1 by (auto simp: check_one_def set_status_def Let_def split: prod.splits sum.splits if_splits)
  have "fold (check_one api) ks (p1, bad1) = (p', bad')" using Cons.prems 1 by simp
  from Cons.IH [OF this] s show ?case by auto
qed

lemma remove_all_inv:
  "pool_inv cfg B p \<Longrightarrow> distinct bad \<Longrightarrow> set bad \<subseteq> containers p \<Longrightarrow>
     pool_inv cfg B (fold (remove_unhealthy api) bad p)"
proof (induction bad arbitrary: p)
  case Nil
  then show ?case by simp
next
  case (Cons c bad)
  have "pool_inv cfg B (remove_unhealthy api c p)"
    unfolding remove_unhealthy_def Let_def using Cons.prems by (intro world_inv drop_release_inv) auto
  moreover have "set bad \<subseteq> containers (remove_unhealthy api c p)"
    using Cons.prems by (auto simp: remove_unhealthy_def Let_def release_token_def drop_container_def)
  ultimately show ?case using Cons by simp
qed

lemma healthCheck_inv:
  assumes "pool_inv cfg B p" and "distinct ks" and "set ks = containers p"
  shows "pool_inv cfg B (healthCheck api ks p)"
proof -
  obtain p1 bad where 1: "fold (check_one api) ks (p, []) = (p1, bad)" by force
  have s: "containers p1 = containers p" "creationSemaphore p1 = creationSemaphore p"
    "readyQueue p1 = readyQueue p" "subseq bad ks"
    using check_all [OF 1] by auto
  have "pool_inv cfg B p1" using assms(1) s by (simp add: pool_inv_def tokens_def)
  moreover have "distinct bad" "set bad \<subseteq> containers p1"
    using s(1,4) assms(2,3) by (auto dest: subseq_distinct subseq_set)
  ultimately show ?thesis using 1 by (auto simp: healthCheck_def intro!: updateStats_inv remove_all_inv)
qed

lemma markFailed_inv [inv_intros]:
  assumes "pool_inv cfg B p"
  shows "pool_inv cfg B (markContainerAsFailed c e p)"
proof (cases "c \<in> containers p")
  case True
  let ?q = "set_status c Error (Some e) p"
  have q: "pool_inv cfg B ?q" "c \<in> containers ?q"
    by (rule set_status_inv [OF assms]) (use True in \<open>simp add: set_status_def\<close>)
  show ?thesis
    using True drop_card [OF q] q
    by (simp add: markContainerAsFailed_def release_token_inv drop_container_inv updateStats_inv)
qed (use assms in \<open>simp add: markContainerAsFailed_def\<close>)

section \<open>The pool as a system\<close>

text \<open>
  The calls the manager makes of a pool. A call that never returns stops the run: it holds
  the mutex of the pool.
\<close>

datatype pool_event = EGet | EWake wake | EReturn string | EHealth "string list"
  | EFailed string go_error | ECleaned string

definition pool_step :: "'w docker_api \<Rightarrow> pool_config \<Rightarrow> 'w pool option \<Rightarrow> pool_event \<Rightarrow> 'w pool option" where
  "pool_step api cfg s ev =
     (case s of
        None \<Rightarrow> None
      | Some p \<Rightarrow>
          (case ev of
             EGet \<Rightarrow> map_option snd (getContainer api cfg p)
           | EWake k \<Rightarrow> map_option snd (getContainer_wake api k p)
           | EReturn c \<Rightarrow> map_option snd (returnContainer api cfg c p)
           | EHealth ks \<Rightarrow> Some (if distinct ks \<and> set ks = containers p then healthCheck api ks p else p)
           | EFailed c e \<Rightarrow> Some (markContainerAsFailed c e p)
           | ECleaned c \<Rightarrow> Some (failed_cleanup api c p)))"

definition pool_run :: "'w docker_api \<Rightarrow> pool_config \<Rightarrow> 'w pool \<Rightarrow> pool_event list \<Rightarrow> 'w pool option" where
  "pool_run api cfg p es = foldl (pool_step api cfg) (Some p) es"

definition within_budget :: "pool_config \<Rightarrow> nat \<Rightarrow> 'w pool option \<Rightarrow> bool" where
  "within_budget cfg B s \<longleftrightarrow> (case s of None \<Rightarrow> True | Some p \<Rightarrow> pool_inv cfg B p)"

lemma pool_step_inv: "within_budget cfg B s \<Longrightarrow> within_budget cfg B (pool_step api cfg s ev)"
  by (cases ev)
    (auto simp: within_budget_def pool_step_def failed_cleanup_def split: option.splits
      intro: inv_intros healthCheck_inv getContainer_inv getContainer_wake_inv returnContainer_inv)

interpretation pool_sys: step_system "pool_step api cfg" "within_budget cfg B" for api cfg B
  by unfold_locales (rule pool_step_inv)

text \<open>A docker client for the witnesses: it hands out the ids 'a', 'aa', ... and always succeeds.\<close>

definition good_docker :: "nat docker_api" where
  "good_docker =
     \<lparr>ContainerCreate = \<lambda>_ _ w. (Inr (replicate (Suc w) (CHR ''a'')), Suc w),
      ContainerStart = \<lambda>_ w. (Inr (), w), ContainerRemove = \<lambda>_ w. (Inr (), w),
      ContainerInspect = \<lambda>_ w. (Inr True, w), ExecCreate = \<lambda>_ _ w. (Inr ''x'', w),
      ExecAttach = \<lambda>_ w. (Inr (), w), ExecStart = \<lambda>_ w. (Inr (), w),
      ExecInspect = \<lambda>_ w. (Inr (False, 0), w), CleanupContainer = \<lambda>_ w. (Inr (), w),
      MkTempDir = \<lambda>_ w. (Inr ''/tmp'', w), AbsPath = \<lambda>s w. (Inr s, w), NewUUID = \<lambda>w. (Inr ''01234567-89'', w),
      Sleep = \<lambda>_ w. (Inr (), w), TimerFired = \<lambda>_. False, Now = \<lambda>_. 0, CtxWins = \<lambda>w. (Inr (), w)\<rparr>"

definition small_cfg :: "nat \<Rightarrow> nat \<Rightarrow> pool_config" where
  "small_cfg mx mn =
     \<lparr>Language = LangGo, CfgImage = ''golang'', LangEnvironment = [], DockerEnvironment = [],
      MemoryLimitBytes = 1024, CPULimit = 1, MaxContainers = mx, MinContainers = mn,
      InitScript = ''i'', CleanupScript = ''c''\<rparr>"

definition blank_obj :: "string \<Rightarrow> PooledContainer" where
  "blank_obj _ = \<lparr>Status = Pending, LastUsed = 0, WorkingDir = [], ImageName = [], PLanguage = LangGo,
     CreatedAt = 0, CError = None\<rparr>"

text \<open>Facts of that client, for the witnesses.\<close>

lemma exec_wait_good [simp]: "exec_wait good_docker mi mx ex p = Some (Inr (), p)"
  by (subst exec_wait.simps) (simp add: good_docker_def)

lemma verify_wait_good [simp]: "verify_wait good_docker ex p = Some (Inr (), p)"
  by (subst verify_wait.simps) (simp add: good_docker_def)

lemma good_api [simp]:
  "CleanupContainer good_docker c w = (Inr (), w)" "Now good_docker w = 0"
  "ContainerInspect good_docker c w = (Inr True, w)"
  "MkTempDir good_docker l w = (Inr ''/tmp'', w)" "CtxWins good_docker w = (Inr (), w)"
  by (simp_all add: good_docker_def)

lemma start_exec_good [simp]: "start_exec good_docker m1 m2 m3 c s p = Some (Inr ''x'', p)"
  by (simp add: start_exec_def good_docker_def on_world_def io_defs)

lemma initialize_good [simp]: "initializeContainer good_docker cfg c p = Some (Inr (), p)"
  by (simp add: initializeContainer_def verifyContainerReady_def io_defs)

lemma reset_good [simp]: "resetContainer good_docker cfg c p = Some (Inr (), p)"
  by (simp add: resetContainer_def io_defs)

lemma create_good [simp]:
  "createContainer good_docker cfg path p =
     Some (Inr (replicate (Suc (world p)) (CHR ''a'')), p\<lparr>world := Suc (world p)\<rparr>)"
  by (simp add: createContainer_def generateContainerName_def good_docker_def on_world_def io_defs numeral_eq_Suc)

lemma createPrepared_good [simp]:
  "createPreparedContainer good_docker cfg p =
     (let c = replicate (Suc (world p)) (CHR ''a'')
      in Some (Inr c, enqueue_ready c (add_container good_docker cfg c ''/tmp'' (p\<lparr>world := Suc (world p)\<rparr>))))"
  by (simp add: createPreparedContainer_def on_world_def io_defs Let_def)

lemmas pool_eval = initialize_def io_defs on_world_def newContainerPool_def small_cfg_def fill_tokens_def
  send_or_drop_def chan_try_send_def chan_try_recv_def make_chan_def enqueue_ready_def add_container_def
  with_status_def updateStats_def Let_def pool_run_def pool_step_def getContainer_def mark_running_def
  markContainerAsFailed_def drop_container_def release_token_def set_status_def returnContainer_def

definition demo_pool :: "nat pool" where
  "demo_pool = snd (the (initialize good_docker (small_cfg 1 1) (\<lambda>_. []) (newContainerPool (small_cfg 1 1) blank_obj 0)))"

lemma demo_init:
  "initialize good_docker (small_cfg 1 1) (\<lambda>_. []) (newContainerPool (small_cfg 1 1) blank_obj 0) = Some (Inr (), demo_pool)"
  by (simp add: demo_pool_def pool_eval)

section \<open>Properties\<close>

text \<open>
  C3: Every container and every free creation token fits into the pool's budget: after
  \<open>initialize\<close> and any sequence of gets, wake-ups, returns, health checks and failures, whatever
  docker answers, containers and tokens together never exceed \<open>MaxContainers + MinContainers\<close>, the
  tokens never exceed \<open>MaxContainers\<close>, and the ready queue never exceeds its capacity.
\<close>

theorem pool_budget:
  assumes "initialize api cfg ord (newContainerPool cfg o0 w) = Some (r, p)"
    and "pool_run api cfg p es = Some p'"
  shows "card (containers p') + tokens p' \<le> MaxContainers cfg + MinContainers cfg \<and>
    tokens p' \<le> MaxContainers cfg \<and> length (buf (readyQueue p')) \<le> cap (readyQueue p')"
proof -
  let ?B = "MaxContainers cfg + MinContainers cfg"
  have "within_budget cfg ?B (Some p)"
    using initialize_inv [OF new_pool_inv assms(1)] by (simp add: within_budget_def)
  from pool_sys.run_inv [OF this, of api es] assms(2) have "pool_inv cfg ?B p'"
    by (simp add: pool_run_def within_budget_def)
  then show ?thesis by (auto simp: pool_inv_def tokens_def chan_ok_def)
qed

theorem pool_budget_witness:
  "\<exists>p'. pool_run good_docker (small_cfg 1 1) demo_pool [EGet, EGet, EFailed ''a'' (GoErr ''x'')] = Some p' \<and>
     card (containers p') + tokens p' \<le> 2 \<and> tokens p' \<le> 1"
proof -
  obtain p' where "pool_run good_docker (small_cfg 1 1) demo_pool [EGet, EGet, EFailed ''a'' (GoErr ''x'')] = Some p'"
    by (simp add: demo_pool_def pool_eval numeral_eq_Suc)
  with pool_budget [OF demo_init this] show ?thesis by (simp add: small_cfg_def)
qed

text \<open>
  Pre-warming takes no token: \<open>initialize\<close> leaves the semaphore with all its
  \<open>MaxContainers\<close> tokens, beside the containers it has created. So the semaphore does not keep the
  pool within \<open>MaxContainers\<close>, which the comment in \<open>createPreparedContainer\<close> says it does: the witness
  is a pool of capacity one that comes to hold two containers.
\<close>

theorem prewarm_takes_no_token:
  assumes "initialize api cfg ord (newContainerPool cfg o0 w) = Some (r, p)"
  shows "tokens p = MaxContainers cfg"
proof -
  obtain x p1 p2 where c: "create_many api cfg (MinContainers cfg) (newContainerPool cfg o0 w) = Some (x, p1)"
    "core p2 = core p1" and p': "p = p2 \<or> p = populateReadyQueue (ord (containers p2)) p2"
    using initialize_cases [OF assms] .
  have "creationSemaphore p = creationSemaphore p2" using p' by auto
  also have "\<dots> = creationSemaphore (newContainerPool cfg o0 w)"
    using c(2) create_many_tokens [OF c(1)] by (simp add: core_def)
  finally show ?thesis
    using fill_tokens_ok [of "MaxContainers cfg"] by (simp add: tokens_def newContainerPool_def)
qed

theorem prewarm_takes_no_token_witness:
  "tokens demo_pool = 1 \<and>
   (\<exists>p'. pool_run good_docker (small_cfg 1 1) demo_pool [EGet, EGet] = Some p' \<and> card (containers p') = 2)"
  using prewarm_takes_no_token [OF demo_init]
  by (simp add: small_cfg_def) (simp add: demo_pool_def pool_eval numeral_eq_Suc)

text \<open>
  A container that \<open>getContainer\<close> has just created is handed out a second time: the creation also
  puts it into the ready queue, so with an empty queue the next \<open>getContainer\<close> returns the same
  container, which is still in use.
\<close>

theorem created_container_handed_out_twice:
  assumes "buf (readyQueue p) = []" and "0 < cap (readyQueue p)"
    and "getContainer api cfg p = Some (Inr (Got c), p')"
  shows "\<exists>p''. getContainer api cfg p' = Some (Inr (Got c), p'') \<and> Status (objs p' c) = Running"
proof -
  have none: "chan_try_recv (readyQueue p) = None" using assms(1) by (simp add: chan_try_recv_def)
  obtain u q p1 where q: "chan_try_recv (creationSemaphore p) = Some (u, q)"
    and x: "createPreparedContainer api cfg (p\<lparr>creationSemaphore := q\<rparr>) = Some (Inr c, p1)"
    and p': "p' = mark_running api c p1"
    using assms(3) none by (auto simp: getContainer_def split: option.splits sum.splits)
  from createPrepared_cases [OF x] obtain tmp q1 where
    "core q1 = core (p\<lparr>creationSemaphore := q\<rparr>)" "p1 = enqueue_ready c (add_container api cfg c tmp q1)"
    by auto
  then have "readyQueue p1 = send_or_drop chan_try_send c (readyQueue p)"
    by (simp add: core_def enqueue_ready_def add_container_def)
  moreover have "chan_ok (readyQueue p)" using assms(1) by (simp add: chan_ok_def)
  ultimately have "buf (readyQueue p') = [c]"
    using assms(1,2) by (simp add: p' mark_running_def go_chan.send_or_drop_contents)
  then show ?thesis by (simp add: getContainer_def chan_try_recv_def) (simp add: p' mark_running_def)
qed

theorem created_container_handed_out_twice_witness:
  "\<exists>p' p''. getContainer good_docker (small_cfg 1 0) (newContainerPool (small_cfg 1 0) blank_obj 0) = Some (Inr (Got ''a''), p') \<and>
     getContainer good_docker (small_cfg 1 0) p' = Some (Inr (Got ''a''), p'')"
proof -
  let ?p = "newContainerPool (small_cfg 1 0) blank_obj (0 :: nat)"
  have "buf (readyQueue ?p) = []" "0 < cap (readyQueue ?p)"
    by (simp_all add: newContainerPool_def make_chan_def small_cfg_def)
  moreover obtain p' where "getContainer good_docker (small_cfg 1 0) ?p = Some (Inr (Got ''a''), p')"
    by (simp add: pool_eval)
  ultimately show ?thesis using created_container_handed_out_twice by blast
qed

lemma token_back:
  assumes "chan_ok q" and "chan_try_recv q = Some (u, q')"
  shows "send_or_drop chan_try_send () q' = (q :: unit chan)"
proof -
  have "buf q = () # buf q'" "cap q' = cap q" "length (buf q') < cap q"
    using assms by (auto simp: chan_try_recv_def chan_ok_def split: list.splits)
  moreover have "xs @ [()] = () # xs" for xs by (induction xs) auto
  ultimately show ?thesis
    by (simp add: send_or_drop_def chan_try_send_def)
qed

text \<open>
  A get that fails leaves the pool as it was: the token it took is back and no container is
  registered or queued, whichever of docker's calls failed.
\<close>

theorem failed_get_restores_pool:
  assumes "pool_inv cfg B p" and "getContainer api cfg p = Some (Inl e, p')"
  shows "core p' = core p"
proof -
  obtain u q p1 where none: "chan_try_recv (readyQueue p) = None"
    and q: "chan_try_recv (creationSemaphore p) = Some (u, q)"
    and x: "\<exists>e'. createPreparedContainer api cfg (p\<lparr>creationSemaphore := q\<rparr>) = Some (Inl e', p1)"
    and p': "p' = release_token p1"
    using assms(2) by (auto simp: getContainer_def split: option.splits sum.splits)
  then have "core p1 = core (p\<lparr>creationSemaphore := q\<rparr>)" using createPrepared_cases by blast
  moreover have "send_or_drop chan_try_send () q = creationSemaphore p"
    using assms(1) q by (auto simp: pool_inv_def intro: token_back)
  ultimately show ?thesis by (simp add: p' core_def release_token_def)
qed

definition full_disk :: "nat docker_api" where
  "full_disk = good_docker\<lparr>MkTempDir := \<lambda>_ w. (Inl (GoErr ''no space left on device''), w)\<rparr>"

theorem failed_get_restores_pool_witness:
  "\<exists>e p'. getContainer full_disk (small_cfg 1 0) (newContainerPool (small_cfg 1 0) blank_obj 0) = Some (Inl e, p') \<and>
     core p' = core (newContainerPool (small_cfg 1 0) blank_obj (0 :: nat))"
proof -
  let ?p = "newContainerPool (small_cfg 1 0) blank_obj (0 :: nat)"
  obtain e p' where "getContainer full_disk (small_cfg 1 0) ?p = Some (Inl e, p')"
    by (simp add: pool_eval createPreparedContainer_def full_disk_def good_docker_def)
  with failed_get_restores_pool [OF new_pool_inv this] show ?thesis by blast
qed

text \<open>
  A container that is marked as failed leaves the map but not the ready queue: when it is the first
  of the queue, \<open>getContainer\<close> hands out a container that the pool no longer holds.
\<close>

theorem failed_container_handed_out:
  assumes "buf (readyQueue p) = c # cs" and "c \<in> containers p"
    and "getContainer api cfg (markContainerAsFailed c e p) = Some (r, p')"
  shows "r = Inr (Got c) \<and> c \<notin> containers p'"
proof -
  let ?q = "markContainerAsFailed c e p"
  have "readyQueue ?q = readyQueue p" "c \<notin> containers ?q"
    using assms(2) by (auto simp: markContainerAsFailed_def release_token_def drop_container_def set_status_def)
  then show ?thesis
    using assms(1,3) by (auto simp: getContainer_def chan_try_recv_def mark_running_def)
qed

theorem failed_container_handed_out_witness:
  "\<exists>p'. getContainer good_docker (small_cfg 1 1) (markContainerAsFailed ''a'' (GoErr ''x'') demo_pool) =
     Some (Inr (Got ''a''), p') \<and> ''a'' \<notin> containers p'"
proof -
  have b: "buf (readyQueue demo_pool) = [''a'']" "''a'' \<in> containers demo_pool"
    by (simp_all add: demo_pool_def pool_eval)
  obtain r p' where "getContainer good_docker (small_cfg 1 1) (markContainerAsFailed ''a'' (GoErr ''x'') demo_pool) = Some (r, p')"
    by (simp add: demo_pool_def pool_eval)
  with failed_container_handed_out [OF b this] show ?thesis by auto
qed

text \<open>
  A container that is given back and reset is ready again, with no error, and it is queued at the
  end of the ready queue when that has room; the other containers and the free tokens stay as they are.
\<close>

theorem return_makes_ready:
  assumes "pool_inv cfg B p" and "c \<in> containers p"
    and "returnContainer api cfg c p = Some (Inr (), p')"
  shows "Status (objs p' c) = Ready \<and> CError (objs p' c) = None \<and> containers p' = containers p \<and>
    tokens p' = tokens p \<and> (\<forall>d. d \<noteq> c \<longrightarrow> objs p' d = objs p d) \<and>
    buf (readyQueue p') =
      (if length (buf (readyQueue p)) < cap (readyQueue p) then buf (readyQueue p) @ [c] else buf (readyQueue p))"
proof -
  obtain u p1 where x: "resetContainer api cfg c p = Some (Inr u, p1)"
    and r: "p' = (case chan_try_send c (readyQueue p1) of
        Some q \<Rightarrow> (updateStats (set_status c Ready None p1))\<lparr>readyQueue := q\<rparr>
      | None \<Rightarrow> (updateStats (set_status c Ready None p1))
          \<lparr>waitQueue := send_or_drop chan_try_send () (waitQueue (updateStats (set_status c Ready None p1)))\<rparr>)"
    using assms(2,3)
    by (auto simp: returnContainer_def Let_def set_status_def on_world_def split: option.splits sum.splits prod.splits)
  have "core p1 = core p" by (rule io_keepsD [OF core_resetContainer x])
  then show ?thesis
    using r by (auto simp: core_def Let_def set_status_def tokens_def chan_try_send_def split: if_splits)
qed

theorem return_makes_ready_witness:
  "\<exists>p'. returnContainer good_docker (small_cfg 1 1) ''a'' demo_pool = Some (Inr (), p') \<and>
     Status (objs p' ''a'') = Ready"
proof -
  have i: "pool_inv (small_cfg 1 1) 2 demo_pool"
    using initialize_inv [OF new_pool_inv demo_init] by (simp add: small_cfg_def numeral_eq_Suc)
  have b: "''a'' \<in> containers demo_pool" by (simp add: demo_pool_def pool_eval)
  obtain p' where "returnContainer good_docker (small_cfg 1 1) ''a'' demo_pool = Some (Inr (), p')"
    by (simp add: demo_pool_def pool_eval)
  with return_makes_ready [OF i b this] show ?thesis by blast
qed

text \<open>
  The statistics agree with the containers: after \<open>updateStats\<close> the three counters add up to at most
  the total, which is the number of containers, and the utilization rate of a pool that is not empty lies
  between zero and one.
\<close>

theorem stats_agree:
  assumes "finite (containers p)"
  shows "let s = stats (updateStats p) in
    ReadyContainers s + BusyContainers s + ErrorContainers s \<le> TotalContainers s \<and>
    TotalContainers s = card (containers p) \<and>
    (containers p = {} \<or> 0 \<le> UtilizationRate s \<and> UtilizationRate s \<le> 1)"
proof -
  have fin: "finite (with_status st p)" for st
    using assms by (simp add: with_status_def)
  have "card (with_status Ready p) + card (with_status Running p) + card (with_status Error p) =
      card (with_status Ready p \<union> with_status Running p \<union> with_status Error p)"
    using fin by (subst card_Un_disjoint | auto simp: with_status_def)+
  also have "\<dots> \<le> card (containers p)"
    using assms by (intro card_mono) (auto simp: with_status_def)
  finally have sum: "card (with_status Ready p) + card (with_status Running p) + card (with_status Error p)
    \<le> card (containers p)" .
  have busy: "card (with_status Running p) \<le> card (containers p)" using sum by simp
  show ?thesis using sum f64_share [of "int (card (with_status Running p))" "int (card (containers p))"] busy assms
    by (auto simp: updateStats_def Let_def)
qed

theorem stats_agree_witness:
  "let s = stats (updateStats demo_pool) in
    ReadyContainers s + BusyContainers s + ErrorContainers s \<le> TotalContainers s \<and> TotalContainers s = 1"
proof -
  have "finite (containers demo_pool)" "card (containers demo_pool) = 1"
    by (simp_all add: demo_pool_def pool_eval)
  then show ?thesis using stats_agree [of demo_pool] by (simp add: Let_def)
qed

fun ends_within :: "'w docker_api \<Rightarrow> string \<Rightarrow> nat \<Rightarrow> 'w \<Rightarrow> bool" where
  "ends_within api ex 0 w = False"
| "ends_within api ex (Suc n) w =
     (case ExecInspect api ex w of
        (Inl e, w') \<Rightarrow> True
      | (Inr (running, code), w') \<Rightarrow> \<not> running \<or> ends_within api ex n (snd (Sleep api 100000000 w')))"

lemma exec_wait_ends: "ends_within api ex n (world p) \<Longrightarrow> \<exists>res. exec_wait api mi mx ex p = Some res"
proof (induction n arbitrary: p)
  case 0
  then show ?case by simp
next
  case (Suc n)
  then show ?case
    by (subst exec_wait.simps) (auto split: prod.splits sum.splits)
qed

lemma exec_wait_ended: "exec_wait api mi mx ex p = Some res \<Longrightarrow> \<exists>n. ends_within api ex n (world p)"
proof (rule exec_wait.raw_induct [where P = "\<lambda>api mi mx ex p res. \<exists>n. ends_within api ex n (world p)"], goal_cases)
  case (1 f api mi mx ex p res)
  show ?case
  proof (cases "ends_within api ex 1 (world p)")
    case False
    then obtain code w where w: "ExecInspect api ex (world p) = (Inr (True, code), w)"
      by (auto split: prod.splits sum.splits)
    with 1(3) have "f api mi mx ex (p\<lparr>world := snd (Sleep api 100000000 w)\<rparr>) = Some res" by simp
    from 1(2) [OF this] obtain n where "ends_within api ex n (snd (Sleep api 100000000 w))" by auto
    with w have "ends_within api ex (Suc n) (world p)" by simp
    then show ?thesis by blast
  qed blast
qed

text \<open>
  The loop that waits for an exec returns exactly when some inspection ends it. There is no timeout,
  so a reset script that docker reports as running for ever keeps \<open>returnContainer\<close>, and with it the
  mutex of the pool, for ever.
\<close>

theorem exec_wait_returns_iff:
  "(\<exists>res. exec_wait api msgInspect msgExit ex p = Some res) \<longleftrightarrow> (\<exists>n. ends_within api ex n (world p))"
  using exec_wait_ends exec_wait_ended by blast

end
