(* ===== verification/File_Cache.thy ===== *)
theory File_Cache
  imports Float64 Exchange_Sort "HOL-Library.List_Lexorder" "HOL-Library.Char_ord"
begin

text \<open>
  The cache of downloaded source files (\<open>pkg/dockerexecutor/file/cache.go\<close>). The file system,
  the clock and the text of the metadata file (\<open>encoding/json\<close>) are the fields of \<open>fs_api\<close>, over a
  world of any type; the cache directory is a clean path, so \<open>filepath.Join\<close> puts a slash between it
  and a file name. A map is ranged over in the order \<open>ord\<close> gives. Sizes and counters are 64-bit
  integers that wrap around. A method runs as one step.
\<close>

section \<open>Data\<close>

record cachedFile =
  Path :: string
  Hash :: string
  LastAccessed :: int
  FileSize :: int
  CreatedAt :: int

record CacheStats =
  HitCount :: int
  MissCount :: int
  HitRate :: float64
  Size :: int
  MaxSize :: int
  ItemCount :: int
  EvictionCount :: int

record file_info =
  InfoSize :: int
  ModTime :: int

record dir_entry =
  EntryName :: string
  IsDir :: bool

type_synonym file_map = "string \<rightharpoonup> cachedFile"

record 'w fs_api =
  Stat :: "string \<Rightarrow> 'w \<Rightarrow> (go_error + file_info) \<times> 'w"
  MkdirAll :: "string \<Rightarrow> 'w \<Rightarrow> (go_error + unit) \<times> 'w"
  ReadDir :: "string \<Rightarrow> 'w \<Rightarrow> (go_error + dir_entry list) \<times> 'w"
  ReadFile :: "string \<Rightarrow> 'w \<Rightarrow> (go_error + string) \<times> 'w"
  WriteFile :: "string \<Rightarrow> string \<Rightarrow> 'w \<Rightarrow> (go_error + unit) \<times> 'w"
  Remove :: "string \<Rightarrow> 'w \<Rightarrow> (go_error + unit) \<times> 'w"
  IsNotExist :: "go_error \<Rightarrow> bool"
  Now :: "'w \<Rightarrow> int"
  MarshalIndent :: "file_map \<Rightarrow> go_error + string"
  Unmarshal :: "string \<Rightarrow> go_error + (string \<times> cachedFile) list"

record 'w fileCache =
  cacheDir :: string
  files :: file_map
  MaxCacheSize :: int
  stats :: CacheStats
  world :: 'w

definition join_path :: "string \<Rightarrow> string \<Rightarrow> string" where
  "join_path dir name = (if dir = ''/'' then dir @ name else dir @ ''/'' @ name)"

text \<open>A call of the file system.\<close>

definition on_fs :: "('w \<Rightarrow> (go_error + 'a) \<times> 'w) \<Rightarrow> 'w fileCache \<Rightarrow> (go_error + 'a) \<times> 'w fileCache" where
  "on_fs f c = (case f (world c) of (r, w) \<Rightarrow> (r, c\<lparr>world := w\<rparr>))"

section \<open>Statistics and metadata\<close>

definition updateHitRate :: "CacheStats \<Rightarrow> CacheStats" where
  "updateHitRate s =
     (let total = i64 (HitCount s + MissCount s)
      in if 0 < total then s\<lparr>HitRate := f64_div (f64_of_i64 (HitCount s)) (f64_of_i64 total)\<rparr> else s)"

definition saveMetadata :: "'w fs_api \<Rightarrow> 'w fileCache \<Rightarrow> (go_error + unit) \<times> 'w fileCache" where
  "saveMetadata api c =
     (case MarshalIndent api (files c) of
        Inl e \<Rightarrow> (Inl e, c)
      | Inr data \<Rightarrow> on_fs (WriteFile api (join_path (cacheDir c) ''cache_metadata.json'') data) c)"

text \<open>An entry comes in, or goes out, with its share of the statistics.\<close>

definition add_entry :: "string \<Rightarrow> cachedFile \<Rightarrow> 'w fileCache \<Rightarrow> 'w fileCache" where
  "add_entry key cf c =
     c\<lparr>files := (files c)(key \<mapsto> cf),
       stats := (stats c)\<lparr>ItemCount := i64 (ItemCount (stats c) + 1), Size := i64 (Size (stats c) + FileSize cf)\<rparr>\<rparr>"

definition drop_entry :: "string \<Rightarrow> cachedFile \<Rightarrow> 'w fileCache \<Rightarrow> 'w fileCache" where
  "drop_entry key cf c =
     c\<lparr>files := (files c)(key := None),
       stats := (stats c)\<lparr>ItemCount := i64 (ItemCount (stats c) - 1), Size := i64 (Size (stats c) - FileSize cf)\<rparr>\<rparr>"

section \<open>Making space\<close>

text \<open>The sort of \<open>ensureSpace\<close>: two loops over indices that exchange entries out of order.\<close>

type_synonym file_entry = "string \<times> cachedFile"

definition exchange :: "nat \<Rightarrow> nat \<Rightarrow> file_entry list \<Rightarrow> file_entry list" where
  "exchange i j xs =
     (if LastAccessed (snd (xs ! j)) < LastAccessed (snd (xs ! i)) then xs[i := xs ! j, j := xs ! i] else xs)"

definition sort_entries :: "file_entry list \<Rightarrow> file_entry list" where
  "sort_entries xs =
     fold (\<lambda>i ys. fold (exchange i) [Suc i..<length xs] ys) [0..<length xs - 1] xs"

text \<open>The eviction loop: \<open>done\<close> is \<open>evictedSize\<close>, \<open>need\<close> is \<open>evictionSize\<close>.\<close>

fun evict :: "'w fs_api \<Rightarrow> int \<Rightarrow> file_entry list \<Rightarrow> int \<Rightarrow> 'w fileCache \<Rightarrow> 'w fileCache" where
  "evict api need [] evicted c = c"
| "evict api need ((hash, file) # es) evicted c =
     (if need \<le> evicted then c
      else case on_fs (Remove api (Path file)) c of
        (Inl _, c1) \<Rightarrow> evict api need es evicted c1
      | (Inr _, c1) \<Rightarrow>
          (let c2 = drop_entry hash file c1
           in evict api need es (i64 (evicted + FileSize file))
                (c2\<lparr>stats := (stats c2)\<lparr>EvictionCount := i64 (EvictionCount (stats c2) + 1)\<rparr>\<rparr>)))"

definition entries_of :: "string list \<Rightarrow> file_map \<Rightarrow> file_entry list" where
  "entries_of ks m = map (\<lambda>k. (k, the (m k))) ks"

definition ensureSpace :: "'w fs_api \<Rightarrow> (file_map \<Rightarrow> string list) \<Rightarrow> int \<Rightarrow> 'w fileCache \<Rightarrow> 'w fileCache" where
  "ensureSpace api ord requiredSize c =
     (if i64 (Size (stats c) + requiredSize) \<le> MaxCacheSize c then c
      else let evictionSize = i64 (Size (stats c) + requiredSize - MaxCacheSize c);
               sorted_files = sort_entries (entries_of (ord (files c)) (files c))
           in snd (saveMetadata api (evict api evictionSize sorted_files 0 c)))"

section \<open>Storing and finding a file\<close>

definition getFileExtension :: "string \<Rightarrow> string" where
  "getFileExtension lang =
     (if lang = ''ts'' then ''ts'' else if lang = ''node'' then ''mjs'' else if lang = ''py'' then ''py''
      else if lang = ''js'' then ''js'' else ''go'')"

definition sanitize :: "string \<Rightarrow> string" where
  "sanitize key = map (\<lambda>ch. if ch = CHR '':'' then CHR ''_'' else ch) (map (\<lambda>ch. if ch = CHR ''/'' then CHR ''_'' else ch) key)"

definition file_path :: "string \<Rightarrow> string \<Rightarrow> string \<Rightarrow> string" where
  "file_path dir key lang = join_path dir (sanitize key @ ''.'' @ getFileExtension lang)"

definition storeFile :: "'w fs_api \<Rightarrow> (file_map \<Rightarrow> string list) \<Rightarrow> string \<Rightarrow> string \<Rightarrow> string \<Rightarrow>
    'w fileCache \<Rightarrow> (go_error + string) \<times> 'w fileCache" where
  "storeFile api ord key lang content c =
     (let c0 = ensureSpace api ord (int (length content)) c; filePath = file_path (cacheDir c) key lang
      in case on_fs (WriteFile api filePath content) c0 of
           (Inl e, c1) \<Rightarrow> (Inl (Wrap ''failed to write cached file'' e), c1)
         | (Inr _, c1) \<Rightarrow>
             (case on_fs (Stat api filePath) c1 of
                (Inl e, c2) \<Rightarrow> (Inl (Wrap ''failed to get file info'' e), c2)
              | (Inr info, c2) \<Rightarrow>
                  (let cf = \<lparr>Path = filePath, Hash = key, LastAccessed = Now api (world c2),
                             FileSize = InfoSize info, CreatedAt = Now api (world c2)\<rparr>
                   in (Inr filePath, snd (saveMetadata api (add_entry key cf c2))))))"

definition accessCachedFile :: "'w fs_api \<Rightarrow> string \<Rightarrow> cachedFile \<Rightarrow>
    'w fileCache \<Rightarrow> (go_error + string) \<times> 'w fileCache" where
  "accessCachedFile api key cf c =
     (case on_fs (Stat api (Path cf)) c of
        (r, c1) \<Rightarrow>
          if (case r of Inl e \<Rightarrow> IsNotExist api e | Inr _ \<Rightarrow> False)
          then (Inl (GoErr (''cached file not found on disk: '' @ Path cf)),
                snd (saveMetadata api (drop_entry (Hash cf) cf c1)))
          else (let c2 = c1\<lparr>stats := updateHitRate ((stats c1)\<lparr>HitCount := i64 (HitCount (stats c1) + 1)\<rparr>),
                            files := (files c1)(key \<mapsto> cf\<lparr>LastAccessed := Now api (world c1)\<rparr>)\<rparr>
                in (Inr (Path cf), snd (saveMetadata api c2))))"

text \<open>The download is a call on the world too.\<close>

definition getOrDownloadFile :: "'w fs_api \<Rightarrow> (file_map \<Rightarrow> string list) \<Rightarrow> string \<Rightarrow> string \<Rightarrow>
    ('w \<Rightarrow> (go_error + string) \<times> 'w) \<Rightarrow> 'w fileCache \<Rightarrow> (go_error + string) \<times> 'w fileCache" where
  "getOrDownloadFile api ord key lang downloadFunc c =
     (case files c key of
        Some cf \<Rightarrow> accessCachedFile api key cf c
      | None \<Rightarrow>
          (let c1 = c\<lparr>stats := updateHitRate ((stats c)\<lparr>MissCount := i64 (MissCount (stats c) + 1)\<rparr>)\<rparr>
           in case on_fs downloadFunc c1 of
                (Inl e, c2) \<Rightarrow> (Inl (Wrap ''download failed'' e), c2)
              | (Inr content, c2) \<Rightarrow> storeFile api ord key lang content c2))"

section \<open>Loading\<close>

fun load_entries :: "'w fs_api \<Rightarrow> file_entry list \<Rightarrow> 'w fileCache \<Rightarrow> 'w fileCache" where
  "load_entries api [] c = c"
| "load_entries api ((key, cf) # es) c =
     (case on_fs (Stat api (Path cf)) c of
        (Inr _, c1) \<Rightarrow> load_entries api es (add_entry key cf c1)
      | (Inl _, c1) \<Rightarrow> load_entries api es c1)"

definition loadMetadata :: "'w fs_api \<Rightarrow> string \<Rightarrow> 'w fileCache \<Rightarrow> (go_error + unit) \<times> 'w fileCache" where
  "loadMetadata api metadataPath c =
     (case on_fs (ReadFile api metadataPath) c of
        (Inl e, c1) \<Rightarrow> (Inl e, c1)
      | (Inr data, c1) \<Rightarrow>
          (case Unmarshal api data of
             Inl e \<Rightarrow> (Inl e, c1)
           | Inr metadata \<Rightarrow> (Inr (), load_entries api metadata c1)))"

definition trim_go :: "string \<Rightarrow> string" where
  "trim_go name = (if suffix ''.go'' name then take (length name - 3) name else name)"

fun scan_entries :: "'w fs_api \<Rightarrow> dir_entry list \<Rightarrow> 'w fileCache \<Rightarrow> 'w fileCache" where
  "scan_entries api [] c = c"
| "scan_entries api (e # es) c =
     (let key = trim_go (EntryName e); filePath = join_path (cacheDir c) (EntryName e)
      in if IsDir e \<or> \<not> suffix ''.go'' (EntryName e) \<or> EntryName e = ''cache_metadata.json'' \<or> files c key \<noteq> None
         then scan_entries api es c
         else case on_fs (Stat api filePath) c of
           (Inl _, c1) \<Rightarrow> scan_entries api es c1
         | (Inr info, c1) \<Rightarrow>
             scan_entries api es
               (add_entry key \<lparr>Path = filePath, Hash = key, LastAccessed = ModTime info,
                               FileSize = InfoSize info, CreatedAt = ModTime info\<rparr> c1))"

definition loadExistingFiles :: "'w fs_api \<Rightarrow> 'w fileCache \<Rightarrow> (go_error + unit) \<times> 'w fileCache" where
  "loadExistingFiles api c =
     (let metadataPath = join_path (cacheDir c) ''cache_metadata.json'';
          c1 = (case on_fs (Stat api metadataPath) c of
                  (Inl _, c1) \<Rightarrow> c1
                | (Inr _, c1) \<Rightarrow> snd (loadMetadata api metadataPath c1))
      in case on_fs (ReadDir api (cacheDir c)) c1 of
           (Inl e, c2) \<Rightarrow> (Inl e, c2)
         | (Inr es, c2) \<Rightarrow> (Inr (), scan_entries api es c2))"

definition newFileCache :: "'w fs_api \<Rightarrow> string \<Rightarrow> int \<Rightarrow> 'w \<Rightarrow> (go_error + 'w fileCache) \<times> 'w" where
  "newFileCache api dir maxSize w =
     (let cdir = (if dir = [] then ''/var/lib/triggerx/cache'' else dir)
      in case MkdirAll api cdir w of
           (Inl e, w1) \<Rightarrow> (Inl (Wrap (''failed to create cache directory '' @ cdir) e), w1)
         | (Inr _, w1) \<Rightarrow>
             (let c = snd (loadExistingFiles api
                \<lparr>cacheDir = cdir, files = Map.empty, MaxCacheSize = maxSize,
                 stats = \<lparr>HitCount = 0, MissCount = 0, HitRate = 0, Size = 0, MaxSize = maxSize,
                          ItemCount = 0, EvictionCount = 0\<rparr>, world = w1\<rparr>)
              in (Inr c, world c)))"

section \<open>The sort\<close>

abbreviation age :: "file_entry \<Rightarrow> int" where
  "age e \<equiv> LastAccessed (snd e)"

interpretation cache_sort: exchange_sort age exchange
  by unfold_locales (simp add: exchange_def)

lemma sort_entries_loops: "sort_entries = cache_sort.sort_loops"
  by (simp add: fun_eq_iff sort_entries_def cache_sort.sort_loops_def)

lemma sort_entries_mset [simp]: "mset (sort_entries xs) = mset xs"
  by (simp add: sort_entries_loops cache_sort.sort_mset)

lemma sort_entries_sorted: "sorted (map age (sort_entries xs))"
  by (simp add: sort_entries_loops cache_sort.sort_sorted)

lemma sort_entries_set [simp]: "set (sort_entries xs) = set xs"
  using sort_entries_mset [of xs] by (metis set_mset_mset)

section \<open>The invariant\<close>

text \<open>The counters agree with the entries, modulo the wrap-around of 64 bits.\<close>

definition total_size :: "file_map \<Rightarrow> int" where
  "total_size m = (\<Sum>k\<in>dom m. FileSize (the (m k)))"

definition cache_inv :: "'w fileCache \<Rightarrow> bool" where
  "cache_inv c \<longleftrightarrow> finite (dom (files c)) \<and> (\<forall>k cf. files c k = Some cf \<longrightarrow> Hash cf = k) \<and>
     ItemCount (stats c) = i64 (int (card (dom (files c)))) \<and> Size (stats c) = i64 (total_size (files c))"

lemma i64_diff_left [simp]: "i64 (i64 x - y) = i64 (x - y)"
  using i64_add_left [of x "- y"] by simp

lemma total_size_insert:
  assumes "finite (dom m)" and "m k = None"
  shows "total_size (m(k \<mapsto> cf)) = total_size m + FileSize cf"
proof -
  have "(\<Sum>j\<in>dom m. FileSize (the ((m(k \<mapsto> cf)) j))) = total_size m"
    unfolding total_size_def using assms(2) by (intro sum.cong) auto
  then show ?thesis using assms by (simp add: total_size_def domIff)
qed

lemma total_size_delete:
  assumes "finite (dom m)" and "m k = Some cf"
  shows "total_size (m(k := None)) = total_size m - FileSize cf"
proof -
  let ?m = "m(k := None)"
  have "total_size (?m(k \<mapsto> cf)) = total_size ?m + FileSize cf"
    by (rule total_size_insert) (use assms in auto)
  moreover have "?m(k \<mapsto> cf) = m" using assms(2) by auto
  ultimately show ?thesis by simp
qed

lemma add_entry_inv:
  "cache_inv c \<Longrightarrow> files c key = None \<Longrightarrow> Hash cf = key \<Longrightarrow> cache_inv (add_entry key cf c)"
  by (auto simp: cache_inv_def add_entry_def total_size_insert domIff add.commute)

lemma drop_entry_inv:
  assumes "cache_inv c" and "files c key = Some cf"
  shows "cache_inv (drop_entry key cf c)"
proof -
  have "key \<in> dom (files c)" "finite (dom (files c))" using assms by (auto simp: cache_inv_def)
  then have "int (card (dom (files c) - {key})) = int (card (dom (files c))) - 1"
    using card_gt_0_iff [of "dom (files c)"] by (auto simp: card_Diff_singleton)
  with assms show ?thesis
    by (auto simp: cache_inv_def drop_entry_def total_size_delete)
qed

lemma on_fs_parts:
  "on_fs f c = (r, c') \<Longrightarrow> files c' = files c \<and> stats c' = stats c \<and> cacheDir c' = cacheDir c \<and> MaxCacheSize c' = MaxCacheSize c"
  by (auto simp: on_fs_def split: prod.splits)

lemma on_fs_inv: "cache_inv c \<Longrightarrow> on_fs f c = (r, c') \<Longrightarrow> cache_inv c'"
  using on_fs_parts [of f c r c'] by (simp add: cache_inv_def)

lemma saveMetadata_parts [simp]:
  "files (snd (saveMetadata api c)) = files c" "stats (snd (saveMetadata api c)) = stats c"
  "cacheDir (snd (saveMetadata api c)) = cacheDir c" "MaxCacheSize (snd (saveMetadata api c)) = MaxCacheSize c"
  by (simp_all add: saveMetadata_def on_fs_def split: sum.splits prod.splits)

lemma saveMetadata_inv [inv_intros]: "cache_inv c \<Longrightarrow> cache_inv (snd (saveMetadata api c))"
  by (simp add: cache_inv_def)

lemma stats_inv:
  "cache_inv c \<Longrightarrow> ItemCount s = ItemCount (stats c) \<Longrightarrow> Size s = Size (stats c) \<Longrightarrow> cache_inv (c\<lparr>stats := s\<rparr>)"
  by (simp add: cache_inv_def)

lemma updateHitRate_parts [simp]:
  "ItemCount (updateHitRate s) = ItemCount s" "Size (updateHitRate s) = Size s"
  "HitCount (updateHitRate s) = HitCount s" "MissCount (updateHitRate s) = MissCount s"
  by (simp_all add: updateHitRate_def Let_def)

text \<open>\<open>ord\<close> is an order in which the runtime may range over a map.\<close>

definition good_order :: "(file_map \<Rightarrow> string list) \<Rightarrow> bool" where
  "good_order ord \<longleftrightarrow> (\<forall>m. finite (dom m) \<longrightarrow> range_order m (ord m))"

text \<open>A list of entries that is the map, each key once.\<close>

definition lists_map :: "file_entry list \<Rightarrow> file_map \<Rightarrow> bool" where
  "lists_map es m \<longleftrightarrow> distinct (map fst es) \<and> (\<forall>k cf. (k, cf) \<in> set es \<longleftrightarrow> m k = Some cf)"

lemma lists_map_entries:
  "range_order m ks \<Longrightarrow> lists_map (entries_of ks m) m"
  by (auto simp: lists_map_def entries_of_def range_order_def comp_def domIff image_iff)

lemma lists_map_mset: "mset es = mset es' \<Longrightarrow> lists_map es m = lists_map es' m"
proof -
  assume eq: "mset es = mset es'"
  then have "mset (map fst es) = mset (map fst es')" by simp
  from mset_eq_imp_distinct_iff [OF this] mset_eq_setD [OF eq] show ?thesis by (simp add: lists_map_def)
qed

lemma lists_map_sorted:
  "good_order ord \<Longrightarrow> finite (dom m) \<Longrightarrow> lists_map (sort_entries (entries_of (ord m) m)) m"
  using lists_map_entries lists_map_mset [OF sort_entries_mset] by (auto simp: good_order_def)

lemma lists_map_delete: "lists_map ((k, cf) # es) m \<Longrightarrow> lists_map es (m(k := None)) \<and> m k = Some cf"
  by (force simp: lists_map_def)

primrec sizes :: "file_entry list \<Rightarrow> int" where
  "sizes [] = 0"
| "sizes (e # es) = FileSize (snd e) + sizes es"

lemma sizes_append [simp]: "sizes (as @ bs) = sizes as + sizes bs"
  by (induction as) auto

lemma sizes_nonneg: "\<forall>e \<in> set es. 0 \<le> FileSize (snd e) \<Longrightarrow> 0 \<le> sizes es"
  by (induction es) auto

lemma total_size_list: "lists_map es m \<Longrightarrow> finite (dom m) \<Longrightarrow> total_size m = sizes es"
proof (induction es arbitrary: m)
  case Nil
  then have "dom m = {}" by (auto simp: lists_map_def)
  then show ?case by (simp add: total_size_def)
next
  case (Cons e es)
  obtain k cf where e: "e = (k, cf)" by force
  have l: "lists_map es (m(k := None))" "m k = Some cf" using Cons.prems(1) lists_map_delete by (auto simp: e)
  have fin: "finite (dom (m(k := None)))" using Cons.prems(2) by simp
  have "total_size (m(k := None)) = sizes es"
    by (rule Cons.IH [OF l(1) fin])
  then show ?case using total_size_delete [OF Cons.prems(2) l(2)] by (simp add: e)
qed

lemma evict_inv:
  "cache_inv c \<Longrightarrow> lists_map es m \<Longrightarrow> (\<forall>k cf. m k = Some cf \<longrightarrow> files c k = Some cf) \<Longrightarrow>
     cache_inv (evict api need es evicted c)"
proof (induction api need es evicted c arbitrary: m rule: evict.induct)
  case (1 api need evicted c)
  then show ?case by simp
next
  case (2 api need hash cf es evicted c)
  obtain r c1 where r: "on_fs (Remove api (Path cf)) c = (r, c1)" by force
  have f1: "files c1 = files c" "cache_inv c1" using on_fs_parts [OF r] on_fs_inv [OF 2(3) r] by auto
  define m' where "m' = m(hash := None)"
  have l: "lists_map es m'" "m hash = Some cf" using lists_map_delete [OF 2(4)] by (auto simp: m'_def)
  have sub: "\<forall>k cf. m' k = Some cf \<longrightarrow> k \<noteq> hash \<and> files c k = Some cf" using 2(5) by (simp add: m'_def)
  show ?case
  proof (cases "need \<le> evicted")
    case True
    then show ?thesis using 2(3) by simp
  next
    case False
    show ?thesis
    proof (cases r)
      case (Inl e)
      have "cache_inv (evict api need es evicted c1)"
        by (rule 2(1) [OF False r [symmetric] Inl f1(2) l(1)]) (use sub f1 in auto)
      then show ?thesis using False r Inl by simp
    next
      case (Inr u)
      let ?c = "drop_entry hash cf c1"
      let ?c2 = "?c\<lparr>stats := (stats ?c)\<lparr>EvictionCount := i64 (EvictionCount (stats ?c) + 1)\<rparr>\<rparr>"
      have "cache_inv ?c" using f1 l(2) 2(5) by (intro drop_entry_inv) auto
      then have c2: "cache_inv ?c2" by (intro stats_inv) auto
      have "cache_inv (evict api need es (i64 (evicted + FileSize cf)) ?c2)"
        by (rule 2(2) [OF False r [symmetric] Inr refl c2 l(1)]) (use sub f1 in \<open>auto simp: drop_entry_def\<close>)
      then show ?thesis using False r Inr by (simp add: Let_def)
    qed
  qed
qed

lemma ensureSpace_inv [inv_intros]:
  "good_order ord \<Longrightarrow> cache_inv c \<Longrightarrow> cache_inv (ensureSpace api ord n c)"
  using lists_map_sorted [of ord "files c"]
  by (auto simp: ensureSpace_def Let_def cache_inv_def [of c] intro!: saveMetadata_inv evict_inv)

lemma evict_sub: "files (evict api need es evicted c) \<subseteq>\<^sub>m files c"
proof (induction api need es evicted c rule: evict.induct)
  case (1 api need evicted c)
  then show ?case by simp
next
  case (2 api need hash cf es evicted c)
  obtain r c1 where r: "on_fs (Remove api (Path cf)) c = (r, c1)" by force
  have f1: "files c1 = files c" using on_fs_parts [OF r] by simp
  show ?case
  proof (cases "need \<le> evicted")
    case False
    define m' where "m' = (files c)(hash := None)"
    have "m' \<subseteq>\<^sub>m files c" by (auto simp: map_le_def m'_def)
    moreover have "files (drop_entry hash cf c1) = m'" by (simp add: f1 drop_entry_def m'_def)
    ultimately show ?thesis
      using 2(1) [OF False r [symmetric]] 2(2) [OF False r [symmetric]] f1 False r
      by (cases r) (auto simp: Let_def intro: map_le_trans)
  qed simp
qed

lemma ensureSpace_sub: "files (ensureSpace api ord n c) \<subseteq>\<^sub>m files c"
  by (simp add: ensureSpace_def Let_def evict_sub)

lemma storeFile_inv:
  assumes "good_order ord" and "cache_inv c" and "files c key = None"
    and "storeFile api ord key lang content c = (r, c')"
  shows "cache_inv c'"
proof -
  let ?c0 = "ensureSpace api ord (int (length content)) c"
  have sub: "files ?c0 key = None" using ensureSpace_sub assms(3) by (metis map_le_def domIff option.distinct(1))
  have c0: "cache_inv ?c0" using assms by (intro inv_intros)
  obtain r1 c1 where w: "on_fs (WriteFile api (file_path (cacheDir c) key lang) content) ?c0 = (r1, c1)" by force
  obtain r2 c2 where st: "on_fs (Stat api (file_path (cacheDir c) key lang)) c1 = (r2, c2)" by force
  have c2: "cache_inv c1" "cache_inv c2" "files c2 key = None"
    using on_fs_inv [OF c0 w] on_fs_inv [OF _ st] on_fs_parts [OF w] on_fs_parts [OF st] sub by auto
  show ?thesis
    using assms(4) w st c2
    by (auto simp: storeFile_def Let_def split: sum.splits intro!: saveMetadata_inv add_entry_inv)
qed

lemma accessCachedFile_inv:
  assumes "cache_inv c" and "files c key = Some cf" and "accessCachedFile api key cf c = (r, c')"
  shows "cache_inv c'"
proof -
  obtain r1 c1 where st: "on_fs (Stat api (Path cf)) c = (r1, c1)" by force
  have c1: "cache_inv c1" "files c1 key = Some cf" "Hash cf = key"
    using on_fs_inv [OF assms(1) st] on_fs_parts [OF st] assms by (auto simp: cache_inv_def)
  let ?m = "(files c1)(key \<mapsto> cf\<lparr>LastAccessed := Now api (world c1)\<rparr>)"
  have "total_size ?m = total_size (files c1)"
    unfolding total_size_def using c1(2) by (intro sum.cong) auto
  moreover have "dom ?m = dom (files c1)" using c1(2) by auto
  ultimately have "cache_inv (c1\<lparr>stats := updateHitRate ((stats c1)\<lparr>HitCount := i64 (HitCount (stats c1) + 1)\<rparr>), files := ?m\<rparr>)"
    using c1 by (simp add: cache_inv_def)
  then show ?thesis
    using assms(3) st c1 drop_entry_inv [OF c1(1,2)]
    by (auto simp: accessCachedFile_def Let_def split: if_splits intro!: saveMetadata_inv)
qed

lemma getOrDownloadFile_inv:
  assumes "good_order ord" and "cache_inv c" and "getOrDownloadFile api ord key lang dl c = (r, c')"
  shows "cache_inv c'"
proof (cases "files c key")
  case (Some cf)
  with assms accessCachedFile_inv show ?thesis by (simp add: getOrDownloadFile_def)
next
  case None
  let ?c1 = "c\<lparr>stats := updateHitRate ((stats c)\<lparr>MissCount := i64 (MissCount (stats c) + 1)\<rparr>)\<rparr>"
  obtain r2 c2 where d: "on_fs dl ?c1 = (r2, c2)" by force
  have "cache_inv ?c1" using assms(2) by (rule stats_inv) auto
  then have "cache_inv c2" "files c2 key = None" using on_fs_inv [OF _ d] on_fs_parts [OF d] None by auto
  then show ?thesis
    using assms(1,3) None d storeFile_inv by (auto simp: getOrDownloadFile_def Let_def split: sum.splits)
qed

text \<open>What the metadata file decodes to: a map, whose entries are under their own hash.\<close>

definition good_codec :: "'w fs_api \<Rightarrow> bool" where
  "good_codec api \<longleftrightarrow> (\<forall>s es. Unmarshal api s = Inr es \<longrightarrow>
     distinct (map fst es) \<and> (\<forall>(k, cf) \<in> set es. Hash cf = k))"

lemma load_entries_inv:
  "cache_inv c \<Longrightarrow> distinct (map fst es) \<Longrightarrow> (\<forall>(k, cf) \<in> set es. Hash cf = k \<and> files c k = None) \<Longrightarrow>
     cache_inv (load_entries api es c)"
proof (induction api es c rule: load_entries.induct)
  case (1 api c)
  then show ?case by simp
next
  case (2 api key cf es c)
  obtain r c1 where st: "on_fs (Stat api (Path cf)) c = (r, c1)" by force
  have c1: "cache_inv c1" "files c1 = files c" using on_fs_inv [OF 2(3) st] on_fs_parts [OF st] by auto
  show ?case
  proof (cases r)
    case (Inl e)
    then show ?thesis using 2(1) [OF st [symmetric] Inl] 2(4,5) Inl c1 st by auto
  next
    case (Inr info)
    have "cache_inv (add_entry key cf c1)" using 2(5) c1 by (intro add_entry_inv) auto
    moreover have "\<forall>(k, cf') \<in> set es. Hash cf' = k \<and> files (add_entry key cf c1) k = None"
      using 2(4,5) c1 by (force simp: add_entry_def)
    ultimately show ?thesis using 2(2) [OF st [symmetric] Inr] 2(4) Inr st by auto
  qed
qed

lemma scan_entries_inv: "cache_inv c \<Longrightarrow> cache_inv (scan_entries api es c)"
proof (induction api es c rule: scan_entries.induct)
  case (1 api c)
  then show ?case by simp
next
  case (2 api e es c)
  let ?key = "trim_go (EntryName e)"
  let ?path = "join_path (cacheDir c) (EntryName e)"
  let ?skip = "IsDir e \<or> \<not> suffix ''.go'' (EntryName e) \<or> EntryName e = ''cache_metadata.json'' \<or> files c ?key \<noteq> None"
  obtain r c1 where st: "on_fs (Stat api ?path) c = (r, c1)" by force
  have c1: "cache_inv c1" "files c1 = files c" using on_fs_inv [OF 2(4) st] on_fs_parts [OF st] by auto
  show ?case
  proof (cases ?skip)
    case True
    then show ?thesis using 2(1) [OF refl refl True 2(4)] by (simp add: Let_def)
  next
    case False
    show ?thesis
    proof (cases r)
      case (Inl err)
      then show ?thesis using 2(2) [OF refl refl False st [symmetric] Inl c1(1)] False st by (auto simp: Let_def)
    next
      case (Inr info)
      let ?cf = "\<lparr>Path = ?path, Hash = ?key, LastAccessed = ModTime info, FileSize = InfoSize info, CreatedAt = ModTime info\<rparr>"
      have "cache_inv (add_entry ?key ?cf c1)" using False c1 by (intro add_entry_inv) auto
      then show ?thesis using 2(3) [OF refl refl False st [symmetric] Inr] Inr False st by (auto simp: Let_def)
    qed
  qed
qed

lemma loadExistingFiles_inv:
  assumes "good_codec api" and "cache_inv c" and "files c = Map.empty"
  shows "cache_inv (snd (loadExistingFiles api c))"
proof -
  let ?path = "join_path (cacheDir c) ''cache_metadata.json''"
  have load: "cache_inv (snd (loadMetadata api ?path c'))" if "cache_inv c'" "files c' = Map.empty" for c'
    using that assms(1) on_fs_inv [OF that(1)] on_fs_parts
    by (fastforce simp: loadMetadata_def good_codec_def split: prod.splits sum.splits intro!: load_entries_inv)
  obtain r c1 where st: "on_fs (Stat api ?path) c = (r, c1)" by force
  have c1: "cache_inv c1" "files c1 = Map.empty" "cacheDir c1 = cacheDir c"
    using on_fs_inv [OF assms(2) st] on_fs_parts [OF st] assms(3) by auto
  then show ?thesis
    using st load [OF c1(1,2)]
    by (auto simp: loadExistingFiles_def Let_def split: prod.splits sum.splits
        intro!: scan_entries_inv dest: on_fs_inv)
qed

lemma newFileCache_inv:
  assumes "good_codec api" and "newFileCache api dir maxSize w = (Inr c, w')"
  shows "cache_inv c"
proof -
  have "cache_inv \<lparr>cacheDir = d, files = Map.empty, MaxCacheSize = maxSize,
      stats = \<lparr>HitCount = 0, MissCount = 0, HitRate = 0, Size = 0, MaxSize = maxSize, ItemCount = 0,
               EvictionCount = 0\<rparr>, world = w1\<rparr>" for d w1
    by (simp add: cache_inv_def total_size_def)
  from loadExistingFiles_inv [OF assms(1) this] assms(2) show ?thesis
    by (auto simp: newFileCache_def Let_def split: prod.splits sum.splits)
qed

section \<open>The cache as a system\<close>

text \<open>A request: the key, the language and the download.\<close>

type_synonym 'w request = "string \<times> string \<times> ('w \<Rightarrow> (go_error + string) \<times> 'w)"

definition cache_step :: "'w fs_api \<Rightarrow> (file_map \<Rightarrow> string list) \<Rightarrow> 'w fileCache \<Rightarrow> 'w request \<Rightarrow> 'w fileCache" where
  "cache_step api ord c req =
     (case req of (key, lang, dl) \<Rightarrow> snd (getOrDownloadFile api ord key lang dl c))"

lemma cache_step_inv:
  "good_order ord \<longrightarrow> cache_inv c \<Longrightarrow> good_order ord \<longrightarrow> cache_inv (cache_step api ord c req)"
  by (cases req) (metis (no_types, lifting) cache_step_def case_prod_conv getOrDownloadFile_inv prod.collapse)

interpretation cache_sys: step_system "cache_step api ord" "\<lambda>c. good_order ord \<longrightarrow> cache_inv c" for api ord
  by unfold_locales (rule cache_step_inv)

section \<open>What an eviction leaves\<close>

lemma evict_prefix:
  assumes "\<forall>p w. \<exists>w'. Remove api p w = (Inr (), w')"
  shows "(\<forall>e \<in> set es. 0 \<le> FileSize (snd e)) \<Longrightarrow> 0 \<le> d \<Longrightarrow> d + sizes es < 2 ^ 63 \<Longrightarrow>
    \<exists>n \<le> length es. files (evict api need es d c) = files c |` (- fst ` set (take n es)) \<and>
      (n < length es \<longrightarrow> need \<le> d + sizes (take n es)) \<and>
      (0 < n \<longrightarrow> d + sizes (take (n - 1) es) < need)"
proof (induction es arbitrary: d c)
  case Nil
  then show ?case by (simp add: restrict_map_def)
next
  case (Cons e es)
  obtain h cf where e: "e = (h, cf)" by force
  have nn: "0 \<le> sizes es" using Cons.prems(1) by (intro sizes_nonneg) auto
  show ?case
  proof (cases "need \<le> d")
    case True
    then show ?thesis by (intro exI [of _ 0]) (simp add: e restrict_map_def)
  next
    case False
    obtain w' where "Remove api (Path cf) (world c) = (Inr (), w')" using assms by blast
    then have r: "on_fs (Remove api (Path cf)) c = (Inr (), c\<lparr>world := w'\<rparr>)" by (simp add: on_fs_def)
    let ?c = "drop_entry h cf (c\<lparr>world := w'\<rparr>)"
    let ?c2 = "?c\<lparr>stats := (stats ?c)\<lparr>EvictionCount := i64 (EvictionCount (stats ?c) + 1)\<rparr>\<rparr>"
    let ?d = "d + FileSize cf"
    have d: "i64 ?d = ?d" "0 \<le> ?d" using Cons.prems nn by (auto simp: e in_i64_def)
    obtain n where n: "n \<le> length es" "files (evict api need es ?d ?c2) = files ?c2 |` (- fst ` set (take n es))"
      "n < length es \<longrightarrow> need \<le> ?d + sizes (take n es)"
      "0 < n \<longrightarrow> ?d + sizes (take (n - 1) es) < need"
      using Cons.IH [of ?d ?c2] Cons.prems d by (auto simp: e add.assoc)
    have "files (evict api need (e # es) d c) = files c |` (- fst ` set (take (Suc n) (e # es)))"
      using False r n(2) d(1) by (auto simp: e Let_def drop_entry_def restrict_map_def fun_eq_iff)
    then show ?thesis
      using n(1,3,4) False by (intro exI [of _ "Suc n"]) (cases n, auto simp: e add.assoc)
  qed
qed

lemma lists_map_append:
  assumes "lists_map (as @ bs) m"
  shows "lists_map bs (m |` (- fst ` set as))"
proof -
  have d: "distinct (map fst bs)" "fst ` set as \<inter> fst ` set bs = {}"
    using assms by (auto simp: lists_map_def)
  have m: "m k = Some cf \<longleftrightarrow> (k, cf) \<in> set as \<or> (k, cf) \<in> set bs" for k cf
    using assms by (auto simp: lists_map_def)
  have "(k, cf) \<in> set bs \<longleftrightarrow> (m |` (- fst ` set as)) k = Some cf" for k cf
  proof (cases "k \<in> fst ` set as")
    case True
    then have "k \<notin> fst ` set bs" using d(2) by blast
    then show ?thesis using True by (auto simp: rev_image_eqI)
  next
    case False
    then show ?thesis using m by (auto simp: rev_image_eqI)
  qed
  with d(1) show ?thesis by (simp add: lists_map_def)
qed

section \<open>A file system for the witnesses\<close>

type_synonym disk = "string \<rightharpoonup> string"

definition mem_fs :: "disk fs_api" where
  "mem_fs =
     \<lparr>Stat = \<lambda>p w. (case w p of None \<Rightarrow> Inl (GoErr ''no such file'')
                          | Some s \<Rightarrow> Inr \<lparr>InfoSize = int (length s), ModTime = 0\<rparr>, w),
      MkdirAll = \<lambda>_ w. (Inr (), w), ReadDir = \<lambda>_ w. (Inr [], w),
      ReadFile = \<lambda>p w. (case w p of None \<Rightarrow> Inl (GoErr ''no such file'') | Some s \<Rightarrow> Inr s, w),
      WriteFile = \<lambda>p s w. (Inr (), w(p \<mapsto> s)), Remove = \<lambda>p w. (Inr (), w(p := None)),
      IsNotExist = \<lambda>e. e = GoErr ''no such file'', Now = \<lambda>_. 0,
      MarshalIndent = \<lambda>_. Inr ''{}'', Unmarshal = \<lambda>_. Inl (GoErr ''syntax error'')\<rparr>"

definition key_order :: "file_map \<Rightarrow> string list" where
  "key_order m = sorted_list_of_set (dom m)"

lemma good_key_order: "good_order key_order"
  by (simp add: good_order_def range_order_def key_order_def)

lemma good_mem_codec: "good_codec mem_fs"
  by (simp add: good_codec_def mem_fs_def)

definition two_files :: "disk fileCache" where
  "two_files =
     \<lparr>cacheDir = ''/c'',
      files = [''a'' \<mapsto> \<lparr>Path = ''/c/a.go'', Hash = ''a'', LastAccessed = 5, FileSize = 6, CreatedAt = 0\<rparr>,
               ''b'' \<mapsto> \<lparr>Path = ''/c/b.go'', Hash = ''b'', LastAccessed = 3, FileSize = 4, CreatedAt = 0\<rparr>],
      MaxCacheSize = 12,
      stats = \<lparr>HitCount = 0, MissCount = 2, HitRate = 0, Size = 10, MaxSize = 12, ItemCount = 2, EvictionCount = 0\<rparr>,
      world = Map.empty\<rparr>"

lemma two_files_inv: "cache_inv two_files" "total_size (files two_files) = 10"
  by (auto simp: cache_inv_def two_files_def total_size_def in_i64_def)

section \<open>Properties\<close>


definition fetch :: "string \<Rightarrow> disk \<Rightarrow> (go_error + string) \<times> disk" where
  "fetch s w = (Inr s, w)"


text \<open>
  C38: When files can be removed, \<open>ensureSpace\<close> makes the space that is asked for, by removing files
  that were used least recently: what it removes is not younger than what it keeps, and the removed
  files include one whose removal was necessary.
\<close>

theorem ensureSpace_lru:
  assumes ord: "good_order ord" and inv: "cache_inv c"
    and rm: "\<forall>p w. \<exists>w'. Remove api p w = (Inr (), w')"
    and pos: "\<forall>cf \<in> ran (files c). 0 \<le> FileSize cf" and small: "total_size (files c) < 2 ^ 62"
    and req: "0 \<le> req" "req \<le> MaxCacheSize c" "MaxCacheSize c < 2 ^ 62"
  shows "let c' = ensureSpace api ord req c in
    Size (stats c') + req \<le> MaxCacheSize c \<and> files c' \<subseteq>\<^sub>m files c \<and>
    (\<forall>k k'. k \<in> dom (files c) - dom (files c') \<longrightarrow> k' \<in> dom (files c') \<longrightarrow>
       LastAccessed (the (files c k)) \<le> LastAccessed (the (files c k'))) \<and>
    (files c' = files c \<or>
     (\<exists>k \<in> dom (files c) - dom (files c'). MaxCacheSize c < Size (stats c') + FileSize (the (files c k)) + req))"
proof -
  define es where "es = sort_entries (entries_of (ord (files c)) (files c))"
  define need where "need = Size (stats c) + req - MaxCacheSize c"
  have fin: "finite (dom (files c))" using inv by (simp add: cache_inv_def)
  have l: "lists_map es (files c)" unfolding es_def by (rule lists_map_sorted [OF ord fin])
  have mem: "(k, cf) \<in> set es \<longleftrightarrow> files c k = Some cf" for k cf using l by (simp add: lists_map_def)
  have pos': "\<forall>e \<in> set es. 0 \<le> FileSize (snd e)"
  proof
    fix e assume "e \<in> set es"
    then have "files c (fst e) = Some (snd e)" using mem [of "fst e" "snd e"] by simp
    then show "0 \<le> FileSize (snd e)" using pos by (blast intro: ranI)
  qed
  have tot: "total_size (files c) = sizes es" by (rule total_size_list [OF l fin])
  have S: "Size (stats c) = sizes es" "0 \<le> sizes es" "sizes es < 2 ^ 62"
    using inv small sizes_nonneg [OF pos'] by (auto simp: cache_inv_def tot in_i64_def)
  have i: "i64 (Size (stats c) + req) = Size (stats c) + req" "i64 need = need"
    using S req by (auto simp: in_i64_def need_def)
  show ?thesis
  proof (cases "Size (stats c) + req \<le> MaxCacheSize c")
    case True
    then show ?thesis using i by (simp add: ensureSpace_def Let_def)
  next
    case False
    define c' where "c' = evict api need es 0 c"
    have e: "files (ensureSpace api ord req c) = files c'" "stats (ensureSpace api ord req c) = stats c'"
      using False i by (simp_all add: ensureSpace_def Let_def es_def need_def c'_def)
    obtain n where n: "n \<le> length es" "files c' = files c |` (- fst ` set (take n es))"
      "n < length es \<longrightarrow> need \<le> sizes (take n es)" "0 < n \<longrightarrow> sizes (take (n - 1) es) < need"
      using evict_prefix [OF rm pos' order_refl, of need c] S by (auto simp: c'_def)
    have split: "take n es @ drop n es = es" by simp
    have l': "lists_map (drop n es) (files c')"
      unfolding n(2) by (rule lists_map_append) (simp add: l)
    have inv': "cache_inv c'" unfolding c'_def by (rule evict_inv [OF inv l]) simp
    have fin': "finite (dom (files c'))" using inv' by (simp add: cache_inv_def)
    have eq: "sizes es = sizes (take n es) + sizes (drop n es)"
      using sizes_append [of "take n es" "drop n es"] by simp
    have nn: "0 \<le> sizes (take n es)" "0 \<le> sizes (drop n es)"
      using pos' by (auto intro!: sizes_nonneg dest: in_set_takeD in_set_dropD)
    have S': "Size (stats c') = sizes (drop n es)"
    proof -
      have "in_i64 (sizes (drop n es))" using eq nn S(3) unfolding in_i64_def by (intro conjI) simp_all
      then show ?thesis using inv' total_size_list [OF l' fin'] by (simp add: cache_inv_def)
    qed
    have room: "Size (stats c') + req \<le> MaxCacheSize c"
    proof (cases "n < length es")
      case True
      then have "need \<le> sizes (take n es)" using n(3) by blast
      then show ?thesis unfolding S' need_def using eq S(1) by linarith
    next
      case False
      then show ?thesis unfolding S' using req(2) by simp
    qed
    have gone: "k \<in> dom (files c) - dom (files c') \<longleftrightarrow> k \<in> dom (files c) \<and> k \<in> fst ` set (take n es)" for k
      by (cases "k \<in> fst ` set (take n es)") (auto simp: n(2) restrict_map_def domIff)
    have old: "LastAccessed (the (files c k)) \<le> LastAccessed (the (files c k'))"
      if k: "k \<in> dom (files c) - dom (files c')" and k': "k' \<in> dom (files c')" for k k'
    proof -
      from k gone obtain cf where a: "(k, cf) \<in> set (take n es)" by auto
      from k' l' obtain cf' where b: "(k', cf') \<in> set (drop n es)" by (auto simp: lists_map_def)
      have "sorted (map age (take n es @ drop n es))" by (simp add: es_def sort_entries_sorted)
      then have "\<forall>x \<in> set (take n es). \<forall>y \<in> set (drop n es). age x \<le> age y"
        unfolding map_append sorted_append set_map by blast
      then have "age (k, cf) \<le> age (k', cf')" using a b by blast
      moreover have "files c k = Some cf" "files c k' = Some cf'"
        using a b mem in_set_takeD in_set_dropD by metis+
      ultimately show ?thesis by simp
    qed
    have last: "\<exists>k \<in> dom (files c) - dom (files c'). MaxCacheSize c < Size (stats c') + FileSize (the (files c k)) + req"
      if n0: "n \<noteq> 0"
    proof -
      obtain m where m: "n = Suc m" using n0 by (cases n) auto
      then have t: "take n es = take m es @ [es ! m]" using n(1) by (simp add: take_Suc_conv_app_nth)
      obtain k cf where k: "es ! m = (k, cf)" by force
      have "(k, cf) \<in> set es" using k m n(1) by (metis Suc_le_lessD nth_mem)
      then have c: "files c k = Some cf" using mem by simp
      moreover have "k \<in> dom (files c) - dom (files c')" unfolding gone using c t k by force
      moreover have "sizes (take m es) < need" using n(4) m by simp
      ultimately show ?thesis
        using eq t k S(1) by (intro bexI [of _ k]) (auto simp: S' need_def)
    qed
    show ?thesis
      using room old last gone e n(2) evict_sub [of api need es 0 c]
      by (cases "n = 0") (auto simp: Let_def c'_def [symmetric] restrict_map_def)
  qed
qed

theorem ensureSpace_lru_witness:
  "let c' = ensureSpace mem_fs key_order 4 two_files in
    Size (stats c') + 4 \<le> 12 \<and> files c' \<subseteq>\<^sub>m files two_files"
proof -
  have "\<forall>p w. \<exists>w'. Remove mem_fs p w = (Inr (), w')" by (simp add: mem_fs_def)
  moreover have "\<forall>cf \<in> ran (files two_files). 0 \<le> FileSize cf" by (auto simp: two_files_def ran_def split: if_splits)
  moreover have "total_size (files two_files) < 2 ^ 62" "MaxCacheSize two_files = 12"
    by (simp add: two_files_inv) (simp add: two_files_def)
  ultimately show ?thesis
    using ensureSpace_lru [OF good_key_order two_files_inv(1), of mem_fs 4] by (simp add: Let_def)
qed

lemma mem_store:
  assumes "files c key = None" and "0 \<le> Size (stats c)" and "Size (stats c) + int (length b) \<le> MaxCacheSize c"
    and "MaxCacheSize c < 2 ^ 63" and p: "p = file_path (cacheDir c) key lang"
  obtains c' where "getOrDownloadFile mem_fs ord key lang (fetch b) c = (Inr p, c')"
    and "world c' p = Some b" and "cacheDir c' = cacheDir c" and "MaxCacheSize c' = MaxCacheSize c"
    and "Size (stats c') = Size (stats c) + int (length b)"
    and "files c' = (files c)(key \<mapsto> \<lparr>Path = p, Hash = key, LastAccessed = 0, FileSize = int (length b), CreatedAt = 0\<rparr>)"
proof -
  have i: "in_i64 (Size (stats c) + int (length b))" using assms by (simp add: in_i64_def)
  have "p \<noteq> join_path (cacheDir c) ''cache_metadata.json''"
    by (auto simp: p file_path_def join_path_def getFileExtension_def dest!: arg_cong [of _ _ rev] split: if_splits)
  then show ?thesis
    using that assms i
    by (simp add: getOrDownloadFile_def storeFile_def ensureSpace_def on_fs_def fetch_def mem_fs_def Let_def
        saveMetadata_def add_entry_def)
qed

text \<open>
  Two keys that differ only in a slash or colon against an underscore share one file on disk: after
  both were downloaded in the same language, a hit for the first key answers with a path that holds the
  content of the second.
\<close>

theorem shared_path_serves_other_file:
  assumes keys: "k1 \<noteq> k2" "sanitize k1 = sanitize k2" and none: "files c k1 = None" "files c k2 = None"
    and room: "0 \<le> Size (stats c)" "Size (stats c) + int (length b1) + int (length b2) \<le> MaxCacheSize c"
      "MaxCacheSize c < 2 ^ 63"
    and g1: "getOrDownloadFile mem_fs ord k1 lang (fetch b1) c = (r1, c1)"
    and g2: "getOrDownloadFile mem_fs ord k2 lang (fetch b2) c1 = (r2, c2)"
    and g3: "getOrDownloadFile mem_fs ord k1 lang (fetch b1) c2 = (r3, c3)"
  shows "\<exists>p. r3 = Inr p \<and> r1 = Inr p \<and> world c3 p = Some b2"
proof -
  define p where "p = file_path (cacheDir c) k1 lang"
  have p2: "p = file_path (cacheDir c) k2 lang" using keys(2) by (simp add: p_def file_path_def)
  have b1: "Size (stats c) + int (length b1) \<le> MaxCacheSize c" using room(2) by simp
  obtain d1 where d1: "getOrDownloadFile mem_fs ord k1 lang (fetch b1) c = (Inr p, d1)"
    "cacheDir d1 = cacheDir c" "MaxCacheSize d1 = MaxCacheSize c" "Size (stats d1) = Size (stats c) + int (length b1)"
    "files d1 = (files c)(k1 \<mapsto> \<lparr>Path = p, Hash = k1, LastAccessed = 0, FileSize = int (length b1), CreatedAt = 0\<rparr>)"
    using mem_store [OF none(1) room(1) b1 room(3) p_def, of ord] by blast
  have n2: "files d1 k2 = None" using d1(5) keys(1) none(2) by simp
  have s1: "0 \<le> Size (stats d1)" "Size (stats d1) + int (length b2) \<le> MaxCacheSize d1" "MaxCacheSize d1 < 2 ^ 63"
    using d1(3,4) room by simp_all
  have p3: "p = file_path (cacheDir d1) k2 lang" using p2 d1(2) by simp
  obtain d2 where d2: "getOrDownloadFile mem_fs ord k2 lang (fetch b2) d1 = (Inr p, d2)"
    "world d2 p = Some b2" "cacheDir d2 = cacheDir d1"
    "files d2 = (files d1)(k2 \<mapsto> \<lparr>Path = p, Hash = k2, LastAccessed = 0, FileSize = int (length b2), CreatedAt = 0\<rparr>)"
    using mem_store [OF n2 s1 p3, of ord] by blast
  have eqs: "r1 = Inr p" "c1 = d1" "c2 = d2" using g1 g2 d1(1) d2(1) by simp_all
  have k1: "files d2 k1 = Some \<lparr>Path = p, Hash = k1, LastAccessed = 0, FileSize = int (length b1), CreatedAt = 0\<rparr>"
    using d1(5) d2(4) keys(1) by simp
  have "p \<noteq> join_path (cacheDir c) ''cache_metadata.json''"
    by (auto simp: p_def file_path_def join_path_def getFileExtension_def dest!: arg_cong [of _ _ rev] split: if_splits)
  with k1 d1(2) d2(2,3) g3 eqs show ?thesis
    by (auto simp: getOrDownloadFile_def accessCachedFile_def on_fs_def mem_fs_def Let_def saveMetadata_def)
qed

definition empty_cache :: "disk fileCache" where
  "empty_cache =
     \<lparr>cacheDir = ''/c'', files = Map.empty, MaxCacheSize = 100,
      stats = \<lparr>HitCount = 0, MissCount = 0, HitRate = 0, Size = 0, MaxSize = 100, ItemCount = 0, EvictionCount = 0\<rparr>,
      world = Map.empty\<rparr>"

theorem shared_path_serves_other_file_witness:
  "\<exists>c1 c2 c3 r2 p.
     getOrDownloadFile mem_fs key_order ''a/b'' ''py'' (fetch ''one'') empty_cache = (Inr p, c1) \<and>
     getOrDownloadFile mem_fs key_order ''a_b'' ''py'' (fetch ''two'') c1 = (r2, c2) \<and>
     getOrDownloadFile mem_fs key_order ''a/b'' ''py'' (fetch ''one'') c2 = (Inr p, c3) \<and> world c3 p = Some ''two''"
proof -
  obtain r1 c1 where g1: "getOrDownloadFile mem_fs key_order ''a/b'' ''py'' (fetch ''one'') empty_cache = (r1, c1)" by force
  obtain r2 c2 where g2: "getOrDownloadFile mem_fs key_order ''a_b'' ''py'' (fetch ''two'') c1 = (r2, c2)" by force
  obtain r3 c3 where g3: "getOrDownloadFile mem_fs key_order ''a/b'' ''py'' (fetch ''one'') c2 = (r3, c3)" by force
  have "''a/b'' \<noteq> ''a_b''" "sanitize ''a/b'' = sanitize ''a_b''" by (simp_all add: sanitize_def)
  moreover have "files empty_cache ''a/b'' = None" "files empty_cache ''a_b'' = None" "0 \<le> Size (stats empty_cache)"
    "Size (stats empty_cache) + int (length ''one'') + int (length ''two'') \<le> MaxCacheSize empty_cache"
    "MaxCacheSize empty_cache < 2 ^ 63"
    by (simp_all add: empty_cache_def)
  ultimately obtain p where "r3 = Inr p \<and> r1 = Inr p \<and> world c3 p = Some ''two''"
    using shared_path_serves_other_file [OF _ _ _ _ _ _ _ g1 g2 g3] by blast
  with g1 g2 g3 show ?thesis by blast
qed

end
