(* ===== verification/Nonce_Manager.thy ===== *)
theory Nonce_Manager
  imports Retry
begin

text \<open>
  The allocation of transaction nonces and the submission of transactions
  (\<open>internal/keeper/core/execution/nonce_manager.go\<close>). The Ethereum client, the signer and the clock
  are third-party code: the fields of \<open>eth_api\<close>, over a world of any type. The retry loop is
  the one of \<open>pkg/retry\<close>. An error is its text, since the predicates of this file read it. Nonces are
  64-bit words, gas prices unbounded integers. The methods run under their mutex, as one step each.
\<close>

section \<open>Data\<close>

record transaction =
  tx_type :: nat
  tx_nonce :: "64 word"
  tx_to :: string
  tx_value :: int
  tx_gas :: "64 word"
  tx_gasPrice :: int
  tx_data :: string
  tx_chain :: int

definition NewTransaction :: "64 word \<Rightarrow> string \<Rightarrow> int \<Rightarrow> 64 word \<Rightarrow> int \<Rightarrow> string \<Rightarrow> transaction" where
  "NewTransaction nonce to value gas gasPrice data =
     \<lparr>tx_type = 0, tx_nonce = nonce, tx_to = to, tx_value = value, tx_gas = gas, tx_gasPrice = gasPrice,
      tx_data = data, tx_chain = 0\<rparr>"

record PendingTransaction =
  Nonce :: "64 word"
  TxHash :: string
  CreatedAt :: int
  Status :: string
  Attempts :: int
  LastGasPrice :: int
  Data :: string
  To :: string
  ChainID :: int
  PrivateKey :: string

text \<open>
  \<open>WaitMined\<close> is called with the context of the request, or with a context of ten seconds, and then
  an error comes with whether that context's deadline has passed. \<open>None\<close> stands for the
  empty transaction \<open>&types.Transaction{}\<close>. A retry runs under the context of the request, or under the
  background context of ten seconds that \<open>createReplacementTransaction\<close> makes for the gas price.
\<close>

datatype ctx_kind = RequestCtx | GasCtx

record ('w, 'r) eth_api =
  PendingNonceAt :: "'w \<Rightarrow> (string + 64 word) \<times> 'w"
  SuggestGasPrice :: "ctx_kind \<Rightarrow> 'w \<Rightarrow> (string + int) \<times> 'w"
  SendTransaction :: "transaction \<Rightarrow> 'w \<Rightarrow> (string + unit) \<times> 'w"
  WaitMined :: "transaction option \<Rightarrow> 'w \<Rightarrow> (string + 'r) \<times> 'w"
  WaitMined10 :: "transaction \<Rightarrow> 'w \<Rightarrow> ((string \<times> bool) + 'r) \<times> 'w"
  SignTx :: "transaction \<Rightarrow> int \<Rightarrow> string \<Rightarrow> string + transaction"
  HashHex :: "transaction \<Rightarrow> string"
  Now :: "'w \<Rightarrow> int"
  CtxErr :: "ctx_kind \<Rightarrow> 'w \<Rightarrow> string option"
  WaitTimer :: "ctx_kind \<Rightarrow> int \<Rightarrow> 'w \<Rightarrow> string option \<times> 'w"
  RandSource :: "'w \<Rightarrow> (64 word option \<times> float64) \<times> 'w"

record 'w nonce_manager =
  currentNonce :: "64 word"
  lastSyncTime :: int
  syncInterval :: int
  pendingTxs :: "64 word \<rightharpoonup> PendingTransaction"
  world :: 'w

section \<open>Which errors are retried\<close>

definition isNonceTooLowError :: "string \<Rightarrow> bool" where
  "isNonceTooLowError err \<longleftrightarrow>
     contains ''nonce too low'' err \<or> contains ''replacement transaction underpriced'' err \<or>
     contains ''already known'' err"

definition shouldRetryRPCError :: "string \<Rightarrow> int \<Rightarrow> bool" where
  "shouldRetryRPCError err attempt =
     (let s = lower err in
      if contains ''connection'' s \<or> contains ''timeout'' s \<or> contains ''network'' s \<or> contains ''dial'' s \<or>
         contains ''refused'' s \<or> contains ''unavailable'' s then True
      else if contains ''rate limit'' s \<or> contains ''too many requests'' s \<or> contains ''429'' s then True
      else contains ''500'' s \<or> contains ''502'' s \<or> contains ''503'' s \<or> contains ''504'' s)"

definition shouldRetrySubmissionError :: "string \<Rightarrow> int \<Rightarrow> bool" where
  "shouldRetrySubmissionError err attempt =
     (let s = lower err in
      if shouldRetryRPCError err attempt then True
      else if attempt < 3 \<and> (contains ''nonce too low'' s \<or> contains ''replacement transaction underpriced'' s \<or>
              contains ''already known'' s) then True
      else if contains ''gas'' s \<and> (contains ''estimate'' s \<or> contains ''limit'' s) then True
      else contains ''insufficient funds'' s \<and> attempt < 2)"

definition shouldRetryConfirmationError :: "string \<Rightarrow> int \<Rightarrow> bool" where
  "shouldRetryConfirmationError err attempt =
     (let s = lower err in
      if shouldRetryRPCError err attempt then True
      else if contains ''not found'' s \<or> contains ''unknown transaction'' s then True
      else contains ''timeout'' s \<or> contains ''deadline exceeded'' s)"

definition rpcRetryConfig :: "string RetryConfig" where
  "rpcRetryConfig =
     \<lparr>MaxRetries = 8, InitialDelay = 200 * millisecond, MaxDelay = 5 * second, BackoffFactor = f64 (15 / 10),
      JitterFactor = f64 (3 / 10), LogRetryAttempt = True, ShouldRetry = Some shouldRetryRPCError\<rparr>"

definition submitRetryConfig :: "string RetryConfig" where
  "submitRetryConfig =
     \<lparr>MaxRetries = 10, InitialDelay = 100 * millisecond, MaxDelay = 3 * second, BackoffFactor = f64 (13 / 10),
      JitterFactor = f64 (4 / 10), LogRetryAttempt = True, ShouldRetry = Some shouldRetrySubmissionError\<rparr>"

definition confirmRetryConfig :: "string RetryConfig" where
  "confirmRetryConfig =
     \<lparr>MaxRetries = 15, InitialDelay = 500 * millisecond, MaxDelay = 8 * second, BackoffFactor = f64 (12 / 10),
      JitterFactor = f64 (2 / 10), LogRetryAttempt = True, ShouldRetry = Some shouldRetryConfirmationError\<rparr>"

definition NewNonceManager :: "'w \<Rightarrow> 'w nonce_manager" where
  "NewNonceManager w =
     \<lparr>currentNonce = 0, lastSyncTime = 0, syncInterval = 10 * second, pendingTxs = Map.empty, world = w\<rparr>"

section \<open>Calls of the client and of the retry package\<close>

definition on_client :: "('w \<Rightarrow> 'a \<times> 'w) \<Rightarrow> 'w nonce_manager \<Rightarrow> 'a \<times> 'w nonce_manager" where
  "on_client f s = (case f (world s) of (r, w) \<Rightarrow> (r, s\<lparr>world := w\<rparr>))"

definition nm_env :: "('w, 'r) eth_api \<Rightarrow> ctx_kind \<Rightarrow> ('w nonce_manager, string) retry_env" where
  "nm_env api k =
     \<lparr>ctx_err = \<lambda>s. CtxErr api k (world s), wait_timer = \<lambda>d. on_client (WaitTimer api k d),
      rand_source = on_client (RandSource api)\<rparr>"

text \<open>The text of the errors of \<open>retry.Retry\<close>.\<close>

definition retry_msg :: "string retry_error \<Rightarrow> string" where
  "retry_msg e =
     (case e of
        InvalidConfig c \<Rightarrow> ''invalid retry config: '' @ config_msg c
      | CtxDone m \<Rightarrow> m
      | OpError m \<Rightarrow> m
      | Exhausted n m \<Rightarrow> ''operation failed after '' @ show_int n @ '' attempts: '' @
          (case m of Some t \<Rightarrow> t | None \<Rightarrow> ''%!w(<nil>)''))"

definition with_retry :: "('w, 'r) eth_api \<Rightarrow> ctx_kind \<Rightarrow> string RetryConfig \<Rightarrow>
    ('w nonce_manager \<Rightarrow> (string + 'a) \<times> 'w nonce_manager) \<Rightarrow> 'w nonce_manager \<Rightarrow> (string + 'a) \<times> 'w nonce_manager" where
  "with_retry api k cfg operation s =
     (case Retry (nm_env api k) operation (Some cfg) s of
        (Inl e, s') \<Rightarrow> (Inl (retry_msg e), s')
      | (Inr v, s') \<Rightarrow> (Inr v, s'))"

section \<open>Nonces\<close>

definition syncWithBlockchain :: "('w, 'r) eth_api \<Rightarrow> 'w nonce_manager \<Rightarrow> (string + unit) \<times> 'w nonce_manager" where
  "syncWithBlockchain api s =
     (case with_retry api RequestCtx rpcRetryConfig (on_client (PendingNonceAt api)) s of
        (Inl e, s1) \<Rightarrow> (Inl (''failed to get pending nonce after retries: '' @ e), s1)
      | (Inr pendingNonce, s1) \<Rightarrow>
          (let s2 = (if currentNonce s1 < pendingNonce then s1\<lparr>currentNonce := pendingNonce\<rparr> else s1)
           in (Inr (), s2\<lparr>lastSyncTime := Now api (world s2)\<rparr>)))"

definition Initialize :: "('w, 'r) eth_api \<Rightarrow> 'w nonce_manager \<Rightarrow> (string + unit) \<times> 'w nonce_manager" where
  "Initialize api s = syncWithBlockchain api s"

definition GetNextNonce :: "('w, 'r) eth_api \<Rightarrow> 'w nonce_manager \<Rightarrow> (string + 64 word) \<times> 'w nonce_manager" where
  "GetNextNonce api s =
     (case (if syncInterval s < Now api (world s) - lastSyncTime s then syncWithBlockchain api s else (Inr (), s)) of
        (Inl e, s1) \<Rightarrow> (Inl (''failed to sync nonce with blockchain: '' @ e), s1)
      | (Inr _, s1) \<Rightarrow> (Inr (currentNonce s1), s1\<lparr>currentNonce := currentNonce s1 + 1\<rparr>))"

section \<open>Tracking\<close>

definition trackTransaction :: "('w, 'r) eth_api \<Rightarrow> 64 word \<Rightarrow> string \<Rightarrow> string \<Rightarrow> string \<Rightarrow> int \<Rightarrow> string \<Rightarrow> int
    \<Rightarrow> 'w nonce_manager \<Rightarrow> 'w nonce_manager" where
  "trackTransaction api nonce txHash data to chainID key gasPrice s =
     s\<lparr>pendingTxs := (pendingTxs s)(nonce \<mapsto>
        \<lparr>Nonce = nonce, TxHash = txHash, CreatedAt = Now api (world s), Status = ''pending'', Attempts = 1,
         LastGasPrice = gasPrice, Data = data, To = to, ChainID = chainID, PrivateKey = key\<rparr>)\<rparr>"

definition updateTransactionStatus :: "('w, 'r) eth_api \<Rightarrow> 64 word \<Rightarrow> string \<Rightarrow> int
    \<Rightarrow> 'w nonce_manager \<Rightarrow> 'w nonce_manager" where
  "updateTransactionStatus api nonce txHash gasPrice s =
     (case pendingTxs s nonce of
        None \<Rightarrow> s
      | Some tx \<Rightarrow> s\<lparr>pendingTxs := (pendingTxs s)(nonce \<mapsto>
          tx\<lparr>TxHash := txHash, Status := ''pending'', Attempts := i64 (Attempts tx + 1),
             LastGasPrice := gasPrice, CreatedAt := Now api (world s)\<rparr>)\<rparr>)"

definition markTransactionConfirmed :: "64 word \<Rightarrow> string \<Rightarrow> 'w nonce_manager \<Rightarrow> 'w nonce_manager" where
  "markTransactionConfirmed nonce txHash s =
     (case pendingTxs s nonce of
        None \<Rightarrow> s
      | Some tx \<Rightarrow> s\<lparr>pendingTxs := (pendingTxs s)(nonce \<mapsto> tx\<lparr>Status := ''confirmed'', TxHash := txHash\<rparr>)\<rparr>)"

section \<open>Gas and transactions\<close>

definition getOptimalGasParams :: "('w, 'r) eth_api \<Rightarrow> ctx_kind \<Rightarrow> 'w nonce_manager \<Rightarrow> (string + int) \<times> 'w nonce_manager" where
  "getOptimalGasParams api k s =
     (case with_retry api k rpcRetryConfig (on_client (SuggestGasPrice api k)) s of
        (Inl e, s1) \<Rightarrow> (Inl (''failed to get gas price after retries: '' @ e), s1)
      | (Inr gasPrice, s1) \<Rightarrow> (Inr (gasPrice * 120 div 100), s1))"

definition createReplacementTransaction :: "('w, 'r) eth_api \<Rightarrow> transaction \<Rightarrow> int \<Rightarrow> string
    \<Rightarrow> 'w nonce_manager \<Rightarrow> (string + transaction) \<times> 'w nonce_manager" where
  "createReplacementTransaction api originalTx attempt key s =
     (if tx_type originalTx = 0 \<or> tx_type originalTx = 2 then
        (case getOptimalGasParams api GasCtx s of
           (Inl e, s1) \<Rightarrow> (Inl (''failed to get gas price for replacement: '' @ e), s1)
         | (Inr gasPrice, s1) \<Rightarrow>
             (let price = gasPrice * i64 (120 + attempt * 20) div 100;
                  tx = NewTransaction (tx_nonce originalTx) (tx_to originalTx) 0 600000 price (tx_data originalTx)
              in case SignTx api tx (tx_chain originalTx) key of
                   Inl e \<Rightarrow> (Inl (''failed to sign replacement transaction: '' @ e), s1)
                 | Inr signedTx \<Rightarrow> (Inr signedTx, s1)))
      else (Inl (''unsupported transaction type: '' @ show_nat (tx_type originalTx)), s))"

definition submitOperation :: "('w, 'r) eth_api \<Rightarrow> transaction
    \<Rightarrow> 'w nonce_manager \<Rightarrow> (string + string) \<times> 'w nonce_manager" where
  "submitOperation api signedTx s =
     (case on_client (SendTransaction api signedTx) s of
        (Inr _, s1) \<Rightarrow> (Inr (HashHex api signedTx), s1)
      | (Inl err, s1) \<Rightarrow>
          if isNonceTooLowError err then
            (case syncWithBlockchain api s1 of
               (Inl syncErr, s2) \<Rightarrow> (Inl (''failed to sync after nonce error: '' @ syncErr), s2)
             | (Inr _, s2) \<Rightarrow> (Inl err, s2))
          else (Inl err, s1))"

definition confirmOperation :: "('w, 'r) eth_api \<Rightarrow> transaction
    \<Rightarrow> 'w nonce_manager \<Rightarrow> (string + 'r) \<times> 'w nonce_manager" where
  "confirmOperation api signedTx s =
     (case on_client (WaitMined10 api signedTx) s of
        (Inr receipt, s1) \<Rightarrow> (Inr receipt, s1)
      | (Inl (err, deadline), s1) \<Rightarrow> (Inl (if deadline then ''confirmation timeout'' else err), s1))"

partial_function (option) submitWithRetry :: "('w, 'r) eth_api \<Rightarrow> transaction \<Rightarrow> 64 word \<Rightarrow> string
    \<Rightarrow> 'w nonce_manager \<Rightarrow> ((string + 'r \<times> string) \<times> 'w nonce_manager) option" where
  "submitWithRetry api signedTx nonce key s =
     (case with_retry api RequestCtx submitRetryConfig (submitOperation api signedTx) s of
        (Inl e, s1) \<Rightarrow> Some (Inl (''failed to submit transaction after retries: '' @ e), s1)
      | (Inr txHash, s1) \<Rightarrow>
          (case with_retry api RequestCtx confirmRetryConfig (confirmOperation api signedTx) s1 of
             (Inr receipt, s2) \<Rightarrow> Some (Inr (receipt, txHash), markTransactionConfirmed nonce txHash s2)
           | (Inl _, s2) \<Rightarrow>
               (case createReplacementTransaction api signedTx 1 key s2 of
                  (Inl e, s3) \<Rightarrow> Some (Inl (''failed to create replacement transaction: '' @ e), s3)
                | (Inr replacement, s3) \<Rightarrow>
                    submitWithRetry api replacement nonce key
                      (updateTransactionStatus api nonce (HashHex api replacement) (tx_gasPrice replacement) s3))))"

section \<open>Submission\<close>

definition submitNewTransaction :: "('w, 'r) eth_api \<Rightarrow> 64 word \<Rightarrow> string \<Rightarrow> string \<Rightarrow> int \<Rightarrow> string
    \<Rightarrow> 'w nonce_manager \<Rightarrow> ((string + 'r \<times> string) \<times> 'w nonce_manager) option" where
  "submitNewTransaction api nonce to data chainID key s =
     (case getOptimalGasParams api RequestCtx s of
        (Inl e, s1) \<Rightarrow> Some (Inl (''failed to get gas price: '' @ e), s1)
      | (Inr gasPrice, s1) \<Rightarrow>
          (case SignTx api (NewTransaction nonce to 0 600000 gasPrice data) chainID key of
             Inl e \<Rightarrow> Some (Inl (''failed to sign transaction: '' @ e), s1)
           | Inr signedTx \<Rightarrow>
               submitWithRetry api signedTx nonce key
                 (trackTransaction api nonce (HashHex api signedTx) data to chainID key gasPrice s1)))"

definition replaceTransaction :: "('w, 'r) eth_api \<Rightarrow> PendingTransaction \<Rightarrow> string \<Rightarrow> string \<Rightarrow> int \<Rightarrow> string
    \<Rightarrow> 'w nonce_manager \<Rightarrow> ((string + 'r \<times> string) \<times> 'w nonce_manager) option" where
  "replaceTransaction api existingTx data to chainID key s =
     (case getOptimalGasParams api RequestCtx s of
        (Inl e, s1) \<Rightarrow> Some (Inl (''failed to get gas price: '' @ e), s1)
      | (Inr gas, s1) \<Rightarrow>
          (let gasPrice = gas * 120 div 100
           in case SignTx api (NewTransaction (Nonce existingTx) to 0 600000 gasPrice data) chainID key of
                Inl e \<Rightarrow> Some (Inl (''failed to sign replacement transaction: '' @ e), s1)
              | Inr signedTx \<Rightarrow>
                  submitWithRetry api signedTx (Nonce existingTx) key
                    (updateTransactionStatus api (Nonce existingTx) (HashHex api signedTx) gasPrice s1)))"

definition waitForExistingTransaction :: "('w, 'r) eth_api \<Rightarrow> PendingTransaction
    \<Rightarrow> 'w nonce_manager \<Rightarrow> (string + 'r \<times> string) \<times> 'w nonce_manager" where
  "waitForExistingTransaction api existingTx s =
     (case on_client (WaitMined api None) s of
        (Inl e, s1) \<Rightarrow> (Inl (''failed to wait for existing transaction: '' @ e), s1)
      | (Inr receipt, s1) \<Rightarrow>
          (Inr (receipt, TxHash existingTx), markTransactionConfirmed (Nonce existingTx) (TxHash existingTx) s1))"

definition SubmitTransaction :: "('w, 'r) eth_api \<Rightarrow> 64 word \<Rightarrow> string \<Rightarrow> string \<Rightarrow> int \<Rightarrow> string
    \<Rightarrow> 'w nonce_manager \<Rightarrow> ((string + 'r \<times> string) \<times> 'w nonce_manager) option" where
  "SubmitTransaction api nonce to data chainID key s =
     (case pendingTxs s nonce of
        Some existingTx \<Rightarrow>
          if Status existingTx = ''pending'' then
            if 30 * second < Now api (world s) - CreatedAt existingTx
            then replaceTransaction api existingTx data to chainID key s
            else Some (waitForExistingTransaction api existingTx s)
          else submitNewTransaction api nonce to data chainID key s
      | None \<Rightarrow> submitNewTransaction api nonce to data chainID key s)"

section \<open>What a retried operation leaves alone\<close>

text \<open>Every operation of the manager that is retried meets the contract of \<open>retry_client\<close>.\<close>

definition rest :: "'w nonce_manager \<Rightarrow> 64 word \<times> int \<times> int \<times> (64 word \<rightharpoonup> PendingTransaction)" where
  "rest s = (currentNonce s, lastSyncTime s, syncInterval s, pendingTxs s)"

lemma rest_world [simp]: "rest (s\<lparr>world := w\<rparr>) = rest s"
  by (simp add: rest_def)

lemma on_client_rest: "on_client f s = (r, s') \<Longrightarrow> rest s' = rest s \<and> f (world s) = (r, world s')"
  by (auto simp: on_client_def split: prod.splits)

lemma nm_env_rest:
  "wait_timer (nm_env api k) d s = (r, s') \<Longrightarrow> rest s' = rest s"
  "rand_source (nm_env api k) s = (u, s') \<Longrightarrow> rest s' = rest s"
  by (auto simp: nm_env_def dest: on_client_rest)

interpretation client_call: retry_client "nm_env api k" "on_client f" "\<lambda>s. rest s = r0"
    "\<lambda>v s. \<exists>w. f w = (Inr v, world s)" for api k f r0
  by unfold_locales (use on_client_rest nm_env_rest in \<open>metis+\<close>)

lemma with_retry_cases:
  assumes "with_retry api k cfg operation s = (r, s')"
  obtains (err) e where "Retry (nm_env api k) operation (Some cfg) s = (Inl e, s')" and "r = Inl (retry_msg e)"
    | (ok) v where "Retry (nm_env api k) operation (Some cfg) s = (Inr v, s')" and "r = Inr v"
  using assms by (auto simp: with_retry_def split: prod.splits sum.splits)

lemma with_retry_call:
  assumes "with_retry api k cfg (on_client f) s = (r, s')"
  shows "rest s' = rest s \<and> (\<forall>v. r = Inr v \<longrightarrow> (\<exists>w. f w = (Inr v, world s')))"
  using assms
proof (cases rule: with_retry_cases)
  case (err e)
  then show ?thesis using client_call.Retry_inv [OF refl] by blast
next
  case (ok v)
  then show ?thesis using client_call.Retry_inv [OF refl] by blast
qed

lemma sync_cases:
  assumes "syncWithBlockchain api s = (r, s')"
  obtains (err) e where "r = Inl e" and "rest s' = rest s"
    | (ok) n w where "r = Inr ()" and "PendingNonceAt api w = (Inr n, world s')"
        and "currentNonce s' = max (currentNonce s) n" and "lastSyncTime s' = Now api (world s')"
        and "pendingTxs s' = pendingTxs s" and "syncInterval s' = syncInterval s"
proof -
  obtain x s1 where x: "with_retry api RequestCtx rpcRetryConfig (on_client (PendingNonceAt api)) s = (x, s1)" by force
  note c = with_retry_call [OF x]
  show ?thesis
  proof (cases x)
    case (Inl e)
    then show ?thesis using err [of "''failed to get pending nonce after retries: '' @ e"] c x assms
      by (simp add: syncWithBlockchain_def)
  next
    case (Inr n)
    then obtain w where "PendingNonceAt api w = (Inr n, world s1)" using c by blast
    moreover have "r = Inr ()" "world s' = world s1" "currentNonce s' = max (currentNonce s) n"
      "lastSyncTime s' = Now api (world s1)" "pendingTxs s' = pendingTxs s" "syncInterval s' = syncInterval s"
      using Inr c x assms
      by (auto simp: syncWithBlockchain_def Let_def rest_def max_def less_imp_le split: if_splits)
    ultimately show ?thesis using ok by metis
  qed
qed

text \<open>The pending nonce of an account is far from the end of 64 bits.\<close>

definition sane_chain :: "('w, 'r) eth_api \<Rightarrow> bool" where
  "sane_chain api \<longleftrightarrow> (\<forall>w n w'. PendingNonceAt api w = (Inr n, w') \<longrightarrow> unat n \<le> 2 ^ 63)"

definition climbs :: "('w, 'r) eth_api \<Rightarrow> 64 word \<Rightarrow> 64 word \<Rightarrow> bool" where
  "climbs api n n' \<longleftrightarrow> n \<le> n' \<and> (sane_chain api \<longrightarrow> unat n' \<le> max (unat n) (2 ^ 63))"

lemma climbs_refl [simp]: "climbs api n n"
  by (simp add: climbs_def)

lemma climbs_trans: "climbs api a b \<Longrightarrow> climbs api b c \<Longrightarrow> climbs api a c"
  by (fastforce simp: climbs_def)

lemma climbs_max: "PendingNonceAt api w = (Inr m, w') \<Longrightarrow> climbs api n (max n m)"
  by (fastforce simp: climbs_def sane_chain_def max_def)

text \<open>Submission may raise the current nonce, and only the tracking functions touch the transactions.\<close>

definition grows :: "('w, 'r) eth_api \<Rightarrow> 64 word \<Rightarrow> (64 word \<rightharpoonup> PendingTransaction) \<Rightarrow> 'w nonce_manager \<Rightarrow> bool" where
  "grows api n p s \<longleftrightarrow> climbs api n (currentNonce s) \<and> pendingTxs s = p"

lemma grows_rest: "grows api n p s \<Longrightarrow> rest s' = rest s \<Longrightarrow> grows api n p s'"
  by (simp add: grows_def rest_def)

lemma sync_climbs:
  "syncWithBlockchain api s = (r, s') \<Longrightarrow> climbs api (currentNonce s) (currentNonce s') \<and> pendingTxs s' = pendingTxs s"
  by (erule sync_cases) (auto simp: rest_def climbs_max)

lemma sync_grows: "grows api n p s \<Longrightarrow> syncWithBlockchain api s = (r, s') \<Longrightarrow> grows api n p s'"
  by (auto simp: grows_def dest!: sync_climbs intro: climbs_trans)

lemma submitOperation_grows: "grows api n p s \<Longrightarrow> submitOperation api tx s = (r, s') \<Longrightarrow> grows api n p s'"
  by (auto simp: submitOperation_def split: prod.splits sum.splits if_splits
      dest!: on_client_rest dest: grows_rest sync_grows)

lemma submitOperation_hash: "submitOperation api tx s = (Inr h, s') \<Longrightarrow> h = HashHex api tx"
  by (auto simp: submitOperation_def split: prod.splits sum.splits if_splits)

interpretation submit_call: retry_client "nm_env api k" "submitOperation api tx" "grows api n p"
    "\<lambda>h s. h = HashHex api tx" for api k tx n p
  by unfold_locales (blast intro: submitOperation_grows submitOperation_hash grows_rest nm_env_rest)+

lemma confirmOperation_rest:
  "confirmOperation api tx s = (r, s') \<Longrightarrow>
     rest s' = rest s \<and> (\<forall>v. r = Inr v \<longrightarrow> WaitMined10 api tx (world s) = (Inr v, world s'))"
  by (auto simp: confirmOperation_def split: prod.splits sum.splits dest: on_client_rest)

interpretation confirm_call: retry_client "nm_env api k" "confirmOperation api tx" "\<lambda>s. rest s = r0"
    "\<lambda>r s. \<exists>w. WaitMined10 api tx w = (Inr r, world s)" for api k tx r0
  by unfold_locales (use confirmOperation_rest nm_env_rest in \<open>metis+\<close>)

lemma submit_retry:
  assumes "with_retry api k cfg (submitOperation api tx) s = (r, s')"
  shows "climbs api (currentNonce s) (currentNonce s') \<and> pendingTxs s' = pendingTxs s \<and> (\<forall>h. r = Inr h \<longrightarrow> h = HashHex api tx)"
proof -
  have g: "grows api (currentNonce s) (pendingTxs s) s" by (simp add: grows_def)
  from assms show ?thesis
    by (cases rule: with_retry_cases) (use submit_call.Retry_inv [OF g, unfolded grows_def] in blast)+
qed

lemma confirm_retry:
  assumes "with_retry api k cfg (confirmOperation api tx) s = (r, s')"
  shows "rest s' = rest s \<and> (\<forall>v. r = Inr v \<longrightarrow> (\<exists>w. WaitMined10 api tx w = (Inr v, world s')))"
  using assms
  by (cases rule: with_retry_cases) (use confirm_call.Retry_inv [OF refl] in blast)+

lemma optimal_gas:
  assumes "getOptimalGasParams api k s = (r, s')"
  shows "rest s' = rest s \<and>
    (\<forall>p. r = Inr p \<longrightarrow> (\<exists>g w. SuggestGasPrice api k w = (Inr g, world s') \<and> p = g * 120 div 100))"
  using assms
  by (auto simp: getOptimalGasParams_def split: prod.splits sum.splits dest!: with_retry_call)

lemma replacement:
  assumes "createReplacementTransaction api tx a key s = (r, s')"
  shows "rest s' = rest s \<and> (\<forall>tx'. r = Inr tx' \<longrightarrow>
    (\<exists>g w. SuggestGasPrice api GasCtx w = (Inr g, world s') \<and>
      SignTx api (NewTransaction (tx_nonce tx) (tx_to tx) 0 600000 (g * 120 div 100 * i64 (120 + a * 20) div 100)
        (tx_data tx)) (tx_chain tx) key = Inr tx'))"
  using assms
  by (auto simp: createReplacementTransaction_def Let_def split: prod.splits sum.splits if_splits
      dest!: optimal_gas) blast+

lemma tracking_parts [simp]:
  "currentNonce (markTransactionConfirmed n h s) = currentNonce s"
  "currentNonce (updateTransactionStatus api n h g s) = currentNonce s"
  "currentNonce (trackTransaction api n h d t c key g s) = currentNonce s"
  "dom (pendingTxs (markTransactionConfirmed n h s)) = dom (pendingTxs s)"
  "dom (pendingTxs (updateTransactionStatus api n h g s)) = dom (pendingTxs s)"
  by (auto simp: markTransactionConfirmed_def updateTransactionStatus_def trackTransaction_def split: option.splits)

text \<open>What \<open>submitWithRetry\<close> does when it returns.\<close>

definition submitted :: "('w, 'r) eth_api \<Rightarrow> 64 word \<Rightarrow> 'w nonce_manager \<Rightarrow> (string + 'r \<times> string) \<times> 'w nonce_manager \<Rightarrow> bool" where
  "submitted api nonce s res \<longleftrightarrow>
     climbs api (currentNonce s) (currentNonce (snd res)) \<and> dom (pendingTxs (snd res)) = dom (pendingTxs s) \<and>
     (\<forall>receipt h. fst res = Inr (receipt, h) \<longrightarrow> nonce \<in> dom (pendingTxs s) \<longrightarrow>
        (\<exists>t. pendingTxs (snd res) nonce = Some t \<and> Status t = ''confirmed'' \<and> TxHash t = h))"

lemma submitWithRetry_submitted: "submitWithRetry api tx nonce key s = Some res \<Longrightarrow> submitted api nonce s res"
proof (rule submitWithRetry.raw_induct [where P = "\<lambda>api tx nonce key s res. submitted api nonce s res"], goal_cases)
  case (1 f api tx nonce key s res)
  obtain x s1 where x: "with_retry api RequestCtx submitRetryConfig (submitOperation api tx) s = (x, s1)" by force
  note sx = submit_retry [OF x]
  show ?case
  proof (cases x)
    case (Inl e)
    with 1(3) x sx show ?thesis by (auto simp: submitted_def)
  next
    case (Inr h)
    obtain y s2 where y: "with_retry api RequestCtx confirmRetryConfig (confirmOperation api tx) s1 = (y, s2)" by force
    have s2: "currentNonce s2 = currentNonce s1" "pendingTxs s2 = pendingTxs s1"
      using confirm_retry [OF y] by (auto simp: rest_def)
    show ?thesis
    proof (cases y)
      case (Inr receipt)
      with \<open>x = Inr h\<close> 1(3) x y have "res = (Inr (receipt, h), markTransactionConfirmed nonce h s2)" by simp
      then show ?thesis using sx s2
        by (auto simp: submitted_def markTransactionConfirmed_def split: option.splits)
    next
      case (Inl e)
      obtain z s3 where z: "createReplacementTransaction api tx 1 key s2 = (z, s3)" by force
      have s3: "currentNonce s3 = currentNonce s2" "pendingTxs s3 = pendingTxs s2"
        using replacement [OF z] by (auto simp: rest_def)
      show ?thesis
      proof (cases z)
        case (Inl e')
        with \<open>x = Inr h\<close> \<open>y = Inl e\<close> 1(3) x y z sx s2 s3 show ?thesis by (auto simp: submitted_def)
      next
        case (Inr tx')
        let ?s = "updateTransactionStatus api nonce (HashHex api tx') (tx_gasPrice tx') s3"
        have "f api tx' nonce key ?s = Some res" using Inr \<open>x = Inr h\<close> \<open>y = Inl e\<close> 1(3) x y z by simp
        from 1(2) [OF this] show ?thesis using sx s2 s3 by (auto simp: submitted_def intro: climbs_trans)
      qed
    qed
  qed
qed

lemma submit_mono:
  "SubmitTransaction api nonce to data ch key s = Some (r, s') \<Longrightarrow> climbs api (currentNonce s) (currentNonce s')"
proof -
  assume a: "SubmitTransaction api nonce to data ch key s = Some (r, s')"
  have new: "climbs api (currentNonce s) (currentNonce s')" if "submitNewTransaction api nonce to data ch key s = Some (r, s')"
    using that
    by (auto simp: submitNewTransaction_def submitted_def rest_def split: prod.splits sum.splits
        dest!: optimal_gas submitWithRetry_submitted)
  have repl: "climbs api (currentNonce s) (currentNonce s')" if "replaceTransaction api t data to ch key s = Some (r, s')" for t
    using that
    by (auto simp: replaceTransaction_def submitted_def rest_def Let_def split: prod.splits sum.splits
        dest!: optimal_gas submitWithRetry_submitted)
  have wait: "climbs api (currentNonce s) (currentNonce s')" if "waitForExistingTransaction api t s = (r, s')" for t
    using that
    by (auto simp: waitForExistingTransaction_def rest_def split: prod.splits sum.splits dest!: on_client_rest)
  from a show ?thesis
    by (auto simp: SubmitTransaction_def split: option.splits if_splits intro: new repl wait)
qed

section \<open>The allocation of nonces as a system\<close>

text \<open>The calls of the keeper; the log is the nonces that were handed out.\<close>

datatype nonce_event = NInit | NGet | NSubmit "64 word" string string int string

definition nonce_step :: "('w, 'r) eth_api \<Rightarrow> 'w nonce_manager option \<times> 64 word list \<Rightarrow> nonce_event
    \<Rightarrow> 'w nonce_manager option \<times> 64 word list" where
  "nonce_step api st ev =
     (case st of
        (None, issued) \<Rightarrow> (None, issued)
      | (Some s, issued) \<Rightarrow>
          (case ev of
             NInit \<Rightarrow> (Some (snd (Initialize api s)), issued)
           | NGet \<Rightarrow>
               (case GetNextNonce api s of
                  (Inl e, s') \<Rightarrow> (Some s', issued)
                | (Inr n, s') \<Rightarrow> (Some s', issued @ [n]))
           | NSubmit nonce to data ch key \<Rightarrow>
               (map_option snd (SubmitTransaction api nonce to data ch key s), issued)))"

definition nonce_inv :: "'w nonce_manager option \<times> 64 word list \<Rightarrow> bool" where
  "nonce_inv st \<longleftrightarrow> (case st of (so, issued) \<Rightarrow>
     (\<forall>s. so = Some s \<longrightarrow> unat (currentNonce s) \<le> 2 ^ 63 + length issued) \<and>
     (length issued < 2 ^ 63 \<longrightarrow> sorted_wrt (<) issued \<and>
        (\<forall>s. so = Some s \<longrightarrow> (\<forall>n \<in> set issued. n < currentNonce s))))"

lemma get_next:
  assumes "GetNextNonce api s = (r, s')"
  obtains s1 e where "r = Inl e" and "s' = s1" and "s1 = s \<or> (\<exists>x. syncWithBlockchain api s = (x, s1))"
    | s1 where "r = Inr (currentNonce s1)" and "s' = s1\<lparr>currentNonce := currentNonce s1 + 1\<rparr>"
      and "s1 = s \<or> (\<exists>x. syncWithBlockchain api s = (x, s1))"
  using assms by (auto simp: GetNextNonce_def split: if_splits prod.splits sum.splits)

lemma nonce_climb_inv:
  assumes "nonce_inv (Some s, issued)" and "climbs api (currentNonce s) (currentNonce s')" and "sane_chain api"
  shows "nonce_inv (Some s', issued)"
proof -
  have "unat (currentNonce s') \<le> 2 ^ 63 + length issued"
    using assms by (auto simp: nonce_inv_def climbs_def)
  then show ?thesis using assms(1,2) by (fastforce simp: nonce_inv_def climbs_def)
qed

lemma nonce_get_inv:
  assumes "nonce_inv (Some s, issued)"
  shows "nonce_inv (Some (s\<lparr>currentNonce := currentNonce s + 1\<rparr>), issued @ [currentNonce s])"
proof -
  let ?n = "currentNonce s"
  have b: "unat ?n \<le> 2 ^ 63 + length issued" using assms by (simp add: nonce_inv_def)
  have "unat (?n + 1) \<le> Suc (unat ?n)" by (simp add: unat_word_ariths)
  moreover have "?n < ?n + 1" if "length issued + 1 < 2 ^ 63"
  proof -
    have "unat ?n + 1 < 2 ^ 64" using b that by simp
    then show ?thesis by (simp add: word_less_nat_alt unat_word_ariths)
  qed
  ultimately show ?thesis
    using assms b by (fastforce simp: nonce_inv_def sorted_wrt_append)
qed

lemma nonce_step_inv:
  "sane_chain api \<longrightarrow> nonce_inv st \<Longrightarrow> sane_chain api \<longrightarrow> nonce_inv (nonce_step api st ev)"
proof (intro impI)
  assume "sane_chain api \<longrightarrow> nonce_inv st" and chain: "sane_chain api"
  then have inv: "nonce_inv st" by simp
  obtain so issued where st: "st = (so, issued)" by force
  have climb: "nonce_inv (Some s', issued)" if "so = Some s" "climbs api (currentNonce s) (currentNonce s')" for s s'
    using nonce_climb_inv [OF _ that(2) chain] inv that(1) st by simp
  show "nonce_inv (nonce_step api st ev)"
  proof (cases so)
    case None
    then show ?thesis using inv st by (simp add: nonce_step_def)
  next
    case so: (Some s)
    have reached: "nonce_inv (Some s1, issued)" if "s1 = s \<or> (\<exists>x. syncWithBlockchain api s = (x, s1))" for s1
      using that climb [OF so] inv st so by (auto dest!: sync_climbs)
    show ?thesis
    proof (cases ev)
      case NInit
      obtain x s1 where x: "syncWithBlockchain api s = (x, s1)" by force
      with NInit reached [of s1] st so show ?thesis by (simp add: nonce_step_def Initialize_def)
    next
      case NGet
      obtain r s' where g: "GetNextNonce api s = (r, s')" by force
      from g show ?thesis
      proof (cases rule: get_next)
        case (1 s1 e)
        then show ?thesis using reached NGet g st so by (simp add: nonce_step_def)
      next
        case (2 s1)
        then show ?thesis using nonce_get_inv [OF reached] NGet g st so by (simp add: nonce_step_def)
      qed
    next
      case (NSubmit nonce to data ch key)
      show ?thesis
      proof (cases "SubmitTransaction api nonce to data ch key s")
        case None
        then show ?thesis using NSubmit inv st so by (auto simp: nonce_step_def nonce_inv_def)
      next
        case (Some res)
        then have "climbs api (currentNonce s) (currentNonce (snd res))"
          using submit_mono [of api nonce to data ch key s "fst res" "snd res"] by simp
        from climb [OF so this] show ?thesis using NSubmit Some st so by (simp add: nonce_step_def)
      qed
    qed
  qed
qed

interpretation nonce_sys: step_system "nonce_step api" "\<lambda>st. sane_chain api \<longrightarrow> nonce_inv st" for api
  by unfold_locales (rule nonce_step_inv)

section \<open>A client for the witnesses\<close>

text \<open>The world counts the transactions that were sent.\<close>

definition test_api :: "(nat, string) eth_api" where
  "test_api =
     \<lparr>PendingNonceAt = \<lambda>w. (Inr 7, w), SuggestGasPrice = \<lambda>_ w. (Inr 1000, w),
      SendTransaction = \<lambda>_ w. (Inr (), Suc w), WaitMined = \<lambda>_ w. (Inr ''receipt'', w),
      WaitMined10 = \<lambda>_ w. (Inr ''receipt'', w), SignTx = \<lambda>tx c _. Inr (tx\<lparr>tx_chain := c\<rparr>),
      HashHex = \<lambda>tx. ''0x'' @ show_nat (unat (tx_nonce tx)), Now = \<lambda>w. 10 ^ 18, CtxErr = \<lambda>_ _. None,
      WaitTimer = \<lambda>_ _ w. (None, w), RandSource = \<lambda>w. ((Some 0, 0), w)\<rparr>"

definition stuck_api :: "(nat, string) eth_api" where
  "stuck_api = test_api\<lparr>WaitMined10 := \<lambda>_ w. (Inl (''context deadline exceeded'', True), w)\<rparr>"

definition stale_api :: "(nat, string) eth_api" where
  "stale_api = test_api\<lparr>SendTransaction := \<lambda>_ w. (Inl ''nonce too low'', Suc w)\<rparr>"

lemma configs_valid [simp]:
  "Validate rpcRetryConfig = None" "Validate submitRetryConfig = None" "Validate confirmRetryConfig = None"
  by (simp_all add: Validate_def rpcRetryConfig_def submitRetryConfig_def confirmRetryConfig_def
      millisecond_def second_def)

lemma configs_retry [simp]:
  "0 < MaxRetries rpcRetryConfig" "0 < MaxRetries submitRetryConfig" "0 < MaxRetries confirmRetryConfig"
  by (simp_all add: rpcRetryConfig_def submitRetryConfig_def confirmRetryConfig_def)

lemma test_fields [simp]:
  "PendingNonceAt test_api w = (Inr 7, w)" "SignTx test_api tx c key = Inr (tx\<lparr>tx_chain := c\<rparr>)"
  "HashHex test_api tx = ''0x'' @ show_nat (unat (tx_nonce tx))" "Now test_api w = 10 ^ 18"
  by (simp_all add: test_api_def)

section \<open>Properties\<close>


lemma test_sync:
  "syncWithBlockchain test_api s =
     (Inr (), s\<lparr>currentNonce := max (currentNonce s) 7, lastSyncTime := 10 ^ 18\<rparr>)"
proof -
  have "Retry (nm_env test_api RequestCtx) (on_client (PendingNonceAt test_api)) (Some rpcRetryConfig) s = (Inr 7, s)"
    by (rule Retry_at_once) (simp_all add: rpcRetryConfig_def nm_env_def on_client_def test_api_def Validate_def
      millisecond_def second_def)
  then show ?thesis
    by (auto simp: syncWithBlockchain_def with_retry_def Let_def max_def test_api_def less_imp_le)
qed


text \<open>
  A synchronisation never lowers the nonce: it either fails and changes nothing but the world, or
  leaves the higher of the manager's own nonce and the pending nonce the client reported, and
  the time of the synchronisation.
\<close>

theorem sync_takes_maximum:
  assumes "syncWithBlockchain api s = (r, s')"
  shows "pendingTxs s' = pendingTxs s \<and>
    (r = Inr () \<and> lastSyncTime s' = Now api (world s') \<and>
       (\<exists>n w. PendingNonceAt api w = (Inr n, world s') \<and> currentNonce s' = max (currentNonce s) n)
     \<or> (\<exists>e. r = Inl e) \<and> currentNonce s' = currentNonce s \<and> lastSyncTime s' = lastSyncTime s)"
  using assms by (cases rule: sync_cases) (auto simp: rest_def)

theorem sync_takes_maximum_witness:
  "\<exists>s'. syncWithBlockchain test_api (NewNonceManager 0) = (Inr (), s') \<and> currentNonce s' = 7"
proof -
  obtain s' where s: "syncWithBlockchain test_api (NewNonceManager 0) = (Inr (), s')" by (simp add: test_sync)
  with sync_takes_maximum [OF s] show ?thesis by (auto simp: NewNonceManager_def)
qed

text \<open>
  A submission that returns a receipt has its nonce tracked as confirmed, under the hash it
  returns, whether the transaction was new, replaced a stuck one or was waited for.
\<close>

theorem submitted_is_confirmed:
  assumes "SubmitTransaction api nonce to data ch key s = Some (Inr (receipt, h), s')"
    and "\<forall>n t. pendingTxs s n = Some t \<longrightarrow> Nonce t = n"
  shows "\<exists>t. pendingTxs s' nonce = Some t \<and> Status t = ''confirmed'' \<and> TxHash t = h"
proof -
  let ?goal = "\<exists>t. pendingTxs s' nonce = Some t \<and> Status t = ''confirmed'' \<and> TxHash t = h"
  have new: ?goal if "submitNewTransaction api nonce to data ch key s = Some (Inr (receipt, h), s')"
    using that
    by (auto simp: submitNewTransaction_def submitted_def trackTransaction_def split: prod.splits sum.splits
        dest!: submitWithRetry_submitted)
  have repl: ?goal if p: "pendingTxs s nonce = Some t" "replaceTransaction api t data to ch key s = Some (Inr (receipt, h), s')" for t
    using p assms(2)
    by (auto simp: replaceTransaction_def submitted_def Let_def rest_def split: prod.splits sum.splits
        dest!: submitWithRetry_submitted optimal_gas)
  have wait: ?goal if p: "pendingTxs s nonce = Some t" "waitForExistingTransaction api t s = (Inr (receipt, h), s')" for t
    using p assms(2)
    by (auto simp: waitForExistingTransaction_def markTransactionConfirmed_def rest_def split: prod.splits sum.splits
        dest!: on_client_rest)
  from assms(1) show ?thesis
    by (auto simp: SubmitTransaction_def split: option.splits if_splits intro: new repl wait)
qed

lemma test_retry:
  "with_retry test_api k rpcRetryConfig (on_client (SuggestGasPrice test_api k')) s = (Inr 1000, s)"
  "with_retry test_api k submitRetryConfig (submitOperation test_api tx) s =
     (Inr (HashHex test_api tx), s\<lparr>world := Suc (world s)\<rparr>)"
  "with_retry test_api k confirmRetryConfig (confirmOperation test_api tx) s = (Inr ''receipt'', s)"
  unfolding with_retry_def
  by (subst Retry_at_once; simp add: submitOperation_def confirmOperation_def nm_env_def on_client_def
    rpcRetryConfig_def submitRetryConfig_def confirmRetryConfig_def test_api_def Validate_def
    millisecond_def second_def)+

theorem submitted_is_confirmed_witness:
  "\<exists>s' t h. SubmitTransaction test_api 7 ''0xa'' [] 1 ''key'' (NewNonceManager 0) = Some (Inr (''receipt'', h), s') \<and>
     pendingTxs s' 7 = Some t \<and> Status t = ''confirmed''"
proof -
  obtain s' h where s: "SubmitTransaction test_api 7 ''0xa'' [] 1 ''key'' (NewNonceManager 0) = Some (Inr (''receipt'', h), s')"
    by (simp add: SubmitTransaction_def submitNewTransaction_def getOptimalGasParams_def NewNonceManager_def
        test_retry submitWithRetry.simps NewTransaction_def)
  have "\<forall>n t. pendingTxs (NewNonceManager (0 :: nat)) n = Some t \<longrightarrow> Nonce t = n" by (simp add: NewNonceManager_def)
  from submitted_is_confirmed [OF s this] s show ?thesis by blast
qed

lemma with_retry_at_once:
  assumes "operation s = (Inr v, s')" and "CtxErr api k (world s) = None" and "Validate cfg = None" and "0 < MaxRetries cfg"
  shows "with_retry api k cfg operation s = (Inr v, s')"
  using assms by (simp add: with_retry_def Retry_at_once nm_env_def)

text \<open>
  C40: When the network accepts transactions but never confirms one, and the gas price and the
  signature are available, \<open>submitWithRetry\<close> does not return: it replaces the transaction for ever. The
  comment on the recursive call says that its depth is limited; nothing limits it.
\<close>

theorem unconfirmed_never_returns:
  assumes ctx: "\<forall>k w. CtxErr api k w = None" and send: "\<forall>t w. \<exists>w'. SendTransaction api t w = (Inr (), w')"
    and unmined: "\<forall>t w r w'. WaitMined10 api t w \<noteq> (Inr r, w')"
    and gas: "\<forall>k w. \<exists>g w'. SuggestGasPrice api k w = (Inr g, w')"
    and sign: "\<forall>t c key. tx_type t = 0 \<longrightarrow> (\<exists>t'. SignTx api t c key = Inr t' \<and> tx_type t' = 0)" and legacy: "tx_type tx = 0"
  shows "submitWithRetry api tx nonce key s = None"
proof -
  have submit: "\<exists>h s1. with_retry api k submitRetryConfig (submitOperation api t) s = (Inr h, s1)" for k t s
  proof -
    obtain w' where "SendTransaction api t (world s) = (Inr (), w')" using send by blast
    then have "submitOperation api t s = (Inr (HashHex api t), s\<lparr>world := w'\<rparr>)"
      by (simp add: submitOperation_def on_client_def)
    then have "with_retry api k submitRetryConfig (submitOperation api t) s = (Inr (HashHex api t), s\<lparr>world := w'\<rparr>)"
      by (rule with_retry_at_once) (simp_all add: ctx)
    then show ?thesis by blast
  qed
  have confirm: "\<exists>e s1. with_retry api k confirmRetryConfig (confirmOperation api t) s = (Inl e, s1)" for k t s
  proof -
    obtain r s1 where r: "with_retry api k confirmRetryConfig (confirmOperation api t) s = (r, s1)" by force
    with confirm_retry [OF r] unmined show ?thesis by (cases r) auto
  qed
  have replace: "\<exists>t' s1. createReplacementTransaction api t 1 key s = (Inr t', s1) \<and> tx_type t' = 0" if "tx_type t = 0" for t key s
  proof -
    obtain g w' where "SuggestGasPrice api GasCtx (world s) = (Inr g, w')" using gas by blast
    then have "on_client (SuggestGasPrice api GasCtx) s = (Inr g, s\<lparr>world := w'\<rparr>)" by (simp add: on_client_def)
    then have "with_retry api GasCtx rpcRetryConfig (on_client (SuggestGasPrice api GasCtx)) s = (Inr g, s\<lparr>world := w'\<rparr>)"
      by (rule with_retry_at_once) (simp_all add: ctx)
    then have g: "getOptimalGasParams api GasCtx s = (Inr (g * 120 div 100), s\<lparr>world := w'\<rparr>)"
      by (simp add: getOptimalGasParams_def)
    let ?t = "NewTransaction (tx_nonce t) (tx_to t) 0 600000 (g * 120 div 100 * i64 (120 + 1 * 20) div 100) (tx_data t)"
    have "tx_type ?t = 0" by (simp add: NewTransaction_def)
    then obtain t' where "SignTx api ?t (tx_chain t) key = Inr t'" "tx_type t' = 0" using sign by blast
    then show ?thesis using that g by (simp add: createReplacementTransaction_def Let_def)
  qed
  have "api = api \<longrightarrow> tx_type tx = 0 \<longrightarrow> False" if "submitWithRetry api tx nonce key s = Some res" for res
    using that
  proof (rule submitWithRetry.raw_induct
      [where P = "\<lambda>a tx nonce key s res. a = api \<longrightarrow> tx_type tx = 0 \<longrightarrow> False", rotated], goal_cases)
    case (1 f a tx nonce key s res)
    show ?case
    proof (intro impI)
      assume a: "a = api" and legacy: "tx_type tx = 0"
      obtain h s1 where x: "with_retry api RequestCtx submitRetryConfig (submitOperation api tx) s = (Inr h, s1)"
        using submit by blast
      obtain e s2 where y: "with_retry api RequestCtx confirmRetryConfig (confirmOperation api tx) s1 = (Inl e, s2)"
        using confirm by blast
      obtain tx' s3 where z: "createReplacementTransaction api tx 1 key s2 = (Inr tx', s3)" "tx_type tx' = 0"
        using replace [OF legacy] by blast
      let ?s = "updateTransactionStatus api nonce (HashHex api tx') (tx_gasPrice tx') s3"
      have "f api tx' nonce key ?s = Some res" using 1(2) a x y z(1) by simp
      from 1(1) [OF this] z(2) show False by simp
    qed
  qed
  with legacy show ?thesis by (cases "submitWithRetry api tx nonce key s") auto
qed

lemma stuck_fields [simp]:
  "CtxErr stuck_api k w = None" "SendTransaction stuck_api t w = (Inr (), Suc w)"
  "WaitMined10 stuck_api t w = (Inl (''context deadline exceeded'', True), w)"
  "SuggestGasPrice stuck_api k w = (Inr 1000, w)" "SignTx stuck_api t c key = Inr (t\<lparr>tx_chain := c\<rparr>)"
  by (simp_all add: stuck_api_def test_api_def)

theorem unconfirmed_never_returns_witness:
  "submitWithRetry stuck_api (NewTransaction 7 ''0xa'' 0 600000 1200 []) 7 ''key'' (NewNonceManager 0) = None"
  by (rule unconfirmed_never_returns) (simp_all add: NewTransaction_def)

lemma nonce_too_low_retry:
  "may_retry submitRetryConfig ''nonce too low'' a \<longleftrightarrow> a < 3" "isNonceTooLowError ''nonce too low''"
  by (simp_all add: may_retry_def submitRetryConfig_def shouldRetrySubmissionError_def shouldRetryRPCError_def
      isNonceTooLowError_def lower_def)

text \<open>
  A transaction that the node rejects with "nonce too low" is sent three times at most, although ten
  attempts are configured, and the submission fails. It is the same signed transaction each
  time: the synchronisation after the error raises the manager's nonce and not the transaction's.
\<close>

theorem nonce_too_low_sent_three_times:
  fixes sends :: "'w \<Rightarrow> nat"
  assumes send: "\<forall>w. \<exists>w'. SendTransaction api tx w = (Inl ''nonce too low'', w') \<and> sends w' = Suc (sends w)"
    and sync: "\<forall>w. \<exists>n w'. PendingNonceAt api w = (Inr n, w') \<and> sends w' = sends w" and ctx: "\<forall>k w. CtxErr api k w = None"
    and timer: "\<forall>k d w. sends (snd (WaitTimer api k d w)) = sends w" "\<forall>w. sends (snd (RandSource api w)) = sends w"
    and r: "with_retry api RequestCtx submitRetryConfig (submitOperation api tx) s = (r, s')"
  shows "sends (world s') \<le> sends (world s) + 3 \<and> (\<exists>e. r = Inl e)"
proof -
  have op: "\<exists>s'. submitOperation api tx s = (Inl ''nonce too low'', s') \<and> sends (world s') = Suc (sends (world s))" for s
  proof -
    obtain w1 where w1: "SendTransaction api tx (world s) = (Inl ''nonce too low'', w1)" "sends w1 = Suc (sends (world s))"
      using send by blast
    obtain n w2 where w2: "PendingNonceAt api w1 = (Inr n, w2)" "sends w2 = sends w1" using sync by blast
    have "with_retry api RequestCtx rpcRetryConfig (on_client (PendingNonceAt api)) (s\<lparr>world := w1\<rparr>) = (Inr n, s\<lparr>world := w2\<rparr>)"
      by (rule with_retry_at_once) (simp_all add: ctx on_client_def w2)
    then show ?thesis using w1 w2
      by (simp add: submitOperation_def on_client_def nonce_too_low_retry syncWithBlockchain_def Let_def)
  qed
  let ?c = "submitRetryConfig"
  let ?env = "nm_env api RequestCtx"
  obtain x where x: "Retry_loop ?env (submitOperation api tx) ?c 0 (InitialDelay ?c) None s = (x, s')"
    "\<forall>v. r = Inr v \<longrightarrow> x = Inr v"
    using r by (auto simp: with_retry_def Retry_def split: prod.splits sum.splits)
  have "sends (world s') \<le> sends (world s) + nat (3 - 0) \<and> (\<exists>e. x = Inl e)"
  proof (rule loop_calls_until [where calls = "\<lambda>s. sends (world s)" and ok = "\<lambda>_. True", OF _ _ _ TrueI _ x(1)])
    fix s1 r1 s2
    assume "submitOperation api tx s1 = (r1, s2)"
    with op [of s1] show "True \<and> sends (world s2) = Suc (sends (world s1)) \<and>
        (\<exists>e. r1 = Inl e \<and> (\<forall>a. may_retry ?c e a \<longrightarrow> a < 3))"
      by (auto simp: nonce_too_low_retry)
  next
    fix d s1 r1 s2
    assume "wait_timer ?env d s1 = (r1, s2)"
    then show "True \<and> sends (world s2) = sends (world s1)"
      using timer(1) by (auto simp: nm_env_def on_client_def split: prod.splits) (metis snd_conv)
  next
    fix s1 r1 s2
    assume "rand_source ?env s1 = (r1, s2)"
    then show "True \<and> sends (world s2) = sends (world s1)"
      using timer(2) by (auto simp: nm_env_def on_client_def split: prod.splits) (metis snd_conv)
  qed simp
  then show ?thesis using x(2) by (cases r) auto
qed

theorem nonce_too_low_sent_three_times_witness:
  "\<exists>r s'. with_retry stale_api RequestCtx submitRetryConfig (submitOperation stale_api (NewTransaction 5 ''0xa'' 0 600000 1 []))
       (NewNonceManager 0) = (r, s') \<and> world s' \<le> 3 \<and> (\<exists>e. r = Inl e)"
proof -
  let ?tx = "NewTransaction 5 ''0xa'' 0 600000 1 []"
  obtain r s' where r: "with_retry stale_api RequestCtx submitRetryConfig (submitOperation stale_api ?tx) (NewNonceManager 0) = (r, s')"
    by force
  have "\<exists>w'. SendTransaction stale_api ?tx w = (Inl ''nonce too low'', w') \<and> id w' = Suc (id w)" for w
    by (simp add: stale_api_def)
  moreover have "\<exists>n w'. PendingNonceAt stale_api w = (Inr n, w') \<and> id w' = id w" for w
    by (simp add: stale_api_def test_api_def)
  ultimately have "id (world s') \<le> id (world (NewNonceManager 0)) + 3 \<and> (\<exists>e. r = Inl e)"
    by (intro nonce_too_low_sent_three_times [OF _ _ _ _ _ r]) (simp_all add: stale_api_def test_api_def)
  with r show ?thesis by (simp add: NewNonceManager_def)
qed

text \<open>
  While the suggested gas price stays the same, replacing a replacement yields the very same
  transaction: the new price is computed from the suggestion alone and the attempt is always one. The
  comments announce higher fees with each attempt.
\<close>

theorem replacement_repeats:
  assumes signer: "\<forall>t c k t'. SignTx api t c k = Inr t' \<longrightarrow>
      tx_nonce t' = tx_nonce t \<and> tx_to t' = tx_to t \<and> tx_data t' = tx_data t \<and> tx_chain t' = c"
    and gas: "\<forall>w g' w'. SuggestGasPrice api GasCtx w = (Inr g', w') \<longrightarrow> g' = g"
    and "createReplacementTransaction api tx 1 key s = (Inr t1, s1)"
    and "createReplacementTransaction api t1 1 key s2 = (Inr t2, s3)"
  shows "t2 = t1"
proof -
  let ?new = "\<lambda>t. NewTransaction (tx_nonce t) (tx_to t) 0 600000 (g * 120 div 100 * i64 (120 + 1 * 20) div 100) (tx_data t)"
  have t1: "SignTx api (?new tx) (tx_chain tx) key = Inr t1"
    using replacement [OF assms(3)] gas by blast
  have t2: "SignTx api (?new t1) (tx_chain t1) key = Inr t2"
    using replacement [OF assms(4)] gas by blast
  have "?new t1 = ?new tx" "tx_chain t1 = tx_chain tx"
    using signer t1 unfolding NewTransaction_def by force+
  with t1 t2 show ?thesis by simp
qed

theorem replacement_repeats_witness:
  "\<exists>t1 s1 s3. createReplacementTransaction stuck_api (NewTransaction 7 ''0xa'' 0 600000 1200 []) 1 ''key'' (NewNonceManager 0) = (Inr t1, s1) \<and>
     createReplacementTransaction stuck_api t1 1 ''key'' s1 = (Inr t1, s3)"
proof -
  have gas: "getOptimalGasParams stuck_api GasCtx s = (Inr 1200, s)" for s
  proof -
    have "with_retry stuck_api GasCtx rpcRetryConfig (on_client (SuggestGasPrice stuck_api GasCtx)) s = (Inr 1000, s)"
      by (rule with_retry_at_once) (simp_all add: on_client_def)
    then show ?thesis by (simp add: getOptimalGasParams_def)
  qed
  obtain t1 s1 where 1: "createReplacementTransaction stuck_api (NewTransaction 7 ''0xa'' 0 600000 1200 []) 1 ''key'' (NewNonceManager 0) = (Inr t1, s1)"
    and t1: "tx_type t1 = 0"
    by (simp add: createReplacementTransaction_def gas NewTransaction_def)
  obtain t2 s3 where 2: "createReplacementTransaction stuck_api t1 1 ''key'' s1 = (Inr t2, s3)"
    by (simp add: createReplacementTransaction_def gas t1)
  have "t2 = t1"
    by (rule replacement_repeats [OF _ _ 1 2]) (auto simp: stuck_api_def test_api_def)
  with 1 2 show ?thesis by blast
qed

end
