(* ===== verification/Redis_Store.thy ===== *)
theory Redis_Store
  imports Prelude
begin

text \<open>
  The services that the task streams talk to: Redis (streams, hashes, sorted sets; the wrapper
  \<open>pkg/client/redis\<close> is taken together with the server), the database and the aggregator. The
  servers are not in the repository, so a service is a function from the history
  of the calls made so far to the answer of the next call, \<open>services\<close>; a program threads that
  history. A property that holds for every \<open>services\<close> holds whatever Redis answers. \<open>None\<close> is a
  panic of the process. The lemmas are about histories: what a call appends, and how a property of the
  appended part is put together from the pieces of a program.
\<close>

section \<open>Calls\<close>

record message =
  ID :: string
  TaskField :: "string option"

record pending_entry =
  EntryID :: string
  Idle :: int

datatype call =
  CXAdd string string int "go_error + string"
| CXAck string string string "go_error + unit"
| CXDel string string "go_error + int"
| CXRange string string string "go_error + message list"
| CXReadGroup string string string int "go_error + message list"
| CXTrim string int "go_error + int"
| CXLen string "go_error + int"
| CXPendingExt string string int "go_error + pending_entry list"
| CCreateStream string int "go_error + unit"
| CCreateGroup string string "go_error + unit"
| CHSet string string string "go_error + unit"
| CHGet string string "go_error + string option"
| CHDel string string "go_error + int"
| CZAdd string int string "go_error + int"
| CZRange string int "go_error + string list"
| CZRem string string "go_error + int"
| CPipeZRem string "string list" "go_error + unit"
| CSetTTL string int "go_error + unit"
| CUpdateTaskFailed int "go_error + unit"
| CGetEmail int "go_error + string"
| CNotify string int "go_error + unit"
| CSend bool int int string string "go_error + bool"

type_synonym history = "call list"

record services =
  XAdd :: "history \<Rightarrow> string \<Rightarrow> string \<Rightarrow> int \<Rightarrow> go_error + string"
  XAck :: "history \<Rightarrow> string \<Rightarrow> string \<Rightarrow> string \<Rightarrow> go_error + unit"
  XDel :: "history \<Rightarrow> string \<Rightarrow> string \<Rightarrow> go_error + int"
  XRange :: "history \<Rightarrow> string \<Rightarrow> string \<Rightarrow> string \<Rightarrow> go_error + message list"
  XReadGroup :: "history \<Rightarrow> string \<Rightarrow> string \<Rightarrow> string \<Rightarrow> int \<Rightarrow> go_error + message list"
  XTrim :: "history \<Rightarrow> string \<Rightarrow> int \<Rightarrow> go_error + int"
  XLen :: "history \<Rightarrow> string \<Rightarrow> go_error + int"
  XPendingExt :: "history \<Rightarrow> string \<Rightarrow> string \<Rightarrow> int \<Rightarrow> go_error + pending_entry list"
  CreateStreamIfNotExists :: "history \<Rightarrow> string \<Rightarrow> int \<Rightarrow> go_error + unit"
  CreateConsumerGroup :: "history \<Rightarrow> string \<Rightarrow> string \<Rightarrow> go_error + unit"
  HSet :: "history \<Rightarrow> string \<Rightarrow> string \<Rightarrow> string \<Rightarrow> go_error + unit"
  HGetWithExists :: "history \<Rightarrow> string \<Rightarrow> string \<Rightarrow> go_error + string option"
  HDelWithCount :: "history \<Rightarrow> string \<Rightarrow> string \<Rightarrow> go_error + int"
  ZAdd :: "history \<Rightarrow> string \<Rightarrow> int \<Rightarrow> string \<Rightarrow> go_error + int"
  ZRangeByScore :: "history \<Rightarrow> string \<Rightarrow> int \<Rightarrow> go_error + string list"
  ZRem :: "history \<Rightarrow> string \<Rightarrow> string \<Rightarrow> go_error + int"
  PipeZRem :: "history \<Rightarrow> string \<Rightarrow> string list \<Rightarrow> go_error + unit"
  SetTTL :: "history \<Rightarrow> string \<Rightarrow> int \<Rightarrow> go_error + unit"
  UpdateTaskFailed :: "history \<Rightarrow> int \<Rightarrow> go_error + unit"
  GetUserEmailByTaskID :: "history \<Rightarrow> int \<Rightarrow> go_error + string"
  NotifyTaskStatus :: "history \<Rightarrow> string \<Rightarrow> int \<Rightarrow> go_error + unit"
  SendTaskToPerformer :: "history \<Rightarrow> bool \<Rightarrow> int \<Rightarrow> int \<Rightarrow> string \<Rightarrow> string \<Rightarrow> go_error + bool"
  Now :: "history \<Rightarrow> int"

text \<open>A manager of task streams: the consumer groups it has registered, and the history of its calls.\<close>

record stream_manager =
  consumerGroups :: "string set"
  history :: history

type_synonym 'a prog = "(stream_manager, 'a) io"

definition ask :: "(history \<Rightarrow> go_error + 'a) \<Rightarrow> ((go_error + 'a) \<Rightarrow> call) \<Rightarrow> 'a prog" where
  "ask f log s = (let r = f (history s) in Some (r, s\<lparr>history := history s @ [log r]\<rparr>))"

definition now :: "services \<Rightarrow> int prog" where
  "now sv s = Some (Inr (Now sv (history s)), s)"

definition panic :: "'a prog" where
  "panic s = None"

definition nanos :: int where "nanos = 1000000000"
definition hour :: int where "hour = 3600 * nanos"

text \<open>\<open>time.Time.Unix\<close> of an instant in nanoseconds.\<close>

definition unix :: "int \<Rightarrow> int" where
  "unix t = t div nanos"

section \<open>What a program appends to the history\<close>

definition appends :: "(history \<Rightarrow> bool) \<Rightarrow> 'a prog \<Rightarrow> bool" where
  "appends P m \<longleftrightarrow> (\<forall>s r s'. m s = Some (r, s') \<longrightarrow> (\<exists>h. history s' = history s @ h \<and> P h))"

text \<open>A property of histories that every program may be put together under.\<close>

locale history_property =
  fixes ok :: "history \<Rightarrow> bool"
  assumes ok_Nil: "ok []" and ok_append: "ok h \<Longrightarrow> ok h' \<Longrightarrow> ok (h @ h')"
begin

lemma appends_ret: "appends ok (io_ret a)"
  by (auto simp: appends_def io_ret_def ok_Nil)

lemma appends_fail: "appends ok (io_fail e)"
  by (auto simp: appends_def io_fail_def ok_Nil)

lemma appends_now: "appends ok (now sv)"
  by (auto simp: appends_def now_def ok_Nil)

lemma appends_panic: "appends ok panic"
  by (auto simp: appends_def panic_def)

lemma appends_ask: "(\<And>r. ok [log r]) \<Longrightarrow> appends ok (ask f log)"
  by (auto simp: appends_def ask_def Let_def)

lemma appends_bind:
  assumes "appends ok m" and "\<And>a. appends ok (f a)"
  shows "appends ok (io_bind m f)"
  unfolding appends_def
proof (intro allI impI)
  fix s r s'
  assume "io_bind m f s = Some (r, s')"
  then show "\<exists>h. history s' = history s @ h \<and> ok h"
  proof (cases rule: io_bindE)
    case (fail e)
    then show ?thesis using assms(1) by (auto simp: appends_def)
  next
    case (step a s1)
    obtain h1 where "history s1 = history s @ h1" "ok h1" using step(1) assms(1) unfolding appends_def by blast
    moreover obtain h2 where "history s' = history s1 @ h2" "ok h2" using step(2) assms(2) unfolding appends_def by blast
    ultimately show ?thesis by (intro exI [of _ "h1 @ h2"]) (simp add: ok_append)
  qed
qed

lemma appends_try: "appends ok m \<Longrightarrow> appends ok (io_try m)"
  by (auto simp: appends_def io_try_Some)

lemma appends_wrap: "appends ok m \<Longrightarrow> appends ok (io_wrap msg m)"
  by (auto simp: appends_def io_wrap_def)

lemma appends_if: "appends ok m \<Longrightarrow> appends ok n \<Longrightarrow> appends ok (if b then m else n)"
  by simp

lemma appends_sum:
  "(\<And>e. appends ok (f e)) \<Longrightarrow> (\<And>a. appends ok (g a)) \<Longrightarrow> appends ok (case x of Inl e \<Rightarrow> f e | Inr a \<Rightarrow> g a)"
  by (cases x) auto

lemma appends_option:
  "appends ok f \<Longrightarrow> (\<And>a. appends ok (g a)) \<Longrightarrow> appends ok (case x of None \<Rightarrow> f | Some a \<Rightarrow> g a)"
  by (cases x) auto

lemma appends_prod: "(\<And>a b. appends ok (f a b)) \<Longrightarrow> appends ok (case x of (a, b) \<Rightarrow> f a b)"
  by (cases x) auto

lemma appends_list:
  "appends ok f \<Longrightarrow> (\<And>a as. appends ok (g a as)) \<Longrightarrow> appends ok (case x of [] \<Rightarrow> f | a # as \<Rightarrow> g a as)"
  by (cases x) auto

lemmas appends_rules = appends_ret appends_fail appends_now appends_panic appends_bind appends_try appends_wrap
  appends_if appends_sum appends_option appends_prod appends_list

end

text \<open>The sequence of programs over a list.\<close>

fun io_each :: "('a \<Rightarrow> unit prog) \<Rightarrow> 'a list \<Rightarrow> unit prog" where
  "io_each f [] = io_ret ()"
| "io_each f (x # xs) = io_bind (f x) (\<lambda>_. io_each f xs)"

text \<open>Calls of one kind only, and calls of no such kind: two properties of histories.\<close>

definition only :: "(call \<Rightarrow> bool) \<Rightarrow> history \<Rightarrow> bool" where
  "only P h \<longleftrightarrow> list_all P h"

interpretation only: history_property "only P" for P
  by unfold_locales (auto simp: only_def)

text \<open>Every prefix of the history has had at least as many calls of kind \<open>A\<close> as of kind \<open>B\<close>.\<close>

definition count :: "(call \<Rightarrow> bool) \<Rightarrow> history \<Rightarrow> nat" where
  "count P h = length (filter P h)"

definition ahead :: "(call \<Rightarrow> bool) \<Rightarrow> (call \<Rightarrow> bool) \<Rightarrow> history \<Rightarrow> bool" where
  "ahead A B h \<longleftrightarrow> (\<forall>n. count B (take n h) \<le> count A (take n h))"

lemma count_append [simp]: "count P (h @ h') = count P h + count P h'"
  by (simp add: count_def)

lemma count_simps [simp]: "count P [] = 0" "count P (c # h) = (if P c then Suc (count P h) else count P h)"
  by (simp_all add: count_def)

lemma ahead_whole: "ahead A B h \<Longrightarrow> count B h \<le> count A h"
  unfolding ahead_def by (metis order_refl take_all)

interpretation ahead: history_property "ahead A B" for A B
proof
  show "ahead A B []" by (simp add: ahead_def)
next
  fix h h'
  assume h: "ahead A B h" and h': "ahead A B h'"
  show "ahead A B (h @ h')"
    unfolding ahead_def
  proof
    fix n
    have "count B (take n h) \<le> count A (take n h)" "count B (take (n - length h) h') \<le> count A (take (n - length h) h')"
      using h h' by (auto simp: ahead_def)
    then show "count B (take n (h @ h')) \<le> count A (take n (h @ h'))" by simp
  qed
qed

text \<open>At most \<open>n\<close> calls of a kind.\<close>

definition atmost :: "(call \<Rightarrow> bool) \<Rightarrow> nat \<Rightarrow> history \<Rightarrow> bool" where
  "atmost P n h \<longleftrightarrow> count P h \<le> n"

interpretation none: history_property "atmost P 0" for P
  by unfold_locales (auto simp: atmost_def)

lemma appends_mono: "appends P m \<Longrightarrow> (\<And>h. P h \<Longrightarrow> Q h) \<Longrightarrow> appends Q m"
  unfolding appends_def by blast

lemma atmost_ask: "appends (atmost P 1) (ask f log)"
  by (auto simp: appends_def ask_def Let_def atmost_def)

lemma atmost_bind:
  assumes "appends (atmost P k) m" and "\<And>a. appends (atmost P l) (f a)"
  shows "appends (atmost P (k + l)) (io_bind m f)"
  unfolding appends_def
proof (intro allI impI)
  fix s r s'
  assume "io_bind m f s = Some (r, s')"
  then show "\<exists>h. history s' = history s @ h \<and> atmost P (k + l) h"
  proof (cases rule: io_bindE)
    case (fail e)
    then obtain h where "history s' = history s @ h" "atmost P k h" using assms(1) unfolding appends_def by blast
    then show ?thesis by (auto simp: atmost_def)
  next
    case (step a s1)
    obtain h1 where "history s1 = history s @ h1" "atmost P k h1" using step(1) assms(1) unfolding appends_def by blast
    moreover obtain h2 where "history s' = history s1 @ h2" "atmost P l h2" using step(2) assms(2) unfolding appends_def by blast
    ultimately show ?thesis by (intro exI [of _ "h1 @ h2"]) (simp add: atmost_def)
  qed
qed

lemma appends_try_any: "appends Q m \<Longrightarrow> appends Q (io_try m)"
  by (auto simp: appends_def io_try_Some)

lemma atmost_ret: "appends (atmost P n) (io_ret a)"
  by (auto simp: appends_def io_ret_def atmost_def)

lemma atmost_ignored: "appends (atmost P n) m \<Longrightarrow> appends (atmost P n) (io_bind (io_try m) (\<lambda>_. io_ret ()))"
  using atmost_bind [OF appends_try_any none.appends_ret, of P n m] by simp

lemma count_take_le: "count P (take n h) \<le> count P h"
  by (metis append_take_drop_id count_append le_add1)

lemma ahead_none: "atmost B 0 h \<Longrightarrow> ahead A B h"
  using count_take_le [of B _ h] by (auto simp: ahead_def atmost_def)

text \<open>Calls of kind \<open>A\<close> first, then at most as many of kind \<open>B\<close>.\<close>

lemma ahead_block:
  assumes "atmost B 0 h" and "n \<le> count A h" and "atmost B n h'"
  shows "ahead A B (h @ h')"
  unfolding ahead_def
proof
  fix k
  show "count B (take k (h @ h')) \<le> count A (take k (h @ h'))"
  proof (cases "k \<le> length h")
    case True
    then show ?thesis using ahead_none [OF assms(1), of A] by (simp add: ahead_def)
  next
    case False
    have "count B (take (k - length h) h') \<le> n"
      using assms(3) count_take_le [of B "k - length h" h'] by (simp add: atmost_def)
    with False show ?thesis using assms(1,2) by (simp add: atmost_def)
  qed
qed

text \<open>Programs that return, and programs that only add to the history.\<close>

definition total :: "'a prog \<Rightarrow> bool" where
  "total m \<longleftrightarrow> (\<forall>s. m s \<noteq> None)"

lemma total_bind: "total m \<Longrightarrow> (\<And>a. total (f a)) \<Longrightarrow> total (io_bind m f)"
  by (auto simp: total_def io_bind_def split: option.splits sum.splits)

lemma total_basic:
  "total (io_ret a)" "total (io_fail e)" "total (now sv)" "total (ask f log)"
  "total m \<Longrightarrow> total (io_try m)" "total m \<Longrightarrow> total (io_wrap msg m)"
  by (auto simp: total_def io_ret_def io_fail_def now_def ask_def Let_def io_try_def io_wrap_def)

lemma total_case:
  "(\<And>e. total (f e)) \<Longrightarrow> (\<And>a. total (g a)) \<Longrightarrow> total (case x of Inl e \<Rightarrow> f e | Inr a \<Rightarrow> g a)"
  "total p \<Longrightarrow> total q \<Longrightarrow> total (if b then p else q)"
  by (simp_all split: sum.splits)

lemmas total_rules = total_bind total_basic total_case

lemma totalD: "total m \<Longrightarrow> \<exists>r s'. m s = Some (r, s')"
  unfolding total_def by (metis not_None_eq surj_pair)

text \<open>A history without a call of some kind.\<close>

definition without :: "(call \<Rightarrow> bool) \<Rightarrow> history \<Rightarrow> bool" where
  "without P h \<longleftrightarrow> (\<forall>c \<in> set h. \<not> P c)"

interpretation without: history_property "without P" for P
  by unfold_locales (auto simp: without_def)

section \<open>What Redis is documented to do\<close>

text \<open>
  The field of a hash, and the entry of a stream, after a history: what was last written and not
  deleted since. The history is read from its end. \<open>lawful\<close> says that the services answer so as long as
  no stream has been trimmed, and that the index can be written.
\<close>

fun hash_rev :: "string \<Rightarrow> string \<Rightarrow> history \<Rightarrow> string option" where
  "hash_rev k f [] = None"
| "hash_rev k f (CHSet k' f' v (Inr u) # h) = (if k' = k \<and> f' = f then Some v else hash_rev k f h)"
| "hash_rev k f (CHDel k' f' (Inr n) # h) = (if k' = k \<and> f' = f then None else hash_rev k f h)"
| "hash_rev k f (c # h) = hash_rev k f h"

fun stream_rev :: "string \<Rightarrow> string \<Rightarrow> history \<Rightarrow> string option" where
  "stream_rev st i [] = None"
| "stream_rev st i (CXAdd st' json t (Inr i') # h) = (if st' = st \<and> i' = i then Some json else stream_rev st i h)"
| "stream_rev st i (CXDel st' i' (Inr n) # h) = (if st' = st \<and> i' = i then None else stream_rev st i h)"
| "stream_rev st i (c # h) = stream_rev st i h"

definition untrimmed :: "history \<Rightarrow> bool" where
  "untrimmed h \<longleftrightarrow> length h < 10000 \<and> (\<forall>c \<in> set h. case c of CXTrim st n r \<Rightarrow> False | _ \<Rightarrow> True)"

definition lawful :: "services \<Rightarrow> bool" where
  "lawful sv \<longleftrightarrow>
     (\<forall>h k f v. HSet sv h k f v = Inr ()) \<and>
     (\<forall>h k f. HGetWithExists sv h k f = Inr (hash_rev k f (rev h))) \<and>
     (\<forall>h st i. untrimmed h \<longrightarrow> XRange sv h st i i =
        Inr (case stream_rev st i (rev h) of None \<Rightarrow> [] | Some json \<Rightarrow> [\<lparr>ID = i, TaskField = Some json\<rparr>]))"

end
