(* ===== verification/Task_Streams.thy ===== *)
theory Task_Streams
  imports Redis_Store Task_Types
begin

text \<open>
  The task streams of the task monitor (\<open>internal/taskmonitor/tasks\<close>): the index from task ids to message
  ids (\<open>task_index.go\<close>), the tracking of expirations (\<open>expiration_manager.go\<close>), the life cycle of a task
  (\<open>task_add.go\<close>, \<open>task_read.go\<close>, \<open>workers.go\<close>) and the upkeep of the streams (\<open>manager.go\<close>). An operation is a
  program over the services of \<open>Redis_Store\<close>; the JSON text of a task is made and read by
  \<open>codec\<close>. Logging, metrics and the contexts with their timeouts are not modelled; an argument of a log call
  that can panic is.
\<close>

section \<open>Data\<close>

record TaskStreamData =
  JobID :: "int option"
  TaskDefinitionID :: int
  CreatedAt :: int
  IsMainnet :: bool
  RetryCount :: int
  LastAttemptAt :: "int option"
  SendTaskData :: SendTaskDataToKeeper
  DispatchedAt :: "int option"
  CompletedAt :: "int option"
  LastError :: string

record codec =
  MarshalTask :: "TaskStreamData \<Rightarrow> go_error + string"
  UnmarshalTask :: "string \<Rightarrow> go_error + TaskStreamData"
  MarshalSend :: "SendTaskDataToKeeper \<Rightarrow> go_error + string"

definition StreamTaskDispatched :: string where "StreamTaskDispatched = ''task:dispatched''"
definition StreamTaskCompleted :: string where "StreamTaskCompleted = ''task:completed''"
definition StreamTaskFailed :: string where "StreamTaskFailed = ''task:failed''"
definition StreamTaskRetry :: string where "StreamTaskRetry = ''task:retry''"
definition TasksProcessingTTL :: int where "TasksProcessingTTL = hour"
definition TasksCompletedTTL :: int where "TasksCompletedTTL = hour"
definition TasksFailedTTL :: int where "TasksFailedTTL = hour"
definition TasksRetryTTL :: int where "TasksRetryTTL = hour"
definition TaskIndexKey :: string where "TaskIndexKey = ''task_id_to_message_id''"
definition TaskIndexTTL :: int where "TaskIndexTTL = 2 * hour"
definition DispatchedTimeoutsKey :: string where "DispatchedTimeoutsKey = ''dispatched_timeouts''"
definition StreamExpirationKeyPrefix :: string where "StreamExpirationKeyPrefix = ''stream:expiration:''"
definition ExpirationTrackingTTL :: int where "ExpirationTrackingTTL = hour"

lemmas stream_names = StreamTaskDispatched_def StreamTaskCompleted_def StreamTaskFailed_def StreamTaskRetry_def

text \<open>\<open>task.SendTaskDataToKeeper.TaskID[0]\<close>, which panics on a task without an id.\<close>

definition first_id :: "TaskStreamData \<Rightarrow> int prog" where
  "first_id t = (case TaskID (SendTaskData t) of [] \<Rightarrow> panic | i # _ \<Rightarrow> io_ret i)"

section \<open>Calls of the services\<close>

definition xadd :: "services \<Rightarrow> string \<Rightarrow> string \<Rightarrow> string prog" where
  "xadd sv stream json =
     io_bind (now sv) (\<lambda>t. ask (\<lambda>h. XAdd sv h stream json (unix t)) (CXAdd stream json (unix t)))"

definition xack :: "services \<Rightarrow> string \<Rightarrow> string \<Rightarrow> string \<Rightarrow> unit prog" where
  "xack sv stream grp i = ask (\<lambda>h. XAck sv h stream grp i) (CXAck stream grp i)"

definition xdel :: "services \<Rightarrow> string \<Rightarrow> string \<Rightarrow> int prog" where
  "xdel sv stream i = ask (\<lambda>h. XDel sv h stream i) (CXDel stream i)"

definition xrange :: "services \<Rightarrow> string \<Rightarrow> string \<Rightarrow> string \<Rightarrow> message list prog" where
  "xrange sv stream lo hi = ask (\<lambda>h. XRange sv h stream lo hi) (CXRange stream lo hi)"

definition zadd :: "services \<Rightarrow> string \<Rightarrow> int \<Rightarrow> string \<Rightarrow> int prog" where
  "zadd sv key score member = ask (\<lambda>h. ZAdd sv h key score member) (CZAdd key score member)"

definition zrange :: "services \<Rightarrow> string \<Rightarrow> int \<Rightarrow> string list prog" where
  "zrange sv key hi = ask (\<lambda>h. ZRangeByScore sv h key hi) (CZRange key hi)"

definition zrem :: "services \<Rightarrow> string \<Rightarrow> string \<Rightarrow> int prog" where
  "zrem sv key member = ask (\<lambda>h. ZRem sv h key member) (CZRem key member)"

definition pipe_zrem :: "services \<Rightarrow> string \<Rightarrow> string list \<Rightarrow> unit prog" where
  "pipe_zrem sv key members = ask (\<lambda>h. PipeZRem sv h key members) (CPipeZRem key members)"

definition setTTL :: "services \<Rightarrow> string \<Rightarrow> int \<Rightarrow> unit prog" where
  "setTTL sv key ttl = ask (\<lambda>h. SetTTL sv h key ttl) (CSetTTL key ttl)"

definition hset :: "services \<Rightarrow> string \<Rightarrow> string \<Rightarrow> string \<Rightarrow> unit prog" where
  "hset sv key field val = ask (\<lambda>h. HSet sv h key field val) (CHSet key field val)"

definition hget :: "services \<Rightarrow> string \<Rightarrow> string \<Rightarrow> string option prog" where
  "hget sv key field = ask (\<lambda>h. HGetWithExists sv h key field) (CHGet key field)"

definition hdel :: "services \<Rightarrow> string \<Rightarrow> string \<Rightarrow> int prog" where
  "hdel sv key field = ask (\<lambda>h. HDelWithCount sv h key field) (CHDel key field)"

lemmas service_defs = xadd_def xack_def xdel_def xrange_def zadd_def zrange_def zrem_def pipe_zrem_def setTTL_def
  hset_def hget_def hdel_def

text \<open>An error that is only logged.\<close>

definition ignore :: "'a prog \<Rightarrow> unit prog" where
  "ignore m = io_bind (io_try m) (\<lambda>_. io_ret ())"

section \<open>The index of tasks\<close>

definition StoreTaskIndex :: "services \<Rightarrow> int \<Rightarrow> string \<Rightarrow> unit prog" where
  "StoreTaskIndex sv taskID messageID =
     io_bind (io_wrap ''failed to store task index'' (hset sv TaskIndexKey (show_int taskID) messageID)) (\<lambda>_.
     ignore (setTTL sv TaskIndexKey TaskIndexTTL))"

definition GetTaskMessageID :: "services \<Rightarrow> int \<Rightarrow> string option prog" where
  "GetTaskMessageID sv taskID =
     io_wrap ''failed to get task message ID'' (hget sv TaskIndexKey (show_int taskID))"

definition RemoveTaskIndex :: "services \<Rightarrow> int \<Rightarrow> unit prog" where
  "RemoveTaskIndex sv taskID =
     io_bind (io_wrap ''failed to remove task index'' (hdel sv TaskIndexKey (show_int taskID))) (\<lambda>_. io_ret ())"

definition getTaskByMessageID :: "services \<Rightarrow> codec \<Rightarrow> string \<Rightarrow> TaskStreamData prog" where
  "getTaskByMessageID sv cd messageID =
     io_bind (io_wrap ''failed to get task by messageID'' (xrange sv StreamTaskDispatched messageID messageID)) (\<lambda>ms.
       case ms of
         [] \<Rightarrow> io_fail (GoErr (''no message found with ID '' @ messageID))
       | message # _ \<Rightarrow>
           (case TaskField message of
              None \<Rightarrow> io_fail (GoErr (''message '' @ messageID @ '' missing task data''))
            | Some json \<Rightarrow>
                (case UnmarshalTask cd json of
                   Inl e \<Rightarrow> io_fail (Wrap ''failed to unmarshal task data'' e)
                 | Inr task \<Rightarrow> io_bind (first_id task) (\<lambda>_. io_ret task))))"

text \<open>The scan of the most recent messages; a message that does not hold a task is passed over.\<close>

fun scan_messages :: "codec \<Rightarrow> int \<Rightarrow> message list \<Rightarrow> TaskStreamData prog" where
  "scan_messages cd taskID [] =
     io_fail (GoErr (''task '' @ show_int taskID @ '' not found in processing stream''))"
| "scan_messages cd taskID (m # ms) =
     (case TaskField m of
        None \<Rightarrow> scan_messages cd taskID ms
      | Some json \<Rightarrow>
          (case UnmarshalTask cd json of
             Inl e \<Rightarrow> scan_messages cd taskID ms
           | Inr task \<Rightarrow>
               io_bind (first_id task) (\<lambda>i. if i = taskID then io_ret task else scan_messages cd taskID ms)))"

definition findTaskInDispatched :: "services \<Rightarrow> codec \<Rightarrow> int \<Rightarrow> TaskStreamData prog" where
  "findTaskInDispatched sv cd taskID =
     io_bind (io_wrap ''failed to read from stream'' (xrange sv StreamTaskDispatched ''-'' ''+'')) (\<lambda>ms.
     scan_messages cd taskID (drop (length ms - 1000) ms))"

text \<open>The task and its message id, which is empty when the task was found by the scan.\<close>

definition FindTaskByID :: "services \<Rightarrow> codec \<Rightarrow> int \<Rightarrow> (TaskStreamData \<times> string) prog" where
  "FindTaskByID sv cd taskID =
     io_bind (GetTaskMessageID sv taskID) (\<lambda>m.
       case m of
         None \<Rightarrow> io_bind (findTaskInDispatched sv cd taskID) (\<lambda>task. io_ret (task, []))
       | Some messageID \<Rightarrow>
           io_bind (io_wrap (''task '' @ show_int taskID @ '' not found in stream despite having messageID '' @ messageID)
                      (getTaskByMessageID sv cd messageID)) (\<lambda>task. io_ret (task, messageID)))"

section \<open>Expirations\<close>

definition getStreamExpirationKey :: "string \<Rightarrow> string" where
  "getStreamExpirationKey stream = StreamExpirationKeyPrefix @ stream"

definition AddTaskTimeout :: "services \<Rightarrow> int \<Rightarrow> int \<Rightarrow> unit prog" where
  "AddTaskTimeout sv taskID timeoutDuration =
     io_bind (now sv) (\<lambda>t.
     io_bind (io_wrap ''failed to add task timeout''
                (zadd sv DispatchedTimeoutsKey (unix (t + timeoutDuration)) (show_int taskID))) (\<lambda>_.
     ignore (setTTL sv DispatchedTimeoutsKey ExpirationTrackingTTL)))"

definition GetExpiredTasks :: "services \<Rightarrow> int list prog" where
  "GetExpiredTasks sv =
     io_bind (now sv) (\<lambda>t.
     io_bind (io_wrap ''failed to get expired tasks'' (zrange sv DispatchedTimeoutsKey (unix t))) (\<lambda>ids.
     io_ret (List.map_filter parse_int64 ids)))"

definition RemoveTaskTimeout :: "services \<Rightarrow> int \<Rightarrow> unit prog" where
  "RemoveTaskTimeout sv taskID =
     io_bind (io_wrap ''failed to remove task timeout'' (zrem sv DispatchedTimeoutsKey (show_int taskID))) (\<lambda>_. io_ret ())"

definition RemoveMultipleTaskTimeouts :: "services \<Rightarrow> int list \<Rightarrow> unit prog" where
  "RemoveMultipleTaskTimeouts sv taskIDs =
     (if taskIDs = [] then io_ret ()
      else io_wrap ''failed to remove multiple task timeouts''
             (pipe_zrem sv DispatchedTimeoutsKey (map show_int taskIDs)))"

definition expiration_member :: "string \<Rightarrow> string \<Rightarrow> string" where
  "expiration_member stream messageID = stream @ '':'' @ messageID"

definition AddMessageExpiration :: "services \<Rightarrow> string \<Rightarrow> string \<Rightarrow> int \<Rightarrow> unit prog" where
  "AddMessageExpiration sv stream messageID ttl =
     io_bind (now sv) (\<lambda>t.
     io_bind (io_wrap ''failed to add stream entry expiration''
                (zadd sv (getStreamExpirationKey stream) (unix (t + ttl)) (expiration_member stream messageID))) (\<lambda>_.
     ignore (setTTL sv (getStreamExpirationKey stream) ExpirationTrackingTTL)))"

definition RemoveMessageExpiration :: "services \<Rightarrow> string \<Rightarrow> string \<Rightarrow> unit prog" where
  "RemoveMessageExpiration sv stream messageID =
     io_bind (io_wrap ''failed to remove stream entry expiration''
                (zrem sv (getStreamExpirationKey stream) (expiration_member stream messageID))) (\<lambda>_. io_ret ())"

definition member_id :: "string \<Rightarrow> string \<Rightarrow> string option" where
  "member_id stream member =
     (let streamPrefix = stream @ '':'' in
      if length streamPrefix < length member \<and> take (length streamPrefix) member = streamPrefix
      then Some (drop (length streamPrefix) member) else None)"

definition GetExpiredMessages :: "services \<Rightarrow> string \<Rightarrow> string list prog" where
  "GetExpiredMessages sv stream =
     io_bind (now sv) (\<lambda>t.
     io_bind (io_wrap ''failed to get expired stream entries'' (zrange sv (getStreamExpirationKey stream) (unix t))) (\<lambda>ms.
     io_ret (List.map_filter (member_id stream) ms)))"

fun expired_of :: "services \<Rightarrow> string list \<Rightarrow> (string \<times> string list) list prog" where
  "expired_of sv [] = io_ret []"
| "expired_of sv (stream # streams) =
     io_bind (io_try (GetExpiredMessages sv stream)) (\<lambda>r.
     io_bind (expired_of sv streams) (\<lambda>rest.
       case r of
         Inl e \<Rightarrow> io_ret rest
       | Inr ids \<Rightarrow> io_ret (if ids = [] then rest else (stream, ids) # rest)))"

definition GetExpiredMessagesForAllStreams :: "services \<Rightarrow> (string \<times> string list) list prog" where
  "GetExpiredMessagesForAllStreams sv =
     expired_of sv [StreamTaskDispatched, StreamTaskCompleted, StreamTaskFailed, StreamTaskRetry]"

definition RemoveMultipleMessageExpirations :: "services \<Rightarrow> string \<Rightarrow> string list \<Rightarrow> unit prog" where
  "RemoveMultipleMessageExpirations sv stream messageIDs =
     (if messageIDs = [] then io_ret ()
      else io_wrap ''failed to remove multiple stream entry expirations''
             (pipe_zrem sv (getStreamExpirationKey stream) (map (expiration_member stream) messageIDs)))"

section \<open>Adding, acknowledging and moving tasks\<close>

definition entryTTL :: "string \<Rightarrow> int" where
  "entryTTL stream =
     (if stream = StreamTaskDispatched then TasksProcessingTTL
      else if stream = StreamTaskCompleted then TasksCompletedTTL
      else if stream = StreamTaskFailed then TasksFailedTTL
      else if stream = StreamTaskRetry then TasksRetryTTL
      else TasksProcessingTTL)"

definition addTaskToStream :: "services \<Rightarrow> codec \<Rightarrow> string \<Rightarrow> TaskStreamData \<Rightarrow> unit prog" where
  "addTaskToStream sv cd stream task =
     (case MarshalTask cd task of
        Inl e \<Rightarrow> io_bind (first_id task) (\<lambda>_. io_fail (Wrap ''failed to marshal task data'' e))
      | Inr taskJSON \<Rightarrow>
          io_bind (io_try (xadd sv stream taskJSON)) (\<lambda>r.
            case r of
              Inl e \<Rightarrow> io_bind (first_id task) (\<lambda>_. io_fail (Wrap ''failed to add task to stream'' e))
            | Inr res \<Rightarrow>
                io_bind (ignore (AddMessageExpiration sv stream res (entryTTL stream))) (\<lambda>_.
                io_bind (first_id task) (\<lambda>_. io_ret ()))))"

definition moveTaskToFailed :: "services \<Rightarrow> codec \<Rightarrow> TaskStreamData \<Rightarrow> string \<Rightarrow> unit prog" where
  "moveTaskToFailed sv cd task errorMsg =
     io_wrap ''failed to add to failed stream''
       (addTaskToStream sv cd StreamTaskFailed (task\<lparr>LastError := errorMsg, RetryCount := i64 (RetryCount task + 1)\<rparr>))"

definition AckTaskProcessedWithDelete :: "services \<Rightarrow> string \<Rightarrow> string \<Rightarrow> string \<Rightarrow> bool \<Rightarrow> unit prog" where
  "AckTaskProcessedWithDelete sv stream consumerGroup messageID deleteFromStream =
     io_bind (xack sv stream consumerGroup messageID) (\<lambda>_.
     io_bind (ignore (RemoveMessageExpiration sv stream messageID)) (\<lambda>_.
     if deleteFromStream then ignore (xdel sv stream messageID) else io_ret ()))"

definition AckTaskProcessed :: "services \<Rightarrow> string \<Rightarrow> string \<Rightarrow> string \<Rightarrow> unit prog" where
  "AckTaskProcessed sv stream consumerGroup messageID = AckTaskProcessedWithDelete sv stream consumerGroup messageID True"

text \<open>The acknowledgement of a finished task, with its traces in the index and the timeouts.\<close>

definition finish_task :: "services \<Rightarrow> int \<Rightarrow> string \<Rightarrow> unit prog" where
  "finish_task sv taskID messageID =
     (if messageID = [] then io_ret ()
      else io_bind (io_try (AckTaskProcessed sv StreamTaskDispatched ''task-processors'' messageID)) (\<lambda>r.
        case r of
          Inl e \<Rightarrow> io_ret ()
        | Inr _ \<Rightarrow>
            io_bind (ignore (RemoveTaskIndex sv taskID)) (\<lambda>_. ignore (RemoveTaskTimeout sv taskID))))"

text \<open>A failed lookup leaves a nil task, and setting its completion time panics.\<close>

definition MarkTaskCompleted :: "services \<Rightarrow> codec \<Rightarrow> int \<Rightarrow> unit prog" where
  "MarkTaskCompleted sv cd taskID =
     io_bind (io_try (FindTaskByID sv cd taskID)) (\<lambda>r.
       case r of
         Inl e \<Rightarrow> panic
       | Inr (task, messageID) \<Rightarrow>
           io_bind (now sv) (\<lambda>t.
           io_bind (ignore (addTaskToStream sv cd StreamTaskCompleted (task\<lparr>CompletedAt := Some t\<rparr>))) (\<lambda>_.
           finish_task sv taskID messageID)))"

definition MarkTaskFailed :: "services \<Rightarrow> codec \<Rightarrow> int \<Rightarrow> string \<Rightarrow> unit prog" where
  "MarkTaskFailed sv cd taskID errorMsg =
     io_bind (io_try (FindTaskByID sv cd taskID)) (\<lambda>r.
       case r of
         Inl e \<Rightarrow> io_ret ()
       | Inr (task, messageID) \<Rightarrow>
           io_bind (moveTaskToFailed sv cd task errorMsg) (\<lambda>_. finish_task sv taskID messageID))"

section \<open>The timeout worker\<close>

text \<open>What the user is told when a task has timed out.\<close>

definition notify_failure :: "services \<Rightarrow> int \<Rightarrow> unit prog" where
  "notify_failure sv taskID =
     io_bind (ignore (ask (\<lambda>h. UpdateTaskFailed sv h taskID) (CUpdateTaskFailed taskID))) (\<lambda>_.
     io_bind (io_try (ask (\<lambda>h. GetUserEmailByTaskID sv h taskID) (CGetEmail taskID))) (\<lambda>r.
       case r of
         Inl e \<Rightarrow> io_ret ()
       | Inr email \<Rightarrow>
           if email = [] then io_ret ()
           else ignore (ask (\<lambda>h. NotifyTaskStatus sv h email taskID) (CNotify email taskID))))"

text \<open>One expired task; the result says whether it is removed from the timeouts afterwards.\<close>

definition process_expired :: "services \<Rightarrow> codec \<Rightarrow> int \<Rightarrow> bool prog" where
  "process_expired sv cd taskID =
     io_bind (io_try (FindTaskByID sv cd taskID)) (\<lambda>r.
       case r of
         Inl e \<Rightarrow> io_ret True
       | Inr (task, messageID) \<Rightarrow>
           io_bind (io_try (moveTaskToFailed sv cd task ''dispatched timeout'')) (\<lambda>moved.
             case moved of
               Inl e \<Rightarrow> io_ret False
             | Inr _ \<Rightarrow>
                 io_bind (if messageID = [] then io_ret ()
                          else ignore (AckTaskProcessed sv StreamTaskDispatched ''timeout-checker'' messageID)) (\<lambda>_.
                 io_bind (ignore (RemoveTaskIndex sv taskID)) (\<lambda>_.
                 io_bind (notify_failure sv taskID) (\<lambda>_.
                 io_ret True)))))"

fun process_all :: "services \<Rightarrow> codec \<Rightarrow> int list \<Rightarrow> int list prog" where
  "process_all sv cd [] = io_ret []"
| "process_all sv cd (taskID # ids) =
     io_bind (process_expired sv cd taskID) (\<lambda>processed.
     io_bind (process_all sv cd ids) (\<lambda>rest.
     io_ret (if processed then taskID # rest else rest)))"

definition checkDispatchedTimeouts :: "services \<Rightarrow> codec \<Rightarrow> unit prog" where
  "checkDispatchedTimeouts sv cd =
     io_bind (io_try (GetExpiredTasks sv)) (\<lambda>r.
       case r of
         Inl e \<Rightarrow> io_ret ()
       | Inr expiredTaskIDs \<Rightarrow>
           io_bind (process_all sv cd expiredTaskIDs) (\<lambda>processedTaskIDs.
           ignore (RemoveMultipleTaskTimeouts sv processedTaskIDs)))"

section \<open>Consumer groups and reading\<close>

definition RegisterConsumerGroup :: "services \<Rightarrow> string \<Rightarrow> string \<Rightarrow> unit prog" where
  "RegisterConsumerGroup sv stream grp =
     (let key = stream @ '':'' @ grp in
      io_bind (io_get (\<lambda>s. key \<in> consumerGroups s)) (\<lambda>exists.
        if exists then io_ret ()
        else io_bind (io_wrap (''failed to create consumer group for '' @ stream)
                        (ask (\<lambda>h. CreateConsumerGroup sv h stream grp) (CCreateGroup stream grp))) (\<lambda>_.
             io_put (\<lambda>s. s\<lparr>consumerGroups := insert key (consumerGroups s)\<rparr>))))"

definition create_stream :: "services \<Rightarrow> string \<times> int \<Rightarrow> unit prog" where
  "create_stream sv st =
     (case st of (stream, ttl) \<Rightarrow>
        io_wrap (''failed to initialize stream '' @ stream)
          (ask (\<lambda>h. CreateStreamIfNotExists sv h stream ttl) (CCreateStream stream ttl)))"

definition register_group :: "services \<Rightarrow> string \<times> string \<Rightarrow> unit prog" where
  "register_group sv sg =
     (case sg of (stream, grp) \<Rightarrow>
        io_wrap (''failed to register '' @ grp @ '' group'') (RegisterConsumerGroup sv stream grp))"

text \<open>\<open>order\<close> is the order in which the range over the map of streams visits them.\<close>

definition stream_configs :: "(string \<times> int) list" where
  "stream_configs = [(StreamTaskDispatched, TasksProcessingTTL), (StreamTaskCompleted, TasksCompletedTTL),
     (StreamTaskFailed, TasksFailedTTL), (StreamTaskRetry, TasksRetryTTL)]"

definition Initialize :: "services \<Rightarrow> (string \<times> int) list \<Rightarrow> unit prog" where
  "Initialize sv order =
     io_bind (io_each (create_stream sv) order) (\<lambda>_.
     io_each (register_group sv)
       [(StreamTaskDispatched, ''task-processors''), (StreamTaskCompleted, ''task-processors''),
        (StreamTaskFailed, ''task-processors''), (StreamTaskRetry, ''task-processors''),
        (StreamTaskDispatched, ''timeout-checker''), (StreamTaskDispatched, ''task-finder'')])"

fun decode_messages :: "codec \<Rightarrow> message list \<Rightarrow> (TaskStreamData list \<times> string list) prog" where
  "decode_messages cd [] = io_ret ([], [])"
| "decode_messages cd (m # ms) =
     (case TaskField m of
        None \<Rightarrow> decode_messages cd ms
      | Some json \<Rightarrow>
          (case UnmarshalTask cd json of
             Inl e \<Rightarrow> decode_messages cd ms
           | Inr task \<Rightarrow>
               io_bind (first_id task) (\<lambda>_.
               io_bind (decode_messages cd ms) (\<lambda>(ts, ids). io_ret (task # ts, ID m # ids)))))"

definition redis_nil :: go_error where "redis_nil = GoErr ''redis: nil''"

definition ReadTasksFromStream :: "services \<Rightarrow> codec \<Rightarrow> string \<Rightarrow> string \<Rightarrow> string \<Rightarrow> int
    \<Rightarrow> (TaskStreamData list \<times> string list) prog" where
  "ReadTasksFromStream sv cd stream consumerGroup consumerName n =
     io_bind (io_wrap ''failed to register consumer group'' (RegisterConsumerGroup sv stream consumerGroup)) (\<lambda>_.
     io_bind (io_try (ask (\<lambda>h. XReadGroup sv h stream consumerGroup consumerName n)
                          (CXReadGroup stream consumerGroup consumerName n))) (\<lambda>r.
       case r of
         Inl e \<Rightarrow> if e = redis_nil then io_ret ([], []) else io_fail (Wrap ''failed to read from stream'' e)
       | Inr ms \<Rightarrow> decode_messages cd ms))"

fun find_by_id :: "int \<Rightarrow> TaskStreamData list \<Rightarrow> TaskStreamData prog" where
  "find_by_id taskID [] = io_fail (GoErr (''task not found: '' @ show_int taskID))"
| "find_by_id taskID (t # ts) =
     io_bind (first_id t) (\<lambda>i. if i = taskID then io_ret t else find_by_id taskID ts)"

definition GetTaskDataFromStream :: "services \<Rightarrow> codec \<Rightarrow> string \<Rightarrow> int \<Rightarrow> TaskStreamData prog" where
  "GetTaskDataFromStream sv cd stream taskID =
     io_bind (io_wrap ''failed to read task stream data''
                (ReadTasksFromStream sv cd stream ''task_stream_manager'' ''task_stream_manager'' 1000))
       (\<lambda>(tasks, ids). find_by_id taskID tasks)"

section \<open>Upkeep\<close>

text \<open>The length of a stream, minus one when Redis does not tell.\<close>

definition stream_length :: "services \<Rightarrow> string \<Rightarrow> int prog" where
  "stream_length sv stream =
     io_bind (io_try (ask (\<lambda>h. XLen sv h stream) (CXLen stream))) (\<lambda>r.
     io_ret (case r of Inl e \<Rightarrow> - 1 | Inr n \<Rightarrow> n))"

fun stream_lengths :: "services \<Rightarrow> string list \<Rightarrow> (string \<times> int) list prog" where
  "stream_lengths sv [] = io_ret []"
| "stream_lengths sv (stream # streams) =
     io_bind (stream_length sv stream) (\<lambda>n.
     io_bind (stream_lengths sv streams) (\<lambda>rest. io_ret ((stream, n) # rest)))"

definition GetStreamInfo :: "services \<Rightarrow> ((string \<times> int) list \<times> nat) prog" where
  "GetStreamInfo sv =
     io_bind (stream_lengths sv [StreamTaskDispatched, StreamTaskRetry, StreamTaskCompleted, StreamTaskFailed]) (\<lambda>ls.
     io_get (\<lambda>s. (ls, card (consumerGroups s))))"

definition ack_old :: "services \<Rightarrow> string \<Rightarrow> pending_entry \<Rightarrow> unit prog" where
  "ack_old sv grp e =
     (if hour < Idle e then ignore (xack sv StreamTaskDispatched grp (EntryID e)) else io_ret ())"

definition cleanup_group :: "services \<Rightarrow> string \<Rightarrow> unit prog" where
  "cleanup_group sv grp =
     io_bind (io_try (ask (\<lambda>h. XPendingExt sv h StreamTaskDispatched grp 100)
                          (CXPendingExt StreamTaskDispatched grp 100))) (\<lambda>r.
       case r of Inl e \<Rightarrow> io_ret () | Inr es \<Rightarrow> io_each (ack_old sv grp) es)"

definition CleanupPendingEntries :: "services \<Rightarrow> unit prog" where
  "CleanupPendingEntries sv =
     io_each (cleanup_group sv) [''task-processors'', ''timeout-checker'', ''task-finder'']"

definition trim_configs :: "(string \<times> int) list" where
  "trim_configs = [(StreamTaskDispatched, 10000), (StreamTaskCompleted, 5000), (StreamTaskFailed, 5000),
     (StreamTaskRetry, 5000)]"

definition TrimStreams :: "services \<Rightarrow> (string \<times> int) list \<Rightarrow> unit prog" where
  "TrimStreams sv order =
     io_each (\<lambda>(stream, maxLen). ignore (ask (\<lambda>h. XTrim sv h stream maxLen) (CXTrim stream maxLen))) order"

definition cleanup_stream :: "services \<Rightarrow> string \<times> string list \<Rightarrow> unit prog" where
  "cleanup_stream sv entry =
     (case entry of (stream, messageIDs) \<Rightarrow>
        io_bind (io_each (\<lambda>i. ignore (xdel sv stream i)) messageIDs) (\<lambda>_.
        ignore (RemoveMultipleMessageExpirations sv stream messageIDs)))"

text \<open>\<open>order\<close> permutes the map of expired entries into the order of the range.\<close>

definition CleanupExpiredStreamEntries :: "services \<Rightarrow>
    ((string \<times> string list) list \<Rightarrow> (string \<times> string list) list) \<Rightarrow> unit prog" where
  "CleanupExpiredStreamEntries sv order =
     io_bind (GetExpiredMessagesForAllStreams sv) (\<lambda>expiredEntries.
     io_each (cleanup_stream sv) (order expiredEntries))"

section \<open>Which calls a program makes\<close>

text \<open>The record of a failure, and the removal of a message from the dispatched stream.\<close>

definition failed_add :: "call \<Rightarrow> bool" where
  "failed_add c \<longleftrightarrow> (case c of CXAdd st json t (Inr i) \<Rightarrow> st = StreamTaskFailed | _ \<Rightarrow> False)"

definition dispatched_ack :: "call \<Rightarrow> bool" where
  "dispatched_ack c \<longleftrightarrow> (case c of CXAck st g i r \<Rightarrow> st = StreamTaskDispatched | _ \<Rightarrow> False)"

definition dispatched_del :: "call \<Rightarrow> bool" where
  "dispatched_del c \<longleftrightarrow> (case c of CXDel st i r \<Rightarrow> st = StreamTaskDispatched | _ \<Rightarrow> False)"

definition removal :: "call \<Rightarrow> bool" where
  "removal c \<longleftrightarrow> (case c of CXAck st g i r \<Rightarrow> True | CXDel st i r \<Rightarrow> True | _ \<Rightarrow> False)"

lemmas call_kinds = failed_add_def dispatched_ack_def dispatched_del_def removal_def

abbreviation silent :: "'a prog \<Rightarrow> bool" where
  "silent \<equiv> appends (atmost removal 0)"

lemma atmost_0_ask: "(\<And>r. \<not> P (lg r)) \<Longrightarrow> appends (atmost P 0) (ask f lg)"
  by (rule none.appends_ask) (simp add: atmost_def)

lemma silent_ignore: "silent m \<Longrightarrow> silent (ignore m)"
  unfolding ignore_def by (intro none.appends_rules)

lemma silent_io_get: "silent (io_get f)"
  by (auto simp: appends_def io_get_def atmost_def)

lemma silent_calls:
  "silent (xadd sv st j)" "silent (xrange sv st a b)" "silent (zadd sv k sc m)" "silent (zrange sv k t)"
  "silent (zrem sv k m)" "silent (pipe_zrem sv k ms)" "silent (setTTL sv k t)" "silent (hset sv k f v)"
  "silent (hget sv k f)" "silent (hdel sv k f)"
  unfolding service_defs
  by (intro none.appends_rules atmost_0_ask; simp add: removal_def)+

lemma silent_first_id: "silent (first_id t)"
  unfolding first_id_def by (intro none.appends_rules)

lemmas silent_rules = silent_calls silent_ignore silent_first_id none.appends_rules

lemma silent_scan: "silent (scan_messages cd i ms)"
  by (induction ms) (auto intro!: silent_rules split: option.split sum.split)

lemma silent_lookup: "silent (FindTaskByID sv cd i)"
  unfolding FindTaskByID_def GetTaskMessageID_def findTaskInDispatched_def getTaskByMessageID_def
  by (intro silent_rules silent_scan)

lemma silent_tracking:
  "silent (AddMessageExpiration sv st i ttl)" "silent (RemoveMessageExpiration sv st i)" "silent (RemoveTaskIndex sv t)"
  "silent (RemoveTaskTimeout sv t)" "silent (RemoveMultipleTaskTimeouts sv ts)" "silent (GetExpiredTasks sv)"
  unfolding AddMessageExpiration_def RemoveMessageExpiration_def RemoveTaskIndex_def RemoveTaskTimeout_def
    RemoveMultipleTaskTimeouts_def GetExpiredTasks_def
  by (intro silent_rules)+

lemma silent_add: "silent (addTaskToStream sv cd st t)"
  unfolding addTaskToStream_def by (intro silent_rules silent_tracking)

lemma silent_move: "silent (moveTaskToFailed sv cd t m)"
  unfolding moveTaskToFailed_def by (intro silent_rules silent_add)

lemma silent_notify: "silent (notify_failure sv t)"
  unfolding notify_failure_def by (intro silent_rules atmost_0_ask; simp add: removal_def)

text \<open>A task that was moved has been recorded in the failed stream.\<close>

lemma add_recorded:
  assumes "addTaskToStream sv cd st t s = Some (Inr u, s')"
  shows "\<exists>json a i. MarshalTask cd t = Inr json \<and> CXAdd st json a (Inr i) \<in> set (drop (length (history s)) (history s'))"
proof -
  obtain json where json: "MarshalTask cd t = Inr json"
    using assms by (auto simp: addTaskToStream_def io_bind_Some io_fail_def split: sum.splits)
  with assms obtain r s1 where x: "xadd sv st json s = Some (r, s1)"
    and rest: "(case r of
              Inl e \<Rightarrow> io_bind (first_id t) (\<lambda>_. io_fail (Wrap ''failed to add task to stream'' e))
            | Inr res \<Rightarrow>
                io_bind (ignore (AddMessageExpiration sv st res (entryTTL st))) (\<lambda>_.
                io_bind (first_id t) (\<lambda>_. io_ret ()))) s1 = Some (Inr u, s')"
    by (auto simp: addTaskToStream_def io_bind_Some [of "io_try _"] io_try_Some)
  obtain i where i: "r = Inr i" using rest by (cases r) (auto simp: io_bind_Some io_fail_def)
  have "silent (io_bind (ignore (AddMessageExpiration sv st i (entryTTL st))) (\<lambda>_. io_bind (first_id t) (\<lambda>_. io_ret ())))"
    by (intro silent_rules silent_tracking)
  then obtain h where "history s' = history s1 @ h" using rest i unfolding appends_def by force
  moreover obtain a where "history s1 = history s @ [CXAdd st json a (Inr i)]"
    using x i by (auto simp: xadd_def io_bind_Some now_def ask_def Let_def)
  ultimately show ?thesis using json by auto
qed

lemma move_recorded:
  assumes "moveTaskToFailed sv cd t m s = Some (Inr u, s')"
  obtains h where "history s' = history s @ h" and "atmost removal 0 h" and "1 \<le> count failed_add h"
proof -
  obtain h where h: "history s' = history s @ h" "atmost removal 0 h"
    using silent_move assms unfolding appends_def by blast
  obtain x where "addTaskToStream sv cd StreamTaskFailed (t\<lparr>LastError := m, RetryCount := i64 (RetryCount t + 1)\<rparr>) s = Some (Inr x, s')"
    using assms by (auto simp: moveTaskToFailed_def io_wrap_Inr)
  from add_recorded [OF this] h(1) obtain json a i where "CXAdd StreamTaskFailed json a (Inr i) \<in> set h" by auto
  then have "CXAdd StreamTaskFailed json a (Inr i) \<in> set (filter failed_add h)" by (simp add: failed_add_def)
  then have "1 \<le> count failed_add h" unfolding count_def by (cases "filter failed_add h") auto
  with h that show ?thesis by blast
qed

text \<open>Acknowledging removes one message.\<close>

lemma ack_once:
  assumes "P = dispatched_ack \<or> P = dispatched_del"
  shows "appends (atmost P 1) (AckTaskProcessed sv st g i)"
proof -
  have tail: "appends (atmost dispatched_ack 0) (ignore (xdel sv st i))" "appends (atmost P 0) (ignore (RemoveMessageExpiration sv st i))"
    using assms unfolding ignore_def RemoveMessageExpiration_def service_defs
    by (intro none.appends_rules atmost_0_ask; auto simp: call_kinds)+
  have head: "appends (atmost dispatched_del 0) (xack sv st g i)"
    unfolding service_defs by (intro atmost_0_ask) (simp add: call_kinds)
  have one: "appends (atmost dispatched_ack 1) (xack sv st g i)" "appends (atmost dispatched_del 1) (ignore (xdel sv st i))"
    unfolding service_defs ignore_def
    by (intro atmost_ignored atmost_ask)+
  from assms show ?thesis
  proof
    assume P: "P = dispatched_ack"
    have "appends (atmost P (1 + (0 + 0))) (AckTaskProcessed sv st g i)"
      unfolding AckTaskProcessed_def AckTaskProcessedWithDelete_def
      by (intro atmost_bind) (use tail one P in auto)
    then show ?thesis by simp
  next
    assume P: "P = dispatched_del"
    have "appends (atmost P (0 + (0 + 1))) (AckTaskProcessed sv st g i)"
      unfolding AckTaskProcessed_def AckTaskProcessedWithDelete_def
      by (intro atmost_bind) (use tail head one P in auto)
    then show ?thesis by simp
  qed
qed

text \<open>So a program that records a failure and only then acknowledges stays ahead.\<close>

definition safe_removal :: "history \<Rightarrow> bool" where
  "safe_removal h \<longleftrightarrow> ahead failed_add dispatched_ack h \<and> ahead failed_add dispatched_del h"

interpretation safe_removal: history_property safe_removal
  by unfold_locales (auto simp: safe_removal_def ahead.ok_Nil ahead.ok_append)

lemma atmost_sub: "(\<And>c. P c \<Longrightarrow> Q c) \<Longrightarrow> atmost Q 0 h \<Longrightarrow> atmost P 0 h"
  by (auto simp: atmost_def count_def filter_empty_conv)

lemma removal_kinds:
  "dispatched_ack c \<Longrightarrow> removal c" "dispatched_del c \<Longrightarrow> removal c"
  by (auto simp: call_kinds split: call.splits)

lemma silent_safe: "silent m \<Longrightarrow> appends safe_removal m"
  by (rule appends_mono [of "atmost removal 0"])
     (auto simp: safe_removal_def intro!: ahead_none elim!: atmost_sub [rotated] intro: removal_kinds)

lemma safe_block:
  assumes "atmost removal 0 h" and "1 \<le> count failed_add h" and "atmost dispatched_ack 1 h'" and "atmost dispatched_del 1 h'"
  shows "safe_removal (h @ h')"
  using assms(2-4) atmost_sub [OF removal_kinds(1) assms(1)] atmost_sub [OF removal_kinds(2) assms(1)]
  by (auto simp: safe_removal_def intro: ahead_block)

text \<open>A move, then a program that acknowledges once.\<close>

lemma move_then_ack:
  assumes "appends (atmost dispatched_ack 1) k" and "appends (atmost dispatched_del 1) k"
  shows "appends safe_removal (io_bind (moveTaskToFailed sv cd t m) (\<lambda>_. k))"
  unfolding appends_def
proof (intro allI impI)
  fix s r s'
  assume "io_bind (moveTaskToFailed sv cd t m) (\<lambda>_. k) s = Some (r, s')"
  then show "\<exists>h. history s' = history s @ h \<and> safe_removal h"
  proof (cases rule: io_bindE)
    case (fail e)
    then show ?thesis using silent_safe [OF silent_move] unfolding appends_def by blast
  next
    case (step u s1)
    obtain h where h: "history s1 = history s @ h" "atmost removal 0 h" "1 \<le> count failed_add h"
      using move_recorded [OF step(1)] .
    obtain h1 where "history s' = history s1 @ h1" "atmost dispatched_ack 1 h1"
      using step(2) assms(1) unfolding appends_def by blast
    moreover obtain h2 where "history s' = history s1 @ h2" "atmost dispatched_del 1 h2"
      using step(2) assms(2) unfolding appends_def by blast
    ultimately show ?thesis using h safe_block [of h h1] by auto
  qed
qed

lemma silent_no_ack: "silent m \<Longrightarrow> appends (atmost dispatched_ack 0) m"
  by (erule appends_mono) (rule atmost_sub [OF removal_kinds(1)])

lemma silent_no_del: "silent m \<Longrightarrow> appends (atmost dispatched_del 0) m"
  by (erule appends_mono) (rule atmost_sub [OF removal_kinds(2)])

lemmas silent_kinds = silent_no_ack silent_no_del

lemma ignore_once: "appends (atmost P n) m \<Longrightarrow> appends (atmost P n) (ignore m)"
  unfolding ignore_def by (rule atmost_ignored)

lemma then_silent:
  assumes "appends (atmost P 1) m" and "\<And>a. appends (atmost P 0) (f a)"
  shows "appends (atmost P 1) (io_bind m f)"
  using atmost_bind [OF assms] by simp

lemma finish_once:
  assumes "P = dispatched_ack \<or> P = dispatched_del"
  shows "appends (atmost P 1) (finish_task sv i m)"
proof -
  have zero: "silent k \<Longrightarrow> appends (atmost P 0) k" for k :: "'a prog" using assms silent_kinds by blast
  have tail: "appends (atmost P 0) (case r of Inl e \<Rightarrow> io_ret () | Inr u \<Rightarrow>
      io_bind (ignore (RemoveTaskIndex sv i)) (\<lambda>_. ignore (RemoveTaskTimeout sv i)))" for r :: "go_error + unit"
    using assms by (elim disjE) (simp_all, (rule silent_kinds, intro silent_rules silent_tracking)+)
  show ?thesis
  proof (cases "m = []")
    case True
    then show ?thesis by (simp add: finish_task_def atmost_ret)
  next
    case False
    then show ?thesis unfolding finish_task_def
      by (simp del: One_nat_def) (intro then_silent appends_try_any ack_once [OF assms] tail)
  qed
qed

lemma safe_MarkTaskFailed: "appends safe_removal (MarkTaskFailed sv cd i m)"
  unfolding MarkTaskFailed_def
  by (intro safe_removal.appends_rules silent_safe [OF silent_lookup] move_then_ack finish_once) simp_all

lemma safe_process_expired: "appends safe_removal (process_expired sv cd i)"
proof -
  let ?k = "\<lambda>messageID. io_bind (if messageID = [] then io_ret ()
                          else ignore (AckTaskProcessed sv StreamTaskDispatched ''timeout-checker'' messageID)) (\<lambda>_.
                 io_bind (ignore (RemoveTaskIndex sv i)) (\<lambda>_.
                 io_bind (notify_failure sv i) (\<lambda>_. io_ret True)))"
  have tail: "silent (io_bind (ignore (RemoveTaskIndex sv i)) (\<lambda>_. io_bind (notify_failure sv i) (\<lambda>_. io_ret True)))"
    by (intro silent_rules silent_tracking silent_notify)
  have ack: "appends (atmost P 1) (if messageID = [] then io_ret ()
      else ignore (AckTaskProcessed sv StreamTaskDispatched ''timeout-checker'' messageID))"
    if "P = dispatched_ack \<or> P = dispatched_del" for P messageID
    by (simp del: One_nat_def add: atmost_ret ignore_once ack_once [OF that])
  have k: "appends (atmost P 1) (?k messageID)" if "P = dispatched_ack \<or> P = dispatched_del" for P messageID
    using that silent_kinds [OF tail] by (intro then_silent ack) auto
  have move: "appends safe_removal (io_bind (io_try (moveTaskToFailed sv cd t m)) (\<lambda>moved.
      case moved of Inl e \<Rightarrow> io_ret False | Inr _ \<Rightarrow> ?k messageID))" for t m messageID
    unfolding appends_def
  proof (intro allI impI)
    fix s r s'
    assume a: "io_bind (io_try (moveTaskToFailed sv cd t m)) (\<lambda>moved.
      case moved of Inl e \<Rightarrow> io_ret False | Inr _ \<Rightarrow> ?k messageID) s = Some (r, s')"
    then obtain moved s1 where m: "moveTaskToFailed sv cd t m s = Some (moved, s1)"
      and rest: "(case moved of Inl e \<Rightarrow> io_ret False | Inr _ \<Rightarrow> ?k messageID) s1 = Some (r, s')"
      by (auto simp: io_bind_Some [of "io_try _"] io_try_Some)
    show "\<exists>h. history s' = history s @ h \<and> safe_removal h"
    proof (cases moved)
      case (Inl e)
      then have "s' = s1" using rest by (simp add: io_ret_def)
      then show ?thesis using m silent_safe [OF silent_move] unfolding appends_def by blast
    next
      case (Inr u)
      then have "io_bind (moveTaskToFailed sv cd t m) (\<lambda>_. ?k messageID) s = Some (r, s')"
        using m rest by (simp add: io_bind_def)
      then show ?thesis using move_then_ack [OF k k] unfolding appends_def by blast
    qed
  qed
  show ?thesis unfolding process_expired_def
    by (intro safe_removal.appends_try safe_removal.appends_bind safe_removal.appends_sum safe_removal.appends_ret
        safe_removal.appends_prod silent_safe [OF silent_lookup] move)
qed

lemma safe_process_all: "appends safe_removal (process_all sv cd ids)"
  by (induction ids) (auto intro!: safe_removal.appends_rules safe_process_expired)

lemma safe_check: "appends safe_removal (checkDispatchedTimeouts sv cd)"
  unfolding checkDispatchedTimeouts_def
  by (intro safe_removal.appends_rules safe_process_all silent_safe [OF silent_tracking(6)]
      silent_safe [OF silent_ignore [OF silent_tracking(5)]])

section \<open>Pending entries\<close>

text \<open>An acknowledgement of the cleanup is about an entry that Redis has reported as idle for over an hour.\<close>

definition reported_idle :: "history \<Rightarrow> string \<Rightarrow> string \<Rightarrow> bool" where
  "reported_idle h g i \<longleftrightarrow>
     (\<exists>es. CXPendingExt StreamTaskDispatched g 100 (Inr es) \<in> set h \<and> (\<exists>e \<in> set es. EntryID e = i \<and> hour < Idle e))"

definition acks_idle :: "history \<Rightarrow> bool" where
  "acks_idle h \<longleftrightarrow> (\<forall>c \<in> set h. \<not> dispatched_del c \<and>
     (\<forall>st g i r. c = CXAck st g i r \<longrightarrow> st = StreamTaskDispatched \<and> reported_idle h g i))"

lemma reported_idle_append: "reported_idle h g i \<or> reported_idle h' g i \<Longrightarrow> reported_idle (h @ h') g i"
  by (auto simp: reported_idle_def)

interpretation idle: history_property acks_idle
proof
  show "acks_idle []" by (simp add: acks_idle_def)
  fix h h' assume "acks_idle h" "acks_idle h'"
  then show "acks_idle (h @ h')"
    unfolding acks_idle_def using reported_idle_append by (metis Un_iff set_append)
qed

definition acks_from :: "string \<Rightarrow> pending_entry list \<Rightarrow> history \<Rightarrow> bool" where
  "acks_from g es h \<longleftrightarrow> (\<forall>c \<in> set h. \<exists>i r. c = CXAck StreamTaskDispatched g i r \<and> (\<exists>e \<in> set es. EntryID e = i \<and> hour < Idle e))"

interpretation acks_from: history_property "acks_from g es" for g es
  by unfold_locales (auto simp: acks_from_def)

lemma ack_old_from: "e \<in> set es \<Longrightarrow> appends (acks_from g es) (ack_old sv g e)"
  unfolding ack_old_def ignore_def xack_def
  by (auto intro!: acks_from.appends_rules acks_from.appends_ask simp: acks_from_def)

lemma each_from: "set xs \<subseteq> set es \<Longrightarrow> appends (acks_from g es) (io_each (ack_old sv g) xs)"
  by (induction xs) (auto intro!: acks_from.appends_rules ack_old_from)

lemma cleanup_group_idle: "appends acks_idle (cleanup_group sv g)"
  unfolding appends_def
proof (intro allI impI)
  fix s r s'
  assume a: "cleanup_group sv g s = Some (r, s')"
  define x where "x = XPendingExt sv (history s) StreamTaskDispatched g 100"
  let ?c = "CXPendingExt StreamTaskDispatched g 100 x"
  let ?s = "s\<lparr>history := history s @ [?c]\<rparr>"
  have rest: "(case x of Inl e \<Rightarrow> io_ret () | Inr es \<Rightarrow> io_each (ack_old sv g) es) ?s = Some (r, s')"
    using a by (simp add: cleanup_group_def io_bind_def io_try_def ask_def x_def Let_def)
  show "\<exists>h. history s' = history s @ h \<and> acks_idle h"
  proof (cases x)
    case (Inl e)
    then show ?thesis using rest by (auto simp: io_ret_def acks_idle_def call_kinds)
  next
    case (Inr es)
    then obtain h where h: "history s' = (history s @ [?c]) @ h" "acks_from g es h"
      using rest each_from [of es es g sv] unfolding appends_def by fastforce
    have "acks_idle (?c # h)"
      using h(2) Inr by (fastforce simp: acks_idle_def acks_from_def reported_idle_def call_kinds)
    then show ?thesis using h(1) by auto
  qed
qed

section \<open>Completion\<close>

lemma ignore_Some: "ignore m s = Some (r, s') \<longleftrightarrow> r = Inr () \<and> (\<exists>x. m s = Some (x, s'))"
  by (auto simp: ignore_def io_bind_Some io_try_Some io_ret_def)

lemma total_ignore: "total m \<Longrightarrow> total (ignore m)"
  unfolding ignore_def by (intro total_rules)

lemma total_tracking:
  "total (AddMessageExpiration sv st m ttl)" "total (RemoveMessageExpiration sv st m)" "total (RemoveTaskIndex sv t)"
  "total (RemoveTaskTimeout sv t)"
  unfolding AddMessageExpiration_def RemoveMessageExpiration_def RemoveTaskIndex_def RemoveTaskTimeout_def service_defs
  by (intro total_rules total_ignore)+

lemma total_ack: "total (AckTaskProcessedWithDelete sv st g m b)"
  unfolding AckTaskProcessedWithDelete_def service_defs by (intro total_rules total_ignore total_tracking)

lemma total_add:
  assumes "TaskID (SendTaskData t) \<noteq> []"
  shows "total (addTaskToStream sv cd st t)"
proof -
  have "total (first_id t)" using assms by (cases "TaskID (SendTaskData t)") (auto simp: first_id_def intro: total_rules)
  then show ?thesis unfolding addTaskToStream_def service_defs by (intro total_rules total_ignore total_tracking)
qed

lemma total_finish: "total (finish_task sv i m)"
  unfolding finish_task_def AckTaskProcessed_def by (intro total_rules total_ignore total_ack total_tracking)

text \<open>A successful addition to the completed stream.\<close>

definition completed_add :: "call \<Rightarrow> bool" where
  "completed_add c \<longleftrightarrow> (case c of CXAdd st json t (Inr i) \<Rightarrow> st = StreamTaskCompleted | _ \<Rightarrow> False)"

abbreviation adds_none :: "'a prog \<Rightarrow> bool" where
  "adds_none \<equiv> appends (without completed_add)"

lemma adds_none_ask: "(\<And>r. \<not> completed_add (lg r)) \<Longrightarrow> adds_none (ask f lg)"
  by (rule without.appends_ask) (simp add: without_def)

lemma adds_none_ignore: "adds_none m \<Longrightarrow> adds_none (ignore m)"
  unfolding ignore_def by (intro without.appends_rules)

lemma adds_none_first: "adds_none (first_id t)"
  unfolding first_id_def by (intro without.appends_rules)

lemmas adds_none_rules = without.appends_rules adds_none_ask adds_none_ignore adds_none_first

lemma adds_none_tracking:
  "adds_none (AddMessageExpiration sv st m ttl)" "adds_none (RemoveMessageExpiration sv st m)" "adds_none (RemoveTaskIndex sv t)"
  "adds_none (RemoveTaskTimeout sv t)"
  unfolding AddMessageExpiration_def RemoveMessageExpiration_def RemoveTaskIndex_def RemoveTaskTimeout_def service_defs
  by (intro adds_none_rules; simp add: completed_add_def)+

lemma adds_none_scan: "adds_none (scan_messages cd i ms)"
  by (induction ms) (auto intro!: adds_none_rules split: option.split sum.split)

lemma no_completed_lookup: "adds_none (FindTaskByID sv cd i)"
  unfolding FindTaskByID_def GetTaskMessageID_def findTaskInDispatched_def getTaskByMessageID_def service_defs
  by (intro adds_none_rules adds_none_scan; simp add: completed_add_def)

lemma no_completed_finish: "adds_none (finish_task sv i m)"
  unfolding finish_task_def AckTaskProcessed_def AckTaskProcessedWithDelete_def service_defs
  by (intro adds_none_rules adds_none_tracking; simp add: completed_add_def)

lemma no_completed_xadd:
  assumes "\<forall>h st j t. \<exists>e. XAdd sv h st j t = Inl e"
  shows "adds_none (xadd sv st j)"
  unfolding appends_def
proof (intro allI impI)
  fix s r s'
  assume "xadd sv st j s = Some (r, s')"
  moreover obtain e where "XAdd sv (history s) st j (unix (Now sv (history s))) = Inl e" using assms by blast
  ultimately have "history s' = history s @ [CXAdd st j (unix (Now sv (history s))) (Inl e)]"
    by (auto simp: xadd_def io_bind_def now_def ask_def Let_def)
  then show "\<exists>h. history s' = history s @ h \<and> without completed_add h"
    by (auto simp: without_def completed_add_def)
qed

lemma no_completed_add:
  assumes "\<forall>h st j t. \<exists>e. XAdd sv h st j t = Inl e"
  shows "adds_none (ignore (addTaskToStream sv cd st t))"
  unfolding addTaskToStream_def
  by (intro adds_none_rules adds_none_tracking no_completed_xadd [OF assms])

lemma finish_ok: "finish_task sv i m s = Some (r, s') \<Longrightarrow> r = Inr ()"
proof (cases "m = []")
  case False
  assume "finish_task sv i m s = Some (r, s')"
  with False obtain a :: "go_error + unit" and s1 where "(case a of Inl e \<Rightarrow> io_ret () | Inr _ \<Rightarrow>
      io_bind (ignore (RemoveTaskIndex sv i)) (\<lambda>_. ignore (RemoveTaskTimeout sv i))) s1 = Some (r, s')"
    by (auto simp: finish_task_def io_bind_Some [of "io_try _"] io_try_Some)
  then show ?thesis by (cases a) (auto simp: io_ret_def io_bind_Some ignore_Some)
qed (simp add: finish_task_def io_ret_def)

lemma finish_acks:
  assumes "finish_task sv i m s = Some (r, s')" and "m \<noteq> []" and "\<forall>h st g m. XAck sv h st g m = Inr ()"
  shows "\<exists>h. history s' = history s @ CXAck StreamTaskDispatched ''task-processors'' m (Inr ()) # h"
proof -
  let ?s = "s\<lparr>history := history s @ [CXAck StreamTaskDispatched ''task-processors'' m (Inr ())]\<rparr>"
  let ?k = "io_bind (ignore (RemoveMessageExpiration sv StreamTaskDispatched m)) (\<lambda>_. ignore (xdel sv StreamTaskDispatched m))"
  let ?t = "\<lambda>r. case r of Inl e \<Rightarrow> io_ret () | Inr _ \<Rightarrow>
    io_bind (ignore (RemoveTaskIndex sv i)) (\<lambda>_. ignore (RemoveTaskTimeout sv i))"
  have "io_bind (io_try ?k) ?t ?s = Some (r, s')"
    using assms by (simp add: finish_task_def AckTaskProcessed_def AckTaskProcessedWithDelete_def xack_def ask_def
        io_bind_def io_try_def Let_def)
  moreover have "adds_none (io_bind (io_try ?k) ?t)"
    unfolding service_defs by (intro adds_none_rules adds_none_tracking; simp add: completed_add_def)
  ultimately show ?thesis unfolding appends_def by fastforce
qed

section \<open>Services for the witnesses\<close>

text \<open>Every call succeeds; the index knows no task and the streams are empty.\<close>

definition idle_services :: services where
  "idle_services =
     \<lparr>XAdd = \<lambda>_ _ _ _. Inr ''1-0'', XAck = \<lambda>_ _ _ _. Inr (), XDel = \<lambda>_ _ _. Inr 1, XRange = \<lambda>_ _ _ _. Inr [],
      XReadGroup = \<lambda>_ _ _ _ _. Inr [], XTrim = \<lambda>_ _ _. Inr 0, XLen = \<lambda>_ _. Inr 0, XPendingExt = \<lambda>_ _ _ _. Inr [],
      CreateStreamIfNotExists = \<lambda>_ _ _. Inr (), CreateConsumerGroup = \<lambda>_ _ _. Inr (), HSet = \<lambda>_ _ _ _. Inr (),
      HGetWithExists = \<lambda>_ _ _. Inr None, HDelWithCount = \<lambda>_ _ _. Inr 1, ZAdd = \<lambda>_ _ _ _. Inr 1,
      ZRangeByScore = \<lambda>_ _ _. Inr [], ZRem = \<lambda>_ _ _. Inr 1, PipeZRem = \<lambda>_ _ _. Inr (), SetTTL = \<lambda>_ _ _. Inr (),
      UpdateTaskFailed = \<lambda>_ _. Inr (), GetUserEmailByTaskID = \<lambda>_ _. Inr [], NotifyTaskStatus = \<lambda>_ _ _. Inr (),
      SendTaskToPerformer = \<lambda>_ _ _ _ _ _. Inr True, Now = \<lambda>_. 0\<rparr>"

text \<open>The index and the dispatched stream hold one task.\<close>

definition one_task :: services where
  "one_task = idle_services\<lparr>HGetWithExists := \<lambda>_ _ _. Inr (Some ''5-0''),
     XRange := \<lambda>_ _ _ _. Inr [\<lparr>ID = ''5-0'', TaskField = Some ''{}''\<rparr>]\<rparr>"

definition full_streams :: services where
  "full_streams = one_task\<lparr>XAdd := \<lambda>_ _ _ _. Inl (GoErr ''OOM'')\<rparr>"

definition demo_task :: TaskStreamData where
  "demo_task = \<lparr>JobID = Some 4, TaskDefinitionID = 1, CreatedAt = 0, IsMainnet = False, RetryCount = 0, LastAttemptAt = None,
     SendTaskData = \<lparr>TaskID = [9], Performer = no_performer, TargetData = [zero_target], TriggerData = [zero_trigger],
       SchedulerID = 1, ManagerSignature = []\<rparr>,
     DispatchedAt = None, CompletedAt = None, LastError = []\<rparr>"

definition demo_codec :: codec where
  "demo_codec = \<lparr>MarshalTask = \<lambda>_. Inr ''{}'', UnmarshalTask = \<lambda>_. Inr demo_task, MarshalSend = \<lambda>_. Inr ''{}''\<rparr>"

definition fresh :: stream_manager where
  "fresh = \<lparr>consumerGroups = {}, history = []\<rparr>"

lemmas run_defs = FindTaskByID_def GetTaskMessageID_def getTaskByMessageID_def findTaskInDispatched_def first_id_def
  service_defs ask_def io_defs Let_def panic_def

lemma demo_found:
  "FindTaskByID one_task demo_codec 9 fresh = Some (Inr (demo_task, ''5-0''), fresh\<lparr>history :=
     [CHGet TaskIndexKey (show_int 9) (Inr (Some ''5-0'')),
      CXRange StreamTaskDispatched ''5-0'' ''5-0'' (Inr [\<lparr>ID = ''5-0'', TaskField = Some ''{}''\<rparr>])]\<rparr>)"
  "FindTaskByID full_streams demo_codec 9 fresh = Some (Inr (demo_task, ''5-0''), fresh\<lparr>history :=
     [CHGet TaskIndexKey (show_int 9) (Inr (Some ''5-0'')),
      CXRange StreamTaskDispatched ''5-0'' ''5-0'' (Inr [\<lparr>ID = ''5-0'', TaskField = Some ''{}''\<rparr>])]\<rparr>)"
  by (simp_all add: run_defs one_task_def full_streams_def idle_services_def demo_codec_def demo_task_def fresh_def)

section \<open>Properties\<close>

text \<open>
  C5: No task leaves the dispatched stream on a timeout or a failure before it has been recorded in the
  failed stream: at every moment of \<open>checkDispatchedTimeouts\<close> and of \<open>MarkTaskFailed\<close>, whatever the services
  answer, there are no more acknowledgements of dispatched messages than successful additions to the
  failed stream, and no more deletions.
\<close>

theorem failure_recorded_before_removal:
  "appends safe_removal (checkDispatchedTimeouts sv cd) \<and> appends safe_removal (MarkTaskFailed sv cd taskID errorMsg)"
  by (simp add: safe_check safe_MarkTaskFailed)

text \<open>
  A completed task has no such guarantee: when it cannot be added to the completed stream,
  \<open>MarkTaskCompleted\<close> still acknowledges its message and reports success, so that the task is in no stream.
\<close>

theorem completed_lost:
  assumes found: "FindTaskByID sv cd taskID s = Some (Inr (task, messageID), s1)" and mid: "messageID \<noteq> []"
    and i: "TaskID (SendTaskData task) \<noteq> []" and down: "\<forall>h st j t. \<exists>e. XAdd sv h st j t = Inl e"
    and up: "\<forall>h st g m. XAck sv h st g m = Inr ()"
  shows "\<exists>s' h. MarkTaskCompleted sv cd taskID s = Some (Inr (), s') \<and> history s' = history s @ h \<and>
    CXAck StreamTaskDispatched ''task-processors'' messageID (Inr ()) \<in> set h \<and>
    (\<forall>j t m. CXAdd StreamTaskCompleted j t (Inr m) \<notin> set h)"
proof -
  let ?add = "\<lambda>t. ignore (addTaskToStream sv cd StreamTaskCompleted (task\<lparr>CompletedAt := Some t\<rparr>))"
  have tot: "total (?add t)" "total (finish_task sv taskID messageID)" for t
    by (intro total_ignore total_add; simp add: i) (rule total_finish)
  obtain r2 s2 where 2: "?add (Now sv (history s1)) s1 = Some (r2, s2)" using totalD [OF tot(1)] by blast
  obtain r3 s3 where 3: "finish_task sv taskID messageID s2 = Some (r3, s3)" using totalD [OF tot(2)] by blast
  have r: "r2 = Inr ()" "r3 = Inr ()" using 2 finish_ok [OF 3] by (auto simp: ignore_Some)
  have run: "MarkTaskCompleted sv cd taskID s = Some (Inr (), s3)"
    using found 2 3 r by (simp add: MarkTaskCompleted_def io_bind_def io_try_def now_def)
  obtain h1 where h1: "history s1 = history s @ h1" "without completed_add h1"
    using found no_completed_lookup unfolding appends_def by blast
  obtain h2 where h2: "history s2 = history s1 @ h2" "without completed_add h2"
    using 2 no_completed_add [OF down] unfolding appends_def by blast
  obtain h3 where h3: "history s3 = history s2 @ h3" "without completed_add h3"
    using 3 no_completed_finish unfolding appends_def by blast
  have "CXAck StreamTaskDispatched ''task-processors'' messageID (Inr ()) \<in> set h3"
    using finish_acks [OF 3 mid up] h3(1) by auto
  then have "CXAck StreamTaskDispatched ''task-processors'' messageID (Inr ()) \<in> set (h1 @ h2 @ h3)" by simp
  moreover have "history s3 = history s @ h1 @ h2 @ h3" using h1 h2 h3 by simp
  moreover have "CXAdd StreamTaskCompleted j t (Inr m) \<notin> set (h1 @ h2 @ h3)" for j t m
    using h1(2) h2(2) h3(2) by (auto simp: without_def completed_add_def)
  ultimately show ?thesis using run by blast
qed

theorem completed_lost_witness:
  "\<exists>s' h. MarkTaskCompleted full_streams demo_codec 9 fresh = Some (Inr (), s') \<and> history s' = history fresh @ h \<and>
     CXAck StreamTaskDispatched ''task-processors'' ''5-0'' (Inr ()) \<in> set h"
proof -
  have "\<forall>h st j t. \<exists>e. XAdd full_streams h st j t = Inl e" "\<forall>h st g m. XAck full_streams h st g m = Inr ()"
    by (simp_all add: full_streams_def one_task_def idle_services_def)
  moreover have "TaskID (SendTaskData demo_task) \<noteq> []" by (simp add: demo_task_def)
  ultimately show ?thesis using completed_lost [OF demo_found(2)] by blast
qed

text \<open>
  Marking a task as completed that cannot be found crashes the process: the error of the lookup is
  only logged, and the nil task is dereferenced.
\<close>

theorem completing_unknown_task_panics:
  assumes "FindTaskByID sv cd taskID s = Some (Inl e, s1)"
  shows "MarkTaskCompleted sv cd taskID s = None"
  using assms by (simp add: MarkTaskCompleted_def io_bind_def io_try_def panic_def)

theorem completing_unknown_task_panics_witness:
  "MarkTaskCompleted idle_services demo_codec 9 fresh = None"
proof -
  obtain e s1 where "FindTaskByID idle_services demo_codec 9 fresh = Some (Inl e, s1)"
    by (simp add: run_defs idle_services_def fresh_def)
  then show ?thesis by (rule completing_unknown_task_panics)
qed

text \<open>
  A task that is marked as failed is in the failed stream, with the error and one more retry: when the
  task is found and \<open>MarkTaskFailed\<close> succeeds, its JSON has been added there.
\<close>

theorem failed_task_recorded:
  assumes "FindTaskByID sv cd taskID s = Some (Inr (task, messageID), s1)"
    and "MarkTaskFailed sv cd taskID errorMsg s = Some (Inr (), s')"
  shows "\<exists>json t m. MarshalTask cd (task\<lparr>LastError := errorMsg, RetryCount := i64 (RetryCount task + 1)\<rparr>) = Inr json \<and>
    CXAdd StreamTaskFailed json t (Inr m) \<in> set (history s')"
proof -
  obtain u s2 where m: "moveTaskToFailed sv cd task errorMsg s1 = Some (Inr u, s2)"
    and f: "finish_task sv taskID messageID s2 = Some (Inr (), s')"
    using assms by (auto simp: MarkTaskFailed_def io_bind_Some io_try_Some)
  obtain h where "history s' = history s2 @ h" using f no_completed_finish unfolding appends_def by blast
  moreover obtain u' where "addTaskToStream sv cd StreamTaskFailed
      (task\<lparr>LastError := errorMsg, RetryCount := i64 (RetryCount task + 1)\<rparr>) s1 = Some (Inr u', s2)"
    using m by (auto simp: moveTaskToFailed_def io_wrap_Inr)
  ultimately show ?thesis using add_recorded by (fastforce dest: in_set_dropD)
qed

theorem failed_task_recorded_witness:
  "\<exists>s' t m. MarkTaskFailed one_task demo_codec 9 ''boom'' fresh = Some (Inr (), s') \<and>
     CXAdd StreamTaskFailed ''{}'' t (Inr m) \<in> set (history s')"
proof -
  obtain s' where s: "MarkTaskFailed one_task demo_codec 9 ''boom'' fresh = Some (Inr (), s')"
    using demo_found(1)
    by (simp add: MarkTaskFailed_def moveTaskToFailed_def addTaskToStream_def finish_task_def AckTaskProcessed_def
        AckTaskProcessedWithDelete_def ignore_def AddMessageExpiration_def RemoveMessageExpiration_def
        RemoveTaskIndex_def RemoveTaskTimeout_def now_def run_defs demo_codec_def one_task_def idle_services_def demo_task_def)
  from failed_task_recorded [OF demo_found(1) s] s show ?thesis by (auto simp: demo_codec_def)
qed

text \<open>
  The upkeep of the pending entries acknowledges nothing but messages of the dispatched stream that
  Redis has just reported, for that consumer group, as idle for over an hour; it deletes nothing.
\<close>

theorem cleanup_acks_only_idle:
  "appends acks_idle (CleanupPendingEntries sv)"
  unfolding CleanupPendingEntries_def io_each.simps
  by (intro idle.appends_rules cleanup_group_idle)

lemma member_id_member [simp]: "m \<noteq> [] \<Longrightarrow> member_id stream (expiration_member stream m) = Some m"
  by (simp add: member_id_def expiration_member_def Let_def)

lemma filter_recovers: "(\<And>x. x \<in> set xs \<Longrightarrow> g (f x) = Some x) \<Longrightarrow> List.map_filter g (map f xs) = xs"
  by (induction xs) (auto simp: List.map_filter_simps)

text \<open>
  What the expiration manager writes it reads back: from the members that \<open>AddMessageExpiration\<close> stores
  for a stream, \<open>GetExpiredMessages\<close> recovers the message ids, and from the members that \<open>AddTaskTimeout\<close>
  stores, \<open>GetExpiredTasks\<close> recovers the task ids, in order.
\<close>

theorem expirations_read_back:
  assumes "\<forall>m \<in> set messageIDs. m \<noteq> []" and "\<forall>i \<in> set taskIDs. in_i64 i"
    and "\<forall>h hi. ZRangeByScore sv h (getStreamExpirationKey stream) hi = Inr (map (expiration_member stream) messageIDs)"
    and "\<forall>h hi. ZRangeByScore sv' h DispatchedTimeoutsKey hi = Inr (map show_int taskIDs)"
  shows "map_option fst (GetExpiredMessages sv stream s) = Some (Inr messageIDs) \<and>
    map_option fst (GetExpiredTasks sv' s) = Some (Inr taskIDs)"
  using assms
  by (simp add: GetExpiredMessages_def GetExpiredTasks_def io_bind_def io_wrap_def now_def zrange_def ask_def io_ret_def
      Let_def filter_recovers)

definition expired_services :: services where
  "expired_services = idle_services\<lparr>ZRangeByScore := \<lambda>h key hi.
     if key = DispatchedTimeoutsKey then Inr (map show_int [7, - 3])
     else Inr (map (expiration_member StreamTaskFailed) [''1-0'', ''2-1''])\<rparr>"

theorem expirations_read_back_witness:
  "map_option fst (GetExpiredMessages expired_services StreamTaskFailed fresh) = Some (Inr [''1-0'', ''2-1'']) \<and>
   map_option fst (GetExpiredTasks expired_services fresh) = Some (Inr [7, - 3])"
  by (rule expirations_read_back)
    (simp_all add: expired_services_def in_i64_def getStreamExpirationKey_def StreamExpirationKeyPrefix_def DispatchedTimeoutsKey_def)

end
