(* ===== verification/Task_Dispatch.thy ===== *)
theory Task_Dispatch
  imports Task_Streams
begin

text \<open>
  The task dispatcher's side of the streams (\<open>internal/taskdispatcher/tasks\<close>: \<open>manager.go\<close>, \<open>task_add.go\<close>,
  \<open>task_read.go\<close>). It sends a task to the aggregator and adds it to the dispatched stream, and writes the index and
  the timeouts that the task monitor of \<open>Task_Streams\<close> reads. The names that both packages declare carry the
  suffix \<open>D\<close> here.
\<close>

section \<open>Operations\<close>

definition storeTaskIndex :: "services \<Rightarrow> int \<Rightarrow> string \<Rightarrow> unit prog" where
  "storeTaskIndex sv taskID messageID =
     io_bind (io_wrap ''failed to store task index'' (hset sv ''task_id_to_message_id'' (show_int taskID) messageID)) (\<lambda>_.
     ignore (setTTL sv ''task_id_to_message_id'' (2 * hour)))"

definition addTaskToTimeoutTracking :: "services \<Rightarrow> int \<Rightarrow> unit prog" where
  "addTaskToTimeoutTracking sv taskID =
     io_bind (now sv) (\<lambda>t.
     io_bind (io_wrap ''failed to add task to timeout tracking''
                (zadd sv ''dispatched_timeouts'' (unix (t + TasksProcessingTTL)) (show_int taskID))) (\<lambda>_.
     ignore (setTTL sv ''dispatched_timeouts'' (2 * hour))))"

definition track_dispatched :: "services \<Rightarrow> TaskStreamData \<Rightarrow> string \<Rightarrow> unit prog" where
  "track_dispatched sv task res =
     io_bind (first_id task) (\<lambda>taskID.
     io_bind (ignore (storeTaskIndex sv taskID res)) (\<lambda>_.
     ignore (addTaskToTimeoutTracking sv taskID)))"

definition track_expiration :: "services \<Rightarrow> string \<Rightarrow> string \<Rightarrow> unit prog" where
  "track_expiration sv stream res =
     io_bind (now sv) (\<lambda>t.
     io_bind (io_try (zadd sv (''stream:expiration:'' @ stream) (unix (t + entryTTL stream)) (stream @ '':'' @ res))) (\<lambda>r.
       case r of
         Inl e \<Rightarrow> io_ret ()
       | Inr _ \<Rightarrow> ignore (setTTL sv (''stream:expiration:'' @ stream) (48 * hour))))"

definition addTaskToStreamD :: "services \<Rightarrow> codec \<Rightarrow> string \<Rightarrow> TaskStreamData \<Rightarrow> bool prog" where
  "addTaskToStreamD sv cd stream task =
     (case MarshalTask cd task of
        Inl e \<Rightarrow> io_bind (first_id task) (\<lambda>_. io_fail (Wrap ''failed to marshal task data'' e))
      | Inr taskJSON \<Rightarrow>
          io_bind (io_try (xadd sv stream taskJSON)) (\<lambda>r.
            case r of
              Inl e \<Rightarrow> io_bind (first_id task) (\<lambda>_. io_fail (Wrap ''failed to add task to stream'' e))
            | Inr res \<Rightarrow>
                io_bind (if stream = StreamTaskDispatched then track_dispatched sv task res else io_ret ()) (\<lambda>_.
                io_bind (track_expiration sv stream res) (\<lambda>_.
                io_bind (first_id task) (\<lambda>_. io_ret True)))))"

text \<open>\<open>TargetData[0].TaskDefinitionID\<close>, which panics on a task without targets.\<close>

definition first_target :: "TaskStreamData \<Rightarrow> int prog" where
  "first_target t = (case TargetData (SendTaskData t) of [] \<Rightarrow> panic | d # _ \<Rightarrow> io_ret (TgTaskDefinitionID d))"

definition send_to_performer :: "services \<Rightarrow> codec \<Rightarrow> TaskStreamData \<Rightarrow> bool prog" where
  "send_to_performer sv cd task =
     (case MarshalSend cd (SendTaskData task) of
        Inl e \<Rightarrow> io_bind (first_id task) (\<lambda>_. io_fail (Wrap ''failed to marshal task data'' e))
      | Inr jsonData \<Rightarrow>
          io_bind (first_id task) (\<lambda>taskID.
          io_bind (first_target task) (\<lambda>def.
          ask (\<lambda>h. SendTaskToPerformer sv h (IsMainnet task) taskID def (PfKeeperAddress (Performer (SendTaskData task))) jsonData)
              (CSend (IsMainnet task) taskID def (PfKeeperAddress (Performer (SendTaskData task))) jsonData))))"

definition AddTaskToDispatchedStream :: "services \<Rightarrow> codec \<Rightarrow> TaskStreamData \<Rightarrow> bool prog" where
  "AddTaskToDispatchedStream sv cd task =
     io_bind (send_to_performer sv cd task) (\<lambda>success.
       if \<not> success then io_fail (GoErr ''aggregator send unsuccessful'')
       else io_bind (addTaskToStreamD sv cd StreamTaskDispatched task) (\<lambda>added.
         if \<not> added then io_fail (GoErr ''failed to add task to stream'') else io_ret True))"

definition InitializeD :: "services \<Rightarrow> (string \<times> int) list \<Rightarrow> unit prog" where
  "InitializeD sv order =
     io_bind (io_each (create_stream sv) order) (\<lambda>_.
     io_each (register_group sv)
       [(StreamTaskDispatched, ''task-processors''), (StreamTaskCompleted, ''task-processors''),
        (StreamTaskFailed, ''task-processors''), (StreamTaskRetry, ''task-processors'')])"

fun scan_messagesD :: "codec \<Rightarrow> int \<Rightarrow> message list \<Rightarrow> TaskStreamData prog" where
  "scan_messagesD cd taskID [] = io_fail (GoErr (''task not found: '' @ show_int taskID))"
| "scan_messagesD cd taskID (m # ms) =
     (case TaskField m of
        None \<Rightarrow> scan_messagesD cd taskID ms
      | Some json \<Rightarrow>
          (case UnmarshalTask cd json of
             Inl e \<Rightarrow> scan_messagesD cd taskID ms
           | Inr task \<Rightarrow>
               io_bind (first_id task) (\<lambda>i. if i = taskID then io_ret task else scan_messagesD cd taskID ms)))"

definition GetTaskDataFromStreamD :: "services \<Rightarrow> codec \<Rightarrow> string \<Rightarrow> int \<Rightarrow> TaskStreamData prog" where
  "GetTaskDataFromStreamD sv cd stream taskID =
     io_bind (io_wrap ''failed to read task stream data'' (xrange sv stream ''-'' ''+'')) (\<lambda>ms.
     scan_messagesD cd taskID (drop (length ms - 100) ms))"

definition ReadTasksFromStreamD :: "services \<Rightarrow> codec \<Rightarrow> string \<Rightarrow> string \<Rightarrow> string \<Rightarrow> int \<Rightarrow> TaskStreamData list prog" where
  "ReadTasksFromStreamD sv cd stream consumerGroup consumerName n =
     io_bind (io_wrap ''failed to register consumer group'' (RegisterConsumerGroup sv stream consumerGroup)) (\<lambda>_.
     io_bind (io_try (ask (\<lambda>h. XReadGroup sv h stream consumerGroup consumerName n)
                          (CXReadGroup stream consumerGroup consumerName n))) (\<lambda>r.
       case r of
         Inl e \<Rightarrow> if e = redis_nil then io_ret [] else io_fail (Wrap ''failed to read from stream'' e)
       | Inr ms \<Rightarrow> io_bind (decode_messages cd ms) (\<lambda>(ts, ids). io_ret ts)))"

section \<open>What is sent before it is recorded\<close>

definition accepted_send :: "call \<Rightarrow> bool" where
  "accepted_send c \<longleftrightarrow> (case c of CSend net i d a j (Inr b) \<Rightarrow> b | _ \<Rightarrow> False)"

definition dispatched_add :: "call \<Rightarrow> bool" where
  "dispatched_add c \<longleftrightarrow> (case c of CXAdd st j t r \<Rightarrow> st = StreamTaskDispatched | _ \<Rightarrow> False)"

lemmas dispatch_kinds = accepted_send_def dispatched_add_def

abbreviation adds_nothing :: "'a prog \<Rightarrow> bool" where
  "adds_nothing \<equiv> appends (atmost dispatched_add 0)"

lemma adds_nothing_ignore: "adds_nothing m \<Longrightarrow> adds_nothing (ignore m)"
  unfolding ignore_def by (intro none.appends_rules)

lemma adds_nothing_first: "adds_nothing (first_id t)" "adds_nothing (first_target t)"
  unfolding first_id_def first_target_def by (intro none.appends_rules)+

lemma adds_nothing_tracking:
  "adds_nothing (track_dispatched sv t i)" "adds_nothing (track_expiration sv st i)"
  unfolding track_dispatched_def track_expiration_def storeTaskIndex_def addTaskToTimeoutTracking_def service_defs
  by (intro none.appends_rules adds_nothing_ignore adds_nothing_first atmost_0_ask; simp add: dispatch_kinds)+

lemma adds_once: "appends (atmost dispatched_add 1) (addTaskToStreamD sv cd st t)"
proof (cases "MarshalTask cd t")
  case (Inl e)
  have "adds_nothing (addTaskToStreamD sv cd st t)"
    by (simp add: addTaskToStreamD_def Inl) (intro none.appends_rules adds_nothing_first)
  then show ?thesis by (rule appends_mono) (simp add: atmost_def)
next
  case (Inr json)
  have x: "appends (atmost dispatched_add 1) (xadd sv st json)"
    using atmost_bind [OF none.appends_now atmost_ask, of dispatched_add sv] unfolding xadd_def by simp
  show ?thesis
    by (simp add: addTaskToStreamD_def Inr del: One_nat_def)
       (intro then_silent appends_try_any x none.appends_rules adds_nothing_first adds_nothing_tracking)
qed

lemma send_effect:
  assumes "send_to_performer sv cd t s = Some (r, s')"
  shows "\<exists>h. history s' = history s @ h \<and> atmost dispatched_add 0 h \<and> (r = Inr True \<longrightarrow> 1 \<le> count accepted_send h)"
proof -
  have "adds_nothing (send_to_performer sv cd t)"
    unfolding send_to_performer_def
    by (intro none.appends_rules adds_nothing_first atmost_0_ask; simp add: dispatch_kinds)
  then obtain h where h: "history s' = history s @ h" "atmost dispatched_add 0 h"
    using assms unfolding appends_def by blast
  have "1 \<le> count accepted_send h" if "r = Inr True"
    using assms that h(1)
    by (auto simp: send_to_performer_def first_id_def first_target_def io_bind_Some ask_def Let_def io_ret_def io_fail_def
        panic_def accepted_send_def split: sum.splits list.splits)
  with h show ?thesis by blast
qed

section \<open>Properties\<close>

text \<open>
  The dispatched stream holds only tasks that the aggregator has accepted: at every moment of
  \<open>AddTaskToDispatchedStream\<close>, whatever the services answer, there are no more additions to the dispatched stream
  than accepted sends.
\<close>

theorem accepted_before_dispatched:
  "appends (ahead accepted_send dispatched_add) (AddTaskToDispatchedStream sv cd task)"
  unfolding appends_def
proof (intro allI impI)
  fix s r s'
  assume a: "AddTaskToDispatchedStream sv cd task s = Some (r, s')"
  let ?rest = "io_bind (addTaskToStreamD sv cd StreamTaskDispatched task) (\<lambda>added.
         if \<not> added then io_fail (GoErr ''failed to add task to stream'') else io_ret True)"
  from a obtain x s1 where x: "send_to_performer sv cd task s = Some (x, s1)"
    and rest: "x = Inr True \<and> ?rest s1 = Some (r, s') \<or> x \<noteq> Inr True \<and> s' = s1"
    by (auto simp: AddTaskToDispatchedStream_def io_bind_Some [of "send_to_performer sv cd task"] io_fail_def split: if_splits)
  obtain h where h: "history s1 = history s @ h" "atmost dispatched_add 0 h" "x = Inr True \<longrightarrow> 1 \<le> count accepted_send h"
    using send_effect [OF x] by blast
  show "\<exists>h. history s' = history s @ h \<and> ahead accepted_send dispatched_add h"
  proof (cases "x = Inr True")
    case True
    have "appends (atmost dispatched_add 1) ?rest"
      by (intro then_silent adds_once none.appends_rules)
    then obtain h' where "history s' = history s1 @ h'" "atmost dispatched_add 1 h'"
      using rest True unfolding appends_def by blast
    then show ?thesis using h True ahead_block [of dispatched_add h 1 accepted_send h'] by auto
  next
    case False
    then show ?thesis using rest h ahead_none by auto
  qed
qed

end
