(* ===== verification/Signing.thy ===== *)
theory Signing
  imports Task_Types
begin

text \<open>
  Signatures over JSON (\<open>pkg/cryptography/ecdsa.go\<close>). The curve, Keccak, the hexadecimal texts and the JSON encoder
  are libraries: the fields of \<open>crypto\<close>. A struct is signed as a JSON object that has been encoded,
  decoded into a map and put into lower case, \<open>canonical\<close>; the encoder of that map is \<open>MarshalMap\<close>, a
  function of the value because Go sorts the keys. \<open>crypto.Sign\<close> answers 65 bytes.
\<close>

type_synonym bytes = "8 word list"

record ('k, 'q) crypto =
  MarshalMap :: "json \<Rightarrow> string"
  HexToECDSA :: "string \<Rightarrow> go_error + 'k"
  Keccak256 :: "string \<Rightarrow> bytes"
  SignHash :: "bytes \<Rightarrow> 'k \<Rightarrow> go_error + bytes"
  EncodeHex :: "bytes \<Rightarrow> string"
  DecodeHex :: "string \<Rightarrow> go_error + bytes"
  Ecrecover :: "bytes \<Rightarrow> bytes \<Rightarrow> go_error + bytes"
  UnmarshalPubkey :: "bytes \<Rightarrow> go_error + 'q"
  PubkeyToAddress :: "'q \<Rightarrow> bytes"
  HexToAddress :: "string \<Rightarrow> bytes"

section \<open>Operations\<close>

definition eth_message :: "string \<Rightarrow> string" where
  "eth_message m = char_of (25::nat) # ''Ethereum Signed Message:'' @ char_of (10::nat) # show_nat (length m) @ m"

definition SignMessage :: "('k, 'q) crypto \<Rightarrow> string \<Rightarrow> string \<Rightarrow> go_error + string" where
  "SignMessage cr message privateKey =
     (case HexToECDSA cr privateKey of
        Inl e \<Rightarrow> Inl (Wrap ''invalid private key'' e)
      | Inr key \<Rightarrow>
          (case SignHash cr (Keccak256 cr (eth_message message)) key of
             Inl e \<Rightarrow> Inl (Wrap ''failed to sign message'' e)
           | Inr sig \<Rightarrow> Inr (EncodeHex cr (sig[64 := sig ! 64 + 27]))))"

definition canonical :: "json \<Rightarrow> json" where
  "canonical j = convertToLower (reparse j)"

definition SignJSONMessage :: "('k, 'q) crypto \<Rightarrow> json \<Rightarrow> string \<Rightarrow> go_error + string" where
  "SignJSONMessage cr jsonData privateKey = SignMessage cr (MarshalMap cr (canonical jsonData)) privateKey"

text \<open>The last byte of a signature is 27 or 28 in Ethereum and 0 or 1 in the library.\<close>

definition recovery_id :: "bytes \<Rightarrow> bytes" where
  "recovery_id sig = (if 27 \<le> sig ! 64 then sig[64 := sig ! 64 - 27] else sig)"

definition VerifySignature :: "('k, 'q) crypto \<Rightarrow> string \<Rightarrow> string \<Rightarrow> string \<Rightarrow> go_error + bool" where
  "VerifySignature cr message signature signerAddress =
     (case DecodeHex cr signature of
        Inl e \<Rightarrow> Inl (Wrap ''invalid signature'' e)
      | Inr sig \<Rightarrow>
          if length sig \<noteq> 65 then Inl (GoErr ''invalid signature length'')
          else (case Ecrecover cr (Keccak256 cr (eth_message message)) (recovery_id sig) of
             Inl e \<Rightarrow> Inl (Wrap ''failed to recover public key'' e)
           | Inr raw \<Rightarrow>
               (case UnmarshalPubkey cr raw of
                  Inl e \<Rightarrow> Inl (Wrap ''failed to unmarshal public key'' e)
                | Inr pub \<Rightarrow> Inr (HexToAddress cr signerAddress = PubkeyToAddress cr pub))))"

definition VerifySignatureFromJSON :: "('k, 'q) crypto \<Rightarrow> json \<Rightarrow> string \<Rightarrow> string \<Rightarrow> go_error + bool" where
  "VerifySignatureFromJSON cr jsonData signature signerAddress =
     VerifySignature cr (MarshalMap cr (canonical jsonData)) signature signerAddress"

section \<open>What the libraries promise\<close>

text \<open>
  \<open>recovers cr d sig addr\<close>: the signature is one of \<open>addr\<close> on the digest \<open>d\<close>. A key signs digests so that they
  recover its own address; a signature on one digest is not a signature of the same key on another one.
\<close>

definition recovers :: "('k, 'q) crypto \<Rightarrow> bytes \<Rightarrow> bytes \<Rightarrow> string \<Rightarrow> bool" where
  "recovers cr d sig addr \<longleftrightarrow> (\<exists>raw pub. Ecrecover cr d sig = Inr raw \<and> UnmarshalPubkey cr raw = Inr pub \<and>
     PubkeyToAddress cr pub = HexToAddress cr addr)"

definition key_of :: "('k, 'q) crypto \<Rightarrow> string \<Rightarrow> string \<Rightarrow> bool" where
  "key_of cr key addr \<longleftrightarrow> (\<forall>sig. DecodeHex cr (EncodeHex cr sig) = Inr sig) \<and>
     (\<forall>k d sig. HexToECDSA cr key = Inr k \<longrightarrow> SignHash cr d k = Inr sig \<longrightarrow>
        length sig = 65 \<and> sig ! 64 < 4 \<and> recovers cr d sig addr)"

definition binding :: "('k, 'q) crypto \<Rightarrow> string \<Rightarrow> string \<Rightarrow> bool" where
  "binding cr key addr \<longleftrightarrow> (\<forall>k d d' sig. HexToECDSA cr key = Inr k \<longrightarrow> SignHash cr d k = Inr sig \<longrightarrow> d' \<noteq> d \<longrightarrow>
     \<not> recovers cr d' sig addr)"

definition digest :: "('k, 'q) crypto \<Rightarrow> json \<Rightarrow> bytes" where
  "digest cr j = Keccak256 cr (eth_message (MarshalMap cr (canonical j)))"

text \<open>The encoder and the hash do not confuse two given values.\<close>

definition no_collision :: "('k, 'q) crypto \<Rightarrow> json \<Rightarrow> json \<Rightarrow> bool" where
  "no_collision cr a b \<longleftrightarrow> (canonical a \<noteq> canonical b \<longrightarrow> digest cr a \<noteq> digest cr b)"

lemma recovery_id_undo:
  assumes "length sig = 65" and "sig ! 64 < 4"
  shows "recovery_id (sig[64 := sig ! 64 + 27]) = sig"
proof -
  have "unat (sig ! 64) < 4" using assms(2) by (simp add: word_less_nat_alt)
  then have "27 \<le> sig ! 64 + 27" by (simp add: word_le_nat_alt unat_word_ariths)
  then show ?thesis using assms(1) by (simp add: recovery_id_def)
qed

lemma SignJSONMessage_Inr:
  assumes "SignJSONMessage cr j key = Inr s"
  obtains k sig where "HexToECDSA cr key = Inr k" and "SignHash cr (digest cr j) k = Inr sig"
    and "s = EncodeHex cr (sig[64 := sig ! 64 + 27])"
  using assms by (auto simp: SignJSONMessage_def SignMessage_def digest_def split: sum.splits)

text \<open>What is signed verifies; for a value, every value with the same canonical form does.\<close>

lemma sign_verify_message:
  assumes "SignMessage cr m key = Inr s" and "key_of cr key addr"
  shows "VerifySignature cr m s addr = Inr True"
proof -
  obtain k sig where k: "HexToECDSA cr key = Inr k" "SignHash cr (Keccak256 cr (eth_message m)) k = Inr sig"
    "s = EncodeHex cr (sig[64 := sig ! 64 + 27])"
    using assms(1) by (auto simp: SignMessage_def split: sum.splits)
  with assms(2) have sig: "length sig = 65" "sig ! 64 < 4" "recovers cr (Keccak256 cr (eth_message m)) sig addr"
    and dec: "DecodeHex cr s = Inr (sig[64 := sig ! 64 + 27])"
    by (auto simp: key_of_def)
  from sig(3) show ?thesis
    by (auto simp: recovers_def VerifySignature_def dec sig(1) recovery_id_undo [OF sig(1,2)])
qed

lemma sign_verify:
  assumes "SignJSONMessage cr j key = Inr s" and "key_of cr key addr" and "canonical j' = canonical j"
  shows "VerifySignatureFromJSON cr j' s addr = Inr True"
  using sign_verify_message [OF _ assms(2)] assms(1,3) by (simp add: SignJSONMessage_def VerifySignatureFromJSON_def)

text \<open>A signature does not verify for a value with another digest.\<close>

lemma sign_verify_other:
  assumes "SignJSONMessage cr j key = Inr s" and "key_of cr key addr" and "binding cr key addr"
    and "digest cr j' \<noteq> digest cr j"
  shows "VerifySignatureFromJSON cr j' s addr \<noteq> Inr True"
proof -
  obtain k sig where k: "HexToECDSA cr key = Inr k" "SignHash cr (digest cr j) k = Inr sig"
    "s = EncodeHex cr (sig[64 := sig ! 64 + 27])"
    using assms(1) by (rule SignJSONMessage_Inr)
  with assms(2) have sig: "length sig = 65" "sig ! 64 < 4"
    and dec: "DecodeHex cr s = Inr (sig[64 := sig ! 64 + 27])"
    by (auto simp: key_of_def)
  have "\<not> recovers cr (digest cr j') sig addr"
    using assms(3,4) k(1,2) unfolding binding_def by blast
  then show ?thesis
    by (auto simp: recovers_def VerifySignatureFromJSON_def VerifySignature_def dec sig(1) recovery_id_undo [OF sig(1,2)]
        digest_def split: sum.splits)
qed

lemma key_never_empty: "key_of cr key addr \<Longrightarrow> SignJSONMessage cr j key = Inr s \<Longrightarrow> DecodeHex cr [] = Inl e \<Longrightarrow> s \<noteq> []"
  by (elim SignJSONMessage_Inr) (metis Inl_Inr_False key_of_def)

section \<open>A small instance\<close>

text \<open>
  For the witnesses: the text of a task says whether it has one task id, the digest keeps that, and a signature repeats
  the digest.
\<close>

definition demo_crypto :: "(unit, bool) crypto" where
  "demo_crypto =
     \<lparr>MarshalMap = \<lambda>j. case j of JObj ((k, JArr xs) # fs) \<Rightarrow> if length xs = 1 then ''1'' else ''n'' | _ \<Rightarrow> ''1'',
      HexToECDSA = \<lambda>s. Inr (),
      Keccak256 = \<lambda>m. [if last m = CHR ''1'' then 1 else 0],
      SignHash = \<lambda>d k. if length d = 1 then Inr (hd d # replicate 64 0) else Inl (GoErr ''hash is required to be exactly 1 byte''),
      EncodeHex = \<lambda>b. ''0x'' @ map (\<lambda>c. char_of (unat c)) b,
      DecodeHex = \<lambda>s. if prefix ''0x'' s then Inr (map (\<lambda>c. word_of_nat (of_char c)) (drop 2 s)) else Inl (GoErr ''hex string without 0x prefix''),
      Ecrecover = \<lambda>d sig. Inr (if d = [hd sig] then [1] else [0]),
      UnmarshalPubkey = \<lambda>b. Inr (b = [1]),
      PubkeyToAddress = \<lambda>q. if q then [1] else [0],
      HexToAddress = \<lambda>s. [1]\<rparr>"

lemma demo_decode: "DecodeHex demo_crypto (EncodeHex demo_crypto sig) = Inr sig"
proof -
  have "unat (c :: 8 word) mod 256 = unat c" for c using unsigned_less [of c, where ?'a = nat] by simp
  then show ?thesis by (simp add: demo_crypto_def comp_def)
qed

lemma demo_key: "key_of demo_crypto key addr" "binding demo_crypto key addr"
  by (auto simp: key_of_def binding_def recovers_def demo_decode)
     (auto simp: demo_crypto_def length_Suc_conv split: if_splits)

lemma demo_decode_empty: "DecodeHex demo_crypto [] = Inl (GoErr ''hex string without 0x prefix'')"
  by (simp add: demo_crypto_def)

end
