(* ===== verification/Keeper_Validation.thy ===== *)
theory Keeper_Validation
  imports Signing Retry
begin

text \<open>
  The checks of a keeper (\<open>internal/keeper/core/validation\<close>: \<open>validator.go\<close>, \<open>signatures.go\<close>, \<open>trigger.go\<close>, \<open>action.go\<close>,
  \<open>proof.go\<close>, with \<open>StringifyIPFSData\<close> and \<open>EstablishTLSConnection\<close> of \<open>pkg/proof/proof.go\<close>). A performer checks
  the manager's signature and the trigger before it acts, an attester checks everything that the performer
  has uploaded. Chains, IPFS, TLS, the hash and the configuration are the fields of \<open>keeper_env\<close>,
  over a world of any type; \<open>BlockTimestamp\<close> is the HTTP request \<open>getBlockTimestamp\<close>. \<open>None\<close> is a
  panic. \<open>Wrap\<close> stands for \<open>%v\<close> and \<open>%w\<close> alike, and the instants in the texts of two errors are left out.
\<close>

section \<open>The keeper's surroundings\<close>

record receipt =
  RcStatus :: nat
  RcLogs :: "bytes list"
  RcBlockNumber :: int
  RcGasUsed :: int

record certificate =
  Raw :: string
  NotBefore :: int
  NotAfter :: int

record ('k, 'q, 'w) keeper_env =
  Crypto :: "('k, 'q) crypto"
  JsonTime :: "int \<Rightarrow> string"
  MarshalValue :: "json \<Rightarrow> string"
  Sha256Hex :: "string \<Rightarrow> string"
  HexToHash :: "string \<Rightarrow> bytes"
  ManagerSigningAddress :: string
  AlchemyAPIKey :: string
  TLSProofHost :: string
  TLSProofPort :: string
  Dial :: "string \<Rightarrow> 'w \<Rightarrow> (go_error + unit) \<times> 'w"
  CodeAt :: "string \<Rightarrow> bytes \<Rightarrow> 'w \<Rightarrow> (go_error + bytes) \<times> 'w"
  TransactionReceipt :: "string \<Rightarrow> bytes \<Rightarrow> 'w \<Rightarrow> (go_error + receipt) \<times> 'w"
  TransactionByHash :: "string \<Rightarrow> bytes \<Rightarrow> 'w \<Rightarrow> (go_error + bool) \<times> 'w"
  BlockTimestamp :: "receipt \<Rightarrow> string \<Rightarrow> 'w \<Rightarrow> (go_error + int) \<times> 'w"
  TLSDial :: "string \<Rightarrow> string \<Rightarrow> 'w \<Rightarrow> (go_error + certificate list) \<times> 'w"
  Fetch :: "string \<Rightarrow> 'w \<Rightarrow> (go_error + IPFSData) \<times> 'w"
  RetryEnv :: "('w, go_error) retry_env"

text \<open>\<open>GetChainRpcUrl\<close> of \<open>internal/keeper/utils/chainids.go\<close>.\<close>

definition GetChainRpcUrl :: "('k, 'q, 'w) keeper_env \<Rightarrow> string \<Rightarrow> string" where
  "GetChainRpcUrl env chainID =
     (if chainID = ''11155111'' then ''https://eth-sepolia.g.alchemy.com/v2/'' @ AlchemyAPIKey env
      else if chainID = ''11155420'' then ''https://opt-sepolia.g.alchemy.com/v2/'' @ AlchemyAPIKey env
      else if chainID = ''84532'' then ''https://base-sepolia.g.alchemy.com/v2/'' @ AlchemyAPIKey env
      else if chainID = ''421614'' then ''https://arb-sepolia.g.alchemy.com/v2/'' @ AlchemyAPIKey env
      else if chainID = ''1'' then ''https://eth-mainnet.g.alchemy.com/v2/'' @ AlchemyAPIKey env
      else if chainID = ''10'' then ''https://opt-mainnet.g.alchemy.com/v2/'' @ AlchemyAPIKey env
      else if chainID = ''8453'' then ''https://base-mainnet.g.alchemy.com/v2/'' @ AlchemyAPIKey env
      else if chainID = ''42161'' then ''https://arb-mainnet.g.alchemy.com/v2/'' @ AlchemyAPIKey env
      else [])"

section \<open>Signatures\<close>

definition ValidateManagerSignature :: "('k, 'q, 'w) keeper_env \<Rightarrow> SendTaskDataToKeeper \<Rightarrow> go_error + bool" where
  "ValidateManagerSignature env task =
     (if ManagerSignature task = [] then Inl (GoErr ''manager signature data is missing'')
      else (case VerifySignatureFromJSON (Crypto env) (j_send (JsonTime env) (task\<lparr>ManagerSignature := []\<rparr>))
                   (ManagerSignature task) (ManagerSigningAddress env) of
          Inl e \<Rightarrow> Inl (Wrap ''failed to verify manager signature'' e)
        | Inr isValid \<Rightarrow>
            if \<not> isValid then Inl (GoErr ''manager signature verification failed'') else Inr True))"

definition ValidatePerformerSignature :: "('k, 'q, 'w) keeper_env \<Rightarrow> IPFSData \<Rightarrow> go_error + bool" where
  "ValidatePerformerSignature env d =
     (case Signature d of
        None \<Rightarrow> Inl (GoErr ''performer signature data is missing'')
      | Some sig \<Rightarrow>
          if PerformerSignature sig = [] then Inl (GoErr ''performer signature is empty'')
          else if PerformerSigningAddress sig = [] then Inl (GoErr ''performer signing address is empty'')
          else (case VerifySignatureFromJSON (Crypto env)
                   (j_ipfs (JsonTime env) (d\<lparr>Signature := Some (sig\<lparr>PerformerSignature := []\<rparr>)\<rparr>))
                   (PerformerSignature sig) (PerformerSigningAddress sig) of
              Inl e \<Rightarrow> Inl (Wrap ''failed to verify performer signature'' e)
            | Inr isValid \<Rightarrow>
                if \<not> isValid then Inl (GoErr ''performer signature verification failed'') else Inr True))"

section \<open>Triggers\<close>

definition timeTolerance :: int where "timeTolerance = 8 * second"
definition expirationTimeTolerance :: int where "expirationTimeTolerance = 11 * second"

definition IsValidTimeBasedTrigger :: "TaskTriggerData \<Rightarrow> go_error + bool" where
  "IsValidTimeBasedTrigger t =
     (if TrExpirationTime t < NextTriggerTimestamp t then Inl (GoErr ''expiration time is before trigger timestamp'')
      else Inr True)"

definition IsValidEventBasedTrigger :: "('k, 'q, 'w) keeper_env \<Rightarrow> TaskTriggerData \<Rightarrow> ('w, bool) io" where
  "IsValidEventBasedTrigger env t =
     (if TrExpirationTime t < NextTriggerTimestamp t then io_fail (GoErr ''expiration time is before trigger timestamp'')
      else
        let rpcURL = GetChainRpcUrl env (EventChainId t);
            contract = HexToAddress (Crypto env) (EventTriggerContractAddress t);
            txHash = HexToHash env (EventTxHash t)
        in
        io_bind (io_wrap ''failed to connect to chain'' (io_call (Dial env rpcURL))) (\<lambda>_.
        io_bind (io_wrap ''failed to check contract existence'' (io_call (CodeAt env rpcURL contract))) (\<lambda>code.
        if code = [] then io_fail (GoErr (''no contract found at address: '' @ EventTriggerContractAddress t))
        else
          io_bind (io_try (io_call (TransactionReceipt env rpcURL txHash))) (\<lambda>r.
            case r of
              Inl e \<Rightarrow>
                io_bind (io_wrap ''failed to get transaction'' (io_call (TransactionByHash env rpcURL txHash))) (\<lambda>isPending.
                io_fail (GoErr (if isPending then ''transaction is pending'' else ''transaction is not found'')))
            | Inr rc \<Rightarrow>
                if RcStatus rc \<noteq> 1 then io_fail (GoErr ''transaction is not successful'')
                else (case RcLogs rc of
                    [] \<Rightarrow> io_panic
                  | a # _ \<Rightarrow>
                      if a \<noteq> contract then io_fail (GoErr ''transaction was not made to correct target contract'')
                      else
                        io_bind (io_wrap ''failed to get block timestamp'' (io_call (BlockTimestamp env rc rpcURL))) (\<lambda>txTimestamp.
                        if TrExpirationTime t + timeTolerance < txTimestamp
                        then io_fail (GoErr ''transaction was made after the expiration time'')
                        else io_ret True))))))"

definition IsValidConditionBasedTrigger :: "TaskTriggerData \<Rightarrow> go_error + bool" where
  "IsValidConditionBasedTrigger t =
     (if TrExpirationTime t < NextTriggerTimestamp t then Inl (GoErr ''expiration time is before trigger timestamp'')
      else if TrConditionType t = ''equals'' then Inr (ConditionSatisfiedValue t = ConditionUpperLimit t)
      else if TrConditionType t = ''not_equals'' then Inr (ConditionSatisfiedValue t \<noteq> ConditionUpperLimit t)
      else if TrConditionType t = ''greater_than'' then Inr (ConditionUpperLimit t < ConditionSatisfiedValue t)
      else if TrConditionType t = ''less_than'' then Inr (ConditionSatisfiedValue t < ConditionUpperLimit t)
      else if TrConditionType t = ''greater_equal'' then Inr (ConditionUpperLimit t \<le> ConditionSatisfiedValue t)
      else if TrConditionType t = ''less_equal'' then Inr (ConditionSatisfiedValue t \<le> ConditionUpperLimit t)
      else if TrConditionType t = ''between''
           then Inr (ConditionLowerLimit t \<le> ConditionSatisfiedValue t \<and> ConditionSatisfiedValue t \<le> ConditionUpperLimit t)
      else Inr False)"

text \<open>A check that only computes.\<close>

definition io_lift :: "go_error + 'a \<Rightarrow> ('w, 'a) io" where
  "io_lift r s = Some (r, s)"

definition ValidateTrigger :: "('k, 'q, 'w) keeper_env \<Rightarrow> TaskTriggerData \<Rightarrow> ('w, bool) io" where
  "ValidateTrigger env t =
     (if TrTaskDefinitionID t \<in> {1, 2, 7} then io_lift (IsValidTimeBasedTrigger t)
      else if TrTaskDefinitionID t \<in> {3, 4} then IsValidEventBasedTrigger env t
      else if TrTaskDefinitionID t \<in> {5, 6} then io_lift (IsValidConditionBasedTrigger t)
      else io_fail (GoErr (''invalid task definition id: '' @ show_int (TrTaskDefinitionID t))))"

section \<open>Actions\<close>

definition shouldRetryReceiptError :: "go_error \<Rightarrow> int \<Rightarrow> bool" where
  "shouldRetryReceiptError err attempt =
     (let s = lower (error_text err) in
      if contains ''connection'' s \<or> contains ''timeout'' s \<or> contains ''network'' s \<or> contains ''dial'' s \<or>
         contains ''refused'' s \<or> contains ''unavailable'' s then True
      else if contains ''rate limit'' s \<or> contains ''too many requests'' s \<or> contains ''429'' s then True
      else if contains ''500'' s \<or> contains ''502'' s \<or> contains ''503'' s \<or> contains ''504'' s then True
      else contains ''not found'' s \<or> contains ''unknown transaction'' s)"

definition getReceiptRetryConfig :: "go_error RetryConfig" where
  "getReceiptRetryConfig =
     \<lparr>MaxRetries = 12, InitialDelay = 300 * millisecond, MaxDelay = 6 * second, BackoffFactor = f64 (14 / 10),
      JitterFactor = f64 (3 / 10), LogRetryAttempt = True, ShouldRetry = Some shouldRetryReceiptError\<rparr>"

definition retried :: "('k, 'q, 'w) keeper_env \<Rightarrow> ('w \<Rightarrow> (go_error + 'a) \<times> 'w) \<Rightarrow> 'w \<Rightarrow> (go_error retry_error + 'a) \<times> 'w" where
  "retried env operation = Retry (RetryEnv env) operation (Some getReceiptRetryConfig)"

definition ValidateAction :: "('k, 'q, 'w) keeper_env \<Rightarrow> TaskTargetData \<Rightarrow> TaskTriggerData \<Rightarrow> PerformerActionData option
    \<Rightarrow> string \<Rightarrow> ('w, bool) io" where
  "ValidateAction env target trigger actionData rpcURL w =
     (case actionData of
        None \<Rightarrow> None
      | Some a \<Rightarrow>
          (let txHash = HexToHash env (ActionTxHash a) in
           case retried env (TransactionReceipt env rpcURL txHash) w of
             (Inl _, w1) \<Rightarrow>
               (case retried env (TransactionByHash env rpcURL txHash) w1 of
                  (Inl _, w2) \<Rightarrow> Some (Inl (GoErr ''failed to get transaction after retries''), w2)
                | (Inr isPending, w2) \<Rightarrow>
                    Some (Inl (GoErr (if isPending then ''transaction is pending'' else ''transaction is not found'')), w2))
           | (Inr rc, w1) \<Rightarrow>
               if RcStatus rc \<noteq> 1 then Some (Inl (GoErr ''transaction is not successful''), w1)
               else
                 (case BlockTimestamp env rc (GetChainRpcUrl env (TargetChainID target)) w1 of
                    (Inl e, w2) \<Rightarrow> Some (Inl (Wrap ''failed to get block timestamp'' e), w2)
                  | (Inr txTimestamp, w2) \<Rightarrow>
                      if TrExpirationTime trigger + expirationTimeTolerance < txTimestamp
                      then Some (Inl (GoErr ''transaction was made after the expiration time''), w2)
                      else if TgTaskDefinitionID target \<in> {1, 2} \<and> NextTriggerTimestamp trigger + timeTolerance < txTimestamp
                      then Some (Inl (GoErr ''transaction was made after the next execution timestamp''), w2)
                      else Some (Inr True, w2))))"

section \<open>Proofs\<close>

text \<open>
  The map holds pointers to structs, which \<open>convertToLower\<close> leaves alone. Go sorts the keys of a map.
\<close>

definition StringifyIPFSData :: "('k, 'q, 'w) keeper_env \<Rightarrow> IPFSData \<Rightarrow> string" where
  "StringifyIPFSData env d = MarshalValue env
     (JObj [(''action_data'', j_opt (j_action (JsonTime env)) (ActionData d)),
            (''performer_signature'', j_signature (Signature d)), (''proof_data'', j_proof (JsonTime env) (Proof d)),
            (''task_data'', j_opt (j_send (JsonTime env)) (TaskData d))])"

definition EstablishTLSConnection :: "('k, 'q, 'w) keeper_env \<Rightarrow> ('w, certificate list) io" where
  "EstablishTLSConnection env =
     (let port = (if TLSProofPort env = [] then ''443'' else TLSProofPort env) in
      if TLSProofHost env = [] then io_fail (GoErr ''target host cannot be empty'')
      else
        io_bind (io_wrap (''failed to establish TLS connection to '' @ TLSProofHost env @ '':'' @ port)
                   (io_call (TLSDial env (TLSProofHost env) port))) (\<lambda>certs.
        if certs = [] then io_fail (GoErr ''no peer certificates found in TLS connection'') else io_ret certs))"

definition no_proof :: ProofData where
  "no_proof = \<lparr>PrTaskID = 0, ProofOfTask = [], CertificateHash = [], CertificateTimestamp = 0\<rparr>"

definition validateProofHash :: "('k, 'q, 'w) keeper_env \<Rightarrow> SendTaskDataToKeeper \<Rightarrow> ProofData \<Rightarrow> IPFSData \<Rightarrow> ('w, bool) io" where
  "validateProofHash env task proof d =
     (case (TaskID task, Signature d) of
        (i # _, Some sig) \<Rightarrow>
          (let d' = d\<lparr>Proof := Some (no_proof\<lparr>PrTaskID := i\<rparr>),
                      Signature := Some \<lparr>PsTaskID = i, PerformerSigningAddress = PerformerSigningAddress sig,
                                         PerformerSignature = []\<rparr>\<rparr>;
               expected = Sha256Hex env (StringifyIPFSData env d')
           in if expected \<noteq> ProofOfTask proof
              then io_fail (GoErr (''proof hash validation failed: expected '' @ expected @ '', got '' @ ProofOfTask proof))
              else io_ret True)
      | _ \<Rightarrow> io_panic)"

text \<open>The hash of the certificate is compared, but a difference is only logged.\<close>

definition ValidateProof :: "('k, 'q, 'w) keeper_env \<Rightarrow> SendTaskDataToKeeper \<Rightarrow> IPFSData \<Rightarrow> ('w, bool) io" where
  "ValidateProof env task d =
     (case Proof d of
        None \<Rightarrow> io_fail (GoErr ''proof data is missing'')
      | Some proof \<Rightarrow>
          if ProofOfTask proof = [] then io_fail (GoErr ''proof of task is empty'')
          else if CertificateHash proof = [] then io_fail (GoErr ''certificate hash is empty'')
          else
            io_bind (io_try (EstablishTLSConnection env)) (\<lambda>conn.
            case conn of
              Inl e \<Rightarrow> io_fail (GoErr ''failed to establish TLS connection for validation'')
            | Inr [] \<Rightarrow> io_fail (GoErr ''no peer certificates found during validation'')
            | Inr (c # _) \<Rightarrow> validateProofHash env task proof d))"

section \<open>A whole task\<close>

fun hex_decode :: "string \<Rightarrow> go_error + string" where
  "hex_decode [] = Inr []"
| "hex_decode [c] = Inl (GoErr (if hex_digit c = None then ''encoding/hex: invalid byte'' else ''encoding/hex: odd length hex string''))"
| "hex_decode (c # d # s) =
     (case (hex_digit c, hex_digit d) of
        (Some a, Some b) \<Rightarrow> res_bind (hex_decode s) (\<lambda>t. Inr (char_of (16 * a + b) # t))
      | _ \<Rightarrow> Inl (GoErr ''encoding/hex: invalid byte''))"

text \<open>A check of \<open>ValidateTask\<close>: what is false or an error ends it.\<close>

definition must :: "('w, bool) io \<Rightarrow> ('w, bool) io \<Rightarrow> ('w, bool) io" where
  "must check rest = io_bind check (\<lambda>ok. if \<not> ok then io_ret False else rest)"

definition ValidateIPFSData :: "('k, 'q, 'w) keeper_env \<Rightarrow> IPFSData \<Rightarrow> ('w, bool) io" where
  "ValidateIPFSData env d =
     (case TaskData d of
        None \<Rightarrow> io_panic
      | Some task \<Rightarrow>
          must (io_lift (ValidateManagerSignature env task))
            (case TargetData task of
               [] \<Rightarrow> io_panic
             | target # _ \<Rightarrow>
                 (let rpcURL = GetChainRpcUrl env (TargetChainID target) in
                  io_bind (io_call (Dial env rpcURL)) (\<lambda>_.
                  case TriggerData task of
                    [] \<Rightarrow> io_panic
                  | trigger # _ \<Rightarrow>
                      must (ValidateTrigger env trigger)
                        (must (ValidateAction env target trigger (ActionData d) rpcURL)
                          (must (ValidateProof env task d)
                            (must (io_lift (ValidatePerformerSignature env d)) (io_ret True))))))))"

definition ValidateTask :: "('k, 'q, 'w) keeper_env \<Rightarrow> string \<Rightarrow> ('w, bool) io" where
  "ValidateTask env data =
     (case data of
        _ # _ # hex \<Rightarrow>
          io_bind (io_lift (hex_decode hex)) (\<lambda>cid.
          io_bind (io_call (Fetch env cid)) (ValidateIPFSData env))
      | _ \<Rightarrow> io_panic)"

section \<open>A small instance\<close>

text \<open>For the witnesses: every service answers, every transaction has succeeded at time 0.\<close>

definition demo_keeper :: "(unit, bool, unit) keeper_env" where
  "demo_keeper =
     \<lparr>Crypto = demo_crypto, JsonTime = \<lambda>_. [], MarshalValue = \<lambda>_. ''{}'', Sha256Hex = \<lambda>_. ''e3b0'', HexToHash = \<lambda>_. [0],
      ManagerSigningAddress = ''0x01'', AlchemyAPIKey = ''key'', TLSProofHost = ''host'', TLSProofPort = ''443'',
      Dial = \<lambda>_ w. (Inr (), w), CodeAt = \<lambda>_ _ w. (Inr [1], w),
      TransactionReceipt = \<lambda>_ _ w. (Inr \<lparr>RcStatus = 1, RcLogs = [[1]], RcBlockNumber = 1, RcGasUsed = 21000\<rparr>, w),
      TransactionByHash = \<lambda>_ _ w. (Inr False, w), BlockTimestamp = \<lambda>_ _ w. (Inr 0, w),
      TLSDial = \<lambda>_ _ w. (Inr [\<lparr>Raw = ''cert'', NotBefore = 0, NotAfter = 1\<rparr>], w),
      Fetch = \<lambda>_ w. (Inl (GoErr ''http error: status code 404''), w),
      RetryEnv = \<lparr>ctx_err = \<lambda>_. None, wait_timer = \<lambda>_ w. (None, w), rand_source = \<lambda>w. ((None, 0), w)\<rparr>\<rparr>"

end
