(* ===== verification/Keeper_Arguments.thy ===== *)
theory Keeper_Arguments
  imports Json Decimal
begin

text \<open>
  How a keeper turns the arguments of a job into the values of a contract call
  (\<open>internal/keeper/core/execution/arguments.go\<close> and \<open>utils.go\<close>). Arguments are the strings of the job, or what a
  script has printed as JSON, so an argument is a \<open>json\<close> value whose numbers are \<open>float64\<close>; the branches for other Go types are
  never taken. The texts of JSON and of floats, and the address and hex helpers of go-ethereum, are the fields of \<open>arg_env\<close>,
  \<open>GoFieldName\<close> is the name its reflection gives to a tuple field. A type of the ABI
  that no constructor names is \<open>OtherTy\<close>. A JSON object never decodes into a number, a Boolean or an array. The texts of the errors are shortened.
\<close>

section \<open>Types and values of the ABI\<close>

datatype abi_type = UintTy nat | IntTy nat | StringTy | BoolTy | AddressTy | BytesTy | FixedBytesTy nat
  | ArrayTy nat abi_type | SliceTy abi_type | TupleTy "(string \<times> abi_type) list" | OtherTy

datatype go_value = VInt int | VBig "int option" | VStr string | VBool bool | VAddress "8 word list" | VBytes "8 word list"
  | VFixed "8 word list" | VArray "go_value list" | VSlice "go_value list" | VStruct "go_value list"

record arg_env =
  FormatFloat :: "float64 \<Rightarrow> string"
  MarshalJSON :: "json \<Rightarrow> string"
  ParseJSON :: "string \<Rightarrow> go_error + json"
  IsHexAddress :: "string \<Rightarrow> bool"
  AddressOfHex :: "string \<Rightarrow> 8 word list"
  FromHex :: "string \<Rightarrow> 8 word list"
  GoFieldName :: "string \<Rightarrow> string"

section \<open>Numbers\<close>

text \<open>\<open>uint64(v)\<close> on the 64-bit Intel processor, where half of the range goes through the signed instruction.\<close>

definition f64_to_u64 :: "float64 \<Rightarrow> int" where
  "f64_to_u64 x = (if x < 2 ^ 63 then f64_to_i64 x else f64_to_i64 (x - 2 ^ 63) + 2 ^ 63) mod 2 ^ 64"

definition out_of :: "string \<Rightarrow> go_error" where
  "out_of ty = GoErr (''value exceeds the range of '' @ ty)"

text \<open>The number that a string or a JSON number stands for; \<open>ty\<close> is the name of the target in the error.\<close>

definition number :: "string \<Rightarrow> json \<Rightarrow> go_error + float64" where
  "number ty v =
     (case v of
        JStr s \<Rightarrow> ParseFloat s
      | JNum x \<Rightarrow> Inr x
      | JObj _ \<Rightarrow> Inl (GoErr (''cannot convert map to '' @ ty))
      | _ \<Rightarrow> Inl (GoErr (''cannot convert type to '' @ ty)))"

definition ranged :: "string \<Rightarrow> rat \<Rightarrow> rat \<Rightarrow> json \<Rightarrow> go_error + float64" where
  "ranged ty lo hi v = res_bind (number ty v) (\<lambda>x. if x < lo \<or> hi < x then Inl (out_of ty) else Inr x)"

text \<open>
  The largest values of 64 bits are constants that are rounded to \<open>float64\<close>, to \<open>2 ^ 64\<close> and \<open>2 ^ 63\<close>. A JSON number
  is not checked for \<open>uint32\<close>. Every other width is a big integer, made from an \<open>int64\<close>.
\<close>

definition convertToUint :: "json \<Rightarrow> nat \<Rightarrow> go_error + go_value" where
  "convertToUint v w =
     (if w = 8 then res_bind (ranged ''uint8'' 0 255 v) (\<lambda>x. Inr (VInt (f64_to_i64 x)))
      else if w = 16 then res_bind (ranged ''uint16'' 0 65535 v) (\<lambda>x. Inr (VInt (f64_to_i64 x)))
      else if w = 32 then
        (case v of
           JNum x \<Rightarrow> Inr (VInt (f64_to_i64 x mod 2 ^ 32))
         | _ \<Rightarrow> res_bind (ranged ''uint32'' 0 4294967295 v) (\<lambda>x. Inr (VInt (f64_to_i64 x))))
      else if w = 64 then res_bind (ranged ''uint64'' 0 (f64 18446744073709551615) v) (\<lambda>x. Inr (VInt (f64_to_u64 x)))
      else res_bind (number ''integer'' v) (\<lambda>x. Inr (VBig (Some (f64_to_i64 x)))))"

definition convertToInt :: "json \<Rightarrow> nat \<Rightarrow> go_error + go_value" where
  "convertToInt v w =
     (if w = 8 then res_bind (ranged ''int8'' (-128) 127 v) (\<lambda>x. Inr (VInt (f64_to_i64 x)))
      else if w = 16 then res_bind (ranged ''int16'' (-32768) 32767 v) (\<lambda>x. Inr (VInt (f64_to_i64 x)))
      else if w = 32 then res_bind (ranged ''int32'' (-2147483648) 2147483647 v) (\<lambda>x. Inr (VInt (f64_to_i64 x)))
      else if w = 64 then
        res_bind (ranged ''int64'' (-9223372036854775808) (f64 9223372036854775807) v) (\<lambda>x. Inr (VInt (f64_to_i64 x)))
      else res_bind (number ''integer'' v) (\<lambda>x. Inr (VBig (Some (f64_to_i64 x)))))"

definition convertToInteger :: "json \<Rightarrow> abi_type \<Rightarrow> go_error + go_value" where
  "convertToInteger v t =
     (case t of
        UintTy w \<Rightarrow> convertToUint v w
      | IntTy w \<Rightarrow> convertToInt v w
      | _ \<Rightarrow> Inl (GoErr ''unsupported integer type''))"

lemmas integer_defs = convertToInteger_def convertToUint_def convertToInt_def

section \<open>Other scalars\<close>

definition convertToString :: "arg_env \<Rightarrow> json \<Rightarrow> go_error + go_value" where
  "convertToString env v =
     (case v of
        JStr s \<Rightarrow> Inr (VStr s)
      | JNum x \<Rightarrow> Inr (VStr (FormatFloat env x))
      | JObj _ \<Rightarrow> Inr (VStr (MarshalJSON env v))
      | _ \<Rightarrow> Inl (GoErr ''cannot convert type to string''))"

definition ParseBool :: "string \<Rightarrow> go_error + bool" where
  "ParseBool s =
     (if s \<in> {''1'', ''t'', ''T'', ''TRUE'', ''true'', ''True''} then Inr True
      else if s \<in> {''0'', ''f'', ''F'', ''FALSE'', ''false'', ''False''} then Inr False
      else Inl (GoErr (''strconv.ParseBool: parsing '' @ s @ '': invalid syntax'')))"

definition convertToBool :: "json \<Rightarrow> go_error + go_value" where
  "convertToBool v =
     (case v of
        JBool b \<Rightarrow> Inr (VBool b)
      | JStr s \<Rightarrow> res_bind (ParseBool s) (\<lambda>b. Inr (VBool b))
      | JNum x \<Rightarrow> Inr (VBool (x \<noteq> 0))
      | JObj _ \<Rightarrow> Inl (GoErr ''cannot convert map to bool'')
      | _ \<Rightarrow> Inl (GoErr ''cannot convert type to bool''))"

definition hex_address :: "arg_env \<Rightarrow> string \<Rightarrow> go_error + go_value" where
  "hex_address env s =
     (if \<not> IsHexAddress env s then Inl (GoErr (''invalid Ethereum address: '' @ s)) else Inr (VAddress (AddressOfHex env s)))"

definition convertToAddress :: "arg_env \<Rightarrow> json \<Rightarrow> go_error + go_value" where
  "convertToAddress env v =
     (case v of
        JStr s \<Rightarrow> hex_address env s
      | JObj fs \<Rightarrow>
          (case map_of fs ''address'' of
             Some (JStr s) \<Rightarrow> hex_address env s
           | _ \<Rightarrow> Inl (GoErr ''cannot convert map to address''))
      | _ \<Rightarrow> Inl (GoErr ''cannot convert type to address''))"

definition to_bytes :: "string \<Rightarrow> 8 word list" where
  "to_bytes s = map of_char s"

definition convertToBytes :: "arg_env \<Rightarrow> json \<Rightarrow> go_error + go_value" where
  "convertToBytes env v =
     (case v of
        JStr s \<Rightarrow> Inr (VBytes (if prefix ''0x'' s then FromHex env s else to_bytes s))
      | JObj _ \<Rightarrow> Inr (VBytes (to_bytes (MarshalJSON env v)))
      | _ \<Rightarrow> Inl (GoErr ''cannot convert type to bytes''))"

definition convertToFixedBytes :: "arg_env \<Rightarrow> json \<Rightarrow> nat \<Rightarrow> go_error + go_value" where
  "convertToFixedBytes env v n =
     (case v of
        JStr s \<Rightarrow>
          if prefix ''0x'' s then
            (if length (FromHex env s) \<noteq> n then Inl (GoErr ''hex string length mismatch'') else Inr (VFixed (FromHex env s)))
          else Inl (GoErr ''invalid hex string for fixed bytes'')
      | _ \<Rightarrow> Inl (GoErr ''cannot convert type to fixed bytes''))"

section \<open>Arrays and structs\<close>

text \<open>\<open>json.Unmarshal\<close> into a slice or a map: null gives a nil one.\<close>

definition source_array :: "arg_env \<Rightarrow> json \<Rightarrow> go_error + json list" where
  "source_array env v =
     (case v of
        JArr xs \<Rightarrow> Inr xs
      | JStr s \<Rightarrow>
          (case ParseJSON env s of
             Inr (JArr xs) \<Rightarrow> Inr xs
           | Inr JNull \<Rightarrow> Inr []
           | Inr _ \<Rightarrow> Inl (GoErr ''failed to parse string as JSON array'')
           | Inl e \<Rightarrow> Inl (Wrap ''failed to parse string as JSON array'' e))
      | JObj _ \<Rightarrow> Inl (GoErr ''failed to parse map as JSON array'')
      | _ \<Rightarrow> Inl (GoErr ''cannot convert type to array/slice''))"

definition json_object :: "arg_env \<Rightarrow> string \<Rightarrow> go_error + (string \<times> json) list" where
  "json_object env s =
     (case ParseJSON env s of
        Inr (JObj fs) \<Rightarrow> Inr fs
      | Inr JNull \<Rightarrow> Inr []
      | Inr _ \<Rightarrow> Inl (GoErr ''json: cannot unmarshal into a map'')
      | Inl e \<Rightarrow> Inl e)"

definition source_map :: "arg_env \<Rightarrow> json \<Rightarrow> go_error + (string \<times> json) list" where
  "source_map env v =
     (case v of
        JObj fs \<Rightarrow> Inr fs
      | JStr s \<Rightarrow> (case json_object env s of Inl e \<Rightarrow> Inl (Wrap ''failed to parse string as JSON object'' e) | Inr fs \<Rightarrow> Inr fs)
      | _ \<Rightarrow> Inl (GoErr ''cannot convert type to struct''))"

text \<open>An exact key, or the first key that differs in case only, in the order in which the map is ranged over.\<close>

definition lookup_fold :: "(string \<times> json) list \<Rightarrow> string \<Rightarrow> json option" where
  "lookup_fold fs name =
     (case map_of fs name of
        Some v \<Rightarrow> Some v
      | None \<Rightarrow> map_option snd (find (\<lambda>(k, v). EqualFold k name) fs))"

text \<open>The place of the struct field with a given raw name, among the Go names of the fields.\<close>

fun field_index :: "string list \<Rightarrow> string \<Rightarrow> nat option" where
  "field_index [] name = None"
| "field_index (g # gs) name = (if EqualFold g name then Some 0 else map_option Suc (field_index gs name))"

fun zero_value :: "abi_type \<Rightarrow> go_value" where
  "zero_value (UintTy w) = (if w \<in> {8, 16, 32, 64} then VInt 0 else VBig None)"
| "zero_value (IntTy w) = (if w \<in> {8, 16, 32, 64} then VInt 0 else VBig None)"
| "zero_value StringTy = VStr []"
| "zero_value BoolTy = VBool False"
| "zero_value AddressTy = VAddress (replicate 20 0)"
| "zero_value BytesTy = VBytes []"
| "zero_value (FixedBytesTy n) = VFixed (replicate n 0)"
| "zero_value (ArrayTy n t) = VArray (replicate n (zero_value t))"
| "zero_value (SliceTy t) = VSlice []"
| "zero_value (TupleTy cs) = VStruct (map (\<lambda>c. zero_value (snd c)) cs)"
| "zero_value OtherTy = VBig None"

fun res_map :: "string \<Rightarrow> ('a \<Rightarrow> go_error + 'b) \<Rightarrow> 'a list \<Rightarrow> go_error + 'b list" where
  "res_map msg f [] = Inr []"
| "res_map msg f (x # xs) =
     (case f x of Inl e \<Rightarrow> Inl (Wrap msg e) | Inr y \<Rightarrow> res_bind (res_map msg f xs) (\<lambda>ys. Inr (y # ys)))"

fun convertToType :: "arg_env \<Rightarrow> json \<Rightarrow> abi_type \<Rightarrow> go_error + go_value" and
    set_fields :: "arg_env \<Rightarrow> (string \<times> json) list \<Rightarrow> string list \<Rightarrow> (string \<times> abi_type) list \<Rightarrow> go_value list
      \<Rightarrow> go_error + go_value list" where
  "convertToType env v (UintTy w) = convertToInteger v (UintTy w)"
| "convertToType env v (IntTy w) = convertToInteger v (IntTy w)"
| "convertToType env v StringTy = convertToString env v"
| "convertToType env v BoolTy = convertToBool v"
| "convertToType env v AddressTy = convertToAddress env v"
| "convertToType env v BytesTy = convertToBytes env v"
| "convertToType env v (FixedBytesTy n) = convertToFixedBytes env v n"
| "convertToType env v (ArrayTy n t) =
     res_bind (source_array env v) (\<lambda>xs.
       if length xs \<noteq> n then Inl (GoErr ''array length mismatch'')
       else res_bind (res_map ''error converting array element'' (\<lambda>x. convertToType env x t) xs) (\<lambda>ys. Inr (VArray ys)))"
| "convertToType env v (SliceTy t) =
     res_bind (source_array env v) (\<lambda>xs.
       res_bind (res_map ''error converting array element'' (\<lambda>x. convertToType env x t) xs) (\<lambda>ys. Inr (VSlice ys)))"
| "convertToType env v (TupleTy cs) =
     res_bind (source_map env v) (\<lambda>fs.
       res_bind (set_fields env fs (map (\<lambda>c. GoFieldName env (fst c)) cs) cs (map (\<lambda>c. zero_value (snd c)) cs)) (\<lambda>ys.
       Inr (VStruct ys)))"
| "convertToType env v OtherTy = Inl (GoErr ''unsupported type conversion'')"
| "set_fields env fs names [] ys = Inr ys"
| "set_fields env fs names ((name, t) # cs) ys =
     (case lookup_fold fs name of
        None \<Rightarrow> set_fields env fs names cs ys
      | Some v \<Rightarrow>
          (case convertToType env v t of
             Inl e \<Rightarrow> Inl (Wrap (''error converting struct field '' @ name) e)
           | Inr x \<Rightarrow>
               (case field_index names name of
                  None \<Rightarrow> Inl (GoErr (''struct field '' @ name @ '' not found''))
                | Some j \<Rightarrow> set_fields env fs names cs (ys[j := x]))))"

section \<open>The arguments of a call\<close>

type_synonym method_inputs = "(string \<times> abi_type) list"

fun convert_each :: "arg_env \<Rightarrow> json list \<Rightarrow> method_inputs \<Rightarrow> go_error + go_value list" where
  "convert_each env vs [] = Inr []"
| "convert_each env [] (i # is) = Inl (GoErr ''not enough arguments'')"
| "convert_each env (v # vs) (i # is) =
     (case convertToType env v (snd i) of
        Inl e \<Rightarrow> Inl (Wrap ''error converting argument'' e)
      | Inr x \<Rightarrow> res_bind (convert_each env vs is) (\<lambda>xs. Inr (x # xs)))"

fun convert_named :: "arg_env \<Rightarrow> (string \<times> json) list \<Rightarrow> method_inputs \<Rightarrow> go_error + go_value list" where
  "convert_named env fs [] = Inr []"
| "convert_named env fs (i # is) =
     (if fst i = [] then Inl (GoErr ''cannot use map arguments with unnamed parameters'')
      else (case lookup_fold fs (fst i) of
          None \<Rightarrow> Inl (GoErr (''argument '' @ fst i @ '' not found in input data''))
        | Some v \<Rightarrow>
            (case convertToType env v (snd i) of
               Inl e \<Rightarrow> Inl (Wrap (''error converting argument '' @ fst i) e)
             | Inr x \<Rightarrow> res_bind (convert_named env fs is) (\<lambda>xs. Inr (x # xs)))))"

text \<open>\<open>strings.Trim(s, "\"")\<close>.\<close>

definition trim_quotes :: "string \<Rightarrow> string" where
  "trim_quotes s = rev (dropWhile (\<lambda>c. c = CHR 0x22) (rev (dropWhile (\<lambda>c. c = CHR 0x22) s)))"

text \<open>A struct on its own may come as an object, as the text of one, or in a list of one; \<open>None\<close> where none of these fits.\<close>

definition single_struct :: "arg_env \<Rightarrow> json \<Rightarrow> (string \<times> json) list option" where
  "single_struct env args =
     (let text = (\<lambda>s. case json_object env s of Inr fs \<Rightarrow> Some fs | Inl _ \<Rightarrow> None) in
      case args of
        JObj fs \<Rightarrow> Some fs
      | JStr s \<Rightarrow> text s
      | JArr [JObj fs] \<Rightarrow> Some fs
      | JArr [JStr s] \<Rightarrow> text s
      | _ \<Rightarrow> None)"

definition general_arguments :: "arg_env \<Rightarrow> json \<Rightarrow> method_inputs \<Rightarrow> go_error + go_value list" where
  "general_arguments env args inputs =
     (case args of
        JStr s \<Rightarrow>
          if length inputs = 1 then
            (let s' = (if prefix [CHR 0x22] s \<and> suffix [CHR 0x22] s then trim_quotes s else s)
             in convert_each env [JStr s'] inputs)
          else (case ParseJSON env s of
              Inr (JArr vs) \<Rightarrow>
                if length vs < length inputs then Inl (GoErr ''not enough arguments in JSON array'') else convert_each env vs inputs
            | Inr JNull \<Rightarrow> Inl (GoErr ''not enough arguments in JSON array'')
            | _ \<Rightarrow> Inl (GoErr ''cannot convert single string to several arguments''))
      | JArr vs \<Rightarrow>
          if length vs < length inputs then Inl (GoErr ''not enough arguments provided'') else convert_each env vs inputs
      | JObj fs \<Rightarrow> convert_named env fs inputs
      | _ \<Rightarrow> Inl (GoErr ''unsupported argument format''))"

definition processArguments :: "arg_env \<Rightarrow> json \<Rightarrow> method_inputs \<Rightarrow> go_error + go_value list" where
  "processArguments env args inputs =
     (if args = JNull then Inl (GoErr ''nil arguments provided'')
      else if inputs = [] then Inr []
      else (case inputs of
          [(name, TupleTy cs)] \<Rightarrow>
            (case single_struct env args of
               Some fs \<Rightarrow>
                 (case convertToType env (JObj fs) (TupleTy cs) of
                    Inl e \<Rightarrow> Inl (Wrap ''error converting to struct'' e)
                  | Inr x \<Rightarrow> Inr [x])
             | None \<Rightarrow> general_arguments env args inputs)
        | _ \<Rightarrow> general_arguments env args inputs))"

definition parseStaticArgs :: "string list \<Rightarrow> json list" where
  "parseStaticArgs args = map JStr args"

section \<open>What a script prints\<close>

definition is_numeric :: "char \<Rightarrow> bool" where
  "is_numeric c \<longleftrightarrow> is_digit c \<or> c = CHR ''.''"

definition is_space :: "char \<Rightarrow> bool" where
  "is_space c \<longleftrightarrow> (of_char c :: nat) \<in> {9, 10, 12, 13, 32}"

text \<open>The groups of \<open>Response:\s*([\d\.]+)\<close> and the matches of \<open>[\d\.]+\<close>, from left to right.\<close>

function responses :: "string \<Rightarrow> string list" where
  "responses s =
     (if s = [] then []
      else let r = dropWhile is_space (drop 9 s); m = takeWhile is_numeric r in
        if prefix ''Response:'' s \<and> m \<noteq> [] then m # responses (dropWhile is_numeric r) else responses (tl s))"
  by pat_completeness auto
termination
proof (relation "measure length", simp_all add: Let_def)
  fix s :: string
  assume "s \<noteq> []"
  have "length (dropWhile is_numeric (dropWhile is_space (drop 9 s))) \<le> length (drop 9 s)"
    by (metis length_dropWhile_le order_trans)
  also have "\<dots> < length s" using \<open>s \<noteq> []\<close> by (cases s) auto
  finally show "length (dropWhile is_numeric (dropWhile is_space (drop 9 s))) < length s" .
qed

declare responses.simps [simp del]

function numeric_runs :: "string \<Rightarrow> string list" where
  "numeric_runs s =
     (let r = dropWhile (\<lambda>c. \<not> is_numeric c) s in
      if r = [] then [] else takeWhile is_numeric r # numeric_runs (dropWhile is_numeric r))"
  by pat_completeness auto
termination
proof (relation "measure length", simp_all)
  fix s :: string
  assume "\<exists>x\<in>set s. is_numeric x"
  then obtain c t where r: "dropWhile (\<lambda>c. \<not> is_numeric c) s = c # t" and c: "is_numeric c"
    by (metis dropWhile_eq_Nil_conv hd_dropWhile list.exhaust_sel)
  have "length (dropWhile is_numeric (c # t)) \<le> length t" using c by (simp add: length_dropWhile_le)
  also have "\<dots> < length s" using length_dropWhile_le [of "\<lambda>c. \<not> is_numeric c" s] r by simp
  finally show "length (dropWhile is_numeric (dropWhile (\<lambda>c. \<not> is_numeric c) s)) < length s" by (simp add: r)
qed

declare numeric_runs.simps [simp del]

definition response_value :: "string \<Rightarrow> json" where
  "response_value m = (case ParseFloat m of Inr x \<Rightarrow> JNum x | Inl _ \<Rightarrow> JStr m)"

definition significant :: "string list \<Rightarrow> json list" where
  "significant ms = List.map_filter (\<lambda>m. case ParseFloat m of Inr x \<Rightarrow> if 100 < x then Some (JNum x) else None | Inl _ \<Rightarrow> None) ms"

definition parseDynamicArgs :: "arg_env \<Rightarrow> string \<Rightarrow> json list" where
  "parseDynamicArgs env output =
     (let arr = (case ParseJSON env output of Inr (JArr xs) \<Rightarrow> xs | _ \<Rightarrow> []) in
      if arr \<noteq> [] then arr
      else if responses output \<noteq> [] then map response_value (responses output)
      else if significant (numeric_runs output) \<noteq> [] then significant (numeric_runs output)
      else if contains ''Condition satisfied: true'' output then [JBool True]
      else [JStr ''0''])"

section \<open>Types are kept\<close>

text \<open>The Go type that reflection expects for a type of the ABI; \<open>reflect.Set\<close> panics on any other.\<close>

fun has_type :: "go_value \<Rightarrow> abi_type \<Rightarrow> bool" and
    has_types :: "go_value list \<Rightarrow> (string \<times> abi_type) list \<Rightarrow> bool" where
  "has_type x (UintTy w) = (if w \<in> {8, 16, 32, 64} then \<exists>n. x = VInt n \<and> 0 \<le> n \<and> n < 2 ^ w else \<exists>b. x = VBig b)"
| "has_type x (IntTy w) =
     (if w \<in> {8, 16, 32, 64} then \<exists>n. x = VInt n \<and> - (2 ^ (w - 1)) \<le> n \<and> n < 2 ^ (w - 1) else \<exists>b. x = VBig b)"
| "has_type x StringTy = (\<exists>s. x = VStr s)"
| "has_type x BoolTy = (\<exists>b. x = VBool b)"
| "has_type x AddressTy = (\<exists>a. x = VAddress a)"
| "has_type x BytesTy = (\<exists>b. x = VBytes b)"
| "has_type x (FixedBytesTy n) = (\<exists>b. x = VFixed b \<and> length b = n)"
| "has_type x (ArrayTy n t) = (\<exists>xs. x = VArray xs \<and> length xs = n \<and> (\<forall>y \<in> set xs. has_type y t))"
| "has_type x (SliceTy t) = (\<exists>xs. x = VSlice xs \<and> (\<forall>y \<in> set xs. has_type y t))"
| "has_type x (TupleTy cs) = (\<exists>xs. x = VStruct xs \<and> has_types xs cs)"
| "has_type x OtherTy = False"
| "has_types xs [] = (xs = [])"
| "has_types xs (c # cs) = (\<exists>y ys. xs = y # ys \<and> has_type y (snd c) \<and> has_types ys cs)"

text \<open>The type is one of the ABI, and the field that Go finds by a component's name, if any, is the component's own.\<close>

fun type_ok :: "arg_env \<Rightarrow> abi_type \<Rightarrow> bool" where
  "type_ok env (ArrayTy n t) = type_ok env t"
| "type_ok env (SliceTy t) = type_ok env t"
| "type_ok env (TupleTy cs) = ((\<forall>c \<in> set cs. type_ok env (snd c)) \<and>
     (\<forall>i < length cs. field_index (map (\<lambda>c. GoFieldName env (fst c)) cs) (fst (cs ! i)) \<in> {None, Some i}))"
| "type_ok env OtherTy = False"
| "type_ok env _ = True"

lemma f64_to_i64_range:
  assumes "of_int lo \<le> x" and "x \<le> of_int hi" and "lo \<le> 0" and "0 \<le> hi" and "in_i64 lo" and "in_i64 hi"
  shows "lo \<le> f64_to_i64 x \<and> f64_to_i64 x \<le> hi"
proof (cases "0 \<le> x")
  case True
  then have "0 \<le> \<lfloor>x\<rfloor>" "\<lfloor>x\<rfloor> \<le> hi" using assms(2) by (simp_all add: floor_le_iff)
  moreover from this have "in_i64 \<lfloor>x\<rfloor>" using assms(6) unfolding in_i64_def by linarith
  moreover have "f64_to_i64 x = \<lfloor>x\<rfloor>" using True calculation(3) by (simp add: f64_to_i64_def)
  ultimately show ?thesis using assms(3) by linarith
next
  case False
  then have "\<lceil>x\<rceil> \<le> 0" "lo \<le> \<lceil>x\<rceil>" using assms(1) by (simp_all add: ceiling_le_iff le_ceiling_iff)
  moreover from this have "in_i64 \<lceil>x\<rceil>" using assms(5) unfolding in_i64_def by linarith
  moreover have "f64_to_i64 x = \<lceil>x\<rceil>" using False calculation(3) by (simp add: f64_to_i64_def)
  ultimately show ?thesis using assms(4) by linarith
qed

lemma ranged_i64:
  assumes "ranged ty (of_int lo) (of_int hi) v = Inr x" and "lo \<le> 0" and "0 \<le> hi" and "in_i64 lo" and "in_i64 hi"
  shows "lo \<le> f64_to_i64 x \<and> f64_to_i64 x < hi + 1"
  using assms f64_to_i64_range [of lo x hi] by (auto simp: ranged_def split: if_splits)

lemmas native_ranges = ranged_i64 [of _ 0 255, simplified] ranged_i64 [of _ 0 65535, simplified]
  ranged_i64 [of _ 0 4294967295, simplified] ranged_i64 [of _ "-128" 127, simplified]
  ranged_i64 [of _ "-32768" 32767, simplified] ranged_i64 [of _ "-2147483648" 2147483647, simplified]

lemma i64_bounds: "- 9223372036854775808 \<le> f64_to_i64 x" "f64_to_i64 x < 9223372036854775808"
  using f64_to_i64_in [of x] by (simp_all add: in_i64_def)

lemma convertToInteger_type:
  assumes "convertToInteger v t = Inr x" and "t = UintTy w \<or> t = IntTy w"
  shows "has_type x t"
  using assms(2)
proof
  assume t: "t = UintTy w"
  show ?thesis
    using assms(1) by (auto simp: t integer_defs f64_to_u64_def in_i64_def dest!: native_ranges split: if_splits json.splits)
next
  assume t: "t = IntTy w"
  show ?thesis
    using assms(1) i64_bounds
    by (auto simp: t integer_defs in_i64_def dest!: native_ranges split: if_splits)
qed

lemma has_types_nth: "has_types xs cs \<longleftrightarrow> length xs = length cs \<and> (\<forall>i < length cs. has_type (xs ! i) (snd (cs ! i)))"
proof (induction cs arbitrary: xs)
  case (Cons c cs)
  then show ?case by (cases xs) (auto simp: All_less_Suc2)
qed simp

lemma has_types_update: "has_types xs cs \<Longrightarrow> i < length cs \<Longrightarrow> has_type y (snd (cs ! i)) \<Longrightarrow> has_types (xs[i := y]) cs"
  by (auto simp: has_types_nth nth_list_update)

lemma zero_value_type: "type_ok env t \<Longrightarrow> has_type (zero_value t) t"
proof (induction t)
  case (TupleTy cs)
  have "has_type (zero_value (snd c)) (snd c)" if "c \<in> set cs" for c
    using TupleTy that by (cases c) auto
  then show ?case by (simp add: has_types_nth)
qed auto

lemma res_map_Inr: "res_map msg f xs = Inr ys \<longleftrightarrow> list_all2 (\<lambda>x y. f x = Inr y) xs ys"
  by (induction xs arbitrary: ys) (auto simp: list_all2_Cons1 split: sum.splits)

lemma res_map_type:
  assumes "res_map msg f xs = Inr ys" and "\<And>x y. f x = Inr y \<Longrightarrow> P y"
  shows "length ys = length xs \<and> (\<forall>y \<in> set ys. P y)"
  using assms(1) assms(2) [of "xs ! i" "ys ! i" for i] by (auto simp: res_map_Inr list_all2_conv_all_nth in_set_conv_nth)

lemma convertToType_types:
  "\<And>x. convertToType env v t = Inr x \<Longrightarrow> type_ok env t \<Longrightarrow> has_type x t"
  "\<And>all k xs. set_fields env fs names cs ys = Inr xs \<Longrightarrow> names = map (\<lambda>c. GoFieldName env (fst c)) all \<Longrightarrow>
     cs = drop k all \<Longrightarrow> type_ok env (TupleTy all) \<Longrightarrow> has_types ys all \<Longrightarrow> has_types xs all"
proof (induction env v t and env fs names cs ys rule: convertToType_set_fields.induct)
  case (1 env v w)
  then show ?case by (intro convertToInteger_type [of v _ _ w]) auto
next
  case (2 env v w)
  then show ?case by (intro convertToInteger_type [of v _ _ w]) auto
next
  case (8 env v n t)
  from "8.prems"(1) obtain xs ys where "source_array env v = Inr xs" "length xs = n" and x: "x = VArray ys"
    and ys: "res_map ''error converting array element'' (\<lambda>x. convertToType env x t) xs = Inr ys"
    by (auto split: if_splits)
  moreover from this 8 have "\<And>v y. convertToType env v t = Inr y \<Longrightarrow> has_type y t" by simp
  ultimately show ?case using res_map_type [OF ys, of "\<lambda>y. has_type y t"] by simp
next
  case (9 env v t)
  from "9.prems"(1) obtain xs ys where "source_array env v = Inr xs" and x: "x = VSlice ys"
    and ys: "res_map ''error converting array element'' (\<lambda>x. convertToType env x t) xs = Inr ys"
    by auto
  moreover from this 9 have "\<And>v y. convertToType env v t = Inr y \<Longrightarrow> has_type y t" by simp
  ultimately show ?case using res_map_type [OF ys, of "\<lambda>y. has_type y t"] by simp
next
  case (10 env v cs)
  have "has_types (map (\<lambda>c. zero_value (snd c)) cs) cs"
    using "10.prems"(2) by (auto simp: has_types_nth intro: zero_value_type)
  then show ?case using 10(1) [where k = 0] "10.prems" by fastforce
next
  case (13 env fs names name t cs ys)
  then have k: "k < length all" "all ! k = (name, t)" "cs = drop (Suc k) all" "t = snd (all ! k)"
    by (metis drop_eq_Nil2 linorder_not_le list.discI, metis drop_eq_Nil2 hd_drop_conv_nth leI list.discI list.sel(1),
        metis drop_Suc list.sel(3) tl_drop, metis drop_eq_Nil2 hd_drop_conv_nth leI list.discI list.sel(1) snd_conv)
  have IH: "lookup_fold fs name = None \<Longrightarrow> set_fields env fs names cs ys = Inr xs \<Longrightarrow> has_types xs all"
    using 13(1) [OF _ _ "13.prems"(2) k(3) "13.prems"(4,5)] by blast
  show ?case
  proof (cases "lookup_fold fs name")
    case None
    then show ?thesis using IH "13.prems"(1) by simp
  next
    case (Some v)
    then obtain x j where x: "convertToType env v t = Inr x" "field_index names name = Some j"
      and rest: "set_fields env fs names cs (ys[j := x]) = Inr xs"
      using "13.prems"(1) by (auto split: sum.splits option.splits)
    have t: "type_ok env t" using "13.prems"(4) k by (metis nth_mem snd_conv type_ok.simps(3))
    have "field_index names name \<in> {None, Some k}"
      using "13.prems"(2,4) k(1,2) by (metis fst_conv type_ok.simps(3))
    then have "j = k" using x(2) by simp
    then have "has_types (ys[j := x]) all"
      using has_types_update [OF "13.prems"(5) k(1)] 13(2) [OF Some x(1) t] k(4) by simp
    then show ?thesis using 13(3) [OF Some x _ "13.prems"(2) k(3) "13.prems"(4)] rest by blast
  qed
qed (auto simp: convertToString_def convertToBool_def convertToAddress_def hex_address_def convertToBytes_def
   convertToFixedBytes_def split: json.splits if_splits option.splits)

lemma convert_each_type:
  "convert_each env vs is = Inr xs \<Longrightarrow> \<forall>i \<in> set is. type_ok env (snd i) \<Longrightarrow> list_all2 has_type xs (map snd is)"
  by (induction env vs "is" arbitrary: xs rule: convert_each.induct) (auto split: sum.splits dest: convertToType_types(1))

lemma convert_named_type:
  "convert_named env fs is = Inr xs \<Longrightarrow> \<forall>i \<in> set is. type_ok env (snd i) \<Longrightarrow> list_all2 has_type xs (map snd is)"
  by (induction env fs "is" arbitrary: xs rule: convert_named.induct)
     (auto split: if_splits sum.splits option.splits dest: convertToType_types(1))

lemma general_arguments_type:
  "general_arguments env args is = Inr xs \<Longrightarrow> \<forall>i \<in> set is. type_ok env (snd i) \<Longrightarrow> list_all2 has_type xs (map snd is)"
  unfolding general_arguments_def
  by (auto simp: Let_def simp del: convert_each.simps split: json.splits if_splits sum.splits
      dest: convert_each_type convert_named_type)

section \<open>A small instance\<close>

definition demo_args :: arg_env where
  "demo_args = \<lparr>FormatFloat = \<lambda>_. [], MarshalJSON = \<lambda>_. [], ParseJSON = \<lambda>_. Inl (GoErr ''invalid character''),
     IsHexAddress = \<lambda>s. length s = 42, AddressOfHex = \<lambda>s. replicate 20 0, FromHex = \<lambda>s. [], GoFieldName = \<lambda>s. s\<rparr>"

section \<open>Properties\<close>

text \<open>
  C2: The values of a call have the Go types of the method's parameters, number by number and width by width, whatever the
  job or the script has given; so neither reflection nor the encoder can meet a value of another type.
\<close>

theorem arguments_well_typed:
  assumes "processArguments env args inputs = Inr xs" and "\<forall>i \<in> set inputs. type_ok env (snd i)"
  shows "list_all2 has_type xs (map snd inputs)"
proof -
  have "list_all2 has_type xs (map snd inputs)" if "convertToType env (JObj fs) (TupleTy cs) = Inr x" "xs = [x]"
    "inputs = [(name, TupleTy cs)]" for fs cs x name
    using convertToType_types(1) [OF that(1)] assms(2) that(2,3) by simp
  then show ?thesis
    using assms(1) general_arguments_type [OF _ assms(2)]
    by (auto simp: processArguments_def simp del: convertToType.simps has_type.simps split: if_splits list.splits prod.splits abi_type.splits option.splits sum.splits)
qed

theorem arguments_well_typed_witness:
  "list_all2 has_type [VInt 7, VStruct [VBool True]] [UintTy 8, TupleTy [(''a'', BoolTy)]]"
proof -
  let ?inputs = "[(''n'', UintTy 8), (''s'', TupleTy [(''a'', BoolTy)])]"
  have "show_nat 7 = ''7''" by code_simp
  then have "ParseFloat ''7'' = Inr 7" using ParseFloat_nat [of 7] f64_of_nat_exact [of 7] by simp
  then have "processArguments demo_args (JArr [JStr ''7'', JObj [(''a'', JBool True)]]) ?inputs = Inr [VInt 7, VStruct [VBool True]]"
    by (simp add: processArguments_def general_arguments_def integer_defs ranged_def number_def f64_to_i64_def in_i64_def
        source_map_def convertToBool_def lookup_fold_def EqualFold_def demo_args_def)
  moreover have "\<forall>i \<in> set ?inputs. type_ok demo_args (snd i)"
    by (simp add: EqualFold_def demo_args_def)
  ultimately show ?thesis using arguments_well_typed by fastforce
qed

text \<open>
  An unsigned integer that the job gives in decimal digits reaches the contract unchanged if it is at most \<open>2 ^ 53\<close>, for every
  width that Go holds in a big integer.
\<close>

theorem small_integer_exact:
  assumes "n \<le> 2 ^ 53" and "w \<notin> {8, 16, 32, 64}"
  shows "convertToType env (JStr (show_nat n)) (UintTy w) = Inr (VBig (Some (int n)))"
proof -
  have "n < 2 ^ 256" using assms(1) by (rule le_less_trans) simp
  moreover have "f64_to_i64 (of_nat n) = int n"
    using assms(1) by (simp add: f64_to_i64_def in_i64_def)
  ultimately show ?thesis
    using assms ParseFloat_nat [of n] by (simp add: integer_defs number_def f64_of_nat_exact)
qed

theorem small_integer_exact_witness:
  "convertToType demo_args (JStr (show_nat 9007199254740992)) (UintTy 256) = Inr (VBig (Some 9007199254740992))"
  using small_integer_exact [of 9007199254740992 256 demo_args] by simp

text \<open>
  An unsigned integer of at least \<open>2 ^ 63\<close>, such as ten tokens of eighteen decimals, reaches the contract as the least 64-bit
  number: the code goes through \<open>float64\<close> and \<open>int64\<close>, also for \<open>uint256\<close>.
\<close>

theorem large_integer_corrupted:
  assumes "2 ^ 63 \<le> n" and "n < 2 ^ 256" and "w \<notin> {8, 16, 32, 64}"
  shows "convertToType env (JStr (show_nat n)) (UintTy w) = Inr (VBig (Some (- (2 ^ 63))))"
proof -
  have "(of_nat (2 ^ 63) :: rat) \<le> of_nat n" using assms(1) by (simp only: of_nat_le_iff)
  then have n: "(2::rat) powi 63 \<le> of_nat n" by (simp add: power_int_def)
  then have "(2::rat) powi 63 \<le> f64 (of_nat n)"
    by (intro f64_ge_pow2) (use assms(1) in \<open>auto intro: Nat.gr0I\<close>)
  then have "2 ^ 63 \<le> f64 (of_nat n)" by (simp add: power_int_def)
  then have "f64_to_i64 (f64 (of_nat n)) = - (2 ^ 63)"
    by (auto simp: f64_to_i64_def in_i64_def le_floor_iff)
  then show ?thesis
    using assms ParseFloat_nat [OF assms(2)] by (simp add: integer_defs number_def)
qed

theorem large_integer_corrupted_witness:
  "convertToType demo_args (JStr (show_nat 10000000000000000000)) (UintTy 256) = Inr (VBig (Some (- (2 ^ 63))))"
  using large_integer_corrupted [of 10000000000000000000 256 demo_args] by simp

end
