(* ===== verification/Dispatcher.thy ===== *)
theory Dispatcher
  imports Task_Dispatch Keeper_Validation
begin

text \<open>
  The task dispatcher's service (\<open>internal/taskdispatcher/taskdispatcher.go\<close>, \<open>health_client.go\<close>): it chooses the
  performer, signs what a scheduler has submitted and records one task, or every task of a batch. The streams are
  those of \<open>Task_Dispatch\<close>, the signatures those of \<open>Signing\<close>; the properties compose them with the keeper's
  check of \<open>Keeper_Validation\<close>. The texts of instants are arguments.
\<close>

section \<open>Data\<close>

record ('k, 'q) TaskDispatcher =
  SignerCrypto :: "('k, 'q) crypto"
  SignerTime :: "int \<Rightarrow> string"
  RFC3339 :: "int \<Rightarrow> string"
  signingKey :: string

section \<open>Operations\<close>

text \<open>No performer is read from the health service: the list is empty, and a fixed one takes its place.\<close>

definition fallbackPerformers :: "PerformerData list" where
  "fallbackPerformers =
     [\<lparr>OperatorID = 2, PfKeeperAddress = ''0x0a067a261c5F5e8C4c0b9137430b4FE1255EB62e'', PfIsImua = False\<rparr>,
      \<lparr>OperatorID = 1, PfKeeperAddress = ''0xcacce39134e3b9d5d9220d87fc546c6f0fb9cc37'', PfIsImua = True\<rparr>]"

definition GetPerformerData :: "bool \<Rightarrow> bool \<Rightarrow> go_error + PerformerData" where
  "GetPerformerData isImua isMainnet =
     (if isMainnet then
        Inr \<lparr>OperatorID = 1002, PfKeeperAddress = ''0x235813b36eea7e48b7069821a78c0bc8384a3c79'', PfIsImua = False\<rparr>
      else
        let available = [];
            performers = (if available = [] then fallbackPerformers else available);
            filtered = foldl (\<lambda>p q. if PfIsImua q = isImua then q else p) no_performer performers
        in if filtered = no_performer then Inl (GoErr ''no suitable performers available'') else Inr filtered)"

definition nth_or_panic :: "'a list \<Rightarrow> nat \<Rightarrow> 'a prog" where
  "nth_or_panic xs i = (if i < length xs then io_ret (xs ! i) else panic)"

definition stream_data :: "int \<Rightarrow> bool \<Rightarrow> SendTaskDataToKeeper \<Rightarrow> TaskTargetData \<Rightarrow> TaskStreamData" where
  "stream_data createdAt mainnet send target =
     \<lparr>JobID = TgJobID target, TaskDefinitionID = TgTaskDefinitionID target, CreatedAt = createdAt, IsMainnet = mainnet,
      RetryCount = 0, LastAttemptAt = None, SendTaskData = send, DispatchedAt = None, CompletedAt = None, LastError = []\<rparr>"

text \<open>The task of one place of a batch, under the signature of the batch.\<close>

definition individual :: "SendTaskDataToKeeper \<Rightarrow> int \<Rightarrow> TaskTargetData \<Rightarrow> TaskTriggerData \<Rightarrow> SendTaskDataToKeeper" where
  "individual sg taskID target trigger = sg\<lparr>TaskID := [taskID], TargetData := [target], TriggerData := [trigger]\<rparr>"

definition submit_individual :: "services \<Rightarrow> codec \<Rightarrow> bool \<Rightarrow> SendTaskDataToKeeper \<Rightarrow> nat \<Rightarrow> unit prog" where
  "submit_individual sv cd mainnet sg i =
     io_bind (nth_or_panic (TaskID sg) i) (\<lambda>taskID.
     io_bind (nth_or_panic (TargetData sg) i) (\<lambda>target.
     io_bind (nth_or_panic (TriggerData sg) i) (\<lambda>trigger.
     io_bind (now sv) (\<lambda>t.
     ignore (AddTaskToDispatchedStream sv cd (stream_data t mainnet (individual sg taskID target trigger) target))))))"

definition accepted :: "('k, 'q) TaskDispatcher \<Rightarrow> services \<Rightarrow> int \<Rightarrow> TaskManagerAPIResponse prog" where
  "accepted d sv taskID =
     io_bind (now sv) (\<lambda>t. io_ret \<lparr>Success = True, RespTaskID = [taskID], Message = ''Task submitted successfully'',
       Timestamp = RFC3339 d t, RespError = []\<rparr>)"

definition sign_request :: "('k, 'q) TaskDispatcher \<Rightarrow> bool \<Rightarrow> TaskTargetData \<Rightarrow> SendTaskDataToKeeper \<Rightarrow> go_error + SendTaskDataToKeeper" where
  "sign_request d mainnet target send =
     (case GetPerformerData (TgIsImua target) mainnet of
        Inl e \<Rightarrow> Inl (Wrap ''failed to get performer'' e)
      | Inr performer \<Rightarrow>
          (let send' = send\<lparr>Performer := performer\<rparr> in
           case SignJSONMessage (SignerCrypto d) (j_send (SignerTime d) send') (signingKey d) of
             Inl e \<Rightarrow> Inl (Wrap ''failed to sign task data'' e)
           | Inr signature \<Rightarrow> Inr (send'\<lparr>ManagerSignature := signature\<rparr>)))"

definition SubmitTaskFromScheduler :: "('k, 'q) TaskDispatcher \<Rightarrow> services \<Rightarrow> codec \<Rightarrow> SchedulerTaskRequest option
    \<Rightarrow> TaskManagerAPIResponse prog" where
  "SubmitTaskFromScheduler d sv cd req =
     (case req of
        None \<Rightarrow> io_fail (GoErr ''nil request'')
      | Some r \<Rightarrow>
          (case (TaskID (RequestData r), TriggerData (RequestData r), TargetData (RequestData r)) of
             ([], _, _) \<Rightarrow> io_fail (GoErr ''missing task id'')
           | (_, [], _) \<Rightarrow> io_fail (GoErr ''missing trigger data'')
           | (_, _, []) \<Rightarrow> io_fail (GoErr ''missing target data'')
           | (taskID # _, _, target # _) \<Rightarrow>
               (let mainnet = (TargetChainID target = ''42161'') in
                case sign_request d mainnet target (RequestData r) of
                  Inl e \<Rightarrow> io_fail e
                | Inr sg \<Rightarrow>
                    if 1 < length (TaskID sg) then
                      io_bind (io_each (submit_individual sv cd mainnet sg) [0..<length (TaskID sg)]) (\<lambda>_.
                      accepted d sv taskID)
                    else
                      io_bind (now sv) (\<lambda>t.
                      io_bind (io_wrap ''failed to add task to batch processor''
                                 (AddTaskToDispatchedStream sv cd (stream_data t mainnet sg target))) (\<lambda>_.
                      accepted d sv taskID)))))"

section \<open>Programs that return\<close>

text \<open>A program that neither panics nor loops, from any state.\<close>

definition returns :: "'a prog \<Rightarrow> bool" where
  "returns m \<longleftrightarrow> (\<forall>s. m s \<noteq> None)"

definition succeeds :: "'a prog \<Rightarrow> bool" where
  "succeeds m \<longleftrightarrow> (\<forall>s. \<exists>a s'. m s = Some (Inr a, s'))"

lemma returns_basic: "returns (io_ret a)" "returns (io_fail e)" "returns (now sv)" "returns (ask f lg)"
  by (simp_all add: returns_def io_ret_def io_fail_def now_def ask_def Let_def)

lemma returns_bind: "returns m \<Longrightarrow> (\<And>a. returns (f a)) \<Longrightarrow> returns (io_bind m f)"
  by (auto simp: returns_def io_bind_def split: option.splits sum.splits)

lemma returns_try: "returns m \<Longrightarrow> returns (io_try m)"
  by (simp add: returns_def io_try_def)

lemma returns_wrap: "returns m \<Longrightarrow> returns (io_wrap msg m)"
  by (simp add: returns_def io_wrap_def)

lemma returns_sum: "(\<And>e. returns (f e)) \<Longrightarrow> (\<And>a. returns (g a)) \<Longrightarrow> returns (case x of Inl e \<Rightarrow> f e | Inr a \<Rightarrow> g a)"
  by (cases x) auto

lemma returns_if: "returns m \<Longrightarrow> returns n \<Longrightarrow> returns (if b then m else n)"
  by simp

lemmas returns_rules = returns_basic returns_bind returns_try returns_wrap returns_sum returns_if

lemma succeeds_ignore: "returns m \<Longrightarrow> succeeds (ignore m)"
  by (auto simp: returns_def succeeds_def ignore_def io_bind_def io_try_def io_ret_def split: option.splits)

lemma succeeds_now: "succeeds (now sv)"
  by (simp add: succeeds_def now_def)

lemma succeeds_bind: "succeeds m \<Longrightarrow> (\<And>a. succeeds (f a)) \<Longrightarrow> succeeds (io_bind m f)"
  unfolding succeeds_def io_bind_def by (metis (no_types, lifting) case_prod_conv option.simps(5) sum.case(2))

lemma succeeds_each: "(\<And>x. x \<in> set xs \<Longrightarrow> succeeds (f x)) \<Longrightarrow> succeeds (io_each f xs)"
  by (induction xs) (auto simp: succeeds_def [of "io_ret ()"] io_ret_def intro!: succeeds_bind)

lemma returns_tracking:
  assumes "TaskID (SendTaskData t) \<noteq> []"
  shows "returns (track_dispatched sv t i)" "returns (track_expiration sv st i)" "returns (first_id t)"
  unfolding track_dispatched_def track_expiration_def storeTaskIndex_def addTaskToTimeoutTracking_def ignore_def
    service_defs first_id_def
  using assms by (auto intro!: returns_rules split: list.splits)

lemma returns_dispatch:
  assumes "TaskID (SendTaskData t) \<noteq> []" and "TargetData (SendTaskData t) \<noteq> []"
  shows "returns (AddTaskToDispatchedStream sv cd t)"
proof -
  have f: "returns (first_target t)" using assms(2) by (auto simp: first_target_def intro: returns_rules split: list.splits)
  note t = returns_tracking [OF assms(1)]
  have x: "returns (xadd sv st j)" for st j unfolding xadd_def by (intro returns_rules)
  show ?thesis
    unfolding AddTaskToDispatchedStream_def send_to_performer_def addTaskToStreamD_def
    by (intro returns_rules t f x)
qed

section \<open>Signed requests\<close>

lemma sign_request_fields:
  "sign_request d mainnet target send = Inr sg \<Longrightarrow> TaskID sg = TaskID send \<and> TargetData sg = TargetData send \<and>
     TriggerData sg = TriggerData send"
  by (auto simp: sign_request_def Let_def split: sum.splits)

text \<open>With a request that carries no signature, what was signed is what the keeper computes from the task.\<close>

lemma sign_request_signature:
  assumes "sign_request d mainnet target send = Inr sg" and "ManagerSignature send = []"
  shows "SignJSONMessage (SignerCrypto d) (j_send (SignerTime d) (sg\<lparr>ManagerSignature := []\<rparr>)) (signingKey d) =
    Inr (ManagerSignature sg)"
  using assms by (cases send) (auto simp: sign_request_def Let_def split: sum.splits)

text \<open>A keeper that checks the signatures of a dispatcher.\<close>

definition trusts :: "('k, 'q, 'w) keeper_env \<Rightarrow> ('k, 'q) TaskDispatcher \<Rightarrow> bool" where
  "trusts env d \<longleftrightarrow> Crypto env = SignerCrypto d \<and> JsonTime env = SignerTime d \<and>
     key_of (Crypto env) (signingKey d) (ManagerSigningAddress env) \<and> (\<exists>e. DecodeHex (Crypto env) [] = Inl e)"

lemma signed_not_empty:
  assumes "sign_request d mainnet target send = Inr sg" and "ManagerSignature send = []" and "trusts env d"
  shows "ManagerSignature sg \<noteq> []"
  using key_never_empty sign_request_signature [OF assms(1,2)] assms(3) unfolding trusts_def by metis

lemma signed_task_valid:
  assumes "sign_request d mainnet target send = Inr sg" and "ManagerSignature send = []" and "trusts env d"
  shows "ValidateManagerSignature env sg = Inr True"
  using assms sign_verify [OF sign_request_signature [OF assms(1,2)]] signed_not_empty [OF assms]
  by (auto simp: ValidateManagerSignature_def trusts_def)

lemma individual_signature [simp]:
  "ManagerSignature (individual sg i t g) = ManagerSignature sg"
  "(individual sg i t g)\<lparr>ManagerSignature := []\<rparr> = individual (sg\<lparr>ManagerSignature := []\<rparr>) i t g"
  by (simp_all add: individual_def)

lemma individual_digest:
  assumes "1 < length (TaskID sg)"
  shows "canonical (j_send tm (individual sg i t g)) \<noteq> canonical (j_send tm sg)"
  using assms
  by (auto simp: canonical_def j_send_def individual_def j_list_def reparse_list_map j_int_def)


section \<open>A small instance\<close>

definition demo_dispatcher :: "(unit, bool) TaskDispatcher" where
  "demo_dispatcher = \<lparr>SignerCrypto = demo_crypto, SignerTime = \<lambda>_. [], RFC3339 = \<lambda>_. [], signingKey = ''key''\<rparr>"

definition demo_batch :: "int list \<Rightarrow> SendTaskDataToKeeper" where
  "demo_batch ids = \<lparr>TaskID = ids, Performer = no_performer, TargetData = map (\<lambda>_. zero_target) ids,
     TriggerData = map (\<lambda>_. zero_trigger) ids, SchedulerID = 1, ManagerSignature = []\<rparr>"

lemma demo_signed: "\<exists>sg. sign_request demo_dispatcher False zero_target send = Inr sg"
  by (simp add: sign_request_def GetPerformerData_def fallbackPerformers_def no_performer_def Let_def demo_dispatcher_def
      zero_target_def SignJSONMessage_def SignMessage_def demo_crypto_def)

lemma demo_trusts: "trusts demo_keeper demo_dispatcher"
  by (simp add: trusts_def demo_keeper_def demo_dispatcher_def demo_key demo_decode_empty)

lemma demo_no_collision:
  assumes "TaskID sg = [4, 5]"
  shows "no_collision demo_crypto (j_send tm (individual sg i t g)) (j_send tm sg)"
proof -
  have "digest demo_crypto (j_send tm sg) = [0]"
    using assms by (simp add: digest_def demo_crypto_def canonical_def j_send_def j_list_def eth_message_def)
  moreover have "digest demo_crypto (j_send tm (individual sg i t g)) = [1]"
    by (simp add: digest_def demo_crypto_def canonical_def j_send_def j_list_def individual_def eth_message_def)
  ultimately show ?thesis by (simp add: no_collision_def)
qed

section \<open>Properties\<close>



text \<open>
  C35: Every task of a batch is refused by the keepers: the batch is signed as a whole, and its signature is put on each of the tasks, whose
  text is another one. (The digests of two texts differ, and a signature is one on a single digest.)
\<close>

theorem batch_tasks_refused:
  assumes "sign_request d mainnet target send = Inr sg" and "ManagerSignature send = []" and "trusts env d"
    and "1 < length (TaskID send)" and "binding (Crypto env) (signingKey d) (ManagerSigningAddress env)"
    and "no_collision (Crypto env) (j_send (JsonTime env) (individual (sg\<lparr>ManagerSignature := []\<rparr>) i tg tr))
      (j_send (JsonTime env) (sg\<lparr>ManagerSignature := []\<rparr>))"
  shows "ValidateManagerSignature env (individual sg i tg tr) \<noteq> Inr True"
proof -
  let ?sg = "sg\<lparr>ManagerSignature := []\<rparr>"
  have "canonical (j_send (JsonTime env) (individual ?sg i tg tr)) \<noteq> canonical (j_send (JsonTime env) ?sg)"
    using assms(4) sign_request_fields [OF assms(1)] by (intro individual_digest) simp
  then have "VerifySignatureFromJSON (Crypto env) (j_send (JsonTime env) (individual ?sg i tg tr)) (ManagerSignature sg)
      (ManagerSigningAddress env) \<noteq> Inr True"
    using sign_verify_other [OF sign_request_signature [OF assms(1,2)]] assms(3,5,6) unfolding trusts_def no_collision_def by metis
  then show ?thesis
    by (auto simp: ValidateManagerSignature_def split: sum.splits)
qed

theorem batch_tasks_refused_witness:
  "\<exists>sg. sign_request demo_dispatcher False zero_target (demo_batch [4, 5]) = Inr sg \<and>
     ValidateManagerSignature demo_keeper (individual sg 4 zero_target zero_trigger) \<noteq> Inr True"
proof -
  obtain sg where sg: "sign_request demo_dispatcher False zero_target (demo_batch [4, 5]) = Inr sg"
    using demo_signed by blast
  have "TaskID sg = [4, 5]" using sign_request_fields [OF sg] by (simp add: demo_batch_def)
  then have "no_collision (Crypto demo_keeper)
      (j_send (JsonTime demo_keeper) (individual (sg\<lparr>ManagerSignature := []\<rparr>) 4 zero_target zero_trigger))
      (j_send (JsonTime demo_keeper) (sg\<lparr>ManagerSignature := []\<rparr>))"
    using demo_no_collision [of "sg\<lparr>ManagerSignature := []\<rparr>"] by (simp add: demo_keeper_def)
  moreover have "binding (Crypto demo_keeper) (signingKey demo_dispatcher) (ManagerSigningAddress demo_keeper)"
    by (simp add: demo_keeper_def demo_key)
  ultimately show ?thesis
    using sg batch_tasks_refused [OF sg _ demo_trusts] by (simp add: demo_batch_def)
qed

text \<open>
  A batch is always reported as submitted once it is signed, with the id of its first task only, whatever the aggregator and
  Redis answer, also when not one of its tasks could be sent.
\<close>

theorem batch_always_succeeds:
  assumes "sign_request d (TargetChainID (TargetData r ! 0) = ''42161'') (TargetData r ! 0) r = Inr sg"
    and "1 < length (TaskID r)" and "length (TargetData r) = length (TaskID r)" and "length (TriggerData r) = length (TaskID r)"
  shows "\<exists>resp s'. SubmitTaskFromScheduler d sv cd (Some \<lparr>RequestData = r, Source = src\<rparr>) s = Some (Inr resp, s') \<and>
    Success resp \<and> RespTaskID resp = [TaskID r ! 0]"
proof -
  let ?m = "TargetChainID (TargetData r ! 0) = ''42161''"
  obtain i "is" t ts g gs where r: "TaskID r = i # is" "TargetData r = t # ts" "TriggerData r = g # gs"
    using assms(2-4) by (cases "TaskID r"; cases "TargetData r"; cases "TriggerData r") auto
  have sg: "TaskID sg = TaskID r" "TargetData sg = TargetData r" "TriggerData sg = TriggerData r"
    using sign_request_fields [OF assms(1)] by auto
  have "succeeds (submit_individual sv cd ?m sg k)" if "k < length (TaskID r)" for k
    using that assms(3,4)
    by (auto simp: submit_individual_def nth_or_panic_def sg succeeds_def [of "io_ret _"] io_ret_def stream_data_def individual_def
        intro!: succeeds_bind succeeds_now succeeds_ignore returns_dispatch)
  then have "succeeds (io_each (submit_individual sv cd ?m sg) [0..<length (TaskID r)])"
    by (intro succeeds_each) simp
  then obtain s1 where "io_each (submit_individual sv cd ?m sg) [0..<length (TaskID r)] s = Some (Inr (), s1)"
    unfolding succeeds_def by (metis old.unit.exhaust)
  then show ?thesis
    using assms(1,2) r sg by (auto simp: SubmitTaskFromScheduler_def Let_def io_bind_def accepted_def now_def io_ret_def)
qed

theorem batch_always_succeeds_witness:
  "\<exists>resp s'. SubmitTaskFromScheduler demo_dispatcher (idle_services\<lparr>SendTaskToPerformer := \<lambda>_ _ _ _ _ _. Inr False\<rparr>) demo_codec
      (Some \<lparr>RequestData = demo_batch [4, 5], Source = ''time''\<rparr>) fresh = Some (Inr resp, s') \<and> Success resp \<and> RespTaskID resp = [4]"
proof -
  have r: "TargetData (demo_batch [4, 5]) ! 0 = zero_target" "TaskID (demo_batch [4, 5]) ! 0 = 4"
    "1 < length (TaskID (demo_batch [4, 5]))" "length (TargetData (demo_batch [4, 5])) = length (TaskID (demo_batch [4, 5]))"
    "length (TriggerData (demo_batch [4, 5])) = length (TaskID (demo_batch [4, 5]))"
    by (simp_all add: demo_batch_def)
  have m: "(TargetChainID zero_target = ''42161'') = False" by (simp add: zero_target_def)
  obtain sg where "sign_request demo_dispatcher False zero_target (demo_batch [4, 5]) = Inr sg"
    using demo_signed by blast
  then show ?thesis using batch_always_succeeds [of demo_dispatcher "demo_batch [4, 5]" sg] r m by (simp only:)
qed

end
