(* ===== verification/Keeper_Execution.thy ===== *)
theory Keeper_Execution
  imports Keeper_Validation Keeper_Arguments Nonce_Manager
begin

text \<open>
  The execution of a task by a keeper (\<open>internal/keeper/core/execution\<close>: \<open>executor.go\<close>, \<open>action.go\<close>,
  \<open>custom_executor.go\<close>, \<open>getContractMethodAndABI\<close> of \<open>utils.go\<close>; \<open>GenerateProof\<close> of \<open>pkg/proof/proof.go\<close>). The keeper checks the
  task, takes a nonce of the chain, runs the script in docker, submits the transaction through the \<open>Nonce_Manager\<close> of
  the chain, and uploads what it has done with a proof and its signature, for the attesters of
  \<open>Keeper_Validation\<close>. Docker, the ABI encoder, IPFS, the aggregator and the configuration are the fields of \<open>executor_env\<close>. The
  goroutines of the targets run one after another, in an order that is an argument. Addresses and call data of
  a submitted transaction are texts. \<open>None\<close> is a panic or a loop that does not return.
\<close>

section \<open>Data\<close>

record DockerResourceStats =
  StMemoryUsage :: int
  StCPUPercentage :: float64
  StRxBytes :: int
  StTxBytes :: int
  StBlockRead :: int
  StBlockWrite :: int
  StBandwidthRate :: float64
  StTotalCost :: "int option"
  StCurrentTotalCost :: "int option"
  StStaticComplexity :: float64
  StDynamicComplexity :: float64

record ExecutionResult =
  Stats :: DockerResourceStats
  Output :: string
  ExSuccess :: bool
  ExError :: string

record CustomScriptOutput =
  ShouldExecute :: bool
  TargetContract :: string
  Calldata :: string
  CsStorageUpdates :: "(string \<times> string) list"

record BroadcastDataForValidators =
  BcProofOfTask :: string
  BcData :: string
  BcTaskDefinitionID :: int
  PerformerAddress :: string

record ('k, 'q, 'w) executor_env =
  Keeper :: "('k, 'q, 'w) keeper_env"
  EthClient :: "string \<Rightarrow> ('w, receipt) eth_api"
  ArgEnv :: arg_env
  ParseABI :: "string \<Rightarrow> go_error + (string \<rightharpoonup> method_inputs)"
  PackCall :: "string \<Rightarrow> method_inputs \<Rightarrow> go_value list \<Rightarrow> go_error + bytes"
  PackExecute :: "int \<Rightarrow> int option \<Rightarrow> bytes \<Rightarrow> bytes \<Rightarrow> go_error + string"
  ValueJSON :: "go_value \<Rightarrow> json"
  DockerExecute :: "string \<Rightarrow> string \<Rightarrow> (string \<times> string) list \<Rightarrow> 'w \<Rightarrow> (go_error + ExecutionResult) \<times> 'w"
  TransactionCost :: float64
  ParseScriptOutput :: "string \<Rightarrow> go_error + CustomScriptOutput"
  EthChainID :: "string \<Rightarrow> 'w \<Rightarrow> (go_error + int) \<times> 'w"
  Sleep :: "int \<Rightarrow> 'w \<Rightarrow> 'w"
  Clock :: "'w \<Rightarrow> int"
  Upload :: "string \<Rightarrow> IPFSData \<Rightarrow> 'w \<Rightarrow> (go_error + string) \<times> 'w"
  FileName :: "int list \<Rightarrow> int \<Rightarrow> string"
  SendTaskToValidators :: "BroadcastDataForValidators \<Rightarrow> 'w \<Rightarrow> (go_error + bool) \<times> 'w"
  ReportTaskError :: "int \<Rightarrow> string \<Rightarrow> 'w \<Rightarrow> 'w"
  ConsensusAddress :: string
  PrivateKeyConsensus :: string
  PrivateKeyController :: string
  TaskExecutionAddress :: string

record 'w executor =
  nonceManagers :: "string \<rightharpoonup> 'w nonce_manager"
  exworld :: 'w

definition no_stats :: DockerResourceStats where
  "no_stats = \<lparr>StMemoryUsage = 0, StCPUPercentage = 0, StRxBytes = 0, StTxBytes = 0, StBlockRead = 0, StBlockWrite = 0,
     StBandwidthRate = 0, StTotalCost = None, StCurrentTotalCost = None, StStaticComplexity = 0, StDynamicComplexity = 0\<rparr>"

definition no_action :: PerformerActionData where
  "no_action = \<lparr>AcTaskID = 0, ActionTxHash = [], GasUsed = [], AcStatus = False, MemoryUsage = 0, CPUPercentage = 0,
     NetworkRx = 0, NetworkTx = 0, BlockRead = 0, BlockWrite = 0, BandwidthRate = 0, TotalFee = None, StaticComplexity = 0,
     DynamicComplexity = 0, ComplexityIndex = 0, ExecutionTimestamp = 0, ConvertedArguments = [], StorageUpdates = [],
     ScriptTargetContract = [], ScriptCalldata = []\<rparr>"

section \<open>The world and the nonce managers\<close>

definition on_world :: "('w \<Rightarrow> (go_error + 'a) \<times> 'w) \<Rightarrow> ('w executor, 'a) io" where
  "on_world f st = (case f (exworld st) of (r, w) \<Rightarrow> Some (r, st\<lparr>exworld := w\<rparr>))"

definition in_world :: "('w, 'a) io \<Rightarrow> ('w executor, 'a) io" where
  "in_world m st = map_option (\<lambda>(r, w). (r, st\<lparr>exworld := w\<rparr>)) (m (exworld st))"

text \<open>A method of the manager of a chain; managers act on the world of the keeper.\<close>

definition with_manager :: "string \<Rightarrow> ('w nonce_manager \<Rightarrow> ((string + 'a) \<times> 'w nonce_manager) option) \<Rightarrow> ('w executor, 'a) io" where
  "with_manager chain f st =
     (case nonceManagers st chain of
        None \<Rightarrow> None
      | Some nm \<Rightarrow>
          (case f (nm\<lparr>world := exworld st\<rparr>) of
             None \<Rightarrow> None
           | Some (r, nm') \<Rightarrow>
               Some (case r of Inl e \<Rightarrow> Inl (GoErr e) | Inr a \<Rightarrow> Inr a,
                     st\<lparr>nonceManagers := (nonceManagers st)(chain \<mapsto> nm'), exworld := world nm'\<rparr>)))"

definition getNonceManager :: "('k, 'q, 'w) executor_env \<Rightarrow> string \<Rightarrow> ('w executor, unit) io" where
  "getNonceManager env chainID st =
     (case nonceManagers st chainID of
        Some nm \<Rightarrow> Some (Inr (), st)
      | None \<Rightarrow>
          (let rpcURL = GetChainRpcUrl (Keeper env) chainID in
           case Dial (Keeper env) rpcURL (exworld st) of
             (Inl e, w) \<Rightarrow> Some (Inl (Wrap (''failed to create client for chain '' @ chainID) e), st\<lparr>exworld := w\<rparr>)
           | (Inr _, w) \<Rightarrow>
               (case Initialize (EthClient env rpcURL) (NewNonceManager w) of
                  (Inl e, nm) \<Rightarrow>
                    Some (Inl (Wrap (''failed to initialize nonce manager for chain '' @ chainID) (GoErr e)), st\<lparr>exworld := world nm\<rparr>)
                | (Inr _, nm) \<Rightarrow>
                    Some (Inr (), st\<lparr>nonceManagers := (nonceManagers st)(chainID \<mapsto> nm), exworld := world nm\<rparr>))))"

definition report :: "('k, 'q, 'w) executor_env \<Rightarrow> int \<Rightarrow> string \<Rightarrow> ('w executor, unit) io" where
  "report env taskID msg = io_put (\<lambda>st. st\<lparr>exworld := ReportTaskError env taskID msg (exworld st)\<rparr>)"

section \<open>Scripts and calls\<close>

definition getContractMethodAndABI :: "('k, 'q, 'w) executor_env \<Rightarrow> TaskTargetData \<Rightarrow> go_error + method_inputs" where
  "getContractMethodAndABI env target =
     (if ABI target = [] then Inl (GoErr ''contract ABI not provided in job data'')
      else (case ParseABI env (ABI target) of
          Inl e \<Rightarrow> Inl e
        | Inr methods \<Rightarrow>
            (case methods (TargetFunction target) of
               None \<Rightarrow> Inl (GoErr (''method '' @ TargetFunction target @ '' not found in contract ABI''))
             | Some inputs \<Rightarrow> Inr inputs)))"

definition script_metadata :: "('k, 'q, 'w) executor_env \<Rightarrow> TaskTargetData \<Rightarrow> (string \<times> string) list" where
  "script_metadata env target =
     [(''task_definition_id'', show_int (TgTaskDefinitionID target)), (''target_chain_id'', TargetChainID target),
      (''target_contract_address'', TargetContractAddress target), (''target_function'', TargetFunction target),
      (''abi'', ABI target), (''from_address'', TaskExecutionAddress env)]"

definition validateCustomScriptOutput :: "CustomScriptOutput \<Rightarrow> go_error option" where
  "validateCustomScriptOutput output =
     (if ShouldExecute output then
        (if TargetContract output = [] then Some (GoErr ''targetContract required when shouldExecute=true'')
         else if Calldata output = [] then Some (GoErr ''calldata required when shouldExecute=true'')
         else if \<not> prefix ''0x'' (TargetContract output) \<or> length (TargetContract output) \<noteq> 42
         then Some (GoErr ''invalid targetContract address format'')
         else if \<not> prefix ''0x'' (Calldata output) then Some (GoErr ''calldata must be hex string starting with 0x'')
         else None)
      else None)"

definition ExecuteCustomScript :: "('k, 'q, 'w) executor_env \<Rightarrow> TaskTargetData \<Rightarrow> ('w executor, CustomScriptOutput) io" where
  "ExecuteCustomScript env target =
     (let language = (if ScriptLanguage target = [] then ''ts'' else ScriptLanguage target) in
      io_bind (io_wrap ''docker execution failed''
        (on_world (DockerExecute env (DynamicArgumentsScriptUrl target) language (script_metadata env target)))) (\<lambda>result.
      if \<not> ExSuccess result then io_fail (GoErr (''script execution failed: '' @ ExError result))
      else (case ParseScriptOutput env (Output result) of
          Inl e \<Rightarrow> io_fail (Wrap ''failed to parse script output'' e)
        | Inr output \<Rightarrow>
            (case validateCustomScriptOutput output of
               Some e \<Rightarrow> io_fail (Wrap ''invalid script output'' e)
             | None \<Rightarrow> io_ret output))))"

datatype prepared = Skip PerformerActionData
  | Call DockerResourceStats bytes bytes "go_value list" "(string \<times> string) list"

text \<open>A custom script builds its own call; the statistics of its run are not used, only the fixed cost.\<close>

definition prepare_custom :: "('k, 'q, 'w) executor_env \<Rightarrow> TaskTargetData \<Rightarrow> ('w executor, prepared) io" where
  "prepare_custom env target =
     io_bind (io_wrap ''custom script execution failed'' (ExecuteCustomScript env target)) (\<lambda>output.
     if \<not> ShouldExecute output then
       io_ret (Skip (no_action\<lparr>AcTaskID := TgTaskID target, AcStatus := True, StorageUpdates := CsStorageUpdates output\<rparr>))
     else
       io_ret (Call (no_stats\<lparr>StTotalCost := Some (f64_to_i64 (f64_mult (TransactionCost env) (10 ^ 18)))\<rparr>)
         (HexToAddress (Crypto (Keeper env)) (TargetContract output)) (FromHex (ArgEnv env) (Calldata output)) []
         (CsStorageUpdates output)))"

definition prepare_call :: "('k, 'q, 'w) executor_env \<Rightarrow> TaskTargetData \<Rightarrow> method_inputs \<Rightarrow> ('w executor, prepared) io" where
  "prepare_call env target inputs =
     (let static = parseStaticArgs (Arguments target);
          metadata = script_metadata env target @
            (if TgTaskDefinitionID target \<in> {1, 3, 5} then [(''on_chain_args'', MarshalJSON (ArgEnv env) (j_list id static))] else [])
      in
      io_bind (io_wrap ''failed to execute script''
        (on_world (DockerExecute env (DynamicArgumentsScriptUrl target) ''go'' metadata))) (\<lambda>result.
      if \<not> ExSuccess result then io_fail (Wrap ''failed to execute script'' (GoErr (ExError result)))
      else
        let argData = (if TgTaskDefinitionID target \<in> {2, 4, 6} then parseDynamicArgs (ArgEnv env) (Output result) else static)
        in case processArguments (ArgEnv env) (JArr argData) inputs of
             Inl e \<Rightarrow> io_fail (Wrap ''error processing (dynamic) arguments'' e)
           | Inr args \<Rightarrow>
               (case PackCall env (TargetFunction target) inputs args of
                  Inl e \<Rightarrow> io_fail (Wrap ''error packing arguments to function call'' e)
                | Inr callData \<Rightarrow>
                    io_ret (Call (Stats result) (HexToAddress (Crypto (Keeper env)) (TargetContractAddress target)) callData args []))))"

definition prepare :: "('k, 'q, 'w) executor_env \<Rightarrow> TaskTargetData \<Rightarrow> ('w executor, prepared) io" where
  "prepare env target =
     (if TgTaskDefinitionID target = 7 then prepare_custom env target
      else (case getContractMethodAndABI env target of
          Inl e \<Rightarrow> io_fail (Wrap ''failed to get contract method and ABI'' e)
        | Inr inputs \<Rightarrow>
            if TgTaskDefinitionID target \<in> {1, 2, 3, 4, 5, 6} then prepare_call env target inputs
            else io_fail (GoErr (''unsupported task definition id: '' @ show_int (TgTaskDefinitionID target)))))"

text \<open>\<open>time.Sleep\<close> returns at once for a duration that is not positive.\<close>

definition timeToNextTrigger :: "TaskTargetData \<Rightarrow> TaskTriggerData \<Rightarrow> int \<Rightarrow> int" where
  "timeToNextTrigger target trigger t =
     (if TgTaskDefinitionID target = 1 then NextTriggerTimestamp trigger - t - 4 * second
      else if TgTaskDefinitionID target = 2 then max 0 (NextTriggerTimestamp trigger - t - 60 * second)
      else 0)"

definition submit_call :: "('k, 'q, 'w) executor_env \<Rightarrow> TaskTargetData \<Rightarrow> 64 word \<Rightarrow> string \<Rightarrow> DockerResourceStats \<Rightarrow> bytes
    \<Rightarrow> bytes \<Rightarrow> go_value list \<Rightarrow> (string \<times> string) list \<Rightarrow> ('w executor, PerformerActionData) io" where
  "submit_call env target nonce rpcURL stats contract callData args updates =
     (case HexToECDSA (Crypto (Keeper env)) (PrivateKeyController env) of
        Inl e \<Rightarrow> io_fail (Wrap ''failed to parse private key'' e)
      | Inr key \<Rightarrow>
          (case PackExecute env (case TgJobID target of None \<Rightarrow> 0 | Some i \<Rightarrow> i) (StCurrentTotalCost stats) contract callData of
             Inl e \<Rightarrow> io_fail (Wrap ''failed to pack execution contract input'' e)
           | Inr input \<Rightarrow>
               io_bind (io_wrap ''failed to get chain ID'' (on_world (EthChainID env rpcURL))) (\<lambda>chainID.
               io_bind (io_wrap ''failed to get nonce manager'' (getNonceManager env (TargetChainID target))) (\<lambda>_.
               io_bind (io_wrap ''failed to submit transaction'' (with_manager (TargetChainID target)
                 (SubmitTransaction (EthClient env (GetChainRpcUrl (Keeper env) (TargetChainID target))) nonce
                    (TaskExecutionAddress env) input chainID (PrivateKeyController env)))) (\<lambda>(rc, txHash).
               io_bind (io_get (\<lambda>st. Clock env (exworld st))) (\<lambda>t.
               io_ret \<lparr>AcTaskID = TgTaskID target, ActionTxHash = txHash, GasUsed = show_int (RcGasUsed rc),
                 AcStatus = (RcStatus rc = 1), MemoryUsage = StMemoryUsage stats, CPUPercentage = StCPUPercentage stats,
                 NetworkRx = StRxBytes stats, NetworkTx = StTxBytes stats, BlockRead = StBlockRead stats,
                 BlockWrite = StBlockWrite stats, BandwidthRate = StBandwidthRate stats, TotalFee = StTotalCost stats,
                 StaticComplexity = StStaticComplexity stats, DynamicComplexity = StDynamicComplexity stats, ComplexityIndex = 0,
                 ExecutionTimestamp = t, ConvertedArguments = map (ValueJSON env) args, StorageUpdates = updates,
                 ScriptTargetContract = [], ScriptCalldata = []\<rparr>))))))"

definition executeAction :: "('k, 'q, 'w) executor_env \<Rightarrow> TaskTargetData \<Rightarrow> TaskTriggerData \<Rightarrow> 64 word \<Rightarrow> string
    \<Rightarrow> ('w executor, PerformerActionData) io" where
  "executeAction env target trigger nonce rpcURL =
     (if TgTaskDefinitionID target \<noteq> 7 \<and> TargetContractAddress target = []
      then io_fail (GoErr ''execution contract address not configured'')
      else
        io_bind (io_put (\<lambda>st. st\<lparr>exworld := Sleep env (timeToNextTrigger target trigger (Clock env (exworld st))) (exworld st)\<rparr>)) (\<lambda>_.
        io_bind (prepare env target) (\<lambda>p.
          case p of
            Skip a \<Rightarrow> io_ret a
          | Call stats contract callData args updates \<Rightarrow>
              submit_call env target nonce rpcURL stats contract callData args updates)))"

section \<open>Proof and signature\<close>

definition validateCertificate :: "int \<Rightarrow> certificate \<Rightarrow> go_error option" where
  "validateCertificate t cert =
     (if t < NotBefore cert then Some (GoErr ''certificate is not yet valid'')
      else if NotAfter cert < t then Some (GoErr ''certificate has expired'')
      else if Raw cert = [] then Some (GoErr ''certificate raw data is empty'')
      else None)"

definition GenerateProof :: "('k, 'q, 'w) executor_env \<Rightarrow> IPFSData \<Rightarrow> certificate list \<Rightarrow> ('w executor, ProofData) io" where
  "GenerateProof env d certs =
     (case certs of
        [] \<Rightarrow> io_fail (GoErr ''no TLS certificates found in connection state'')
      | cert # _ \<Rightarrow>
          io_bind (io_get (\<lambda>st. Clock env (exworld st))) (\<lambda>t.
          case validateCertificate t cert of
            Some e \<Rightarrow> io_fail (Wrap ''certificate validation failed'' e)
          | None \<Rightarrow>
              (case map_option TaskID (TaskData d) of
                 Some (i # _) \<Rightarrow>
                   io_ret \<lparr>PrTaskID = i, ProofOfTask = Sha256Hex (Keeper env) (StringifyIPFSData (Keeper env) d),
                     CertificateHash = Sha256Hex (Keeper env) (Raw cert), CertificateTimestamp = t\<rparr>
               | _ \<Rightarrow> io_panic)))"

definition GenerateProofWithTLSConnection :: "('k, 'q, 'w) executor_env \<Rightarrow> IPFSData \<Rightarrow> ('w executor, ProofData) io" where
  "GenerateProofWithTLSConnection env d =
     io_bind (io_wrap ''failed to establish TLS connection'' (in_world (EstablishTLSConnection (Keeper env)))) (GenerateProof env d)"

definition result_data :: "('k, 'q, 'w) executor_env \<Rightarrow> SendTaskDataToKeeper \<Rightarrow> TaskTargetData \<Rightarrow> TaskTriggerData
    \<Rightarrow> PerformerActionData \<Rightarrow> int \<Rightarrow> IPFSData" where
  "result_data env task target trigger action taskID =
     \<lparr>TaskData = Some (task\<lparr>TaskID := [TgTaskID target], TargetData := [target], TriggerData := [trigger]\<rparr>),
      ActionData = Some action, Proof = Some (no_proof\<lparr>PrTaskID := taskID\<rparr>),
      Signature = Some \<lparr>PsTaskID = taskID, PerformerSigningAddress = ConsensusAddress env, PerformerSignature = []\<rparr>\<rparr>"

text \<open>A proof that cannot be made is the zero value; the code goes on.\<close>

definition build_result :: "('k, 'q, 'w) executor_env \<Rightarrow> SendTaskDataToKeeper \<Rightarrow> TaskTargetData \<Rightarrow> TaskTriggerData
    \<Rightarrow> PerformerActionData \<Rightarrow> ('w executor, IPFSData \<times> ProofData) io" where
  "build_result env task target trigger action =
     (case TaskID task of
        [] \<Rightarrow> io_panic
      | taskID # _ \<Rightarrow>
          (let d = result_data env task target trigger action taskID in
           io_bind (io_try (GenerateProofWithTLSConnection env d)) (\<lambda>r.
           let proof = (case r of Inl e \<Rightarrow> no_proof | Inr p \<Rightarrow> p);
               d' = d\<lparr>Proof := Some proof\<rparr>
           in case SignJSONMessage (Crypto (Keeper env)) (j_ipfs (JsonTime (Keeper env)) d') (PrivateKeyConsensus env) of
                Inl e \<Rightarrow> io_fail e
              | Inr sig \<Rightarrow>
                  io_ret (d'\<lparr>Signature := Some \<lparr>PsTaskID = taskID, PerformerSigningAddress = ConsensusAddress env,
                                                PerformerSignature = sig\<rparr>\<rparr>, proof))))"

section \<open>A task\<close>

definition reporting :: "('k, 'q, 'w) executor_env \<Rightarrow> int \<Rightarrow> string \<Rightarrow> ('w executor, 'a) io \<Rightarrow> ('w executor, 'a) io" where
  "reporting env taskID msg m =
     io_bind (io_try m) (\<lambda>r.
       case r of
         Inl e \<Rightarrow> io_bind (report env taskID (msg @ '': '' @ error_text e)) (\<lambda>_. io_fail e)
       | Inr a \<Rightarrow> io_ret a)"

definition send_result :: "('k, 'q, 'w) executor_env \<Rightarrow> TaskTargetData \<Rightarrow> ProofData \<Rightarrow> string \<Rightarrow> ('w executor, bool) io" where
  "send_result env target proof cid =
     (let sent = on_world (SendTaskToValidators env
            \<lparr>BcProofOfTask = ProofOfTask proof, BcData = cid, BcTaskDefinitionID = TgTaskDefinitionID target,
             PerformerAddress = ConsensusAddress env\<rparr>);
          failed = (\<lambda>msg. io_bind (report env (TgTaskID target) msg) (\<lambda>_.
            io_fail (GoErr ''failed to send task result to aggregator'')))
      in
      io_bind (io_try sent) (\<lambda>r.
        case r of
          Inl e \<Rightarrow> failed (''failed to send task result to aggregator: '' @ error_text e)
        | Inr success \<Rightarrow> if success then io_ret True else failed ''failed to send task result to aggregator''))"

definition execute_target :: "('k, 'q, 'w) executor_env \<Rightarrow> SendTaskDataToKeeper \<Rightarrow> nat \<Rightarrow> ('w executor, bool) io" where
  "execute_target env task idx =
     (if length (TriggerData task) \<le> idx then io_panic
      else
        let target = TargetData task ! idx; trigger = TriggerData task ! idx;
            rpcURL = GetChainRpcUrl (Keeper env) (TargetChainID target)
        in
        must (in_world (ValidateTrigger (Keeper env) trigger))
          (io_bind (getNonceManager env (TargetChainID target)) (\<lambda>_.
           io_bind (with_manager (TargetChainID target) (\<lambda>nm. Some (GetNextNonce (EthClient env rpcURL) nm))) (\<lambda>nonce.
           io_bind (on_world (Dial (Keeper env) rpcURL)) (\<lambda>_.
           io_bind (reporting env (TgTaskID target) ''action execution failed'' (executeAction env target trigger nonce rpcURL)) (\<lambda>action.
           io_bind (build_result env task target trigger action) (\<lambda>(d, proof).
           io_bind (io_get (\<lambda>st. FileName env (TaskID task) (Clock env (exworld st)))) (\<lambda>filename.
           io_bind (reporting env (TgTaskID target) ''IPFS upload failed'' (on_world (Upload env filename d))) (\<lambda>cid.
           send_result env target proof cid)))))))))"

text \<open>All targets run; the first result that is not a success, in the order in which they end, is the result.\<close>

fun execute_targets :: "('k, 'q, 'w) executor_env \<Rightarrow> SendTaskDataToKeeper \<Rightarrow> nat list \<Rightarrow> ('w executor, bool) io" where
  "execute_targets env task [] = io_ret True"
| "execute_targets env task (i # is) =
     io_bind (io_try (execute_target env task i)) (\<lambda>r.
     io_bind (io_try (execute_targets env task is)) (\<lambda>rest. io_lift (if r = Inr True then rest else r)))"

definition ExecuteTask :: "('k, 'q, 'w) executor_env \<Rightarrow> nat list \<Rightarrow> SendTaskDataToKeeper option \<Rightarrow> ('w executor, bool) io" where
  "ExecuteTask env order task =
     (case task of
        None \<Rightarrow> io_fail (GoErr ''task data cannot be nil'')
      | Some t \<Rightarrow>
          if TargetData t = [] then io_fail (GoErr ''target data cannot be nil'')
          else if TriggerData t = [] then io_fail (GoErr ''trigger data cannot be nil'')
          else must (io_lift (ValidateManagerSignature (Keeper env) t)) (execute_targets env t order))"

section \<open>What leaves the nonce managers alone\<close>

abbreviation keeps_managers :: "('w executor, 'a) io \<Rightarrow> bool" where
  "keeps_managers \<equiv> io_keeps nonceManagers"

lemma keeps_world [io_keeps_intros]: "keeps_managers (on_world f)" "keeps_managers (in_world m)"
  by (auto simp: io_keeps_def on_world_def in_world_def split: prod.splits)

lemma keeps_put_world [io_keeps_intros]: "keeps_managers (io_put (\<lambda>st. st\<lparr>exworld := f st\<rparr>))"
  by (simp add: io_keeps_def io_put_def)

lemma keeps_report [io_keeps_intros]: "keeps_managers (report env i msg)"
  unfolding report_def by (rule keeps_put_world)

lemma keeps_option [io_keeps_intros]:
  "io_keeps p m \<Longrightarrow> (\<And>a. io_keeps p (f a)) \<Longrightarrow> io_keeps p (case x of None \<Rightarrow> m | Some a \<Rightarrow> f a)"
  by (cases x) auto

lemma keeps_prepare [io_keeps_intros]: "keeps_managers (prepare env target)"
  unfolding prepare_def prepare_custom_def prepare_call_def ExecuteCustomScript_def Let_def
  by (intro io_keeps_intros)

text \<open>Without docker no call can be prepared.\<close>

definition docker_down :: "('k, 'q, 'w) executor_env \<Rightarrow> bool" where
  "docker_down env \<longleftrightarrow> (\<forall>u l m w. \<exists>e w'. DockerExecute env u l m w = (Inl e, w'))"

lemma docker_call_fails:
  assumes "docker_down env"
  shows "\<exists>e st'. io_bind (io_wrap msg (on_world (DockerExecute env u l m))) f st = Some (Inl e, st')"
proof -
  obtain e w' where "DockerExecute env u l m (exworld st) = (Inl e, w')" using assms unfolding docker_down_def by blast
  then show ?thesis by (simp add: io_bind_def io_wrap_def on_world_def)
qed

lemma prepare_fails:
  assumes "docker_down env"
  shows "\<exists>e st'. prepare env target st = Some (Inl e, st')"
proof -
  have c: "\<exists>e st'. ExecuteCustomScript env target st = Some (Inl e, st')"
    unfolding ExecuteCustomScript_def Let_def by (rule docker_call_fails [OF assms])
  then have "\<exists>e st'. prepare_custom env target st = Some (Inl e, st')"
    unfolding prepare_custom_def by (auto simp: io_bind_def [of "io_wrap _ _"] io_wrap_def)
  moreover have "\<exists>e st'. prepare_call env target inputs st = Some (Inl e, st')" for inputs
    unfolding prepare_call_def Let_def by (rule docker_call_fails [OF assms])
  ultimately show ?thesis
    by (auto simp: prepare_def io_fail_def split: sum.splits)
qed

lemma executeAction_fails:
  assumes "docker_down env"
  shows "\<exists>e st'. executeAction env target trigger nonce url st = Some (Inl e, st') \<and> nonceManagers st' = nonceManagers st"
proof (cases "TgTaskDefinitionID target \<noteq> 7 \<and> TargetContractAddress target = []")
  case True
  then show ?thesis by (simp add: executeAction_def io_fail_def)
next
  case False
  let ?st = "st\<lparr>exworld := Sleep env (timeToNextTrigger target trigger (Clock env (exworld st))) (exworld st)\<rparr>"
  obtain e st' where p: "prepare env target ?st = Some (Inl e, st')" using prepare_fails [OF assms] by blast
  then have "nonceManagers st' = nonceManagers st" using io_keepsD [OF keeps_prepare p] by simp
  moreover have "executeAction env target trigger nonce url st = Some (Inl e, st')"
    unfolding executeAction_def if_not_P [OF False] by (simp add: io_bind_def io_put_def p)
  ultimately show ?thesis by blast
qed

lemma reporting_fails:
  assumes "m st = Some (Inl e, st1)"
  shows "\<exists>st'. reporting env i msg m st = Some (Inl e, st') \<and> nonceManagers st' = nonceManagers st1"
  using assms by (simp add: reporting_def io_bind_def io_try_def report_def io_put_def io_fail_def)

section \<open>What an honest performer uploads\<close>

lemma GenerateProof_Inr:
  assumes "GenerateProof env d certs st = Some (Inr p, st')"
  obtains i "is" c where "map_option TaskID (TaskData d) = Some (i # is)" and "PrTaskID p = i"
    and "ProofOfTask p = Sha256Hex (Keeper env) (StringifyIPFSData (Keeper env) d)"
    and "CertificateHash p = Sha256Hex (Keeper env) c"
  using assms
  by (auto simp: GenerateProof_def io_defs io_panic_def split: list.splits option.splits)

lemma tls_proof_Inr:
  "GenerateProofWithTLSConnection env d st = Some (Inr p, st') \<Longrightarrow> \<exists>certs st1. GenerateProof env d certs st1 = Some (Inr p, st')"
  by (auto simp: GenerateProofWithTLSConnection_def io_bind_Some)

lemma build_result_Inr:
  assumes "build_result env task target trigger action st = Some (Inr (d, p), st')" and "TaskID task = i # is"
  obtains sig where
    "SignJSONMessage (Crypto (Keeper env)) (j_ipfs (JsonTime (Keeper env)) ((result_data env task target trigger action i)\<lparr>Proof := Some p\<rparr>))
       (PrivateKeyConsensus env) = Inr sig"
    and "d = (result_data env task target trigger action i)\<lparr>Proof := Some p, Signature := Some \<lparr>PsTaskID = i,
       PerformerSigningAddress = ConsensusAddress env, PerformerSignature = sig\<rparr>\<rparr>"
    and "\<exists>r st1. GenerateProofWithTLSConnection env (result_data env task target trigger action i) st = Some (r, st1) \<and>
       p = (case r of Inl e \<Rightarrow> no_proof | Inr p \<Rightarrow> p)"
proof -
  let ?d = "result_data env task target trigger action i"
  obtain r st1 where r: "GenerateProofWithTLSConnection env ?d st = Some (r, st1)"
    and k: "(case SignJSONMessage (Crypto (Keeper env)) (j_ipfs (JsonTime (Keeper env)) (?d\<lparr>Proof := Some (case r of Inl e \<Rightarrow> no_proof | Inr p \<Rightarrow> p)\<rparr>))
        (PrivateKeyConsensus env) of
      Inl e \<Rightarrow> io_fail e
    | Inr sig \<Rightarrow> io_ret (?d\<lparr>Proof := Some (case r of Inl e \<Rightarrow> no_proof | Inr p \<Rightarrow> p), Signature := Some \<lparr>PsTaskID = i,
        PerformerSigningAddress = ConsensusAddress env, PerformerSignature = sig\<rparr>\<rparr>, case r of Inl e \<Rightarrow> no_proof | Inr p \<Rightarrow> p)) st1 =
      Some (Inr (d, p), st')"
    using assms by (auto simp: build_result_def Let_def io_bind_Some io_try_Some)
  define q where "q = (case r of Inl e \<Rightarrow> no_proof | Inr p \<Rightarrow> p)"
  have q: "\<exists>r st1. GenerateProofWithTLSConnection env ?d st = Some (r, st1) \<and> q = (case r of Inl e \<Rightarrow> no_proof | Inr p \<Rightarrow> p)"
    using r q_def by blast
  show ?thesis
    using k q that unfolding q_def [symmetric]
    by (cases "SignJSONMessage (Crypto (Keeper env)) (j_ipfs (JsonTime (Keeper env)) (?d\<lparr>Proof := Some q\<rparr>)) (PrivateKeyConsensus env)")
       (auto simp: io_fail_def io_ret_def)
qed

text \<open>Keepers that agree on texts, hashes and keys.\<close>

definition same_protocol :: "('k, 'q, 'v) keeper_env \<Rightarrow> ('k, 'q, 'w) keeper_env \<Rightarrow> bool" where
  "same_protocol env env' \<longleftrightarrow> Crypto env' = Crypto env \<and> JsonTime env' = JsonTime env \<and> MarshalValue env' = MarshalValue env \<and>
     Sha256Hex env' = Sha256Hex env \<and> ManagerSigningAddress env' = ManagerSigningAddress env"

lemma same_stringify: "same_protocol env env' \<Longrightarrow> StringifyIPFSData env' d = StringifyIPFSData env d"
  by (simp add: same_protocol_def StringifyIPFSData_def)

lemma same_manager_signature:
  "same_protocol env env' \<Longrightarrow> ValidateManagerSignature env' t = ValidateManagerSignature env t"
  by (simp add: same_protocol_def ValidateManagerSignature_def)

text \<open>An attester for whom the chain, the trigger and the TLS host are in order, from any state of the world.\<close>

definition accepts :: "('w, bool) io \<Rightarrow> bool" where
  "accepts m \<longleftrightarrow> (\<forall>w. \<exists>w'. m w = Some (Inr True, w'))"

definition attests :: "('k, 'q, 'w) keeper_env \<Rightarrow> TaskTargetData \<Rightarrow> TaskTriggerData \<Rightarrow> PerformerActionData \<Rightarrow> bool" where
  "attests env target trigger action \<longleftrightarrow>
     (\<forall>w. \<exists>w'. Dial env (GetChainRpcUrl env (TargetChainID target)) w = (Inr (), w')) \<and>
     accepts (ValidateTrigger env trigger) \<and>
     accepts (ValidateAction env target trigger (Some action) (GetChainRpcUrl env (TargetChainID target))) \<and>
     (\<forall>w. \<exists>c cs w'. EstablishTLSConnection env w = Some (Inr (c # cs), w'))"

lemma must_True: "check w = Some (Inr True, w') \<Longrightarrow> must check m w = m w'"
  by (simp add: must_def io_bind_def)

text \<open>What IPFS gives back: the arguments have been decoded from JSON.\<close>

definition fetched :: "IPFSData \<Rightarrow> IPFSData" where
  "fetched d = d\<lparr>ActionData := map_option (\<lambda>a. a\<lparr>ConvertedArguments := map reparse (ConvertedArguments a)\<rparr>) (ActionData d)\<rparr>"

lemma proof_hash_valid:
  assumes "same_protocol (Keeper env) env'" and "GenerateProof env (result_data env task target trigger action i) certs st = Some (Inr p, st')"
    and "i = TgTaskID target" and "d = (result_data env task target trigger action i)\<lparr>Proof := Some p, Signature := Some \<lparr>PsTaskID = i,
       PerformerSigningAddress = ConsensusAddress env, PerformerSignature = sig\<rparr>\<rparr>"
    and "TaskID task' = [TgTaskID target]"
  shows "validateProofHash env' task' p d w = Some (Inr True, w)"
proof -
  have "d\<lparr>Proof := Some (no_proof\<lparr>PrTaskID := i\<rparr>), Signature := Some \<lparr>PsTaskID = i, PerformerSigningAddress = ConsensusAddress env,
      PerformerSignature = []\<rparr>\<rparr> = result_data env task target trigger action i"
    by (simp add: assms(4) result_data_def)
  then show ?thesis
    using assms same_stringify [OF assms(1)]
    by (auto simp: validateProofHash_def Let_def io_ret_def io_fail_def same_protocol_def elim!: GenerateProof_Inr)
qed


section \<open>A small instance\<close>

definition demo_eth :: "(unit, receipt) eth_api" where
  "demo_eth =
     \<lparr>PendingNonceAt = \<lambda>w. (Inr 7, w), SuggestGasPrice = \<lambda>_ w. (Inr 1000, w), SendTransaction = \<lambda>_ w. (Inr (), w),
      WaitMined = \<lambda>_ w. (Inl ''not found'', w), WaitMined10 = \<lambda>_ w. (Inl (''not found'', False), w),
      SignTx = \<lambda>tx c _. Inr tx, HashHex = \<lambda>tx. ''0x'', Now = \<lambda>w. 10 ^ 18, CtxErr = \<lambda>_ _. None,
      WaitTimer = \<lambda>_ _ w. (None, w), RandSource = \<lambda>w. ((Some 0, 0), w)\<rparr>"

definition demo_executor :: "(unit, bool, unit) executor_env" where
  "demo_executor =
     \<lparr>Keeper = demo_keeper, EthClient = \<lambda>_. demo_eth, ArgEnv = demo_args, ParseABI = \<lambda>_. Inr Map.empty,
      PackCall = \<lambda>_ _ _. Inr [], PackExecute = \<lambda>_ _ _ _. Inr [], ValueJSON = \<lambda>_. JNull,
      DockerExecute = \<lambda>_ _ _ w. (Inl (GoErr ''docker is not running''), w), TransactionCost = 0,
      ParseScriptOutput = \<lambda>_. Inl (GoErr ''invalid character''), EthChainID = \<lambda>_ w. (Inr 10, w), Sleep = \<lambda>_ w. w,
      Clock = \<lambda>_. 0, Upload = \<lambda>_ _ w. (Inr ''cid'', w), FileName = \<lambda>_ _. ''proof.json'',
      SendTaskToValidators = \<lambda>_ w. (Inr True, w), ReportTaskError = \<lambda>_ _ w. w, ConsensusAddress = ''0x02'',
      PrivateKeyConsensus = ''key'', PrivateKeyController = ''key'', TaskExecutionAddress = ''0x03''\<rparr>"

definition demo_target :: TaskTargetData where
  "demo_target = zero_target\<lparr>TgTaskID := 4, TgTaskDefinitionID := 1, TargetChainID := ''10'', TargetContractAddress := ''0x04''\<rparr>"

definition demo_trigger :: TaskTriggerData where
  "demo_trigger = zero_trigger\<lparr>TrTaskDefinitionID := 1\<rparr>"

definition demo_send :: "string \<Rightarrow> SendTaskDataToKeeper" where
  "demo_send sig = \<lparr>TaskID = [4], Performer = no_performer, TargetData = [demo_target], TriggerData = [demo_trigger],
     SchedulerID = 1, ManagerSignature = sig\<rparr>"

lemma demo_trigger_valid: "ValidateTrigger demo_keeper demo_trigger w = Some (Inr True, w)"
  by (simp add: ValidateTrigger_def io_lift_def IsValidTimeBasedTrigger_def demo_trigger_def zero_trigger_def)

lemma demo_sign: "\<exists>s. SignJSONMessage demo_crypto j key = Inr s"
  by (simp add: SignJSONMessage_def SignMessage_def demo_crypto_def)

lemma demo_send_valid: "\<exists>s. ValidateManagerSignature demo_keeper (demo_send s) = Inr True"
proof -
  obtain s where s: "SignJSONMessage demo_crypto (j_send (\<lambda>_. []) (demo_send [])) ''k'' = Inr s" using demo_sign by blast
  moreover have "s \<noteq> []" using key_never_empty [OF demo_key(1) s demo_decode_empty] .
  ultimately have "ValidateManagerSignature demo_keeper (demo_send s) = Inr True"
    using sign_verify [OF s demo_key(1) refl] by (simp add: ValidateManagerSignature_def demo_keeper_def demo_send_def)
  then show ?thesis ..
qed

lemma receipt_config_valid: "Validate getReceiptRetryConfig = None" "0 < MaxRetries getReceiptRetryConfig"
  by (simp_all add: Validate_def getReceiptRetryConfig_def millisecond_def second_def)

lemma demo_attests: "attests demo_keeper demo_target demo_trigger a"
proof -
  have "retried demo_keeper (TransactionReceipt demo_keeper u h) w =
      (Inr \<lparr>RcStatus = 1, RcLogs = [[1]], RcBlockNumber = 1, RcGasUsed = 21000\<rparr>, w)" for u h w
    unfolding retried_def by (rule Retry_at_once [OF receipt_config_valid]) (simp_all add: demo_keeper_def)
  then have "ValidateAction demo_keeper demo_target demo_trigger (Some a) u w = Some (Inr True, w)" for u w
    by (simp add: ValidateAction_def, simp add: demo_keeper_def demo_target_def demo_trigger_def zero_target_def zero_trigger_def
        expirationTimeTolerance_def timeTolerance_def second_def)
  moreover have "EstablishTLSConnection demo_keeper w = Some (Inr [\<lparr>Raw = ''cert'', NotBefore = 0, NotAfter = 1\<rparr>], w)" for w
    by (simp add: EstablishTLSConnection_def demo_keeper_def io_defs)
  moreover have "Dial demo_keeper u w = (Inr (), w)" for u w by (simp add: demo_keeper_def)
  ultimately show ?thesis by (simp add: attests_def accepts_def demo_trigger_valid)
qed

definition demo_start :: "unit executor" where
  "demo_start = \<lparr>nonceManagers = [''10'' \<mapsto> (NewNonceManager ())\<lparr>lastSyncTime := 10 ^ 18, currentNonce := 7\<rparr>], exworld = ()\<rparr>"

section \<open>Properties\<close>

text \<open>
  C1: What an honest performer uploads for a task is accepted by every attester that follows the same protocol and sees the chain, the
  trigger and the TLS host in order: the hash and both signatures are recomputed over the same text, also after the
  decoding from JSON, provided that the arguments of the call survive it.
\<close>

theorem honest_result_attested:
  assumes "build_result env task target trigger action st = Some (Inr (d, p), st')" and "p \<noteq> no_proof"
    and "ValidateManagerSignature (Keeper env) task = Inr True"
    and "TaskID task = [TgTaskID target]" and "TargetData task = [target]" and "TriggerData task = [trigger]"
    and "key_of (Crypto (Keeper env)) (PrivateKeyConsensus env) (ConsensusAddress env)" and "ConsensusAddress env \<noteq> []"
    and "DecodeHex (Crypto (Keeper env)) [] = Inl e" and "\<forall>s. Sha256Hex (Keeper env) s \<noteq> []"
    and "map reparse (ConvertedArguments action) = ConvertedArguments action"
    and "same_protocol (Keeper env) env'" and "attests env' target trigger action"
  shows "\<exists>w'. ValidateIPFSData env' (fetched d) w = Some (Inr True, w')"
proof -
  let ?r = "result_data env task target trigger action (TgTaskID target)"
  obtain sig where sig: "SignJSONMessage (Crypto (Keeper env)) (j_ipfs (JsonTime (Keeper env)) (?r\<lparr>Proof := Some p\<rparr>))
      (PrivateKeyConsensus env) = Inr sig"
    and d: "d = ?r\<lparr>Proof := Some p, Signature := Some \<lparr>PsTaskID = TgTaskID target,
       PerformerSigningAddress = ConsensusAddress env, PerformerSignature = sig\<rparr>\<rparr>"
    and x: "\<exists>x st1. GenerateProofWithTLSConnection env ?r st = Some (x, st1) \<and> p = (case x of Inl e \<Rightarrow> no_proof | Inr p \<Rightarrow> p)"
    using assms(4) by (elim build_result_Inr [OF assms(1)]) auto
  then obtain x st0 where "GenerateProofWithTLSConnection env ?r st = Some (x, st0)" "x = Inr p"
    using assms(2) x by (metis old.sum.simps(5,6) sum.exhaust)
  then obtain certs st1 st2 where gen: "GenerateProof env ?r certs st1 = Some (Inr p, st2)"
    using tls_proof_Inr by blast
  have task: "task\<lparr>TaskID := [TgTaskID target], TargetData := [target], TriggerData := [trigger]\<rparr> = task"
    using assms(4-6) by (cases task) simp
  have data: "TaskData d = Some task" "ActionData d = Some action" "Proof d = Some p"
    by (simp_all add: d result_data_def task)
  have fetch: "fetched d = d" using assms(11) by (cases d) (simp add: fetched_def d result_data_def)
  have texts: "ProofOfTask p \<noteq> []" "CertificateHash p \<noteq> []" using assms(10) by (rule_tac [!] GenerateProof_Inr [OF gen]) auto
  have perf: "ValidatePerformerSignature env' d = Inr True"
  proof -
    have "sig \<noteq> []" using key_never_empty [OF assms(7) sig assms(9)] .
    moreover have "d\<lparr>Signature := Some \<lparr>PsTaskID = TgTaskID target, PerformerSigningAddress = ConsensusAddress env, PerformerSignature = []\<rparr>\<rparr> =
        ?r\<lparr>Proof := Some p\<rparr>"
      by (simp add: d result_data_def)
    ultimately show ?thesis
      using sign_verify [OF sig assms(7) refl] assms(8,12) by (simp add: ValidatePerformerSignature_def d same_protocol_def)
  qed
  have man: "ValidateManagerSignature env' task = Inr True" using assms(3,12) same_manager_signature by metis
  obtain w1 where w1: "Dial env' (GetChainRpcUrl env' (TargetChainID target)) w = (Inr (), w1)"
    using assms(13) unfolding attests_def by blast
  obtain w2 where w2: "ValidateTrigger env' trigger w1 = Some (Inr True, w2)"
    using assms(13) unfolding attests_def accepts_def by blast
  obtain w3 where w3: "ValidateAction env' target trigger (Some action) (GetChainRpcUrl env' (TargetChainID target)) w2 = Some (Inr True, w3)"
    using assms(13) unfolding attests_def accepts_def by blast
  obtain c cs w4 where w4: "EstablishTLSConnection env' w3 = Some (Inr (c # cs), w4)"
    using assms(13) unfolding attests_def by blast
  have w5: "ValidateProof env' task d w3 = Some (Inr True, w4)"
    using w4 texts proof_hash_valid [OF assms(12) gen refl d, of task] assms(4)
    by (simp add: ValidateProof_def data io_bind_def io_try_def)
  have "ValidateIPFSData env' d w = Some (Inr True, w4)"
    by (simp add: ValidateIPFSData_def Let_def data assms(5,6) io_lift_def man io_bind_def io_call_def w1 must_def w2 w3 w5 perf io_ret_def)
  then show ?thesis by (simp add: fetch)
qed

theorem honest_result_attested_witness:
  "\<exists>sig d p st'. build_result demo_executor (demo_send sig) demo_target demo_trigger no_action demo_start = Some (Inr (d, p), st') \<and>
     ValidateIPFSData demo_keeper (fetched d) () = Some (Inr True, ())"
proof -
  obtain sig where sig: "ValidateManagerSignature demo_keeper (demo_send sig) = Inr True" using demo_send_valid by blast
  have tls: "EstablishTLSConnection demo_keeper w = Some (Inr [\<lparr>Raw = ''cert'', NotBefore = 0, NotAfter = 1\<rparr>], w)" for w
    by (simp add: EstablishTLSConnection_def demo_keeper_def io_defs)
  have k: "Keeper demo_executor = demo_keeper" "Clock demo_executor w = 0" for w by (simp_all add: demo_executor_def)
  obtain p where gen: "GenerateProofWithTLSConnection demo_executor
      (result_data demo_executor (demo_send sig) demo_target demo_trigger no_action 4) demo_start = Some (Inr p, demo_start)" and p: "p \<noteq> no_proof"
    by (simp add: GenerateProofWithTLSConnection_def io_bind_def io_wrap_def in_world_def k tls GenerateProof_def io_get_def
        validateCertificate_def result_data_def demo_target_def io_ret_def no_proof_def demo_start_def)
  obtain s where s: "SignJSONMessage (Crypto demo_keeper) (j_ipfs (JsonTime demo_keeper)
      ((result_data demo_executor (demo_send sig) demo_target demo_trigger no_action 4)\<lparr>Proof := Some p\<rparr>)) (PrivateKeyConsensus demo_executor) = Inr s"
    using demo_sign by (auto simp: demo_keeper_def)
  obtain d where b: "build_result demo_executor (demo_send sig) demo_target demo_trigger no_action demo_start = Some (Inr (d, p), demo_start)"
    using gen s by (simp add: build_result_def demo_send_def Let_def io_bind_def io_try_def k io_ret_def)
  have "\<exists>w'. ValidateIPFSData demo_keeper (fetched d) () = Some (Inr True, w')"
  proof (rule honest_result_attested [OF b p])
    show "ValidateManagerSignature (Keeper demo_executor) (demo_send sig) = Inr True" using sig by (simp add: k)
    show "key_of (Crypto (Keeper demo_executor)) (PrivateKeyConsensus demo_executor) (ConsensusAddress demo_executor)"
      by (simp add: k demo_keeper_def demo_key)
    show "DecodeHex (Crypto (Keeper demo_executor)) [] = Inl (GoErr ''hex string without 0x prefix'')"
      by (simp add: k demo_keeper_def demo_decode_empty)
    show "attests demo_keeper demo_target demo_trigger no_action" by (rule demo_attests)
  qed (simp_all add: demo_send_def demo_target_def demo_executor_def demo_keeper_def no_action_def same_protocol_def)
  then show ?thesis using b by auto
qed

text \<open>
  When the performer cannot reach the TLS host, it uploads an empty proof and goes on, and every attester
  refuses what it has uploaded.
\<close>

theorem missing_proof_refused:
  assumes "build_result env task target trigger action st = Some (Inr (d, p), st')" and "TaskID task \<noteq> []"
    and "\<forall>w. \<exists>e w'. EstablishTLSConnection (Keeper env) w = Some (Inl e, w')"
  shows "ProofOfTask p = [] \<and> Proof d = Some p \<and> ValidateProof env' t d w = Some (Inl (GoErr ''proof of task is empty''), w)"
proof -
  obtain i "is" where i: "TaskID task = i # is" using assms(2) by (cases "TaskID task") auto
  obtain e w' where "EstablishTLSConnection (Keeper env) (exworld st) = Some (Inl e, w')" using assms(3) by blast
  then have "\<exists>e st1. GenerateProofWithTLSConnection env (result_data env task target trigger action i) st = Some (Inl e, st1)"
    by (simp add: GenerateProofWithTLSConnection_def io_bind_def io_wrap_def in_world_def)
  then have "p = no_proof" and "Proof d = Some p"
    using build_result_Inr [OF assms(1) i] by (force, force)
  then show ?thesis by (simp add: ValidateProof_def io_fail_def no_proof_def)
qed

theorem missing_proof_refused_witness:
  "\<exists>d p st'. build_result (demo_executor\<lparr>Keeper := demo_keeper\<lparr>TLSProofHost := []\<rparr>\<rparr>) (demo_send []) demo_target demo_trigger no_action demo_start =
       Some (Inr (d, p), st') \<and> ProofOfTask p = [] \<and> Proof d = Some p \<and>
     ValidateProof demo_keeper (demo_send []) d () = Some (Inl (GoErr ''proof of task is empty''), ())"
proof -
  let ?env = "demo_executor\<lparr>Keeper := demo_keeper\<lparr>TLSProofHost := []\<rparr>\<rparr>"
  have tls: "EstablishTLSConnection (Keeper ?env) w = Some (Inl (GoErr ''target host cannot be empty''), w)" for w
    by (simp add: EstablishTLSConnection_def io_fail_def)
  obtain s where s: "SignJSONMessage (Crypto (Keeper ?env)) (j_ipfs (JsonTime (Keeper ?env))
      ((result_data ?env (demo_send []) demo_target demo_trigger no_action 4)\<lparr>Proof := Some no_proof\<rparr>)) (PrivateKeyConsensus ?env) = Inr s"
    using demo_sign by (auto simp: demo_keeper_def)
  obtain d p st' where b: "build_result ?env (demo_send []) demo_target demo_trigger no_action demo_start = Some (Inr (d, p), st')"
    using s tls by (simp add: build_result_def demo_send_def Let_def io_bind_def io_try_def io_ret_def io_wrap_def in_world_def
        GenerateProofWithTLSConnection_def)
  have "TaskID (demo_send []) \<noteq> []" by (simp add: demo_send_def)
  moreover have "\<forall>w. \<exists>e w'. EstablishTLSConnection (Keeper ?env) w = Some (Inl e, w')" using tls by blast
  ultimately show ?thesis using b missing_proof_refused [OF b, of demo_keeper "demo_send []" "()"] by blast
qed

text \<open>
  An action that fails after its nonce has been taken leaves the nonce unused for good: with docker out of reach the target
  fails, the manager of the chain has moved past the nonce, and no transaction with it is pending; transactions with later
  nonces wait for it.
\<close>

theorem failed_action_leaves_nonce_gap:
  assumes "docker_down env" and "idx < length (TriggerData task)"
    and "ValidateTrigger (Keeper env) (TriggerData task ! idx) (exworld st) = Some (Inr True, exworld st)"
    and "nonceManagers st chain = Some nm" and "TargetChainID (TargetData task ! idx) = chain"
    and "GetNextNonce (EthClient env (GetChainRpcUrl (Keeper env) chain)) (nm\<lparr>world := exworld st\<rparr>) = (Inr n, nm1)"
    and "\<forall>w. \<exists>w'. Dial (Keeper env) (GetChainRpcUrl (Keeper env) chain) w = (Inr (), w')"
  shows "\<exists>e st' nm'. execute_target env task idx st = Some (Inl e, st') \<and> nonceManagers st' chain = Some nm' \<and>
    currentNonce nm' = n + 1 \<and> pendingTxs nm' = pendingTxs nm"
proof -
  let ?url = "GetChainRpcUrl (Keeper env) chain"
  obtain w1 where w1: "Dial (Keeper env) ?url (world nm1) = (Inr (), w1)" using assms(7) by blast
  let ?st = "st\<lparr>nonceManagers := (nonceManagers st)(chain \<mapsto> nm1), exworld := w1\<rparr>"
  obtain e st1 where act: "executeAction env (TargetData task ! idx) (TriggerData task ! idx) n ?url ?st = Some (Inl e, st1)"
    "nonceManagers st1 = nonceManagers ?st"
    using executeAction_fails [OF assms(1)] by blast
  obtain st2 where rep: "reporting env (TgTaskID (TargetData task ! idx)) ''action execution failed''
      (executeAction env (TargetData task ! idx) (TriggerData task ! idx) n ?url) ?st = Some (Inl e, st2)"
    and st2: "nonceManagers st2 = (nonceManagers st)(chain \<mapsto> nm1)"
    using reporting_fails [where m = "executeAction env (TargetData task ! idx) (TriggerData task ! idx) n ?url", OF act(1)] act(2) by fastforce
  have nm1: "currentNonce nm1 = n + 1 \<and> pendingTxs nm1 = pendingTxs nm"
    using assms(6) by (auto simp: GetNextNonce_def split: if_splits prod.splits sum.splits dest!: sync_climbs)
  have "execute_target env task idx st = Some (Inl e, st2)"
    using assms(2,3,6) rep w1
    by (simp add: execute_target_def Let_def must_def io_bind_def [of "in_world _"] in_world_def assms(5)
        io_bind_def [of "getNonceManager _ _"] getNonceManager_def assms(4) io_bind_def [of "with_manager _ _"] with_manager_def
        io_bind_def [of "on_world _"] on_world_def io_bind_def [of "reporting _ _ _ _"])
  then show ?thesis using st2 nm1 by auto
qed

theorem failed_action_leaves_nonce_gap_witness:
  "\<exists>e st' nm'. execute_target demo_executor (demo_send []) 0 demo_start = Some (Inl e, st') \<and> nonceManagers st' ''10'' = Some nm' \<and>
     currentNonce nm' = 8 \<and> pendingTxs nm' = Map.empty"
proof -
  let ?nm = "(NewNonceManager ())\<lparr>lastSyncTime := 10 ^ 18, currentNonce := 7\<rparr>"
  have "docker_down demo_executor" by (simp add: docker_down_def demo_executor_def)
  moreover have "GetNextNonce (EthClient demo_executor u) (?nm\<lparr>world := exworld demo_start\<rparr>) =
      (Inr 7, ?nm\<lparr>currentNonce := 7 + 1\<rparr>)" for u
    by (simp add: GetNextNonce_def demo_executor_def demo_eth_def NewNonceManager_def second_def)
  moreover have "ValidateTrigger (Keeper demo_executor) (TriggerData (demo_send []) ! 0) (exworld demo_start) = Some (Inr True, exworld demo_start)"
    using demo_trigger_valid by (simp add: demo_executor_def demo_send_def)
  ultimately show ?thesis
    using failed_action_leaves_nonce_gap [of demo_executor 0 "demo_send []" demo_start "''10''" ?nm 7 "?nm\<lparr>currentNonce := 7 + 1\<rparr>"]
    by (simp add: demo_send_def demo_target_def demo_start_def) (simp add: demo_executor_def demo_keeper_def NewNonceManager_def)
qed

end
