(* ===== verification/Condition_Worker.thy ===== *)
theory Condition_Worker
  imports Json Decimal
begin

text \<open>
  A worker of the condition scheduler (\<open>internal/schedulers/condition/scheduler/worker\<close>: \<open>init_condition.go\<close>,
  \<open>monitor_condition.go\<close>, and the message handling of \<open>monitor_websocket.go\<close>). At every tick it fetches a value, reads a
  number out of it, compares it with the limits of the job and notifies the scheduler. The HTTP client, the JSON
  parser and the clock are the fields of \<open>worker_env\<close>, over a world of any type; the callbacks of the
  scheduler are arguments. The goroutine that stops a worker runs when the check is over. An integral JSON
  number may be written in any way where the code decodes it into an \<open>int64\<close>.
\<close>

section \<open>Data\<close>

record ConditionWorkerData =
  CwJobID :: "int option"
  CwExpirationTime :: int
  CwRecurring :: bool
  ConditionType :: string
  SelectedKeyRoute :: string
  UpperLimit :: float64
  LowerLimit :: float64
  ValueSourceType :: string
  ValueSourceUrl :: string

record TriggerNotification =
  NtJobID :: "int option"
  TriggerTxHash :: string
  TriggerValue :: float64
  TriggeredAt :: int

record ValueResponse =
  VrValue :: float64
  VrPrice :: float64
  VrUSD :: float64
  VrRate :: float64
  VrResult :: float64
  VrData :: float64
  VrTimestamp :: int
  VrSelectedKeyRoute :: string

record ConditionWorker =
  WorkerData :: ConditionWorkerData
  IsActive :: bool
  Cancelled :: bool
  LastValue :: float64
  LastCheckTimestamp :: int
  ConditionMet :: int

text \<open>A response has a status code and a body, which may fail to be read.\<close>

record 'w worker_env =
  HttpGet :: "string \<Rightarrow> 'w \<Rightarrow> (go_error + int \<times> (go_error + string)) \<times> 'w"
  ParseBody :: "string \<Rightarrow> go_error + json"
  WorkerClock :: "'w \<Rightarrow> int"

type_synonym 'w trigger_callback = "TriggerNotification \<Rightarrow> ('w, unit) io"
type_synonym 'w cleanup_callback = "int option \<Rightarrow> ('w, unit) io"

section \<open>Numbers in a response\<close>

definition convertToFloat64 :: "json \<Rightarrow> go_error + float64" where
  "convertToFloat64 v =
     (case v of
        JNum x \<Rightarrow> Inr x
      | JStr s \<Rightarrow> (case ParseFloat s of Inr x \<Rightarrow> Inr x | Inl _ \<Rightarrow> Inl (GoErr (''cannot convert string '' @ s @ '' to float64'')))
      | _ \<Rightarrow> Inl (GoErr ''cannot convert value to float64''))"

fun split_dot :: "string \<Rightarrow> string list" where
  "split_dot [] = [[]]"
| "split_dot (c # s) =
     (if c = CHR ''.'' then [] # split_dot s
      else (case split_dot s of [] \<Rightarrow> [[c]] | k # ks \<Rightarrow> (c # k) # ks))"

fun walk :: "json \<Rightarrow> string list \<Rightarrow> go_error + json" where
  "walk v [] = Inr v"
| "walk (JObj fs) (k # ks) =
     (case map_of (rev fs) k of Some v \<Rightarrow> walk v ks | None \<Rightarrow> Inl (GoErr (''key '' @ k @ '' not found in response'')))"
| "walk (JArr xs) (k # ks) =
     (case parse_int64 k of
        Some i \<Rightarrow> if 0 \<le> i \<and> nat i < length xs then walk (xs ! nat i) ks else Inl (GoErr (''invalid array index '' @ k))
      | None \<Rightarrow> Inl (GoErr (''invalid array index '' @ k)))"
| "walk v (k # ks) = Inl (GoErr (''cannot navigate to key '' @ k))"

definition extractValueByKeyPath :: "'w worker_env \<Rightarrow> string \<Rightarrow> string \<Rightarrow> go_error + float64" where
  "extractValueByKeyPath env body keyPath =
     (case ParseBody env body of
        Inl e \<Rightarrow> Inl (Wrap ''failed to parse JSON response'' e)
      | Inr v \<Rightarrow> res_bind (walk v (split_dot keyPath)) convertToFloat64)"

text \<open>
  \<open>json.Unmarshal\<close> into a \<open>ValueResponse\<close>: keys in any case, the last one wins, null is skipped, and a field of another type makes
  it fail.
\<close>

definition response_field :: "(string \<times> json) list \<Rightarrow> string \<Rightarrow> json list" where
  "response_field fs name = map snd (filter (\<lambda>(k, v). lower k = name \<and> v \<noteq> JNull) fs)"

definition number_field :: "(string \<times> json) list \<Rightarrow> string \<Rightarrow> float64 option" where
  "number_field fs name =
     foldl (\<lambda>r v. case (r, v) of (Some _, JNum x) \<Rightarrow> Some x | _ \<Rightarrow> None) (Some 0) (response_field fs name)"

definition int_field :: "(string \<times> json) list \<Rightarrow> string \<Rightarrow> int option" where
  "int_field fs name =
     foldl (\<lambda>r v. case (r, v) of (Some _, JNum x) \<Rightarrow> if x = of_int \<lfloor>x\<rfloor> \<and> in_i64 \<lfloor>x\<rfloor> then Some \<lfloor>x\<rfloor> else None | _ \<Rightarrow> None)
       (Some 0) (response_field fs name)"

definition string_field :: "(string \<times> json) list \<Rightarrow> string \<Rightarrow> string option" where
  "string_field fs name =
     foldl (\<lambda>r v. case (r, v) of (Some _, JStr s) \<Rightarrow> Some s | _ \<Rightarrow> None) (Some []) (response_field fs name)"

definition value_response :: "json \<Rightarrow> ValueResponse option" where
  "value_response v =
     (case v of
        JObj fs \<Rightarrow>
          (case (number_field fs ''value'', number_field fs ''price'', number_field fs ''usd'', number_field fs ''rate'',
                 number_field fs ''result'', number_field fs ''data'', int_field fs ''timestamp'', string_field fs ''selected_key_route'') of
             (Some a, Some b, Some c, Some d, Some e, Some f, Some t, Some r) \<Rightarrow>
               Some \<lparr>VrValue = a, VrPrice = b, VrUSD = c, VrRate = d, VrResult = e, VrData = f, VrTimestamp = t, VrSelectedKeyRoute = r\<rparr>
           | _ \<Rightarrow> None)
      | JNull \<Rightarrow> Some \<lparr>VrValue = 0, VrPrice = 0, VrUSD = 0, VrRate = 0, VrResult = 0, VrData = 0, VrTimestamp = 0, VrSelectedKeyRoute = []\<rparr>
      | _ \<Rightarrow> None)"

text \<open>The first field that is not zero.\<close>

definition known_field :: "ValueResponse \<Rightarrow> float64 option" where
  "known_field r =
     (if VrValue r \<noteq> 0 then Some (VrValue r) else if VrPrice r \<noteq> 0 then Some (VrPrice r)
      else if VrUSD r \<noteq> 0 then Some (VrUSD r) else if VrRate r \<noteq> 0 then Some (VrRate r)
      else if VrResult r \<noteq> 0 then Some (VrResult r) else if VrData r \<noteq> 0 then Some (VrData r) else None)"

definition parseDirectValue :: "'w worker_env \<Rightarrow> string \<Rightarrow> go_error + float64" where
  "parseDirectValue env body =
     (let failed = Inl (GoErr (''could not extract numeric value from response: '' @ body)) in
      case ParseBody env body of
        Inr (JNum x) \<Rightarrow> Inr x
      | Inr JNull \<Rightarrow> Inr 0
      | Inr (JStr s) \<Rightarrow> (case ParseFloat s of Inr x \<Rightarrow> Inr x | Inl _ \<Rightarrow> failed)
      | _ \<Rightarrow> failed)"

definition response_of :: "'w worker_env \<Rightarrow> string \<Rightarrow> ValueResponse option" where
  "response_of env body = (case ParseBody env body of Inl e \<Rightarrow> None | Inr v \<Rightarrow> value_response v)"

text \<open>A route in the response makes the code use the route of the job.\<close>

definition extractValueFromResponse :: "'w worker_env \<Rightarrow> ConditionWorkerData \<Rightarrow> string \<Rightarrow> go_error + float64" where
  "extractValueFromResponse env d body =
     (case (if SelectedKeyRoute d = [] then Inl (GoErr []) else extractValueByKeyPath env body (SelectedKeyRoute d)) of
        Inr x \<Rightarrow> Inr x
      | Inl _ \<Rightarrow>
          (case response_of env body of
             None \<Rightarrow> parseDirectValue env body
           | Some r \<Rightarrow>
               if VrSelectedKeyRoute r \<noteq> [] then extractValueByKeyPath env body (SelectedKeyRoute d)
               else (case known_field r of Some x \<Rightarrow> Inr x | None \<Rightarrow> parseDirectValue env body)))"

section \<open>Fetching\<close>

definition fetchFromAPI :: "'w worker_env \<Rightarrow> ConditionWorkerData \<Rightarrow> ('w, float64) io" where
  "fetchFromAPI env d =
     io_bind (io_wrap ''HTTP request failed'' (io_call (HttpGet env (ValueSourceUrl d)))) (\<lambda>(status, body).
     if status \<noteq> 200 then io_fail (GoErr (''HTTP request failed with status: '' @ show_int status))
     else (case body of
         Inl e \<Rightarrow> io_fail (Wrap ''failed to read response body'' e)
       | Inr text \<Rightarrow> (case extractValueFromResponse env d text of Inl e \<Rightarrow> io_fail e | Inr x \<Rightarrow> io_ret x)))"

definition fetchStaticValue :: "ConditionWorkerData \<Rightarrow> go_error + float64" where
  "fetchStaticValue d =
     (case ParseFloat (ValueSourceUrl d) of Inl _ \<Rightarrow> Inl (GoErr (''invalid static value: '' @ ValueSourceUrl d)) | Inr x \<Rightarrow> Inr x)"

definition fetchValue :: "'w worker_env \<Rightarrow> ConditionWorkerData \<Rightarrow> ('w, float64) io" where
  "fetchValue env d =
     (if ValueSourceType d = ''api'' \<or> ValueSourceType d = ''oracle'' then fetchFromAPI env d
      else if ValueSourceType d = ''static'' then (\<lambda>w. Some (fetchStaticValue d, w))
      else io_fail (GoErr (''unsupported value source type: '' @ ValueSourceType d)))"

definition evaluateCondition :: "ConditionWorkerData \<Rightarrow> float64 \<Rightarrow> go_error + bool" where
  "evaluateCondition d v =
     (if ConditionType d = ''greater_than'' then Inr (LowerLimit d < v)
      else if ConditionType d = ''less_than'' then Inr (v < UpperLimit d)
      else if ConditionType d = ''between'' then Inr (LowerLimit d \<le> v \<and> v \<le> UpperLimit d)
      else if ConditionType d = ''equals'' then Inr (v = LowerLimit d)
      else if ConditionType d = ''not_equals'' then Inr (v \<noteq> LowerLimit d)
      else if ConditionType d = ''greater_equal'' then Inr (LowerLimit d \<le> v)
      else if ConditionType d = ''less_equal'' then Inr (v \<le> UpperLimit d)
      else Inl (GoErr (''unsupported condition type: '' @ ConditionType d)))"

section \<open>The worker\<close>

definition notification :: "ConditionWorkerData \<Rightarrow> float64 \<Rightarrow> int \<Rightarrow> TriggerNotification" where
  "notification d v t = \<lparr>NtJobID = CwJobID d, TriggerTxHash = [], TriggerValue = v, TriggeredAt = t\<rparr>"

text \<open>
  The result says whether the worker is to be stopped. An error of the callback is only logged.
\<close>

definition checkCondition :: "'w worker_env \<Rightarrow> 'w trigger_callback \<Rightarrow> ConditionWorker \<Rightarrow> 'w
    \<Rightarrow> ((go_error + bool) \<times> ConditionWorker \<times> 'w) option" where
  "checkCondition env callback w s =
     (case fetchValue env (WorkerData w) s of
        None \<Rightarrow> None
      | Some (Inl e, s1) \<Rightarrow> Some (Inl (Wrap ''failed to fetch value'' e), w, s1)
      | Some (Inr v, s1) \<Rightarrow>
          (let w1 = w\<lparr>LastValue := v, LastCheckTimestamp := WorkerClock env s1\<rparr> in
           case evaluateCondition (WorkerData w) v of
             Inl e \<Rightarrow> Some (Inl (Wrap ''failed to evaluate condition'' e), w1, s1)
           | Inr satisfied \<Rightarrow>
               if satisfied then
                 (case callback (notification (WorkerData w) v (WorkerClock env s1)) s1 of
                    None \<Rightarrow> None
                  | Some (_, s2) \<Rightarrow> Some (Inr (\<not> CwRecurring (WorkerData w)), w1\<lparr>ConditionMet := i64 (ConditionMet w1 + 1)\<rparr>, s2))
               else Some (Inr False, w1\<lparr>ConditionMet := 0\<rparr>, s1)))"

text \<open>The error of the cleanup is only logged; a cleanup that does not return blocks the goroutine that stops the worker.\<close>

definition Stop :: "'w cleanup_callback \<Rightarrow> ConditionWorker \<Rightarrow> 'w \<Rightarrow> (ConditionWorker \<times> 'w) option" where
  "Stop cleanup w s =
     (if IsActive w then
        (case cleanup (CwJobID (WorkerData w)) s of
           None \<Rightarrow> None
         | Some (_, s') \<Rightarrow> Some (w\<lparr>IsActive := False, Cancelled := True\<rparr>, s'))
      else Some (w, s))"

text \<open>One tick of the loop of \<open>Start\<close>; the flag says whether the loop goes on.\<close>

definition tick :: "'w worker_env \<Rightarrow> 'w trigger_callback \<Rightarrow> 'w cleanup_callback
    \<Rightarrow> ConditionWorker \<Rightarrow> 'w \<Rightarrow> (bool \<times> ConditionWorker \<times> 'w) option" where
  "tick env callback cleanup w s =
     (if Cancelled w then Some (False, w, s)
      else if CwExpirationTime (WorkerData w) < WorkerClock env s then map_option (\<lambda>(w', s'). (False, w', s')) (Stop cleanup w s)
      else
        (case checkCondition env callback w s of
           None \<Rightarrow> None
         | Some (Inr True, w1, s1) \<Rightarrow> map_option (\<lambda>(w', s'). (True, w', s')) (Stop cleanup w1 s1)
         | Some (_, w1, s1) \<Rightarrow> Some (True, w1, s1)))"

section \<open>Values from a socket\<close>

definition extractNumericValueFromMessage :: "'w worker_env \<Rightarrow> ConditionWorkerData \<Rightarrow> string \<Rightarrow> go_error + float64" where
  "extractNumericValueFromMessage env d body =
     (case (if SelectedKeyRoute d = [] then Inl (GoErr []) else extractValueByKeyPath env body (SelectedKeyRoute d)) of
        Inr x \<Rightarrow> Inr x
      | Inl _ \<Rightarrow>
          (case response_of env body of
             None \<Rightarrow> parseDirectValue env body
           | Some r \<Rightarrow>
               (case (if VrSelectedKeyRoute r \<noteq> [] then extractValueByKeyPath env body (SelectedKeyRoute d) else Inl (GoErr [])) of
                  Inr x \<Rightarrow> Inr x
                | Inl _ \<Rightarrow> (case known_field r of Some x \<Rightarrow> Inr x | None \<Rightarrow> parseDirectValue env body))))"

text \<open>The result says whether the worker is to be stopped.\<close>

definition handleWebSocketMessage :: "'w worker_env \<Rightarrow> 'w trigger_callback \<Rightarrow> ConditionWorkerData \<Rightarrow> string \<Rightarrow> ('w, bool) io" where
  "handleWebSocketMessage env callback d message s =
     (case extractNumericValueFromMessage env d message of
        Inl _ \<Rightarrow> io_ret False s
      | Inr v \<Rightarrow>
          (case evaluateCondition d v of
             Inl _ \<Rightarrow> io_ret False s
           | Inr satisfied \<Rightarrow>
               if \<not> satisfied then io_ret False s
               else io_bind (io_try (callback (notification d v (WorkerClock env s)))) (\<lambda>_. io_ret (\<not> CwRecurring d)) s))"

end
