(* ===== verification/Condition_Scheduler.thy ===== *)
theory Condition_Scheduler
  imports Condition_Worker Task_Types Retry
begin

text \<open>
  The scheduler of jobs that wait for a condition or for an event (\<open>internal/schedulers/condition\<close>: \<open>schedule.go\<close>,
  \<open>notification.go\<close>, \<open>Stop\<close> and the cleanup of \<open>init.go\<close>, the checks of \<open>utils.go\<close>, \<open>api/handlers/events.go\<close> and the handlers of
  \<open>api/handlers/scheduler.go\<close>). Its two maps of workers have pointers as keys: a \<open>big_ptr\<close> is nil or an address with
  the number that is stored there, which no code changes. An operation is a computation on the record of the
  scheduler; \<open>None\<close> is a panic or a lock that is never released. The workers are those of \<open>Condition_Worker\<close>, run on the
  state of the scheduler. The database, the task dispatcher, the event monitor and the clocks are the fields of
  \<open>scheduler_env\<close>, over a world of any type. Counters of metrics and the closing of clients are left out.
\<close>

section \<open>Pointers to numbers\<close>

type_synonym big_ptr = "(nat \<times> int) option"

definition ToBigInt :: "big_ptr \<Rightarrow> int option" where
  "ToBigInt p = map_option snd p"

definition big_text :: "int option \<Rightarrow> string" where
  "big_text n = (case n of None \<Rightarrow> ''<nil>'' | Some i \<Rightarrow> show_int i)"

text \<open>\<open>SetString(s, 10)\<close> of a \<open>big.Int\<close>.\<close>

definition parse_big :: "string \<Rightarrow> int option" where
  "parse_big s =
     (case s of
        c # t \<Rightarrow> if c = CHR ''-'' then map_option (\<lambda>n. - int n) (parse_nat t)
                 else if c = CHR ''+'' then map_option int (parse_nat t)
                 else map_option int (parse_nat s)
      | [] \<Rightarrow> None)"

section \<open>State\<close>

record EventWorkerData =
  EwJobID :: "int option"
  EwExpirationTime :: int
  EwRecurring :: bool
  TriggerChainID :: string
  TriggerContractAddress :: string
  TriggerEvent :: string
  EventFilterParaName :: string
  EventFilterValue :: string

record ScheduleConditionJobData =
  JobID :: big_ptr
  JbTaskDefinitionID :: int
  JbLastExecutedAt :: int
  TaskTarget :: TaskTargetData
  EventData :: EventWorkerData
  ConditionData :: ConditionWorkerData
  JbIsImua :: bool

text \<open>
  The map of event workers holds nil for every job, so it is the set of its keys. The map of condition workers holds nil for
  a job on a socket; the worker itself runs in a goroutine of its own.
\<close>

record 'w ConditionBasedScheduler =
  conditionWorkers :: "big_ptr \<rightharpoonup> ConditionWorker option"
  socketWorkers :: "big_ptr \<rightharpoonup> ConditionWorker"
  eventWorkers :: "big_ptr set"
  jobDataStore :: "string \<rightharpoonup> ScheduleConditionJobData"
  workersLocked :: bool
  notificationLocked :: bool
  nextAddress :: nat
  schedulerID :: int
  webhookURL :: string
  outside :: 'w

record 'w scheduler_env =
  ValueSource :: "'w worker_env"
  IsHexAddress :: "string \<Rightarrow> bool"
  Register :: "MonitoringRequest \<Rightarrow> 'w \<Rightarrow> (go_error + unit) \<times> 'w"
  UnregisterRequest :: "string \<Rightarrow> 'w \<Rightarrow> (go_error + unit) \<times> 'w"
  CreateTask :: "int option \<Rightarrow> int \<Rightarrow> 'w \<Rightarrow> (go_error + int) \<times> 'w"
  SubmitTask :: "SchedulerTaskRequest \<Rightarrow> 'w \<Rightarrow> (go_error + TaskManagerAPIResponse) \<times> 'w"
  SchedulerClock :: "'w \<Rightarrow> int"
  SubmitRetry :: "('w, go_error) retry_env"

type_synonym ('w, 'a) sch = "('w ConditionBasedScheduler, 'a) io"

definition on_outside :: "('w \<Rightarrow> (go_error + 'a) \<times> 'w) \<Rightarrow> ('w, 'a) sch" where
  "on_outside f s = (case f (outside s) of (r, w) \<Rightarrow> Some (r, s\<lparr>outside := w\<rparr>))"

text \<open>Go's locks are not reentrant: a computation that locks what it already holds never returns.\<close>

definition with_workers :: "('w, 'a) sch \<Rightarrow> ('w, 'a) sch" where
  "with_workers m s =
     (if workersLocked s then None
      else map_option (\<lambda>(r, s'). (r, s'\<lparr>workersLocked := False\<rparr>)) (m (s\<lparr>workersLocked := True\<rparr>)))"

definition with_notifications :: "('w, 'a) sch \<Rightarrow> ('w, 'a) sch" where
  "with_notifications m s =
     (if notificationLocked s then None
      else map_option (\<lambda>(r, s'). (r, s'\<lparr>notificationLocked := False\<rparr>)) (m (s\<lparr>notificationLocked := True\<rparr>)))"

definition NewBigInt :: "int option \<Rightarrow> ('w, big_ptr) sch" where
  "NewBigInt i s =
     (case i of
        None \<Rightarrow> Some (Inr None, s)
      | Some n \<Rightarrow> Some (Inr (Some (nextAddress s, n)), s\<lparr>nextAddress := Suc (nextAddress s)\<rparr>))"

section \<open>Scheduling\<close>

definition isValidConditionType :: "string \<Rightarrow> bool" where
  "isValidConditionType c \<longleftrightarrow> c \<in> {''greater_than'', ''less_than'', ''between'', ''equals'', ''not_equals'', ''greater_equal'', ''less_equal''}"

definition isValidSourceType :: "string \<Rightarrow> bool" where
  "isValidSourceType c \<longleftrightarrow> c \<in> {''api'', ''oracle'', ''static'', ''websocket''}"

definition createConditionWorker :: "ConditionWorkerData \<Rightarrow> int \<Rightarrow> ConditionWorker" where
  "createConditionWorker d now =
     \<lparr>WorkerData = d, IsActive = False, Cancelled = False, LastValue = 0, LastCheckTimestamp = now, ConditionMet = 0\<rparr>"

definition store_job :: "ScheduleConditionJobData \<Rightarrow> 'w ConditionBasedScheduler \<Rightarrow> 'w ConditionBasedScheduler" where
  "store_job job s = s\<lparr>jobDataStore := (jobDataStore s)(big_text (ToBigInt (JobID job)) \<mapsto> job)\<rparr>"

definition scheduleConditionJob :: "'w scheduler_env \<Rightarrow> ScheduleConditionJobData \<Rightarrow> ('w, unit) sch" where
  "scheduleConditionJob env job s =
     (let k = JobID job; d = ConditionData job; w = createConditionWorker d (SchedulerClock env (outside s)) in
      if conditionWorkers s k \<noteq> None
      then io_fail (GoErr (''job '' @ big_text (ToBigInt k) @ '' is already scheduled'')) s
      else if ValueSourceType d = ''websocket''
      then io_ret () (store_job job (s\<lparr>conditionWorkers := (conditionWorkers s)(k \<mapsto> None), socketWorkers := (socketWorkers s)(k \<mapsto> w)\<rparr>))
      else if \<not> isValidConditionType (ConditionType d)
      then io_fail (GoErr (''unsupported condition type: '' @ ConditionType d)) s
      else if \<not> isValidSourceType (ValueSourceType d)
      then io_fail (GoErr (''unsupported value source type: '' @ ValueSourceType d)) s
      else io_ret () (store_job job (s\<lparr>conditionWorkers := (conditionWorkers s)(k \<mapsto> Some w)\<rparr>)))"

definition monitoringRequest :: "string \<Rightarrow> ScheduleConditionJobData \<Rightarrow> MonitoringRequest" where
  "monitoringRequest url job =
     (let e = EventData job; filtered = EventFilterParaName e \<noteq> [] \<and> EventFilterValue e \<noteq> [] in
      \<lparr>MrRequestID = big_text (ToBigInt (JobID job)), MrChainID = TriggerChainID e, MrContractAddr = TriggerContractAddress e,
       MrEventSig = TriggerEvent e, MrWebhookURL = url, MrExpiresAt = EwExpirationTime e,
       MrFilterParam = (if filtered then EventFilterParaName e else []),
       MrFilterValue = (if filtered then EventFilterValue e else [])\<rparr>)"

definition scheduleEventJob :: "'w scheduler_env \<Rightarrow> ScheduleConditionJobData \<Rightarrow> ('w, unit) sch" where
  "scheduleEventJob env job s =
     (if JobID job \<in> eventWorkers s
      then io_fail (GoErr (''job '' @ big_text (ToBigInt (JobID job)) @ '' is already scheduled'')) s
      else if \<not> IsHexAddress env (TriggerContractAddress (EventData job))
      then io_fail (GoErr (''invalid contract address: '' @ TriggerContractAddress (EventData job))) s
      else io_bind (io_wrap ''failed to register with Event Monitor Service''
                     (on_outside (Register env (monitoringRequest (webhookURL s) job))))
             (\<lambda>_. io_put (\<lambda>t. store_job job (t\<lparr>eventWorkers := insert (JobID job) (eventWorkers t)\<rparr>))) s)"

definition ScheduleJob :: "'w scheduler_env \<Rightarrow> ScheduleConditionJobData \<Rightarrow> ('w, unit) sch" where
  "ScheduleJob env job = with_workers
     (if JbTaskDefinitionID job \<in> {3, 4} then scheduleEventJob env job
      else if JbTaskDefinitionID job \<in> {5, 6} then scheduleConditionJob env job
      else io_fail (GoErr (''unsupported task definition id: '' @ show_int (JbTaskDefinitionID job))))"

text \<open>\<open>go worker.Start()\<close>: what the goroutine does before its loop.\<close>

definition start_worker :: "big_ptr \<Rightarrow> ('w, unit) sch" where
  "start_worker k s =
     (case conditionWorkers s k of
        Some (Some w) \<Rightarrow> Some (Inr (), s\<lparr>conditionWorkers := (conditionWorkers s)(k \<mapsto> Some (w\<lparr>IsActive := True\<rparr>))\<rparr>)
      | _ \<Rightarrow>
         (case socketWorkers s k of
            Some w \<Rightarrow> Some (Inr (), s\<lparr>socketWorkers := (socketWorkers s)(k \<mapsto> w\<lparr>IsActive := True\<rparr>)\<rparr>)
          | None \<Rightarrow> Some (Inr (), s)))"

section \<open>Looking up and removing\<close>

definition drop_job :: "int option \<Rightarrow> 'w ConditionBasedScheduler \<Rightarrow> 'w ConditionBasedScheduler" where
  "drop_job i s = s\<lparr>jobDataStore := (jobDataStore s)(big_text i := None)\<rparr>"

definition cleanupJobData :: "int option \<Rightarrow> ('w, unit) sch" where
  "cleanupJobData i = with_notifications (with_workers (io_put (drop_job i)))"

definition GetJobData :: "int option \<Rightarrow> ('w, ScheduleConditionJobData) sch" where
  "GetJobData i = with_workers (\<lambda>s.
     case jobDataStore s (big_text i) of
       None \<Rightarrow> io_fail (GoErr (''job data not found for job '' @ big_text i)) s
     | Some job \<Rightarrow> io_ret job s)"

definition UnregisterEventJob :: "'w scheduler_env \<Rightarrow> int option \<Rightarrow> ('w, unit) sch" where
  "UnregisterEventJob env i = with_workers (
     io_bind (NewBigInt i) (\<lambda>k.
     io_bind (io_get eventWorkers) (\<lambda>ws.
     if k \<notin> ws then io_fail (GoErr (''job '' @ big_text i @ '' is not an event job''))
     else
       io_bind (io_wrap ''failed to unregister from Event Monitor Service'' (on_outside (UnregisterRequest env (big_text i)))) (\<lambda>_.
       io_bind (NewBigInt i) (\<lambda>k'.
       io_put (\<lambda>s. drop_job i (s\<lparr>eventWorkers := eventWorkers s - {k'}\<rparr>)))))))"

text \<open>\<open>Stop\<close> of the worker stored at a key; on a nil worker it panics.\<close>

definition stop_worker :: "big_ptr \<Rightarrow> ('w, unit) sch" where
  "stop_worker k s =
     (case conditionWorkers s k of
        Some (Some w) \<Rightarrow>
          (case Condition_Worker.Stop cleanupJobData w s of
             None \<Rightarrow> None
           | Some (w', s') \<Rightarrow> Some (Inr (), s'\<lparr>conditionWorkers := (conditionWorkers s')(k \<mapsto> Some w')\<rparr>))
      | _ \<Rightarrow> None)"

definition UnscheduleJob :: "'w scheduler_env \<Rightarrow> int option \<Rightarrow> ('w, unit) sch" where
  "UnscheduleJob env i = with_notifications (with_workers (
     io_bind (NewBigInt i) (\<lambda>k.
     io_bind (io_get conditionWorkers) (\<lambda>cs.
     if cs k \<noteq> None then
       io_bind (stop_worker k) (\<lambda>_.
       io_bind (NewBigInt i) (\<lambda>k'.
       io_put (\<lambda>s. drop_job i (s\<lparr>conditionWorkers := (conditionWorkers s)(k' := None)\<rparr>))))
     else
       io_bind (NewBigInt i) (\<lambda>k2.
       io_bind (io_get eventWorkers) (\<lambda>es.
       if k2 \<in> es then
         io_bind (io_try (on_outside (UnregisterRequest env (big_text i)))) (\<lambda>_.
         io_bind (NewBigInt i) (\<lambda>k'.
         io_put (\<lambda>s. drop_job i (s\<lparr>eventWorkers := eventWorkers s - {k'}\<rparr>))))
       else io_fail (GoErr (''job '' @ big_text i @ '' is not scheduled''))))))))"

text \<open>
  \<open>Stop\<close>: the maps are ranged over in the orders \<open>ks\<close> and \<open>es\<close>. Cancelling the context of the scheduler cancels the
  contexts of its workers.
\<close>

definition cancel_workers :: "'w ConditionBasedScheduler \<Rightarrow> 'w ConditionBasedScheduler" where
  "cancel_workers s = s\<lparr>conditionWorkers := (map_option (map_option (\<lambda>w. w\<lparr>Cancelled := True\<rparr>))) \<circ> conditionWorkers s,
     socketWorkers := (map_option (\<lambda>w. w\<lparr>Cancelled := True\<rparr>)) \<circ> socketWorkers s\<rparr>"

fun sch_each :: "('b \<Rightarrow> ('w, unit) sch) \<Rightarrow> 'b list \<Rightarrow> ('w, unit) sch" where
  "sch_each f [] = io_ret ()"
| "sch_each f (x # xs) = io_bind (f x) (\<lambda>_. sch_each f xs)"

definition Stop :: "'w scheduler_env \<Rightarrow> big_ptr list \<Rightarrow> big_ptr list \<Rightarrow> ('w, unit) sch" where
  "Stop env ks es =
     io_bind (io_put cancel_workers) (\<lambda>_.
     with_workers (
       io_bind (sch_each stop_worker ks) (\<lambda>_.
       io_bind (sch_each (\<lambda>k. io_bind (io_try (on_outside (UnregisterRequest env (big_text (ToBigInt k))))) (\<lambda>_. io_ret ())) es) (\<lambda>_.
       io_put (\<lambda>s. s\<lparr>conditionWorkers := Map.empty, eventWorkers := {}, jobDataStore := Map.empty\<rparr>)))))"

text \<open>One tick of \<open>cleanupExpiredEventJobs\<close>, ranging over the event jobs in the order \<open>es\<close>.\<close>

definition expired_jobs :: "int \<Rightarrow> big_ptr list \<Rightarrow> 'w ConditionBasedScheduler \<Rightarrow> int option list" where
  "expired_jobs now es s = map ToBigInt (filter (\<lambda>k.
     case jobDataStore s (big_text (ToBigInt k)) of
       None \<Rightarrow> False | Some job \<Rightarrow> EwExpirationTime (EventData job) < now) es)"

definition cleanupExpiredEventJobs :: "'w scheduler_env \<Rightarrow> big_ptr list \<Rightarrow> ('w, unit) sch" where
  "cleanupExpiredEventJobs env es =
     io_bind (io_get (\<lambda>s. SchedulerClock env (outside s))) (\<lambda>now.
     io_bind (with_workers (io_get (expired_jobs now es))) (\<lambda>ids.
     sch_each (\<lambda>i. io_bind (io_try (UnregisterEventJob env i)) (\<lambda>_. io_ret ())) ids))"

section \<open>Triggers\<close>

definition createTriggerDataFromNotification :: "ScheduleConditionJobData \<Rightarrow> TriggerNotification \<Rightarrow> TaskTriggerData" where
  "createTriggerDataFromNotification job n =
     (let base = zero_trigger\<lparr>TrTaskID := TgTaskID (TaskTarget job), TrTaskDefinitionID := JbTaskDefinitionID job,
        CurrentTriggerTimestamp := TriggeredAt n\<rparr>; d = ConditionData job; e = EventData job in
      if JbTaskDefinitionID job \<in> {5, 6} then
        base\<lparr>TrExpirationTime := CwExpirationTime d, ConditionSatisfiedValue := f64_to_i64 (TriggerValue n),
          TrConditionType := ConditionType d, ConditionSourceType := ValueSourceType d, ConditionSourceUrl := ValueSourceUrl d,
          ConditionUpperLimit := f64_to_i64 (UpperLimit d), ConditionLowerLimit := f64_to_i64 (LowerLimit d)\<rparr>
      else if JbTaskDefinitionID job \<in> {3, 4} then
        base\<lparr>TrExpirationTime := EwExpirationTime e, EventTxHash := TriggerTxHash n, EventChainId := TriggerChainID e,
          EventTriggerContractAddress := TriggerContractAddress e, EventTriggerName := TriggerEvent e\<rparr>
      else base)"

definition submit_config :: "go_error RetryConfig" where
  "submit_config =
     \<lparr>MaxRetries = 3, InitialDelay = second, MaxDelay = 10 * second, BackoffFactor = 2, JitterFactor = f64 (2 / 10),
      LogRetryAttempt = True,
      ShouldRetry = Some (\<lambda>e _. \<not> contains ''invalid'' (error_text e) \<and> \<not> contains ''permission denied'' (error_text e))\<rparr>"

definition submit_operation :: "'w scheduler_env \<Rightarrow> SchedulerTaskRequest \<Rightarrow> 'w \<Rightarrow> (go_error + bool) \<times> 'w" where
  "submit_operation env request w =
     (case SubmitTask env request w of
        (Inl e, w') \<Rightarrow> (Inl (Wrap ''RPC call failed'' e), w')
      | (Inr response, w') \<Rightarrow>
          (if \<not> Success response
           then Inl (GoErr (''task dispatcher processing failed: '' @ Message response @ '' - '' @ RespError response))
           else Inr True, w'))"

definition submitTaskToTaskManager :: "'w scheduler_env \<Rightarrow> SchedulerTaskRequest \<Rightarrow> ('w, bool) sch" where
  "submitTaskToTaskManager env request = on_outside (\<lambda>w.
     case Retry (SubmitRetry env) (submit_operation env request) (Some submit_config) w of
       (Inl e, w') \<Rightarrow> (Inl (retry_cause e), w')
     | (Inr success, w') \<Rightarrow> (Inr success, w'))"

definition task_request :: "int \<Rightarrow> ScheduleConditionJobData \<Rightarrow> TriggerNotification \<Rightarrow> SchedulerTaskRequest" where
  "task_request scheduler job n =
     (let t = TaskTarget job;
          targetData = zero_target\<lparr>TgJobID := ToBigInt (JobID job), TgTaskID := TgTaskID t, TgTaskDefinitionID := JbTaskDefinitionID job,
            TargetChainID := TargetChainID t, TargetContractAddress := TargetContractAddress t, TargetFunction := TargetFunction t,
            ABI := ABI t, ArgType := ArgType t, Arguments := Arguments t,
            DynamicArgumentsScriptUrl := DynamicArgumentsScriptUrl t, TgIsImua := JbIsImua job\<rparr>
      in \<lparr>RequestData = \<lparr>TaskID = [TgTaskID t], Performer = no_performer, TargetData = [targetData],
            TriggerData = [createTriggerDataFromNotification job n], SchedulerID = scheduler, ManagerSignature = []\<rparr>,
          Source = ''condition_scheduler''\<rparr>)"

definition submitTriggeredTaskToTaskDispatcher :: "'w scheduler_env \<Rightarrow> ScheduleConditionJobData \<Rightarrow> TriggerNotification \<Rightarrow> ('w, bool) sch" where
  "submitTriggeredTaskToTaskDispatcher env job n s = submitTaskToTaskManager env (task_request (schedulerID s) job n) s"

text \<open>The task id is written into the stored job.\<close>

definition HandleTriggerNotification :: "'w scheduler_env \<Rightarrow> TriggerNotification \<Rightarrow> ('w, unit) sch" where
  "HandleTriggerNotification env n = with_notifications (
     io_bind (with_workers (io_get (\<lambda>s. jobDataStore s (big_text (NtJobID n))))) (\<lambda>stored.
     case stored of
       None \<Rightarrow> io_fail (GoErr (''job data not found for job '' @ big_text (NtJobID n)))
     | Some job \<Rightarrow>
         io_bind (io_wrap ''failed to create task in database''
                   (on_outside (CreateTask env (ToBigInt (JobID job)) (JbTaskDefinitionID job)))) (\<lambda>taskID.
         let job' = job\<lparr>TaskTarget := (TaskTarget job)\<lparr>TgTaskID := taskID\<rparr>\<rparr> in
         io_bind (io_put (\<lambda>s. s\<lparr>jobDataStore := (jobDataStore s)(big_text (NtJobID n) \<mapsto> job')\<rparr>)) (\<lambda>_.
         io_bind (submitTriggeredTaskToTaskDispatcher env job' n) (\<lambda>_. io_ret ())))))"

text \<open>The answer is the HTTP status; a body that cannot be bound is an error.\<close>

definition HandleEventNotification :: "'w scheduler_env \<Rightarrow> go_error + EventNotification \<Rightarrow> ('w, int) sch" where
  "HandleEventNotification env body =
     (case body of
        Inl _ \<Rightarrow> io_ret 400
      | Inr n \<Rightarrow>
          (case parse_big (EnRequestID n) of
             None \<Rightarrow> io_ret 400
           | Some i \<Rightarrow>
               io_bind (NewBigInt (Some i)) (\<lambda>_.
               io_bind (io_try (GetJobData (Some i))) (\<lambda>r.
               case r of
                 Inl _ \<Rightarrow> io_ret 200
               | Inr job \<Rightarrow>
                   io_bind (io_get (\<lambda>s. SchedulerClock env (outside s))) (\<lambda>now.
                   if EwExpirationTime (EventData job) < now
                   then io_bind (io_try (UnregisterEventJob env (Some i))) (\<lambda>_. io_ret 200)
                   else
                     io_bind (io_try (HandleTriggerNotification env
                       \<lparr>NtJobID = Some i, TriggerTxHash = EnTxHash n, TriggerValue = 0, TriggeredAt = EnTimestamp n\<rparr>)) (\<lambda>r.
                     case r of
                       Inl _ \<Rightarrow> io_ret 500
                     | Inr _ \<Rightarrow>
                         if EwRecurring (EventData job) then io_ret 200
                         else io_bind (io_try (UnregisterEventJob env (Some i))) (\<lambda>_. io_ret 200)))))))"

text \<open>The handlers of \<open>api/handlers/scheduler.go\<close>: decoding a job allocates its number, or leaves nil.\<close>

definition schedule_handler :: "'w scheduler_env \<Rightarrow> go_error + (int option \<times> ScheduleConditionJobData) \<Rightarrow> ('w, int) sch" where
  "schedule_handler env body =
     (case body of
        Inl _ \<Rightarrow> io_ret 400
      | Inr (i, job) \<Rightarrow>
          io_bind (NewBigInt i) (\<lambda>k.
          io_bind (io_try (ScheduleJob env (job\<lparr>JobID := k\<rparr>))) (\<lambda>r.
          io_ret (case r of Inl _ \<Rightarrow> 500 | Inr _ \<Rightarrow> 200))))"

definition unschedule_handler :: "'w scheduler_env \<Rightarrow> string \<Rightarrow> ('w, int) sch" where
  "unschedule_handler env job_id =
     (case parse_big job_id of
        None \<Rightarrow> io_ret 400
      | Some i \<Rightarrow>
          io_bind (io_try (UnscheduleJob env (Some i))) (\<lambda>r. io_ret (case r of Inl _ \<Rightarrow> 500 | Inr _ \<Rightarrow> 200)))"

text \<open>The two routes for jobs of \<open>api/server.go\<close>: the one that unschedules has no parameter, so \<open>job_id\<close> is empty.\<close>

definition job_route :: "'w scheduler_env \<Rightarrow> (string \<Rightarrow> go_error + (int option \<times> ScheduleConditionJobData)) \<Rightarrow> string \<Rightarrow> string \<Rightarrow> ('w, int) sch" where
  "job_route env decode path body =
     (if path = ''/api/v1/job/schedule'' then schedule_handler env (decode body)
      else if path = ''/api/v1/job/pause'' then unschedule_handler env []
      else io_ret 404)"

section \<open>The workers on the scheduler\<close>

definition source :: "'w scheduler_env \<Rightarrow> 'w ConditionBasedScheduler worker_env" where
  "source env =
     \<lparr>HttpGet = \<lambda>url s. (case HttpGet (ValueSource env) url (outside s) of (r, w) \<Rightarrow> (r, s\<lparr>outside := w\<rparr>)),
      ParseBody = ParseBody (ValueSource env),
      WorkerClock = \<lambda>s. WorkerClock (ValueSource env) (outside s)\<rparr>"

definition worker_tick :: "'w scheduler_env \<Rightarrow> big_ptr \<Rightarrow> ('w, unit) sch" where
  "worker_tick env k s =
     (case conditionWorkers s k of
        Some (Some w) \<Rightarrow>
          (case tick (source env) (HandleTriggerNotification env) cleanupJobData w s of
             None \<Rightarrow> None
           | Some (_, w', s') \<Rightarrow> Some (Inr (), s'\<lparr>conditionWorkers := (conditionWorkers s')(k \<mapsto> Some w')\<rparr>))
      | _ \<Rightarrow> Some (Inr (), s))"

definition socket_message :: "'w scheduler_env \<Rightarrow> big_ptr \<Rightarrow> string \<Rightarrow> ('w, unit) sch" where
  "socket_message env k message s =
     (case socketWorkers s k of
        None \<Rightarrow> Some (Inr (), s)
      | Some w \<Rightarrow>
          if Cancelled w then Some (Inr (), s)
          else
            (case handleWebSocketMessage (source env) (HandleTriggerNotification env) (WorkerData w) message s of
               None \<Rightarrow> None
             | Some (Inr True, s1) \<Rightarrow>
                 (case Condition_Worker.Stop cleanupJobData w s1 of
                    None \<Rightarrow> None
                  | Some (w', s2) \<Rightarrow> Some (Inr (), s2\<lparr>socketWorkers := (socketWorkers s2)(k \<mapsto> w')\<rparr>))
             | Some (_, s1) \<Rightarrow> Some (Inr (), s1)))"

section \<open>What the operations do to the maps\<close>

text \<open>
  Every operation but scheduling only removes keys from the maps of workers, never hands out an address twice and leaves the locks as it
  has found them.
\<close>

definition worker_keys :: "'w ConditionBasedScheduler \<Rightarrow> big_ptr set" where
  "worker_keys s = dom (conditionWorkers s) \<union> dom (socketWorkers s) \<union> eventWorkers s"

definition shrinks :: "'w ConditionBasedScheduler \<Rightarrow> 'w ConditionBasedScheduler \<Rightarrow> bool" where
  "shrinks s s' \<longleftrightarrow> nextAddress s \<le> nextAddress s' \<and> worker_keys s' \<subseteq> worker_keys s \<and>
     workersLocked s' = workersLocked s \<and> notificationLocked s' = notificationLocked s"

interpretation shrink: state_order shrinks
  by unfold_locales (auto simp: shrinks_def)

named_theorems shrink_intros \<open>operations that shrink the maps of workers\<close>

lemmas [shrink_intros] = shrink.rel_intros

lemma shrinks_same:
  "nextAddress s' = nextAddress s \<Longrightarrow> conditionWorkers s' = conditionWorkers s \<Longrightarrow> socketWorkers s' = socketWorkers s \<Longrightarrow>
     eventWorkers s' = eventWorkers s \<Longrightarrow> workersLocked s' = workersLocked s \<Longrightarrow> notificationLocked s' = notificationLocked s \<Longrightarrow> shrinks s s'"
  by (simp add: shrinks_def worker_keys_def)

lemma shrinks_outside [shrink_intros]: "io_rel shrinks (on_outside f)"
  by (auto simp: io_rel_def on_outside_def intro: shrinks_same split: prod.splits)

lemma shrinks_locked:
  "\<not> workersLocked s \<Longrightarrow> shrinks (s\<lparr>workersLocked := True\<rparr>) t \<Longrightarrow> shrinks s (t\<lparr>workersLocked := False\<rparr>)"
  "\<not> notificationLocked s \<Longrightarrow> shrinks (s\<lparr>notificationLocked := True\<rparr>) t \<Longrightarrow> shrinks s (t\<lparr>notificationLocked := False\<rparr>)"
  by (auto simp: shrinks_def worker_keys_def)

lemma shrinks_workers [shrink_intros]: "io_rel shrinks m \<Longrightarrow> io_rel shrinks (with_workers m)"
  by (auto simp: with_workers_def io_rel_def [of _ "with_workers m"] shrinks_locked dest: io_relD split: if_splits)

lemma shrinks_notifications [shrink_intros]: "io_rel shrinks m \<Longrightarrow> io_rel shrinks (with_notifications m)"
  by (auto simp: with_notifications_def io_rel_def [of _ "with_notifications m"] shrinks_locked dest: io_relD split: if_splits)

lemma shrinks_new [shrink_intros]: "io_rel shrinks (NewBigInt i)"
  by (auto simp: io_rel_def NewBigInt_def shrinks_def worker_keys_def split: option.splits)

lemma shrinks_each [shrink_intros]: "(\<And>x. io_rel shrinks (f x)) \<Longrightarrow> io_rel shrinks (sch_each f xs)"
  by (induction xs) (auto intro: shrink_intros)

lemma shrinks_cleanup [shrink_intros]: "io_rel shrinks (cleanupJobData i)"
  unfolding cleanupJobData_def by (intro shrink_intros) (simp add: drop_job_def shrinks_same)

lemma shrinks_get_job [shrink_intros]: "io_rel shrinks (GetJobData i)"
  unfolding GetJobData_def
  by (intro shrink_intros) (auto simp: io_rel_def io_fail_def io_ret_def shrink.R_refl split: option.splits)

lemma shrinks_unregister [shrink_intros]: "io_rel shrinks (UnregisterEventJob env i)"
  unfolding UnregisterEventJob_def
  by (intro shrink_intros) (auto simp: drop_job_def shrinks_def worker_keys_def)

lemma shrinks_stopped: "Condition_Worker.Stop cleanupJobData w s = Some (w', s') \<Longrightarrow> shrinks s s'"
  using io_relD [OF shrinks_cleanup]
  by (auto simp: Condition_Worker.Stop_def shrink.R_refl split: if_splits option.splits)

lemma shrinks_stop_worker [shrink_intros]: "io_rel shrinks (stop_worker k)"
proof -
  have "shrinks s (s'\<lparr>conditionWorkers := (conditionWorkers s')(k \<mapsto> Some w')\<rparr>)"
    if "conditionWorkers s k = Some (Some w)" and "Condition_Worker.Stop cleanupJobData w s = Some (w', s')"
    for s s' :: "'a ConditionBasedScheduler" and w w'
    using shrinks_stopped [OF that(2)] that(1) by (auto simp: shrinks_def worker_keys_def)
  then show ?thesis by (auto simp: io_rel_def stop_worker_def split: option.splits)
qed

lemma shrinks_unschedule [shrink_intros]: "io_rel shrinks (UnscheduleJob env i)"
  unfolding UnscheduleJob_def
  by (intro shrink_intros) (auto simp: drop_job_def shrinks_def worker_keys_def split: if_splits)

lemma shrinks_stop [shrink_intros]: "io_rel shrinks (Stop env ks es)"
  unfolding Stop_def
  by (intro shrink_intros) (auto simp: cancel_workers_def shrinks_def worker_keys_def dom_def)

lemma shrinks_expired [shrink_intros]: "io_rel shrinks (cleanupExpiredEventJobs env es)"
  unfolding cleanupExpiredEventJobs_def by (intro shrink_intros)

lemma shrinks_submit [shrink_intros]: "io_rel shrinks (submitTriggeredTaskToTaskDispatcher env job n)"
  unfolding submitTriggeredTaskToTaskDispatcher_def submitTaskToTaskManager_def
  by (rule shrink.rel_here) (intro shrink_intros)

lemma shrinks_trigger [shrink_intros]: "io_rel shrinks (HandleTriggerNotification env n)"
  unfolding HandleTriggerNotification_def Let_def by (intro shrink_intros) (simp add: shrinks_same)

lemma shrinks_event [shrink_intros]: "io_rel shrinks (HandleEventNotification env body)"
  unfolding HandleEventNotification_def by (intro shrink_intros)

lemma shrinks_start [shrink_intros]: "io_rel shrinks (start_worker k)"
  by (auto simp: io_rel_def start_worker_def shrinks_def worker_keys_def split: option.splits)

lemma shrinks_unschedule_handler [shrink_intros]: "io_rel shrinks (unschedule_handler env i)"
  unfolding unschedule_handler_def by (intro shrink_intros)

lemma shrinks_fetch: "fetchValue (source env) d s = Some (r, s') \<Longrightarrow> shrinks s s'"
proof -
  have g: "io_rel shrinks (io_call (HttpGet (source env) url))" for url
    by (auto simp: io_rel_def io_call_def source_def intro: shrinks_same split: prod.splits)
  have "io_rel shrinks (fetchFromAPI (source env) d)"
    unfolding fetchFromAPI_def
    by (intro shrink_intros g) (auto intro!: shrink_intros split: prod.splits)
  then have "io_rel shrinks (fetchValue (source env) d)"
    unfolding fetchValue_def
    by (intro shrink_intros) (auto simp: io_rel_def shrink.R_refl)
  then show "fetchValue (source env) d s = Some (r, s') \<Longrightarrow> shrinks s s'" by (rule io_relD)
qed

lemma shrinks_callback: "shrinks s t \<Longrightarrow> HandleTriggerNotification env n t = Some (r, u) \<Longrightarrow> shrinks s u"
  by (blast intro: shrink.R_trans io_relD [OF shrinks_trigger])

lemma shrinks_check: "checkCondition (source env) (HandleTriggerNotification env) w s = Some (r, w', s') \<Longrightarrow> shrinks s s'"
  by (auto simp: checkCondition_def Let_def dest!: shrinks_fetch intro: shrinks_callback
      split: option.splits sum.splits if_splits)

lemma shrinks_tick:
  "tick (source env) (HandleTriggerNotification env) cleanupJobData w s = Some (r, w', s') \<Longrightarrow> shrinks s s'"
  by (auto simp: tick_def shrink.R_refl dest!: shrinks_check shrinks_stopped intro: shrink.R_trans
      split: option.splits sum.splits if_splits bool.splits)

lemma shrinks_worker_tick [shrink_intros]: "io_rel shrinks (worker_tick env k)"
  by (auto simp: io_rel_def worker_tick_def shrink.R_refl dest!: shrinks_tick split: option.splits)
    (auto simp: shrinks_def worker_keys_def)

lemma shrinks_message [shrink_intros]: "io_rel shrinks (socket_message env k m)"
proof -
  have h: "shrinks s s'"
    if "handleWebSocketMessage (source env) (HandleTriggerNotification env) d m s = Some (r, s')" for d r s s'
    using that
    by (auto simp: handleWebSocketMessage_def io_bind_Some io_try_Some io_ret_def shrink.R_refl
        intro: io_relD [OF shrinks_trigger] split: sum.splits if_splits)
  have st: "shrinks s (u\<lparr>socketWorkers := (socketWorkers u)(k \<mapsto> w')\<rparr>)"
    if "socketWorkers s k = Some w" and "shrinks s t" and "shrinks t u" for w w' and s t u :: "'a ConditionBasedScheduler"
    using shrink.R_trans [OF that(2,3)] that(1) by (auto simp: shrinks_def worker_keys_def)
  show ?thesis
    unfolding io_rel_def socket_message_def
    by (auto simp: shrink.R_refl split: option.splits if_splits sum.splits bool.splits
        dest!: h shrinks_stopped intro: st shrink.R_trans)
qed

section \<open>The running scheduler\<close>

definition new_scheduler :: "int \<Rightarrow> string \<Rightarrow> 'w \<Rightarrow> 'w ConditionBasedScheduler" where
  "new_scheduler i url w = \<lparr>conditionWorkers = Map.empty, socketWorkers = Map.empty, eventWorkers = {}, jobDataStore = Map.empty,
     workersLocked = False, notificationLocked = False, nextAddress = 0, schedulerID = i, webhookURL = url, outside = w\<rparr>"

inductive sched_step :: "'w scheduler_env \<Rightarrow> 'w ConditionBasedScheduler \<Rightarrow> 'w ConditionBasedScheduler \<Rightarrow> bool"
  for env where
  schedule: "schedule_handler env job s = Some (r, s') \<Longrightarrow> sched_step env s s'"
| unschedule: "unschedule_handler env i s = Some (r, s') \<Longrightarrow> sched_step env s s'"
| event: "HandleEventNotification env n s = Some (r, s') \<Longrightarrow> sched_step env s s'"
| cleanup: "cleanupExpiredEventJobs env es s = Some (r, s') \<Longrightarrow> sched_step env s s'"
| started: "start_worker k s = Some (r, s') \<Longrightarrow> sched_step env s s'"
| ticked: "worker_tick env k s = Some (r, s') \<Longrightarrow> sched_step env s s'"
| message: "socket_message env k m s = Some (r, s') \<Longrightarrow> sched_step env s s'"
| stopped: "Stop env ks es s = Some (r, s') \<Longrightarrow> sched_step env s s'"

inductive reachable :: "'w scheduler_env \<Rightarrow> 'w ConditionBasedScheduler \<Rightarrow> bool" for env where
  start: "reachable env (new_scheduler i url w)"
| step: "reachable env s \<Longrightarrow> sched_step env s s' \<Longrightarrow> reachable env s'"

definition fresh_keys :: "'w ConditionBasedScheduler \<Rightarrow> bool" where
  "fresh_keys s \<longleftrightarrow> (\<forall>a n. Some (a, n) \<in> worker_keys s \<longrightarrow> a < nextAddress s) \<and> \<not> workersLocked s \<and> \<not> notificationLocked s"

lemma fresh_shrinks: "fresh_keys s \<Longrightarrow> shrinks s s' \<Longrightarrow> fresh_keys s'"
  by (force simp: fresh_keys_def shrinks_def)

lemma store_job_simps [simp]:
  "conditionWorkers (store_job job s) = conditionWorkers s" "socketWorkers (store_job job s) = socketWorkers s"
  "eventWorkers (store_job job s) = eventWorkers s" "nextAddress (store_job job s) = nextAddress s"
  "workersLocked (store_job job s) = workersLocked s" "notificationLocked (store_job job s) = notificationLocked s"
  by (simp_all add: store_job_def)

lemma schedule_adds_key:
  assumes "ScheduleJob env job s = Some (r, s')" and "\<not> workersLocked s"
  shows "nextAddress s' = nextAddress s \<and> worker_keys s' \<subseteq> insert (JobID job) (worker_keys s) \<and>
    \<not> workersLocked s' \<and> notificationLocked s' = notificationLocked s"
  using assms
  by (auto simp: ScheduleJob_def with_workers_def scheduleEventJob_def scheduleConditionJob_def io_defs on_outside_def
      worker_keys_def Let_def split: if_splits option.splits sum.splits prod.splits)

lemma fresh_schedule:
  assumes "schedule_handler env body s = Some (r, s')" and "fresh_keys s"
  shows "fresh_keys s'"
proof (cases body)
  case (Inl e)
  then show ?thesis using assms by (simp add: schedule_handler_def io_ret_def)
next
  case (Inr ij)
  obtain i job where ij: "ij = (i, job)" by force
  obtain k s1 where k: "NewBigInt i s = Some (Inr k, s1)"
    by (cases i) (auto simp: NewBigInt_def)
  then have s1: "fresh_keys s1" "\<forall>a n. k = Some (a, n) \<longrightarrow> a < nextAddress s1"
    using assms(2) io_relD [OF shrinks_new k] fresh_shrinks by (auto simp: NewBigInt_def split: option.splits)
  from assms(1) obtain r' where "ScheduleJob env (job\<lparr>JobID := k\<rparr>) s1 = Some (r', s')"
    by (auto simp: Inr ij schedule_handler_def io_bind_Some io_try_Some io_ret_def k)
  from schedule_adds_key [OF this] s1 show ?thesis
    by (force simp: fresh_keys_def)
qed

lemma fresh_step: "sched_step env s s' \<Longrightarrow> fresh_keys s \<Longrightarrow> fresh_keys s'"
  by (induction rule: sched_step.induct) (blast intro: fresh_schedule fresh_shrinks io_relD shrink_intros)+

lemma reachable_fresh: "reachable env s \<Longrightarrow> fresh_keys s"
  by (induction rule: reachable.induct)
    (auto simp: fresh_step, simp add: fresh_keys_def worker_keys_def new_scheduler_def)

lemma fresh_lookup:
  assumes "fresh_keys s" and "nextAddress s \<le> a"
  shows "conditionWorkers s (Some (a, i)) = None" "Some (a, i) \<notin> eventWorkers s"
  using assms by (auto simp: fresh_keys_def worker_keys_def domIff dest: spec [of _ a])

lemma unregister_fails:
  assumes "fresh_keys s"
  shows "UnregisterEventJob env (Some i) s =
    Some (Inl (GoErr (''job '' @ show_int i @ '' is not an event job'')), s\<lparr>nextAddress := Suc (nextAddress s)\<rparr>)"
  using assms fresh_lookup [OF assms order.refl, of i]
  by (cases s) (simp add: UnregisterEventJob_def with_workers_def NewBigInt_def io_defs fresh_keys_def big_text_def)

lemma unschedule_fails:
  assumes "fresh_keys s"
  shows "UnscheduleJob env (Some i) s =
    Some (Inl (GoErr (''job '' @ show_int i @ '' is not scheduled'')), s\<lparr>nextAddress := nextAddress s + 2\<rparr>)"
  using assms fresh_lookup [OF assms order.refl, of i] fresh_lookup [OF assms, of "Suc (nextAddress s)" i]
  by (cases s) (simp add: UnscheduleJob_def with_workers_def with_notifications_def NewBigInt_def io_defs fresh_keys_def big_text_def)

text \<open>The parts of the state that decide which events trigger a task.\<close>

definition scheduled :: "'w ConditionBasedScheduler \<Rightarrow> string set \<times> big_ptr set \<times> bool \<times> bool" where
  "scheduled s = (dom (jobDataStore s), eventWorkers s, workersLocked s, notificationLocked s)"

lemma submit_outside: "\<exists>r w. submitTriggeredTaskToTaskDispatcher env job n s = Some (r, s\<lparr>outside := w\<rparr>)"
  by (auto simp: submitTriggeredTaskToTaskDispatcher_def submitTaskToTaskManager_def on_outside_def split: prod.split sum.split)

lemma trigger_keeps_scheduled:
  assumes "HandleTriggerNotification env n s = Some (r, s')"
  shows "scheduled s' = scheduled s"
proof (cases "jobDataStore s (big_text (NtJobID n))")
  case None
  with assms show ?thesis
    by (auto simp: HandleTriggerNotification_def with_notifications_def with_workers_def io_defs scheduled_def split: if_splits)
next
  case (Some job)
  obtain x w where x: "CreateTask env (ToBigInt (JobID job)) (JbTaskDefinitionID job) (outside s) = (x, w)" by force
  show ?thesis
  proof (cases x)
    case (Inl e)
    with Some x assms show ?thesis
      by (auto simp: HandleTriggerNotification_def with_notifications_def with_workers_def io_defs scheduled_def on_outside_def split: if_splits)
  next
    case (Inr i)
    let ?job = "job\<lparr>TaskTarget := (TaskTarget job)\<lparr>TgTaskID := i\<rparr>\<rparr>"
    let ?s = "s\<lparr>notificationLocked := True, workersLocked := False, outside := w,
      jobDataStore := (jobDataStore s)(big_text (NtJobID n) \<mapsto> ?job)\<rparr>"
    obtain r' w' where "submitTriggeredTaskToTaskDispatcher env ?job n ?s = Some (r', ?s\<lparr>outside := w'\<rparr>)"
      using submit_outside [of env ?job n ?s] by blast
    with Some x Inr assms show ?thesis
      by (cases r') (auto simp: HandleTriggerNotification_def with_notifications_def with_workers_def io_defs scheduled_def
          on_outside_def Let_def split: if_splits)
  qed
qed

text \<open>Steps that change nothing about which events trigger a task, in states that can be reached.\<close>

definition keeps_jobs :: "'w ConditionBasedScheduler \<Rightarrow> 'w ConditionBasedScheduler \<Rightarrow> bool" where
  "keeps_jobs s s' \<longleftrightarrow> (fresh_keys s \<longrightarrow> fresh_keys s' \<and> scheduled s' = scheduled s)"

interpretation keep: state_order keeps_jobs
  by unfold_locales (auto simp: keeps_jobs_def)

lemma keeps_jobs_I: "io_rel shrinks m \<Longrightarrow> (\<And>s r s'. fresh_keys s \<Longrightarrow> m s = Some (r, s') \<Longrightarrow> scheduled s' = scheduled s) \<Longrightarrow>
    io_rel keeps_jobs m"
  unfolding io_rel_def keeps_jobs_def using fresh_shrinks by metis

lemma event_keeps_scheduled: "io_rel keeps_jobs (HandleEventNotification env body)"
proof -
  have un: "io_rel keeps_jobs (UnregisterEventJob env (Some i))" for i
    by (rule keeps_jobs_I [OF shrinks_unregister]) (auto simp: unregister_fails scheduled_def)
  have gt: "io_rel keeps_jobs (GetJobData i)" for i
    by (rule keeps_jobs_I [OF shrinks_get_job])
      (auto simp: GetJobData_def with_workers_def fresh_keys_def io_ret_def io_fail_def scheduled_def split: option.splits)
  have tr: "io_rel keeps_jobs (HandleTriggerNotification env n)" for n
    by (rule keeps_jobs_I [OF shrinks_trigger]) (rule trigger_keeps_scheduled)
  have nw: "io_rel keeps_jobs (NewBigInt (Some i))" for i
    by (rule keeps_jobs_I [OF shrinks_new]) (auto simp: NewBigInt_def scheduled_def)
  show ?thesis
    unfolding HandleEventNotification_def by (intro keep.rel_intros un gt tr nw)
qed

section \<open>Shutting down\<close>

text \<open>With the lock of the workers held, a worker that is active cannot be stopped: its callback asks for the same lock.\<close>

definition idle_worker :: "'w ConditionBasedScheduler \<Rightarrow> big_ptr \<Rightarrow> bool" where
  "idle_worker s k \<longleftrightarrow> (\<exists>w. conditionWorkers s k = Some (Some w) \<and> \<not> IsActive w)"

lemma stop_worker_locked:
  assumes "workersLocked s"
  shows "stop_worker k s = (if idle_worker s k then Some (Inr (), s) else None)"
  using assms
  by (cases "conditionWorkers s k")
    (auto simp: stop_worker_def idle_worker_def Condition_Worker.Stop_def cleanupJobData_def with_notifications_def with_workers_def
      fun_upd_idem split: option.splits)

lemma stop_all_locked:
  "workersLocked s \<Longrightarrow> sch_each stop_worker ks s = (if \<forall>k \<in> set ks. idle_worker s k then Some (Inr (), s) else None)"
  by (induction ks) (auto simp: io_ret_def io_bind_def stop_worker_locked)

lemma unregister_all_returns:
  "\<exists>s'. sch_each (\<lambda>k. io_bind (io_try (on_outside (f k))) (\<lambda>_. io_ret ())) es s = Some (Inr (), s')"
  by (induction es arbitrary: s) (auto simp: io_ret_def io_bind_def io_try_def on_outside_def split: prod.splits)

lemma idle_cancelled [simp]: "idle_worker (cancel_workers s\<lparr>workersLocked := b\<rparr>) k = idle_worker s k"
  by (auto simp: idle_worker_def cancel_workers_def)

section \<open>A small instance\<close>

definition demo_source :: "bool worker_env" where
  "demo_source = \<lparr>HttpGet = \<lambda>_ w. (Inl (GoErr ''down''), w), ParseBody = \<lambda>_. Inl (GoErr ''json''), WorkerClock = \<lambda>_. 1\<rparr>"

text \<open>The world says whether the database is up.\<close>

definition demo_scheduler :: "bool scheduler_env" where
  "demo_scheduler = \<lparr>ValueSource = demo_source, IsHexAddress = \<lambda>_. True, Register = \<lambda>_ w. (Inr (), w),
     UnregisterRequest = \<lambda>_ w. (Inr (), w), CreateTask = \<lambda>_ _ w. (if w then Inr 4 else Inl (GoErr ''down''), w),
     SubmitTask = \<lambda>_ w. (Inr \<lparr>Success = True, RespTaskID = [4], Message = [], Timestamp = [], RespError = []\<rparr>, w), SchedulerClock = \<lambda>_. 1,
     SubmitRetry = \<lparr>ctx_err = \<lambda>_. None, wait_timer = \<lambda>_ s. (None, s), rand_source = \<lambda>s. ((None, 0), s)\<rparr>\<rparr>"

definition demo_event :: EventWorkerData where
  "demo_event = \<lparr>EwJobID = Some 9, EwExpirationTime = 5, EwRecurring = False, TriggerChainID = ''1'', TriggerContractAddress = ''0x1'',
     TriggerEvent = ''Transfer'', EventFilterParaName = [], EventFilterValue = []\<rparr>"

definition demo_condition :: ConditionWorkerData where
  "demo_condition = \<lparr>CwJobID = Some 9, CwExpirationTime = 5, CwRecurring = False, ConditionType = ''between'', SelectedKeyRoute = [],
     UpperLimit = 8, LowerLimit = 2, ValueSourceType = ''static'', ValueSourceUrl = ''7''\<rparr>"

definition demo_job :: "int \<Rightarrow> ScheduleConditionJobData" where
  "demo_job i = \<lparr>JobID = None, JbTaskDefinitionID = i, JbLastExecutedAt = 0, TaskTarget = zero_target, EventData = demo_event,
     ConditionData = demo_condition, JbIsImua = False\<rparr>"

text \<open>The states after the job 9 was scheduled, and after its worker has started.\<close>

definition demo_running :: "bool \<Rightarrow> int \<Rightarrow> bool ConditionBasedScheduler" where
  "demo_running up d =
     (case schedule_handler demo_scheduler (Inr (Some 9, demo_job d)) (new_scheduler 1 [] up) of
        Some (_, s) \<Rightarrow> (case start_worker (Some (0, 9)) s of Some (_, s') \<Rightarrow> s'))"

lemma demo_worker:
  "conditionWorkers (demo_running up 5) = [Some (0, 9) \<mapsto> Some (createConditionWorker demo_condition 1\<lparr>IsActive := True\<rparr>)]"
  "outside (demo_running up 5) = up"
  "jobDataStore (demo_running up 5) (show_int 9) = Some (demo_job 5\<lparr>JobID := Some (0, 9)\<rparr>)"
  by (simp_all add: demo_running_def schedule_handler_def NewBigInt_def new_scheduler_def ScheduleJob_def with_workers_def
      scheduleConditionJob_def demo_job_def demo_condition_def demo_scheduler_def io_defs start_worker_def store_job_def
      createConditionWorker_def isValidConditionType_def isValidSourceType_def ToBigInt_def big_text_def Let_def)

lemma demo_stored:
  "fresh_keys (demo_running up 3)" "outside (demo_running up 3) = up"
  "jobDataStore (demo_running up 3) (show_int 9) = Some (demo_job 3\<lparr>JobID := Some (0, 9)\<rparr>)"
  by (simp_all add: demo_running_def schedule_handler_def NewBigInt_def new_scheduler_def ScheduleJob_def with_workers_def
      scheduleEventJob_def demo_job_def demo_event_def demo_scheduler_def io_defs start_worker_def store_job_def on_outside_def
      ToBigInt_def big_text_def monitoringRequest_def Let_def fresh_keys_def worker_keys_def)

lemma start_returns: "\<exists>s'. start_worker k s = Some (Inr (), s')"
  by (simp add: start_worker_def split: option.split)

lemma demo_reachable: "d \<in> {3, 5} \<Longrightarrow> reachable demo_scheduler (demo_running up d)"
proof -
  assume d: "d \<in> {3, 5}"
  obtain r s where s: "schedule_handler demo_scheduler (Inr (Some 9, demo_job d)) (new_scheduler 1 [] up) = Some (r, s)"
    using d by (auto simp: schedule_handler_def NewBigInt_def new_scheduler_def ScheduleJob_def with_workers_def
        scheduleConditionJob_def scheduleEventJob_def demo_job_def demo_condition_def demo_scheduler_def io_defs on_outside_def
        isValidConditionType_def isValidSourceType_def Let_def)
  obtain s' where s': "start_worker (Some (0, 9)) s = Some (Inr (), s')"
    using start_returns by blast
  have "reachable demo_scheduler s'"
    by (rule reachable.step [OF reachable.step [OF reachable.start]]) (rule sched_step.schedule [OF s], rule sched_step.started [OF s'])
  with s s' show ?thesis by (simp add: demo_running_def)
qed

definition demo_notification :: EventNotification where
  "demo_notification = \<lparr>EnRequestID = ''9'', EnChainID = ''1'', EnContractAddr = ''0x1'', EnEventSig = [],
      EnBlockNumber = 1, EnTxHash = ''0x2'', EnLogIndex = 0, EnTopics = [], EnData = [], EnTimestamp = 1\<rparr>"

lemma submit_config_valid: "Validate submit_config = None"
  by code_simp

lemma demo_submit:
  "submitTriggeredTaskToTaskDispatcher demo_scheduler job n s = Some (Inr True, s)"
proof -
  have "Retry (SubmitRetry demo_scheduler) (submit_operation demo_scheduler r) (Some submit_config) w = (Inr True, w)" for r w
    by (rule Retry_at_once [OF submit_config_valid]) (simp_all add: submit_config_def demo_scheduler_def submit_operation_def)
  then show ?thesis
    by (simp add: submitTriggeredTaskToTaskDispatcher_def submitTaskToTaskManager_def on_outside_def)
qed

lemma demo_create: "CreateTask demo_scheduler i d w = (if w then Inr 4 else Inl (GoErr ''down''), w)"
  by (simp add: demo_scheduler_def)

lemma demo_event_returns:
  "\<exists>s'. HandleEventNotification demo_scheduler (Inr demo_notification) (demo_running True 3) = Some (Inr 200, s')"
proof -
  define s where "s = demo_running True 3\<lparr>nextAddress := Suc (nextAddress (demo_running True 3))\<rparr>"
  have nw: "NewBigInt (Some 9) (demo_running True 3) = Some (Inr (Some (nextAddress (demo_running True 3), 9)), s)"
    by (simp add: NewBigInt_def s_def)
  then have s: "fresh_keys s" "jobDataStore s (show_int 9) = Some (demo_job 3\<lparr>JobID := Some (0, 9)\<rparr>)" "outside s = True"
    using fresh_shrinks [OF demo_stored(1) io_relD [OF shrinks_new]] by (auto simp: s_def demo_stored)
  then have "GetJobData (Some 9) s = Some (Inr (demo_job 3\<lparr>JobID := Some (0, 9)\<rparr>), s)"
    by (cases s) (simp add: GetJobData_def with_workers_def fresh_keys_def big_text_def io_ret_def)
  moreover obtain s1 where s1: "HandleTriggerNotification demo_scheduler
      \<lparr>NtJobID = Some 9, TriggerTxHash = ''0x2'', TriggerValue = 0, TriggeredAt = 1\<rparr> s = Some (Inr (), s1)"
    using s by (simp add: HandleTriggerNotification_def with_notifications_def with_workers_def io_defs fresh_keys_def big_text_def
        on_outside_def demo_submit demo_create Let_def)
  moreover have "fresh_keys s1"
    using fresh_shrinks [OF s(1) io_relD [OF shrinks_trigger s1]] .
  moreover have "parse_big ''9'' = Some 9"
    by code_simp
  ultimately show ?thesis
    using nw s(3)
    by (simp add: HandleEventNotification_def demo_notification_def io_bind_def io_try_def io_get_def io_ret_def unregister_fails
        demo_job_def demo_event_def demo_scheduler_def)
qed

section \<open>Properties\<close>

text \<open>
  C34: A job that is scheduled is never found again: whatever has happened before, taking a job from the schedule and unregistering an
  event job fail for every job id, since the maps are keyed by pointers and the lookup asks for a pointer that it has just allocated.
\<close>

theorem job_never_found:
  assumes "reachable env s"
  shows "UnscheduleJob env (Some i) s =
      Some (Inl (GoErr (''job '' @ show_int i @ '' is not scheduled'')), s\<lparr>nextAddress := nextAddress s + 2\<rparr>) \<and>
    UnregisterEventJob env (Some i) s =
      Some (Inl (GoErr (''job '' @ show_int i @ '' is not an event job'')), s\<lparr>nextAddress := Suc (nextAddress s)\<rparr>)"
  using unschedule_fails unregister_fails reachable_fresh [OF assms] by blast

theorem job_never_found_witness:
  "UnscheduleJob demo_scheduler (Some 9) (demo_running True 5) =
      Some (Inl (GoErr (''job '' @ show_int 9 @ '' is not scheduled'')), demo_running True 5\<lparr>nextAddress := nextAddress (demo_running True 5) + 2\<rparr>) \<and>
    conditionWorkers (demo_running True 5) (Some (0, 9)) \<noteq> None"
  using job_never_found [OF demo_reachable [of 5 True], of 9] by (simp add: demo_worker)

text \<open>
  An event that has triggered a job that does not recur, or that comes after the expiration of its job, changes neither the jobs that are stored nor those that are
  watched, so the next event triggers the job again.
\<close>

theorem event_job_stays:
  assumes "reachable env s" and "HandleEventNotification env body s = Some (r, s')"
  shows "dom (jobDataStore s') = dom (jobDataStore s) \<and> eventWorkers s' = eventWorkers s"
  using io_relD [OF event_keeps_scheduled assms(2)] reachable_fresh [OF assms(1)] by (simp add: keeps_jobs_def scheduled_def)

theorem event_job_stays_witness:
  "\<exists>r s'. HandleEventNotification demo_scheduler (Inr demo_notification) (demo_running True 3) = Some (r, s') \<and>
    r = Inr 200 \<and> show_int 9 \<in> dom (jobDataStore s')"
proof -
  have "\<exists>s'. HandleEventNotification demo_scheduler (Inr demo_notification) (demo_running True 3) = Some (Inr 200, s')"
    by (rule demo_event_returns)
  then show ?thesis
    using event_job_stays [OF demo_reachable [of 3 True]] demo_stored by fastforce
qed

text \<open>
  Nothing prevents a job from being scheduled twice: a valid condition job is accepted whatever was scheduled before, under a key that no
  other worker has, so each copy of it checks the condition and triggers on its own.
\<close>

theorem job_scheduled_again:
  assumes "reachable env s" and "JbTaskDefinitionID job \<in> {5, 6}"
    and "isValidConditionType (ConditionType (ConditionData job))" and "isValidSourceType (ValueSourceType (ConditionData job))"
  shows "\<exists>k s'. schedule_handler env (Inr (Some i, job)) s = Some (Inr 200, s') \<and> ToBigInt k = Some i \<and>
    k \<notin> dom (conditionWorkers s) \<and> dom (conditionWorkers s') = insert k (dom (conditionWorkers s))"
proof -
  let ?k = "Some (nextAddress s, i)" and ?s = "s\<lparr>nextAddress := Suc (nextAddress s), workersLocked := True\<rparr>"
  let ?job = "job\<lparr>JobID := ?k\<rparr>"
  have f: "fresh_keys s" using reachable_fresh [OF assms(1)] .
  then have k: "conditionWorkers s ?k = None" using fresh_lookup by blast
  have "\<exists>s'. scheduleConditionJob env ?job ?s = Some (Inr (), s') \<and> dom (conditionWorkers s') = insert ?k (dom (conditionWorkers s))"
    using k assms(3,4) by (simp add: scheduleConditionJob_def io_ret_def Let_def)
  then obtain s' where "scheduleConditionJob env ?job ?s = Some (Inr (), s')" "dom (conditionWorkers s') = insert ?k (dom (conditionWorkers s))"
    by blast
  then have "schedule_handler env (Inr (Some i, job)) s = Some (Inr 200, s'\<lparr>workersLocked := False\<rparr>)"
    using f assms(2) by (auto simp: schedule_handler_def NewBigInt_def ScheduleJob_def with_workers_def io_bind_def io_try_def io_ret_def fresh_keys_def)
  then show ?thesis using k \<open>dom (conditionWorkers s') = _\<close>
    by (intro exI [of _ ?k] exI [of _ "s'\<lparr>workersLocked := False\<rparr>"]) (auto simp: ToBigInt_def)
qed

theorem job_scheduled_again_witness:
  "\<exists>k s'. schedule_handler demo_scheduler (Inr (Some 9, demo_job 5)) (demo_running True 5) = Some (Inr 200, s') \<and> ToBigInt k = Some 9 \<and>
    k \<notin> dom (conditionWorkers (demo_running True 5)) \<and> dom (conditionWorkers s') = insert k (dom (conditionWorkers (demo_running True 5)))"
  using job_scheduled_again [OF demo_reachable [of 5 True], of "demo_job 5"]
  by (simp add: demo_job_def demo_condition_def isValidConditionType_def isValidSourceType_def)

text \<open>
  C39: Shutting the scheduler down returns only when no condition worker is active and no job watches a socket: an active worker asks for a lock
  that the shutdown holds, and the worker of a socket job is nil.
\<close>

theorem stop_returns_iff:
  assumes "reachable env s" and "range_order (conditionWorkers s) ks"
  shows "(\<exists>r s'. Stop env ks es s = Some (r, s')) \<longleftrightarrow>
    (\<forall>k w. conditionWorkers s k = Some w \<longrightarrow> (\<exists>v. w = Some v \<and> \<not> IsActive v))"
proof -
  let ?s = "cancel_workers s\<lparr>workersLocked := True\<rparr>"
  have l: "\<not> workersLocked (cancel_workers s)"
    using reachable_fresh [OF assms(1)] by (simp add: fresh_keys_def cancel_workers_def)
  obtain u where "sch_each (\<lambda>k. io_bind (io_try (on_outside (UnregisterRequest env (big_text (ToBigInt k))))) (\<lambda>_. io_ret ())) es ?s = Some (Inr (), u)"
    using unregister_all_returns [of "\<lambda>k. UnregisterRequest env (big_text (ToBigInt k))"] by blast
  then have "(\<exists>r s'. Stop env ks es s = Some (r, s')) \<longleftrightarrow> (\<forall>k \<in> set ks. idle_worker s k)"
    using l by (simp add: Stop_def io_bind_def io_put_def with_workers_def stop_all_locked)
  also have "\<dots> \<longleftrightarrow> (\<forall>k. k \<in> dom (conditionWorkers s) \<longrightarrow> idle_worker s k)"
    using assms(2) by (simp add: range_order_def Ball_def)
  also have "\<dots> \<longleftrightarrow> (\<forall>k w. conditionWorkers s k = Some w \<longrightarrow> (\<exists>v. w = Some v \<and> \<not> IsActive v))"
  proof -
    have "k \<in> dom (conditionWorkers s) \<longrightarrow> idle_worker s k \<longleftrightarrow>
        (\<forall>w. conditionWorkers s k = Some w \<longrightarrow> (\<exists>v. w = Some v \<and> \<not> IsActive v))" for k
      by (cases "conditionWorkers s k") (auto simp: idle_worker_def)
    then show ?thesis by blast
  qed
  finally show ?thesis .
qed

theorem stop_returns_iff_witness:
  "Stop demo_scheduler [Some (0, 9)] [] (demo_running True 5) = None"
proof -
  have "range_order (conditionWorkers (demo_running True 5)) [Some (0, 9)]"
    by (simp add: range_order_def demo_worker)
  from stop_returns_iff [OF demo_reachable this, of "[]"]
  have "\<not> (\<exists>r s'. Stop demo_scheduler [Some (0, 9)] [] (demo_running True 5) = Some (r, s'))"
    by (auto simp: demo_worker createConditionWorker_def)
  then show ?thesis by (cases "Stop demo_scheduler [Some (0, 9)] [] (demo_running True 5)") auto
qed

text \<open>
  A job that does not recur loses its trigger when its task cannot be created: its worker stops and its data are dropped, though nothing was submitted.
\<close>

theorem failed_trigger_is_lost:
  assumes "reachable env s" and "conditionWorkers s k = Some (Some w)" and "IsActive w" and "\<not> Cancelled w"
    and "\<not> CwExpirationTime (WorkerData w) < WorkerClock (ValueSource env) (outside s)"
    and "fetchValue (source env) (WorkerData w) s = Some (Inr v, s)" and "evaluateCondition (WorkerData w) v = Inr True"
    and "\<not> CwRecurring (WorkerData w)" and "HandleTriggerNotification env (notification (WorkerData w) v (WorkerClock (ValueSource env) (outside s))) s = Some (Inl e, s1)"
  shows "\<exists>w' s'. worker_tick env k s = Some (Inr (), s') \<and> conditionWorkers s' k = Some (Some w') \<and> Cancelled w' \<and> \<not> IsActive w' \<and>
    jobDataStore s' (big_text (CwJobID (WorkerData w))) = None"
proof -
  have "fresh_keys s1" using reachable_fresh [OF assms(1)] fresh_shrinks io_relD [OF shrinks_trigger assms(9)] by blast
  then show ?thesis
    using assms(2-9)
    by (simp add: worker_tick_def tick_def checkCondition_def source_def Condition_Worker.Stop_def cleanupJobData_def with_notifications_def
        with_workers_def io_put_def drop_job_def fresh_keys_def Let_def)
qed

theorem failed_trigger_is_lost_witness:
  "\<exists>w' s'. worker_tick demo_scheduler (Some (0, 9)) (demo_running False 5) = Some (Inr (), s') \<and>
    conditionWorkers s' (Some (0, 9)) = Some (Some w') \<and> Cancelled w' \<and> \<not> IsActive w' \<and> jobDataStore s' (big_text (Some 9)) = None"
proof -
  let ?s = "demo_running False 5" and ?w = "createConditionWorker demo_condition 1\<lparr>IsActive := True\<rparr>"
  have f: "fresh_keys ?s" using reachable_fresh [OF demo_reachable] by simp
  have "fetchStaticValue demo_condition = Inr 7"
    by code_simp
  then have v: "fetchValue (source demo_scheduler) (WorkerData ?w) ?s = Some (Inr 7, ?s)"
    by (simp add: fetchValue_def createConditionWorker_def demo_condition_def)
  have w: "conditionWorkers ?s (Some (0, 9)) = Some (Some ?w)" "IsActive ?w" "\<not> Cancelled ?w"
    "\<not> CwExpirationTime (WorkerData ?w) < WorkerClock (ValueSource demo_scheduler) (outside ?s)"
    "evaluateCondition (WorkerData ?w) 7 = Inr True" "\<not> CwRecurring (WorkerData ?w)" "CwJobID (WorkerData ?w) = Some 9"
    by (simp_all add: demo_worker createConditionWorker_def demo_condition_def demo_scheduler_def demo_source_def evaluateCondition_def)
  have "\<exists>e s1. HandleTriggerNotification demo_scheduler
      (notification (WorkerData ?w) 7 (WorkerClock (ValueSource demo_scheduler) (outside ?s))) ?s = Some (Inl e, s1)"
    using f by (simp add: HandleTriggerNotification_def with_notifications_def with_workers_def io_defs fresh_keys_def on_outside_def
        demo_worker notification_def createConditionWorker_def demo_condition_def big_text_def demo_create)
  then obtain e s1 where h: "HandleTriggerNotification demo_scheduler
      (notification (WorkerData ?w) 7 (WorkerClock (ValueSource demo_scheduler) (outside ?s))) ?s = Some (Inl e, s1)" by blast
  show ?thesis
    using failed_trigger_is_lost [OF _ w(1-4) v w(5,6) h] demo_reachable w(7) by simp
qed

end
