(* ===== verification/Event_Registry.thy ===== *)
theory Event_Registry
  imports Task_Types
begin

text \<open>
  The event monitor's registry and service (\<open>internal/eventmonitor\<close>: \<open>registry/registry.go\<close>, \<open>service/service.go\<close>, the
  handlers of \<open>api/handlers/handlers.go\<close>). An entry is shared by the registry and by its worker, so entries live
  in a store and the maps hold their addresses. A worker runs until it is stopped or the context of its entry
  is cancelled. Ranging over a map takes the order of its keys as an argument where the result depends on it. Hashes and
  addresses of contracts are the fields of \<open>monitor_env\<close>; starting a worker's goroutine has no other effect here, what
  it does is in \<open>Event_Worker\<close>.
\<close>

section \<open>State\<close>

record Subscriber =
  SbRequestID :: string
  WebhookURL :: string
  ExpiresAt :: int
  FilterParam :: string
  FilterValue :: string

record RegistryEntry =
  Key :: string
  ChainID :: string
  ContractAddr :: "8 word list"
  EventSig :: "8 word list"
  Subscribers :: "string \<rightharpoonup> Subscriber"
  LastBlock :: "64 word"
  ContextCancelled :: bool

record Worker =
  WkEntry :: nat
  Stopped :: bool

record Service =
  store :: "nat \<rightharpoonup> RegistryEntry"
  nextEntry :: nat
  registry :: "string \<rightharpoonup> nat"
  workers :: "string \<rightharpoonup> Worker"
  nodeClients :: "string set"

record monitor_env =
  AddressOf :: "string \<Rightarrow> 8 word list"
  Keccak256 :: "string \<Rightarrow> 8 word list"

definition new_service :: "string set \<Rightarrow> Service" where
  "new_service clients = \<lparr>store = Map.empty, nextEntry = 0, registry = Map.empty, workers = Map.empty, nodeClients = clients\<rparr>"

definition put_entry :: "nat \<Rightarrow> RegistryEntry \<Rightarrow> Service \<Rightarrow> Service" where
  "put_entry a e s = s\<lparr>store := (store s)(a \<mapsto> e)\<rparr>"

definition subscribers_at :: "Service \<Rightarrow> nat \<Rightarrow> string \<rightharpoonup> Subscriber" where
  "subscribers_at s a = (case store s a of None \<Rightarrow> Map.empty | Some e \<Rightarrow> Subscribers e)"

definition alive :: "Service \<Rightarrow> Worker \<Rightarrow> bool" where
  "alive s w \<longleftrightarrow> \<not> Stopped w \<and> (\<exists>e. store s (WkEntry w) = Some e \<and> \<not> ContextCancelled e)"

section \<open>The registry\<close>

definition generateRegistryKey :: "string \<Rightarrow> string \<Rightarrow> string \<Rightarrow> string" where
  "generateRegistryKey chainID contractAddr eventSig = chainID @ '':'' @ lower contractAddr @ '':'' @ eventSig"

definition request_key :: "MonitoringRequest \<Rightarrow> string" where
  "request_key req = generateRegistryKey (MrChainID req) (MrContractAddr req) (MrEventSig req)"

definition subscriber :: "MonitoringRequest \<Rightarrow> Subscriber" where
  "subscriber req = \<lparr>SbRequestID = MrRequestID req, WebhookURL = MrWebhookURL req, ExpiresAt = MrExpiresAt req,
     FilterParam = MrFilterParam req, FilterValue = MrFilterValue req\<rparr>"

definition new_entry :: "monitor_env \<Rightarrow> MonitoringRequest \<Rightarrow> RegistryEntry" where
  "new_entry env req = \<lparr>Key = request_key req, ChainID = MrChainID req, ContractAddr = AddressOf env (MrContractAddr req),
     EventSig = Keccak256 env (MrEventSig req), Subscribers = Map.empty, LastBlock = 0, ContextCancelled = False\<rparr>"

definition subscribe :: "MonitoringRequest \<Rightarrow> nat \<Rightarrow> Service \<Rightarrow> Service" where
  "subscribe req a s = s\<lparr>store := (store s)(a := map_option
     (\<lambda>e. e\<lparr>Subscribers := (Subscribers e)(MrRequestID req \<mapsto> subscriber req)\<rparr>) (store s a))\<rparr>"

definition Registry_Register :: "monitor_env \<Rightarrow> MonitoringRequest \<Rightarrow> Service \<Rightarrow> (go_error + unit) \<times> Service" where
  "Registry_Register env req s =
     (if AddressOf env (MrContractAddr req) = replicate 20 0
      then (Inl (GoErr (''invalid contract address: '' @ MrContractAddr req)), s)
      else
        (case registry s (request_key req) of
           Some a \<Rightarrow> (Inr (), subscribe req a s)
         | None \<Rightarrow>
             (let a = nextEntry s in
              (Inr (), subscribe req a (put_entry a (new_entry env req)
                 (s\<lparr>nextEntry := Suc a, registry := (registry s)(request_key req \<mapsto> a)\<rparr>))))))"

text \<open>The first key, in the order \<open>ks\<close>, whose entry has the request among its subscribers.\<close>

definition find_request :: "string list \<Rightarrow> string \<Rightarrow> Service \<Rightarrow> (string \<times> nat) option" where
  "find_request ks rid s =
     (case filter (\<lambda>k. case registry s k of None \<Rightarrow> False | Some a \<Rightarrow> subscribers_at s a rid \<noteq> None) ks of
        [] \<Rightarrow> None
      | k # _ \<Rightarrow> map_option (\<lambda>a. (k, a)) (registry s k))"

text \<open>Removing subscribers from an entry; an entry without any goes out of the registry, and its context is cancelled.\<close>

definition remove_subscribers :: "(string \<Rightarrow> Subscriber \<Rightarrow> bool) \<Rightarrow> string \<Rightarrow> nat \<Rightarrow> Service \<Rightarrow> Service" where
  "remove_subscribers gone k a s =
     (case store s a of
        None \<Rightarrow> s
      | Some e \<Rightarrow>
          (let subs = (\<lambda>r. case Subscribers e r of None \<Rightarrow> None | Some sub \<Rightarrow> if gone r sub then None else Some sub);
               e' = e\<lparr>Subscribers := subs\<rparr>
           in if subs = Map.empty
              then (put_entry a (e'\<lparr>ContextCancelled := True\<rparr>) s)\<lparr>registry := (registry s)(k := None)\<rparr>
              else put_entry a e' s))"

definition Registry_Unregister :: "string list \<Rightarrow> string \<Rightarrow> Service \<Rightarrow> (go_error + unit) \<times> Service" where
  "Registry_Unregister ks rid s =
     (case find_request ks rid s of
        None \<Rightarrow> (Inl (GoErr (''request ID not found: '' @ rid)), s)
      | Some (k, a) \<Rightarrow> (Inr (), remove_subscribers (\<lambda>r sub. r = rid) k a s))"

text \<open>One tick of \<open>cleanupExpired\<close>.\<close>

definition expire_entry :: "int \<Rightarrow> string \<Rightarrow> Service \<Rightarrow> Service" where
  "expire_entry now k s =
     (case registry s k of None \<Rightarrow> s | Some a \<Rightarrow> remove_subscribers (\<lambda>r sub. ExpiresAt sub < now) k a s)"

definition cleanupExpired :: "int \<Rightarrow> string list \<Rightarrow> Service \<Rightarrow> Service" where
  "cleanupExpired now ks s = fold (expire_entry now) ks s"

definition GetActiveMonitorCount :: "Service \<Rightarrow> nat" where
  "GetActiveMonitorCount s = card (dom (registry s))"

definition GetChainsSupported :: "Service \<Rightarrow> string set" where
  "GetChainsSupported s = {c. \<exists>k a e. registry s k = Some a \<and> store s a = Some e \<and> ChainID e = c}"

section \<open>The service\<close>

definition startWorker :: "string \<Rightarrow> Service \<Rightarrow> (go_error + unit) \<times> Service" where
  "startWorker key s =
     (case registry s key of
        None \<Rightarrow> (Inl (GoErr (''registry entry not found: '' @ key)), s)
      | Some a \<Rightarrow>
          (case store s a of
             None \<Rightarrow> (Inl (GoErr (''registry entry not found: '' @ key)), s)
           | Some e \<Rightarrow>
               if ChainID e \<notin> nodeClients s then (Inl (GoErr (''node client not found for chain: '' @ ChainID e)), s)
               else (Inr (), s\<lparr>workers := (workers s)(key \<mapsto> \<lparr>WkEntry = a, Stopped = False\<rparr>)\<rparr>)))"

definition Service_Register :: "monitor_env \<Rightarrow> string list \<Rightarrow> MonitoringRequest \<Rightarrow> Service \<Rightarrow> (go_error + unit) \<times> Service" where
  "Service_Register env ks req s =
     (case Registry_Register env req s of
        (Inl e, s1) \<Rightarrow> (Inl e, s1)
      | (Inr _, s1) \<Rightarrow>
          if workers s1 (request_key req) \<noteq> None then (Inr (), s1)
          else
            (case startWorker (request_key req) s1 of
               (Inl e, s2) \<Rightarrow> (Inl (Wrap ''failed to start worker'' e), snd (Registry_Unregister ks (MrRequestID req) s2))
             | (Inr _, s2) \<Rightarrow> (Inr (), s2)))"

text \<open>A stopped worker leaves the map, so nothing refers to it any more.\<close>

definition Service_Unregister :: "string list \<Rightarrow> string list \<Rightarrow> string \<Rightarrow> Service \<Rightarrow> (go_error + unit) \<times> Service" where
  "Service_Unregister ks ks' rid s =
     (case find_request ks rid s of
        None \<Rightarrow> (Inl (GoErr (''request ID not found: '' @ rid)), s)
      | Some (key, a) \<Rightarrow>
          (case Registry_Unregister ks' rid s of
             (Inl e, s1) \<Rightarrow> (Inl e, s1)
           | (Inr _, s1) \<Rightarrow>
               (Inr (), if subscribers_at s1 a = Map.empty then s1\<lparr>workers := (workers s1)(key := None)\<rparr> else s1)))"

definition syncWorkers :: "Service \<Rightarrow> Service" where
  "syncWorkers s = s\<lparr>workers := (\<lambda>key.
     case registry s key of
       None \<Rightarrow> None
     | Some a \<Rightarrow>
         (case workers s key of
            Some w \<Rightarrow> Some w
          | None \<Rightarrow>
              (case store s a of
                 None \<Rightarrow> None
               | Some e \<Rightarrow> if ChainID e \<in> nodeClients s then Some \<lparr>WkEntry = a, Stopped = False\<rparr> else None)))\<rparr>"

definition Service_Stop :: "Service \<Rightarrow> Service" where
  "Service_Stop s = s\<lparr>workers := Map.empty\<rparr>"

section \<open>HTTP\<close>

text \<open>The answer is the HTTP status; a body that cannot be bound is an error.\<close>

definition HandleRegister :: "monitor_env \<Rightarrow> int \<Rightarrow> string list \<Rightarrow> go_error + MonitoringRequest \<Rightarrow> Service \<Rightarrow> int \<times> Service" where
  "HandleRegister env now ks body s =
     (case body of
        Inl _ \<Rightarrow> (400, s)
      | Inr req \<Rightarrow>
          if MrExpiresAt req < now then (400, s)
          else (case Service_Register env ks req s of (Inl _, s') \<Rightarrow> (500, s') | (Inr _, s') \<Rightarrow> (200, s')))"

definition HandleUnregister :: "string list \<Rightarrow> string list \<Rightarrow> go_error + string \<Rightarrow> Service \<Rightarrow> int \<times> Service" where
  "HandleUnregister ks ks' body s =
     (case body of
        Inl _ \<Rightarrow> (400, s)
      | Inr rid \<Rightarrow> (case Service_Unregister ks ks' rid s of (Inl _, s') \<Rightarrow> (404, s') | (Inr _, s') \<Rightarrow> (200, s')))"

definition HandleStatus :: "string list \<Rightarrow> string \<Rightarrow> Service \<Rightarrow> int \<times> (string \<times> 64 word \<times> int) option" where
  "HandleStatus ks rid s =
     (if rid = [] then (400, None)
      else (case find_request ks rid s of
          None \<Rightarrow> (404, None)
        | Some (_, a) \<Rightarrow>
            (case store s a of
               None \<Rightarrow> (404, None)
             | Some e \<Rightarrow>
                 (case Subscribers e rid of
                    None \<Rightarrow> (404, None)
                  | Some sub \<Rightarrow> (200, Some (ChainID e, LastBlock e, ExpiresAt sub))))))"

section \<open>The invariant\<close>

text \<open>
  An entry in the registry has its own key, at least one subscriber and a context that is not cancelled; the other entries are cancelled. A worker
  is kept under the key of its entry, so it is alive exactly when its entry is the one in the registry.
\<close>

definition entry_ok :: "string \<Rightarrow> RegistryEntry \<Rightarrow> bool" where
  "entry_ok k e \<longleftrightarrow> Key e = k \<and> \<not> ContextCancelled e \<and> Subscribers e \<noteq> Map.empty"

definition reg_inv :: "Service \<Rightarrow> bool" where
  "reg_inv s \<longleftrightarrow>
     (\<forall>k a. registry s k = Some a \<longrightarrow> (\<exists>e. store s a = Some e \<and> entry_ok k e)) \<and>
     (\<forall>a e. store s a = Some e \<longrightarrow> a < nextEntry s \<and> (registry s (Key e) = Some a \<or> ContextCancelled e)) \<and>
     (\<forall>k w. workers s k = Some w \<longrightarrow> \<not> Stopped w \<and> (\<exists>e. store s (WkEntry w) = Some e \<and> Key e = k))"

lemma reg_invI:
  assumes "\<And>k a. registry s k = Some a \<Longrightarrow> \<exists>e. store s a = Some e \<and> entry_ok k e"
    and "\<And>a e. store s a = Some e \<Longrightarrow> a < nextEntry s \<and> (registry s (Key e) = Some a \<or> ContextCancelled e)"
    and "\<And>k w. workers s k = Some w \<Longrightarrow> \<not> Stopped w \<and> (\<exists>e. store s (WkEntry w) = Some e \<and> Key e = k)"
  shows "reg_inv s"
  using assms by (simp add: reg_inv_def)

lemma reg_invD:
  assumes "reg_inv s"
  shows "registry s k = Some a \<Longrightarrow> \<exists>e. store s a = Some e \<and> entry_ok k e"
    and "store s a = Some e \<Longrightarrow> a < nextEntry s"
    and "store s a = Some e \<Longrightarrow> registry s (Key e) = Some a \<or> ContextCancelled e"
    and "workers s k = Some w \<Longrightarrow> \<not> Stopped w"
    and "workers s k = Some w \<Longrightarrow> \<exists>e. store s (WkEntry w) = Some e \<and> Key e = k"
  using assms by (auto simp: reg_inv_def)

lemma worker_alive_iff:
  assumes "reg_inv s" and "workers s k = Some w"
  shows "alive s w \<longleftrightarrow> registry s k = Some (WkEntry w)"
  using reg_invD [OF assms(1)] assms(2) by (fastforce simp: alive_def entry_ok_def)

lemma registry_inj: "reg_inv s \<Longrightarrow> registry s k = Some a \<Longrightarrow> registry s k' = Some a \<Longrightarrow> k = k'"
  using reg_invD(1) [of s k a] reg_invD(1) [of s k' a] by (auto simp: entry_ok_def)

lemma inv_new_service: "reg_inv (new_service clients)"
  by (simp add: reg_inv_def new_service_def)

text \<open>Changing an entry without its key, and without leaving it empty.\<close>

lemma put_entry_simps [simp]:
  "store (put_entry a e s) b = (if b = a then Some e else store s b)" "registry (put_entry a e s) = registry s"
  "workers (put_entry a e s) = workers s" "nextEntry (put_entry a e s) = nextEntry s" "nodeClients (put_entry a e s) = nodeClients s"
  by (simp_all add: put_entry_def)

lemma inv_put_entry:
  assumes "reg_inv s" and "store s a = Some e" and "Key e' = Key e" and "ContextCancelled e' = ContextCancelled e"
    and "Subscribers e \<noteq> Map.empty \<Longrightarrow> Subscribers e' \<noteq> Map.empty"
  shows "reg_inv (put_entry a e' s)"
proof (rule reg_invI)
  fix k b
  assume "registry (put_entry a e' s) k = Some b"
  then obtain e0 where "store s b = Some e0" "entry_ok k e0" using reg_invD(1) [OF assms(1)] by auto
  then show "\<exists>e0. store (put_entry a e' s) b = Some e0 \<and> entry_ok k e0"
    using assms(2-) by (auto simp: entry_ok_def)
next
  fix b e0
  assume "store (put_entry a e' s) b = Some e0"
  then show "b < nextEntry (put_entry a e' s) \<and> (registry (put_entry a e' s) (Key e0) = Some b \<or> ContextCancelled e0)"
    using assms(2-4) reg_invD(2,3) [OF assms(1)] by (auto split: if_splits)
next
  fix k w
  assume "workers (put_entry a e' s) k = Some w"
  then show "\<not> Stopped w \<and> (\<exists>e0. store (put_entry a e' s) (WkEntry w) = Some e0 \<and> Key e0 = k)"
    using assms(2-3) reg_invD(4,5) [OF assms(1), of k w] by auto
qed

lemma subscribe_put: "store s a = Some e \<Longrightarrow>
    subscribe req a s = put_entry a (e\<lparr>Subscribers := (Subscribers e)(MrRequestID req \<mapsto> subscriber req)\<rparr>) s"
  by (simp add: subscribe_def put_entry_def)

lemma inv_new_entry:
  assumes "reg_inv s" and "registry s (request_key req) = None"
  shows "reg_inv (put_entry (nextEntry s) ((new_entry env req)\<lparr>Subscribers := [MrRequestID req \<mapsto> subscriber req]\<rparr>)
    (s\<lparr>nextEntry := Suc (nextEntry s), registry := (registry s)(request_key req \<mapsto> nextEntry s)\<rparr>))"
proof -
  have n: "store s (nextEntry s) = None"
    using reg_invD(2) [OF assms(1), of "nextEntry s"] by (cases "store s (nextEntry s)") auto
  then have o: "a \<noteq> nextEntry s" if "store s a = Some e" for a e using that by auto
  show ?thesis
  proof (intro reg_invI, goal_cases)
    case (1 k a)
    then show ?case using reg_invD(1) [OF assms(1), of k a] o by (auto simp: new_entry_def entry_ok_def split: if_splits)
  next
    case (2 a e)
    then show ?case
      using reg_invD(2,3) [OF assms(1), of a e] assms(2) by (auto simp: new_entry_def less_Suc_eq split: if_splits)
  next
    case (3 k w)
    then show ?case using reg_invD(4,5) [OF assms(1), of k w] o by auto
  qed
qed

lemma register_put:
  "Registry_Register env req s = (r, s') \<Longrightarrow> reg_inv s \<Longrightarrow>
     (s' = s \<and> (\<exists>e. r = Inl e)) \<or>
     (r = Inr () \<and> (\<exists>a e. registry s (request_key req) = Some a \<and> store s a = Some e \<and>
        s' = put_entry a (e\<lparr>Subscribers := (Subscribers e)(MrRequestID req \<mapsto> subscriber req)\<rparr>) s)) \<or>
     (r = Inr () \<and> registry s (request_key req) = None \<and>
        s' = put_entry (nextEntry s) ((new_entry env req)\<lparr>Subscribers := [MrRequestID req \<mapsto> subscriber req]\<rparr>)
          (s\<lparr>nextEntry := Suc (nextEntry s), registry := (registry s)(request_key req \<mapsto> nextEntry s)\<rparr>))"
  by (auto simp: Registry_Register_def Let_def subscribe_put put_entry_def subscribe_def new_entry_def
      dest!: reg_invD(1) split: if_splits option.splits)

lemma inv_register: "Registry_Register env req s = (r, s') \<Longrightarrow> reg_inv s \<Longrightarrow> reg_inv s'"
  by (frule (1) register_put) (auto intro: inv_new_entry inv_put_entry)

lemma inv_remove:
  assumes "reg_inv s" and "registry s k = Some a"
  shows "reg_inv (remove_subscribers gone k a s)"
proof -
  obtain e where e: "store s a = Some e" "entry_ok k e" using reg_invD(1) [OF assms] by blast
  let ?subs = "\<lambda>r. case Subscribers e r of None \<Rightarrow> None | Some sub \<Rightarrow> if gone r sub then None else Some sub"
  show ?thesis
  proof (cases "?subs = Map.empty")
    case False
    then have "remove_subscribers gone k a s = put_entry a (e\<lparr>Subscribers := ?subs\<rparr>) s"
      by (simp add: remove_subscribers_def e(1) Let_def)
    then show ?thesis using False assms(1) e(1) by (auto intro: inv_put_entry)
  next
    case True
    then have r: "remove_subscribers gone k a s =
        (put_entry a (e\<lparr>Subscribers := ?subs, ContextCancelled := True\<rparr>) s)\<lparr>registry := (registry s)(k := None)\<rparr>"
      by (simp add: remove_subscribers_def e(1) Let_def)
    have "b \<noteq> a" if "registry s k' = Some b" "k' \<noteq> k" for k' b
      using registry_inj [OF assms(1) that(1)] assms(2) that(2) by blast
    then show ?thesis
      unfolding r
    proof (intro reg_invI, goal_cases)
      case (1 k' b)
      then show ?case using reg_invD(1) [OF assms(1), of k' b] by (auto split: if_splits)
    next
      case (2 b e0)
      then show ?case
        using reg_invD(2,3) [OF assms(1), of b] e assms(2) by (auto split: if_splits)
    next
      case (3 k' w)
      then show ?case using reg_invD(4,5) [OF assms(1), of k' w] e(1) by auto
    qed
  qed
qed

lemma find_requestD: "find_request ks rid s = Some (k, a) \<Longrightarrow> registry s k = Some a \<and> subscribers_at s a rid \<noteq> None"
  by (auto simp: find_request_def filter_eq_Cons_iff split: list.splits option.splits)

lemma inv_unregister: "reg_inv s \<Longrightarrow> reg_inv (snd (Registry_Unregister ks rid s))"
  by (auto simp: Registry_Unregister_def dest: find_requestD intro: inv_remove split: option.splits)

lemma inv_expire: "reg_inv s \<Longrightarrow> reg_inv (expire_entry now k s)"
  by (auto simp: expire_entry_def intro: inv_remove split: option.splits)

lemma inv_cleanup: "reg_inv s \<Longrightarrow> reg_inv (cleanupExpired now ks s)"
  unfolding cleanupExpired_def by (induction ks arbitrary: s) (auto intro: inv_expire)

lemma inv_workers:
  assumes "reg_inv s" and "\<And>k w. ws k = Some w \<Longrightarrow> workers s k = Some w \<or> (\<not> Stopped w \<and> registry s k = Some (WkEntry w))"
  shows "reg_inv (s\<lparr>workers := ws\<rparr>)"
proof (rule reg_invI)
  fix k w
  assume "workers (s\<lparr>workers := ws\<rparr>) k = Some w"
  then have "workers s k = Some w \<or> (\<not> Stopped w \<and> registry s k = Some (WkEntry w))" using assms(2) by simp
  then show "\<not> Stopped w \<and> (\<exists>e. store (s\<lparr>workers := ws\<rparr>) (WkEntry w) = Some e \<and> Key e = k)"
    using reg_invD(1) [OF assms(1), of k "WkEntry w"] reg_invD(4,5) [OF assms(1), of k w] by (auto simp: entry_ok_def)
qed (use reg_invD(1-3) [OF assms(1)] in simp_all)

lemma inv_start_worker: "reg_inv s \<Longrightarrow> reg_inv (snd (startWorker key s))"
  by (auto simp: startWorker_def intro!: inv_workers split: option.splits if_splits)

lemma inv_sync: "reg_inv s \<Longrightarrow> reg_inv (syncWorkers s)"
  unfolding syncWorkers_def by (rule inv_workers) (auto split: option.splits if_splits)

lemma inv_service_register:
  assumes "reg_inv s"
  shows "reg_inv (snd (Service_Register env ks req s))"
proof -
  obtain r s1 where r: "Registry_Register env req s = (r, s1)" by force
  have i: "reg_inv s1" by (rule inv_register [OF r assms])
  obtain x s2 where x: "startWorker (request_key req) s1 = (x, s2)" by force
  have "reg_inv s2" using inv_start_worker [OF i] x by (metis snd_conv)
  then show ?thesis
    using i inv_unregister by (auto simp: Service_Register_def r x split: sum.splits)
qed

lemma inv_service_unregister:
  assumes "reg_inv s"
  shows "reg_inv (snd (Service_Unregister ks ks' rid s))"
proof -
  have "reg_inv (s1\<lparr>workers := (workers s1)(k := None)\<rparr>)" if "reg_inv s1" for s1 k
    using that by (rule inv_workers) (auto split: if_splits)
  then show ?thesis
    using assms inv_unregister [OF assms, of ks' rid]
    by (auto simp: Service_Unregister_def split: option.splits sum.splits prod.splits)
qed

section \<open>The running service\<close>

text \<open>Everything that changes the service, with the orders in which maps are ranged over; \<open>Polled\<close> is a poll that moves the last block of an entry.\<close>

datatype mon_event =
  Registered int "string list" MonitoringRequest | Unregistered "string list" "string list" string
| Expired int "string list" | Synced | Polled nat "64 word" | ServiceStopped

fun mon_step :: "monitor_env \<Rightarrow> Service \<Rightarrow> mon_event \<Rightarrow> Service" where
  "mon_step env s (Registered now ks req) = snd (HandleRegister env now ks (Inr req) s)"
| "mon_step env s (Unregistered ks ks' rid) = snd (HandleUnregister ks ks' (Inr rid) s)"
| "mon_step env s (Expired now ks) = cleanupExpired now ks s"
| "mon_step env s Synced = syncWorkers s"
| "mon_step env s (Polled a b) = (case store s a of None \<Rightarrow> s | Some e \<Rightarrow> put_entry a (e\<lparr>LastBlock := b\<rparr>) s)"
| "mon_step env s ServiceStopped = Service_Stop s"

lemma mon_step_inv: "reg_inv s \<Longrightarrow> reg_inv (mon_step env s e)"
proof (cases e)
  case (Registered now ks req)
  then show "reg_inv s \<Longrightarrow> ?thesis"
    using inv_service_register [of s env ks req]
    by (cases "Service_Register env ks req s") (auto simp: HandleRegister_def split: sum.splits)
next
  case (Unregistered ks ks' rid)
  then show "reg_inv s \<Longrightarrow> ?thesis"
    using inv_service_unregister [of s ks ks' rid]
    by (cases "Service_Unregister ks ks' rid s") (auto simp: HandleUnregister_def split: sum.splits)
qed (auto simp: inv_cleanup inv_sync Service_Stop_def intro: inv_put_entry inv_workers split: option.splits)

interpretation monitor: step_system "mon_step env" reg_inv for env
  by unfold_locales (rule mon_step_inv)

definition running :: "monitor_env \<Rightarrow> Service \<Rightarrow> bool" where
  "running env s \<longleftrightarrow> (\<exists>clients es. s = foldl (mon_step env) (new_service clients) es)"

lemma running_inv: "running env s \<Longrightarrow> reg_inv s"
  by (auto simp: running_def intro: monitor.run_inv inv_new_service)

section \<open>What an expiry does\<close>

definition all_expired :: "int \<Rightarrow> Service \<Rightarrow> nat \<Rightarrow> bool" where
  "all_expired now s a \<longleftrightarrow> (\<forall>r sub. subscribers_at s a r = Some sub \<longrightarrow> ExpiresAt sub < now)"

lemma remove_other:
  assumes "registry s k' = Some b" and "k' \<noteq> k" and "b \<noteq> a"
  shows "store (remove_subscribers gone k' b s) a = store s a" "registry (remove_subscribers gone k' b s) k = registry s k"
    "workers (remove_subscribers gone k' b s) = workers s"
  using assms by (auto simp: remove_subscribers_def Let_def split: option.splits)

lemma remove_workers [simp]: "workers (remove_subscribers gone k a s) = workers s"
  by (simp add: remove_subscribers_def Let_def split: option.split)

lemma cleanup_workers [simp]: "workers (cleanupExpired now ks s) = workers s"
  unfolding cleanupExpired_def
  by (induction ks arbitrary: s) (auto simp: expire_entry_def split: option.split)

lemma remove_all:
  assumes "store s a = Some e" and "\<And>r sub. Subscribers e r = Some sub \<Longrightarrow> gone r sub"
  shows "remove_subscribers gone k a s = (put_entry a (e\<lparr>Subscribers := Map.empty, ContextCancelled := True\<rparr>) s)\<lparr>registry := (registry s)(k := None)\<rparr>"
proof -
  have "(\<lambda>r. case Subscribers e r of None \<Rightarrow> None | Some sub \<Rightarrow> if gone r sub then None else Some sub) = Map.empty"
    using assms(2) by (auto split: option.split)
  then show ?thesis by (simp add: remove_subscribers_def assms(1) Let_def)
qed

lemma expired_gone:
  assumes "registry s k = Some a" and "store s a = Some e" and "all_expired now s a"
  shows "expire_entry now k s = (put_entry a (e\<lparr>Subscribers := Map.empty, ContextCancelled := True\<rparr>) s)\<lparr>registry := (registry s)(k := None)\<rparr>"
  unfolding expire_entry_def using assms
  by (simp add: remove_all all_expired_def subscribers_at_def)

lemma cleanup_unregistered:
  "registry s k = None \<Longrightarrow> store s a = Some e \<Longrightarrow> ContextCancelled e \<Longrightarrow> reg_inv s \<Longrightarrow>
     registry (cleanupExpired now ks s) k = None \<and> (\<exists>e'. store (cleanupExpired now ks s) a = Some e' \<and> ContextCancelled e')"
proof (induction ks arbitrary: s)
  case Nil
  then show ?case by (simp add: cleanupExpired_def)
next
  case (Cons k' ks)
  show ?case
  proof (cases "registry s k'")
    case None
    then show ?thesis using Cons by (simp add: cleanupExpired_def expire_entry_def)
  next
    case (Some b)
    then have "k' \<noteq> k" "b \<noteq> a" using Cons.prems reg_invD(1) [OF Cons.prems(4) Some] by (auto simp: entry_ok_def)
    from remove_other [OF Some this] Cons.prems have
      "registry (expire_entry now k' s) k = None" "store (expire_entry now k' s) a = Some e" "reg_inv (expire_entry now k' s)"
      by (auto simp: expire_entry_def Some intro: inv_remove)
    with Cons.IH Cons.prems(3) show ?thesis by (simp add: cleanupExpired_def)
  qed
qed

lemma cleanup_expired:
  "registry s k = Some a \<Longrightarrow> all_expired now s a \<Longrightarrow> reg_inv s \<Longrightarrow> k \<in> set ks \<Longrightarrow>
     registry (cleanupExpired now ks s) k = None \<and> (\<exists>e'. store (cleanupExpired now ks s) a = Some e' \<and> ContextCancelled e')"
proof (induction ks arbitrary: s)
  case Nil
  then show ?case by simp
next
  case (Cons k' ks)
  obtain e where e: "store s a = Some e" using reg_invD(1) [OF Cons.prems(3,1)] by blast
  show ?case
  proof (cases "k' = k")
    case True
    let ?e = "e\<lparr>Subscribers := Map.empty, ContextCancelled := True\<rparr>"
    have s: "expire_entry now k s = (put_entry a ?e s)\<lparr>registry := (registry s)(k := None)\<rparr>"
      by (rule expired_gone [OF Cons.prems(1) e Cons.prems(2)])
    have "reg_inv (expire_entry now k s)" by (rule inv_expire [OF Cons.prems(3)])
    then show ?thesis
      using cleanup_unregistered [of "expire_entry now k s" k a ?e now ks] True by (simp add: s cleanupExpired_def)
  next
    case False
    then have k: "k \<in> set ks" using Cons.prems(4) by simp
    show ?thesis
    proof (cases "registry s k'")
      case None
      then show ?thesis using Cons k by (simp add: cleanupExpired_def expire_entry_def)
    next
      case (Some b)
      then have "b \<noteq> a" using registry_inj [OF Cons.prems(3) Cons.prems(1)] False by blast
      from remove_other [OF Some False this] Cons.prems have
        "registry (expire_entry now k' s) k = Some a" "all_expired now (expire_entry now k' s) a" "reg_inv (expire_entry now k' s)"
        by (auto simp: expire_entry_def Some all_expired_def subscribers_at_def intro: inv_remove)
      with Cons.IH k show ?thesis by (simp add: cleanupExpired_def)
    qed
  qed
qed

text \<open>A worker whose entry was cancelled stays in the map, and a new entry under its key gets no other.\<close>

lemma register_with_worker:
  assumes "reg_inv s" and "registry s (request_key req) = None" and "workers s (request_key req) = Some w"
    and "AddressOf env (MrContractAddr req) \<noteq> replicate 20 0" and "store s (WkEntry w) = Some e" and "ContextCancelled e"
  shows "\<exists>s'. Service_Register env ks req s = (Inr (), s') \<and> workers s' = workers s \<and>
    registry s' (request_key req) = Some (nextEntry s) \<and> store s' (WkEntry w) = Some e"
proof -
  have "WkEntry w \<noteq> nextEntry s" using reg_invD(2) [OF assms(1,5)] by simp
  then show ?thesis
    using assms(2-) by (simp add: Service_Register_def Registry_Register_def Let_def subscribe_def put_entry_def)
qed

section \<open>A small instance\<close>

definition demo_monitor :: monitor_env where
  "demo_monitor = \<lparr>AddressOf = \<lambda>_. replicate 20 1, Keccak256 = \<lambda>_. [2]\<rparr>"

definition demo_request :: MonitoringRequest where
  "demo_request = \<lparr>MrRequestID = ''9'', MrChainID = ''1'', MrContractAddr = ''0xAb'', MrEventSig = ''E()'', MrWebhookURL = ''u'',
     MrExpiresAt = 5, MrFilterParam = [], MrFilterValue = []\<rparr>"

definition demo_watched :: Service where
  "demo_watched = foldl (mon_step demo_monitor) (new_service {''1''}) [Registered 0 [] demo_request]"

lemma demo_watched_simps:
  "registry demo_watched (request_key demo_request) = Some 0"
  "workers demo_watched (request_key demo_request) = Some \<lparr>WkEntry = 0, Stopped = False\<rparr>"
  "all_expired 6 demo_watched 0"
  by (simp_all add: demo_watched_def HandleRegister_def demo_request_def Service_Register_def Registry_Register_def demo_monitor_def
      new_service_def Let_def subscribe_def put_entry_def startWorker_def new_entry_def all_expired_def subscribers_at_def subscriber_def)

lemma demo_running: "running demo_monitor demo_watched" "running demo_monitor (new_service {''1''})"
  unfolding running_def demo_watched_def by (blast, metis foldl_Nil)

section \<open>Properties\<close>

text \<open>
  C7: Whatever requests, expiries, polls and synchronisations have happened: an entry of the registry has subscribers and a context that is not cancelled, every
  other entry is cancelled, and a worker is kept under the key of its entry.
\<close>

theorem registry_invariant:
  "reg_inv (foldl (mon_step env) (new_service clients) es)"
  by (rule monitor.run_inv) (rule inv_new_service)

text \<open>
  The first registration of an event on a chain that is connected is watched: a worker that is alive polls for the entry that holds the
  new subscriber.
\<close>

theorem first_registration_watched:
  assumes "running env s" and "workers s (request_key req) = None" and "Service_Register env ks req s = (Inr (), s')"
  shows "\<exists>w a. workers s' (request_key req) = Some w \<and> alive s' w \<and> registry s' (request_key req) = Some a \<and> WkEntry w = a \<and>
    subscribers_at s' a (MrRequestID req) = Some (subscriber req)"
proof -
  have i: "reg_inv s" "reg_inv s'"
    using running_inv [OF assms(1)] inv_service_register [OF running_inv [OF assms(1)], of env ks req] assms(3) by simp_all
  obtain r s1 where r: "Registry_Register env req s = (r, s1)" by force
  obtain x s2 where x: "startWorker (request_key req) s1 = (x, s2)" by force
  have r1: "r = Inr ()" using assms(3) r by (cases r) (auto simp: Service_Register_def)
  from register_put [OF r i(1)] r1 obtain a e where a: "registry s1 (request_key req) = Some a" "store s1 a = Some e"
      "Subscribers e (MrRequestID req) = Some (subscriber req)" and w: "workers s1 = workers s"
    by (auto simp: new_entry_def put_entry_def)
  have "x = Inr ()" "s2 = s'" using assms(2,3) r r1 x w by (cases x; auto simp: Service_Register_def)+
  then have "s' = s1\<lparr>workers := (workers s1)(request_key req \<mapsto> \<lparr>WkEntry = a, Stopped = False\<rparr>)\<rparr>"
    using x a by (auto simp: startWorker_def split: if_splits)
  then show ?thesis
    using a worker_alive_iff [OF i(2), of "request_key req" "\<lparr>WkEntry = a, Stopped = False\<rparr>"] by (simp add: subscribers_at_def)
qed

theorem first_registration_watched_witness:
  "\<exists>s' w a. Service_Register demo_monitor [] demo_request (new_service {''1''}) = (Inr (), s') \<and>
    workers s' (request_key demo_request) = Some w \<and> alive s' w \<and> registry s' (request_key demo_request) = Some a \<and> WkEntry w = a \<and>
    subscribers_at s' a ''9'' = Some (subscriber demo_request)"
proof -
  have "\<exists>s'. Service_Register demo_monitor [] demo_request (new_service {''1''}) = (Inr (), s')"
    by (simp add: demo_request_def Service_Register_def Registry_Register_def demo_monitor_def
      new_service_def Let_def subscribe_def put_entry_def startWorker_def new_entry_def)
  then show ?thesis
    using first_registration_watched [OF demo_running(2), of demo_request "[]"] by (auto simp: new_service_def demo_request_def)
qed

text \<open>
  When all subscribers of an event have expired and are cleaned up, and the event is registered again before the workers are synchronised, the
  registration succeeds, but nothing ever polls for it: the cancelled worker of the old entry is still there, and no synchronisation replaces it.
\<close>

theorem reregistered_event_unwatched:
  assumes "running env s" and "registry s (request_key req) = Some a" and "workers s (request_key req) = Some w" and "WkEntry w = a"
    and "all_expired now s a" and "request_key req \<in> set ks" and "AddressOf env (MrContractAddr req) \<noteq> replicate 20 0"
  shows "\<exists>s'. Service_Register env ks' req (cleanupExpired now ks s) = (Inr (), s') \<and> registry s' (request_key req) \<noteq> None \<and>
    workers ((syncWorkers ^^ n) s') (request_key req) = Some w \<and> \<not> alive ((syncWorkers ^^ n) s') w"
proof -
  let ?s1 = "cleanupExpired now ks s"
  have i: "reg_inv s" by (rule running_inv [OF assms(1)])
  obtain e where e: "registry ?s1 (request_key req) = None" "store ?s1 a = Some e" "ContextCancelled e"
    using cleanup_expired [OF assms(2,5) i assms(6)] by blast
  obtain s' where s': "Service_Register env ks' req ?s1 = (Inr (), s')" "workers s' = workers ?s1"
      "registry s' (request_key req) = Some (nextEntry ?s1)" "store s' (WkEntry w) = Some e"
    using register_with_worker [OF inv_cleanup [OF i] e(1) _ assms(7), where w = w and e = e and ks = ks'] assms(3,4) e by auto
  have "workers ((syncWorkers ^^ n) s') (request_key req) = Some w \<and> registry ((syncWorkers ^^ n) s') = registry s' \<and>
      store ((syncWorkers ^^ n) s') = store s'"
    using s'(2,3) assms(3) by (induction n) (auto simp: syncWorkers_def)
  then show ?thesis using s' e(3) by (auto simp: alive_def)
qed


theorem reregistered_event_unwatched_witness:
  "\<exists>s'. Service_Register demo_monitor [] demo_request (cleanupExpired 6 [request_key demo_request] demo_watched) = (Inr (), s') \<and>
    registry s' (request_key demo_request) \<noteq> None \<and>
    workers ((syncWorkers ^^ 3) s') (request_key demo_request) = Some \<lparr>WkEntry = 0, Stopped = False\<rparr> \<and>
    \<not> alive ((syncWorkers ^^ 3) s') \<lparr>WkEntry = 0, Stopped = False\<rparr>"
  by (rule reregistered_event_unwatched [OF demo_running(1) demo_watched_simps(1,2) _ demo_watched_simps(3)])
    (simp_all add: demo_monitor_def)

end
