(* ===== verification/Event_Worker.thy ===== *)
theory Event_Worker
  imports Event_Registry
begin

text \<open>
  The worker of an event (\<open>internal/eventmonitor/worker/worker.go\<close>) and the delivery of its notifications
  (\<open>webhook/client.go\<close>). The worker acts on its entry: it polls for the current block and asks for the logs of the
  blocks that are new, in chunks. The node is the field of a \<open>node_env\<close>, over a world of any type; the notifications
  that a poll sends off in goroutines are its output. \<open>None\<close> is a panic, or a loop that does not end. Errors of a chunk and of
  a log are only logged.
\<close>

section \<open>Numbers\<close>

text \<open>\<open>SetString(s, 16)\<close> takes a sign; \<open>Uint64\<close> keeps the low bits of the magnitude.\<close>

definition hexToUint64 :: "string \<Rightarrow> go_error + 64 word" where
  "hexToUint64 hexStr =
     (let s = (if prefix ''0x'' hexStr then drop 2 hexStr else hexStr);
          t = (case s of c # u \<Rightarrow> if c = CHR ''-'' \<or> c = CHR ''+'' then u else s | [] \<Rightarrow> s)
      in case parse_hex t of
           None \<Rightarrow> Inl (GoErr (''invalid hex string: '' @ s))
         | Some n \<Rightarrow> Inr (word_of_nat n))"

definition hexToUint :: "string \<Rightarrow> go_error + 64 word" where
  "hexToUint hexStr = hexToUint64 hexStr"

definition uint64ToHex :: "64 word \<Rightarrow> string" where
  "uint64ToHex val = ''0x'' @ show_hex (unat val)"

section \<open>The node\<close>

record chain_log =
  LgLogIndex :: string
  LgTransactionHash :: string
  LgBlockNumber :: string
  LgData :: string
  LgTopics :: "string list"

record EthGetLogsParams =
  FromBlock :: string
  ToBlock :: string
  LpAddress :: string
  LpTopics :: "string list"

record 'w node_env =
  EthBlockNumber :: "'w \<Rightarrow> (go_error + string) \<times> 'w"
  EthGetLogs :: "EthGetLogsParams \<Rightarrow> 'w \<Rightarrow> (go_error + chain_log list) \<times> 'w"
  HexText :: "8 word list \<Rightarrow> string"
  NodeClock :: "'w \<Rightarrow> int"
  maxBlockRange :: "64 word"
  lookbackBlocks :: "64 word"

definition getCurrentBlock :: "'w node_env \<Rightarrow> 'w \<Rightarrow> (go_error + 64 word) \<times> 'w" where
  "getCurrentBlock env w =
     (case EthBlockNumber env w of
        (Inl e, w') \<Rightarrow> (Inl e, w')
      | (Inr blockHex, w') \<Rightarrow> (hexToUint64 blockHex, w'))"

text \<open>With one address and one topic.\<close>

definition convertFilterQueryToEthGetLogsParams :: "'w node_env \<Rightarrow> RegistryEntry \<Rightarrow> 64 word \<Rightarrow> 64 word \<Rightarrow> EthGetLogsParams" where
  "convertFilterQueryToEthGetLogsParams env e fromBlock toBlock =
     \<lparr>FromBlock = uint64ToHex fromBlock, ToBlock = uint64ToHex toBlock, LpAddress = HexText env (ContractAddr e),
      LpTopics = [HexText env (EventSig e)]\<rparr>"

definition queryLogs :: "'w node_env \<Rightarrow> RegistryEntry \<Rightarrow> 64 word \<Rightarrow> 64 word \<Rightarrow> 'w \<Rightarrow> (go_error + chain_log list) \<times> 'w" where
  "queryLogs env e fromBlock toBlock w =
     (case EthGetLogs env (convertFilterQueryToEthGetLogsParams env e fromBlock toBlock) w of
        (Inl err, w') \<Rightarrow> (Inl (Wrap ''eth_getLogs failed'' err), w')
      | (Inr logs, w') \<Rightarrow> (Inr logs, w'))"

section \<open>Filters\<close>

text \<open>\<open>Sscanf\<close> with \<open>%d\<close>: white space but no newline, a sign, digits; what follows is ignored.\<close>

definition scan_int :: "string \<Rightarrow> int option" where
  "scan_int s =
     (let t = dropWhile (\<lambda>c. c \<in> {CHR '' '', CHR 0x09, CHR 0x0B, CHR 0x0C, CHR 0x0D}) s in
      case t of
        [] \<Rightarrow> None
      | c # u \<Rightarrow>
          if c = CHR ''-'' \<or> c = CHR ''+'' then parse_int64 (c # takeWhile is_digit u) else parse_int64 (takeWhile is_digit t))"

definition topic_index :: "string \<Rightarrow> int option" where
  "topic_index p =
     (if p = ''topic0'' \<or> p = ''0'' then Some 0
      else if p = ''topic1'' \<or> p = ''1'' then Some 1
      else if p = ''topic2'' \<or> p = ''2'' then Some 2
      else if p = ''topic3'' \<or> p = ''3'' then Some 3
      else if prefix ''topic'' p then scan_int (drop 5 p) else scan_int p)"

text \<open>An index below zero is out of range.\<close>

definition matchesFilter :: "chain_log \<Rightarrow> Subscriber \<Rightarrow> bool option" where
  "matchesFilter l sub =
     (if FilterParam sub = [] \<or> FilterValue sub = [] then Some True
      else
        (case topic_index (FilterParam sub) of
           None \<Rightarrow> Some True
         | Some i \<Rightarrow>
             if int (length (LgTopics l)) \<le> i then Some False
             else if i < 0 then None
             else
               (let v = lower (FilterValue sub); filterValue = (if prefix ''0x'' v then v else ''0x'' @ v)
                in Some (lower (LgTopics l ! nat i) = filterValue))))"

section \<open>Logs\<close>

definition event_notification :: "'w node_env \<Rightarrow> RegistryEntry \<Rightarrow> chain_log \<Rightarrow> 64 word \<Rightarrow> 64 word \<Rightarrow> int \<Rightarrow> Subscriber \<Rightarrow> EventNotification" where
  "event_notification env e l blockNumber logIndex now sub =
     \<lparr>EnRequestID = SbRequestID sub, EnChainID = ChainID e, EnContractAddr = HexText env (ContractAddr e),
      EnEventSig = HexText env (EventSig e), EnBlockNumber = blockNumber, EnTxHash = LgTransactionHash l, EnLogIndex = logIndex,
      EnTopics = LgTopics l, EnData = LgData l, EnTimestamp = now\<rparr>"

type_synonym sent = "(string \<times> EventNotification) list"

text \<open>The subscribers of the entry, in the order \<open>order\<close> in which the map is ranged over.\<close>

fun notify :: "'w node_env \<Rightarrow> RegistryEntry \<Rightarrow> chain_log \<Rightarrow> 64 word \<Rightarrow> 64 word \<Rightarrow> int \<Rightarrow> Subscriber list \<Rightarrow> sent option" where
  "notify env e l b i now [] = Some []"
| "notify env e l b i now (sub # subs) =
     (case matchesFilter l sub of
        None \<Rightarrow> None
      | Some False \<Rightarrow> notify env e l b i now subs
      | Some True \<Rightarrow> map_option (\<lambda>ns. (WebhookURL sub, event_notification env e l b i now sub) # ns) (notify env e l b i now subs))"

definition subscriber_list :: "RegistryEntry \<Rightarrow> string list \<Rightarrow> Subscriber list" where
  "subscriber_list e order = List.map_filter (Subscribers e) order"

definition processLog :: "'w node_env \<Rightarrow> string list \<Rightarrow> RegistryEntry \<Rightarrow> chain_log \<Rightarrow> 'w \<Rightarrow> (go_error + sent) option" where
  "processLog env order e l w =
     (case hexToUint64 (LgBlockNumber l) of
        Inl err \<Rightarrow> Some (Inl (Wrap ''failed to parse block number'' err))
      | Inr b \<Rightarrow>
          (case hexToUint (LgLogIndex l) of
             Inl err \<Rightarrow> Some (Inl (Wrap ''failed to parse log index'' err))
           | Inr i \<Rightarrow> map_option Inr (notify env e l b i (NodeClock env w) (subscriber_list e order))))"

fun process_logs :: "'w node_env \<Rightarrow> string list \<Rightarrow> RegistryEntry \<Rightarrow> chain_log list \<Rightarrow> 'w \<Rightarrow> sent option" where
  "process_logs env order e [] w = Some []"
| "process_logs env order e (l # ls) w =
     (case processLog env order e l w of
        None \<Rightarrow> None
      | Some r \<Rightarrow> map_option (\<lambda>ns. (case r of Inl _ \<Rightarrow> [] | Inr ms \<Rightarrow> ms) @ ns) (process_logs env order e ls w))"

section \<open>Polling\<close>

text \<open>One chunk: what it sends and the last block after it.\<close>

definition poll_chunk :: "'w node_env \<Rightarrow> string list \<Rightarrow> 64 word \<Rightarrow> 64 word \<Rightarrow> RegistryEntry \<Rightarrow> 'w \<Rightarrow> (sent \<times> RegistryEntry \<times> 'w) option" where
  "poll_chunk env order fromBlock toBlock e w =
     (case queryLogs env e fromBlock toBlock w of
        (Inl _, w') \<Rightarrow> Some ([], e, w')
      | (Inr logs, w') \<Rightarrow> map_option (\<lambda>ns. (ns, e\<lparr>LastBlock := toBlock\<rparr>, w')) (process_logs env order e logs w'))"

text \<open>The loop; \<open>ns\<close> is what it has sent so far.\<close>

partial_function (option) poll_chunks :: "'w node_env \<Rightarrow> string list \<Rightarrow> 64 word \<Rightarrow> 64 word \<Rightarrow> sent \<Rightarrow> RegistryEntry \<Rightarrow> 'w
    \<Rightarrow> (sent \<times> RegistryEntry \<times> 'w) option" where
  "poll_chunks env order fromBlock currentBlock ns e w =
     (if fromBlock \<le> currentBlock then
        (let t = fromBlock + maxBlockRange env - 1; toBlock = (if currentBlock < t then currentBlock else t) in
         case poll_chunk env order fromBlock toBlock e w of
           None \<Rightarrow> None
         | Some (ms, e', w') \<Rightarrow> poll_chunks env order (toBlock + 1) currentBlock (ns @ ms) e' w')
      else Some (ns, e, w))"

definition pollEvents :: "'w node_env \<Rightarrow> string list \<Rightarrow> RegistryEntry \<Rightarrow> 'w \<Rightarrow> ((go_error + sent) \<times> RegistryEntry \<times> 'w) option" where
  "pollEvents env order e w =
     (case getCurrentBlock env w of
        (Inl err, w') \<Rightarrow> Some (Inl (Wrap ''failed to get current block number'' err), e, w')
      | (Inr currentBlock, w') \<Rightarrow>
          if currentBlock \<le> LastBlock e then Some (Inr [], e, w')
          else
            (case poll_chunks env order (LastBlock e + 1) currentBlock [] e w' of
               None \<Rightarrow> None
             | Some (ns, e', w'') \<Rightarrow> Some (Inr ns, e', w'')))"

text \<open>What \<open>Start\<close> does before its loop.\<close>

definition init_last_block :: "'w node_env \<Rightarrow> RegistryEntry \<Rightarrow> 'w \<Rightarrow> RegistryEntry \<times> 'w" where
  "init_last_block env e w =
     (if LastBlock e \<noteq> 0 then (e, w)
      else
        (case getCurrentBlock env w of
           (Inl _, w') \<Rightarrow> (e\<lparr>LastBlock := 0\<rparr>, w')
         | (Inr currentBlock, w') \<Rightarrow>
             (e\<lparr>LastBlock := if lookbackBlocks env < currentBlock then currentBlock - lookbackBlocks env else 0\<rparr>, w')))"

section \<open>Webhooks\<close>

record 'w hook_env =
  EncodeNotification :: "EventNotification \<Rightarrow> go_error + string"
  NewRequest :: "string \<Rightarrow> string \<Rightarrow> go_error option"
  Do :: "string \<Rightarrow> string \<Rightarrow> 'w \<Rightarrow> (go_error + int) \<times> 'w"
  Sleep :: "int \<Rightarrow> 'w \<Rightarrow> 'w"
  webhookMaxRetries :: int
  webhookRetryDelay :: int

text \<open>\<open>1 << k\<close> is an \<open>int64\<close>, and so is the product.\<close>

definition hook_delay :: "'w hook_env \<Rightarrow> int \<Rightarrow> int" where
  "hook_delay env attempt = i64 (webhookRetryDelay env * i64 (2 ^ nat (attempt - 1)))"

function send_loop :: "'w hook_env \<Rightarrow> string \<Rightarrow> string \<Rightarrow> int \<Rightarrow> 'w \<Rightarrow> (go_error + unit) \<times> 'w" where
  "send_loop env url body attempt w =
     (if webhookMaxRetries env < attempt then (Inl (GoErr ''unexpected error in webhook delivery''), w)
      else
        (let w0 = (if 0 < attempt then Sleep env (hook_delay env attempt) w else w);
             attempts = show_int (i64 (webhookMaxRetries env + 1)) @ '' attempts'' in
         case NewRequest env url body of
           Some e \<Rightarrow> (Inl (Wrap ''failed to create request'' e), w0)
         | None \<Rightarrow>
             (case Do env url body w0 of
                (Inl e, w1) \<Rightarrow>
                  if attempt = webhookMaxRetries env
                  then (Inl (Wrap (''failed to deliver webhook after '' @ attempts) e), w1)
                  else send_loop env url body (attempt + 1) w1
              | (Inr status, w1) \<Rightarrow>
                  if 200 \<le> status \<and> status < 300 then (Inr (), w1)
                  else if attempt = webhookMaxRetries env
                  then (Inl (GoErr (''webhook returned non-2xx status after '' @ attempts @ '': '' @ show_int status)), w1)
                  else send_loop env url body (attempt + 1) w1)))"
  by pat_completeness auto
termination
  by (relation "measure (\<lambda>(env, url, body, attempt, w). nat (webhookMaxRetries env + 1 - attempt))") auto

declare send_loop.simps [simp del]

definition Send :: "'w hook_env \<Rightarrow> string \<Rightarrow> EventNotification \<Rightarrow> 'w \<Rightarrow> (go_error + unit) \<times> 'w" where
  "Send env url notif w =
     (case EncodeNotification env notif of
        Inl e \<Rightarrow> (Inl (Wrap ''failed to marshal notification'' e), w)
      | Inr body \<Rightarrow> send_loop env url body 0 w)"

section \<open>The chunks of a poll\<close>

text \<open>What the loop asks for, as a list of ranges of natural numbers, and the loop over such a list.\<close>

function chunks :: "nat \<Rightarrow> nat \<Rightarrow> nat \<Rightarrow> (nat \<times> nat) list" where
  "chunks r a c =
     (if r = 0 \<or> c < a then []
      else (let b = min (a + r - 1) c in (a, b) # chunks r (Suc b) c))"
  by pat_completeness auto
termination
  by (relation "measure (\<lambda>(r, a, c). Suc c - a)") auto

declare chunks.simps [simp del]

fun run_chunks :: "'w node_env \<Rightarrow> string list \<Rightarrow> (nat \<times> nat) list \<Rightarrow> sent \<Rightarrow> RegistryEntry \<Rightarrow> 'w
    \<Rightarrow> (sent \<times> RegistryEntry \<times> 'w) option" where
  "run_chunks env order [] ns e w = Some (ns, e, w)"
| "run_chunks env order ((a, b) # cs) ns e w =
     (case poll_chunk env order (word_of_nat a) (word_of_nat b) e w of
        None \<Rightarrow> None
      | Some (ms, e', w') \<Rightarrow> run_chunks env order cs (ns @ ms) e' w')"

lemma chunks_tile:
  "0 < r \<Longrightarrow> a \<le> Suc c \<Longrightarrow> concat (map (\<lambda>(x, y). [x..<Suc y]) (chunks r a c)) = [a..<Suc c]"
proof (induction r a c rule: chunks.induct)
  case (1 r a c)
  show ?case
  proof (cases "c < a")
    case True
    then show ?thesis using "1.prems" by (simp add: chunks.simps)
  next
    case False
    let ?b = "min (a + r - 1) c"
    have "concat (map (\<lambda>(x, y). [x..<Suc y]) (chunks r (Suc ?b) c)) = [Suc ?b..<Suc c]"
      using "1.IH" [OF _ refl] "1.prems" False by simp
    moreover have "[a..<Suc ?b] @ [Suc ?b..<Suc c] = [a..<Suc c]"
      using False "1.prems" upt_add_eq_append [of a "Suc ?b" "Suc c - Suc ?b"] by simp
    ultimately show ?thesis using False "1.prems" by (subst chunks.simps) (simp add: Let_def)
  qed
qed

lemma chunks_small: "(x, y) \<in> set (chunks r a c) \<Longrightarrow> x \<le> y \<and> y < x + r"
proof (induction r a c rule: chunks.induct)
  case (1 r a c)
  show ?case
  proof (cases "r = 0 \<or> c < a")
    case True
    then show ?thesis using "1.prems" by (subst (asm) chunks.simps) simp
  next
    case False
    then show ?thesis using "1.IH" [OF _ refl] "1.prems" by (subst (asm) chunks.simps) (auto simp: Let_def)
  qed
qed

lemma run_chunks_append:
  "run_chunks env order (cs @ ds) ns e w =
     (case run_chunks env order cs ns e w of None \<Rightarrow> None | Some (ms, e', w') \<Rightarrow> run_chunks env order ds ms e' w')"
  by (induction env order cs ns e w rule: run_chunks.induct) (auto split: option.splits)

lemma poll_chunks_run:
  assumes "0 < maxBlockRange env" and "unat c + unat (maxBlockRange env) < 2 ^ 64"
  shows "unat f \<le> Suc (unat c) \<Longrightarrow>
    poll_chunks env order f c ns e w = run_chunks env order (chunks (unat (maxBlockRange env)) (unat f) (unat c)) ns e w"
proof (induction "Suc (unat c) - unat f" arbitrary: f ns e w rule: less_induct)
  case less
  let ?r = "maxBlockRange env"
  have r: "0 < unat ?r" using assms(1) by (simp add: word_less_nat_alt)
  show ?case
  proof (cases "f \<le> c")
    case False
    then have "unat c < unat f" by (simp add: word_le_nat_alt)
    then show ?thesis using False by (simp add: poll_chunks.simps [of env order f c] chunks.simps [of _ _ "unat c"])
  next
    case True
    then have fc: "unat f \<le> unat c" by (simp add: word_le_nat_alt)
    let ?b = "min (unat f + unat ?r - 1) (unat c)"
    have s: "unat (f + ?r) = unat f + unat ?r"
      using assms(2) fc by (simp add: unat_word_ariths)
    then have t: "unat (f + ?r - 1) = unat f + unat ?r - 1"
      using r by (simp add: unat_sub word_le_nat_alt)
    let ?to = "if c < f + ?r - 1 then c else f + ?r - 1"
    have to: "unat ?to = ?b" by (simp add: t word_less_nat_alt min_def)
    have ti: "word_of_nat ?b = ?to" unfolding to [symmetric] by simp
    have bc: "?b \<le> unat c" "unat f \<le> ?b" using r fc by auto
    have "unat (?to + 1) = Suc ?b"
      using assms(2) bc r to by (simp add: unat_word_ariths)
    then have IH: "poll_chunks env order (?to + 1) c ns' e' w' = run_chunks env order (chunks (unat ?r) (Suc ?b) (unat c)) ns' e' w'" for ns' e' w'
      using less.hyps [of "?to + 1"] bc fc by simp
    have ch: "chunks (unat ?r) (unat f) (unat c) = (unat f, ?b) # chunks (unat ?r) (Suc ?b) (unat c)"
      using r fc by (subst chunks.simps) (simp add: Let_def)
    have f: "word_of_nat (unat f) = f" by simp
    show ?thesis
      unfolding ch
      by (subst poll_chunks.simps) (simp only: True if_True Let_def run_chunks.simps ti f, simp only: IH cong: option.case_cong prod.case_cong)
  qed
qed

section \<open>Filters that panic\<close>

lemma notify_None: "notify env e l b i now subs = None \<longleftrightarrow> (\<exists>sub \<in> set subs. matchesFilter l sub = None)"
  by (induction subs) (auto split: option.splits bool.splits)

lemma subscriber_list_set: "set (subscriber_list e order) = {sub. \<exists>r \<in> set order. Subscribers e r = Some sub}"
  by (force simp: subscriber_list_def List.map_filter_def)

section \<open>Deliveries\<close>

lemma send_loop_calls:
  fixes calls :: "'w \<Rightarrow> nat"
  assumes "\<And>url b w. calls (snd (Do env url b w)) = Suc (calls w)" and "\<And>d w. calls (Sleep env d w) = calls w"
  shows "0 \<le> n \<Longrightarrow> n \<le> webhookMaxRetries env + 1 \<Longrightarrow> send_loop env url body n w = (r, w') \<Longrightarrow>
    calls w' \<le> calls w + nat (webhookMaxRetries env + 1 - n) \<and>
    (NewRequest env url body = None \<longrightarrow> (\<exists>e. r = Inl e) \<longrightarrow> calls w' = calls w + nat (webhookMaxRetries env + 1 - n))"
proof (induction "nat (webhookMaxRetries env + 1 - n)" arbitrary: n w rule: less_induct)
  case less
  have d: "calls w2 = Suc (calls w1)" if "Do env url body w1 = (x, w2)" for x w1 w2
    using assms(1) [of url body w1] that by simp
  have sl: "calls (if 0 < n then Sleep env (hook_delay env n) w else w) = calls w"
    using assms(2) by simp
  show ?case
  proof (cases "webhookMaxRetries env < n")
    case True
    then show ?thesis using less.prems by (subst (asm) send_loop.simps) auto
  next
    case False
    have IH: "send_loop env url body (n + 1) v = (r, w') \<Longrightarrow> n < webhookMaxRetries env \<Longrightarrow>
       calls w' \<le> calls v + nat (webhookMaxRetries env - n) \<and>
       (NewRequest env url body = None \<longrightarrow> (\<exists>e. r = Inl e) \<longrightarrow> calls w' = calls v + nat (webhookMaxRetries env - n))" for v
      using less.hyps [of "n + 1" v] less.prems(1) by simp
    show ?thesis
      using less.prems(3) False sl
      by (subst (asm) send_loop.simps) (auto simp: Let_def split: option.splits prod.splits sum.splits if_splits dest!: d IH)
  qed
qed

section \<open>A small instance\<close>

text \<open>A node whose first answer about logs is an error; the world counts its answers.\<close>

definition demo_log :: chain_log where
  "demo_log = \<lparr>LgLogIndex = ''0x0'', LgTransactionHash = ''0xaa'', LgBlockNumber = ''0x4'', LgData = [], LgTopics = [''0x01'']\<rparr>"

definition demo_node :: "nat node_env" where
  "demo_node = \<lparr>EthBlockNumber = \<lambda>w. (Inr ''0x4'', w), EthGetLogs = \<lambda>p w. (if w = 0 then Inl (GoErr ''limit'') else Inr [demo_log], Suc w),
     HexText = \<lambda>_. [], NodeClock = \<lambda>_. 0, maxBlockRange = 2, lookbackBlocks = 100\<rparr>"

definition demo_subscriber :: "string \<Rightarrow> Subscriber" where
  "demo_subscriber p = \<lparr>SbRequestID = ''9'', WebhookURL = ''u'', ExpiresAt = 5, FilterParam = p, FilterValue = ''1''\<rparr>"

definition demo_entry :: "string \<Rightarrow> RegistryEntry" where
  "demo_entry p = \<lparr>Key = [], ChainID = ''1'', ContractAddr = [], EventSig = [], Subscribers = [''9'' \<mapsto> demo_subscriber p],
     LastBlock = 0, ContextCancelled = False\<rparr>"

lemma demo_block: "hexToUint64 ''0x4'' = Inr 4" "hexToUint ''0x0'' = Inr 0"
  by code_simp+

lemma demo_chunks: "chunks 2 1 4 = [(1, 2)] @ [(3, 4)]"
  by code_simp

section \<open>Properties\<close>

text \<open>
  C8: A poll asks for every block after the last one up to the current one, once and in order, in chunks of at most \<open>maxBlockRange\<close> blocks, and ends (as long as
  the range is not 0 and the block numbers do not reach the end of an \<open>uint64\<close>).
\<close>

theorem poll_covers_new_blocks:
  assumes "getCurrentBlock env w = (Inr c, w1)" and "LastBlock e < c"
    and "0 < maxBlockRange env" and "unat c + unat (maxBlockRange env) < 2 ^ 64"
  shows "pollEvents env order e w =
      map_option (\<lambda>(ns, e', w'). (Inr ns, e', w'))
        (run_chunks env order (chunks (unat (maxBlockRange env)) (Suc (unat (LastBlock e))) (unat c)) [] e w1) \<and>
    concat (map (\<lambda>(a, b). [a..<Suc b]) (chunks (unat (maxBlockRange env)) (Suc (unat (LastBlock e))) (unat c))) =
      [Suc (unat (LastBlock e))..<Suc (unat c)] \<and>
    list_all (\<lambda>(a, b). a \<le> b \<and> b < a + unat (maxBlockRange env)) (chunks (unat (maxBlockRange env)) (Suc (unat (LastBlock e))) (unat c))"
proof -
  have l: "unat (LastBlock e) < unat c" using assms(2) by (simp add: word_less_nat_alt)
  then have "unat (LastBlock e + 1) = Suc (unat (LastBlock e))"
    using assms(4) by (simp add: unat_word_ariths)
  moreover have "0 < unat (maxBlockRange env)" using assms(3) by (simp add: word_less_nat_alt)
  ultimately have r: "poll_chunks env order (LastBlock e + 1) c [] e w1 =
      run_chunks env order (chunks (unat (maxBlockRange env)) (Suc (unat (LastBlock e))) (unat c)) [] e w1"
    and t: "concat (map (\<lambda>(a, b). [a..<Suc b]) (chunks (unat (maxBlockRange env)) (Suc (unat (LastBlock e))) (unat c))) =
      [Suc (unat (LastBlock e))..<Suc (unat c)]"
    using l poll_chunks_run [OF assms(3,4), of "LastBlock e + 1" order "[]" e w1] chunks_tile by simp_all
  have "list_all (\<lambda>(a, b). a \<le> b \<and> b < a + unat (maxBlockRange env)) (chunks (unat (maxBlockRange env)) (Suc (unat (LastBlock e))) (unat c))"
    using chunks_small by (fastforce simp: list_all_iff)
  moreover have "pollEvents env order e w = map_option (\<lambda>(ns, e', w'). (Inr ns, e', w')) (poll_chunks env order (LastBlock e + 1) c [] e w1)"
    using assms(1,2)
    by (cases "poll_chunks env order (LastBlock e + 1) c [] e w1") (auto simp: pollEvents_def not_le [symmetric])
  ultimately show ?thesis using r t by simp
qed

text \<open>
  When the query for one chunk fails and the one for the last chunk succeeds, the poll ends with the current block as the last one: the blocks of the chunk
  that failed are never asked for again, and their events are lost.
\<close>

theorem failed_chunk_is_skipped:
  assumes "getCurrentBlock env w = (Inr c, w1)" and "LastBlock e < c"
    and "0 < maxBlockRange env" and "unat c + unat (maxBlockRange env) < 2 ^ 64"
    and "chunks (unat (maxBlockRange env)) (Suc (unat (LastBlock e))) (unat c) = cs @ [(a, unat c)]"
    and "run_chunks env order cs [] e w1 = Some (ns, e1, w2)"
    and "queryLogs env e1 (word_of_nat a) c w2 = (Inr logs, w3)" and "process_logs env order e1 logs w3 = Some ms"
  shows "pollEvents env order e w = Some (Inr (ns @ ms), e1\<lparr>LastBlock := c\<rparr>, w3)"
proof -
  have c: "word_of_nat (unat c) = c" by simp
  have "poll_chunk env order (word_of_nat a) (word_of_nat (unat c)) e1 w2 = Some (ms, e1\<lparr>LastBlock := c\<rparr>, w3)"
    unfolding c using assms(7,8) by (simp add: poll_chunk_def)
  moreover have "unat (LastBlock e + 1) = Suc (unat (LastBlock e))" "LastBlock e + 1 \<le> c"
    using assms(2,4) by (auto simp: unat_word_ariths word_less_nat_alt inc_le)
  moreover from this have "unat (LastBlock e + 1) \<le> Suc (unat c)" by (simp add: word_le_nat_alt)
  ultimately show ?thesis
    using assms(1,2,5,6) poll_chunks_run [OF assms(3,4), of "LastBlock e + 1" order "[]" e w1]
    by (simp add: pollEvents_def run_chunks_append not_le [symmetric])
qed

text \<open>
  A subscriber with a filter on a topic whose index is negative (the name of the filter parameter comes from the job) makes the event monitor panic at the first log
  of its event.
\<close>

theorem negative_topic_panics:
  assumes "Subscribers e r = Some sub" and "r \<in> set order" and "FilterValue sub \<noteq> []" and "topic_index (FilterParam sub) = Some i" and "i < 0"
    and "hexToUint64 (LgBlockNumber l) = Inr b" and "hexToUint (LgLogIndex l) = Inr j"
  shows "processLog env order e l w = None"
proof -
  have "FilterParam sub \<noteq> []" using assms(4) by (auto simp: topic_index_def scan_int_def)
  then have "matchesFilter l sub = None"
    using assms(3-5) by (simp add: matchesFilter_def)
  then have "notify env e l b j (NodeClock env w) (subscriber_list e order) = None"
    using assms(1,2) by (auto simp: notify_None subscriber_list_set)
  then show ?thesis using assms(6,7) by (simp add: processLog_def)
qed

text \<open>
  A notification is posted at most \<open>maxRetries + 1\<close> times, and when its delivery is given up it has been posted exactly that often.
\<close>

theorem delivery_attempts:
  fixes calls :: "'w \<Rightarrow> nat"
  assumes "\<And>url b w. calls (snd (Do env url b w)) = Suc (calls w)" and "\<And>d w. calls (Sleep env d w) = calls w"
    and "0 \<le> webhookMaxRetries env" and "EncodeNotification env n = Inr body" and "NewRequest env url body = None"
    and "Send env url n w = (r, w')"
  shows "calls w' \<le> calls w + nat (webhookMaxRetries env + 1) \<and>
    ((\<exists>e. r = Inl e) \<longrightarrow> calls w' = calls w + nat (webhookMaxRetries env + 1))"
  using send_loop_calls [where calls = calls and env = env and n = 0, OF assms(1,2)] assms(3-) by (simp add: Send_def)

text \<open>The witnesses.\<close>

theorem poll_covers_new_blocks_witness:
  "concat (map (\<lambda>(a, b). [a..<Suc b]) (chunks 2 1 4)) = [1..<5] \<and>
    pollEvents demo_node [] (demo_entry []) 0 =
      map_option (\<lambda>(ns, e', w'). (Inr ns, e', w')) (run_chunks demo_node [] (chunks 2 1 4) [] (demo_entry []) 0)"
  using poll_covers_new_blocks [of demo_node 0 4 0 "demo_entry []" "[]"]
  by (simp add: getCurrentBlock_def demo_node_def demo_block demo_entry_def)

theorem failed_chunk_is_skipped_witness:
  "\<exists>ns. pollEvents demo_node [] (demo_entry []) 0 = Some (Inr ns, (demo_entry [])\<lparr>LastBlock := 4\<rparr>, 2)"
proof -
  have b: "getCurrentBlock demo_node 0 = (Inr 4, 0)"
    by (simp add: getCurrentBlock_def demo_node_def demo_block)
  have r: "run_chunks demo_node [] [(1, 2)] [] (demo_entry []) 0 = Some ([], demo_entry [], 1)"
    by (simp add: poll_chunk_def queryLogs_def demo_node_def)
  have q: "queryLogs demo_node (demo_entry []) (word_of_nat 3) 4 1 = (Inr [demo_log], 2)"
    by (simp add: queryLogs_def demo_node_def)
  have p: "process_logs demo_node [] (demo_entry []) [demo_log] 2 = Some []"
    by (simp add: processLog_def demo_log_def demo_block subscriber_list_def List.map_filter_def)
  show ?thesis
    using failed_chunk_is_skipped [OF b _ _ _ _ r q p] demo_chunks by (auto simp: demo_node_def demo_entry_def)
qed

theorem negative_topic_panics_witness:
  "processLog demo_node [''9''] (demo_entry ''-1'') demo_log 0 = None"
proof -
  have "topic_index ''-1'' = Some (- 1)" by code_simp
  then show ?thesis
    by (intro negative_topic_panics [of _ "''9''" "demo_subscriber ''-1''" _ "- 1" _ 4 0])
      (simp_all add: demo_entry_def demo_subscriber_def demo_log_def demo_block)
qed

definition demo_hook :: "nat hook_env" where
  "demo_hook = \<lparr>EncodeNotification = \<lambda>_. Inr [], NewRequest = \<lambda>_ _. None, Do = \<lambda>_ _ w. (Inr 500, Suc w), Sleep = \<lambda>_ w. w,
     webhookMaxRetries = 3, webhookRetryDelay = 1\<rparr>"

theorem delivery_attempts_witness:
  "\<forall>n. \<exists>e. Send demo_hook [] n 0 = (Inl e, 4)"
proof
  fix n
  have "\<exists>e. fst (Send demo_hook [] n 0) = Inl e"
    by (simp add: Send_def demo_hook_def send_loop.simps Let_def)
  then show "\<exists>e. Send demo_hook [] n 0 = (Inl e, 4)"
    using delivery_attempts [of "\<lambda>w. w" demo_hook n "[]" "[]" 0 "fst (Send demo_hook [] n 0)" "snd (Send demo_hook [] n 0)"]
    by (cases "Send demo_hook [] n 0") (auto simp: demo_hook_def)
qed

end
