(* ===== verification/Time_Jobs.thy ===== *)
theory Time_Jobs
  imports Task_Types Retry
begin

text \<open>
  The jobs that are due (\<open>CalculateNextExecutionTime\<close> of \<open>pkg/parser/time.go\<close>, \<open>GetTimeJobsByNextExecutionTimestamp\<close> and the updates of
  \<open>internal/dbserver/repository/time_job_repository.go\<close>, \<open>GetCustomJobsDueForExecution\<close> of \<open>custom_job_repository.go\<close>, the creation
  of tasks in \<open>task_repository.go\<close>, and the handler \<open>GetTimeBasedTasks\<close> of \<open>internal/dbserver/handlers/time_jobs.go\<close>).
  The queries of the database are the fields of \<open>jobs_db\<close>, over a world of any type; a query for many rows gives the rows and the error
  of \<open>Close\<close>. A job id is never nil in the database. The events for the WebSocket hub are left out.
\<close>

section \<open>Data\<close>

record ScheduleTimeTaskData =
  SdTaskID :: int
  SdTaskDefinitionID :: int
  SdLastExecutedAt :: int
  SdExpirationTime :: int
  SdNextExecutionTimestamp :: int
  ScheduleType :: string
  SdTimeInterval :: int
  CronExpression :: string
  SpecificSchedule :: string
  SdTarget :: TaskTargetData
  SdIsImua :: bool

record CustomJobData =
  CjJobID :: int
  CjCustomScriptUrl :: string
  CjTimeInterval :: int
  CjTargetChainID :: string
  CjIsCompleted :: bool
  CjIsActive :: bool
  CjLastExecutedAt :: int
  CjExpirationTime :: int
  CjScriptLanguage :: string
  CjNextExecutionTime :: int

text \<open>A row of \<open>time_job_data\<close> is a task without its id, its definition and its flag.\<close>

record 'w jobs_db =
  DueRows :: "int \<Rightarrow> int \<Rightarrow> 'w \<Rightarrow> (ScheduleTimeTaskData list \<times> go_error option) \<times> 'w"
  IsJobImua :: "int \<Rightarrow> 'w \<Rightarrow> (go_error + bool) \<times> 'w"
  SetTimeJobCompleted :: "int \<Rightarrow> 'w \<Rightarrow> (go_error + unit) \<times> 'w"
  SetJobCompleted :: "int \<Rightarrow> 'w \<Rightarrow> (go_error + unit) \<times> 'w"
  SetTimeJobActive :: "int \<Rightarrow> bool \<Rightarrow> 'w \<Rightarrow> (go_error + unit) \<times> 'w"
  SetNextExecution :: "int \<Rightarrow> int \<Rightarrow> 'w \<Rightarrow> (go_error + unit) \<times> 'w"
  CustomRows :: "'w \<Rightarrow> (CustomJobData list \<times> go_error option) \<times> 'w"
  GetStorage :: "int \<Rightarrow> 'w \<Rightarrow> (go_error + (string \<times> string) list) \<times> 'w"
  MaxTaskID :: "'w \<Rightarrow> (go_error + int) \<times> 'w"
  InsertTask :: "int \<Rightarrow> int \<Rightarrow> int \<Rightarrow> 'w \<Rightarrow> (go_error + unit) \<times> 'w"
  TaskIDRows :: "int \<Rightarrow> 'w \<Rightarrow> (int list list \<times> go_error option) \<times> 'w"
  SetTaskIDs :: "int \<Rightarrow> int list \<Rightarrow> 'w \<Rightarrow> (go_error + unit) \<times> 'w"
  DbClock :: "'w \<Rightarrow> int"

section \<open>The next execution\<close>

text \<open>The product of the interval with a second is an \<open>int64\<close>.\<close>

definition CalculateNextExecutionTime :: "int \<Rightarrow> string \<Rightarrow> int \<Rightarrow> string \<Rightarrow> string \<Rightarrow> go_error + int" where
  "CalculateNextExecutionTime current scheduleType timeInterval cronExpression specificSchedule =
     (if scheduleType = ''interval'' then
        if timeInterval \<le> 0 then Inl (GoErr ''invalid time interval'') else Inr (current + i64 (timeInterval * second))
      else if scheduleType = ''cron'' then
        if cronExpression = [] then Inl (GoErr ''cron expression is required for cron schedule type'')
        else Inl (GoErr ''cron expression parsing not implemented yet'')
      else if scheduleType = ''specific'' then
        if specificSchedule = [] then Inl (GoErr ''specific schedule is required for specific schedule type'')
        else Inl (GoErr ''specific schedule parsing not implemented yet'')
      else Inl (GoErr (''unknown schedule type: '' @ scheduleType)))"

definition next_execution :: "ScheduleTimeTaskData \<Rightarrow> go_error + int" where
  "next_execution t = CalculateNextExecutionTime (SdNextExecutionTimestamp t) (ScheduleType t) (SdTimeInterval t) (CronExpression t) (SpecificSchedule t)"

section \<open>The repositories\<close>

definition replace_error :: "string \<Rightarrow> ('w, 'a) io \<Rightarrow> ('w, 'a) io" where
  "replace_error msg m w = map_option (\<lambda>(r, w'). (case r of Inl _ \<Rightarrow> Inl (GoErr msg) | Inr a \<Rightarrow> Inr a, w')) (m w)"

definition CompleteTimeJob :: "'w jobs_db \<Rightarrow> int \<Rightarrow> ('w, unit) io" where
  "CompleteTimeJob db i =
     io_bind (replace_error ''failed to complete time job'' (io_call (SetTimeJobCompleted db i))) (\<lambda>_.
     replace_error ''failed to update job_data status to completed'' (io_call (SetJobCompleted db i)))"

definition UpdateTimeJobStatus :: "'w jobs_db \<Rightarrow> int \<Rightarrow> bool \<Rightarrow> ('w, unit) io" where
  "UpdateTimeJobStatus db i isActive = replace_error ''failed to update time job status'' (io_call (SetTimeJobActive db i isActive))"

definition UpdateTimeJobNextExecutionTimestamp :: "'w jobs_db \<Rightarrow> int \<Rightarrow> int \<Rightarrow> ('w, unit) io" where
  "UpdateTimeJobNextExecutionTimestamp db i t =
     replace_error ''failed to update time job next execution timestamp'' (io_call (SetNextExecution db i t))"

definition with_definition :: "ScheduleTimeTaskData \<Rightarrow> ScheduleTimeTaskData" where
  "with_definition t =
     (let d = (if DynamicArgumentsScriptUrl (SdTarget t) \<noteq> [] then 2 else 1)
      in t\<lparr>SdTaskDefinitionID := d, SdTarget := (SdTarget t)\<lparr>TgTaskDefinitionID := d\<rparr>\<rparr>)"

definition job_id :: "ScheduleTimeTaskData \<Rightarrow> int" where
  "job_id t = (case TgJobID (SdTarget t) of Some i \<Rightarrow> i | None \<Rightarrow> 0)"

text \<open>The body of the loop over the rows: the task, and the job moved on to its next execution.\<close>

definition prepare_row :: "'w jobs_db \<Rightarrow> ScheduleTimeTaskData \<Rightarrow> ('w, ScheduleTimeTaskData) io" where
  "prepare_row db row =
     io_bind (io_call (IsJobImua db (job_id row))) (\<lambda>isImua.
     let t = (with_definition row)\<lparr>SdIsImua := isImua\<rparr> in
     (case next_execution t of
        Inl e \<Rightarrow> io_fail e
      | Inr next \<Rightarrow>
          io_bind
            (if SdExpirationTime t < next
             then io_bind (CompleteTimeJob db (job_id t)) (\<lambda>_. UpdateTimeJobStatus db (job_id t) False)
             else UpdateTimeJobNextExecutionTimestamp db (job_id t) next)
            (\<lambda>_. io_ret t)))"

fun prepare_rows :: "'w jobs_db \<Rightarrow> ScheduleTimeTaskData list \<Rightarrow> ('w, ScheduleTimeTaskData list) io" where
  "prepare_rows db [] = io_ret []"
| "prepare_rows db (r # rs) = io_bind (prepare_row db r) (\<lambda>t. io_bind (prepare_rows db rs) (\<lambda>ts. io_ret (t # ts)))"

definition GetTimeJobsByNextExecutionTimestamp :: "'w jobs_db \<Rightarrow> int \<Rightarrow> ('w, ScheduleTimeTaskData list) io" where
  "GetTimeJobsByNextExecutionTimestamp db lookAheadTime w =
     (case DueRows db (DbClock db w) lookAheadTime w of
        ((rows, err), w1) \<Rightarrow>
          io_bind (prepare_rows db rows) (\<lambda>ts. case err of Some e \<Rightarrow> io_fail e | None \<Rightarrow> io_ret ts) w1)"

definition GetCustomJobsDueForExecution :: "'w jobs_db \<Rightarrow> int \<Rightarrow> ('w, CustomJobData list) io" where
  "GetCustomJobsDueForExecution db currentTime w =
     (case CustomRows db w of
        ((rows, err), w1) \<Rightarrow>
          (case err of
             Some e \<Rightarrow> io_fail e
           | None \<Rightarrow> io_ret (filter (\<lambda>j. CjIsActive j \<and> \<not> CjIsCompleted j \<and> CjNextExecutionTime j < currentTime) rows)) w1)"

definition convertCustomJobToScheduleTimeTaskData :: "'w jobs_db \<Rightarrow> CustomJobData \<Rightarrow> ('w, ScheduleTimeTaskData) io" where
  "convertCustomJobToScheduleTimeTaskData db j =
     io_bind (io_try (io_call (GetStorage db (CjJobID j)))) (\<lambda>r.
     let storage = (case r of Inl _ \<Rightarrow> [] | Inr st \<Rightarrow> st) in
     io_ret \<lparr>SdTaskID = 0, SdTaskDefinitionID = 7, SdLastExecutedAt = CjLastExecutedAt j, SdExpirationTime = CjExpirationTime j,
       SdNextExecutionTimestamp = CjNextExecutionTime j, ScheduleType = ''interval'', SdTimeInterval = CjTimeInterval j,
       CronExpression = [], SpecificSchedule = [],
       SdTarget = zero_target\<lparr>TgJobID := Some (CjJobID j), TgTaskDefinitionID := 7, TargetChainID := CjTargetChainID j,
         DynamicArgumentsScriptUrl := CjCustomScriptUrl j, ScriptStorage := storage, ScriptLanguage := CjScriptLanguage j\<rparr>,
       SdIsImua = False\<rparr>)"

fun convert_all :: "'w jobs_db \<Rightarrow> CustomJobData list \<Rightarrow> ('w, ScheduleTimeTaskData list) io" where
  "convert_all db [] = io_ret []"
| "convert_all db (j # js) =
     io_bind (convertCustomJobToScheduleTimeTaskData db j) (\<lambda>t. io_bind (convert_all db js) (\<lambda>ts. io_ret (t # ts)))"

definition CreateTaskDataInDB :: "'w jobs_db \<Rightarrow> int \<Rightarrow> int \<Rightarrow> ('w, int) io" where
  "CreateTaskDataInDB db job definitionID =
     io_bind (replace_error ''error getting max task ID'' (io_call (MaxTaskID db))) (\<lambda>maxTaskID.
     let taskID = i64 (maxTaskID + 1) in
     io_bind (replace_error ''error creating task data'' (io_call (InsertTask db taskID job definitionID))) (\<lambda>_. io_ret taskID))"

text \<open>Every row that is scanned replaces the list; the new id is appended in the loop and after it.\<close>

definition AddTaskIDToJob :: "'w jobs_db \<Rightarrow> int \<Rightarrow> int \<Rightarrow> ('w, unit) io" where
  "AddTaskIDToJob db job taskID w =
     (case TaskIDRows db job w of
        ((_, Some _), w1) \<Rightarrow> io_fail (GoErr ''error getting task IDs by job ID'') w1
      | ((rows, None), w1) \<Rightarrow>
          (let taskIDs = (if rows = [] then [] else last rows @ [taskID]) in
           replace_error ''error adding task ID to job'' (io_call (SetTaskIDs db job (taskIDs @ [taskID]))) w1))"

section \<open>The handler\<close>

text \<open>The bodies that are written to one response, and its status, which is that of the first.\<close>

datatype http_body = ErrorBody string | TasksBody "ScheduleTimeTaskData list"

text \<open>The loop that creates the tasks: it writes an error and goes on.\<close>

fun create_tasks :: "'w jobs_db \<Rightarrow> ScheduleTimeTaskData list \<Rightarrow> ('w, http_body list \<times> ScheduleTimeTaskData list) io" where
  "create_tasks db [] = io_ret ([], [])"
| "create_tasks db (t # ts) =
     io_bind (io_try (CreateTaskDataInDB db (job_id t) (SdTaskDefinitionID t))) (\<lambda>r.
     io_bind
       (case r of
          Inl _ \<Rightarrow> io_ret ([ErrorBody ''TASK_CREATION_ERROR''], t)
        | Inr taskID \<Rightarrow>
            io_bind (io_try (AddTaskIDToJob db (job_id t) taskID)) (\<lambda>r.
            io_ret (case r of Inl _ \<Rightarrow> ([ErrorBody ''TASK_ID_ADDITION_ERROR''], t) | Inr _ \<Rightarrow> ([], t\<lparr>SdTaskID := taskID\<rparr>)))) (\<lambda>(bs, t').
     io_bind (create_tasks db ts) (\<lambda>(cs, ts'). io_ret (bs @ cs, t' # ts'))))"

definition GetTimeBasedTasks :: "'w jobs_db \<Rightarrow> int \<Rightarrow> bool \<Rightarrow> ('w, int \<times> http_body list) io" where
  "GetTimeBasedTasks db pollLookAhead has_custom w =
     (let lookAheadTime = DbClock db w + i64 (pollLookAhead * second) in
      io_bind (io_try (GetTimeJobsByNextExecutionTimestamp db lookAheadTime)) (\<lambda>r.
      case r of
        Inl _ \<Rightarrow> io_ret (500, [ErrorBody ''TIME_TASKS_FETCH_ERROR''])
      | Inr tasks \<Rightarrow>
          io_bind
            (if has_custom then
               io_bind (io_try (GetCustomJobsDueForExecution db lookAheadTime)) (\<lambda>r.
               case r of Inl _ \<Rightarrow> io_ret [] | Inr js \<Rightarrow> convert_all db js)
             else io_ret []) (\<lambda>custom.
          io_bind (create_tasks db (tasks @ custom)) (\<lambda>(errors, tasks').
          io_ret (if errors = [] then 200 else 500, errors @ [TasksBody tasks'])))) w)"

text \<open>The client's \<open>json.Unmarshal\<close> takes one value, which has to be an array.\<close>

definition unmarshal_tasks :: "http_body list \<Rightarrow> go_error + ScheduleTimeTaskData list" where
  "unmarshal_tasks bodies =
     (case bodies of [TasksBody ts] \<Rightarrow> Inr ts | _ \<Rightarrow> Inl (GoErr ''failed to unmarshal response body''))"

section \<open>Computations that always return\<close>

lemma with_definition_simps [simp]:
  "job_id (with_definition r) = job_id r" "next_execution (with_definition r) = next_execution r"
  "job_id (t\<lparr>SdIsImua := b\<rparr>) = job_id t" "next_execution (t\<lparr>SdIsImua := b\<rparr>) = next_execution t"
  by (simp_all add: with_definition_def job_id_def next_execution_def Let_def)

lemma answers_replace [answers_intros]: "answers m \<Longrightarrow> answers (replace_error msg m)"
  by (simp add: answers_def replace_error_def)

lemma answers_prepare_row [answers_intros]: "answers (prepare_row db r)"
  unfolding prepare_row_def Let_def CompleteTimeJob_def UpdateTimeJobStatus_def UpdateTimeJobNextExecutionTimestamp_def
  by (intro answers_intros)

lemma answers_prepare [answers_intros]: "answers (prepare_rows db rs)"
  by (induction rs) (auto intro!: answers_intros)

section \<open>A job that cannot be moved on\<close>

lemma prepare_row_stuck: "next_execution r = Inl e \<Longrightarrow> prepare_row db r w \<noteq> Some (Inr t, w')"
  by (auto simp: prepare_row_def Let_def io_bind_Some io_fail_def)

lemma prepare_rows_stuck: "r \<in> set rs \<Longrightarrow> next_execution r = Inl e \<Longrightarrow> prepare_rows db rs w \<noteq> Some (Inr ts, w')"
proof (induction rs arbitrary: w ts w')
  case Nil
  then show ?case by simp
next
  case (Cons x xs)
  then show ?case
    by (auto simp: io_bind_Some io_ret_def prepare_row_stuck)
qed

section \<open>Tasks that cannot be created\<close>

definition insert_fails :: "'w jobs_db \<Rightarrow> int \<Rightarrow> bool" where
  "insert_fails db j \<longleftrightarrow> (\<forall>k d w. \<exists>e. fst (InsertTask db k j d w) = Inl e)"

lemma insert_failsD: "insert_fails db j \<Longrightarrow> InsertTask db k j d w \<noteq> (Inr u, w')"
  unfolding insert_fails_def by (metis fst_conv sum.distinct(1))

lemma replace_error_Inr: "replace_error msg m w = Some (Inr a, w') \<longleftrightarrow> m w = Some (Inr a, w')"
  by (cases "m w") (auto simp: replace_error_def split: sum.splits)

lemma create_fails: "insert_fails db j \<Longrightarrow> CreateTaskDataInDB db j d w \<noteq> Some (Inr i, w')"
  by (auto simp: CreateTaskDataInDB_def Let_def io_bind_Some replace_error_Inr io_call_def dest: insert_failsD)

lemma create_tasks_errors:
  "t \<in> set ts \<Longrightarrow> insert_fails db (job_id t) \<Longrightarrow> create_tasks db ts w = Some (Inr (errors, ts'), w') \<Longrightarrow> errors \<noteq> []"
proof (induction ts arbitrary: w errors ts')
  case Nil
  then show ?case by simp
next
  case (Cons x xs)
  from Cons.prems(3) obtain y w1 bs t' w2 cs ts2 where y: "CreateTaskDataInDB db (job_id x) (SdTaskDefinitionID x) w = Some (y, w1)"
    and bs: "(case y of Inl _ \<Rightarrow> io_ret ([ErrorBody ''TASK_CREATION_ERROR''], x)
        | Inr taskID \<Rightarrow> io_bind (io_try (AddTaskIDToJob db (job_id x) taskID)) (\<lambda>r.
            io_ret (case r of Inl _ \<Rightarrow> ([ErrorBody ''TASK_ID_ADDITION_ERROR''], x) | Inr _ \<Rightarrow> ([], x\<lparr>SdTaskID := taskID\<rparr>)))) w1
        = Some (Inr (bs, t'), w2)"
    and cs: "create_tasks db xs w2 = Some (Inr (cs, ts2), w')" "errors = bs @ cs"
    by (auto simp: io_bind_Some io_try_Some io_ret_def)
  show ?case
  proof (cases "t = x")
    case True
    then obtain e where "y = Inl e" using create_fails [OF Cons.prems(2)] y by (cases y) auto
    then show ?thesis using bs cs by (auto simp: io_ret_def)
  next
    case False
    then show ?thesis using Cons.IH [OF _ Cons.prems(2) cs(1)] Cons.prems(1) cs(2) by simp
  qed
qed

lemma prepare_rows_jobs: "prepare_rows db rs w = Some (Inr ts, w') \<Longrightarrow> map job_id ts = map job_id rs"
proof (induction rs arbitrary: w ts)
  case Nil
  then show ?case by (simp add: io_ret_def)
next
  case (Cons r rs)
  have "job_id t = job_id r" if "prepare_row db r w = Some (Inr t, w'')" for t w w''
    using that by (cases "next_execution r") (auto simp: prepare_row_def Let_def io_bind_Some io_fail_def io_ret_def)
  with Cons show ?case by (auto simp: io_bind_Some io_ret_def)
qed

section \<open>A small instance\<close>

definition demo_row :: "string \<Rightarrow> ScheduleTimeTaskData" where
  "demo_row kind = \<lparr>SdTaskID = 0, SdTaskDefinitionID = 0, SdLastExecutedAt = 0, SdExpirationTime = 5, SdNextExecutionTimestamp = 1,
     ScheduleType = kind, SdTimeInterval = 60, CronExpression = ''* * * * *'', SpecificSchedule = [],
     SdTarget = zero_target\<lparr>TgJobID := Some 9\<rparr>, SdIsImua = False\<rparr>"

definition demo_custom :: CustomJobData where
  "demo_custom = \<lparr>CjJobID = 8, CjCustomScriptUrl = ''ipfs'', CjTimeInterval = 60, CjTargetChainID = ''1'', CjIsCompleted = False,
     CjIsActive = True, CjLastExecutedAt = 0, CjExpirationTime = 5, CjScriptLanguage = ''go'', CjNextExecutionTime = 0\<rparr>"

definition demo_db :: "string \<Rightarrow> unit jobs_db" where
  "demo_db kind = \<lparr>DueRows = \<lambda>_ _ w. (([demo_row ''interval'', demo_row kind], None), w), IsJobImua = \<lambda>_ w. (Inr False, w),
     SetTimeJobCompleted = \<lambda>_ w. (Inr (), w), SetJobCompleted = \<lambda>_ w. (Inr (), w), SetTimeJobActive = \<lambda>_ _ w. (Inr (), w),
     SetNextExecution = \<lambda>_ _ w. (Inr (), w), CustomRows = \<lambda>w. (([demo_custom], None), w), GetStorage = \<lambda>_ w. (Inr [(''k'', ''v'')], w),
     MaxTaskID = \<lambda>w. (Inr 3, w), InsertTask = \<lambda>_ _ _ w. (Inl (GoErr ''timeout''), w), TaskIDRows = \<lambda>_ w. (([], None), w),
     SetTaskIDs = \<lambda>_ _ w. (Inr (), w), DbClock = \<lambda>_. 0\<rparr>"

section \<open>Properties\<close>

text \<open>
  One job that is due with a \<open>cron\<close> or a \<open>specific\<close> schedule, or with an interval that is not positive, makes the whole poll for due jobs fail, for
  every other job too.
\<close>

theorem unsupported_schedule_blocks_poll:
  assumes "DueRows db (DbClock db w) (DbClock db w + i64 (look * second)) w = ((rows, err), w1)"
    and "r \<in> set rows" and "ScheduleType r \<noteq> ''interval'' \<or> SdTimeInterval r \<le> 0"
  shows "\<exists>w'. GetTimeBasedTasks db look has_custom w = Some (Inr (500, [ErrorBody ''TIME_TASKS_FETCH_ERROR'']), w')"
proof -
  have "next_execution r \<noteq> Inr n" for n
    using assms(3) by (auto simp: next_execution_def CalculateNextExecutionTime_def split: if_splits)
  then obtain e where e: "next_execution r = Inl e" by (cases "next_execution r") auto
  have "answers (prepare_rows db rows)" by (intro answers_intros)
  then obtain x w2 where "prepare_rows db rows w1 = Some (x, w2)"
    unfolding answers_def by fast
  moreover from this obtain e' where "x = Inl e'"
    by (cases x) (auto simp: prepare_rows_stuck [OF assms(2) e])
  ultimately show ?thesis
    using assms(1) by (simp add: GetTimeBasedTasks_def GetTimeJobsByNextExecutionTimestamp_def Let_def io_bind_def io_try_def io_ret_def)
qed

theorem unsupported_schedule_blocks_poll_witness:
  "\<exists>w'. GetTimeBasedTasks (demo_db ''cron'') 60 True () = Some (Inr (500, [ErrorBody ''TIME_TASKS_FETCH_ERROR'']), w')"
  by (rule unsupported_schedule_blocks_poll [of _ _ _ "[demo_row ''interval'', demo_row ''cron'']" None "()" "demo_row ''cron''"])
    (simp_all add: demo_db_def demo_row_def)

text \<open>
  When the task of one due job cannot be created, the scheduler cannot read the answer: the handler writes an error and then the list, so all
  tasks of the poll are lost, although their jobs have been moved on to their next execution.
\<close>

theorem failed_task_loses_poll:
  assumes "DueRows db (DbClock db w) (DbClock db w + i64 (look * second)) w = ((rows, None), w1)"
    and "r \<in> set rows" and "insert_fails db (job_id r)"
    and "GetTimeBasedTasks db look has_custom w = Some (Inr (status, bodies), w')"
  shows "unmarshal_tasks bodies = Inl (GoErr ''failed to unmarshal response body'')"
proof (cases "prepare_rows db rows w1")
  case None
  then show ?thesis
    using assms(1,4) by (simp add: GetTimeBasedTasks_def GetTimeJobsByNextExecutionTimestamp_def Let_def io_bind_def io_try_def)
next
  case (Some y)
  obtain x w2 where y: "y = (x, w2)" by force
  show ?thesis
  proof (cases x)
    case (Inl e)
    then show ?thesis
      using assms(1,4) Some y
      by (auto simp: GetTimeBasedTasks_def GetTimeJobsByNextExecutionTimestamp_def Let_def io_bind_def io_try_def io_ret_def unmarshal_tasks_def)
  next
    case (Inr ts)
    have "map job_id ts = map job_id rows" by (rule prepare_rows_jobs [of db rows w1 ts w2]) (simp add: Some y Inr)
    then have "job_id r \<in> set (map job_id ts)" using assms(2) by simp
    then obtain t where t: "t \<in> set ts" "job_id t = job_id r" by auto
    have "GetTimeJobsByNextExecutionTimestamp db (DbClock db w + i64 (look * second)) w = Some (Inr ts, w2)"
      using assms(1) Some y Inr by (simp add: GetTimeJobsByNextExecutionTimestamp_def io_bind_def io_ret_def)
    then obtain custom w3 errors ts' where "create_tasks db (ts @ custom) w3 = Some (Inr (errors, ts'), w')" "bodies = errors @ [TasksBody ts']"
      using assms(4) by (auto simp: GetTimeBasedTasks_def Let_def io_bind_Some io_try_Some io_ret_def)
    moreover from this have "errors \<noteq> []"
      using create_tasks_errors [of t "ts @ custom" db] t assms(3) by simp
    ultimately show ?thesis by (cases errors) (auto simp: unmarshal_tasks_def split: http_body.split list.split)
  qed
qed

theorem failed_task_loses_poll_witness:
  "\<exists>status bodies w'. GetTimeBasedTasks (demo_db ''interval'') 60 True () = Some (Inr (status, bodies), w') \<and>
    unmarshal_tasks bodies = Inl (GoErr ''failed to unmarshal response body'')"
proof -
  have "\<exists>status bodies w'. GetTimeBasedTasks (demo_db ''interval'') 60 True () = Some (Inr (status, bodies), w')"
    by (simp add: GetTimeBasedTasks_def GetTimeJobsByNextExecutionTimestamp_def demo_db_def demo_row_def io_bind_def io_try_def io_ret_def
        prepare_row_def io_call_def next_execution_def CalculateNextExecutionTime_def with_definition_def zero_target_def job_id_def
        UpdateTimeJobNextExecutionTimestamp_def replace_error_def CompleteTimeJob_def UpdateTimeJobStatus_def GetCustomJobsDueForExecution_def
        demo_custom_def convertCustomJobToScheduleTimeTaskData_def CreateTaskDataInDB_def Let_def)
  moreover have "insert_fails (demo_db ''interval'') 9" by (simp add: insert_fails_def demo_db_def)
  ultimately show ?thesis
    using failed_task_loses_poll [of "demo_db ''interval''" "()" 60 "[demo_row ''interval'', demo_row ''interval'']" "()" "demo_row ''interval''" True]
    by (simp add: demo_db_def job_id_def demo_row_def) blast
qed

end
