(* ===== verification/Time_Scheduler.thy ===== *)
theory Time_Scheduler
  imports Time_Jobs
begin

text \<open>
  The scheduler of jobs that are due at a time (\<open>internal/schedulers/time/scheduler/schedule.go\<close>). A poll fetches the tasks that are due, and
  submits them to the task dispatcher in batches. Fetching and submitting are fields of \<open>time_env\<close>, over a
  world of any type; the batches that were handed to the dispatcher, with the outcome, are the result of a poll. \<open>None\<close> is a panic or a loop
  that does not end.
\<close>

record 'w time_env =
  FetchTasks :: "'w \<Rightarrow> (go_error + ScheduleTimeTaskData list) \<times> 'w"
  SubmitBatch :: "SchedulerTaskRequest \<Rightarrow> 'w \<Rightarrow> (go_error + TaskManagerAPIResponse) \<times> 'w"
  TimeClock :: "'w \<Rightarrow> int"
  BatchRetry :: "('w, go_error) retry_env"
  TimeSchedulerID :: int
  taskBatchSize :: int

section \<open>A batch\<close>

definition time_target :: "ScheduleTimeTaskData \<Rightarrow> TaskTargetData" where
  "time_target t =
     (let g = SdTarget t in
      zero_target\<lparr>TgJobID := TgJobID g, TgTaskID := SdTaskID t, TgTaskDefinitionID := SdTaskDefinitionID t,
        TargetChainID := TargetChainID g, TargetContractAddress := TargetContractAddress g, TargetFunction := TargetFunction g,
        ABI := ABI g, ArgType := ArgType g, Arguments := Arguments g,
        DynamicArgumentsScriptUrl := DynamicArgumentsScriptUrl g, TgIsImua := SdIsImua t\<rparr>)"

definition time_trigger :: "ScheduleTimeTaskData \<Rightarrow> TaskTriggerData" where
  "time_trigger t =
     zero_trigger\<lparr>TrTaskID := SdTaskID t, TrTaskDefinitionID := SdTaskDefinitionID t, TrExpirationTime := SdExpirationTime t,
       CurrentTriggerTimestamp := SdLastExecutedAt t, NextTriggerTimestamp := SdNextExecutionTimestamp t,
       TimeScheduleType := ScheduleType t, TimeCronExpression := CronExpression t, TimeSpecificSchedule := SpecificSchedule t,
       TrTimeInterval := SdTimeInterval t\<rparr>"

definition batch_request :: "int \<Rightarrow> ScheduleTimeTaskData list \<Rightarrow> SchedulerTaskRequest" where
  "batch_request scheduler ts =
     \<lparr>RequestData = \<lparr>TaskID = map SdTaskID ts, Performer = no_performer, TargetData = map time_target ts,
        TriggerData = map time_trigger ts, SchedulerID = scheduler, ManagerSignature = []\<rparr>, Source = ''time_scheduler''\<rparr>"

definition batch_config :: "go_error RetryConfig" where
  "batch_config =
     \<lparr>MaxRetries = 3, InitialDelay = second, MaxDelay = 10 * second, BackoffFactor = 2, JitterFactor = f64 (2 / 10),
      LogRetryAttempt = True,
      ShouldRetry = Some (\<lambda>e _. \<not> contains ''invalid'' (error_text e) \<and> \<not> contains ''permission denied'' (error_text e))\<rparr>"

definition submitBatchToTaskDispatcher :: "'w time_env \<Rightarrow> SchedulerTaskRequest \<Rightarrow> 'w \<Rightarrow> bool \<times> 'w" where
  "submitBatchToTaskDispatcher env request w =
     (case Retry (BatchRetry env) (\<lambda>w.
         case SubmitBatch env request w of
           (Inl e, w') \<Rightarrow> (Inl (Wrap ''RPC call failed'' e), w')
         | (Inr response, w') \<Rightarrow>
             (if \<not> Success response
              then Inl (GoErr (''task dispatcher processing failed: '' @ Message response @ '' - '' @ RespError response))
              else Inr True, w')) (Some batch_config) w of
        (Inl _, w') \<Rightarrow> (False, w')
      | (Inr success, w') \<Rightarrow> (success, w'))"

type_synonym outcome = "(SchedulerTaskRequest \<times> bool) list"

definition processBatch :: "'w time_env \<Rightarrow> ScheduleTimeTaskData list \<Rightarrow> 'w \<Rightarrow> outcome \<times> 'w" where
  "processBatch env tasks w =
     (let valid = filter (\<lambda>t. \<not> SdExpirationTime t < TimeClock env w) tasks in
      if valid = [] then ([], w)
      else
        (let request = batch_request (TimeSchedulerID env) valid in
         case submitBatchToTaskDispatcher env request w of (success, w') \<Rightarrow> ([(request, success)], w')))"

section \<open>A poll\<close>

text \<open>The loop over the slices \<open>tasks[i:end]\<close>; a slice with bounds in the wrong order panics.\<close>

partial_function (option) batches :: "'w time_env \<Rightarrow> ScheduleTimeTaskData list \<Rightarrow> int \<Rightarrow> outcome \<Rightarrow> 'w \<Rightarrow> (outcome \<times> 'w) option" where
  "batches env tasks i acc w =
     (if i < int (length tasks) then
        (let e = i + taskBatchSize env; e' = (if int (length tasks) < e then int (length tasks) else e) in
         if e' < i \<or> i < 0 then None
         else
           (case processBatch env (take (nat (e' - i)) (drop (nat i) tasks)) w of
              (out, w') \<Rightarrow> batches env tasks (i + taskBatchSize env) (acc @ out) w'))
      else Some (acc, w))"

definition pollAndScheduleTasks :: "'w time_env \<Rightarrow> 'w \<Rightarrow> (outcome \<times> 'w) option" where
  "pollAndScheduleTasks env w =
     (case FetchTasks env w of
        (Inl _, w') \<Rightarrow> Some ([], w')
      | (Inr tasks, w') \<Rightarrow>
          (case batches env (filter (\<lambda>t. \<not> SdIsImua t) tasks) 0 [] w' of
             None \<Rightarrow> None
           | Some (out, w'') \<Rightarrow> batches env (filter SdIsImua tasks) 0 out w''))"

section \<open>The batches of a poll\<close>

fun slices :: "nat \<Rightarrow> 'a list \<Rightarrow> 'a list list" where
  "slices 0 xs = []"
| "slices (Suc n) [] = []"
| "slices (Suc n) (x # xs) = take (Suc n) (x # xs) # slices (Suc n) (drop n xs)"

lemma slices_Nil [simp]: "slices n [] = []"
  by (cases n) simp_all

lemma slices_concat: "0 < n \<Longrightarrow> concat (slices n xs) = xs"
  by (induction n xs rule: slices.induct) (simp_all add: take_Cons')

lemma slices_length: "ys \<in> set (slices n xs) \<Longrightarrow> ys \<noteq> [] \<and> length ys \<le> n"
  by (induction n xs rule: slices.induct) auto

lemma slices_filter: "0 < n \<Longrightarrow> ys \<in> set (slices n (filter P xs)) \<Longrightarrow> list_all P ys"
proof -
  assume "0 < n" "ys \<in> set (slices n (filter P xs))"
  then have "set ys \<subseteq> set (concat (slices n (filter P xs)))" by auto
  then show "list_all P ys" by (auto simp: slices_concat [OF \<open>0 < n\<close>] list_all_iff)
qed

fun run_batches :: "'w time_env \<Rightarrow> ScheduleTimeTaskData list list \<Rightarrow> outcome \<Rightarrow> 'w \<Rightarrow> outcome \<times> 'w" where
  "run_batches env [] acc w = (acc, w)"
| "run_batches env (b # bs) acc w = (case processBatch env b w of (out, w') \<Rightarrow> run_batches env bs (acc @ out) w')"

lemma batches_run:
  assumes "0 < taskBatchSize env"
  shows "batches env tasks (int i) acc w = Some (run_batches env (slices (nat (taskBatchSize env)) (drop i tasks)) acc w)"
proof (induction "length tasks - i" arbitrary: i acc w rule: less_induct)
  case less
  obtain n where n: "nat (taskBatchSize env) = Suc n" "taskBatchSize env = 1 + int n"
    using assms that [of "nat (taskBatchSize env) - 1"] by simp
  show ?case
  proof (cases "i < length tasks")
    case False
    then show ?thesis by (subst batches.simps) (simp add: n)
  next
    case True
    obtain x xs where d: "drop i tasks = x # xs" using True by (cases "drop i tasks") auto
    let ?e = "if int (length tasks) < int i + taskBatchSize env then int (length tasks) else int i + taskBatchSize env"
    have t: "take (nat (?e - int i)) (drop i tasks) = take (Suc n) (drop i tasks)"
      using True n(1) by (auto simp: n(2))
    have s: "slices (Suc n) (drop i tasks) = take (Suc n) (drop i tasks) # slices (Suc n) (drop (i + Suc n) tasks)"
    proof -
      have "drop (i + Suc n) tasks = drop n xs" using d by (metis add.commute drop_Suc_Cons drop_drop)
      then show ?thesis using d by simp
    qed
    obtain out w' where p: "processBatch env (take (Suc n) (drop i tasks)) w = (out, w')" by force
    have "batches env tasks (int (i + Suc n)) (acc @ out) w' =
        Some (run_batches env (slices (Suc n) (drop (i + Suc n) tasks)) (acc @ out) w')"
      using less.hyps [of "i + Suc n"] True n by simp
    moreover have "int i + taskBatchSize env = int (i + Suc n)" using n(2) by simp
    moreover have "\<not> (?e < int i \<or> int i < 0)" using True n(2) by auto
    ultimately show ?thesis
      unfolding n(1) s using True t p by (subst batches.simps) (simp only: Let_def nat_int if_True if_False run_batches.simps of_nat_less_iff prod.case)
  qed
qed

definition unexpired :: "int \<Rightarrow> ScheduleTimeTaskData list \<Rightarrow> ScheduleTimeTaskData list" where
  "unexpired now ts = filter (\<lambda>t. \<not> SdExpirationTime t < now) ts"

text \<open>What a batch hands over, when the clock stands still.\<close>

lemma processBatch_requests:
  assumes "\<And>w. TimeClock env w = now"
  shows "map fst (fst (processBatch env ts w)) = (if unexpired now ts = [] then [] else [batch_request (TimeSchedulerID env) (unexpired now ts)])"
  using assms by (auto simp: processBatch_def unexpired_def Let_def split: prod.splits)

lemma run_batches_requests:
  assumes "\<And>w. TimeClock env w = now"
  shows "map fst (fst (run_batches env bs acc w)) = map fst acc @ map (batch_request (TimeSchedulerID env)) (filter (\<lambda>b. b \<noteq> []) (map (unexpired now) bs))"
proof (induction bs arbitrary: acc w)
  case Nil
  then show ?case by simp
next
  case (Cons b bs)
  obtain out w' where p: "processBatch env b w = (out, w')" by force
  with processBatch_requests [of env now b w, OF assms] have "map fst out = (if unexpired now b = [] then [] else [batch_request (TimeSchedulerID env) (unexpired now b)])"
    by simp
  with Cons p show ?case by simp
qed

lemma poll_requests:
  assumes "0 < taskBatchSize env" and "\<And>w. TimeClock env w = now" and "FetchTasks env w = (Inr tasks, w1)"
  shows "\<exists>out w'. pollAndScheduleTasks env w = Some (out, w') \<and>
    map fst out = map (batch_request (TimeSchedulerID env)) (filter (\<lambda>b. b \<noteq> []) (map (unexpired now)
      (slices (nat (taskBatchSize env)) (filter (\<lambda>t. \<not> SdIsImua t) tasks) @ slices (nat (taskBatchSize env)) (filter SdIsImua tasks))))"
proof -
  let ?b = "\<lambda>ts. slices (nat (taskBatchSize env)) ts"
  obtain out w2 where o: "run_batches env (?b (filter (\<lambda>t. \<not> SdIsImua t) tasks)) [] w1 = (out, w2)" by force
  obtain out' w3 where o': "run_batches env (?b (filter SdIsImua tasks)) out w2 = (out', w3)" by force
  have "pollAndScheduleTasks env w = Some (out', w3)"
    using batches_run [OF assms(1), of "filter (\<lambda>t. \<not> SdIsImua t) tasks" 0 "[]" w1]
      batches_run [OF assms(1), of "filter SdIsImua tasks" 0 out w2] o o' assms(3)
    by (simp add: pollAndScheduleTasks_def)
  then show ?thesis
    using run_batches_requests [of env now, OF assms(2)] o o' by (metis (no_types, lifting) append_Nil filter_append fst_conv list.map(1) map_append)
qed

lemma concat_nonempty: "concat (filter (\<lambda>b. b \<noteq> []) bs) = concat bs"
  by (induction bs) auto

lemma unexpired_slices: "0 < n \<Longrightarrow> concat (map (unexpired now) (slices n ts)) = unexpired now ts"
  using slices_concat [of n ts] by (metis filter_concat unexpired_def [abs_def])

section \<open>Properties\<close>


text \<open>
  A custom script never sees its storage: the database server puts the storage and the language of the script into the task, and the scheduler leaves both
  out of what it submits.
\<close>

theorem script_storage_lost:
  assumes "convertCustomJobToScheduleTimeTaskData db j w = Some (Inr t, w')" and "GetStorage db (CjJobID j) w = (Inr st, w1)"
  shows "ScriptStorage (SdTarget t) = st \<and> ScriptLanguage (SdTarget t) = CjScriptLanguage j \<and>
    ScriptStorage (time_target t) = [] \<and> ScriptLanguage (time_target t) = []"
  using assms
  by (auto simp: convertCustomJobToScheduleTimeTaskData_def io_bind_Some io_try_Some io_call_def io_ret_def Let_def time_target_def zero_target_def)

theorem script_storage_lost_witness:
  "\<exists>t w'. convertCustomJobToScheduleTimeTaskData (demo_db ''cron'') demo_custom () = Some (Inr t, w') \<and>
    ScriptStorage (SdTarget t) = [(''k'', ''v'')] \<and> ScriptStorage (time_target t) = []"
proof -
  have s: "GetStorage (demo_db ''cron'') (CjJobID demo_custom) () = (Inr [(''k'', ''v'')], ())" by (simp add: demo_db_def)
  obtain t where t: "convertCustomJobToScheduleTimeTaskData (demo_db ''cron'') demo_custom () = Some (Inr t, ())"
    using s by (simp add: convertCustomJobToScheduleTimeTaskData_def io_bind_def io_try_def io_call_def io_ret_def Let_def)
  show ?thesis using script_storage_lost [OF t s] t by blast
qed

definition demo_time :: "unit time_env" where
  "demo_time = \<lparr>FetchTasks = \<lambda>w. (Inr [demo_row ''a'', (demo_row ''b'')\<lparr>SdIsImua := True\<rparr>, demo_row ''c''], w),
     SubmitBatch = \<lambda>_ w. (Inl (GoErr ''invalid''), w), TimeClock = \<lambda>_. 3,
     BatchRetry = \<lparr>ctx_err = \<lambda>_. None, wait_timer = \<lambda>_ s. (None, s), rand_source = \<lambda>s. ((None, 0), s)\<rparr>, TimeSchedulerID = 1, taskBatchSize = 2\<rparr>"


end
