(* ===== verification/Keeper_Health.thy ===== *)
theory Keeper_Health
  imports Signing Retry
begin

text \<open>
  The health service: which keepers are active (\<open>internal/health/keeper\<close>: \<open>state_manager.go\<close>, \<open>update.go\<close>, \<open>cleanup.go\<close>,
  \<open>persistence.go\<close>), the row of a keeper in the database (\<open>UpdateKeeperHealth\<close> and \<open>GetVerifiedKeepers\<close> of
  \<open>client/database.go\<close>), and the check-in of a keeper over HTTP (\<open>HandleCheckInEvent\<close> of \<open>health.go\<close>). The queries,
  the encryption, the clock and the configuration are the fields of \<open>health_env\<close>, over a world of any type. Metrics are left out, and so
  is \<open>checkAndNotifyOfflineKeeper\<close>, which no path of the code reaches.
\<close>

section \<open>State\<close>

record KeeperInfo =
  KeeperName :: string
  KiKeeperAddress :: string
  KiConsensusAddress :: string
  KiOperatorID :: string
  KiVersion :: string
  KiPeerID :: string
  KiIsActive :: bool
  LastCheckedIn :: int
  KiIsImua :: bool

record KeeperHealthCheckIn =
  HcKeeperAddress :: string
  ConsensusPubKey :: string
  ConsensusAddress :: string
  Version :: string
  HcTimestamp :: int
  HcSignature :: string
  PeerID :: string
  HcIsImua :: bool

definition address_only :: "string \<Rightarrow> KeeperHealthCheckIn" where
  "address_only address = \<lparr>HcKeeperAddress = address, ConsensusPubKey = [], ConsensusAddress = [], Version = [], HcTimestamp = 0,
     HcSignature = [], PeerID = [], HcIsImua = False\<rparr>"

record ('k, 'q, 'w) health_env =
  HealthCrypto :: "('k, 'q) crypto"
  EncryptMessage :: "string \<Rightarrow> string \<Rightarrow> go_error + string"
  SelectKeeper :: "string \<Rightarrow> 'w \<Rightarrow> (go_error + int \<times> bool \<times> int \<times> int) \<times> 'w"
  SetUptime :: "int \<Rightarrow> int \<Rightarrow> 'w \<Rightarrow> (go_error + unit) \<times> 'w"
  SetOffline :: "int \<Rightarrow> 'w \<Rightarrow> (go_error + unit) \<times> 'w"
  SetCheckedIn :: "int \<Rightarrow> string \<Rightarrow> string \<Rightarrow> string \<Rightarrow> int \<Rightarrow> 'w \<Rightarrow> (go_error + unit) \<times> 'w"
  VerifiedRows :: "'w \<Rightarrow> (KeeperInfo list \<times> go_error option) \<times> 'w"
  HealthSleep :: "int \<Rightarrow> 'w \<Rightarrow> 'w"
  HealthClock :: "'w \<Rightarrow> int"
  EtherscanAPIKey :: string
  HealthAlchemyAPIKey :: string
  PinataHost :: string
  PinataJWT :: string
  HealthManagerSigningAddress :: string
  ImuaTaskExecutionAddress :: string
  TaskExecutionAddress :: string
  TestTaskExecutionAddress :: string

record 'w StateManager =
  keepers :: "string \<rightharpoonup> KeeperInfo"
  database :: 'w

section \<open>The row of a keeper\<close>

text \<open>\<open>int64(now.Sub(then).Seconds())\<close>: the difference saturates, the division is one of floats.\<close>

definition whole_seconds :: "int \<Rightarrow> int" where
  "whole_seconds d =
     (let s = max (- (2 ^ 63)) (min (2 ^ 63 - 1) d);
          q = (if s < 0 then - ((- s) div second) else s div second)
      in f64_to_i64 (f64 (f64_of_i64 q + f64_div (f64_of_i64 (s - q * second)) 1000000000)))"

definition normal_address :: "string \<Rightarrow> string" where
  "normal_address a = (let l = lower a in if l \<noteq> [] \<and> \<not> prefix ''0x'' l then ''0x'' @ l else l)"

definition DB_UpdateKeeperHealth :: "('k, 'q, 'w) health_env \<Rightarrow> KeeperHealthCheckIn \<Rightarrow> bool \<Rightarrow> ('w, unit) io" where
  "DB_UpdateKeeperHealth env h isActive =
     io_bind (io_call (SelectKeeper env (normal_address (HcKeeperAddress h)))) (\<lambda>(keeperID, prevOnline, prevLastCheckedIn, prevUptime).
     if keeperID = 0 then io_fail (GoErr ''keeper not found'')
     else
       io_bind
         (if prevOnline then
            io_bind (io_get (HealthClock env)) (\<lambda>now.
            let added = whole_seconds (now - prevLastCheckedIn) in
            io_call (SetUptime env keeperID (i64 (prevUptime + max 0 added))))
          else io_ret ()) (\<lambda>_.
       if \<not> isActive then io_call (SetOffline env keeperID)
       else io_call (SetCheckedIn env keeperID (lower (ConsensusAddress h)) (if PeerID h = [] then ''no-peer-id'' else PeerID h)
              (Version h) (HcTimestamp h))))"

definition GetVerifiedKeepers :: "('k, 'q, 'w) health_env \<Rightarrow> ('w, KeeperInfo list) io" where
  "GetVerifiedKeepers env w =
     (case VerifiedRows env w of
        ((_, Some e), w') \<Rightarrow> io_fail (Wrap ''error closing iterator'' e) w'
      | ((rows, None), w') \<Rightarrow> io_ret (map (\<lambda>k. k\<lparr>KiIsActive := False\<rparr>) rows) w')"

definition updateKeeperStatusInDatabase :: "('k, 'q, 'w) health_env \<Rightarrow> KeeperHealthCheckIn \<Rightarrow> bool \<Rightarrow> ('w, unit) io" where
  "updateKeeperStatusInDatabase env h isActive =
     io_wrap ''failed to update keeper status in database'' (DB_UpdateKeeperHealth env h isActive)"

text \<open>\<open>retryWithBackoff\<close> with \<open>maxRetries\<close> attempts, from attempt \<open>i\<close> on; it sleeps after the last one too.\<close>

definition maxRetries :: nat where "maxRetries = 3"

fun retry_from :: "('k, 'q, 'w) health_env \<Rightarrow> ('w, unit) io \<Rightarrow> nat \<Rightarrow> nat \<Rightarrow> go_error option \<Rightarrow> ('w, unit) io" where
  "retry_from env operation i 0 err w =
     io_fail (Wrap (''operation failed after '' @ show_nat i @ '' retries'') (case err of Some e \<Rightarrow> e | None \<Rightarrow> GoErr ''%!w(<nil>)'')) w"
| "retry_from env operation i (Suc n) err w =
     (case operation w of
        None \<Rightarrow> None
      | Some (Inr _, w') \<Rightarrow> Some (Inr (), w')
      | Some (Inl e, w') \<Rightarrow> retry_from env operation (Suc i) n (Some e) (HealthSleep env (int i * second) w'))"

definition retryWithBackoff :: "('k, 'q, 'w) health_env \<Rightarrow> ('w, unit) io \<Rightarrow> ('w, unit) io" where
  "retryWithBackoff env operation = retry_from env operation 0 maxRetries None"

section \<open>The state manager\<close>

type_synonym ('w, 'a) sm = "('w StateManager, 'a) io"

definition on_database :: "('w, 'a) io \<Rightarrow> ('w, 'a) sm" where
  "on_database m s = map_option (\<lambda>(r, w). (r, s\<lparr>database := w\<rparr>)) (m (database s))"

definition IsKeeperActive :: "'w StateManager \<Rightarrow> string \<Rightarrow> bool" where
  "IsKeeperActive s a = (case keepers s a of None \<Rightarrow> False | Some k \<Rightarrow> KiIsActive k)"

definition GetAllActiveKeepers :: "'w StateManager \<Rightarrow> string set" where
  "GetAllActiveKeepers s = {a. IsKeeperActive s a}"

definition GetKeeperCount :: "'w StateManager \<Rightarrow> nat \<times> nat" where
  "GetKeeperCount s = (card (dom (keepers s)), card (GetAllActiveKeepers s))"

definition GetDetailedKeeperInfo :: "string list \<Rightarrow> 'w StateManager \<Rightarrow> KeeperInfo list" where
  "GetDetailedKeeperInfo order s = List.map_filter (\<lambda>a. map_option (\<lambda>k. k\<lparr>KiKeeperAddress := a\<rparr>) (keepers s a)) order"

definition not_verified :: go_error where "not_verified = GoErr ''keeper not verified''"

definition checked_in :: "KeeperHealthCheckIn \<Rightarrow> int \<Rightarrow> KeeperInfo \<Rightarrow> KeeperInfo" where
  "checked_in h now k = k\<lparr>KiVersion := Version h, KiPeerID := PeerID h, LastCheckedIn := now, KiIsActive := True, KiIsImua := HcIsImua h\<rparr>"

definition UpdateKeeperHealth :: "('k, 'q, 'w) health_env \<Rightarrow> KeeperHealthCheckIn \<Rightarrow> ('w, unit) sm" where
  "UpdateKeeperHealth env h s =
     (case keepers s (HcKeeperAddress h) of
        None \<Rightarrow> io_fail not_verified s
      | Some k \<Rightarrow>
          io_wrap ''failed to update keeper status in database''
            (on_database (retryWithBackoff env (updateKeeperStatusInDatabase env h True)))
            (s\<lparr>keepers := (keepers s)(HcKeeperAddress h \<mapsto> checked_in h (HealthClock env (database s)) k)\<rparr>))"

definition inactivityThreshold :: int where "inactivityThreshold = 70 * second"

definition saturated :: "int \<Rightarrow> int" where
  "saturated d = max (- (2 ^ 63)) (min (2 ^ 63 - 1) d)"

definition inactive :: "int \<Rightarrow> KeeperInfo \<Rightarrow> bool" where
  "inactive now k \<longleftrightarrow> KiIsActive k \<and> inactivityThreshold < saturated (now - LastCheckedIn k)"

fun each_ignored :: "('b \<Rightarrow> ('w, unit) io) \<Rightarrow> 'b list \<Rightarrow> ('w, unit) io" where
  "each_ignored f [] = io_ret ()"
| "each_ignored f (x # xs) = io_bind (io_try (f x)) (\<lambda>_. each_ignored f xs)"

text \<open>The map is ranged over in the order \<open>order\<close>.\<close>

definition checkInactiveKeepers :: "('k, 'q, 'w) health_env \<Rightarrow> string list \<Rightarrow> ('w, unit) sm" where
  "checkInactiveKeepers env order s =
     (let now = HealthClock env (database s);
          gone = filter (\<lambda>a. case keepers s a of None \<Rightarrow> False | Some k \<Rightarrow> inactive now k) order
      in on_database (each_ignored (\<lambda>a. updateKeeperStatusInDatabase env (address_only a) False) gone)
           (s\<lparr>keepers := (\<lambda>a. map_option (\<lambda>k. if inactive now k then k\<lparr>KiIsActive := False\<rparr> else k) (keepers s a))\<rparr>))"

definition LoadVerifiedKeepers :: "('k, 'q, 'w) health_env \<Rightarrow> ('w, unit) sm" where
  "LoadVerifiedKeepers env =
     io_bind (io_wrap ''failed to load verified keepers from database'' (on_database (GetVerifiedKeepers env))) (\<lambda>ks.
     io_put (\<lambda>s. s\<lparr>keepers := map_of (rev (map (\<lambda>k. (KiKeeperAddress k, k)) ks))\<rparr>))"

definition DumpState :: "('k, 'q, 'w) health_env \<Rightarrow> string list \<Rightarrow> ('w, unit) sm" where
  "DumpState env order s =
     on_database (each_ignored (\<lambda>a. retryWithBackoff env (updateKeeperStatusInDatabase env (address_only a) False))
       (filter (IsKeeperActive s) order)) s"

section \<open>The check-in\<close>

definition with_defaults :: "KeeperHealthCheckIn \<Rightarrow> KeeperHealthCheckIn" where
  "with_defaults h = h\<lparr>PeerID := (if PeerID h = [] then ''no-peer-id'' else PeerID h),
     Version := (if Version h = [] then ''0.1.0'' else Version h)\<rparr>"

definition colons :: "string list \<Rightarrow> string" where
  "colons xs = (case xs of [] \<Rightarrow> [] | y # ys \<Rightarrow> y @ concat (map (\<lambda>x. CHR '':'' # x) ys))"

text \<open>The secrets that a keeper is sent, by its version.\<close>

definition keeper_secrets :: "('k, 'q, 'w) health_env \<Rightarrow> KeeperHealthCheckIn \<Rightarrow> string option" where
  "keeper_secrets env h =
     (let base = [EtherscanAPIKey env, HealthAlchemyAPIKey env, PinataHost env, PinataJWT env] in
      if Version h \<in> {''0.1.6'', ''0.2.0'', ''0.2.1'', ''0.2.2'', ''1.0.0'', ''1.0.1''} then
        Some (colons (base @ [HealthManagerSigningAddress env,
          if HcIsImua h then ImuaTaskExecutionAddress env
          else if Version h = ''1.0.0'' \<or> Version h = ''1.0.1'' then TaskExecutionAddress env else TestTaskExecutionAddress env]))
      else if Version h \<in> {''0.1.5'', ''0.1.4'', ''0.1.3''} then Some (colons base)
      else None)"

text \<open>The answer is the HTTP status and the data of the response; the error of a bad body is left out.\<close>

definition HandleCheckInEvent :: "('k, 'q, 'w) health_env \<Rightarrow> go_error + KeeperHealthCheckIn \<Rightarrow> ('w, int \<times> string) sm" where
  "HandleCheckInEvent env body =
     (case body of
        Inl e \<Rightarrow> io_ret (400, error_text e)
      | Inr raw \<Rightarrow>
          (let h = with_defaults raw in
           if VerifySignature (HealthCrypto env) (HcKeeperAddress h) (HcSignature h) (ConsensusAddress h) \<noteq> Inr True
           then io_ret (412, ''Invalid signature'')
           else
             (let h' = h\<lparr>HcKeeperAddress := lower (HcKeeperAddress h), ConsensusAddress := lower (ConsensusAddress h)\<rparr> in
              io_bind (io_try (UpdateKeeperHealth env h')) (\<lambda>r.
              case r of
                Inl e \<Rightarrow> if e = not_verified then io_ret (403, ''Keeper not verified'') else io_ret (500, ''Failed to update keeper state'')
              | Inr _ \<Rightarrow>
                  (case keeper_secrets env h' of
                     None \<Rightarrow> io_ret (200, ''UPGRADE TO v0.1.6 for full functionality'')
                   | Some message \<Rightarrow>
                       (case EncryptMessage env (ConsensusPubKey h') message of
                          Inl e \<Rightarrow> io_ret (500, error_text e)
                        | Inr msgData \<Rightarrow> io_ret (200, msgData)))))))"

section \<open>Updates that return\<close>

lemma each_ignored_returns: "(\<And>x w. f x w \<noteq> None) \<Longrightarrow> \<exists>w'. each_ignored f xs w = Some (Inr (), w')"
proof (induction xs arbitrary: w)
  case Nil
  then show ?case by (simp add: io_ret_def)
next
  case (Cons x xs)
  obtain r w1 where "f x w = Some (r, w1)" using Cons.prems [of x w] by auto
  with Cons show ?case by (simp add: io_bind_def io_try_def)
qed

lemma update_returns: "updateKeeperStatusInDatabase env h b w \<noteq> None"
  by (auto simp: updateKeeperStatusInDatabase_def DB_UpdateKeeperHealth_def io_wrap_def io_bind_def io_call_def io_get_def io_ret_def
      io_fail_def Let_def split: option.splits sum.splits prod.splits if_splits)

lemma cleanup_state:
  "\<exists>w. checkInactiveKeepers env order s = Some (Inr (), s\<lparr>keepers := (\<lambda>a. map_option
     (\<lambda>k. if inactive (HealthClock env (database s)) k then k\<lparr>KiIsActive := False\<rparr> else k) (keepers s a)), database := w\<rparr>)"
  using each_ignored_returns [of "\<lambda>a. updateKeeperStatusInDatabase env (address_only a) False", OF update_returns]
  by (fastforce simp: checkInactiveKeepers_def Let_def on_database_def)

lemma retry_at_once: "m w = Some (Inr (), w') \<Longrightarrow> retryWithBackoff env m w = Some (Inr (), w')"
  by (simp add: retryWithBackoff_def maxRetries_def numeral_3_eq_3)

section \<open>A small instance\<close>

definition demo_health :: "(unit, bool, unit) health_env" where
  "demo_health = \<lparr>HealthCrypto = demo_crypto, EncryptMessage = \<lambda>_ m. Inr m, SelectKeeper = \<lambda>_ w. (Inr (1, False, 0, 0), w),
     SetUptime = \<lambda>_ _ w. (Inr (), w), SetOffline = \<lambda>_ w. (Inr (), w), SetCheckedIn = \<lambda>_ _ _ _ _ w. (Inr (), w),
     VerifiedRows = \<lambda>w. (([], None), w), HealthSleep = \<lambda>_ w. w, HealthClock = \<lambda>_. 100 * second, EtherscanAPIKey = ''e'',
     HealthAlchemyAPIKey = ''a'', PinataHost = ''p'', PinataJWT = ''j'', HealthManagerSigningAddress = ''m'', ImuaTaskExecutionAddress = ''i'',
     TaskExecutionAddress = ''t'', TestTaskExecutionAddress = ''x''\<rparr>"

definition demo_info :: "int \<Rightarrow> KeeperInfo" where
  "demo_info t = \<lparr>KeeperName = [], KiKeeperAddress = ''0xv'', KiConsensusAddress = ''0xc'', KiOperatorID = ''1'', KiVersion = [],
     KiPeerID = [], KiIsActive = True, LastCheckedIn = t, KiIsImua = False\<rparr>"

definition demo_manager :: "unit StateManager" where
  "demo_manager = \<lparr>keepers = [''0xv'' \<mapsto> demo_info 0, ''0xw'' \<mapsto> demo_info (40 * second)], database = ()\<rparr>"

section \<open>Properties\<close>

text \<open>
  After a cleanup the active keepers are those that were active and have checked in within the last 70 seconds, whatever the database answers.
\<close>

theorem active_after_cleanup:
  assumes "\<And>k. keepers s a = Some k \<Longrightarrow> \<bar>HealthClock env (database s) - LastCheckedIn k\<bar> < 2 ^ 63"
  shows "\<exists>s'. checkInactiveKeepers env order s = Some (Inr (), s') \<and>
    (IsKeeperActive s' a \<longleftrightarrow> IsKeeperActive s a \<and>
       (\<exists>k. keepers s a = Some k \<and> HealthClock env (database s) - LastCheckedIn k \<le> 70 * second))"
proof -
  have "saturated d = d" if "\<bar>d\<bar> < 2 ^ 63" for d
    using that unfolding saturated_def by (simp add: max_def min_def abs_less_iff)
  then have "inactive (HealthClock env (database s)) k \<longleftrightarrow>
      KiIsActive k \<and> 70 * second < HealthClock env (database s) - LastCheckedIn k" if "keepers s a = Some k" for k
    using assms [OF that] by (simp add: inactive_def inactivityThreshold_def)
  then show ?thesis
    using cleanup_state [of env order s] by (cases "keepers s a") (auto simp: IsKeeperActive_def)
qed

theorem active_after_cleanup_witness:
  "\<exists>s'. checkInactiveKeepers demo_health [''0xv'', ''0xw''] demo_manager = Some (Inr (), s') \<and> \<not> IsKeeperActive s' ''0xv''"
  using active_after_cleanup [of demo_manager "''0xv''" demo_health "[''0xv'', ''0xw'']"]
  by (auto simp: demo_manager_def demo_info_def demo_health_def second_def)

text \<open>
  C36: Anybody with a key of his own is given the secrets of the keepers: he signs the address of any verified keeper, and sends his own address and his own
  public key with it. The check-in compares the signature with the address it came with, never with the one the keeper is registered with.
\<close>

theorem forged_check_in_gets_secrets:
  assumes "key_of (HealthCrypto env) key attacker" and "SignMessage (HealthCrypto env) victim key = Inr sig"
    and "keepers s (lower victim) = Some info"
    and "\<And>h w. \<exists>w'. DB_UpdateKeeperHealth env h True w = Some (Inr (), w')"
    and "HcKeeperAddress h = victim" and "ConsensusAddress h = attacker" and "HcSignature h = sig"
    and "keeper_secrets env (with_defaults h) = Some message" and "EncryptMessage env (ConsensusPubKey h) message = Inr data"
  shows "\<exists>s'. HandleCheckInEvent env (Inr h) s = Some (Inr (200, data), s') \<and> IsKeeperActive s' (lower victim)"
proof -
  let ?h = "(with_defaults h)\<lparr>HcKeeperAddress := lower victim, ConsensusAddress := lower attacker\<rparr>"
  let ?s = "s\<lparr>keepers := (keepers s)(lower victim \<mapsto> checked_in ?h (HealthClock env (database s)) info)\<rparr>"
  have v: "VerifySignature (HealthCrypto env) (HcKeeperAddress (with_defaults h)) (HcSignature (with_defaults h)) (ConsensusAddress (with_defaults h)) = Inr True"
    using sign_verify_message [OF assms(2,1)] assms(5-7) by (simp add: with_defaults_def)
  obtain w where "DB_UpdateKeeperHealth env ?h True (database ?s) = Some (Inr (), w)" using assms(4) by blast
  then have "retryWithBackoff env (updateKeeperStatusInDatabase env ?h True) (database ?s) = Some (Inr (), w)"
    by (intro retry_at_once) (simp add: updateKeeperStatusInDatabase_def io_wrap_def)
  then have u: "UpdateKeeperHealth env ?h s = Some (Inr (), ?s\<lparr>database := w\<rparr>)"
    using assms(3) by (simp add: UpdateKeeperHealth_def on_database_def io_wrap_def)
  have "keeper_secrets env (g\<lparr>HcKeeperAddress := x, ConsensusAddress := y\<rparr>) = keeper_secrets env g" for g x y
  proof -
    have "Version (g\<lparr>HcKeeperAddress := x, ConsensusAddress := y\<rparr>) = Version g"
      "HcIsImua (g\<lparr>HcKeeperAddress := x, ConsensusAddress := y\<rparr>) = HcIsImua g"
      by simp_all
    then show ?thesis unfolding keeper_secrets_def by (simp only:)
  qed
  then have m: "keeper_secrets env ?h = Some message" "ConsensusPubKey ?h = ConsensusPubKey h"
    using assms(8) by (simp_all add: with_defaults_def)
  have "HandleCheckInEvent env (Inr h) s = Some (Inr (200, data), ?s\<lparr>database := w\<rparr>)"
    using v u m assms(5,6,9) by (simp add: HandleCheckInEvent_def Let_def io_bind_def io_try_def io_ret_def with_defaults_def)
  then show ?thesis by (simp add: IsKeeperActive_def checked_in_def)
qed

definition demo_forged :: KeeperHealthCheckIn where
  "demo_forged = \<lparr>HcKeeperAddress = ''0xv'', ConsensusPubKey = ''q'', ConsensusAddress = ''0xeve'', Version = ''1.0.1'', HcTimestamp = 0,
     HcSignature = (case SignMessage demo_crypto ''0xv'' ''eve'' of Inr sig \<Rightarrow> sig), PeerID = [], HcIsImua = False\<rparr>"

theorem forged_check_in_gets_secrets_witness:
  "\<exists>s'. HandleCheckInEvent demo_health (Inr demo_forged) demo_manager = Some (Inr (200, ''e:a:p:j:m:t''), s') \<and> IsKeeperActive s' ''0xv''"
proof -
  obtain sig where sig: "SignMessage demo_crypto ''0xv'' ''eve'' = Inr sig"
    by (simp add: SignMessage_def demo_crypto_def)
  have low: "lower ''0xv'' = ''0xv''" by code_simp
  have db: "\<exists>w'. DB_UpdateKeeperHealth demo_health h True w = Some (Inr (), w')" for h w
    by (simp add: DB_UpdateKeeperHealth_def demo_health_def io_bind_def io_call_def io_ret_def)
  have c: "HealthCrypto demo_health = demo_crypto" by (simp add: demo_health_def)
  show ?thesis
    using forged_check_in_gets_secrets [of demo_health "''eve''" "''0xeve''" "''0xv''" sig demo_manager "demo_info 0" demo_forged "''e:a:p:j:m:t''" "''e:a:p:j:m:t''"]
      sig demo_key db
    by (simp add: c low demo_forged_def keeper_secrets_def with_defaults_def colons_def demo_manager_def)
      (simp add: demo_health_def)
qed

end
