(* ===== verification/Gas_Fees.thy ===== *)
theory Gas_Fees
  imports Keeper_Arguments
begin

text \<open>
  What an execution costs (\<open>pkg/dockerexecutor/execution/gas_estimator.go\<close> and the fees of \<open>pipeline.go\<close>). An estimator keeps a
  client per chain and the price of gas per chain for seven days; the fee of a task is an off-chain part in dollars, the estimated cost of
  its transaction and the cost of the aggregator's. The nodes of the chains, the ABI encoder and the service that gives the price of ether are the
  fields of \<open>gas_env\<close>, over a world of any type. A client is known by its URL. Block numbers are below \<open>2^63\<close>, floats are finite except
  where the price of ether divides, \<open>quotient\<close>. \<open>None\<close> is a panic.
\<close>

section \<open>Data\<close>

record fee_history =
  BaseFee :: "int option list"
  Reward :: "int option list list"

record ExecutionFeeConfig =
  PricePerTG :: float64
  TransactionCost :: float64
  FixedCost :: float64
  StaticComplexityFactor :: float64
  DynamicComplexityFactor :: float64
  StaticOffChainFeeUSD :: float64
  DynamicOffChainFeeUSD :: float64
  CustomScriptFeeUSD :: float64

record call_msg =
  MsgTo :: "8 word list"
  MsgData :: "8 word list"
  MsgFrom :: "8 word list"

text \<open>An argument is converted, or left to the packer as it is.\<close>

datatype packed = Conv go_value | AsIs json

record 'w gas_env =
  Args :: arg_env
  ParseMethods :: "string \<Rightarrow> go_error + (string \<rightharpoonup> method_inputs)"
  PackArgs :: "string \<Rightarrow> method_inputs \<Rightarrow> packed list \<Rightarrow> go_error + 8 word list"
  Hex2Bytes :: "string \<Rightarrow> 8 word list"
  DialContext :: "string \<Rightarrow> 'w \<Rightarrow> (go_error + unit) \<times> 'w"
  BlockNumber :: "string \<Rightarrow> 'w \<Rightarrow> (go_error + nat) \<times> 'w"
  FeeHistory :: "string \<Rightarrow> nat \<Rightarrow> int \<Rightarrow> 'w \<Rightarrow> (go_error + fee_history) \<times> 'w"
  SuggestGasPrice :: "string \<Rightarrow> 'w \<Rightarrow> (go_error + int) \<times> 'w"
  EstimateGas :: "string \<Rightarrow> call_msg \<Rightarrow> 'w \<Rightarrow> (go_error + nat) \<times> 'w"
  HttpGet :: "string \<Rightarrow> 'w \<Rightarrow> (go_error + string) \<times> 'w"
  DecodeFirst :: "string \<Rightarrow> go_error + json"
  GasClock :: "'w \<Rightarrow> int"
  FeesConfig :: ExecutionFeeConfig

record 'w gas_estimator =
  clients :: "string \<rightharpoonup> string"
  gasPriceCache :: "string \<rightharpoonup> int \<times> int"
  gworld :: 'w

definition NewGasEstimator :: "'w \<Rightarrow> 'w gas_estimator" where
  "NewGasEstimator w = \<lparr>clients = Map.empty, gasPriceCache = Map.empty, gworld = w\<rparr>"

definition on_rpc :: "('w \<Rightarrow> (go_error + 'a) \<times> 'w) \<Rightarrow> ('w gas_estimator, 'a) io" where
  "on_rpc f s = (case f (gworld s) of (r, w) \<Rightarrow> Some (r, s\<lparr>gworld := w\<rparr>))"

section \<open>The arguments of the estimated call\<close>

text \<open>\<open>big.Int.SetString\<close> in base 10 and 16.\<close>

definition SetString :: "(string \<Rightarrow> nat option) \<Rightarrow> string \<Rightarrow> int option" where
  "SetString digits s =
     (case split_sign s of (neg, t) \<Rightarrow> map_option (\<lambda>n. if neg then - int n else int n) (digits t))"

definition argument_number :: "json \<Rightarrow> go_error + int" where
  "argument_number v =
     (case v of
        JStr s \<Rightarrow>
          (case SetString parse_nat s of
             Some n \<Rightarrow> Inr n
           | None \<Rightarrow>
               if prefix ''0x'' s then
                 (case SetString parse_hex (drop 2 s) of
                    Some n \<Rightarrow> Inr n
                  | None \<Rightarrow> Inl (GoErr (''invalid number format: '' @ s)))
               else Inl (GoErr (''invalid number format: '' @ s)))
      | JNum x \<Rightarrow> Inr (f64_to_i64 x)
      | _ \<Rightarrow> Inl (GoErr ''unsupported type for uint/int''))"

text \<open>\<open>big.Int.Uint64\<close>: the low bits of the magnitude.\<close>

definition Uint64 :: "int \<Rightarrow> int" where
  "Uint64 n = \<bar>n\<bar> mod 2 ^ 64"

definition native_integer :: "abi_type \<Rightarrow> int \<Rightarrow> go_value" where
  "native_integer t n =
     (case t of
        UintTy w \<Rightarrow> if w \<in> {8, 16, 32, 64} then VInt (Uint64 n mod 2 ^ w) else VBig (Some n)
      | IntTy w \<Rightarrow> if w \<in> {8, 16, 32, 64} then VInt (signed_take_bit (w - 1) (Uint64 n)) else VBig (Some n)
      | _ \<Rightarrow> VBig (Some n))"

definition argument_bytes :: "'w gas_env \<Rightarrow> json \<Rightarrow> go_error + packed" where
  "argument_bytes env v =
     (case v of
        JStr s \<Rightarrow>
          if prefix ''0x'' s then Inr (Conv (VBytes (Hex2Bytes env s))) else Inl (GoErr (''invalid hex string: '' @ s))
      | _ \<Rightarrow> Inl (GoErr ''expected string for bytes''))"

definition convert_argument :: "'w gas_env \<Rightarrow> json \<Rightarrow> abi_type \<Rightarrow> go_error + packed" where
  "convert_argument env v t =
     (case t of
        AddressTy \<Rightarrow>
          (case v of
             JStr s \<Rightarrow> Inr (Conv (VAddress (AddressOfHex (Args env) s)))
           | _ \<Rightarrow> Inl (GoErr ''expected string for address''))
      | UintTy w \<Rightarrow> res_bind (argument_number v) (\<lambda>n. Inr (Conv (native_integer t n)))
      | IntTy w \<Rightarrow> res_bind (argument_number v) (\<lambda>n. Inr (Conv (native_integer t n)))
      | BytesTy \<Rightarrow> argument_bytes env v
      | FixedBytesTy _ \<Rightarrow> argument_bytes env v
      | BoolTy \<Rightarrow> (case v of JBool b \<Rightarrow> Inr (Conv (VBool b)) | _ \<Rightarrow> Inl (GoErr ''expected bool''))
      | StringTy \<Rightarrow> (case v of JStr s \<Rightarrow> Inr (Conv (VStr s)) | _ \<Rightarrow> Inl (GoErr ''expected string''))
      | _ \<Rightarrow> Inr (AsIs v))"

fun convert_arguments :: "'w gas_env \<Rightarrow> json list \<Rightarrow> method_inputs \<Rightarrow> go_error + packed list" where
  "convert_arguments env (v # vs) (i # is) =
     res_bind (convert_argument env v (snd i)) (\<lambda>x. res_bind (convert_arguments env vs is) (\<lambda>xs. Inr (x # xs)))"
| "convert_arguments env vs is = Inr []"

definition convertArgsToABITypes :: "'w gas_env \<Rightarrow> json list \<Rightarrow> method_inputs \<Rightarrow> go_error + packed list" where
  "convertArgsToABITypes env args inputs =
     (if length args \<noteq> length inputs then Inl (GoErr ''argument count mismatch'') else convert_arguments env args inputs)"

section \<open>The price of gas\<close>

definition rpcURLs :: "string \<Rightarrow> string \<rightharpoonup> string" where
  "rpcURLs key = map_of (map (\<lambda>(chain, host). (chain, ''https://'' @ host @ ''.g.alchemy.com/v2/'' @ key))
     [(''1'', ''eth-mainnet''), (''11155111'', ''eth-sepolia''), (''10'', ''opt-mainnet''), (''11155420'', ''opt-sepolia''),
      (''137'', ''polygon-mainnet''), (''80001'', ''polygon-mumbai''), (''42161'', ''arb-mainnet''), (''421614'', ''arb-sepolia''),
      (''8453'', ''base-mainnet''), (''84532'', ''base-sepolia'')])"

definition getOrCreateClient :: "'w gas_env \<Rightarrow> string \<Rightarrow> string \<Rightarrow> ('w gas_estimator, string) io" where
  "getOrCreateClient env chainID key =
     io_bind (io_get (\<lambda>s. clients s chainID)) (\<lambda>known.
     case known of
       Some client \<Rightarrow> io_ret client
     | None \<Rightarrow>
         if key = [] then io_fail (GoErr ''ALCHEMY_API_KEY must be set in env for all supported chains'')
         else (case rpcURLs key chainID of
             None \<Rightarrow> io_fail (GoErr (''unsupported chain ID: '' @ chainID))
           | Some url \<Rightarrow>
               io_bind (io_wrap (''failed to connect to chain '' @ chainID) (on_rpc (DialContext env url))) (\<lambda>_.
               io_bind (io_put (\<lambda>s. s\<lparr>clients := (clients s)(chainID \<mapsto> url)\<rparr>)) (\<lambda>_.
               io_ret url))))"

text \<open>\<open>sort.Slice\<close> and the index \<open>int(float64(n) * percentile)\<close>.\<close>

definition calculatePercentile :: "int list \<Rightarrow> float64 \<Rightarrow> int" where
  "calculatePercentile values percentile =
     (if values = [] then 0
      else
        let srt = sort values; n = int (length srt);
            index = f64_to_i64 (f64_mult (f64_of_i64 n) percentile);
            index' = (if n \<le> index then n - 1 else index)
        in srt ! nat index')"

definition percentile75 :: float64 where
  "percentile75 = 3 / 4"

text \<open>The price that one block of a fee history gives, if any.\<close>

definition block_price :: "fee_history \<Rightarrow> nat \<Rightarrow> int list" where
  "block_price h i =
     (case BaseFee h ! i of
        None \<Rightarrow> []
      | Some baseFee \<Rightarrow>
          if baseFee \<le> 0 then []
          else
            let price =
              (if i < length (Reward h) \<and> Reward h ! i \<noteq> [] then
                 (case last (Reward h ! i) of
                    Some fee \<Rightarrow> if 0 \<le> fee then baseFee + fee else baseFee * 2
                  | None \<Rightarrow> baseFee * 2)
               else baseFee * 2)
            in if 0 < price then [price] else [])"

definition history_prices :: "fee_history \<Rightarrow> int list" where
  "history_prices h = concat (map (block_price h) [0..<length (BaseFee h)])"

definition blockCount :: nat where
  "blockCount = 1024"

definition blocksFor7Days :: nat where
  "blocksFor7Days = 7 * 7200"

definition maxChunks :: nat where
  "maxChunks = 20"

text \<open>The loop over chunks of blocks; \<open>None\<close> when a request has failed.\<close>

function fetch_chunks :: "'w gas_env \<Rightarrow> string \<Rightarrow> nat \<Rightarrow> nat \<Rightarrow> int list \<Rightarrow> 'w \<Rightarrow> int list option \<times> 'w" where
  "fetch_chunks env client fromBlock blocksFetched prices w =
     (if blocksFetched < blocksFor7Days \<and> length prices < maxChunks * blockCount then
        if fromBlock < blockCount then (Some prices, w)
        else (case FeeHistory env client blockCount (int fromBlock) w of
            (Inl e, w') \<Rightarrow> (None, w')
          | (Inr h, w') \<Rightarrow>
              (let prices' = prices @ history_prices h; from' = (fromBlock - blockCount + 1) - 1 in
               if from' < blockCount then (Some prices', w')
               else fetch_chunks env client from' (blocksFetched + blockCount) prices' w'))
      else (Some prices, w))"
  by pat_completeness auto
termination
  by (relation "measure (\<lambda>(env, client, fromBlock, blocksFetched, prices, w). blocksFor7Days - blocksFetched)")
    (auto simp: blockCount_def)

declare fetch_chunks.simps [simp del]

definition oneGwei :: int where
  "oneGwei = 1000000000"

definition price_or_default :: "'w gas_env \<Rightarrow> string \<Rightarrow> ('w gas_estimator, int) io" where
  "price_or_default env client =
     io_bind (io_try (on_rpc (SuggestGasPrice env client))) (\<lambda>r.
     io_ret (case r of Inl e \<Rightarrow> oneGwei | Inr p \<Rightarrow> p))"

definition fetchHistoricalGasPrices :: "'w gas_env \<Rightarrow> string \<Rightarrow> string \<Rightarrow> ('w gas_estimator, int) io" where
  "fetchHistoricalGasPrices env chainID key =
     io_bind (getOrCreateClient env chainID key) (\<lambda>client.
     io_bind (io_wrap ''failed to get latest block number'' (on_rpc (BlockNumber env client))) (\<lambda>latestBlock.
     io_bind (on_rpc (\<lambda>w. case fetch_chunks env client latestBlock 0 [] w of (ps, w') \<Rightarrow> (Inr ps, w'))) (\<lambda>fetched.
     case fetched of
       None \<Rightarrow> price_or_default env client
     | Some prices \<Rightarrow>
         if prices = [] then price_or_default env client else io_ret (calculatePercentile prices percentile75))))"

definition cacheValidityDuration :: int where
  "cacheValidityDuration = 7 * 24 * 3600000000000"

text \<open>The price of gas: from the cache, from the history, or the current one.\<close>

definition current_price :: "'w gas_env \<Rightarrow> string \<Rightarrow> string \<Rightarrow> ('w gas_estimator, go_error + int) io" where
  "current_price env chainID key =
     io_bind (io_try (getOrCreateClient env chainID key)) (\<lambda>c.
     case c of
       Inl e \<Rightarrow> io_ret (Inl e)
     | Inr client \<Rightarrow> io_try (on_rpc (SuggestGasPrice env client)))"

definition store_price :: "'w gas_env \<Rightarrow> string \<Rightarrow> int \<Rightarrow> ('w gas_estimator, int) io" where
  "store_price env chainID price =
     io_bind (io_put (\<lambda>s. s\<lparr>gasPriceCache := (gasPriceCache s)(chainID \<mapsto> (price, GasClock env (gworld s)))\<rparr>)) (\<lambda>_.
     io_ret price)"

definition getOrUpdateCachedGasPrice :: "'w gas_env \<Rightarrow> string \<Rightarrow> string \<Rightarrow> ('w gas_estimator, int) io" where
  "getOrUpdateCachedGasPrice env chainID key =
     io_bind (io_get (\<lambda>s. (gasPriceCache s chainID, GasClock env (gworld s)))) (\<lambda>(cached, now).
     if (case cached of Some (price, t) \<Rightarrow> now - t < cacheValidityDuration | None \<Rightarrow> False)
     then io_ret (fst (the cached))
     else
       io_bind (io_try (fetchHistoricalGasPrices env chainID key)) (\<lambda>fetched.
       case fetched of
         Inr price \<Rightarrow> store_price env chainID price
       | Inl e \<Rightarrow>
           io_bind (current_price env chainID key) (\<lambda>r.
           case r of
             Inl e' \<Rightarrow> io_ret oneGwei
           | Inr price \<Rightarrow> store_price env chainID price)))"

definition GetGasPrice :: "'w gas_env \<Rightarrow> string \<Rightarrow> string \<Rightarrow> ('w gas_estimator, int) io" where
  "GetGasPrice env chainID key =
     io_bind (io_try (getOrUpdateCachedGasPrice env chainID key)) (\<lambda>r.
     case r of
       Inr price \<Rightarrow> io_ret price
     | Inl e \<Rightarrow>
         io_bind (current_price env chainID key) (\<lambda>r. io_ret (case r of Inl e' \<Rightarrow> oneGwei | Inr price \<Rightarrow> price)))"

definition CalculateGasCostInWei :: "nat \<Rightarrow> int \<Rightarrow> int" where
  "CalculateGasCostInWei gasLimit gasPrice = int gasLimit * gasPrice"

definition EstimateGasForFunction :: "'w gas_env \<Rightarrow> string \<Rightarrow> string \<Rightarrow> string \<Rightarrow> string \<Rightarrow> json list \<Rightarrow> string \<Rightarrow> string
    \<Rightarrow> ('w gas_estimator, nat \<times> int \<times> int) io" where
  "EstimateGasForFunction env chainID contractAddress functionName contractABI args fromAddress key =
     io_bind (getOrCreateClient env chainID key) (\<lambda>client.
     case ParseMethods env contractABI of
       Inl e \<Rightarrow> io_fail (Wrap ''failed to parse ABI'' e)
     | Inr methods \<Rightarrow>
         (case methods functionName of
            None \<Rightarrow> io_fail (GoErr (''method '' @ functionName @ '' not found in ABI''))
          | Some inputs \<Rightarrow>
              (case convertArgsToABITypes env args inputs of
                 Inl e \<Rightarrow> io_fail (Wrap ''failed to convert arguments'' e)
               | Inr converted \<Rightarrow>
                   (case PackArgs env functionName inputs converted of
                      Inl e \<Rightarrow> io_fail (Wrap ''failed to pack function call'' e)
                    | Inr callData \<Rightarrow>
                        let msg = \<lparr>MsgTo = AddressOfHex (Args env) contractAddress, MsgData = callData,
                              MsgFrom = (if fromAddress = [] then replicate 20 0 else AddressOfHex (Args env) fromAddress)\<rparr>
                        in
                        io_bind (io_try (on_rpc (EstimateGas env client msg))) (\<lambda>g.
                        let gasLimit = (case g of Inl e \<Rightarrow> 1000000 | Inr n \<Rightarrow> n) in
                        io_bind (io_try (getOrUpdateCachedGasPrice env chainID key)) (\<lambda>p.
                        io_bind (case p of Inr price \<Rightarrow> io_ret price | Inl e \<Rightarrow> price_or_default env client) (\<lambda>gasPrice.
                        io_bind (price_or_default env client) (\<lambda>currentGasPrice.
                        io_ret (gasLimit, gasPrice, currentGasPrice)))))))))"

section \<open>Reading the metadata of an execution\<close>

type_synonym metadata = "string \<rightharpoonup> string"

definition entry :: "metadata \<Rightarrow> string \<Rightarrow> string" where
  "entry md k = (case md k of None \<Rightarrow> [] | Some v \<Rightarrow> v)"

text \<open>
  \<open>fmt.Sscanf\<close> with \<open>%d\<close> and \<open>%f\<close>: spaces but no newline, then the longest text of a number; what follows is not read.
\<close>

definition skip_spaces :: "string \<Rightarrow> string" where
  "skip_spaces s = dropWhile (\<lambda>c. (of_char c :: nat) \<in> {9, 11, 12, 13, 32}) s"

definition Sscanf_d :: "string \<Rightarrow> int option" where
  "Sscanf_d s =
     (case split_sign (skip_spaces s) of (neg, t) \<Rightarrow>
        parse_int64 ((if neg then ''-'' else []) @ takeWhile is_digit t))"

definition sign_text :: "string \<Rightarrow> string" where
  "sign_text s = take 1 (takeWhile (\<lambda>c. c = CHR ''-'' \<or> c = CHR ''+'') s)"

definition float_token :: "string \<Rightarrow> string" where
  "float_token s =
     (let sign = sign_text s; t = drop (length sign) s;
          whole = takeWhile is_digit t; r = dropWhile is_digit t;
          point = take 1 (takeWhile (\<lambda>c. c = CHR ''.'') r); r1 = drop (length point) r;
          fr = (if point = [] then [] else takeWhile is_digit r1); r2 = drop (length fr) r1;
          e = take 1 (takeWhile (\<lambda>c. c = CHR ''e'' \<or> c = CHR ''E'') r2); r3 = drop (length e) r2;
          esign = (if e = [] then [] else sign_text r3);
          ed = (if e = [] then [] else takeWhile is_digit (drop (length esign) r3))
      in sign @ whole @ point @ fr @ e @ esign @ ed)"

definition Sscanf_f :: "string \<Rightarrow> float64 option" where
  "Sscanf_f s = (case ParseFloat (float_token (skip_spaces s)) of Inl e \<Rightarrow> None | Inr x \<Rightarrow> Some x)"

definition task_definition_id :: "metadata \<Rightarrow> int" where
  "task_definition_id md =
     (case md ''task_definition_id'' of
        None \<Rightarrow> 0
      | Some s \<Rightarrow> (case Sscanf_d s of None \<Rightarrow> 0 | Some n \<Rightarrow> n))"

section \<open>The off-chain fee\<close>

text \<open>A quotient of floats: the one place where infinities and NaN matter.\<close>

datatype quotient = Finite float64 | Infinite | NaN

definition divide_go :: "float64 \<Rightarrow> float64 \<Rightarrow> quotient" where
  "divide_go x y =
     (if y = 0 then if x = 0 then NaN else Infinite
      else if 2 ^ 1024 \<le> \<bar>f64_div x y\<bar> then Infinite else Finite (f64_div x y))"

definition truncate :: "rat \<Rightarrow> int" where
  "truncate x = (if 0 \<le> x then \<lfloor>x\<rfloor> else \<lceil>x\<rceil>)"

definition weiMultiplier :: float64 where
  "weiMultiplier = 10 ^ 18"

text \<open>\<open>big.NewFloat\<close> panics on NaN; \<open>Int\<close> of an infinite value is nil.\<close>

definition to_wei :: "quotient \<Rightarrow> int option option" where
  "to_wei q =
     (case q of
        Finite x \<Rightarrow> Some (Some (truncate (f64_mult x weiMultiplier)))
      | Infinite \<Rightarrow> Some None
      | NaN \<Rightarrow> None)"

definition offChainFeeUSD :: "ExecutionFeeConfig \<Rightarrow> int \<Rightarrow> float64 option" where
  "offChainFeeUSD cfg taskID =
     (if taskID \<in> {1, 3, 5} then Some (StaticOffChainFeeUSD cfg)
      else if taskID \<in> {2, 4, 6} then Some (DynamicOffChainFeeUSD cfg)
      else if taskID = 7 then Some (CustomScriptFeeUSD cfg)
      else None)"

text \<open>
  Decoding into a struct: null and unknown keys change nothing, keys match in any case, the last of several
  wins; a value of another kind is an error.
\<close>

definition decode_field :: "string \<Rightarrow> (json \<Rightarrow> 'a \<Rightarrow> 'a option) \<Rightarrow> json \<Rightarrow> 'a \<Rightarrow> 'a option" where
  "decode_field name f v x =
     (case v of
        JObj fs \<Rightarrow> fold (\<lambda>(k, u) r. Option.bind r (\<lambda>y. if EqualFold k name then f u y else Some y)) fs (Some x)
      | JNull \<Rightarrow> Some x
      | _ \<Rightarrow> None)"

definition decode_number :: "json \<Rightarrow> float64 \<Rightarrow> float64 option" where
  "decode_number v x = (case v of JNum r \<Rightarrow> Some r | JNull \<Rightarrow> Some x | _ \<Rightarrow> None)"

definition coingeckoURL :: string where
  "coingeckoURL = ''https://api.coingecko.com/api/v3/simple/price?ids=ethereum&vs_currencies=usd''"

text \<open>The status code of the answer is not looked at. \<open>None\<close>: no answer, or not the JSON that is expected.\<close>

definition EthToUSDRate :: "'w gas_env \<Rightarrow> 'w \<Rightarrow> float64 option \<times> 'w" where
  "EthToUSDRate env w =
     (case HttpGet env coingeckoURL w of
        (Inl e, w') \<Rightarrow> (None, w')
      | (Inr body, w') \<Rightarrow>
          (case DecodeFirst env body of
             Inl e \<Rightarrow> (None, w')
           | Inr v \<Rightarrow> (decode_field ''ethereum'' (decode_field ''usd'' decode_number) v 0, w')))"

section \<open>The on-chain fees\<close>

text \<open>An estimator is made for one use and closed after it.\<close>

definition with_estimator :: "('w gas_estimator, 'a) io \<Rightarrow> ('w, 'a) io" where
  "with_estimator m w = map_option (\<lambda>(r, s). (r, gworld s)) (m (NewGasEstimator w))"

definition on_chain_args :: "'w gas_env \<Rightarrow> metadata \<Rightarrow> json list" where
  "on_chain_args env md =
     (let s = entry md ''on_chain_args'' in
      if s = [] then []
      else (case ParseJSON (Args env) s of Inr (JArr vs) \<Rightarrow> vs | _ \<Rightarrow> []))"

definition defaultOnChainFee :: int where
  "defaultOnChainFee = truncate (f64_mult (f64 (1 / 1000)) weiMultiplier)"

text \<open>The fee of the transaction at the price of the last days, and at the current price.\<close>

definition on_chain_fees :: "'w gas_env \<Rightarrow> metadata \<Rightarrow> string \<Rightarrow> ('w, int \<times> int) io" where
  "on_chain_fees env md key =
     (if entry md ''target_chain_id'' = [] \<or> entry md ''target_contract_address'' = [] \<or> entry md ''target_function'' = []
        \<or> entry md ''abi'' = []
      then io_ret (0, 0)
      else
        io_bind (io_try (with_estimator (EstimateGasForFunction env (entry md ''target_chain_id'')
            (entry md ''target_contract_address'') (entry md ''target_function'') (entry md ''abi'') (on_chain_args env md)
            (entry md ''from_address'') key))) (\<lambda>r.
        io_ret (case r of
            Inl e \<Rightarrow> (defaultOnChainFee, 0)
          | Inr (gasLimit, gasPrice, currentGasPrice) \<Rightarrow>
              (CalculateGasCostInWei gasLimit gasPrice, CalculateGasCostInWei gasLimit currentGasPrice))))"

definition aggregatorGasUsed :: nat where
  "aggregatorGasUsed = 720000"

definition aggregator_chain :: "metadata \<Rightarrow> string" where
  "aggregator_chain md = (if entry md ''target_chain_id'' \<in> {''42161'', ''8453''} then ''8453'' else ''84532'')"

definition aggregator_fee :: "'w gas_env \<Rightarrow> metadata \<Rightarrow> string \<Rightarrow> ('w, int) io" where
  "aggregator_fee env md key =
     io_bind (with_estimator (current_price env (aggregator_chain md) key)) (\<lambda>r.
     io_ret (CalculateGasCostInWei aggregatorGasUsed (case r of Inl e \<Rightarrow> oneGwei | Inr price \<Rightarrow> price)))"

section \<open>The fee of a task\<close>

definition calculateLegacyFees :: "ExecutionFeeConfig \<Rightarrow> metadata \<Rightarrow> int" where
  "calculateLegacyFees cfg md =
     (let complexity = (\<lambda>k. case md k of
            None \<Rightarrow> 0
          | Some s \<Rightarrow> (case Sscanf_f s of None \<Rightarrow> 0 | Some x \<Rightarrow> x));
          x = f64_add (f64_add (f64_mult (complexity ''static_complexity'') (StaticComplexityFactor cfg))
                (f64_mult (complexity ''dynamic_complexity'') (DynamicComplexityFactor cfg))) (TransactionCost cfg);
          feeInTG = f64_add (f64_mult (FixedCost cfg) x) x;
          feeInEther = f64_mult feeInTG (PricePerTG cfg)
      in truncate (f64_mult feeInEther weiMultiplier))"

text \<open>The sum with its buffer of a fifth, and the sum at current prices.\<close>

definition total_fees :: "int \<Rightarrow> int \<Rightarrow> int \<Rightarrow> int \<Rightarrow> int \<times> int" where
  "total_fees offChain onChain currentOnChain aggregator =
     ((offChain + onChain + aggregator) * 120 div 100, offChain + currentOnChain + aggregator)"

definition calculateFees :: "'w gas_env \<Rightarrow> metadata \<Rightarrow> string \<Rightarrow> ('w, int option \<times> int option) io" where
  "calculateFees env md key =
     (let taskID = task_definition_id md in
      case offChainFeeUSD (FeesConfig env) taskID of
        None \<Rightarrow> io_ret (Some (calculateLegacyFees (FeesConfig env) md), Some 0)
      | Some usd \<Rightarrow>
          io_bind (io_call (\<lambda>w. case EthToUSDRate env w of (r, w') \<Rightarrow> (Inr r, w'))) (\<lambda>rate.
          case rate of
            None \<Rightarrow> io_ret (Some 0, Some 0)
          | Some r \<Rightarrow>
              (case to_wei (divide_go usd r) of
                 None \<Rightarrow> io_panic
               | Some offChain \<Rightarrow>
                   if taskID = 7 then io_ret (offChain, offChain)
                   else
                     io_bind (on_chain_fees env md key) (\<lambda>(onChain, currentOnChain).
                     io_bind (aggregator_fee env md key) (\<lambda>aggregator.
                     case offChain of
                       None \<Rightarrow> io_panic
                     | Some off \<Rightarrow>
                         (case total_fees off onChain currentOnChain aggregator of (t, c) \<Rightarrow> io_ret (Some t, Some c)))))))"

text \<open>The cost that the statistics of the pipeline add up.\<close>

definition calculateCost :: "ExecutionFeeConfig \<Rightarrow> float64 \<Rightarrow> float64" where
  "calculateCost cfg complexity =
     (let x = f64_add (f64_mult complexity (StaticComplexityFactor cfg)) (TransactionCost cfg);
          feeInTG = f64_add (f64_mult (f64 (1 / 1000)) x) x
      in f64_mult feeInTG (PricePerTG cfg))"

section \<open>The percentile\<close>

lemma f64_quarter:
  assumes "0 < n" and "n \<le> 2 ^ 50"
  shows "f64 (of_int n / 4) = of_int n / 4"
proof -
  define x where "x = (of_int n :: rat) / 4"
  have pos: "0 < x" using assms(1) by (simp add: x_def)
  define l where "l = ilog2 x"
  define k where "k = max (l - 52) (-1074)"
  have "(of_int n :: rat) \<le> of_int (2 ^ 50)" using assms(2) by (simp only: of_int_le_iff)
  then have "x \<le> 2 powi 48" by (simp add: x_def power_int_def)
  then have "(2::rat) powi l \<le> 2 powi 48" using ilog2_bounds(1) [OF pos] by (simp add: l_def)
  moreover have "(2::rat) powi 49 \<le> 2 powi l" if "49 \<le> l" using that by (intro power_int_increasing) auto
  ultimately have "l \<le> 48" by (cases "49 \<le> l") auto
  then have k: "k \<le> -2" by (auto simp: k_def)
  have "x / 2 powi k = x * 2 powi (- k)" by (simp only: power_int_minus divide_inverse)
  also have "(2::rat) powi (- k) = 2 powi (- k - 2) * 4"
    using power_int_add [of "2::rat" "- k - 2" 2] by simp
  also have "x * (2 powi (- k - 2) * 4) = of_int n * 2 powi (- k - 2)" by (simp add: x_def)
  also have "\<dots> = of_int (n * 2 ^ nat (- k - 2))" using k by (simp add: power_int_def)
  finally have m: "x / 2 powi k = of_int (n * 2 ^ nat (- k - 2))" .
  have "f64 x = of_int (round_even (x / 2 powi k)) * 2 powi k"
    using pos by (simp add: f64_def Let_def k_def l_def)
  also have "\<dots> = x / 2 powi k * 2 powi k" by (simp only: m round_even_of_int)
  also have "\<dots> = x" by simp
  finally show ?thesis by (simp add: x_def)
qed

lemma percentile_index:
  assumes "ps \<noteq> []" and "length ps < 2 ^ 48"
  shows "calculatePercentile ps percentile75 = sort ps ! (3 * length ps div 4)"
    and "3 * length ps div 4 < length ps"
proof -
  let ?n = "int (length ps)"
  show less: "3 * length ps div 4 < length ps" using assms(1) by (cases ps) auto
  have "?n < 2 ^ 48" using assms(2) by (metis of_nat_less_iff of_nat_numeral of_nat_power)
  then have n: "0 < ?n" "3 * ?n \<le> 2 ^ 50" "?n \<le> 2 ^ 53" using assms(1) by auto
  define x where "x = f64_mult (f64_of_i64 ?n) percentile75"
  have "x = f64 (of_int (3 * ?n) / 4)"
    using f64_of_nat_exact [of "length ps"] assms(2)
    by (simp add: x_def f64_mult_def f64_of_i64_def percentile75_def mult.commute)
  also have "\<dots> = of_int (3 * ?n) / 4" by (rule f64_quarter) (use n in auto)
  finally have x: "x = of_int (3 * ?n) / 4" .
  have "f64_to_i64 (of_int (3 * ?n) / 4) = 3 * ?n div 4"
  proof -
    have q: "\<lfloor>(of_int (3 * ?n) :: rat) / of_int 4\<rfloor> = 3 * ?n div 4" by (rule floor_divide_of_int_eq)
    have "(of_int (3 * ?n) :: rat) \<le> of_int (2 ^ 50)" using n(2) by (simp only: of_int_le_iff)
    then have "f64_to_i64 (of_int (3 * ?n) / 4) = \<lfloor>(of_int (3 * ?n) :: rat) / 4\<rfloor>"
      by (intro f64_to_i64_nonneg) auto
    with q show ?thesis by simp
  qed
  with x have "f64_to_i64 x = 3 * ?n div 4" by (simp only:)
  moreover have "3 * ?n div 4 < ?n" using n(1) by linarith
  moreover have "nat (3 * ?n div 4) = 3 * length ps div 4" by (simp add: nat_div_distrib nat_mult_distrib)
  ultimately show "calculatePercentile ps percentile75 = sort ps ! (3 * length ps div 4)"
    using assms(1) by (simp add: calculatePercentile_def Let_def x_def)
qed

text \<open>How many values of a sorted list are below, or at most, the one at a given place.\<close>

lemma sorted_rank:
  fixes xs :: "int list"
  assumes "sorted xs" and "i < length xs"
  shows "length (filter (\<lambda>x. x < xs ! i) xs) \<le> i" and "i < length (filter (\<lambda>x. x \<le> xs ! i) xs)"
proof -
  have split: "xs = take i xs @ xs ! i # drop (Suc i) xs" using assms(2) by (rule id_take_nth_drop)
  have up: "xs ! i \<le> x" if "x \<in> set (drop i xs)" for x
    using that assms by (auto simp: in_set_conv_nth intro!: sorted_nth_mono)
  have low: "x \<le> xs ! i" if "x \<in> set (take i xs)" for x
    using that assms by (auto simp: in_set_conv_nth intro!: sorted_nth_mono)
  have "filter (\<lambda>x. x < xs ! i) (drop i xs) = []" using up by (auto simp: filter_empty_conv not_less)
  then have "filter (\<lambda>x. x < xs ! i) xs = filter (\<lambda>x. x < xs ! i) (take i xs)"
    by (metis append_Nil2 append_take_drop_id filter_append)
  then show "length (filter (\<lambda>x. x < xs ! i) xs) \<le> i"
    by (metis assms(2) length_filter_le length_take less_imp_le min.absorb2)
  have "filter (\<lambda>x. x \<le> xs ! i) (take i xs) = take i xs" using low by simp
  then have "length (filter (\<lambda>x. x \<le> xs ! i) xs) = length (take i xs) + length (filter (\<lambda>x. x \<le> xs ! i) (xs ! i # drop (Suc i) xs))"
    by (metis filter_append length_append split)
  then show "i < length (filter (\<lambda>x. x \<le> xs ! i) xs)" using assms(2) by simp
qed

lemma length_filter_sort: "length (filter P (sort xs)) = length (filter P xs)" for xs :: "int list"
  by (simp add: filter_sort)

text \<open>
  The 75th percentile is one of the prices, at most three quarters of them are lower, and more than three quarters are not higher.
\<close>

theorem percentile_rank:
  assumes "ps \<noteq> []" and "length ps < 2 ^ 48"
  shows "calculatePercentile ps percentile75 \<in> set ps \<and>
    4 * length (filter (\<lambda>x. x < calculatePercentile ps percentile75) ps) \<le> 3 * length ps \<and>
    3 * length ps < 4 * length (filter (\<lambda>x. x \<le> calculatePercentile ps percentile75) ps)"
proof -
  let ?i = "3 * length ps div 4" and ?s = "sort ps"
  have i: "?i < length ?s" using percentile_index(2) [OF assms] by simp
  have "length (filter (\<lambda>x. x < ?s ! ?i) ?s) \<le> ?i" "?i < length (filter (\<lambda>x. x \<le> ?s ! ?i) ?s)"
    by (rule sorted_rank [OF sorted_sort i])+
  moreover have "?s ! ?i \<in> set ?s" using i by (rule nth_mem)
  moreover have "4 * ?i \<le> 3 * length ps" "3 * length ps < 4 * ?i + 4" by linarith+
  ultimately show ?thesis
    unfolding percentile_index(1) [OF assms] length_filter_sort set_sort by linarith
qed

theorem percentile_rank_witness:
  "calculatePercentile [40, 10, 30, 20] percentile75 \<in> set [40, 10, 30, 20] \<and>
    4 * length (filter (\<lambda>x. x < calculatePercentile [40, 10, 30, 20] percentile75) [40, 10, 30, 20]) \<le> 3 * length [40, 10, 30, 20 :: int] \<and>
    3 * length [40, 10, 30, 20 :: int] < 4 * length (filter (\<lambda>x. x \<le> calculatePercentile [40, 10, 30, 20] percentile75) [40, 10, 30, 20])"
  by (rule percentile_rank) simp_all

section \<open>How far back the history goes\<close>

text \<open>A node answers with the base fees of the blocks it was asked for and of the next one, all of them positive.\<close>

definition full_history :: "fee_history \<Rightarrow> bool" where
  "full_history h \<longleftrightarrow> length (BaseFee h) = Suc blockCount \<and> list_all (\<lambda>b. case b of None \<Rightarrow> False | Some n \<Rightarrow> 0 < n) (BaseFee h)"

lemma length_concat_ones: "(\<And>x. x \<in> set xs \<Longrightarrow> length (f x) = 1) \<Longrightarrow> length (concat (map f xs)) = length xs"
  by (induction xs) auto

lemma length_history_prices: "full_history h \<Longrightarrow> length (history_prices h) = Suc blockCount"
proof -
  assume h: "full_history h"
  have "length (block_price h i) = 1" if i: "i < length (BaseFee h)" for i
  proof -
    obtain b where "BaseFee h ! i = Some b" "0 < b"
      using h i by (fastforce simp: full_history_def list_all_length split: option.splits)
    then show ?thesis by (auto simp: block_price_def Let_def split: option.splits)
  qed
  then have "length (history_prices h) = length [0..<length (BaseFee h)]"
    unfolding history_prices_def by (intro length_concat_ones) auto
  with h show ?thesis by (simp add: full_history_def)
qed

definition answers_fully :: "'w gas_env \<Rightarrow> string \<Rightarrow> ('w \<Rightarrow> int list) \<Rightarrow> bool" where
  "answers_fully env client seen \<longleftrightarrow>
     (\<forall>b w. \<exists>h w'. FeeHistory env client blockCount b w = (Inr h, w') \<and> full_history h \<and> seen w' = seen w @ [b])"

lemma fetch_chunks_log:
  assumes "answers_fully env client seen" and "i \<le> maxChunks" and "Suc maxChunks * blockCount \<le> latest"
    and "length ps = i * Suc blockCount"
  shows "seen (snd (fetch_chunks env client (latest - i * blockCount) (i * blockCount) ps w)) =
    seen w @ map (\<lambda>j. int (latest - j * blockCount)) [i..<maxChunks]"
  using assms(2, 4)
proof (induction "maxChunks - i" arbitrary: i ps w)
  case 0
  then have "i = maxChunks" by simp
  with 0 show ?case by (subst fetch_chunks.simps) (simp add: maxChunks_def blockCount_def)
next
  case (Suc k)
  then have i: "i < maxChunks" by simp
  obtain h w' where h: "FeeHistory env client blockCount (int (latest - i * blockCount)) w = (Inr h, w')"
    "full_history h" "seen w' = seen w @ [int (latest - i * blockCount)]"
    using assms(1) by (metis answers_fully_def)
  have "Suc i * blockCount \<le> maxChunks * blockCount" using i by (intro mult_right_mono) auto
  then have big: "Suc blockCount + i * blockCount \<le> latest" "blockCount \<le> latest - Suc i * blockCount"
    using assms(3) by (auto simp: blockCount_def)
  have go: "i * blockCount < blocksFor7Days" "length ps < maxChunks * blockCount"
    using i Suc.prems(2) by (auto simp: blockCount_def blocksFor7Days_def maxChunks_def)
  define start where "start = latest - i * blockCount"
  have step: "start - blockCount + 1 - 1 = latest - Suc i * blockCount" "\<not> start < blockCount"
    using big by (auto simp: start_def)
  have "fetch_chunks env client start (i * blockCount) ps w =
      fetch_chunks env client (latest - Suc i * blockCount) (i * blockCount + blockCount) (ps @ history_prices h) w'"
    using go big(2) h(1) by (subst fetch_chunks.simps) (simp only: simp_thms if_True if_False step h(1) start_def [symmetric] prod.case sum.case Let_def not_less [symmetric])
  also have "i * blockCount + blockCount = Suc i * blockCount" by simp
  also have "seen (snd (fetch_chunks env client (latest - Suc i * blockCount) (Suc i * blockCount) (ps @ history_prices h) w')) = seen w' @ map (\<lambda>j. int (latest - j * blockCount)) [Suc i..<maxChunks]"
    using Suc.hyps i Suc.prems(2) by (intro Suc.hyps(1)) (auto simp: length_history_prices [OF h(2)])
  finally show ?case using i h(3) by (simp add: upt_conv_Cons start_def add.commute)
qed

text \<open>
  The loop that is to cover the last seven days, 50400 blocks, asks for 20 chunks of 1024 blocks and stops: the limit on the
  number of prices ends it after 20480 blocks, whenever the node answers fully.
\<close>

theorem history_stops_early:
  assumes "answers_fully env client seen" and "21 * 1024 \<le> latest"
  shows "seen (snd (fetch_chunks env client latest 0 [] w)) =
    seen w @ map (\<lambda>j. int (latest - j * blockCount)) [0..<maxChunks] \<and> maxChunks * blockCount < blocksFor7Days"
proof -
  have "Suc maxChunks * blockCount \<le> latest" using assms(2) by (simp add: maxChunks_def blockCount_def)
  from fetch_chunks_log [OF assms(1) _ this, of 0 "[]" w]
  show ?thesis by (simp add: maxChunks_def blockCount_def blocksFor7Days_def)
qed

text \<open>A node with a constant base fee, whose world is the list of the blocks it was asked about.\<close>

definition demo_gas :: "int list gas_env" where
  "demo_gas = \<lparr>Args = demo_args, ParseMethods = (\<lambda>s. Inl (GoErr s)), PackArgs = (\<lambda>f is xs. Inl (GoErr f)), Hex2Bytes = (\<lambda>s. []),
     DialContext = (\<lambda>u w. (Inr (), w)), BlockNumber = (\<lambda>u w. (Inr 30000000, w)),
     FeeHistory = (\<lambda>u n b w. (Inr \<lparr>BaseFee = replicate (Suc n) (Some 7), Reward = []\<rparr>, w @ [b])),
     SuggestGasPrice = (\<lambda>u w. (Inr 5, w)), EstimateGas = (\<lambda>u m w. (Inr 21000, w)),
     HttpGet = (\<lambda>u w. (Inr ''{}'', w)), DecodeFirst = (\<lambda>s. Inr (JObj [])), GasClock = (\<lambda>w. 0),
     FeesConfig = \<lparr>PricePerTG = 0, TransactionCost = 0, FixedCost = 0, StaticComplexityFactor = 0, DynamicComplexityFactor = 0,
       StaticOffChainFeeUSD = 1, DynamicOffChainFeeUSD = 1, CustomScriptFeeUSD = 1\<rparr>\<rparr>"

theorem history_stops_early_witness:
  "snd (fetch_chunks demo_gas ''url'' 30000000 0 [] []) = map (\<lambda>j. int (30000000 - j * blockCount)) [0..<maxChunks]"
proof -
  have "answers_fully demo_gas ''url'' (\<lambda>w. w)"
    by (simp add: answers_fully_def demo_gas_def full_history_def list_all_length del: replicate_Suc)
  from history_stops_early [OF this, of 30000000 "[]"] show ?thesis by simp
qed

section \<open>The estimated call and the call that is sent\<close>

lemma SetString_nat: "SetString parse_nat (show_nat n) = Some (int n)"
proof -
  obtain c t where s: "show_nat n = c # t" and c: "is_digit c" using show_nat_digits [of n] by (cases "show_nat n") auto
  then have "split_sign (show_nat n) = (False, show_nat n)" using digit_not_sign [of c] by (simp add: split_sign_def)
  then show ?thesis by (simp add: SetString_def)
qed

text \<open>
  C33: For an unsigned integer that Go holds in a big integer, the estimator and the keeper build the same argument if it is at most
  \<open>2 ^ 53\<close>; from \<open>2 ^ 63\<close> on, the gas is estimated for another call than the one that is sent.
\<close>

theorem estimated_argument:
  assumes "w \<notin> {8, 16, 32, 64}"
  shows "(n \<le> 2 ^ 53 \<longrightarrow>
      convert_argument env (JStr (show_nat n)) (UintTy w) =
        res_bind (convertToType aenv (JStr (show_nat n)) (UintTy w)) (\<lambda>v. Inr (Conv v))) \<and>
    (2 ^ 63 \<le> n \<and> n < 2 ^ 256 \<longrightarrow>
      convert_argument env (JStr (show_nat n)) (UintTy w) = Inr (Conv (VBig (Some (int n)))) \<and>
      convertToType aenv (JStr (show_nat n)) (UintTy w) = Inr (VBig (Some (- (2 ^ 63)))))"
  using small_integer_exact [of n w aenv] large_integer_corrupted [of n w aenv] assms
  by (simp add: convert_argument_def argument_number_def SetString_nat native_integer_def)

theorem estimated_argument_witness:
  "convert_argument demo_gas (JStr (show_nat 7)) (UintTy 256) =
     res_bind (convertToType demo_args (JStr (show_nat 7)) (UintTy 256)) (\<lambda>v. Inr (Conv v)) \<and>
   convert_argument demo_gas (JStr (show_nat (2 ^ 63))) (UintTy 256) = Inr (Conv (VBig (Some (2 ^ 63)))) \<and>
   convertToType demo_args (JStr (show_nat (2 ^ 63))) (UintTy 256) = Inr (VBig (Some (- (2 ^ 63))))"
  using estimated_argument [of 256 7 demo_gas demo_args] estimated_argument [of 256 "2 ^ 63" demo_gas demo_args] by simp

section \<open>What the fees add up to\<close>

lemma io_try_then_ret: "io_bind (io_try m) (\<lambda>r. io_ret (f r)) s = Some (x, s') \<Longrightarrow> \<exists>a. x = Inr a"
  by (auto simp: io_bind_Some io_try_Some io_ret_def)

lemma on_chain_fees_ok: "on_chain_fees env md key w = Some (x, w') \<Longrightarrow> \<exists>a. x = Inr a"
  by (auto simp: on_chain_fees_def io_ret_def dest!: io_try_then_ret split: if_splits)

lemma current_price_ok: "current_price env chain key s = Some (x, s') \<Longrightarrow> \<exists>a. x = Inr a"
  unfolding current_price_def by (erule io_bindE) (auto simp: io_try_Some io_ret_def split: sum.split_asm)

lemma aggregator_fee_ok: "aggregator_fee env md key w = Some (x, w') \<Longrightarrow> \<exists>a. x = Inr a"
  by (auto simp: aggregator_fee_def with_estimator_def io_bind_Some io_ret_def dest!: current_price_ok)

lemma decode_absent:
  "\<forall>(k, u) \<in> set fs. \<not> EqualFold k name \<Longrightarrow> decode_field name f (JObj fs) x = Some x"
proof -
  have "\<forall>(k, u) \<in> set fs. \<not> EqualFold k name \<Longrightarrow>
      fold (\<lambda>(k, u) r. Option.bind r (\<lambda>y. if EqualFold k name then f u y else Some y)) fs (Some x) = Some x"
    by (induction fs) auto
  then show "\<forall>(k, u) \<in> set fs. \<not> EqualFold k name \<Longrightarrow> decode_field name f (JObj fs) x = Some x"
    by (simp add: decode_field_def)
qed

lemma task_fee: "task_definition_id md \<in> {1..6} \<Longrightarrow> \<exists>usd. offChainFeeUSD cfg (task_definition_id md) = Some usd"
  by (auto simp: offChainFeeUSD_def)

text \<open>
  If the price service answers with a JSON object that holds no price, such as the object that says that a limit on requests has been reached,
  then the fee of every task on a contract ends in a panic: the price stays zero, the fee becomes infinite or NaN, and the nil integer is
  used.
\<close>

theorem missing_price_panics:
  assumes "task_definition_id md \<in> {1..6}"
    and "HttpGet env coingeckoURL w = (Inr body, w1)" and "DecodeFirst env body = Inr (JObj fs)"
    and "\<forall>(k, u) \<in> set fs. \<not> EqualFold k ''ethereum''"
  shows "calculateFees env md key w = None"
proof -
  obtain usd where usd: "offChainFeeUSD (FeesConfig env) (task_definition_id md) = Some usd"
    using task_fee [OF assms(1)] by blast
  have rate: "EthToUSDRate env w = (Some 0, w1)"
    using assms(2, 3) decode_absent [OF assms(4)] by (simp add: EthToUSDRate_def)
  have "to_wei (divide_go usd 0) \<in> {None, Some None}" by (simp add: divide_go_def to_wei_def)
  moreover have "io_bind (on_chain_fees env md key) (\<lambda>(a, b). io_bind (aggregator_fee env md key) (\<lambda>g. io_panic)) w1 = None"
    using on_chain_fees_ok [of env md key w1] aggregator_fee_ok [of env md key]
    by (fastforce simp: io_bind_def io_panic_def split: option.splits sum.splits)
  ultimately show ?thesis
    using assms(1) by (auto simp: calculateFees_def usd rate io_bind_def [of "io_call f" for f] io_call_def io_panic_def [of w1])
qed

definition demo_metadata :: "string \<Rightarrow> metadata" where
  "demo_metadata taskID = [''task_definition_id'' \<mapsto> taskID]"

lemma demo_metadata_id: "task_definition_id (demo_metadata ''1'') = 1" "task_definition_id (demo_metadata ''7'') = 7"
  by code_simp+

theorem missing_price_panics_witness: "calculateFees demo_gas (demo_metadata ''1'') ''key'' [] = None"
  by (rule missing_price_panics [where fs = "[]" and body = "''{}''" and ?w1.0 = "[]"]) (simp_all add: demo_metadata_id demo_gas_def)


definition demo_priced :: "int list gas_env" where
  "demo_priced = demo_gas\<lparr>DecodeFirst := \<lambda>s. Inr (JObj [(''ethereum'', JObj [(''usd'', JNum 2048)])])\<rparr>"


end
