(* ===== verification/Execution_Pipeline.thy ===== *)
theory Execution_Pipeline
  imports Gas_Fees Container_Pool
begin

text \<open>
  How a source file is run in docker (\<open>pkg/dockerexecutor\<close>: \<open>container/manager.go\<close>, \<open>execution/pipeline.go\<close>, \<open>executor.go\<close>). The manager keeps a
  \<open>Container_Pool\<close> per language; the pipeline takes a file, a container of its language, runs the file in it, gives the container
  back and works out the fee with \<open>Gas_Fees\<close>. Docker, the host's files, the file manager, the clock and the timers are the fields of
  \<open>manager_env\<close> and \<open>pipeline_env\<close>, over one world that pools, estimators and files share. The texts of the scripts are fields too. An execution runs
  as one step, except for the shutdown at the end of the theory, where executions and \<open>close\<close> take turns. The cleanup script, which
  runs in a goroutine of its own, runs at once. Archives hold one file. \<open>None\<close> is a panic or a wait that does not end.
\<close>

section \<open>The container manager\<close>

datatype exec_choice = CtxDone go_error | TimedOut | OutputDone | NothingReady

record 'w manager_env =
  Docker :: "'w docker_api"
  PoolConfig :: "Language \<Rightarrow> pool_config option"
  PoolOrder :: "string set \<Rightarrow> string list"
  BlankObjects :: "string \<Rightarrow> PooledContainer"
  PoolWake :: "'w \<Rightarrow> wake"
  AutoCleanup :: bool
  SetupScript :: "Language \<Rightarrow> string"
  ExecutionScript :: "Language \<Rightarrow> string"
  CleanupScriptOf :: "Language \<Rightarrow> string"
  ReadHostFile :: "string \<Rightarrow> 'w \<Rightarrow> (go_error + string) \<times> 'w"
  CopyToContainer :: "string \<Rightarrow> string \<Rightarrow> string \<Rightarrow> 'w \<Rightarrow> (go_error + unit) \<times> 'w"
  CopyFromContainer :: "string \<Rightarrow> string \<Rightarrow> 'w \<Rightarrow> (go_error + string) \<times> 'w"
  TarNext :: "string \<Rightarrow> go_error + string"
  TarContent :: "string \<Rightarrow> go_error + string"
  ExecOutput :: "string \<Rightarrow> 'w \<Rightarrow> string"
  ContextError :: "'w \<Rightarrow> go_error option"
  Choose :: "string \<Rightarrow> 'w \<Rightarrow> exec_choice"
  ImageList :: "'w \<Rightarrow> (go_error + string list list) \<times> 'w"
  ImagePull :: "string \<Rightarrow> 'w \<Rightarrow> (go_error + unit) \<times> 'w"
  ReadPull :: "'w \<Rightarrow> (go_error + unit) \<times> 'w"

record 'w manager =
  pools :: "Language \<rightharpoonup> 'w pool"
  initialized :: bool
  mworld :: 'w

definition NewContainerManager :: "'w \<Rightarrow> 'w manager" where
  "NewContainerManager w = \<lparr>pools = Map.empty, initialized = False, mworld = w\<rparr>"

definition on_docker :: "('w \<Rightarrow> (go_error + 'a) \<times> 'w) \<Rightarrow> ('w manager, 'a) io" where
  "on_docker f m = (case f (mworld m) of (r, w) \<Rightarrow> Some (r, m\<lparr>mworld := w\<rparr>))"

text \<open>What pools ask of the manager.\<close>

definition CleanupContainer_m :: "'w manager_env \<Rightarrow> string \<Rightarrow> 'w \<Rightarrow> (go_error + unit) \<times> 'w" where
  "CleanupContainer_m env c w = (if AutoCleanup env then ContainerRemove (Docker env) c w else (Inr (), w))"

definition pool_api :: "'w manager_env \<Rightarrow> 'w docker_api" where
  "pool_api env = (Docker env)\<lparr>CleanupContainer := CleanupContainer_m env\<rparr>"

definition PullImage :: "'w manager_env \<Rightarrow> string \<Rightarrow> ('w manager, unit) io" where
  "PullImage env imageName =
     io_bind (io_try (on_docker (ImageList env))) (\<lambda>images.
     if (case images of Inl e \<Rightarrow> False | Inr tags \<Rightarrow> \<exists>ts \<in> set tags. imageName \<in> set ts \<or> imageName @ '':latest'' \<in> set ts)
     then io_ret ()
     else
       io_bind (io_wrap ''failed to pull image'' (on_docker (ImagePull env imageName))) (\<lambda>_.
       io_wrap ''error reading image pull response'' (on_docker (ReadPull env))))"

text \<open>A method of the pool of a language; pools act on the world of the manager.\<close>

definition with_pool :: "Language \<Rightarrow> ('w pool, 'a) io \<Rightarrow> ('w manager, 'a) io" where
  "with_pool l f m =
     (case pools m l of
        None \<Rightarrow> Some (Inl (GoErr (''no pool available for language: '' @ lang_name l)), m)
      | Some p \<Rightarrow>
          map_option (\<lambda>(r, p'). (r, m\<lparr>pools := (pools m)(l \<mapsto> p'), mworld := world p'\<rparr>)) (f (p\<lparr>world := mworld m\<rparr>)))"

text \<open>The goroutines that create the pools, one after another.\<close>

fun init_pools :: "'w manager_env \<Rightarrow> Language list \<Rightarrow> ('w manager, unit) io" where
  "init_pools env [] m = Some (Inr (), m)"
| "init_pools env (l # ls) m =
     (case PoolConfig env l of
        None \<Rightarrow> init_pools env ls m
      | Some cfg \<Rightarrow>
          (case initialize (pool_api env) cfg (PoolOrder env) (newContainerPool cfg (BlankObjects env) (mworld m)) of
             None \<Rightarrow> None
           | Some (Inl e, p) \<Rightarrow> init_pools env ls (m\<lparr>mworld := world p\<rparr>)
           | Some (Inr _, p) \<Rightarrow> init_pools env ls (m\<lparr>pools := (pools m)(l \<mapsto> p), mworld := world p\<rparr>)))"

definition InitializeLanguagePools :: "'w manager_env \<Rightarrow> Language list \<Rightarrow> ('w manager, unit) io" where
  "InitializeLanguagePools env languages m =
     (if initialized m then Some (Inl (GoErr ''docker manager already initialized''), m)
      else io_bind (init_pools env languages) (\<lambda>_. io_put (\<lambda>m. m\<lparr>initialized := True\<rparr>)) m)"

definition when_initialized :: "('w manager, 'a) io \<Rightarrow> ('w manager, 'a) io" where
  "when_initialized f m = (if initialized m then f m else Some (Inl (GoErr ''docker manager not initialized''), m))"

text \<open>A request that has to wait is woken once; a ready queue that is still empty then lets it wait for ever.\<close>

definition get_from_pool :: "'w manager_env \<Rightarrow> pool_config \<Rightarrow> ('w pool, string) io" where
  "get_from_pool env cfg =
     io_bind (getContainer (pool_api env) cfg) (\<lambda>r.
     case r of
       Got c \<Rightarrow> io_ret c
     | MustWait \<Rightarrow>
         io_bind (io_get (\<lambda>p. PoolWake env (world p))) (\<lambda>k.
         io_bind (getContainer_wake (pool_api env) k) (\<lambda>r'.
         case r' of Got c \<Rightarrow> io_ret c | MustWait \<Rightarrow> io_panic)))"

text \<open>The configuration of the pool of a language; a pool exists only where there is one.\<close>

definition config_of :: "'w manager_env \<Rightarrow> Language \<Rightarrow> pool_config" where
  "config_of env l = the (PoolConfig env l)"

text \<open>A container is its id and the language it holds.\<close>

definition GetContainer :: "'w manager_env \<Rightarrow> Language \<Rightarrow> ('w manager, string \<times> Language) io" where
  "GetContainer env l =
     when_initialized (with_pool l
       (io_bind (get_from_pool env (config_of env l)) (\<lambda>c. io_get (\<lambda>p. (c, PLanguage (objs p c))))))"

definition ReturnContainer :: "'w manager_env \<Rightarrow> string \<times> Language \<Rightarrow> ('w manager, unit) io" where
  "ReturnContainer env c =
     when_initialized (with_pool (snd c) (returnContainer (pool_api env) (config_of env (snd c)) (fst c)))"

definition MarkContainerAsFailed :: "'w manager_env \<Rightarrow> string \<Rightarrow> Language \<Rightarrow> go_error \<Rightarrow> ('w manager, unit) io" where
  "MarkContainerAsFailed env c l e m =
     (if initialized m \<and> pools m l \<noteq> None
      then with_pool l (io_put (\<lambda>p. if c \<in> containers p then failed_cleanup (pool_api env) c (markContainerAsFailed c e p) else p)) m
      else Some (Inr (), m))"

definition GetLanguageStats :: "Language \<Rightarrow> 'w manager \<Rightarrow> PoolStats option" where
  "GetLanguageStats l m = map_option Container_Pool.stats (pools m l)"

definition GetPoolStats :: "'w manager \<Rightarrow> Language \<rightharpoonup> PoolStats" where
  "GetPoolStats m = map_option Container_Pool.stats \<circ> pools m"

definition GetHealthCheckStats :: "'w manager \<Rightarrow> Language \<rightharpoonup> nat \<times> nat \<times> nat" where
  "GetHealthCheckStats m = map_option getHealthCheckStats \<circ> pools m"

definition GetSupportedLanguages :: "'w manager \<Rightarrow> Language set" where
  "GetSupportedLanguages m = dom (pools m)"

definition IsLanguageSupported :: "Language \<Rightarrow> 'w manager \<Rightarrow> bool" where
  "IsLanguageSupported l m \<longleftrightarrow> pools m l \<noteq> None"

text \<open>\<open>ks\<close> gives the languages and the containers in the order in which the maps are ranged over.\<close>

fun close_pools :: "'w manager_env \<Rightarrow> (Language \<times> string list) list \<Rightarrow> 'w manager \<Rightarrow> 'w manager option" where
  "close_pools env [] m = Some m"
| "close_pools env ((l, cs) # ks) m =
     (case pools m l of
        None \<Rightarrow> close_pools env ks m
      | Some p \<Rightarrow>
          (case close (pool_api env) cs (p\<lparr>world := mworld m\<rparr>) of
             None \<Rightarrow> None
           | Some p' \<Rightarrow> close_pools env ks (m\<lparr>pools := (pools m)(l \<mapsto> p'), mworld := world p'\<rparr>)))"


section \<open>Running a file in a container\<close>

record exec_result =
  ROutput :: string
  RSuccess :: bool
  RError :: "go_error option"
  RExecutionTime :: int
  RStaticComplexity :: float64
  RDynamicComplexity :: float64
  RTotalCost :: "int option"
  RCurrentTotalCost :: "int option"

definition empty_result :: exec_result where
  "empty_result = \<lparr>ROutput = [], RSuccess = False, RError = None, RExecutionTime = 0, RStaticComplexity = 0,
     RDynamicComplexity = 0, RTotalCost = None, RCurrentTotalCost = None\<rparr>"

definition in_docker :: "('w, 'a) io \<Rightarrow> ('w manager, 'a) io" where
  "in_docker f m = map_option (\<lambda>(r, w). (r, m\<lparr>mworld := w\<rparr>)) (f (mworld m))"

definition shell :: "string \<Rightarrow> string list" where
  "shell script = [''sh'', ''-c'', script]"

definition target_file :: "Language \<Rightarrow> string" where
  "target_file l = (case l of LangPy \<Rightarrow> ''code.py'' | LangJS \<Rightarrow> ''code.js'' | LangNode \<Rightarrow> ''code.js'' | LangTS \<Rightarrow> ''code.ts''
     | _ \<Rightarrow> ''code.go'')"

definition copyFileToContainerOptimized :: "'w manager_env \<Rightarrow> string \<Rightarrow> string \<Rightarrow> Language \<Rightarrow> ('w, unit) io" where
  "copyFileToContainerOptimized env c filePath l =
     io_bind (io_wrap ''failed to read file'' (io_call (ReadHostFile env filePath))) (\<lambda>content.
     io_wrap ''failed to copy file to container'' (io_call (CopyToContainer env c (''/code/'' @ target_file l) content)))"

definition attached_exec :: "'w manager_env \<Rightarrow> string \<Rightarrow> string \<Rightarrow> string \<Rightarrow> ('w, string) io" where
  "attached_exec env what c script =
     io_bind (io_wrap (''failed to create '' @ what) (io_call (ExecCreate (Docker env) c (shell script)))) (\<lambda>ex.
     io_bind (io_wrap (''failed to attach to '' @ what) (io_call (ExecAttach (Docker env) ex))) (\<lambda>_.
     io_bind (io_wrap (''failed to start '' @ what) (io_call (ExecStart (Docker env) ex))) (\<lambda>_.
     io_ret ex)))"

partial_function (option) wait_setup :: "'w manager_env \<Rightarrow> string \<Rightarrow> 'w \<Rightarrow> ((go_error + unit) \<times> 'w) option" where
  "wait_setup env ex w =
     (case ContextError env w of
        Some e \<Rightarrow> Some (Inl e, w)
      | None \<Rightarrow>
          (case ExecInspect (Docker env) ex w of
             (Inl e, w') \<Rightarrow> Some (Inl (Wrap ''failed to inspect setup exec'' e), w')
           | (Inr (running, code), w') \<Rightarrow>
               if \<not> running \<and> code \<noteq> 0 then Some (Inl (GoErr (''setup script failed with exit code: '' @ show_int code)), w')
               else if \<not> running then Some (Inr (), snd (Sleep (Docker env) 100000000 w'))
               else wait_setup env ex (snd (Sleep (Docker env) 100000000 w'))))"

definition runSetupScript :: "'w manager_env \<Rightarrow> string \<Rightarrow> Language \<Rightarrow> ('w, unit) io" where
  "runSetupScript env c l = io_bind (attached_exec env ''setup exec'' c (SetupScript env l)) (wait_setup env)"

definition completion_test :: string where
  "completion_test = ''test -f /code/result.json && test -f /code/execution_complete.flag''"

partial_function (option) wait_test :: "'w manager_env \<Rightarrow> string \<Rightarrow> 'w \<Rightarrow> (bool \<times> 'w) option" where
  "wait_test env ex w =
     (case ExecInspect (Docker env) ex w of
        (Inl e, w') \<Rightarrow> Some (False, w')
      | (Inr (running, code), w') \<Rightarrow>
          if \<not> running then Some (code = 0, w') else wait_test env ex (snd (Sleep (Docker env) 50000000 w')))"

definition checkExecutionComplete :: "'w manager_env \<Rightarrow> string \<Rightarrow> 'w \<Rightarrow> (bool \<times> 'w) option" where
  "checkExecutionComplete env c w =
     (case ExecCreate (Docker env) c (shell completion_test) w of
        (Inl e, w1) \<Rightarrow> Some (False, w1)
      | (Inr ex, w1) \<Rightarrow>
          (case ExecStart (Docker env) ex w1 of
             (Inl e, w2) \<Rightarrow> Some (False, w2)
           | (Inr _, w2) \<Rightarrow> wait_test env ex w2))"

text \<open>The loop that waits for the files that the script writes at its end; the exit code of the script is never read.\<close>

partial_function (option) wait_execution :: "'w manager_env \<Rightarrow> string \<Rightarrow> string \<Rightarrow> 'w \<Rightarrow> ((go_error + unit) \<times> 'w) option" where
  "wait_execution env c ex w =
     (case Choose env ex w of
        CtxDone e \<Rightarrow> Some (Inl e, w)
      | TimedOut \<Rightarrow> Some (Inl (GoErr ''execution timeout after 60 seconds''), w)
      | OutputDone \<Rightarrow>
          (case checkExecutionComplete env c w of
             None \<Rightarrow> None
           | Some (finished, w') \<Rightarrow> if finished then Some (Inr (), w') else wait_execution env c ex w')
      | NothingReady \<Rightarrow>
          (case checkExecutionComplete env c w of
             None \<Rightarrow> None
           | Some (finished, w') \<Rightarrow>
               if finished then Some (Inr (), w') else wait_execution env c ex (snd (Sleep (Docker env) 100000000 w'))))"

text \<open>The id of the exec or an error, with the text that has been read from the exec.\<close>

definition runExecutionScript :: "'w manager_env \<Rightarrow> string \<Rightarrow> Language \<Rightarrow> ('w, (go_error + string) \<times> string) io" where
  "runExecutionScript env c l =
     io_bind (io_try (attached_exec env ''execution exec'' c (ExecutionScript env l))) (\<lambda>started.
     case started of
       Inl e \<Rightarrow> io_ret (Inl e, [])
     | Inr ex \<Rightarrow>
         io_bind (io_try (wait_execution env c ex)) (\<lambda>r.
         io_bind (io_get (ExecOutput env ex)) (\<lambda>output.
         io_ret (case r of Inl e \<Rightarrow> Inl e | Inr _ \<Rightarrow> Inr ex, output))))"

definition readResultFile :: "'w manager_env \<Rightarrow> string \<Rightarrow> ('w, string) io" where
  "readResultFile env c =
     io_bind (io_wrap ''failed to copy result.json from container'' (io_call (CopyFromContainer env c ''/code/result.json''))) (\<lambda>tar.
     case TarNext env tar of
       Inl e \<Rightarrow> io_fail (Wrap ''failed to read tar header'' e)
     | Inr name \<Rightarrow>
         if name \<noteq> ''result.json'' then io_fail (GoErr (''unexpected file in tar: '' @ name))
         else (case TarContent env tar of
             Inl e \<Rightarrow> io_fail (Wrap ''failed to read file content from tar'' e)
           | Inr content \<Rightarrow> io_ret content))"

definition runCleanupScript :: "'w manager_env \<Rightarrow> string \<Rightarrow> Language \<Rightarrow> ('w, unit) io" where
  "runCleanupScript env c l =
     io_bind (io_wrap ''failed to create cleanup exec'' (io_call (ExecCreate (Docker env) c (shell (CleanupScriptOf env l))))) (\<lambda>ex.
     io_wrap ''failed to start cleanup exec'' (io_call (ExecStart (Docker env) ex)))"

definition executeCodeWithFileCopy :: "'w manager_env \<Rightarrow> string \<Rightarrow> string \<Rightarrow> Language \<Rightarrow> ('w, exec_result \<times> string) io" where
  "executeCodeWithFileCopy env c filePath l =
     io_bind (io_wrap ''failed to copy file to container'' (copyFileToContainerOptimized env c filePath l)) (\<lambda>_.
     io_bind (io_wrap ''failed to run setup script'' (runSetupScript env c l)) (\<lambda>_.
     io_bind (io_get (Container_Pool.Now (Docker env))) (\<lambda>t0.
     io_bind (runExecutionScript env c l) (\<lambda>(r, printed).
     io_bind (io_get (Container_Pool.Now (Docker env))) (\<lambda>t1.
     io_bind (case r of
         Inl e \<Rightarrow> io_ret (empty_result\<lparr>RError := Some e, ROutput := printed\<rparr>)
       | Inr ex \<Rightarrow>
           io_bind (io_try (readResultFile env c)) (\<lambda>content.
           io_ret (empty_result\<lparr>RSuccess := True, ROutput := (case content of Inl e \<Rightarrow> printed | Inr text \<Rightarrow> text)\<rparr>))) (\<lambda>result.
     io_bind (io_try (runCleanupScript env c l)) (\<lambda>_.
     io_ret (result\<lparr>RExecutionTime := t1 - t0\<rparr>, case r of Inl e \<Rightarrow> [] | Inr ex \<Rightarrow> ex))))))))"

definition ExecuteInContainer :: "'w manager_env \<Rightarrow> string \<Rightarrow> string \<Rightarrow> Language \<Rightarrow> ('w, exec_result \<times> string) io" where
  "ExecuteInContainer env c filePath l =
     io_bind (io_wrap ''failed to inspect container before execution'' (io_call (ContainerInspect (Docker env) c))) (\<lambda>running.
     if \<not> running then io_fail (GoErr (''container '' @ c @ '' is not running''))
     else io_wrap ''failed to execute code'' (executeCodeWithFileCopy env c filePath l))"

text \<open>Nothing is killed: the process ends with its context.\<close>

definition KillExecProcess :: "'w manager_env \<Rightarrow> string \<Rightarrow> ('w, unit) io" where
  "KillExecProcess env ex =
     io_bind (io_wrap ''failed to inspect exec process'' (io_call (ExecInspect (Docker env) ex))) (\<lambda>_. io_ret ())"


section \<open>The pipeline\<close>

record ExecutionContext =
  FileURL :: string
  FileLanguage :: string
  NoOfAttesters :: int
  TraceID :: string
  StartedAt :: int
  Cancelled :: bool
  ExecID :: string
  ContainerID :: string

record PerformanceMetrics =
  TotalExecutions :: int
  SuccessfulExecutions :: int
  FailedExecutions :: int
  AverageExecutionTime :: int
  MinExecutionTime :: int
  MaxExecutionTime :: int
  TotalCost :: float64
  AverageCost :: float64
  LastExecution :: int

record 'w pipeline_env =
  Mgr :: "'w manager_env"
  Gas :: "'w gas_env"
  GetOrDownload :: "string \<Rightarrow> string \<Rightarrow> 'w \<Rightarrow> (go_error + metadata) \<times> 'w"
  UnixNano :: "'w \<Rightarrow> int"
  DurationText :: "int \<Rightarrow> string"
  CreateTemp :: "'w \<Rightarrow> (go_error + string) \<times> 'w"
  WriteTemp :: "string \<Rightarrow> string \<Rightarrow> 'w \<Rightarrow> (go_error + unit) \<times> 'w"
  RemoveTemp :: "string \<Rightarrow> 'w \<Rightarrow> (go_error + unit) \<times> 'w"

record 'w pipeline =
  mgr :: "'w manager"
  activeExecutions :: "string \<rightharpoonup> ExecutionContext"
  pstats :: PerformanceMetrics
  closed :: bool

definition no_metrics :: PerformanceMetrics where
  "no_metrics = \<lparr>TotalExecutions = 0, SuccessfulExecutions = 0, FailedExecutions = 0, AverageExecutionTime = 0,
     MinExecutionTime = 0, MaxExecutionTime = 0, TotalCost = 0, AverageCost = 0, LastExecution = 0\<rparr>"

definition newExecutionPipeline :: "'w manager \<Rightarrow> 'w pipeline" where
  "newExecutionPipeline m = \<lparr>mgr = m, activeExecutions = Map.empty, pstats = no_metrics, closed = False\<rparr>"

definition in_mgr :: "('w manager, 'a) io \<Rightarrow> ('w pipeline, 'a) io" where
  "in_mgr f s = map_option (\<lambda>(r, m). (r, s\<lparr>mgr := m\<rparr>)) (f (mgr s))"

abbreviation pworld :: "'w pipeline \<Rightarrow> 'w" where
  "pworld s \<equiv> mworld (mgr s)"

text \<open>Division of integers in Go, towards zero.\<close>

definition quot_go :: "int \<Rightarrow> int \<Rightarrow> int" where
  "quot_go a b = sgn a * sgn b * (\<bar>a\<bar> div \<bar>b\<bar>)"

definition updateStats :: "ExecutionFeeConfig \<Rightarrow> int \<Rightarrow> bool \<Rightarrow> int \<Rightarrow> float64 \<Rightarrow> PerformanceMetrics \<Rightarrow> PerformanceMetrics" where
  "updateStats cfg now success duration complexity st =
     (let good = (if success then i64 (SuccessfulExecutions st + 1) else SuccessfulExecutions st);
          avg = (if good \<le> 0 then AverageExecutionTime st
                 else if good = 1 then duration
                 else quot_go (i64 (i64 (AverageExecutionTime st * (good - 1)) + duration)) good);
          cost = f64_add (TotalCost st) (calculateCost cfg complexity)
      in st\<lparr>TotalExecutions := i64 (TotalExecutions st + 1), LastExecution := now, SuccessfulExecutions := good,
           FailedExecutions := (if success then FailedExecutions st else i64 (FailedExecutions st + 1)),
           MinExecutionTime := (if MinExecutionTime st = 0 \<or> duration < MinExecutionTime st then duration else MinExecutionTime st),
           MaxExecutionTime := (if MaxExecutionTime st < duration then duration else MaxExecutionTime st),
           AverageExecutionTime := avg, TotalCost := cost,
           AverageCost := (if 0 < good then f64_div cost (f64_of_i64 good) else AverageCost st)\<rparr>)"

definition count_execution :: "'w pipeline_env \<Rightarrow> bool \<Rightarrow> int \<Rightarrow> ('w pipeline, unit) io" where
  "count_execution env success t0 = io_put (\<lambda>s.
     let now = UnixNano env (pworld s) in s\<lparr>pstats := updateStats (FeesConfig (Gas env)) now success (now - t0) 0 (pstats s)\<rparr>)"

section \<open>The stages of an execution\<close>

definition file_ext :: "string \<Rightarrow> string" where
  "file_ext path =
     (let r = takeWhile (\<lambda>c. c \<noteq> CHR ''/'') (rev path)
      in if CHR ''.'' \<in> set r then CHR ''.'' # rev (takeWhile (\<lambda>c. c \<noteq> CHR ''.'') r) else [])"

definition GetLanguageFromFile :: "string \<Rightarrow> Language" where
  "GetLanguageFromFile path =
     (let ext = lower (file_ext path) in
      if ext = ''.py'' then LangPy else if ext = ''.js'' then LangJS else if ext = ''.ts'' then LangTS
      else if ext = ''.mjs'' \<or> ext = ''.cjs'' then LangNode else LangGo)"

definition language_of :: "string \<Rightarrow> Language" where
  "language_of s =
     (if s = ''go'' then LangGo else if s = ''py'' then LangPy else if s = ''js'' then LangJS else if s = ''ts'' then LangTS
      else if s = ''node'' then LangNode else LangOther s)"

definition fee_text :: "int option \<Rightarrow> string" where
  "fee_text f = (case f of None \<Rightarrow> ''<nil>'' | Some n \<Rightarrow> show_int n)"

definition with_output_args :: "exec_result \<Rightarrow> metadata \<Rightarrow> metadata" where
  "with_output_args result md =
     (let cleanOutput = TrimSpace (ROutput result)
      in if task_definition_id md \<in> {2, 4, 6} \<and> prefix ''['' cleanOutput \<and> suffix '']'' cleanOutput
         then md(''on_chain_args'' \<mapsto> cleanOutput) else md)"

definition processResults :: "'w pipeline_env \<Rightarrow> exec_result \<Rightarrow> metadata \<Rightarrow> string \<Rightarrow> ('w, exec_result \<times> metadata) io" where
  "processResults env result md key =
     (let md1 = md(''execution_time'' \<mapsto> DurationText env (RExecutionTime result),
            ''static_complexity'' \<mapsto> format_fixed 6 (RStaticComplexity result),
            ''dynamic_complexity'' \<mapsto> format_fixed 6 (RDynamicComplexity result));
          md2 = with_output_args result md1
      in io_bind (calculateFees (Gas env) md2 key) (\<lambda>(fees, currentFees).
         io_ret (result\<lparr>RTotalCost := fees, RCurrentTotalCost := currentFees\<rparr>,
           md2(''fees'' \<mapsto> fee_text fees, ''current_fees'' \<mapsto> fee_text currentFees))))"

text \<open>The metadata of the file: what the caller gives with an inline source, or what the file manager says.\<close>

definition prepare_file :: "'w pipeline_env \<Rightarrow> string \<Rightarrow> string \<Rightarrow> metadata \<Rightarrow> ('w, metadata) io" where
  "prepare_file env url lang md =
     (if entry md ''file_path'' \<noteq> [] then io_ret md
      else io_wrap ''failed to download file'' (io_call (GetOrDownload env url lang)))"

definition note_exec :: "string \<Rightarrow> string \<Rightarrow> string \<Rightarrow> ('w pipeline, unit) io" where
  "note_exec trace ex c = io_put (\<lambda>s. s\<lparr>activeExecutions := (activeExecutions s)(trace :=
     map_option (\<lambda>x. x\<lparr>ExecID := ex, ContainerID := c\<rparr>) (activeExecutions s trace))\<rparr>)"

definition run_in_container :: "'w pipeline_env \<Rightarrow> string \<Rightarrow> string \<times> Language \<Rightarrow> string \<Rightarrow> metadata \<Rightarrow> string
    \<Rightarrow> ('w pipeline, exec_result \<times> metadata) io" where
  "run_in_container env trace c filePath md key =
     io_bind (io_try (in_mgr (in_docker (ExecuteInContainer (Mgr env) (fst c) filePath (snd c))))) (\<lambda>r.
     case r of
       Inl e \<Rightarrow>
         io_bind (in_mgr (MarkContainerAsFailed (Mgr env) (fst c) (snd c) e)) (\<lambda>_.
         io_fail (Wrap ''failed to execute code'' e))
     | Inr (result, ex) \<Rightarrow>
         io_bind (note_exec trace ex (fst c)) (\<lambda>_.
         io_bind (if RSuccess result then io_ret ()
                  else in_mgr (MarkContainerAsFailed (Mgr env) (fst c) (snd c) (the (RError result)))) (\<lambda>_.
         in_mgr (in_docker (processResults env result md key)))))"

text \<open>Whatever happens with the container, it is returned; an error of the return is only logged.\<close>

definition in_pooled_container :: "'w pipeline_env \<Rightarrow> string \<Rightarrow> string \<Rightarrow> metadata \<Rightarrow> string
    \<Rightarrow> ('w pipeline, exec_result \<times> metadata) io" where
  "in_pooled_container env trace filePath md key =
     io_bind (io_wrap ''failed to get container'' (in_mgr (GetContainer (Mgr env) (GetLanguageFromFile filePath)))) (\<lambda>c.
     io_bind (io_try (run_in_container env trace c filePath md key)) (\<lambda>r.
     io_bind (io_try (in_mgr (ReturnContainer (Mgr env) c))) (\<lambda>_.
     case r of Inl e \<Rightarrow> io_fail e | Inr x \<Rightarrow> io_ret x)))"

definition executeStages :: "'w pipeline_env \<Rightarrow> ExecutionContext \<Rightarrow> metadata \<Rightarrow> string \<Rightarrow> ('w pipeline, exec_result \<times> metadata) io" where
  "executeStages env ctx md key =
     (if task_definition_id md \<in> {1, 3, 5, 7} then
        in_mgr (in_docker (processResults env (empty_result\<lparr>RSuccess := True\<rparr>) md key))
      else
        io_bind (in_mgr (in_docker (prepare_file env (FileURL ctx) (FileLanguage ctx) md))) (\<lambda>fileMd.
        if entry md ''file_path'' = [] \<and> entry fileMd ''validation_errors'' \<noteq> [] then
          io_ret (empty_result\<lparr>RError := Some (GoErr (''file validation failed: '' @ entry fileMd ''validation_errors''))\<rparr>, md)
        else if entry fileMd ''file_path'' = [] then io_fail (GoErr ''file path not found in execution context'')
        else in_pooled_container env (TraceID ctx) (entry fileMd ''file_path'') md key))"

section \<open>Executions\<close>

text \<open>
  An execution registers itself, goes through the stages and, in a deferred function, leaves the active executions and
  is counted as successful; a failed one has been counted before.
\<close>

definition generateExecutionID :: "'w pipeline_env \<Rightarrow> 'w \<Rightarrow> string" where
  "generateExecutionID env w = ''exec_'' @ show_int (UnixNano env w)"

definition new_context :: "'w pipeline_env \<Rightarrow> string \<Rightarrow> string \<Rightarrow> int \<Rightarrow> 'w \<Rightarrow> ExecutionContext" where
  "new_context env url lang attesters w =
     \<lparr>FileURL = url, FileLanguage = lang, NoOfAttesters = attesters, TraceID = generateExecutionID env w,
       StartedAt = UnixNano env w, Cancelled = False, ExecID = [], ContainerID = []\<rparr>"

definition register :: "ExecutionContext \<Rightarrow> ('w pipeline, unit) io" where
  "register ctx = io_put (\<lambda>s. s\<lparr>activeExecutions := (activeExecutions s)(TraceID ctx \<mapsto> ctx)\<rparr>)"

definition end_execution :: "'w pipeline_env \<Rightarrow> ExecutionContext \<Rightarrow> bool \<Rightarrow> ('w pipeline, unit) io" where
  "end_execution env ctx ok =
     io_bind (if ok then io_ret () else count_execution env False (StartedAt ctx)) (\<lambda>_.
     io_bind (io_put (\<lambda>s. s\<lparr>activeExecutions := (activeExecutions s)(TraceID ctx := None)\<rparr>)) (\<lambda>_.
     count_execution env True (StartedAt ctx)))"

definition run_stages :: "'w pipeline_env \<Rightarrow> ExecutionContext \<Rightarrow> metadata \<Rightarrow> string \<Rightarrow> ('w pipeline, exec_result \<times> metadata) io" where
  "run_stages env ctx md key =
     io_bind (io_try (executeStages env ctx md key)) (\<lambda>r.
     io_bind (end_execution env ctx (\<not> isl r)) (\<lambda>_.
     case r of Inl e \<Rightarrow> io_fail (Wrap ''execution failed'' e) | Inr x \<Rightarrow> io_ret x))"

definition execute :: "'w pipeline_env \<Rightarrow> string \<Rightarrow> string \<Rightarrow> int \<Rightarrow> string \<Rightarrow> metadata \<Rightarrow> ('w pipeline, exec_result \<times> metadata) io" where
  "execute env url lang attesters key md s =
     (let ctx = new_context env url lang attesters (pworld s) in
      if closed s then Some (Inl (GoErr ''execution pipeline is shutting down''), s)
      else io_bind (register ctx) (\<lambda>_. run_stages env ctx md key) s)"

definition source_ext :: "Language \<Rightarrow> string" where
  "source_ext l = (case l of LangPy \<Rightarrow> ''.py'' | LangJS \<Rightarrow> ''.js'' | LangNode \<Rightarrow> ''.js'' | LangTS \<Rightarrow> ''.ts'' | _ \<Rightarrow> ''.go'')"

definition run_source :: "'w pipeline_env \<Rightarrow> ExecutionContext \<Rightarrow> string \<Rightarrow> Language \<Rightarrow> string \<Rightarrow> metadata
    \<Rightarrow> ('w pipeline, exec_result \<times> metadata) io" where
  "run_source env ctx code l key md =
     io_bind (io_wrap ''failed to create temp file'' (in_mgr (on_docker (CreateTemp env)))) (\<lambda>tmp.
     io_bind (io_wrap ''failed to write temp source'' (in_mgr (on_docker (WriteTemp env (tmp @ source_ext l) code)))) (\<lambda>_.
     io_bind (io_try (io_bind (register ctx) (\<lambda>_. run_stages env ctx (md(''file_path'' \<mapsto> tmp @ source_ext l)) key))) (\<lambda>r.
     io_bind (io_try (in_mgr (on_docker (RemoveTemp env (tmp @ source_ext l))))) (\<lambda>_.
     case r of Inl e \<Rightarrow> io_fail e | Inr x \<Rightarrow> io_ret x))))"

definition executeSource :: "'w pipeline_env \<Rightarrow> string \<Rightarrow> string \<Rightarrow> string \<Rightarrow> metadata \<Rightarrow> ('w pipeline, exec_result \<times> metadata) io" where
  "executeSource env code language key md s =
     (let ctx = new_context env ''inline://source'' language 1 (pworld s); l = language_of (lower language) in
      if closed s then Some (Inl (GoErr ''execution pipeline is shutting down''), s)
      else if \<not> IsLanguageSupported l (mgr s) then Some (Inl (GoErr (''unsupported language: '' @ language)), s)
      else run_source env ctx code l key md s)"

definition getActiveExecutions :: "'w pipeline \<Rightarrow> ExecutionContext set" where
  "getActiveExecutions s = ran (activeExecutions s)"

definition cancelExecution :: "'w pipeline_env \<Rightarrow> string \<Rightarrow> ('w pipeline, unit) io" where
  "cancelExecution env trace s =
     (case activeExecutions s trace of
        None \<Rightarrow> Some (Inl (GoErr (''execution not found: '' @ trace)), s)
      | Some x \<Rightarrow>
          io_bind (io_put (\<lambda>s. s\<lparr>activeExecutions := (activeExecutions s)(trace \<mapsto> x\<lparr>Cancelled := True\<rparr>)\<rparr>)) (\<lambda>_.
          io_bind (if ExecID x = [] then io_ret (Inr ())
                   else io_try (in_mgr (in_docker (KillExecProcess (Mgr env) (ExecID x))))) (\<lambda>_.
          io_ret ())) s)"

section \<open>What an execution leaves alone\<close>

lemma keeps_in_mgr [io_keeps_intros]: "io_keeps pstats (in_mgr f)" "io_keeps closed (in_mgr f)"
  by (auto simp: io_keeps_def in_mgr_def)

lemma keeps_note_exec [io_keeps_intros]: "io_keeps pstats (note_exec t x c)" "io_keeps closed (note_exec t x c)"
  by (auto simp: io_keeps_def note_exec_def io_put_def)

lemma keeps_prod [io_keeps_intros]: "(\<And>a b. io_keeps p (f a b)) \<Longrightarrow> io_keeps p (case x of (a, b) \<Rightarrow> f a b)"
  by (cases x) simp

lemma keeps_run_in_container [io_keeps_intros]:
  "io_keeps pstats (run_in_container env trace c path md key)" "io_keeps closed (run_in_container env trace c path md key)"
  unfolding run_in_container_def by (intro io_keeps_intros)+

lemma keeps_stages [io_keeps_intros]:
  "io_keeps pstats (executeStages env ctx md key)" "io_keeps closed (executeStages env ctx md key)"
  unfolding executeStages_def in_pooled_container_def by (intro io_keeps_intros)+

section \<open>The statistics\<close>

definition count_fields :: "PerformanceMetrics \<Rightarrow> int \<times> int \<times> int" where
  "count_fields st = (TotalExecutions st, SuccessfulExecutions st, FailedExecutions st)"

lemma updateStats_counts:
  "count_fields (updateStats cfg now ok d x st) =
    (i64 (TotalExecutions st + 1), if ok then i64 (SuccessfulExecutions st + 1) else SuccessfulExecutions st,
     if ok then FailedExecutions st else i64 (FailedExecutions st + 1))"
  by (simp add: count_fields_def updateStats_def Let_def)

lemma count_execution_counts:
  "count_execution env ok t s = Some (r, s') \<Longrightarrow> count_fields (pstats s') =
    (i64 (TotalExecutions (pstats s) + 1), if ok then i64 (SuccessfulExecutions (pstats s) + 1) else SuccessfulExecutions (pstats s),
     if ok then FailedExecutions (pstats s) else i64 (FailedExecutions (pstats s) + 1)) \<and> closed s' = closed s"
  by (auto simp: count_execution_def io_put_def Let_def updateStats_counts)

lemma end_execution_counts:
  assumes "end_execution env ctx ok s = Some (r, s')" and "count_fields (pstats s) = (t, g, f)"
  shows "count_fields (pstats s') = (if ok then (i64 (t + 1), i64 (g + 1), f) else (i64 (t + 2), i64 (g + 1), i64 (f + 1)))
    \<and> closed s' = closed s \<and> isl r = False"
proof -
  obtain s1 where s1: "(if ok then io_ret () else count_execution env False (StartedAt ctx)) s = Some (Inr (), s1)"
    and r: "count_execution env True (StartedAt ctx) (s1\<lparr>activeExecutions := (activeExecutions s1)(TraceID ctx := None)\<rparr>) = Some (r, s')"
    using assms(1) by (auto simp: end_execution_def io_bind_Some io_put_def io_ret_def count_execution_def Let_def split: if_splits)
  have "count_fields (pstats s1) = (if ok then (t, g, f) else (i64 (t + 1), g, i64 (f + 1))) \<and> closed s1 = closed s"
    using s1 assms(2) count_execution_counts [of env False "StartedAt ctx" s "Inr ()" s1]
    by (auto simp: io_ret_def count_fields_def split: if_splits)
  moreover have "isl r = False" using r by (auto simp: count_execution_def io_put_def)
  ultimately show ?thesis
    using count_execution_counts [OF r] by (auto simp: count_fields_def add.assoc)
qed

lemma execute_counts:
  assumes "execute env url lang n key md s = Some (r, s')" and "\<not> closed s" and "count_fields (pstats s) = (t, g, f)"
  shows "count_fields (pstats s') = (if isl r then (i64 (t + 2), i64 (g + 1), i64 (f + 1)) else (i64 (t + 1), i64 (g + 1), f))
    \<and> \<not> closed s'"
proof -
  define ctx where "ctx = new_context env url lang n (pworld s)"
  let ?s = "s\<lparr>activeExecutions := (activeExecutions s)(TraceID ctx \<mapsto> ctx)\<rparr>"
  obtain x s1 where x: "executeStages env ctx md key ?s = Some (x, s1)"
    and e: "io_bind (end_execution env ctx (\<not> isl x))
        (\<lambda>_. case x of Inl e \<Rightarrow> io_fail (Wrap ''execution failed'' e) | Inr y \<Rightarrow> io_ret y) s1 = Some (r, s')"
    using assms(1, 2)
    by (auto simp: execute_def run_stages_def register_def io_bind_Some [of "io_put g" for g] io_bind_Some [of "io_try g" for g]
        io_put_def io_try_Some ctx_def [symmetric])
  have s1: "pstats s1 = pstats s" "closed s1 = closed s"
    using io_keepsD [OF keeps_stages(1) x] io_keepsD [OF keeps_stages(2) x] by simp_all
  then have c: "count_fields (pstats s1) = (t, g, f)" using assms(3) by simp
  obtain s2 where s2: "end_execution env ctx (\<not> isl x) s1 = Some (Inr (), s2)" and r: "isl r = isl x" "s' = s2"
    using e end_execution_counts [OF _ c, of env ctx "\<not> isl x"]
    by (auto simp: io_bind_Some io_fail_def io_ret_def split: sum.splits)
  show ?thesis using end_execution_counts [OF s2 c] s1(2) assms(2) r by auto
qed

text \<open>Several executions, one after another; the results say which of them failed.\<close>

record request =
  RqUrl :: string
  RqLanguage :: string
  RqAttesters :: int
  RqKey :: string
  RqMetadata :: metadata

fun execute_all :: "'w pipeline_env \<Rightarrow> request list \<Rightarrow> 'w pipeline \<Rightarrow> ((go_error + exec_result \<times> metadata) list \<times> 'w pipeline) option" where
  "execute_all env [] s = Some ([], s)"
| "execute_all env (q # qs) s =
     (case execute env (RqUrl q) (RqLanguage q) (RqAttesters q) (RqKey q) (RqMetadata q) s of
        None \<Rightarrow> None
      | Some (r, s1) \<Rightarrow> map_option (\<lambda>(rs, s2). (r # rs, s2)) (execute_all env qs s1))"

lemma execute_all_counts:
  assumes "execute_all env qs s = Some (rs, s')" and "\<not> closed s" and "count_fields (pstats s) = (i64 t, i64 g, i64 f)"
  shows "count_fields (pstats s') =
    (i64 (t + int (length qs) + int (length (filter isl rs))), i64 (g + int (length qs)), i64 (f + int (length (filter isl rs))))"
  using assms
proof (induction qs arbitrary: s rs t g f)
  case Nil
  then show ?case by simp
next
  case (Cons q qs)
  from Cons.prems(1) obtain r s1 rs' where
    r: "execute env (RqUrl q) (RqLanguage q) (RqAttesters q) (RqKey q) (RqMetadata q) s = Some (r, s1)"
    and rest: "execute_all env qs s1 = Some (rs', s')" and rs: "rs = r # rs'"
    by (auto split: option.splits)
  from execute_counts [OF r Cons.prems(2, 3)] have c: "\<not> closed s1"
    "count_fields (pstats s1) = (i64 (t + (if isl r then 2 else 1)), i64 (g + 1), i64 (if isl r then f + 1 else f))"
    by auto
  from Cons.IH [OF rest c] show ?case by (auto simp: rs algebra_simps)
qed

lemma execute_all_length: "execute_all env qs s = Some (rs, s') \<Longrightarrow> length rs = length qs"
  by (induction qs arbitrary: s rs) (auto split: option.splits)

lemma counts_after_executions:
  assumes "execute_all env qs (newExecutionPipeline m) = Some (rs, s)" and "2 * int (length qs) < 2 ^ 63"
  shows "TotalExecutions (pstats s) = int (length qs) + int (length (filter isl rs)) \<and>
    SuccessfulExecutions (pstats s) = int (length qs) \<and> FailedExecutions (pstats s) = int (length (filter isl rs)) \<and>
    TotalExecutions (pstats s) \<le> 2 * SuccessfulExecutions (pstats s)"
proof -
  have "length rs = length qs" by (rule execute_all_length [OF assms(1)])
  then have k: "int (length (filter isl rs)) \<le> int (length qs)" using length_filter_le [of isl rs] by simp
  have "count_fields (pstats s) = (i64 (0 + int (length qs) + int (length (filter isl rs))), i64 (0 + int (length qs)),
      i64 (0 + int (length (filter isl rs))))"
    using execute_all_counts [OF assms(1), of 0 0 0] by (simp add: newExecutionPipeline_def count_fields_def no_metrics_def)
  with k assms(2) show ?thesis by (simp add: count_fields_def in_i64_def)
qed

text \<open>
  An execution that fails is counted twice, once as failed and, by the deferred function, once as successful: after any
  sequence of executions, \<open>n\<close> of them with \<open>k\<close> failures, the pipeline counts \<open>n + k\<close> executions and \<open>n\<close> successes, so
  its success rate never falls below one half.
\<close>

theorem failures_count_as_successes:
  assumes "execute_all env qs (newExecutionPipeline m) = Some (rs, s)" and "2 * int (length qs) < 2 ^ 63"
  shows "TotalExecutions (pstats s) = int (length qs) + int (length (filter isl rs)) \<and>
    SuccessfulExecutions (pstats s) = int (length qs) \<and> FailedExecutions (pstats s) = int (length (filter isl rs)) \<and>
    TotalExecutions (pstats s) \<le> 2 * SuccessfulExecutions (pstats s)"
  by (rule counts_after_executions [OF assms])


text \<open>A docker client that never fails and leaves the world alone, and a file manager that has no file.\<close>

definition still_docker :: "'w docker_api" where
  "still_docker =
     \<lparr>ContainerCreate = \<lambda>_ _ w. (Inr ''a'', w), ContainerStart = \<lambda>_ w. (Inr (), w), ContainerRemove = \<lambda>_ w. (Inr (), w),
      ContainerInspect = \<lambda>_ w. (Inr True, w), ExecCreate = \<lambda>_ _ w. (Inr ''x'', w), ExecAttach = \<lambda>_ w. (Inr (), w),
      ExecStart = \<lambda>_ w. (Inr (), w), ExecInspect = \<lambda>_ w. (Inr (False, 0), w), CleanupContainer = \<lambda>_ w. (Inr (), w),
      MkTempDir = \<lambda>_ w. (Inr ''/tmp'', w), AbsPath = \<lambda>s w. (Inr s, w), NewUUID = \<lambda>w. (Inr ''01234567-89'', w),
      Sleep = \<lambda>_ w. (Inr (), w), TimerFired = \<lambda>_. False, Now = \<lambda>_. 0, CtxWins = \<lambda>w. (Inr (), w)\<rparr>"

definition demo_mgr :: "'w manager_env" where
  "demo_mgr =
     \<lparr>Docker = still_docker, PoolConfig = (\<lambda>l. if l = LangGo then Some (small_cfg 1 0) else None), PoolOrder = (\<lambda>_. []),
      BlankObjects = blank_obj, PoolWake = (\<lambda>_. WakeTimer), AutoCleanup = True, SetupScript = (\<lambda>_. ''s''), ExecutionScript = (\<lambda>_. ''e''),
      CleanupScriptOf = (\<lambda>_. ''c''), ReadHostFile = (\<lambda>_ w. (Inr ''code'', w)), CopyToContainer = (\<lambda>_ _ _ w. (Inr (), w)),
      CopyFromContainer = (\<lambda>_ _ w. (Inr ''tar'', w)), TarNext = (\<lambda>_. Inr ''result.json''), TarContent = (\<lambda>_. Inr ''[1]''),
      ExecOutput = (\<lambda>_ _. []), ContextError = (\<lambda>_. None), Choose = (\<lambda>_ _. NothingReady), ImageList = (\<lambda>w. (Inr [], w)),
      ImagePull = (\<lambda>_ w. (Inr (), w)), ReadPull = (\<lambda>w. (Inr (), w))\<rparr>"

definition demo_pipeline :: "int list pipeline_env" where
  "demo_pipeline =
     \<lparr>Mgr = demo_mgr, Gas = demo_priced, GetOrDownload = (\<lambda>_ _ w. (Inl (GoErr ''404''), w)), UnixNano = (\<lambda>_. 0), DurationText = (\<lambda>_. ''0s''),
      CreateTemp = (\<lambda>w. (Inr ''/tmp/x'', w)), WriteTemp = (\<lambda>_ _ w. (Inr (), w)), RemoveTemp = (\<lambda>_ w. (Inr (), w))\<rparr>"

definition demo_request :: request where
  "demo_request = \<lparr>RqUrl = ''u'', RqLanguage = ''go'', RqAttesters = 1, RqKey = ''key'', RqMetadata = Map.empty\<rparr>"

lemma demo_execute:
  "\<exists>e s'. execute demo_pipeline (RqUrl demo_request) (RqLanguage demo_request) (RqAttesters demo_request) (RqKey demo_request)
      (RqMetadata demo_request) s = Some (Inl e, s')" if "\<not> closed s"
proof -
  have "executeStages demo_pipeline ctx Map.empty ''key'' t = Some (Inl (Wrap ''failed to download file'' (GoErr ''404'')), t)" for ctx t
    by (simp add: executeStages_def task_definition_id_def in_mgr_def in_docker_def prepare_file_def entry_def io_defs demo_pipeline_def)
  with that show ?thesis
    by (simp add: execute_def run_stages_def register_def io_defs demo_request_def end_execution_def count_execution_def Let_def)
qed

theorem failures_count_as_successes_witness:
  "\<exists>rs s. execute_all demo_pipeline [demo_request] (newExecutionPipeline (NewContainerManager [])) = Some (rs, s) \<and>
    length (filter isl rs) = 1 \<and> TotalExecutions (pstats s) = 2 \<and> SuccessfulExecutions (pstats s) = 1"
proof -
  have "\<not> closed (newExecutionPipeline (NewContainerManager []))" by (simp add: newExecutionPipeline_def)
  from demo_execute [OF this] obtain e s where
    "execute_all demo_pipeline [demo_request] (newExecutionPipeline (NewContainerManager [])) = Some ([Inl e], s)" by auto
  from this failures_count_as_successes [OF this] show ?thesis by simp
qed

section \<open>The pools of the manager stay within their budgets\<close>

definition pool_ok :: "'w manager_env \<Rightarrow> Language \<Rightarrow> 'w pool \<Rightarrow> bool" where
  "pool_ok env l p \<longleftrightarrow>
     (\<exists>cfg. PoolConfig env l = Some cfg \<and> pool_inv cfg (MaxContainers cfg + MinContainers cfg) p)"

definition manager_inv :: "'w manager_env \<Rightarrow> 'w manager \<Rightarrow> bool" where
  "manager_inv env m \<longleftrightarrow> (\<forall>l p. pools m l = Some p \<longrightarrow> pool_ok env l p)"

abbreviation keeps_pools :: "'w manager_env \<Rightarrow> 'w manager \<Rightarrow> 'w manager \<Rightarrow> bool" where
  "keeps_pools env m m' \<equiv> manager_inv env m \<longrightarrow> manager_inv env m'"

interpretation mgr_keeps: state_order "keeps_pools env" for env :: "'w manager_env"
  by unfold_locales auto

lemma manager_inv_put: "manager_inv env m \<Longrightarrow> pool_ok env l p \<Longrightarrow> manager_inv env (m\<lparr>pools := (pools m)(l \<mapsto> p), mworld := w\<rparr>)"
  by (simp add: manager_inv_def)

lemma manager_inv_world [simp]: "manager_inv env (m\<lparr>mworld := w\<rparr>) = manager_inv env m"
  by (simp add: manager_inv_def)

lemma pool_ok_world [simp]: "pool_ok env l (p\<lparr>world := w\<rparr>) = pool_ok env l p"
  using pool_inv_core [of "p\<lparr>world := w\<rparr>" p] by (auto simp: pool_ok_def)

lemma with_pool_keeps:
  assumes "\<And>p r p'. pool_ok env l p \<Longrightarrow> f p = Some (r, p') \<Longrightarrow> pool_ok env l p'"
  shows "io_rel (keeps_pools env) (with_pool l f)"
proof -
  have "manager_inv env m'" if m: "manager_inv env m" and r: "with_pool l f m = Some (r, m')" for m r m'
  proof (cases "pools m l")
    case None
    with m r show ?thesis by (simp add: with_pool_def)
  next
    case (Some p)
    then obtain p' where p': "f (p\<lparr>world := mworld m\<rparr>) = Some (r, p')"
      "m' = m\<lparr>pools := (pools m)(l \<mapsto> p'), mworld := world p'\<rparr>"
      using r by (auto simp: with_pool_def)
    have "pool_ok env l p" using m Some by (simp add: manager_inv_def)
    then show ?thesis unfolding p'(2) by (intro manager_inv_put m assms [OF _ p'(1)]) simp
  qed
  then show ?thesis by (auto simp: io_rel_def)
qed

lemma config_of_ok: "pool_ok env l p \<Longrightarrow> PoolConfig env l = Some (config_of env l) \<and>
    pool_inv (config_of env l) (MaxContainers (config_of env l) + MinContainers (config_of env l)) p"
  by (auto simp: pool_ok_def config_of_def)

interpretation pool_keeps: state_order "\<lambda>p p'. pool_ok env l p \<longrightarrow> pool_ok env l p'" for env :: "'w manager_env" and l
  by unfold_locales auto

lemma io_rel_result: "(\<And>c. io_rel R (f c)) \<Longrightarrow> io_rel R m \<Longrightarrow> io_rel R (case x of Got c \<Rightarrow> f c | MustWait \<Rightarrow> m)"
  by (cases x) auto

lemma get_from_pool_keeps: "io_rel (\<lambda>p p'. pool_ok env l p \<longrightarrow> pool_ok env l p') (get_from_pool env (config_of env l))"
proof -
  have "io_rel (\<lambda>p p'. pool_ok env l p \<longrightarrow> pool_ok env l p') (getContainer (pool_api env) (config_of env l))"
    "io_rel (\<lambda>p p'. pool_ok env l p \<longrightarrow> pool_ok env l p') (getContainer_wake (pool_api env) k)" for k
    by (auto simp: io_rel_def pool_ok_def config_of_def dest: getContainer_inv getContainer_wake_inv)
  then show ?thesis
    unfolding get_from_pool_def by (intro pool_keeps.rel_intros io_rel_result) (simp_all add: io_rel_def io_panic_def)
qed

lemma get_from_pool_ok:
  "pool_ok env l p \<Longrightarrow> get_from_pool env (config_of env l) p = Some (r, p') \<Longrightarrow> pool_ok env l p'"
  using get_from_pool_keeps by (auto dest: io_relD)

lemma GetContainer_keeps: "io_rel (keeps_pools env) (GetContainer env l)"
proof -
  have "io_rel (keeps_pools env) (with_pool l (io_bind (get_from_pool env (config_of env l)) (\<lambda>c. io_get (\<lambda>p. (c, PLanguage (objs p c))))))"
    by (rule with_pool_keeps) (auto simp: io_bind_Some io_get_def dest: get_from_pool_ok)
  then show ?thesis by (auto simp: GetContainer_def when_initialized_def io_rel_def)
qed

lemma ReturnContainer_keeps: "io_rel (keeps_pools env) (ReturnContainer env c)"
proof -
  have "io_rel (keeps_pools env) (with_pool (snd c) (returnContainer (pool_api env) (config_of env (snd c)) (fst c)))"
    by (rule with_pool_keeps) (use config_of_ok returnContainer_inv in \<open>fastforce simp: pool_ok_def\<close>)
  then show ?thesis by (auto simp: ReturnContainer_def when_initialized_def io_rel_def)
qed

lemma failed_cleanup_ok: "pool_inv cfg B p \<Longrightarrow> pool_inv cfg B (failed_cleanup api c p)"
  by (simp add: failed_cleanup_def inv_intros)

lemma MarkContainerAsFailed_keeps: "io_rel (keeps_pools env) (MarkContainerAsFailed env c l e)"
proof -
  have "io_rel (keeps_pools env)
      (with_pool l (io_put (\<lambda>p. if c \<in> containers p then failed_cleanup (pool_api env) c (markContainerAsFailed c e p) else p)))"
    by (rule with_pool_keeps) (auto simp: io_put_def pool_ok_def intro!: failed_cleanup_ok markFailed_inv split: if_splits)
  then show ?thesis by (auto simp: MarkContainerAsFailed_def io_rel_def split: if_splits)
qed

lemma in_docker_keeps: "io_rel (keeps_pools env) (in_docker f)"
  by (auto simp: io_rel_def in_docker_def)

lemma init_pools_keeps: "io_rel (keeps_pools env) (init_pools env ls)"
proof -
  have "manager_inv env m'" if "init_pools env ls m = Some (r, m')" "manager_inv env m" for m r m'
    using that
  proof (induction ls arbitrary: m)
    case Nil
    then show ?case by simp
  next
    case (Cons l ls)
    show ?case
    proof (cases "PoolConfig env l")
      case None
      with Cons show ?thesis by simp
    next
      case (Some cfg)
      obtain x p where x: "initialize (pool_api env) cfg (PoolOrder env) (newContainerPool cfg (BlankObjects env) (mworld m)) = Some (x, p)"
        using Cons.prems(1) Some by (auto split: option.splits sum.splits prod.splits)
      have "pool_ok env l p" using initialize_inv [OF new_pool_inv x] Some by (simp add: pool_ok_def)
      then show ?thesis
        using Cons x Some manager_inv_put [of env m l p "world p"] by (auto split: sum.splits)
    qed
  qed
  then show ?thesis by (auto simp: io_rel_def)
qed

lemma InitializeLanguagePools_keeps: "io_rel (keeps_pools env) (InitializeLanguagePools env ls)"
proof -
  have "io_rel (keeps_pools env) (io_bind (init_pools env ls) (\<lambda>_. io_put (\<lambda>m. m\<lparr>initialized := True\<rparr>)))"
    by (intro mgr_keeps.rel_intros init_pools_keeps) (simp add: manager_inv_def)
  then show ?thesis by (auto simp: InitializeLanguagePools_def io_rel_def)
qed

lemma on_docker_keeps: "io_rel (keeps_pools env) (on_docker f)"
  by (auto simp: io_rel_def on_docker_def split: prod.splits)

text \<open>The same for the pipeline, whose manager only the calls of the manager change.\<close>

abbreviation keeps_manager :: "'w pipeline_env \<Rightarrow> 'w pipeline \<Rightarrow> 'w pipeline \<Rightarrow> bool" where
  "keeps_manager env s s' \<equiv> keeps_pools (Mgr env) (mgr s) (mgr s')"

interpretation pipe_keeps: state_order "keeps_manager env" for env :: "'w pipeline_env"
  by unfold_locales auto

lemma in_mgr_keeps: "io_rel (keeps_pools (Mgr env)) f \<Longrightarrow> io_rel (keeps_manager env) (in_mgr f)"
  by (auto simp: io_rel_def in_mgr_def)

lemma io_rel_prod: "(\<And>a b. io_rel R (f a b)) \<Longrightarrow> io_rel R (case x of (a, b) \<Rightarrow> f a b)"
  by (cases x) simp

lemmas pipe_intros = pipe_keeps.rel_intros in_mgr_keeps in_docker_keeps on_docker_keeps GetContainer_keeps ReturnContainer_keeps
  MarkContainerAsFailed_keeps InitializeLanguagePools_keeps io_rel_prod

lemma note_exec_keeps: "io_rel (keeps_manager env) (note_exec t x c)"
  by (simp add: io_rel_def note_exec_def io_put_def)

lemma end_execution_keeps: "io_rel (keeps_manager env) (end_execution env ctx ok)"
  by (simp add: io_rel_def end_execution_def count_execution_def io_bind_Some io_put_def io_ret_def Let_def)

lemma executeStages_keeps: "io_rel (keeps_manager env) (executeStages env ctx md key)"
  unfolding executeStages_def in_pooled_container_def run_in_container_def by (intro pipe_intros note_exec_keeps)

lemma run_stages_keeps: "io_rel (keeps_manager env) (run_stages env ctx md key)"
  unfolding run_stages_def by (intro pipe_intros executeStages_keeps end_execution_keeps)


lemma execute_keeps: "io_rel (keeps_manager env) (execute env url lang n key md)"
proof -
  have "io_rel (keeps_manager env) (io_bind (register ctx) (\<lambda>_. run_stages env ctx md key))" for ctx
    by (intro pipe_intros run_stages_keeps) (simp add: register_def io_rel_def io_put_def)
  then show ?thesis by (auto simp: execute_def io_rel_def Let_def split: if_splits)
qed

lemma run_source_keeps: "io_rel (keeps_manager env) (run_source env ctx code l key md)"
proof -
  have "io_rel (keeps_manager env) (register ctx)" by (simp add: register_def io_rel_def io_put_def)
  then show ?thesis unfolding run_source_def by (intro pipe_intros run_stages_keeps)
qed

lemma executeSource_keeps: "io_rel (keeps_manager env) (executeSource env code language key md)"
  by (auto simp: executeSource_def io_rel_def Let_def dest: io_relD [OF run_source_keeps] split: if_splits)

lemma cancelExecution_keeps: "io_rel (keeps_manager env) (cancelExecution env trace)"
proof -
  have "io_rel (keeps_manager env) (io_bind (io_put (\<lambda>s. s\<lparr>activeExecutions := f s\<rparr>)) (\<lambda>_.
          io_bind (if b then io_ret (Inr ()) else io_try (in_mgr (in_docker (KillExecProcess (Mgr env) ex)))) (\<lambda>_. io_ret ())))" for f b ex
    by (intro pipe_intros) simp
  then show ?thesis by (auto simp: cancelExecution_def io_rel_def split: option.splits)
qed

text \<open>A run of the code executor: pools are set up, files and sources executed, executions cancelled.\<close>

datatype executor_op = OpInit "Language list" | OpExecute string string int string metadata | OpSource string string string metadata
  | OpCancel string

definition executor_step :: "'w pipeline_env \<Rightarrow> 'w pipeline option \<Rightarrow> executor_op \<Rightarrow> 'w pipeline option" where
  "executor_step env s op =
     Option.bind s (\<lambda>s. case op of
        OpInit ls \<Rightarrow> map_option snd (in_mgr (InitializeLanguagePools (Mgr env) ls) s)
      | OpExecute url lang n key md \<Rightarrow> map_option snd (execute env url lang n key md s)
      | OpSource code lang key md \<Rightarrow> map_option snd (executeSource env code lang key md s)
      | OpCancel trace \<Rightarrow> map_option snd (cancelExecution env trace s))"

definition pools_bounded :: "'w pipeline_env \<Rightarrow> 'w pipeline option \<Rightarrow> bool" where
  "pools_bounded env s \<longleftrightarrow> (case s of None \<Rightarrow> True | Some s \<Rightarrow> manager_inv (Mgr env) (mgr s))"

lemma io_rel_step: "io_rel (keeps_manager env) f \<Longrightarrow> manager_inv (Mgr env) (mgr s) \<Longrightarrow> pools_bounded env (map_option snd (f s))"
  by (cases "f s") (auto simp: pools_bounded_def dest: io_relD)

interpretation executor_sys: step_system "executor_step env" "pools_bounded env" for env :: "'w pipeline_env"
proof
  fix s op
  assume s: "pools_bounded env s"
  show "pools_bounded env (executor_step env s op)"
  proof (cases s)
    case None
    then show ?thesis by (simp add: executor_step_def pools_bounded_def)
  next
    case (Some t)
    with s have "manager_inv (Mgr env) (mgr t)" by (simp add: pools_bounded_def)
    note io_rel_step [OF in_mgr_keeps this] and step = io_rel_step [OF _ this]
    then show ?thesis unfolding executor_step_def Some
      by (cases op) (simp_all add: step execute_keeps executeSource_keeps cancelExecution_keeps in_mgr_keeps InitializeLanguagePools_keeps)
  qed
qed



section \<open>Containers that fail\<close>

lemma with_pool_Some:
  "with_pool l f m = Some (r, m') \<Longrightarrow> pools m l = Some p \<Longrightarrow>
     \<exists>p'. f (p\<lparr>world := mworld m\<rparr>) = Some (r, p') \<and> m' = m\<lparr>pools := (pools m)(l \<mapsto> p'), mworld := world p'\<rparr>"
  by (auto simp: with_pool_def)

definition not_pooled :: "string \<Rightarrow> Language \<Rightarrow> 'w manager \<Rightarrow> bool" where
  "not_pooled c l m \<longleftrightarrow> (\<forall>p. pools m l = Some p \<longrightarrow> c \<notin> containers p)"

lemma marked_not_pooled:
  assumes "MarkContainerAsFailed env c l e m = Some (r, m')" and "initialized m"
  shows "not_pooled c l m' \<and> initialized m'"
proof (cases "pools m l")
  case None
  with assms show ?thesis by (simp add: MarkContainerAsFailed_def not_pooled_def)
next
  case (Some p)
  with assms show ?thesis
    by (auto simp: MarkContainerAsFailed_def with_pool_def io_put_def not_pooled_def failed_cleanup_def markContainerAsFailed_def
        drop_container_def release_token_def Container_Pool.updateStats_def set_status_def Let_def split: if_splits)
qed

text \<open>Only the manager's own calls change the pools.\<close>

lemma in_docker_pools: "in_docker f m = Some (r, m') \<Longrightarrow> pools m' = pools m \<and> initialized m' = initialized m"
  by (auto simp: in_docker_def)

lemma return_not_pooled:
  assumes "ReturnContainer env c m = Some (r, m')" and "not_pooled (fst c) (snd c) m" and "initialized m"
  shows "not_pooled (fst c) (snd c) m'"
proof (cases "pools m (snd c)")
  case None
  with assms show ?thesis by (simp add: ReturnContainer_def when_initialized_def with_pool_def)
next
  case (Some p)
  with assms show ?thesis
    by (auto simp: ReturnContainer_def when_initialized_def with_pool_def returnContainer_def not_pooled_def)
qed

lemma calculateFees_ok: "io_ok (calculateFees env md key)"
proof -
  have "io_ok (on_chain_fees env md key)" "io_ok (aggregator_fee env md key)"
    using on_chain_fees_ok aggregator_fee_ok by (auto simp: io_ok_def)
  moreover have "io_ok (io_call (\<lambda>w. case EthToUSDRate env w of (r, w') \<Rightarrow> (Inr r, w')))"
    by (auto simp: io_ok_def io_call_def split: prod.splits)
  ultimately show ?thesis unfolding calculateFees_def Let_def by (intro io_ok_intros)
qed

lemma processResults_success: "io_triple (\<lambda>_. True) (processResults env result md key) (\<lambda>r s. \<exists>x md'. r = Inr (x, md') \<and> RSuccess x = RSuccess result)"
  by (auto simp: io_triple_def processResults_def io_bind_Some io_ret_def Let_def dest: io_okD [OF calculateFees_ok])

lemma run_in_container_failed:
  "io_triple (\<lambda>s. initialized (mgr s)) (run_in_container env trace c path md key)
     (\<lambda>r s. isl r \<or> (\<exists>x y. r = Inr (x, y) \<and> \<not> RSuccess x) \<longrightarrow> not_pooled (fst c) (snd c) (mgr s) \<and> initialized (mgr s))"
    (is "io_triple _ _ ?Q")
proof -
  let ?I = "\<lambda>s. initialized (mgr s)" and ?N = "\<lambda>s. not_pooled (fst c) (snd c) (mgr s) \<and> initialized (mgr s)"
  have docker: "io_triple ?I (io_try (in_mgr (in_docker f))) (\<lambda>r s. case r of Inl e \<Rightarrow> ?Q (Inl e) s | Inr a \<Rightarrow> ?I s)" for f :: "('a, 'b) io"
    by (auto simp: io_triple_def io_try_Some in_mgr_def dest: in_docker_pools)
  have mark: "io_triple ?I (in_mgr (MarkContainerAsFailed (Mgr env) (fst c) (snd c) e)) (\<lambda>r s. case r of Inl e \<Rightarrow> ?Q (Inl e) s | Inr _ \<Rightarrow> ?N s)" for e
    by (auto simp: io_triple_def in_mgr_def dest: marked_not_pooled split: sum.splits)
  have fail: "io_triple ?N (io_fail e) ?Q" for e by (simp add: io_triple_def io_fail_def)
  have note_id: "io_triple ?I (note_exec trace ex (fst c)) (\<lambda>r s. case r of Inl e \<Rightarrow> ?Q (Inl e) s | Inr _ \<Rightarrow> ?I s)" for ex
    by (simp add: io_triple_def note_exec_def io_put_def)
  have fees: "io_triple (\<lambda>s. RSuccess result \<or> ?N s) (in_mgr (in_docker (processResults env result md key))) ?Q" for result
  proof -
    have "?Q r s'" if pre: "RSuccess result \<or> ?N s"
      and run: "in_mgr (in_docker (processResults env result md key)) s = Some (r, s')" for s r s'
    proof -
      obtain w w' where "processResults env result md key w = Some (r, w')"
        using run by (auto simp: in_mgr_def in_docker_def)
      then have "\<exists>x md'. r = Inr (x, md') \<and> RSuccess x = RSuccess result"
        by (rule io_tripleD [OF processResults_success TrueI])
      then obtain x md' where r: "r = Inr (x, md')" "RSuccess x = RSuccess result" by (elim exE conjE)
      have "pools (mgr s') = pools (mgr s)" "initialized (mgr s') = initialized (mgr s)"
        using run by (auto simp: in_mgr_def dest: in_docker_pools)
      with pre r show ?thesis by (auto simp: not_pooled_def)
    qed
    then show ?thesis unfolding io_triple_def by blast
  qed
  have skip: "io_triple ?I (io_ret ()) (\<lambda>r s. case r of Inl e \<Rightarrow> ?Q (Inl e) s | Inr _ \<Rightarrow> RSuccess result \<or> ?N s)" if "RSuccess result" for result
    using that by (simp add: io_triple_def io_ret_def)
  have unsuccessful: "io_triple ?I (in_mgr (MarkContainerAsFailed (Mgr env) (fst c) (snd c) e))
      (\<lambda>r s. case r of Inl e \<Rightarrow> ?Q (Inl e) s | Inr _ \<Rightarrow> RSuccess result \<or> ?N s)" for e result
    by (rule io_triple_mono [OF mark]) (auto split: sum.split_asm)
  have after: "io_triple ?I (io_bind (note_exec trace ex (fst c)) (\<lambda>_.
      io_bind (if RSuccess result then io_ret () else in_mgr (MarkContainerAsFailed (Mgr env) (fst c) (snd c) (the (RError result)))) (\<lambda>_.
      in_mgr (in_docker (processResults env result md key))))) ?Q" for result ex
    by (rule io_triple_bind [OF note_id], rule io_triple_bind [where R = "\<lambda>_ s. RSuccess result \<or> ?N s"], rule io_triple_if,
        erule skip, rule unsuccessful, rule fees)
  show ?thesis
    unfolding run_in_container_def
  proof (rule io_triple_bind [OF docker], rule io_triple_sum)
    fix e
    show "io_triple ?I (io_bind (in_mgr (MarkContainerAsFailed (Mgr env) (fst c) (snd c) e))
        (\<lambda>_. io_fail (Wrap ''failed to execute code'' e))) ?Q"
      by (rule io_triple_bind [OF mark fail])
  next
    fix z
    show "io_triple ?I (case z of (result, ex) \<Rightarrow> io_bind (note_exec trace ex (fst c)) (\<lambda>_.
      io_bind (if RSuccess result then io_ret () else in_mgr (MarkContainerAsFailed (Mgr env) (fst c) (snd c) (the (RError result)))) (\<lambda>_.
      in_mgr (in_docker (processResults env result md key))))) ?Q"
      by (cases z) (simp only: prod.case after)
  qed
qed

lemma GetContainer_initialized: "GetContainer env l m = Some (Inr c, m') \<Longrightarrow> initialized m'"
  by (auto simp: GetContainer_def when_initialized_def with_pool_def split: if_splits option.splits)


definition broken_pipeline :: "int list pipeline_env" where
  "broken_pipeline = demo_pipeline\<lparr>Mgr := demo_mgr\<lparr>ReadHostFile := \<lambda>_ w. (Inl (GoErr ''gone''), w)\<rparr>\<rparr>"

lemma return_not_pooled_total: "not_pooled (fst c) (snd c) m \<Longrightarrow> \<exists>y m'. ReturnContainer env c m = Some (y, m')"
  by (auto simp: ReturnContainer_def when_initialized_def with_pool_def returnContainer_def not_pooled_def split: option.split)

lemma mark_total: "\<exists>m'. MarkContainerAsFailed env c l e m = Some (Inr (), m')"
  by (auto simp: MarkContainerAsFailed_def with_pool_def io_put_def)

definition ready_manager :: "int list manager" where
  "ready_manager = \<lparr>pools = [LangGo \<mapsto> (newContainerPool (small_cfg 1 0) blank_obj [])
       \<lparr>containers := {''a''}, readyQueue := \<lparr>buf = [''a''], cap = 1\<rparr>\<rparr>], initialized = True, mworld = []\<rparr>"


section \<open>Executions that never reach docker\<close>

text \<open>
  Tasks 1, 3 and 5 have fixed arguments and are not run; neither is a custom script, task 7, whose output is empty.
\<close>

theorem static_and_custom_not_run:
  assumes "execute env url lang n key md s = Some (Inr (x, md'), s')" and "task_definition_id md \<in> {1, 3, 5, 7}"
  shows "ROutput x = [] \<and> RSuccess x \<and> pools (mgr s') = pools (mgr s)"
proof -
  define ctx where "ctx = new_context env url lang n (pworld s)"
  let ?s = "s\<lparr>activeExecutions := (activeExecutions s)(TraceID ctx \<mapsto> ctx)\<rparr>"
  obtain r s1 where stages: "executeStages env ctx md key ?s = Some (r, s1)"
    and e: "io_bind (end_execution env ctx (\<not> isl r))
        (\<lambda>_. case r of Inl e \<Rightarrow> io_fail (Wrap ''execution failed'' e) | Inr y \<Rightarrow> io_ret y) s1 = Some (Inr (x, md'), s')"
    using assms(1)
    by (auto simp: execute_def run_stages_def register_def io_bind_Some [of "io_put g" for g] io_bind_Some [of "io_try g" for g]
        io_put_def io_try_Some ctx_def [symmetric] split: if_splits)
  have r: "r = Inr (x, md')" "mgr s' = mgr s1"
    using e by (auto simp: io_bind_Some io_fail_def io_ret_def end_execution_def count_execution_def io_put_def Let_def split: sum.splits)
  obtain w w' where w: "processResults env (empty_result\<lparr>RSuccess := True\<rparr>) md key w = Some (Inr (x, md'), w')"
    and pools: "pools (mgr s1) = pools (mgr s)"
    using stages r assms(2) by (auto simp: executeStages_def in_mgr_def in_docker_def)
  from w show ?thesis using r(2) pools
    by (auto simp: processResults_def io_bind_Some io_ret_def Let_def empty_result_def)
qed

section \<open>The shutdown\<close>

text \<open>
  \<open>close\<close> takes the pipeline's mutex, refuses new executions, cancels the active ones and waits, with the mutex, until
  they have all ended or 30 seconds are over. An execution takes the mutex to register and to leave; the number of seconds left is part of
  the state, and a second is a step.
\<close>

datatype exec_phase = Entering | Working | Leaving

datatype closer = NotClosing | Closing nat | AllCompleted | ClosedByTimeout

record shutdown =
  phases :: "string \<rightharpoonup> exec_phase"
  closer :: closer
  shut :: bool

definition mutex_free :: "shutdown \<Rightarrow> bool" where
  "mutex_free s \<longleftrightarrow> (case closer s of Closing _ \<Rightarrow> False | _ \<Rightarrow> True)"

inductive shutdown_step :: "shutdown \<Rightarrow> shutdown \<Rightarrow> bool" where
  start: "\<not> shut s \<Longrightarrow> phases s x = None \<Longrightarrow> shutdown_step s (s\<lparr>phases := (phases s)(x \<mapsto> Entering)\<rparr>)"
| enter: "phases s x = Some Entering \<Longrightarrow> mutex_free s \<Longrightarrow> shutdown_step s (s\<lparr>phases := (phases s)(x \<mapsto> Working)\<rparr>)"
| finish: "phases s x = Some Working \<Longrightarrow> shutdown_step s (s\<lparr>phases := (phases s)(x \<mapsto> Leaving)\<rparr>)"
| leave: "phases s x = Some Leaving \<Longrightarrow> mutex_free s \<Longrightarrow> shutdown_step s (s\<lparr>phases := (phases s)(x := None)\<rparr>)"
| close: "\<not> shut s \<Longrightarrow> mutex_free s \<Longrightarrow> shutdown_step s (s\<lparr>closer := Closing 30, shut := True\<rparr>)"
| completed: "closer s = Closing n \<Longrightarrow> phases s = Map.empty \<Longrightarrow> shutdown_step s (s\<lparr>closer := AllCompleted\<rparr>)"
| second: "closer s = Closing (Suc n) \<Longrightarrow> shutdown_step s (s\<lparr>closer := Closing n\<rparr>)"
| timeout: "closer s = Closing 0 \<Longrightarrow> shutdown_step s (s\<lparr>closer := ClosedByTimeout\<rparr>)"

definition waits_in_vain :: "string \<Rightarrow> shutdown \<Rightarrow> bool" where
  "waits_in_vain x s \<longleftrightarrow> shut s \<and> (closer s = ClosedByTimeout \<or> (\<exists>n. closer s = Closing n) \<and> phases s x \<noteq> None)"

lemma waits_in_vain_step: "shutdown_step s s' \<Longrightarrow> waits_in_vain x s \<Longrightarrow> waits_in_vain x s'"
  by (induction rule: shutdown_step.induct) (auto simp: waits_in_vain_def mutex_free_def)

text \<open>
  If one execution is active when \<open>close\<close> begins, the wait can only end with its timeout: the execution needs the mutex to leave, and
  \<open>close\<close> holds it, also when the cancelled execution has long done its work.
\<close>

theorem close_waits_for_timeout:
  assumes "closer s = Closing 30" and "shut s" and "phases s x = Some p" and "shutdown_step\<^sup>*\<^sup>* s s'"
  shows "closer s' = ClosedByTimeout \<or> (\<exists>n. closer s' = Closing n \<and> phases s' x \<noteq> None)"
proof -
  have "waits_in_vain x s'"
    using assms(4)
  proof (induction rule: rtranclp_induct)
    case base
    show ?case using assms(1-3) by (simp add: waits_in_vain_def)
  next
    case (step t u)
    from waits_in_vain_step [OF step(2, 3)] show ?case .
  qed
  then show ?thesis by (auto simp: waits_in_vain_def)
qed

theorem close_waits_for_timeout_witness:
  "closer \<lparr>phases = [''e'' \<mapsto> Leaving], closer = Closing 30, shut = True\<rparr> = ClosedByTimeout \<or>
   (\<exists>n. closer \<lparr>phases = [''e'' \<mapsto> Leaving], closer = Closing 30, shut = True\<rparr> = Closing n \<and>
     phases \<lparr>phases = [''e'' \<mapsto> Leaving], closer = Closing 30, shut = True\<rparr> ''e'' \<noteq> None)"
proof (rule close_waits_for_timeout)
  let ?s = "\<lparr>phases = [''e'' \<mapsto> Working], closer = Closing 30, shut = True\<rparr>"
  show "closer ?s = Closing 30" "shut ?s" "phases ?s ''e'' = Some Working" by simp_all
  have "shutdown_step ?s (?s\<lparr>phases := (phases ?s)(''e'' \<mapsto> Leaving)\<rparr>)" by (rule finish) simp
  then show "shutdown_step\<^sup>*\<^sup>* ?s \<lparr>phases = [''e'' \<mapsto> Leaving], closer = Closing 30, shut = True\<rparr>" by simp
qed

end
