(* ===== verification/Execution_Monitor.thy ===== *)
theory Execution_Monitor
  imports Execution_Pipeline Exchange_Sort
begin

text \<open>
  The monitor of the code executor (\<open>pkg/dockerexecutor/execution/monitor.go\<close>): at every tick it looks at the active executions and the statistics of
  the pipeline and raises alerts; the alerts of the last hours make the health score. The clock stands still during
  a call. The active executions are ranged over in the order of a list.
\<close>

record Alert =
  AlertType :: string
  Message :: string
  Severity :: string
  Timestamp :: int

record MonitoringConfig =
  CfgMaxExecutionTime :: int
  CfgMinSuccessRate :: float64
  CfgMaxAverageExecutionTime :: int
  CfgMaxAlerts :: nat
  CfgAlertRetentionTime :: int
  CfgCriticalAlertPenalty :: float64
  CfgWarningAlertPenalty :: float64
  CfgCritical :: float64
  CfgWarning :: float64

record executionMonitor =
  alerts :: "Alert list"
  metrics :: PerformanceMetrics

record HealthStatus =
  HStatus :: string
  Score :: float64
  LastCheck :: int
  HAlerts :: "Alert list"
  HMetrics :: PerformanceMetrics

definition newExecutionMonitor :: executionMonitor where
  "newExecutionMonitor = \<lparr>alerts = [], metrics = no_metrics\<rparr>"

definition createAlert :: "MonitoringConfig \<Rightarrow> int \<Rightarrow> string \<Rightarrow> string \<Rightarrow> string \<Rightarrow> executionMonitor \<Rightarrow> executionMonitor" where
  "createAlert cfg now alertType message severity m =
     (let as = alerts m @ [\<lparr>AlertType = alertType, Message = message, Severity = severity, Timestamp = now\<rparr>]
      in m\<lparr>alerts := (if CfgMaxAlerts cfg < length as then drop (length as - CfgMaxAlerts cfg) as else as)\<rparr>)"

definition updateMetrics :: "PerformanceMetrics \<Rightarrow> executionMonitor \<Rightarrow> executionMonitor" where
  "updateMetrics st m = m\<lparr>metrics := st\<rparr>"

definition check_stuck :: "MonitoringConfig \<Rightarrow> (int \<Rightarrow> string) \<Rightarrow> int \<Rightarrow> ExecutionContext \<Rightarrow> executionMonitor \<Rightarrow> executionMonitor" where
  "check_stuck cfg durationText now x m =
     (if CfgMaxExecutionTime cfg < now - StartedAt x
      then createAlert cfg now ''execution_timeout''
        (''Execution '' @ TraceID x @ '' has exceeded max time: '' @ durationText (now - StartedAt x)) ''warning'' m
      else m)"

definition success_rate :: "PerformanceMetrics \<Rightarrow> float64" where
  "success_rate st = f64_div (f64_of_i64 (SuccessfulExecutions st)) (f64_of_i64 (TotalExecutions st))"

definition check_rate :: "MonitoringConfig \<Rightarrow> int \<Rightarrow> PerformanceMetrics \<Rightarrow> executionMonitor \<Rightarrow> executionMonitor" where
  "check_rate cfg now st m =
     (if 0 < TotalExecutions st \<and> success_rate st < CfgMinSuccessRate cfg
      then createAlert cfg now ''low_success_rate''
        (''Success rate is low: '' @ format_fixed 2 (f64_mult (success_rate st) 100) @ ''%'') ''error'' m
      else m)"

definition check_average :: "MonitoringConfig \<Rightarrow> (int \<Rightarrow> string) \<Rightarrow> int \<Rightarrow> PerformanceMetrics \<Rightarrow> executionMonitor \<Rightarrow> executionMonitor" where
  "check_average cfg durationText now st m =
     (if CfgMaxAverageExecutionTime cfg < AverageExecutionTime st
      then createAlert cfg now ''high_execution_time''
        (''Average execution time is high: '' @ durationText (AverageExecutionTime st)) ''warning'' m
      else m)"

definition performHealthCheck :: "MonitoringConfig \<Rightarrow> (int \<Rightarrow> string) \<Rightarrow> int \<Rightarrow> ExecutionContext list \<Rightarrow> PerformanceMetrics
    \<Rightarrow> executionMonitor \<Rightarrow> executionMonitor" where
  "performHealthCheck cfg durationText now active st m =
     updateMetrics st (check_average cfg durationText now st (check_rate cfg now st
       (fold (check_stuck cfg durationText now) active m)))"

definition recent :: "MonitoringConfig \<Rightarrow> int \<Rightarrow> Alert \<Rightarrow> bool" where
  "recent cfg now a \<longleftrightarrow> now - Timestamp a < CfgAlertRetentionTime cfg"

definition count_severity :: "MonitoringConfig \<Rightarrow> int \<Rightarrow> string \<Rightarrow> executionMonitor \<Rightarrow> nat" where
  "count_severity cfg now sev m = length (filter (\<lambda>a. recent cfg now a \<and> Severity a = sev) (alerts m))"

definition getRecentAlerts :: "MonitoringConfig \<Rightarrow> int \<Rightarrow> executionMonitor \<Rightarrow> Alert list" where
  "getRecentAlerts cfg now m = filter (\<lambda>a. now - CfgAlertRetentionTime cfg < Timestamp a) (alerts m)"

definition health_score :: "MonitoringConfig \<Rightarrow> nat \<Rightarrow> nat \<Rightarrow> float64" where
  "health_score cfg critical warning =
     (let s1 = f64_add 100 (- f64_mult (f64_of_i64 (int critical)) (CfgCriticalAlertPenalty cfg));
          s2 = f64_add s1 (- f64_mult (f64_of_i64 (int warning)) (CfgWarningAlertPenalty cfg))
      in if s2 < 0 then 0 else s2)"

definition getHealthStatus :: "MonitoringConfig \<Rightarrow> int \<Rightarrow> executionMonitor \<Rightarrow> HealthStatus" where
  "getHealthStatus cfg now m =
     (let score = health_score cfg (count_severity cfg now ''error'' m) (count_severity cfg now ''warning'' m)
      in \<lparr>HStatus = (if score < CfgCritical cfg then ''critical'' else if score < CfgWarning cfg then ''warning'' else ''healthy''),
          Score = score, LastCheck = now, HAlerts = getRecentAlerts cfg now m, HMetrics = metrics m\<rparr>)"

text \<open>\<open>getAlerts\<close> sorts by the time, newest first.\<close>

definition swap_alerts :: "nat \<Rightarrow> nat \<Rightarrow> Alert list \<Rightarrow> Alert list" where
  "swap_alerts i j xs = (if Timestamp (xs ! i) < Timestamp (xs ! j) then xs[i := xs ! j, j := xs ! i] else xs)"

definition sort_alerts :: "Alert list \<Rightarrow> Alert list" where
  "sort_alerts xs = fold (\<lambda>i ys. fold (swap_alerts i) [Suc i..<length xs] ys) [0..<length xs - 1] xs"

definition getAlerts :: "string \<Rightarrow> int \<Rightarrow> executionMonitor \<Rightarrow> Alert list" where
  "getAlerts severity limit m =
     (let found = sort_alerts (filter (\<lambda>a. severity = [] \<or> Severity a = severity) (alerts m))
      in if 0 < limit \<and> limit < int (length found) then take (nat limit) found else found)"

definition clearAlerts :: "executionMonitor \<Rightarrow> executionMonitor" where
  "clearAlerts m = m\<lparr>alerts := []\<rparr>"

section \<open>Alerts\<close>

interpretation alert_sort: exchange_sort "\<lambda>a. - Timestamp a" swap_alerts
  by unfold_locales (simp add: swap_alerts_def)

lemma sort_alerts_loops: "sort_alerts = alert_sort.sort_loops"
  by (simp add: fun_eq_iff sort_alerts_def alert_sort.sort_loops_def)

lemma createAlert_bounded: "length (alerts (createAlert cfg now t msg sev m)) \<le> max (CfgMaxAlerts cfg) (Suc (length (alerts m)))"
  "length (alerts m) \<le> CfgMaxAlerts cfg \<Longrightarrow> length (alerts (createAlert cfg now t msg sev m)) \<le> CfgMaxAlerts cfg"
  by (auto simp: createAlert_def Let_def)

text \<open>The monitor never keeps more alerts than its configuration says.\<close>

theorem alerts_bounded:
  "length (alerts m) \<le> CfgMaxAlerts cfg \<Longrightarrow> length (alerts (performHealthCheck cfg dt now active st m)) \<le> CfgMaxAlerts cfg"
proof -
  assume m: "length (alerts m) \<le> CfgMaxAlerts cfg"
  have "length (alerts (fold (check_stuck cfg dt now) active m)) \<le> CfgMaxAlerts cfg"
    using m by (induction active arbitrary: m) (auto simp: check_stuck_def createAlert_bounded(2))
  then show ?thesis
    by (simp add: performHealthCheck_def updateMetrics_def check_average_def check_rate_def createAlert_bounded(2))
qed

theorem newest_alerts_first:
  "sorted_wrt (\<lambda>a b. Timestamp b \<le> Timestamp a) (getAlerts severity limit m) \<and>
   set (getAlerts severity limit m) \<subseteq> {a \<in> set (alerts m). severity = [] \<or> Severity a = severity} \<and>
   (limit \<le> 0 \<longrightarrow> mset (getAlerts severity limit m) = mset (filter (\<lambda>a. severity = [] \<or> Severity a = severity) (alerts m)))"
proof -
  define found where "found = filter (\<lambda>a. severity = [] \<or> Severity a = severity) (alerts m)"
  have "sorted_wrt (\<lambda>a b. Timestamp b \<le> Timestamp a) (sort_alerts found)"
    using alert_sort.sort_sorted [of found] by (simp add: sort_alerts_loops sorted_map)
  moreover have mset: "mset (sort_alerts found) = mset found" by (simp add: sort_alerts_loops alert_sort.sort_mset)
  moreover have "set (sort_alerts found) = set found" using mset_eq_setD [OF mset] .
  moreover have found: "set found = {a \<in> set (alerts m). severity = [] \<or> Severity a = severity}" by (auto simp: found_def)
  moreover have cut: "getAlerts severity limit m =
      (if 0 < limit \<and> limit < int (length (sort_alerts found)) then take (nat limit) (sort_alerts found) else sort_alerts found)"
    by (simp add: getAlerts_def found_def Let_def)
  ultimately have "sorted_wrt (\<lambda>a b. Timestamp b \<le> Timestamp a) (getAlerts severity limit m)"
    "set (getAlerts severity limit m) \<subseteq> set found" "limit \<le> 0 \<longrightarrow> mset (getAlerts severity limit m) = mset found"
    by (auto simp: sorted_wrt_take dest: in_set_takeD)
  then show ?thesis unfolding found by (simp add: found_def)
qed

text \<open>
  Since a failed execution is counted as a successful one too, a limit of one half or less on the success rate never raises an
  alert, even if every execution fails.
\<close>

theorem low_success_unseen:
  assumes "execute_all env qs (newExecutionPipeline mg) = Some (rs, s)" and "length qs < 2 ^ 51" and "CfgMinSuccessRate cfg \<le> 1 / 2"
  shows "check_rate cfg now (pstats s) m = m"
proof -
  let ?g = "SuccessfulExecutions (pstats s)" and ?t = "TotalExecutions (pstats s)"
  have len: "int (length qs) < 2 ^ 51" using assms(2) by (metis of_nat_less_iff of_nat_numeral of_nat_power)
  then have "2 * int (length qs) < 2 ^ 63" by simp
  from counts_after_executions [OF assms(1) this] have g: "?g = int (length qs)" and t: "?t \<le> 2 * ?g" by simp_all
  have "1 / 2 \<le> success_rate (pstats s)" if "0 < ?t"
  proof -
    have "0 \<le> ?g" "?g \<le> 2 ^ 53" "0 \<le> ?t" "?t \<le> 2 ^ 53" using len g t that by auto
    then have "f64_of_i64 ?g = of_int ?g" "f64_of_i64 ?t = of_int ?t" unfolding f64_of_i64_def by (simp_all only: f64_of_int_exact)
    moreover have "(of_int ?t :: rat) \<le> of_int (2 * ?g)" using t by (simp only: of_int_le_iff)
    then have "(1 :: rat) / 2 \<le> of_int ?g / of_int ?t" using that by (simp add: field_simps)
    then have "f64 (1 / 2) \<le> f64 (of_int ?g / of_int ?t)" by (intro f64_mono) auto
    moreover have "f64 (1 / 2) = 1 / 2" using f64_quarter [of 2] by simp
    ultimately show ?thesis by (simp add: success_rate_def f64_div_def)
  qed
  with assms(3) show ?thesis by (auto simp: check_rate_def)
qed

end
