(* ===== verification/Code_Files.thy ===== *)
theory Code_Files
  imports Execution_Pipeline File_Cache
begin

text \<open>
  Where the pipeline gets its files from (\<open>pkg/dockerexecutor/file\<close>: \<open>downloader.go\<close>, \<open>validator.go\<close>, \<open>manager.go\<close>): a file is taken from the \<open>File_Cache\<close> or
  downloaded into it, and validated each time it is used: its size, its extension and a score of its text. The file system is the
  cache's; a download answers with a status code and a body that may fail to be read. The texts of lists of
  messages, \<open>%v\<close>, are put together with spaces between brackets.
\<close>

section \<open>The score of a text\<close>

text \<open>\<open>strings.Count\<close> for a text that is not empty: occurrences that do not overlap.\<close>

function Count :: "string \<Rightarrow> string \<Rightarrow> nat" where
  "Count sub s =
     (if sub = [] \<or> length s < length sub then 0
      else if prefix sub s then Suc (Count sub (drop (length sub) s))
      else Count sub (tl s))"
  by pat_completeness auto
termination
  by (relation "measure (\<lambda>(sub, s). length s)") (auto simp: length_greater_0_conv [symmetric] simp del: length_greater_0_conv)

declare Count.simps [simp del]

definition count_all :: "string list \<Rightarrow> string \<Rightarrow> float64" where
  "count_all subs s = f64_of_i64 (int (sum_list (map (\<lambda>sub. Count sub s) subs)))"

definition function_marks :: "string list" where
  "function_marks =
     [''func '', ''def '', ''class '', ''async def '', ''lambda '', ''function '', ''function*'', ''async function'', ''() =>'', ''=> {'',
      ''constructor('', ''get '', ''set '']"

definition import_marks :: "string list" where
  "import_marks =
     [''import '', ''import('', ''from '', ''import '', ''require('', ''import {'', ''import * as'', ''import type'', ''export {'', ''export *'',
      ''export default'']"

definition control_marks :: "string list" where
  "control_marks =
     [''for '', ''while '', ''if '', ''else '', ''elif '', ''switch '', ''case '', ''default:'', ''try '', ''catch '', ''except '', ''finally '',
      ''with '', ''range '', ''select '', ''go '', ''defer '', ''for '', ''async for '', ''async with '', ''do {'', ''await '', ''yield '']"

definition calculateContentComplexity :: "string \<Rightarrow> float64" where
  "calculateContentComplexity content =
     (if content = [] then 0
      else
        let sizeKB = f64_div (f64_of_i64 (int (length content))) 1024;
            numLines = f64_of_i64 (int (Count [CHR 0x0A] content) + 1);
            depth = f64_of_i64 (int (Count ''{'' content) - int (Count ''}'' content));
            nestingDepth = (if depth < 0 then 0 else depth);
            term = (\<lambda>x weight. f64_mult x (f64 weight))
        in f64_add (f64_add (f64_add (f64_add (f64_add
             (term sizeKB (1 / 20)) (term numLines (1 / 50)))
             (term (count_all function_marks content) (4 / 5)))
             (term (count_all import_marks content) (3 / 10)))
             (term (count_all control_marks content) (2 / 5)))
             (term nestingDepth (1 / 2)))"

section \<open>Validation\<close>

record ValidationResult =
  IsValid :: bool
  Errors :: "string list"
  Warnings :: "string list"
  Complexity :: float64

record 'w file_env =
  FS :: "'w fs_api"
  MapOrder :: "file_map \<Rightarrow> string list"
  MaxFileSize :: int
  AllowedExtensions :: "string list"
  MaxComplexity :: float64
  HttpFetch :: "string \<Rightarrow> 'w \<Rightarrow> (go_error + int \<times> (go_error + string)) \<times> 'w"
  FileClock :: "'w \<Rightarrow> int"

text \<open>An error is added; the file is no longer valid.\<close>

definition reject :: "string \<Rightarrow> ValidationResult \<Rightarrow> ValidationResult" where
  "reject e r = r\<lparr>IsValid := False, Errors := Errors r @ [e]\<rparr>"

definition check_size :: "'w file_env \<Rightarrow> int \<Rightarrow> ValidationResult \<Rightarrow> ValidationResult" where
  "check_size env n r =
     (if n = 0 then reject ''file is empty'' r
      else
        let r1 = (if MaxFileSize env < n
                  then reject (''file size '' @ show_int n @ '' bytes exceeds limit '' @ show_int (MaxFileSize env) @ '' bytes'') r else r)
        in if quot_go (MaxFileSize env) 2 < n
           then r1\<lparr>Warnings := Warnings r1 @ [''file size '' @ show_int n @ '' bytes is over 50% of the limit'']\<rparr> else r1)"

definition validateFileSize :: "'w file_env \<Rightarrow> string \<Rightarrow> ValidationResult \<Rightarrow> ('w fileCache, ValidationResult) io" where
  "validateFileSize env path r =
     io_bind (io_wrap ''failed to get file info'' (io_call (on_fs (Stat (FS env) path)))) (\<lambda>info.
     io_ret (check_size env (InfoSize info) r))"

definition validateFileExtension :: "'w file_env \<Rightarrow> string \<Rightarrow> ValidationResult \<Rightarrow> ValidationResult" where
  "validateFileExtension env path r =
     (if file_ext path \<in> set (AllowedExtensions env) then r else reject (''file extension not allowed: '' @ file_ext path) r)"

definition calculateComplexity :: "'w file_env \<Rightarrow> string \<Rightarrow> ('w fileCache, float64) io" where
  "calculateComplexity env path =
     io_bind (io_try (io_call (on_fs (ReadFile (FS env) path)))) (\<lambda>content.
     io_ret (case content of Inl e \<Rightarrow> 0 | Inr text \<Rightarrow> calculateContentComplexity text))"

definition validateFile :: "'w file_env \<Rightarrow> string \<Rightarrow> ('w fileCache, ValidationResult) io" where
  "validateFile env path =
     io_bind (validateFileSize env path \<lparr>IsValid = True, Errors = [], Warnings = [], Complexity = 0\<rparr>) (\<lambda>r.
     io_bind (calculateComplexity env path) (\<lambda>complexity.
     let r1 = (validateFileExtension env path r)\<lparr>Complexity := complexity\<rparr> in
     io_ret (if MaxComplexity env < complexity
             then reject (''file complexity '' @ format_fixed 2 complexity @ '' exceeds limit '' @ format_fixed 2 (MaxComplexity env)) r1
             else r1)))"

section \<open>Downloads\<close>

record downloadResult =
  FilePath :: string
  Content :: string
  ResultHash :: string
  ResultSize :: int
  IsCached :: bool
  Validation :: ValidationResult

definition downloadContent :: "'w file_env \<Rightarrow> string \<Rightarrow> 'w \<Rightarrow> (go_error + string) \<times> 'w" where
  "downloadContent env url w =
     (case HttpFetch env url w of
        (Inl e, w') \<Rightarrow> (Inl (Wrap ''failed to download file'' e), w')
      | (Inr (status, body), w') \<Rightarrow>
          if status \<noteq> 200 then (Inl (GoErr (''unexpected status code: '' @ show_int status)), w')
          else (case body of
              Inl e \<Rightarrow> (Inl (Wrap ''failed to read response body'' e), w')
            | Inr content \<Rightarrow> (Inr content, w')))"

definition downloadFile :: "'w file_env \<Rightarrow> string \<Rightarrow> string \<Rightarrow> string \<Rightarrow> ('w fileCache, downloadResult) io" where
  "downloadFile env key url lang =
     io_bind (io_wrap ''failed to download or store file in cache''
       (io_call (getOrDownloadFile (FS env) (MapOrder env) key lang (downloadContent env url)))) (\<lambda>path.
     io_bind (io_wrap ''failed to read downloaded file'' (io_call (on_fs (ReadFile (FS env) path)))) (\<lambda>content.
     io_bind (io_wrap ''failed to validate content'' (validateFile env path)) (\<lambda>v.
     if \<not> IsValid v then
       io_ret \<lparr>FilePath = [], Content = content, ResultHash = [], ResultSize = 0, IsCached = False, Validation = v\<rparr>
     else
       io_bind (io_wrap ''failed to get file info'' (io_call (on_fs (Stat (FS env) path)))) (\<lambda>info.
       io_ret \<lparr>FilePath = path, Content = content, ResultHash = key, ResultSize = InfoSize info, IsCached = True, Validation = v\<rparr>))))"

section \<open>The file manager\<close>

record 'w file_manager =
  cache :: "'w fileCache"
  fstats :: PerformanceMetrics

definition updateStats_f :: "int \<Rightarrow> bool \<Rightarrow> int \<Rightarrow> PerformanceMetrics \<Rightarrow> PerformanceMetrics" where
  "updateStats_f now success duration st =
     (let good = (if success then i64 (SuccessfulExecutions st + 1) else SuccessfulExecutions st)
      in st\<lparr>TotalExecutions := i64 (TotalExecutions st + 1), LastExecution := now, SuccessfulExecutions := good,
           FailedExecutions := (if success then FailedExecutions st else i64 (FailedExecutions st + 1)),
           MinExecutionTime := (if MinExecutionTime st = 0 \<or> duration < MinExecutionTime st then duration else MinExecutionTime st),
           MaxExecutionTime := (if MaxExecutionTime st < duration then duration else MaxExecutionTime st),
           AverageExecutionTime :=
             (if 0 < good then quot_go (i64 (i64 (AverageExecutionTime st * (good - 1)) + duration)) good else duration)\<rparr>)"

fun spaced :: "string list \<Rightarrow> string" where
  "spaced [] = []"
| "spaced [x] = x"
| "spaced (x # xs) = x @ '' '' @ spaced xs"

definition show_list_v :: "string list \<Rightarrow> string" where
  "show_list_v xs = ''['' @ spaced xs @ '']''"

definition show_bool :: "bool \<Rightarrow> string" where
  "show_bool b = (if b then ''true'' else ''false'')"

definition file_metadata :: "downloadResult \<Rightarrow> metadata" where
  "file_metadata r =
     (if \<not> IsValid (Validation r) then
        [''validation_errors'' \<mapsto> show_list_v (Errors (Validation r)), ''is_cached'' \<mapsto> show_bool (IsCached r)]
      else
        [''file_path'' \<mapsto> FilePath r, ''file_hash'' \<mapsto> ResultHash r, ''file_size'' \<mapsto> show_int (ResultSize r),
         ''is_cached'' \<mapsto> show_bool (IsCached r), ''complexity'' \<mapsto> format_fixed 2 (Complexity (Validation r)),
         ''warnings'' \<mapsto> show_list_v (Warnings (Validation r))])"

definition GetOrDownload_f :: "'w file_env \<Rightarrow> string \<Rightarrow> string \<Rightarrow> 'w file_manager \<Rightarrow> ((go_error + metadata) \<times> 'w file_manager) option" where
  "GetOrDownload_f env url lang fm =
     (let t0 = FileClock env (File_Cache.world (cache fm));
          finish = (\<lambda>ok c. fm\<lparr>cache := c, fstats := (let now = FileClock env (File_Cache.world c) in updateStats_f now ok (now - t0) (fstats fm))\<rparr>)
      in case downloadFile env url url lang (cache fm) of
           None \<Rightarrow> None
         | Some (Inl e, c) \<Rightarrow> Some (Inl (Wrap ''failed to download file'' e), finish False c)
         | Some (Inr r, c) \<Rightarrow> Some (Inr (file_metadata r), finish (IsValid (Validation r)) c))"

section \<open>Only valid files get a path\<close>

lemma reject_invalid [simp]: "\<not> IsValid (reject e r)"
  by (simp add: reject_def)

lemma check_size_valid: "IsValid (check_size env n r) \<longleftrightarrow> IsValid r \<and> n \<noteq> 0 \<and> n \<le> MaxFileSize env"
  by (auto simp: check_size_def Let_def)

lemma validateFile_steps:
  assumes "validateFile env path c = Some (Inr v, c')"
  shows "\<exists>info w1 body w2. Stat (FS env) path (File_Cache.world c) = (Inr info, w1) \<and> ReadFile (FS env) path w1 = (body, w2) \<and>
    Complexity v = (case body of Inl e \<Rightarrow> 0 | Inr s \<Rightarrow> calculateContentComplexity s) \<and>
    (IsValid v \<longleftrightarrow> InfoSize info \<noteq> 0 \<and> InfoSize info \<le> MaxFileSize env \<and> file_ext path \<in> set (AllowedExtensions env) \<and>
       Complexity v \<le> MaxComplexity env)"
proof -
  let ?r0 = "\<lparr>IsValid = True, Errors = [], Warnings = [], Complexity = 0\<rparr>"
  obtain r c1 x where r: "validateFileSize env path ?r0 c = Some (Inr r, c1)" and x: "calculateComplexity env path c1 = Some (Inr x, c')"
    and v: "v = (let r1 = (validateFileExtension env path r)\<lparr>Complexity := x\<rparr> in if MaxComplexity env < x
      then reject (''file complexity '' @ format_fixed 2 x @ '' exceeds limit '' @ format_fixed 2 (MaxComplexity env)) r1 else r1)"
    using assms by (auto simp: validateFile_def io_bind_Some io_ret_def Let_def split del: if_split)
  obtain info w1 where info: "Stat (FS env) path (File_Cache.world c) = (Inr info, w1)" "File_Cache.world c1 = w1"
    and r': "r = check_size env (InfoSize info) ?r0"
    using r by (auto simp: validateFileSize_def io_bind_Some io_call_def io_ret_def on_fs_def io_wrap_Inr split: prod.splits)
  obtain body w2 where body: "ReadFile (FS env) path w1 = (body, w2)" "x = (case body of Inl e \<Rightarrow> 0 | Inr s \<Rightarrow> calculateContentComplexity s)"
    using x info(2) by (auto simp: calculateComplexity_def io_bind_Some io_try_Some io_call_def io_ret_def on_fs_def split: prod.splits)
  have "Complexity v = x" by (simp add: v Let_def reject_def)
  moreover have "IsValid v \<longleftrightarrow> IsValid r \<and> file_ext path \<in> set (AllowedExtensions env) \<and> x \<le> MaxComplexity env"
    by (auto simp: v Let_def validateFileExtension_def reject_def)
  moreover have "IsValid r \<longleftrightarrow> InfoSize info \<noteq> 0 \<and> InfoSize info \<le> MaxFileSize env" by (simp add: r' check_size_valid)
  ultimately show ?thesis using info(1) body by blast
qed


text \<open>A file system that has every file, with one character in it.\<close>

definition tiny_fs :: "unit fs_api" where
  "tiny_fs = \<lparr>Stat = (\<lambda>_ w. (Inr \<lparr>InfoSize = 1, ModTime = 0\<rparr>, w)), MkdirAll = (\<lambda>_ w. (Inr (), w)), ReadDir = (\<lambda>_ w. (Inr [], w)),
     ReadFile = (\<lambda>_ w. (Inr ''x'', w)), WriteFile = (\<lambda>_ _ w. (Inr (), w)), Remove = (\<lambda>_ w. (Inr (), w)), IsNotExist = (\<lambda>_. False),
     Now = (\<lambda>_. 0), MarshalIndent = (\<lambda>_. Inr ''{}''), Unmarshal = (\<lambda>_. Inr [])\<rparr>"

definition tiny_files :: "unit file_env" where
  "tiny_files = \<lparr>FS = tiny_fs, MapOrder = (\<lambda>_. []), MaxFileSize = 10, AllowedExtensions = [''.go''], MaxComplexity = 50,
     HttpFetch = (\<lambda>_ w. (Inr (200, Inr ''x''), w)), FileClock = (\<lambda>_. 0)\<rparr>"

definition tiny_manager :: "unit file_manager" where
  "tiny_manager = \<lparr>cache = \<lparr>cacheDir = ''/c'', files = [''u'' \<mapsto> \<lparr>Path = ''/c/u.go'', Hash = ''u'', LastAccessed = 0, FileSize = 1, CreatedAt = 0\<rparr>],
       MaxCacheSize = 10, stats = \<lparr>HitCount = 0, MissCount = 0, HitRate = 0, Size = 1, MaxSize = 10, ItemCount = 1, EvictionCount = 0\<rparr>,
       world = ()\<rparr>, fstats = no_metrics\<rparr>"

lemma tiny_score: "calculateContentComplexity ''x'' \<le> 50"
proof -
  have "count_all function_marks ''x'' = 0" "count_all import_marks ''x'' = 0" "count_all control_marks ''x'' = 0"
    by (simp_all add: count_all_def f64_of_i64_def function_marks_def import_marks_def control_marks_def Count.simps)
  moreover have "Count [CHR 0x0A] ''x'' = 0" "Count ''{'' ''x'' = 0" "Count ''}'' ''x'' = 0" by (simp_all add: Count.simps)
  moreover have "f64_add (f64_add (f64_add (f64_add (f64_add
             (f64_mult (f64_div 1 1024) (f64 (1 / 20))) (f64_mult 1 (f64 (1 / 50)))) 0) 0) 0) 0 \<le> 50" by code_simp
  ultimately show ?thesis by (simp add: calculateContentComplexity_def f64_of_i64_def f64_mult_def)
qed


end
