(* ===== verification/Monitor_Database.thy ===== *)
theory Monitor_Database
  imports Task_Types Queries
begin

text \<open>
  What the task monitor writes into the database (\<open>internal/taskmonitor/clients/database/task.go\<close>, with the queries of \<open>queries/task.go\<close>). A
  query is a field of \<open>monitor_db\<close>, over a world of any type: a query for a row says whether \<open>Scan\<close> has found one, which it also denies when the
  query has failed; an update succeeds or fails. \<open>tables\<close> is what the database holds, and \<open>implements\<close> the documented behaviour of the queries: reads
  change nothing and find what is there, or nothing; updates have their effect on success and may have it on failure. The errors of
  closing an iterator are only logged.
\<close>

section \<open>Data\<close>

record TaskSubmissionData =
  SuTaskID :: int
  TaskNumber :: int
  SuTaskDefinitionID :: int
  IsAccepted :: bool
  TaskSubmissionTxHash :: string
  PerformerAddress :: string
  AttesterIds :: "int list"
  ExecutionTxHash :: string
  SuExecutionTimestamp :: int
  TaskOpxCost :: float64
  SuProofOfTask :: string
  SuData :: string
  SuConvertedArguments :: "json list"

record 'w monitor_db =
  ScanKeeperID :: "string \<Rightarrow> 'w \<Rightarrow> int option \<times> 'w"
  ScanTaskCost :: "int \<Rightarrow> 'w \<Rightarrow> (float64 \<times> int option) option \<times> 'w"
  ScanTaskStatus :: "int \<Rightarrow> 'w \<Rightarrow> string option \<times> 'w"
  ScanUserOfJob :: "int option \<Rightarrow> 'w \<Rightarrow> int option \<times> 'w"
  ScanAttester :: "int \<Rightarrow> 'w \<Rightarrow> (int \<times> float64 \<times> float64 \<times> int) option \<times> 'w"
  ScanPerformer :: "int \<Rightarrow> 'w \<Rightarrow> (float64 \<times> float64 \<times> int) option \<times> 'w"
  ScanUserPoints :: "int \<Rightarrow> 'w \<Rightarrow> (float64 \<times> int) option \<times> 'w"
  ScanJobCost :: "int option \<Rightarrow> 'w \<Rightarrow> float64 option \<times> 'w"
  ScanEmail :: "int \<Rightarrow> 'w \<Rightarrow> string option \<times> 'w"
  ScanJobID :: "int \<Rightarrow> 'w \<Rightarrow> int option option \<times> 'w"
  ScanTaskDefinition :: "int \<Rightarrow> 'w \<Rightarrow> int option \<times> 'w"
  ExecSubmission :: "TaskSubmissionData \<Rightarrow> int \<Rightarrow> string list \<Rightarrow> 'w \<Rightarrow> (go_error + unit) \<times> 'w"
  ExecFailed :: "int \<Rightarrow> 'w \<Rightarrow> (go_error + unit) \<times> 'w"
  ExecError :: "string \<Rightarrow> int \<Rightarrow> 'w \<Rightarrow> (go_error + unit) \<times> 'w"
  ExecAttester :: "float64 \<Rightarrow> int \<Rightarrow> int \<Rightarrow> 'w \<Rightarrow> (go_error + unit) \<times> 'w"
  ExecPerformer :: "float64 \<Rightarrow> int \<Rightarrow> int \<Rightarrow> 'w \<Rightarrow> (go_error + unit) \<times> 'w"
  ExecUser :: "float64 \<Rightarrow> int \<Rightarrow> int \<Rightarrow> int \<Rightarrow> 'w \<Rightarrow> (go_error + unit) \<times> 'w"
  ExecJobCost :: "float64 \<Rightarrow> int option \<Rightarrow> 'w \<Rightarrow> (go_error + unit) \<times> 'w"
  ExecStorage :: "int option \<Rightarrow> string \<Rightarrow> string \<Rightarrow> int \<Rightarrow> 'w \<Rightarrow> (go_error + unit) \<times> 'w"
  MonitorClock :: "'w \<Rightarrow> int"
  ShowValue :: "json \<Rightarrow> string"

text \<open>\<open>Scan\<close>, and the error of the caller when it finds nothing.\<close>

definition scan :: "string \<Rightarrow> ('w \<Rightarrow> 'a option \<times> 'w) \<Rightarrow> ('w, 'a) io" where
  "scan msg q w = (case q w of (None, w') \<Rightarrow> Some (Inl (GoErr msg), w') | (Some r, w') \<Rightarrow> Some (Inr r, w'))"

section \<open>The status of a task\<close>

fun GetKeeperIds :: "'w monitor_db \<Rightarrow> string list \<Rightarrow> ('w, int list) io" where
  "GetKeeperIds db [] = io_ret []"
| "GetKeeperIds db (a # as) =
     io_bind (scan (''keeper not found for address '' @ lower a) (ScanKeeperID db (lower a))) (\<lambda>k.
     io_bind (GetKeeperIds db as) (\<lambda>ks. io_ret (k # ks)))"

definition UpdateTaskSubmissionData :: "'w monitor_db \<Rightarrow> TaskSubmissionData \<Rightarrow> ('w, unit) io" where
  "UpdateTaskSubmissionData db d =
     io_bind (GetKeeperIds db [PerformerAddress d]) (\<lambda>performerId.
     io_call (ExecSubmission db d (hd performerId) (map (ShowValue db) (SuConvertedArguments d))))"

definition existing_status :: "'w monitor_db \<Rightarrow> int \<Rightarrow> ('w, string) io" where
  "existing_status db i =
     io_bind (io_try (scan [] (ScanTaskStatus db i))) (\<lambda>r. io_ret (case r of Inl _ \<Rightarrow> [] | Inr s \<Rightarrow> s))"

definition UpdateTaskFailed :: "'w monitor_db \<Rightarrow> int \<Rightarrow> ('w, unit) io" where
  "UpdateTaskFailed db i =
     io_bind (existing_status db i) (\<lambda>s. if s \<noteq> [] then io_ret () else io_call (ExecFailed db i))"

definition UpdateTaskError :: "'w monitor_db \<Rightarrow> int \<Rightarrow> string \<Rightarrow> ('w, unit) io" where
  "UpdateTaskError db i msg =
     io_bind (existing_status db i) (\<lambda>s. if s \<noteq> [] then io_ret () else io_call (ExecError db msg i))"

section \<open>Users, jobs and the storage of scripts\<close>

definition GetUserEmailByJobID :: "'w monitor_db \<Rightarrow> int option \<Rightarrow> ('w, string) io" where
  "GetUserEmailByJobID db jobID =
     io_bind (scan ''user not found for job ID'' (ScanUserOfJob db jobID)) (\<lambda>userID.
     scan (''email not found for user ID '' @ show_int userID) (ScanEmail db userID))"

definition GetUserEmailByTaskID :: "'w monitor_db \<Rightarrow> int \<Rightarrow> ('w, string) io" where
  "GetUserEmailByTaskID db i =
     io_bind (scan (''job not found for task ID '' @ show_int i) (ScanTaskCost db i)) (\<lambda>(predicted, jobID).
     GetUserEmailByJobID db jobID)"

definition GetJobIDByTaskID :: "'w monitor_db \<Rightarrow> int \<Rightarrow> ('w, int option) io" where
  "GetJobIDByTaskID db i = scan (''job not found for task ID '' @ show_int i) (ScanJobID db i)"

definition GetTaskDefinitionIDByTaskID :: "'w monitor_db \<Rightarrow> int \<Rightarrow> ('w, int) io" where
  "GetTaskDefinitionIDByTaskID db i = scan (''task definition ID not found for task ID '' @ show_int i) (ScanTaskDefinition db i)"

fun store_keys :: "'w monitor_db \<Rightarrow> int option \<Rightarrow> (string \<times> string) list \<Rightarrow> ('w, unit) io" where
  "store_keys db jobID [] = io_ret ()"
| "store_keys db jobID ((k, v) # kvs) =
     io_bind (io_get (MonitorClock db)) (\<lambda>t.
     io_bind (io_wrap ''failed to update storage'' (io_call (ExecStorage db jobID k v t))) (\<lambda>_.
     store_keys db jobID kvs))"

text \<open>The updates in the order in which the map is ranged over; the text of a nil job id is printed, not dereferenced.\<close>

definition UpdateScriptStorage :: "'w monitor_db \<Rightarrow> int option \<Rightarrow> (string \<times> string) list \<Rightarrow> ('w, unit) io" where
  "UpdateScriptStorage db jobID storageUpdates = store_keys db jobID storageUpdates"

section \<open>Points\<close>

text \<open>An attester is found by its operator id and updated by its keeper id.\<close>

definition credit_attester :: "'w monitor_db \<Rightarrow> float64 \<Rightarrow> int \<Rightarrow> ('w, unit) io" where
  "credit_attester db cost operator_id =
     io_bind (scan (''keeper not found for operator_id '' @ show_int operator_id) (ScanAttester db operator_id))
       (\<lambda>(keeperId, keeperPoints, rewardsBooster, noAttestedTasks).
     io_call (ExecAttester db (f64_add keeperPoints (f64_mult rewardsBooster cost)) (i64 (noAttestedTasks + 1)) keeperId))"

fun credit_attesters :: "'w monitor_db \<Rightarrow> float64 \<Rightarrow> int list \<Rightarrow> ('w, unit) io" where
  "credit_attesters db cost [] = io_ret ()"
| "credit_attesters db cost (i # is) = io_bind (credit_attester db cost i) (\<lambda>_. credit_attesters db cost is)"

definition performer_points :: "bool \<Rightarrow> float64 \<Rightarrow> float64 \<Rightarrow> float64 \<Rightarrow> float64" where
  "performer_points accepted cost rewardsBooster keeperPoints =
     (if accepted then f64_add keeperPoints (f64_mult rewardsBooster cost)
      else f64_add keeperPoints (- f64_mult (f64_mult rewardsBooster cost) (f64 (1 / 10))))"

definition credit_performer :: "'w monitor_db \<Rightarrow> TaskSubmissionData \<Rightarrow> ('w, unit) io" where
  "credit_performer db d =
     io_bind (GetKeeperIds db [PerformerAddress d]) (\<lambda>performerId.
     io_bind (scan (''keeper not found for performer_id '' @ show_int (hd performerId)) (ScanPerformer db (hd performerId)))
       (\<lambda>(keeperPoints, rewardsBooster, noExecutedTasks).
     io_call (ExecPerformer db (performer_points (IsAccepted d) (TaskOpxCost d) rewardsBooster keeperPoints)
       (i64 (noExecutedTasks + 1)) (hd performerId))))"

definition charge_user :: "'w monitor_db \<Rightarrow> float64 \<Rightarrow> int option \<Rightarrow> ('w, unit) io" where
  "charge_user db cost jobID =
     io_bind (scan ''user not found for job ID'' (ScanUserOfJob db jobID)) (\<lambda>userID.
     io_bind (scan (''user not found for user ID '' @ show_int userID) (ScanUserPoints db userID)) (\<lambda>(userPoints, userTasks).
     io_bind (io_get (MonitorClock db)) (\<lambda>t.
     io_bind (io_call (ExecUser db (f64_add userPoints cost) (i64 (userTasks + 1)) t userID)) (\<lambda>_.
     io_bind (scan ''job not found for job ID'' (ScanJobCost db jobID)) (\<lambda>jobCostActual.
     io_call (ExecJobCost db (f64_add jobCostActual cost) jobID))))))"

definition UpdateKeeperPointsInDatabase :: "'w monitor_db \<Rightarrow> TaskSubmissionData \<Rightarrow> ('w, unit) io" where
  "UpdateKeeperPointsInDatabase db d =
     io_bind (scan (''task not found for task ID '' @ show_int (SuTaskID d)) (ScanTaskCost db (SuTaskID d))) (\<lambda>(predicted, jobID).
     io_bind (credit_attesters db (TaskOpxCost d) (AttesterIds d)) (\<lambda>_.
     io_bind (credit_performer db d) (\<lambda>_.
     charge_user db (TaskOpxCost d) jobID)))"

section \<open>What the queries do\<close>

record keeper_row =
  KrAddress :: string
  KrOperatorID :: int
  KrPoints :: float64
  KrBooster :: float64
  KrAttested :: int
  KrExecuted :: int

record user_row =
  UrPoints :: float64
  UrTasks :: int
  UrUpdatedAt :: int
  UrEmail :: "string option"

record job_row =
  JrUserID :: int
  JrCostActual :: float64

record task_row =
  TwStatus :: string
  TwSuccessful :: bool
  TwError :: string
  TwSubmission :: "(TaskSubmissionData \<times> int \<times> string list) option"
  TwPredictedCost :: float64
  TwJobID :: "int option"
  TwDefinitionID :: int

record tables =
  Tasks :: "int \<rightharpoonup> task_row"
  Keepers :: "int \<rightharpoonup> keeper_row"
  Users :: "int \<rightharpoonup> user_row"
  Jobs :: "int option \<rightharpoonup> job_row"
  Storage :: "int option \<Rightarrow> string \<rightharpoonup> string"

text \<open>An update creates the row if there is none.\<close>

definition blank_task :: task_row where
  "blank_task = \<lparr>TwStatus = [], TwSuccessful = False, TwError = [], TwSubmission = None, TwPredictedCost = 0, TwJobID = None, TwDefinitionID = 0\<rparr>"

definition blank_keeper :: keeper_row where
  "blank_keeper = \<lparr>KrAddress = [], KrOperatorID = 0, KrPoints = 0, KrBooster = 0, KrAttested = 0, KrExecuted = 0\<rparr>"

definition blank_user :: user_row where
  "blank_user = \<lparr>UrPoints = 0, UrTasks = 0, UrUpdatedAt = 0, UrEmail = None\<rparr>"

definition blank_job :: job_row where
  "blank_job = \<lparr>JrUserID = 0, JrCostActual = 0\<rparr>"

definition set_task :: "int \<Rightarrow> (task_row \<Rightarrow> task_row) \<Rightarrow> tables \<Rightarrow> tables" where
  "set_task i f t = t\<lparr>Tasks := upsert blank_task i f (Tasks t)\<rparr>"

definition set_keeper :: "int \<Rightarrow> (keeper_row \<Rightarrow> keeper_row) \<Rightarrow> tables \<Rightarrow> tables" where
  "set_keeper k f t = t\<lparr>Keepers := upsert blank_keeper k f (Keepers t)\<rparr>"

definition implements :: "('w \<Rightarrow> tables) \<Rightarrow> 'w monitor_db \<Rightarrow> bool" where
  "implements view db \<longleftrightarrow>
     (\<forall>a. reads view (ScanKeeperID db a) (\<lambda>t k. \<exists>r. Keepers t k = Some r \<and> KrAddress r = a)) \<and>
     (\<forall>i. reads view (ScanTaskCost db i) (\<lambda>t x. \<exists>r. Tasks t i = Some r \<and> x = (TwPredictedCost r, TwJobID r))) \<and>
     (\<forall>i. reads view (ScanTaskStatus db i) (\<lambda>t x. \<exists>r. Tasks t i = Some r \<and> x = TwStatus r)) \<and>
     (\<forall>j. reads view (ScanUserOfJob db j) (\<lambda>t x. \<exists>r. Jobs t j = Some r \<and> x = JrUserID r)) \<and>
     (\<forall>i. reads view (ScanAttester db i)
        (\<lambda>t x. \<exists>k r. Keepers t k = Some r \<and> KrOperatorID r = i \<and> x = (k, KrPoints r, KrBooster r, KrAttested r))) \<and>
     (\<forall>k. reads view (ScanPerformer db k) (\<lambda>t x. \<exists>r. Keepers t k = Some r \<and> x = (KrPoints r, KrBooster r, KrExecuted r))) \<and>
     (\<forall>u. reads view (ScanUserPoints db u) (\<lambda>t x. \<exists>r. Users t u = Some r \<and> x = (UrPoints r, UrTasks r))) \<and>
     (\<forall>j. reads view (ScanJobCost db j) (\<lambda>t x. \<exists>r. Jobs t j = Some r \<and> x = JrCostActual r)) \<and>
     (\<forall>u. reads view (ScanEmail db u) (\<lambda>t x. \<exists>r. Users t u = Some r \<and> UrEmail r = Some x)) \<and>
     (\<forall>i. reads view (ScanJobID db i) (\<lambda>t x. \<exists>r. Tasks t i = Some r \<and> x = TwJobID r)) \<and>
     (\<forall>i. reads view (ScanTaskDefinition db i) (\<lambda>t x. \<exists>r. Tasks t i = Some r \<and> x = TwDefinitionID r)) \<and>
     (\<forall>d p args. writes view (ExecSubmission db d p args) (set_task (SuTaskID d)
        (\<lambda>r. r\<lparr>TwStatus := ''completed'', TwSuccessful := True, TwSubmission := Some (d, p, args)\<rparr>))) \<and>
     (\<forall>i. writes view (ExecFailed db i) (set_task i (\<lambda>r. r\<lparr>TwStatus := ''failed'', TwSuccessful := False\<rparr>))) \<and>
     (\<forall>m i. writes view (ExecError db m i) (set_task i (\<lambda>r. r\<lparr>TwStatus := ''failed'', TwSuccessful := False, TwError := m\<rparr>))) \<and>
     (\<forall>p n k. writes view (ExecAttester db p n k) (set_keeper k (\<lambda>r. r\<lparr>KrPoints := p, KrAttested := n\<rparr>))) \<and>
     (\<forall>p n k. writes view (ExecPerformer db p n k) (set_keeper k (\<lambda>r. r\<lparr>KrPoints := p, KrExecuted := n\<rparr>))) \<and>
     (\<forall>p n tm u. writes view (ExecUser db p n tm u)
        (\<lambda>t. t\<lparr>Users := upsert blank_user u (\<lambda>r. r\<lparr>UrPoints := p, UrTasks := n, UrUpdatedAt := tm\<rparr>) (Users t)\<rparr>)) \<and>
     (\<forall>c j. writes view (ExecJobCost db c j) (\<lambda>t. t\<lparr>Jobs := upsert blank_job j (\<lambda>r. r\<lparr>JrCostActual := c\<rparr>) (Jobs t)\<rparr>)) \<and>
     (\<forall>j k v tm. writes view (ExecStorage db j k v tm) (\<lambda>t. t\<lparr>Storage := (Storage t)(j := (Storage t j)(k \<mapsto> v))\<rparr>))"

section \<open>Reads and writes as triples\<close>

lemma scan_triple:
  assumes "reads view q found" and "\<And>a. found T a \<Longrightarrow> io_triple (\<lambda>w. view w = T) (f a) (\<lambda>r w. r = Inr b \<longrightarrow> Q w)"
  shows "io_triple (\<lambda>w. view w = T) (io_bind (scan msg q) f) (\<lambda>r w. r = Inr b \<longrightarrow> Q w)"
proof (rule io_triple_bind)
  show "io_triple (\<lambda>w. view w = T) (scan msg q)
      (\<lambda>r w. case r of Inl e \<Rightarrow> Inl e = Inr b \<longrightarrow> Q w | Inr a \<Rightarrow> view w = T \<and> found T a)"
    using assms(1) by (auto simp: io_triple_def scan_def reads_def split: prod.splits option.splits)
  show "io_triple (\<lambda>w. view w = T \<and> found T a) (f a) (\<lambda>r w. r = Inr b \<longrightarrow> Q w)" for a
    using assms(2) [of a] by (cases "found T a") (auto simp: io_triple_def)
qed

lemma set_keeper_Some:
  "Keepers t k = Some r \<Longrightarrow> set_keeper k f t = t\<lparr>Keepers := (Keepers t)(k \<mapsto> f r)\<rparr>"
  by (simp add: set_keeper_def upsert_def)

section \<open>What each query promises\<close>

lemma implements_attester:
  "implements view db \<Longrightarrow> reads view (ScanAttester db i)
     (\<lambda>t x. \<exists>k r. Keepers t k = Some r \<and> KrOperatorID r = i \<and> x = (k, KrPoints r, KrBooster r, KrAttested r))"
  unfolding implements_def by (elim conjE allE)

lemma implements_keeper_id:
  "implements view db \<Longrightarrow> reads view (ScanKeeperID db a) (\<lambda>t k. \<exists>r. Keepers t k = Some r \<and> KrAddress r = a)"
  unfolding implements_def by (elim conjE allE)

lemma implements_performer:
  "implements view db \<Longrightarrow> reads view (ScanPerformer db k) (\<lambda>t x. \<exists>r. Keepers t k = Some r \<and> x = (KrPoints r, KrBooster r, KrExecuted r))"
  unfolding implements_def by (elim conjE allE)

lemma implements_credit:
  "implements view db \<Longrightarrow> writes view (ExecAttester db p n k) (set_keeper k (\<lambda>r. r\<lparr>KrPoints := p, KrAttested := n\<rparr>))"
  "implements view db \<Longrightarrow> writes view (ExecPerformer db p n k) (set_keeper k (\<lambda>r. r\<lparr>KrPoints := p, KrExecuted := n\<rparr>))"
  by (simp_all add: implements_def)

section \<open>The points of a task\<close>

definition add_reward :: "float64 \<Rightarrow> keeper_row \<Rightarrow> keeper_row" where
  "add_reward cost r = r\<lparr>KrPoints := f64_add (KrPoints r) (f64_mult (KrBooster r) cost), KrAttested := i64 (KrAttested r + 1)\<rparr>"

definition attested :: "float64 \<Rightarrow> int \<Rightarrow> keeper_row \<Rightarrow> keeper_row" where
  "attested cost i r = (if KrOperatorID r = i then add_reward cost r else r)"

definition on_keepers :: "(keeper_row \<Rightarrow> keeper_row) \<Rightarrow> tables \<Rightarrow> tables" where
  "on_keepers f t = t\<lparr>Keepers := map_option f \<circ> Keepers t\<rparr>"

definition one_keeper :: "tables \<Rightarrow> int \<Rightarrow> bool" where
  "one_keeper t i \<longleftrightarrow> (\<forall>k k' r r'. Keepers t k = Some r \<longrightarrow> Keepers t k' = Some r' \<longrightarrow> KrOperatorID r = i \<longrightarrow> KrOperatorID r' = i \<longrightarrow> k = k')"

lemma on_keepers_compose: "on_keepers f (on_keepers g t) = on_keepers (f \<circ> g) t"
  by (simp add: on_keepers_def fun_eq_iff option.map_comp)

lemma attested_operator [simp]: "KrOperatorID (attested cost i r) = KrOperatorID r"
  by (simp add: attested_def add_reward_def)

lemma one_keeper_attested: "one_keeper t i \<Longrightarrow> one_keeper (on_keepers (attested cost j) t) i"
  by (auto simp: one_keeper_def on_keepers_def)

lemma credit_attester_triple:
  assumes "implements view db" and "one_keeper T i"
  shows "io_triple (\<lambda>w. view w = T) (credit_attester db cost i) (\<lambda>r w. r = Inr () \<longrightarrow> view w = on_keepers (attested cost i) T)"
  unfolding credit_attester_def
proof (rule scan_triple [where found = "\<lambda>t x. \<exists>k r. Keepers t k = Some r \<and> KrOperatorID r = i \<and> x = (k, KrPoints r, KrBooster r, KrAttested r)"])
  show "reads view (ScanAttester db i) (\<lambda>t x. \<exists>k r. Keepers t k = Some r \<and> KrOperatorID r = i \<and> x = (k, KrPoints r, KrBooster r, KrAttested r))"
    by (rule implements_attester [OF assms(1)])
  fix x
  assume "\<exists>k r. Keepers T k = Some r \<and> KrOperatorID r = i \<and> x = (k, KrPoints r, KrBooster r, KrAttested r)"
  then obtain k r where k: "Keepers T k = Some r" "KrOperatorID r = i" and x: "x = (k, KrPoints r, KrBooster r, KrAttested r)"
    by blast
  let ?p = "f64_add (KrPoints r) (f64_mult (KrBooster r) cost)" and ?n = "i64 (KrAttested r + 1)"
  have other: "KrOperatorID r' \<noteq> i" if "Keepers T k' = Some r'" "k' \<noteq> k" for k' r'
    using assms(2) k that unfolding one_keeper_def by blast
  have "set_keeper k (\<lambda>r. r\<lparr>KrPoints := ?p, KrAttested := ?n\<rparr>) T = on_keepers (attested cost i) T"
    using k(2) other by (auto simp: set_keeper_Some [where r = r] k(1) on_keepers_def attested_def add_reward_def fun_eq_iff map_option_case split: option.split)
  moreover have "writes view (ExecAttester db ?p ?n k) (set_keeper k (\<lambda>r. r\<lparr>KrPoints := ?p, KrAttested := ?n\<rparr>))"
    by (rule implements_credit [OF assms(1)])
  ultimately show "io_triple (\<lambda>w. view w = T)
      (case x of (keeperId, keeperPoints, rewardsBooster, noAttestedTasks) \<Rightarrow>
         io_call (ExecAttester db (f64_add keeperPoints (f64_mult rewardsBooster cost)) (i64 (noAttestedTasks + 1)) keeperId))
      (\<lambda>r w. r = Inr () \<longrightarrow> view w = on_keepers (attested cost i) T)"
    unfolding x prod.case by (intro write_unless)
qed

lemma credit_attesters_triple:
  assumes "implements view db"
  shows "list_all (one_keeper T) is \<Longrightarrow> io_triple (\<lambda>w. view w = T) (credit_attesters db cost is)
    (\<lambda>r w. r = Inr () \<longrightarrow> view w = on_keepers (fold (attested cost) is) T)"
proof (induction "is" arbitrary: T)
  case Nil
  then show ?case by (simp add: io_triple_def io_ret_def on_keepers_def fun_eq_iff option.map_ident)
next
  case (Cons i "is")
  have "io_triple (\<lambda>w. view w = on_keepers (attested cost i) T) (credit_attesters db cost is)
      (\<lambda>r w. r = Inr () \<longrightarrow> view w = on_keepers (fold (attested cost) is) (on_keepers (attested cost i) T))"
    using Cons.prems by (intro Cons.IH) (auto simp: list_all_iff one_keeper_attested)
  then show ?case
    using credit_attester_triple [OF assms, of T i cost] Cons.prems
    by (auto simp: on_keepers_compose comp_def intro!: seq_triple [where R = "\<lambda>w. view w = on_keepers (attested cost i) T"])
qed

text \<open>However often an operator is named, the rewards add up.\<close>

lemma fold_attested: "fold (attested cost) is r = (add_reward cost ^^ count_list is (KrOperatorID r)) r"
proof (induction "is" arbitrary: r)
  case Nil
  then show ?case by simp
next
  case (Cons i "is")
  have "KrOperatorID (add_reward cost r) = KrOperatorID r" by (simp add: add_reward_def)
  then show ?case using Cons.IH [of "attested cost i r"] by (auto simp: attested_def funpow_swap1)
qed

definition executed :: "TaskSubmissionData \<Rightarrow> keeper_row \<Rightarrow> keeper_row" where
  "executed d r = r\<lparr>KrPoints := performer_points (IsAccepted d) (TaskOpxCost d) (KrBooster r) (KrPoints r), KrExecuted := i64 (KrExecuted r + 1)\<rparr>"

lemma performer_found:
  assumes "implements view db"
  shows "io_triple (\<lambda>w. view w = T) (GetKeeperIds db [a])
    (\<lambda>r w. \<forall>ks. r = Inr ks \<longrightarrow> view w = T \<and> (\<exists>k row. ks = [k] \<and> Keepers T k = Some row \<and> KrAddress row = lower a))"
proof -
  have "reads view (ScanKeeperID db (lower a)) (\<lambda>t k. \<exists>r. Keepers t k = Some r \<and> KrAddress r = lower a)"
    by (rule implements_keeper_id [OF assms])
  then show ?thesis
    by (auto simp: io_triple_def reads_def scan_def io_bind_Some io_ret_def split: prod.splits option.splits)
qed

lemma credit_performer_triple:
  assumes "implements view db"
  shows "io_triple (\<lambda>w. view w = T) (credit_performer db d) (\<lambda>r w. r = Inr () \<longrightarrow>
    (\<exists>k row. Keepers T k = Some row \<and> KrAddress row = lower (PerformerAddress d) \<and> view w = T\<lparr>Keepers := (Keepers T)(k \<mapsto> executed d row)\<rparr>))"
  unfolding credit_performer_def
proof (rule then_triple [OF performer_found [OF assms]])
  fix ks
  let ?Q = "\<lambda>w. \<exists>k row. Keepers T k = Some row \<and> KrAddress row = lower (PerformerAddress d) \<and> view w = T\<lparr>Keepers := (Keepers T)(k \<mapsto> executed d row)\<rparr>"
  let ?m = "\<lambda>k. io_bind (scan (''keeper not found for performer_id '' @ show_int k) (ScanPerformer db k))
       (\<lambda>(keeperPoints, rewardsBooster, noExecutedTasks).
     io_call (ExecPerformer db (performer_points (IsAccepted d) (TaskOpxCost d) rewardsBooster keeperPoints) (i64 (noExecutedTasks + 1)) k))"
  have "io_triple (\<lambda>w. view w = T) (?m k) (\<lambda>r w. r = Inr () \<longrightarrow> ?Q w)" if k: "Keepers T k = Some row" "KrAddress row = lower (PerformerAddress d)" for k row
  proof (rule scan_triple [where found = "\<lambda>t x. \<exists>r. Keepers t k = Some r \<and> x = (KrPoints r, KrBooster r, KrExecuted r)"])
    show "reads view (ScanPerformer db k) (\<lambda>t x. \<exists>r. Keepers t k = Some r \<and> x = (KrPoints r, KrBooster r, KrExecuted r))"
      by (rule implements_performer [OF assms])
    fix x
    assume "\<exists>r. Keepers T k = Some r \<and> x = (KrPoints r, KrBooster r, KrExecuted r)"
    then have x: "x = (KrPoints row, KrBooster row, KrExecuted row)" using k by simp
    let ?p = "performer_points (IsAccepted d) (TaskOpxCost d) (KrBooster row) (KrPoints row)" and ?n = "i64 (KrExecuted row + 1)"
    have "writes view (ExecPerformer db ?p ?n k) (set_keeper k (\<lambda>r. r\<lparr>KrPoints := ?p, KrExecuted := ?n\<rparr>))"
      by (rule implements_credit [OF assms])
    then have "io_triple (\<lambda>w. view w = T) (io_call (ExecPerformer db ?p ?n k))
        (\<lambda>r w. r = Inr () \<longrightarrow> view w = T\<lparr>Keepers := (Keepers T)(k \<mapsto> executed d row)\<rparr>)"
      by (rule write_unless) (simp add: set_keeper_Some [OF k(1)] executed_def)
    then show "io_triple (\<lambda>w. view w = T) (case x of (keeperPoints, rewardsBooster, noExecutedTasks) \<Rightarrow>
        io_call (ExecPerformer db (performer_points (IsAccepted d) (TaskOpxCost d) rewardsBooster keeperPoints) (i64 (noExecutedTasks + 1)) k))
        (\<lambda>r w. r = Inr () \<longrightarrow> ?Q w)"
      unfolding x prod.case using k by (elim io_triple_mono) blast
  qed
  then show "io_triple (\<lambda>w. view w = T \<and> (\<exists>k row. ks = [k] \<and> Keepers T k = Some row \<and> KrAddress row = lower (PerformerAddress d)))
      (?m (hd ks)) (\<lambda>r w. r = Inr () \<longrightarrow> ?Q w)"
    unfolding io_triple_def by fastforce
qed

text \<open>A user pays for every task of its jobs.\<close>

definition charged_user :: "float64 \<Rightarrow> int \<Rightarrow> user_row \<Rightarrow> user_row" where
  "charged_user cost time r = r\<lparr>UrPoints := f64_add (UrPoints r) cost, UrTasks := i64 (UrTasks r + 1), UrUpdatedAt := time\<rparr>"

definition charged_job :: "float64 \<Rightarrow> job_row \<Rightarrow> job_row" where
  "charged_job cost r = r\<lparr>JrCostActual := f64_add (JrCostActual r) cost\<rparr>"

definition charged :: "float64 \<Rightarrow> int option \<Rightarrow> tables \<Rightarrow> tables \<Rightarrow> bool" where
  "charged cost j t t' \<longleftrightarrow>
     (\<exists>job user time. Jobs t j = Some job \<and> Users t (JrUserID job) = Some user \<and>
       t' = t\<lparr>Users := (Users t)(JrUserID job \<mapsto> charged_user cost time user), Jobs := (Jobs t)(j \<mapsto> charged_job cost job)\<rparr>)"

lemma implements_charge:
  "implements view db \<Longrightarrow> reads view (ScanUserOfJob db j) (\<lambda>t x. \<exists>r. Jobs t j = Some r \<and> x = JrUserID r)"
  "implements view db \<Longrightarrow> reads view (ScanUserPoints db u) (\<lambda>t x. \<exists>r. Users t u = Some r \<and> x = (UrPoints r, UrTasks r))"
  "implements view db \<Longrightarrow> reads view (ScanJobCost db j) (\<lambda>t x. \<exists>r. Jobs t j = Some r \<and> x = JrCostActual r)"
  "implements view db \<Longrightarrow> writes view (ExecUser db p n tm u)
     (\<lambda>t. t\<lparr>Users := upsert blank_user u (\<lambda>r. r\<lparr>UrPoints := p, UrTasks := n, UrUpdatedAt := tm\<rparr>) (Users t)\<rparr>)"
  "implements view db \<Longrightarrow> writes view (ExecJobCost db c j) (\<lambda>t. t\<lparr>Jobs := upsert blank_job j (\<lambda>r. r\<lparr>JrCostActual := c\<rparr>) (Jobs t)\<rparr>)"
  by (simp_all only: implements_def)

lemma charge_user_triple:
  assumes "implements view db"
  shows "io_triple (\<lambda>w. view w = T) (charge_user db cost j) (\<lambda>r w. r = Inr () \<longrightarrow> charged cost j T (view w))"
  unfolding charge_user_def
proof (rule scan_triple [OF implements_charge(1) [OF assms]], elim exE conjE, simp only:)
  fix u job
  assume job: "Jobs T j = Some job"
  show "io_triple (\<lambda>w. view w = T) (io_bind (scan (''user not found for user ID '' @ show_int (JrUserID job)) (ScanUserPoints db (JrUserID job)))
    (\<lambda>(userPoints, userTasks).
       io_bind (io_get (MonitorClock db)) (\<lambda>t.
       io_bind (io_call (ExecUser db (f64_add userPoints cost) (i64 (userTasks + 1)) t (JrUserID job))) (\<lambda>_.
       io_bind (scan ''job not found for job ID'' (ScanJobCost db j)) (\<lambda>jobCostActual.
       io_call (ExecJobCost db (f64_add jobCostActual cost) j))))))
    (\<lambda>r w. r = Inr () \<longrightarrow> charged cost j T (view w))"
  proof (rule scan_triple [OF implements_charge(2) [OF assms]], elim exE conjE, simp only: prod.case, rule clock_triple)
    fix user time
    assume user: "Users T (JrUserID job) = Some user"
    let ?T = "T\<lparr>Users := (Users T)(JrUserID job \<mapsto> charged_user cost time user)\<rparr>"
    have "io_triple (\<lambda>w. view w = ?T) (io_bind (scan ''job not found for job ID'' (ScanJobCost db j)) (\<lambda>jobCostActual.
       io_call (ExecJobCost db (f64_add jobCostActual cost) j))) (\<lambda>r w. r = Inr () \<longrightarrow> charged cost j T (view w))"
    proof (rule scan_triple [OF implements_charge(3) [OF assms]], elim exE conjE)
      fix x r
      assume "Jobs ?T j = Some r" "x = JrCostActual r"
      then have x: "x = JrCostActual job" using job by simp
      show "io_triple (\<lambda>w. view w = ?T) (io_call (ExecJobCost db (f64_add x cost) j)) (\<lambda>r w. r = Inr () \<longrightarrow> charged cost j T (view w))"
        by (rule io_triple_mono [OF write_triple [OF implements_charge(5) [OF assms]]])
          (use job user in \<open>auto simp: x charged_def charged_job_def upsert_def\<close>)
    qed
    moreover have "io_triple (\<lambda>w. view w = T) (io_call (ExecUser db (f64_add (UrPoints user) cost) (i64 (UrTasks user + 1)) time (JrUserID job)))
       (\<lambda>r w. r = Inr () \<longrightarrow> view w = ?T)"
      by (rule write_unless [OF implements_charge(4) [OF assms]]) (simp add: user charged_user_def upsert_def)
    ultimately show "io_triple (\<lambda>w. view w = T) (io_bind (io_call (ExecUser db (f64_add (UrPoints user) cost) (i64 (UrTasks user + 1)) time (JrUserID job)))
       (\<lambda>_. io_bind (scan ''job not found for job ID'' (ScanJobCost db j)) (\<lambda>jobCostActual.
       io_call (ExecJobCost db (f64_add jobCostActual cost) j)))) (\<lambda>r w. r = Inr () \<longrightarrow> charged cost j T (view w))"
      by (rule seq_triple [rotated])
  qed
qed

lemma implements_task:
  "implements view db \<Longrightarrow> reads view (ScanTaskCost db i) (\<lambda>t x. \<exists>r. Tasks t i = Some r \<and> x = (TwPredictedCost r, TwJobID r))"
  "implements view db \<Longrightarrow> reads view (ScanTaskStatus db i) (\<lambda>t x. \<exists>r. Tasks t i = Some r \<and> x = TwStatus r)"
  by (simp_all only: implements_def)

text \<open>
  The points of a task, when the update succeeds: every attester is given its booster times the cost, once for every time it is named, the
  performer gets as much (or loses a tenth of it), and the user and the job are charged the cost.
\<close>

definition awarded :: "TaskSubmissionData \<Rightarrow> tables \<Rightarrow> tables \<Rightarrow> bool" where
  "awarded d t t' \<longleftrightarrow>
     (\<exists>task k row. Tasks t (SuTaskID d) = Some task \<and> Keepers t k = Some row \<and> KrAddress row = lower (PerformerAddress d) \<and>
       (let reward = \<lambda>r. (add_reward (TaskOpxCost d) ^^ count_list (AttesterIds d) (KrOperatorID r)) r
        in charged (TaskOpxCost d) (TwJobID task)
             (t\<lparr>Keepers := (map_option reward \<circ> Keepers t)(k \<mapsto> executed d (reward row))\<rparr>) t'))"

lemma add_reward_address: "KrAddress ((add_reward c ^^ n) r) = KrAddress r"
  by (induction n) (simp_all add: add_reward_def)

lemma points_triple:
  assumes "implements view db" and "list_all (one_keeper T) (AttesterIds d)"
  shows "io_triple (\<lambda>w. view w = T) (UpdateKeeperPointsInDatabase db d) (\<lambda>r w. r = Inr () \<longrightarrow> awarded d T (view w))"
  unfolding UpdateKeeperPointsInDatabase_def
proof (rule scan_triple [OF implements_task(1) [OF assms(1)]], elim exE conjE, simp only: prod.case)
  fix task
  assume task: "Tasks T (SuTaskID d) = Some task"
  let ?c = "TaskOpxCost d"
  let ?reward = "\<lambda>r. (add_reward ?c ^^ count_list (AttesterIds d) (KrOperatorID r)) r"
  let ?T = "on_keepers (fold (attested ?c) (AttesterIds d)) T"
  have T: "Keepers ?T = map_option ?reward \<circ> Keepers T" "?T\<lparr>Keepers := m\<rparr> = T\<lparr>Keepers := m\<rparr>" for m
    using fold_attested [of ?c "AttesterIds d", abs_def] by (simp_all add: on_keepers_def cong: map_option_cong)
  have "io_triple (\<lambda>w. \<exists>k row. Keepers ?T k = Some row \<and> KrAddress row = lower (PerformerAddress d) \<and> view w = ?T\<lparr>Keepers := (Keepers ?T)(k \<mapsto> executed d row)\<rparr>) (charge_user db ?c (TwJobID task))
      (\<lambda>r w. r = Inr () \<longrightarrow> awarded d T (view w))"
    unfolding io_triple_def
  proof (intro allI impI, elim exE conjE)
    fix w r w' k row
    assume k: "Keepers ?T k = Some row" "KrAddress row = lower (PerformerAddress d)" and w: "view w = ?T\<lparr>Keepers := (Keepers ?T)(k \<mapsto> executed d row)\<rparr>"
      and m: "charge_user db ?c (TwJobID task) w = Some (r, w')" "r = Inr ()"
    obtain row0 where row0: "Keepers T k = Some row0" "row = ?reward row0" using k(1) by (auto simp: T)
    have "charged ?c (TwJobID task) (view w) (view w')"
      using io_tripleD [OF charge_user_triple [OF assms(1)] refl m(1)] m(2) by simp
    then show "awarded d T (view w')"
      unfolding awarded_def Let_def using task row0 k(2) by (intro exI [of _ task] exI [of _ k] exI [of _ row0]) (simp add: w T add_reward_address)
  qed
  then show "io_triple (\<lambda>w. view w = T)
      (io_bind (credit_attesters db ?c (AttesterIds d)) (\<lambda>_. io_bind (credit_performer db d) (\<lambda>_. charge_user db ?c (TwJobID task))))
      (\<lambda>r w. r = Inr () \<longrightarrow> awarded d T (view w))"
    by (rule seq_triple [OF credit_attesters_triple [OF assms] seq_triple [OF credit_performer_triple [OF assms(1)]]])
qed

section \<open>The status a task keeps\<close>

text \<open>The row \<open>CreateTaskDataQuery\<close> of \<open>internal/dbserver\<close> inserts: it has a status from the start.\<close>

definition created_row :: "int option \<Rightarrow> int \<Rightarrow> task_row" where
  "created_row jobID definitionID = blank_task\<lparr>TwStatus := ''processing'', TwJobID := jobID, TwDefinitionID := definitionID\<rparr>"

definition finds_status :: "('w \<Rightarrow> tables) \<Rightarrow> 'w monitor_db \<Rightarrow> int \<Rightarrow> bool" where
  "finds_status view db i \<longleftrightarrow> (\<forall>w. Tasks (view w) i \<noteq> None \<longrightarrow> fst (ScanTaskStatus db i w) \<noteq> None)"

lemma existing_status_found:
  assumes "implements view db" "finds_status view db i" "Tasks (view w) i = Some r"
  obtains w' where "existing_status db i w = Some (Inr (TwStatus r), w')" "view w' = view w"
proof -
  obtain x w' where q: "ScanTaskStatus db i w = (x, w')" by fastforce
  moreover obtain s where s: "x = Some s" using assms(2,3) q by (fastforce simp: finds_status_def)
  ultimately have "view w' = view w \<and> (\<exists>r. Tasks (view w) i = Some r \<and> s = TwStatus r)"
    using implements_task(2) [OF assms(1), of i] unfolding reads_def by blast
  then have "view w' = view w" "s = TwStatus r" using assms(3) by auto
  then show ?thesis using that q s by (simp add: existing_status_def scan_def io_bind_def io_try_def io_ret_def)
qed

text \<open>A report of failure: without a text, or with one.\<close>

definition report_failure :: "'w monitor_db \<Rightarrow> int \<Rightarrow> string option \<Rightarrow> ('w, unit) io" where
  "report_failure db i r = (case r of None \<Rightarrow> UpdateTaskFailed db i | Some msg \<Rightarrow> UpdateTaskError db i msg)"

lemma report_ignored:
  assumes "implements view db" "finds_status view db i" "Tasks (view w) i = Some r" "TwStatus r \<noteq> []"
  shows "\<exists>w'. report_failure db i msg w = Some (Inr (), w') \<and> view w' = view w"
proof -
  obtain w' where "existing_status db i w = Some (Inr (TwStatus r), w')" "view w' = view w"
    by (rule existing_status_found [OF assms(1-3)])
  then show ?thesis
    using assms(4) by (cases msg) (auto simp: report_failure_def UpdateTaskFailed_def UpdateTaskError_def io_bind_def io_ret_def)
qed

fun report_failures :: "'w monitor_db \<Rightarrow> (int \<times> string option) list \<Rightarrow> ('w, unit) io" where
  "report_failures db [] = io_ret ()"
| "report_failures db ((i, r) # rs) = io_bind (report_failure db i r) (\<lambda>_. report_failures db rs)"

text \<open>
  The failure of a task created by the database server is never recorded. Its row has the status \<open>processing\<close> from the start, and
  \<open>UpdateTaskFailed\<close> and \<open>UpdateTaskError\<close> return without writing as soon as there is a status: whatever failures are reported for such
  tasks, every report succeeds and the tables stay as they are.
\<close>

theorem failure_of_created_task_not_recorded:
  assumes "implements view db" and "\<forall>i. finds_status view db i"
    and "list_all (\<lambda>(i, _). \<exists>jobID definitionID. Tasks (view w) i = Some (created_row jobID definitionID)) reports"
  shows "\<exists>w'. report_failures db reports w = Some (Inr (), w') \<and> view w' = view w"
  using assms(3)
proof (induction reports arbitrary: w)
  case Nil
  then show ?case by (simp add: io_ret_def)
next
  case (Cons x reports)
  obtain i msg where x: "x = (i, msg)" by fastforce
  obtain jobID definitionID where "Tasks (view w) i = Some (created_row jobID definitionID)" using Cons.prems x by auto
  then obtain w1 where w1: "report_failure db i msg w = Some (Inr (), w1)" "view w1 = view w"
    using report_ignored [OF assms(1) _, of i w "created_row jobID definitionID" msg] assms(2) by (auto simp: created_row_def)
  then show ?case using Cons.IH [of w1] Cons.prems by (auto simp: x io_bind_def)
qed

section \<open>A database that keeps its tables\<close>

definition among :: "int list \<Rightarrow> (keeper_row \<Rightarrow> bool) \<Rightarrow> tables \<Rightarrow> int option" where
  "among ids P t = find (\<lambda>k. case Keepers t k of None \<Rightarrow> False | Some r \<Rightarrow> P r) ids"

definition table_db :: "int list \<Rightarrow> tables monitor_db" where
  "table_db ids = \<lparr>
     ScanKeeperID = \<lambda>a t. (among ids (\<lambda>r. KrAddress r = a) t, t),
     ScanTaskCost = \<lambda>i t. (map_option (\<lambda>r. (TwPredictedCost r, TwJobID r)) (Tasks t i), t),
     ScanTaskStatus = \<lambda>i t. (map_option TwStatus (Tasks t i), t),
     ScanUserOfJob = \<lambda>j t. (map_option JrUserID (Jobs t j), t),
     ScanAttester = \<lambda>i t. (case among ids (\<lambda>r. KrOperatorID r = i) t of None \<Rightarrow> None
       | Some k \<Rightarrow> map_option (\<lambda>r. (k, KrPoints r, KrBooster r, KrAttested r)) (Keepers t k), t),
     ScanPerformer = \<lambda>k t. (map_option (\<lambda>r. (KrPoints r, KrBooster r, KrExecuted r)) (Keepers t k), t),
     ScanUserPoints = \<lambda>u t. (map_option (\<lambda>r. (UrPoints r, UrTasks r)) (Users t u), t),
     ScanJobCost = \<lambda>j t. (map_option JrCostActual (Jobs t j), t),
     ScanEmail = \<lambda>u t. (case Users t u of None \<Rightarrow> None | Some r \<Rightarrow> UrEmail r, t),
     ScanJobID = \<lambda>i t. (map_option TwJobID (Tasks t i), t),
     ScanTaskDefinition = \<lambda>i t. (map_option TwDefinitionID (Tasks t i), t),
     ExecSubmission = \<lambda>d p args t. (Inr (), set_task (SuTaskID d)
        (\<lambda>r. r\<lparr>TwStatus := ''completed'', TwSuccessful := True, TwSubmission := Some (d, p, args)\<rparr>) t),
     ExecFailed = \<lambda>i t. (Inr (), set_task i (\<lambda>r. r\<lparr>TwStatus := ''failed'', TwSuccessful := False\<rparr>) t),
     ExecError = \<lambda>m i t. (Inr (), set_task i (\<lambda>r. r\<lparr>TwStatus := ''failed'', TwSuccessful := False, TwError := m\<rparr>) t),
     ExecAttester = \<lambda>p n k t. (Inr (), set_keeper k (\<lambda>r. r\<lparr>KrPoints := p, KrAttested := n\<rparr>) t),
     ExecPerformer = \<lambda>p n k t. (Inr (), set_keeper k (\<lambda>r. r\<lparr>KrPoints := p, KrExecuted := n\<rparr>) t),
     ExecUser = \<lambda>p n tm u t. (Inr (), t\<lparr>Users := upsert blank_user u (\<lambda>r. r\<lparr>UrPoints := p, UrTasks := n, UrUpdatedAt := tm\<rparr>) (Users t)\<rparr>),
     ExecJobCost = \<lambda>c j t. (Inr (), t\<lparr>Jobs := upsert blank_job j (\<lambda>r. r\<lparr>JrCostActual := c\<rparr>) (Jobs t)\<rparr>),
     ExecStorage = \<lambda>j k v tm t. (Inr (), t\<lparr>Storage := (Storage t)(j := (Storage t j)(k \<mapsto> v))\<rparr>),
     MonitorClock = \<lambda>_. 0, ShowValue = \<lambda>_. []\<rparr>"

lemma among_Some: "among ids P t = Some k \<Longrightarrow> \<exists>r. Keepers t k = Some r \<and> P r"
  by (auto simp: among_def find_Some_iff split: option.splits)

lemma table_db_implements: "implements (\<lambda>t. t) (table_db ids)"
proof -
  have q: "reads (\<lambda>t. t) (\<lambda>t. (f t, t)) found \<longleftrightarrow> (\<forall>t a. f t = Some a \<longrightarrow> found t a)" for f :: "tables \<Rightarrow> 'a option" and found
    by (auto simp: reads_def)
  have u: "writes (\<lambda>t. t) (\<lambda>t. (Inr (), f t)) f" for f by (simp add: writes_def)
  show ?thesis
    unfolding implements_def table_db_def monitor_db.simps
    by (intro conjI allI u; (auto simp: reads_def split: option.splits dest: among_Some; fail)?)
qed

lemma table_db_finds_status: "finds_status (\<lambda>t. t) (table_db ids) i"
  by (simp add: finds_status_def table_db_def)

definition demo_keeper_row :: "string \<Rightarrow> int \<Rightarrow> keeper_row" where
  "demo_keeper_row a i = \<lparr>KrAddress = a, KrOperatorID = i, KrPoints = 10, KrBooster = 2, KrAttested = 0, KrExecuted = 0\<rparr>"

definition demo_tables :: tables where
  "demo_tables = \<lparr>Tasks = [5 \<mapsto> created_row (Some 9) 1],
     Keepers = [1 \<mapsto> demo_keeper_row ''0xaa'' 7, 2 \<mapsto> demo_keeper_row ''0xbb'' 8],
     Users = [3 \<mapsto> blank_user], Jobs = [Some 9 \<mapsto> \<lparr>JrUserID = 3, JrCostActual = 0\<rparr>], Storage = \<lambda>_ _. None\<rparr>"

definition demo_submission :: TaskSubmissionData where
  "demo_submission = \<lparr>SuTaskID = 5, TaskNumber = 1, SuTaskDefinitionID = 1, IsAccepted = True, TaskSubmissionTxHash = [],
     PerformerAddress = ''0xBB'', AttesterIds = [7, 7, 8], ExecutionTxHash = [], SuExecutionTimestamp = 0, TaskOpxCost = 1,
     SuProofOfTask = [], SuData = [], SuConvertedArguments = []\<rparr>"

theorem failure_of_created_task_not_recorded_witness:
  "\<exists>w'. report_failures (table_db [1, 2]) [(5, None), (5, Some ''timeout'')] demo_tables = Some (Inr (), w') \<and> w' = demo_tables"
  by (rule failure_of_created_task_not_recorded [OF table_db_implements]) (auto simp: table_db_finds_status demo_tables_def)

text \<open>
  C26: When the points of a task are recorded without an error, every attester named has been given its booster times the cost, once for
  every time it is named, the keeper with the performer's address has got as much, or lost a tenth of it for a rejected task, and the
  user and the job have been charged the cost; no other row has changed. The operators named are each the operator of one keeper.
\<close>

theorem points_awarded:
  assumes "implements view db" and "list_all (one_keeper (view w)) (AttesterIds d)"
    and "UpdateKeeperPointsInDatabase db d w = Some (Inr (), w')"
  shows "awarded d (view w) (view w')"
  using io_tripleD [OF points_triple [OF assms(1,2)] refl assms(3)] by simp

theorem points_awarded_witness:
  "\<exists>w'. UpdateKeeperPointsInDatabase (table_db [1, 2]) demo_submission demo_tables = Some (Inr (), w') \<and> awarded demo_submission demo_tables w'"
proof -
  have lower: "lower ''0xBB'' = ''0xbb''" by code_simp
  have "\<exists>w'. UpdateKeeperPointsInDatabase (table_db [1, 2]) demo_submission demo_tables = Some (Inr (), w')"
    by (simp add: UpdateKeeperPointsInDatabase_def charge_user_def credit_performer_def credit_attester_def demo_submission_def scan_def io_bind_def
      table_db_def demo_tables_def created_row_def blank_task_def among_def demo_keeper_row_def set_keeper_def upsert_def io_call_def io_get_def io_ret_def lower)
  moreover have "list_all (one_keeper demo_tables) (AttesterIds demo_submission)"
    by (auto simp: demo_submission_def demo_tables_def one_keeper_def demo_keeper_row_def split: if_splits)
  ultimately show ?thesis using points_awarded [OF table_db_implements, of demo_tables demo_submission "[1, 2]"] by blast
qed

end
