(* ===== verification/Monitor_Events.thy ===== *)
theory Monitor_Events
  imports Monitor_Database Task_Streams Event_Worker Signing
begin

text \<open>
  The events of the task monitor (\<open>internal/taskmonitor/events/listener.go\<close> and \<open>task.go\<close>, \<open>clients/notify/notifier.go\<close>, \<open>rpc/handler.go\<close>,
  \<open>taskmonitor.go\<close>): a poller for each chain asks the node for the logs of the new blocks, parses them and offers them to a bounded queue; workers
  take them from the queue, fetch the data of the task and record it in the streams and the database. The node, the ABI library, the
  ABI of the attestation center, IPFS and SMTP are fields of \<open>listener_env\<close>, over a world of any type; the monitor acts on that world and on the
  streams of \<open>Task_Streams\<close>.
\<close>

section \<open>Data\<close>

record node_log =
  NlRemoved :: bool
  NlLogIndex :: string
  NlTransactionIndex :: string
  NlTransactionHash :: string
  NlBlockHash :: string
  NlBlockNumber :: string
  NlAddress :: string
  NlData :: string
  NlTopics :: "string list"

record types_log =
  TlAddress :: bytes
  TlTopics :: "bytes list"
  TlData :: bytes
  TlBlockNumber :: "64 word"
  TlTxHash :: bytes
  TlTxIndex :: "64 word"
  TlBlockHash :: bytes
  TlIndex :: "64 word"
  TlRemoved :: bool

text \<open>The Go types that a decoded field of an event may have.\<close>

datatype abi_value = VStr string | VBool bool | VFloat float64 | VInt64 int | VUint32 "32 word" | VUint64 "64 word" | VBytes bytes | VBig int
  | VStrs "string list" | VBigs "int list" | VList "abi_value list"

record abi_input =
  AiName :: string
  AiType :: string
  AiIndexed :: bool

record ContractEventData =
  CeEventType :: string
  CeContractType :: string
  ParsedData :: "string \<rightharpoonup> abi_value"
  CeRawData :: bytes
  CeTopics :: "string list"
  CeBlockNumber :: "64 word"
  CeTxHash :: string
  CeLogIndex :: "64 word"

record ChainEvent =
  ChainID :: string
  ChainName :: string
  CvContractAddr :: string
  CvContractType :: string
  CvEventName :: string
  CvBlockNumber :: "64 word"
  CvTxHash :: string
  CvLogIndex :: "64 word"
  CvData :: ContractEventData
  RawLog :: types_log
  ProcessedAt :: int

record ChainConfig =
  CcChainID :: string
  CcName :: string
  RPCURL :: string
  CcEnabled :: bool

record pollSubscription =
  PsContractAddr :: bytes
  PsContractType :: string
  PsEventName :: string
  PsEventSig :: bytes

record log_params =
  LqFromBlock :: string
  LqToBlock :: string
  LqAddresses :: "string list"
  LqTopics :: "string list list"

record TaskStatusPayload =
  PyTaskID :: int
  PyJobID :: int
  PyStatus :: string
  PyIsAccepted :: bool
  PyExecutionTxHash :: string
  PySubmissionTx :: string
  PyProofOfTask :: string
  PyError :: string
  PyOccurredAt :: int
  PyEmail :: string

record 'w listener_env =
  BlockNumber :: "'w \<Rightarrow> (go_error + string) \<times> 'w"
  GetLogs :: "log_params \<Rightarrow> 'w \<Rightarrow> (go_error + node_log list) \<times> 'w"
  Cancelled :: "'w \<Rightarrow> bool"
  LsClock :: "'w \<Rightarrow> int"
  LsHexToAddress :: "string \<Rightarrow> bytes"
  LsHexToHash :: "string \<Rightarrow> bytes"
  AddressHex :: "bytes \<Rightarrow> string"
  AttestationABI :: "go_error + (string \<rightharpoonup> bytes \<times> abi_input list)"
  UnpackIntoMap :: "abi_input list \<Rightarrow> bytes \<Rightarrow> go_error + (string \<rightharpoonup> abi_value)"
  Fetch :: "string \<Rightarrow> 'w \<Rightarrow> (go_error + IPFSData) \<times> 'w"
  PostWebhook :: "string \<Rightarrow> string \<Rightarrow> TaskStatusPayload \<Rightarrow> 'w \<Rightarrow> (go_error + int) \<times> 'w"
  WebhookURL :: string
  WebhookToken :: string
  SendMail :: "string \<Rightarrow> TaskStatusPayload \<Rightarrow> 'w \<Rightarrow> (go_error + unit) \<times> 'w"
  MonDb :: "'w monitor_db"
  MonSv :: services
  MonCd :: codec

definition ContractTypeAttestationCenter :: string where
  "ContractTypeAttestationCenter = ''attestation_center''"

section \<open>Bytes and numbers\<close>

text \<open>\<open>encoding/hex\<close>.\<close>

definition hex_char :: "nat \<Rightarrow> char" where
  "hex_char d = char_of (if d < 10 then 48 + d else 87 + d)"

definition EncodeToString :: "bytes \<Rightarrow> string" where
  "EncodeToString bs = concat (map (\<lambda>b. [hex_char (unat b div 16), hex_char (unat b mod 16)]) bs)"

fun DecodeString :: "string \<Rightarrow> go_error + bytes" where
  "DecodeString [] = Inr []"
| "DecodeString [c] = Inl (GoErr ''encoding/hex: odd length hex string'')"
| "DecodeString (c # d # s) =
     (case (hex_digit c, hex_digit d) of
        (Some a, Some b) \<Rightarrow> (case DecodeString s of Inl e \<Rightarrow> Inl e | Inr bs \<Rightarrow> Inr (word_of_nat (16 * a + b) # bs))
      | _ \<Rightarrow> Inl (GoErr ''encoding/hex: invalid byte''))"

definition hash_hex :: "bytes \<Rightarrow> string" where
  "hash_hex h = ''0x'' @ EncodeToString h"

text \<open>\<open>big.Int.SetBytes\<close>.\<close>

definition big_of :: "bytes \<Rightarrow> nat" where
  "big_of bs = foldl (\<lambda>v b. 256 * v + unat b) 0 bs"

text \<open>\<open>ParseUint(s, 16, 64)\<close>: no sign, and a value that fits.\<close>

definition hexToUint64 :: "string \<Rightarrow> go_error + 64 word" where
  "hexToUint64 hexStr =
     (case parse_hex (if prefix ''0x'' hexStr then drop 2 hexStr else hexStr) of
        None \<Rightarrow> Inl (GoErr ''invalid syntax'')
      | Some n \<Rightarrow> if n < 2 ^ 64 then Inr (word_of_nat n) else Inl (GoErr ''value out of range''))"

definition uint64ToHex :: "64 word \<Rightarrow> string" where
  "uint64ToHex val = ''0x'' @ show_hex (unat val)"

text \<open>\<open>ParseInt(s, 0, 64)\<close> on a text without underscores: a sign, a prefix for the base, digits, a value that fits.\<close>

definition digit_in :: "nat \<Rightarrow> char \<Rightarrow> nat option" where
  "digit_in b c = (case hex_digit c of None \<Rightarrow> None | Some d \<Rightarrow> if d < b then Some d else None)"

definition parse_base :: "nat \<Rightarrow> string \<Rightarrow> nat option" where
  "parse_base b s = foldl (\<lambda>r c. case (r, digit_in b c) of (Some v, Some d) \<Rightarrow> Some (b * v + d) | _ \<Rightarrow> None) (Some 0) s"

definition parse_prefixed :: "string \<Rightarrow> nat option" where
  "parse_prefixed s =
     (case s of
        [] \<Rightarrow> None
      | c # t \<Rightarrow>
          if c \<noteq> CHR ''0'' then parse_base 10 s
          else (case t of
             k # d # u \<Rightarrow>
               if lower [k] = ''b'' then parse_base 2 (d # u) else if lower [k] = ''o'' then parse_base 8 (d # u)
               else if lower [k] = ''x'' then parse_base 16 (d # u) else parse_base 8 t
           | _ \<Rightarrow> parse_base 8 t))"

definition ParseInt_0 :: "string \<Rightarrow> int option" where
  "ParseInt_0 s =
     (let r = (case s of
          c # t \<Rightarrow> if c = CHR ''-'' then map_option (\<lambda>n. - int n) (parse_prefixed t)
                   else if c = CHR ''+'' then map_option int (parse_prefixed t) else map_option int (parse_prefixed s)
        | [] \<Rightarrow> None)
      in case r of None \<Rightarrow> None | Some n \<Rightarrow> if in_i64 n then Some n else None)"

section \<open>Logs\<close>

definition convertFilterQueryToEthGetLogsParams :: "'w listener_env \<Rightarrow> bytes list \<Rightarrow> bytes list list \<Rightarrow> 64 word \<Rightarrow> 64 word \<Rightarrow> log_params" where
  "convertFilterQueryToEthGetLogsParams env addresses topics fromBlock toBlock =
     \<lparr>LqFromBlock = uint64ToHex fromBlock, LqToBlock = uint64ToHex toBlock, LqAddresses = map (AddressHex env) addresses,
      LqTopics = map (map hash_hex) topics\<rparr>"

definition convertNodeLogToTypesLog :: "'w listener_env \<Rightarrow> node_log \<Rightarrow> go_error + types_log" where
  "convertNodeLogToTypesLog env nodeLog =
     (case hexToUint64 (NlBlockNumber nodeLog) of
        Inl e \<Rightarrow> Inl (Wrap ''failed to parse block number'' e)
      | Inr blockNumber \<Rightarrow>
     (case hexToUint64 (NlLogIndex nodeLog) of
        Inl e \<Rightarrow> Inl (Wrap ''failed to parse log index'' e)
      | Inr logIndex \<Rightarrow>
     (case hexToUint64 (NlTransactionIndex nodeLog) of
        Inl e \<Rightarrow> Inl (Wrap ''failed to parse transaction index'' e)
      | Inr txIndex \<Rightarrow>
     (case DecodeString (if prefix ''0x'' (NlData nodeLog) then drop 2 (NlData nodeLog) else NlData nodeLog) of
        Inl e \<Rightarrow> Inl (Wrap ''failed to decode data'' e)
      | Inr data \<Rightarrow>
          Inr \<lparr>TlAddress = LsHexToAddress env (NlAddress nodeLog), TlTopics = map (LsHexToHash env) (NlTopics nodeLog), TlData = data,
               TlBlockNumber = blockNumber, TlTxHash = LsHexToHash env (NlTransactionHash nodeLog), TlTxIndex = txIndex,
               TlBlockHash = LsHexToHash env (NlBlockHash nodeLog), TlIndex = logIndex, TlRemoved = NlRemoved nodeLog\<rparr>))))"

definition parseTopicData :: "'w listener_env \<Rightarrow> abi_input \<Rightarrow> bytes \<Rightarrow> abi_value" where
  "parseTopicData env input topic =
     (if AiType input = ''address'' then VStr (AddressHex env (LsHexToAddress env (hash_hex topic)))
      else if AiType input \<in> {''uint256'', ''uint128'', ''uint64'', ''uint32'', ''uint16'', ''uint8''} then VStr (show_nat (big_of topic))
      else if AiType input \<in> {''int256'', ''int128'', ''int64'', ''int32'', ''int16'', ''int8''} then
        (let value = big_of topic in VStr (show_int (if bit value 255 then int value - 2 ^ 256 else int value)))
      else if AiType input = ''bytes32'' then VStr (hash_hex topic)
      else if AiType input = ''bool'' then VBool (big_of topic \<noteq> 0)
      else VStr (hash_hex topic))"

text \<open>The indexed inputs take the topics after the first one, as long as there are any.\<close>

fun indexed_data :: "'w listener_env \<Rightarrow> abi_input list \<Rightarrow> bytes list \<Rightarrow> (string \<rightharpoonup> abi_value) \<Rightarrow> string \<rightharpoonup> abi_value" where
  "indexed_data env [] topics m = m"
| "indexed_data env (input # inputs) topics m =
     (if AiIndexed input then
        (case topics of
           [] \<Rightarrow> indexed_data env inputs [] m
         | t # ts \<Rightarrow> indexed_data env inputs ts (m(AiName input \<mapsto> parseTopicData env input t)))
      else indexed_data env inputs topics m)"

definition parseAttestationCenterEvent :: "'w listener_env \<Rightarrow> string \<Rightarrow> types_log \<Rightarrow> go_error + ContractEventData" where
  "parseAttestationCenterEvent env eventName lg =
     (case AttestationABI env of
        Inl e \<Rightarrow> Inl (Wrap ''failed to load AttestationCenter ABI'' e)
      | Inr events \<Rightarrow>
     (case events eventName of
        None \<Rightarrow> Inl (GoErr (''event '' @ eventName @ '' not found in AttestationCenter ABI''))
      | Some (_, inputs) \<Rightarrow>
     (case (if list_all AiIndexed inputs then Inr Map.empty else UnpackIntoMap env inputs (TlData lg)) of
        Inl e \<Rightarrow> Inl (Wrap ''failed to unpack event data'' e)
      | Inr unpacked \<Rightarrow>
          (let nonIndexed = unpacked |` set (map AiName (filter (\<lambda>input. \<not> AiIndexed input) inputs)) in
           Inr \<lparr>CeEventType = eventName, CeContractType = ContractTypeAttestationCenter,
                ParsedData = indexed_data env inputs (drop 1 (TlTopics lg)) nonIndexed, CeRawData = TlData lg,
                CeTopics = map hash_hex (TlTopics lg), CeBlockNumber = TlBlockNumber lg, CeTxHash = hash_hex (TlTxHash lg),
                CeLogIndex = TlIndex lg\<rparr>))))"

text \<open>The event of a log, and the offer of it to the queue. A subscription to another contract has no event.\<close>

definition chain_event :: "'w listener_env \<Rightarrow> ChainConfig \<Rightarrow> pollSubscription \<Rightarrow> int \<Rightarrow> types_log \<Rightarrow> go_error + ChainEvent option" where
  "chain_event env cc sub t lg =
     (if PsContractType sub = ContractTypeAttestationCenter then
        (case parseAttestationCenterEvent env (PsEventName sub) lg of
           Inl e \<Rightarrow> Inl e
         | Inr parsed \<Rightarrow>
             Inr (Some \<lparr>ChainID = CcChainID cc, ChainName = CcName cc, CvContractAddr = AddressHex env (TlAddress lg),
               CvContractType = PsContractType sub, CvEventName = PsEventName sub, CvBlockNumber = TlBlockNumber lg,
               CvTxHash = hash_hex (TlTxHash lg), CvLogIndex = TlIndex lg, CvData = parsed, RawLog = lg, ProcessedAt = t\<rparr>))
      else Inr None)"

definition emitChainEventFromLog :: "'w listener_env \<Rightarrow> ChainConfig \<Rightarrow> pollSubscription \<Rightarrow> int \<Rightarrow> types_log \<Rightarrow> ChainEvent chan
    \<Rightarrow> (go_error + unit) \<times> ChainEvent chan" where
  "emitChainEventFromLog env cc sub t lg eventChan =
     (case chain_event env cc sub t lg of
        Inl e \<Rightarrow> (Inl e, eventChan)
      | Inr None \<Rightarrow> (Inr (), eventChan)
      | Inr (Some evt) \<Rightarrow>
          (case chan_try_send evt eventChan of
             Some c \<Rightarrow> (Inr (), c)
           | None \<Rightarrow> (Inl (GoErr ''event channel full''), eventChan)))"

section \<open>The poller of a chain\<close>

text \<open>The subscriptions to the events of the attestation center at the configured address; an event the ABI does not have is left out.\<close>

definition build_subscriptions :: "'w listener_env \<Rightarrow> string option \<Rightarrow> go_error + pollSubscription list" where
  "build_subscriptions env addr =
     (case addr of
        None \<Rightarrow> Inr []
      | Some a \<Rightarrow>
     (case AttestationABI env of
        Inl e \<Rightarrow> Inl (Wrap ''failed to load AttestationCenter ABI'' e)
      | Inr events \<Rightarrow>
          Inr (List.map_filter (\<lambda>evName. map_option (\<lambda>(i, _). \<lparr>PsContractAddr = LsHexToAddress env a,
             PsContractType = ContractTypeAttestationCenter, PsEventName = evName, PsEventSig = i\<rparr>) (events evName))
             [''TaskSubmitted'', ''TaskRejected''])))"

text \<open>The loops of a poll act on the queue and the world; they say whether the poller is to stop, because its context was cancelled.\<close>

type_synonym 'w queue = "ChainEvent chan \<times> 'w"

fun emit_logs :: "'w listener_env \<Rightarrow> ChainConfig \<Rightarrow> pollSubscription \<Rightarrow> node_log list \<Rightarrow> 'w queue \<Rightarrow> bool \<times> 'w queue" where
  "emit_logs env cc sub [] (q, w) = (False, q, w)"
| "emit_logs env cc sub (nodeLog # logs) (q, w) =
     (if Cancelled env w then (True, q, w)
      else (case convertNodeLogToTypesLog env nodeLog of
         Inl e \<Rightarrow> emit_logs env cc sub logs (q, w)
       | Inr lg \<Rightarrow> emit_logs env cc sub logs (snd (emitChainEventFromLog env cc sub (LsClock env w) lg q), w)))"

definition poll_range :: "'w listener_env \<Rightarrow> ChainConfig \<Rightarrow> pollSubscription \<Rightarrow> 64 word \<Rightarrow> 64 word \<Rightarrow> 'w queue \<Rightarrow> bool \<times> 'w queue" where
  "poll_range env cc sub cur chunkEnd = (\<lambda>(q, w).
     if Cancelled env w then (True, q, w)
     else (case GetLogs env (convertFilterQueryToEthGetLogsParams env [PsContractAddr sub] [[PsEventSig sub]] cur chunkEnd) w of
        (Inl e, w') \<Rightarrow> (Cancelled env w', q, w')
      | (Inr logs, w') \<Rightarrow> emit_logs env cc sub logs (q, w')))"

definition maxRange :: "64 word" where
  "maxRange = 10"

partial_function (option) poll_ranges :: "'w listener_env \<Rightarrow> ChainConfig \<Rightarrow> pollSubscription \<Rightarrow> 64 word \<Rightarrow> 64 word \<Rightarrow> 'w queue
    \<Rightarrow> (bool \<times> 'w queue) option" where
  "poll_ranges env cc sub cur end qw =
     (if cur \<le> end then
        (let t = cur + maxRange - 1; chunkEnd = (if end < t then end else t) in
         case poll_range env cc sub cur chunkEnd qw of
           (stop, qw') \<Rightarrow> if stop then Some (True, qw') else poll_ranges env cc sub (chunkEnd + 1) end qw')
      else Some (False, qw))"

fun poll_subs :: "'w listener_env \<Rightarrow> ChainConfig \<Rightarrow> 64 word \<Rightarrow> 64 word \<Rightarrow> pollSubscription list \<Rightarrow> 'w queue \<Rightarrow> (bool \<times> 'w queue) option" where
  "poll_subs env cc from to [] qw = Some (False, qw)"
| "poll_subs env cc from to (sub # subs) qw =
     (if Cancelled env (snd qw) then Some (True, qw)
      else (case poll_ranges env cc sub from to qw of
         None \<Rightarrow> None
       | Some (True, qw') \<Rightarrow> Some (True, qw')
       | Some (False, qw') \<Rightarrow> poll_subs env cc from to subs qw'))"

definition current_block :: "'w listener_env \<Rightarrow> 'w \<Rightarrow> (go_error + 64 word) \<times> 'w" where
  "current_block env w =
     (case BlockNumber env w of
        (Inl e, w') \<Rightarrow> (Inl (Wrap ''failed to get current block number'' e), w')
      | (Inr h, w') \<Rightarrow>
          (case hexToUint64 h of Inl e \<Rightarrow> (Inl (Wrap ''failed to parse block number'' e), w') | Inr n \<Rightarrow> (Inr n, w')))"

text \<open>One tick: the last block moves on whatever became of the ranges.\<close>

definition poll_tick :: "'w listener_env \<Rightarrow> ChainConfig \<Rightarrow> pollSubscription list \<Rightarrow> 64 word \<Rightarrow> 'w queue \<Rightarrow> (bool \<times> 64 word \<times> 'w queue) option" where
  "poll_tick env cc subs lastBlock = (\<lambda>(q, w).
     case current_block env w of
       (Inl e, w') \<Rightarrow> Some (False, lastBlock, q, w')
     | (Inr currentBlock, w') \<Rightarrow>
         if currentBlock \<le> lastBlock then Some (False, lastBlock, q, w')
         else map_option (\<lambda>(stop, qw'). (stop, if stop then lastBlock else currentBlock, qw'))
                (poll_subs env cc (lastBlock + 1) currentBlock subs (q, w')))"

text \<open>What the poller does before its loop: the subscriptions, and the block it starts from.\<close>

definition start_poller :: "'w listener_env \<Rightarrow> string option \<Rightarrow> 'w \<Rightarrow> (go_error + pollSubscription list \<times> 64 word) \<times> 'w" where
  "start_poller env addr w =
     (case build_subscriptions env addr of
        Inl e \<Rightarrow> (Inl e, w)
      | Inr subs \<Rightarrow> (case current_block env w of (Inl e, w') \<Rightarrow> (Inl e, w') | (Inr n, w') \<Rightarrow> (Inr (subs, n), w')))"

section \<open>The data of a task\<close>

definition zero_submission :: TaskSubmissionData where
  "zero_submission = \<lparr>SuTaskID = 0, TaskNumber = 0, SuTaskDefinitionID = 0, IsAccepted = False, TaskSubmissionTxHash = [],
     PerformerAddress = [], AttesterIds = [], ExecutionTxHash = [], SuExecutionTimestamp = 0, TaskOpxCost = 0, SuProofOfTask = [],
     SuData = [], SuConvertedArguments = []\<rparr>"

definition task_number :: "abi_value option \<Rightarrow> go_error + int" where
  "task_number v =
     (case v of
        Some (VStr s) \<Rightarrow> (case parse_int64 s of None \<Rightarrow> Inl (GoErr ''failed to parse taskNumber'') | Some n \<Rightarrow> Inr n)
      | Some (VFloat x) \<Rightarrow> Inr (f64_to_i64 x)
      | Some (VInt64 n) \<Rightarrow> Inr n
      | Some (VUint32 n) \<Rightarrow> Inr (uint n)
      | Some (VUint64 n) \<Rightarrow> Inr (sint n)
      | _ \<Rightarrow> Inl (GoErr ''taskNumber has unexpected type''))"

text \<open>What cannot be read as an id is skipped.\<close>

definition attester_id :: "abi_value \<Rightarrow> int option" where
  "attester_id v =
     (case v of VFloat x \<Rightarrow> Some (f64_to_i64 x) | VStr s \<Rightarrow> parse_int64 s | VBig n \<Rightarrow> Some (i64 n) | _ \<Rightarrow> None)"

definition attester_ids :: "abi_value \<Rightarrow> int list" where
  "attester_ids v =
     (case v of
        VStrs ss \<Rightarrow> List.map_filter parse_int64 ss
      | VList vs \<Rightarrow> List.map_filter attester_id vs
      | VBigs ns \<Rightarrow> map i64 ns
      | _ \<Rightarrow> [])"

definition attesters_of :: "(string \<rightharpoonup> abi_value) \<Rightarrow> abi_value" where
  "attesters_of m =
     (case m ''attestersIds'' of Some v \<Rightarrow> v
      | None \<Rightarrow> (case m ''attesterIds'' of Some v \<Rightarrow> v
      | None \<Rightarrow> (case m ''attesters'' of Some v \<Rightarrow> v | None \<Rightarrow> VList [])))"

definition parseTaskSubmissionData :: "(string \<rightharpoonup> abi_value) \<Rightarrow> string \<Rightarrow> go_error + TaskSubmissionData" where
  "parseTaskSubmissionData parsedData txHash =
     (case parsedData ''taskDefinitionId'' of
        Some (VStr s) \<Rightarrow>
          (case ParseInt_0 s of
             None \<Rightarrow> Inl (GoErr ''failed to parse taskDefinitionId'')
           | Some taskDefinitionId \<Rightarrow>
               if taskDefinitionId = 10001 \<or> taskDefinitionId = 10002 then Inr zero_submission
               else (case task_number (parsedData ''taskNumber'') of
                  Inl e \<Rightarrow> Inl e
                | Inr taskNumber \<Rightarrow>
                    (case parsedData ''proofOfTask'' of
                       Some (VStr proofOfTask) \<Rightarrow>
                         (case parsedData ''data'' of
                            Some (VBytes v) \<Rightarrow>
                              (case parsedData ''operator'' of
                                 Some (VStr performerAddress) \<Rightarrow>
                                   Inr (zero_submission\<lparr>TaskNumber := taskNumber, SuTaskDefinitionID := taskDefinitionId, IsAccepted := True,
                                     TaskSubmissionTxHash := txHash, PerformerAddress := performerAddress,
                                     AttesterIds := attester_ids (attesters_of parsedData), SuProofOfTask := proofOfTask,
                                     SuData := EncodeToString v\<rparr>)
                               | _ \<Rightarrow> Inl (GoErr ''operator not found or invalid type''))
                          | _ \<Rightarrow> Inl (GoErr ''data field has unexpected type''))
                     | _ \<Rightarrow> Inl (GoErr ''proofOfTask not found or invalid type''))))
      | _ \<Rightarrow> Inl (GoErr ''taskDefinitionId not found or invalid type''))"

section \<open>Notifications\<close>

definition webhook_notify :: "'w listener_env \<Rightarrow> string \<Rightarrow> TaskStatusPayload \<Rightarrow> ('w, unit) io" where
  "webhook_notify env email payload =
     (if WebhookURL env = [] then io_ret ()
      else io_bind (io_wrap ''webhook request failed'' (io_call (PostWebhook env (WebhookURL env)
               (if WebhookToken env = [] then [] else ''Bearer '' @ WebhookToken env) (payload\<lparr>PyEmail := email\<rparr>)))) (\<lambda>status.
        if status < 200 \<or> 300 \<le> status then io_fail (GoErr (''webhook returned non-2xx status: '' @ show_int status)) else io_ret ()))"

text \<open>Every notifier is called; the first error is returned.\<close>

fun notify_all :: "('w, unit) io list \<Rightarrow> go_error option \<Rightarrow> ('w, unit) io" where
  "notify_all [] firstErr = (case firstErr of None \<Rightarrow> io_ret () | Some e \<Rightarrow> io_fail e)"
| "notify_all (n # ns) firstErr =
     io_bind (io_try n) (\<lambda>r. notify_all ns (case (r, firstErr) of (Inl e, None) \<Rightarrow> Some e | _ \<Rightarrow> firstErr))"

definition composite_notify :: "'w listener_env \<Rightarrow> string \<Rightarrow> TaskStatusPayload \<Rightarrow> ('w, unit) io" where
  "composite_notify env email payload = notify_all [webhook_notify env email payload, io_call (SendMail env email payload)] None"

section \<open>The effects of an event\<close>

record 'w monitor =
  Outside :: 'w
  Streams :: stream_manager

definition outside :: "('w, 'a) io \<Rightarrow> ('w monitor, 'a) io" where
  "outside m s = map_option (\<lambda>(r, w). (r, s\<lparr>Outside := w\<rparr>)) (m (Outside s))"

definition streams :: "'a prog \<Rightarrow> ('w monitor, 'a) io" where
  "streams m s = map_option (\<lambda>(r, h). (r, s\<lparr>Streams := h\<rparr>)) (m (Streams s))"

definition ok_or_log :: "('s, 'a) io \<Rightarrow> ('s, unit) io" where
  "ok_or_log m = io_bind (io_try m) (\<lambda>_. io_ret ())"

definition FindTaskInDispatched :: "services \<Rightarrow> codec \<Rightarrow> int \<Rightarrow> TaskStreamData prog" where
  "FindTaskInDispatched sv cd taskID = io_bind (FindTaskByID sv cd taskID) (\<lambda>(task, messageID). io_ret task)"

definition moveTaskToCompleted :: "services \<Rightarrow> codec \<Rightarrow> int \<Rightarrow> unit prog" where
  "moveTaskToCompleted sv cd taskID =
     io_bind (FindTaskInDispatched sv cd taskID) (\<lambda>task.
     io_bind (now sv) (\<lambda>t.
     addTaskToStream sv cd StreamTaskCompleted (task\<lparr>CompletedAt := Some t\<rparr>)))"

text \<open>What IPFS holds about the task goes into its submission. Without action data, fee or proof, the pointer is nil: \<open>None\<close>.\<close>

definition complete_submission :: "TaskSubmissionData \<Rightarrow> IPFSData \<Rightarrow> TaskSubmissionData option" where
  "complete_submission d ipfs =
     (case ActionData ipfs of
        None \<Rightarrow> None
      | Some a \<Rightarrow>
     (case TotalFee a of
        None \<Rightarrow> None
      | Some fee \<Rightarrow>
     (case Proof ipfs of
        None \<Rightarrow> None
      | Some p \<Rightarrow>
          Some (d\<lparr>SuTaskID := AcTaskID a, ExecutionTxHash := ActionTxHash a, SuExecutionTimestamp := ExecutionTimestamp a,
            TaskOpxCost := f64_div (f64 (of_int fee)) (f64 (10 ^ 18)), SuProofOfTask := ProofOfTask p,
            SuConvertedArguments := ConvertedArguments a\<rparr>))))"

definition update_storage :: "'w listener_env \<Rightarrow> TaskSubmissionData \<Rightarrow> (string \<times> string) list \<Rightarrow> ('w, unit) io" where
  "update_storage env d updates =
     (if SuTaskDefinitionID d = 7 \<and> updates \<noteq> [] then
        io_bind (io_try (GetJobIDByTaskID (MonDb env) (SuTaskID d))) (\<lambda>r.
          case r of Inl e \<Rightarrow> io_ret () | Inr jobID \<Rightarrow> ok_or_log (UpdateScriptStorage (MonDb env) jobID updates))
      else io_ret ())"

definition notify_user :: "'w listener_env \<Rightarrow> TaskSubmissionData \<Rightarrow> ('w, unit) io" where
  "notify_user env d =
     io_bind (io_try (Monitor_Database.GetUserEmailByTaskID (MonDb env) (SuTaskID d))) (\<lambda>r.
       case r of
         Inl e \<Rightarrow> io_ret ()
       | Inr email \<Rightarrow>
           if email = [] then io_ret ()
           else io_bind (io_get (LsClock env)) (\<lambda>t.
             ok_or_log (composite_notify env email
               \<lparr>PyTaskID = SuTaskID d, PyJobID = 0, PyStatus = (if IsAccepted d then ''completed'' else ''failed''), PyIsAccepted = IsAccepted d,
                PyExecutionTxHash = ExecutionTxHash d, PySubmissionTx = TaskSubmissionTxHash d, PyProofOfTask = SuProofOfTask d,
                PyError = [], PyOccurredAt = t, PyEmail = []\<rparr>)))"

definition record_submission :: "'w listener_env \<Rightarrow> TaskSubmissionData \<Rightarrow> (string \<times> string) list \<Rightarrow> ('w monitor, unit) io" where
  "record_submission env d updates =
     io_bind (ok_or_log (streams (moveTaskToCompleted (MonSv env) (MonCd env) (SuTaskID d)))) (\<lambda>_.
     io_bind (ok_or_log (outside (UpdateTaskSubmissionData (MonDb env) d))) (\<lambda>_.
     io_bind (outside (update_storage env d updates)) (\<lambda>_.
     io_bind (io_try (outside (UpdateKeeperPointsInDatabase (MonDb env) d))) (\<lambda>r.
       case r of Inl e \<Rightarrow> io_ret () | Inr _ \<Rightarrow> outside (notify_user env d)))))"

text \<open>The submission of an event: a rejected task is not accepted.\<close>

definition event_submission :: "ChainEvent \<Rightarrow> go_error + TaskSubmissionData" where
  "event_submission event =
     (case parseTaskSubmissionData (ParsedData (CvData event)) (CvTxHash event) of
        Inl e \<Rightarrow> Inl e
      | Inr d \<Rightarrow> Inr (if CvEventName event = ''TaskRejected'' then d\<lparr>IsAccepted := False\<rparr> else d))"

definition ProcessTaskEvent :: "'w listener_env \<Rightarrow> ChainEvent \<Rightarrow> ('w monitor, unit) io" where
  "ProcessTaskEvent env event =
     (case event_submission event of
        Inl e \<Rightarrow> io_ret ()
      | Inr d \<Rightarrow>
          if SuTaskDefinitionID d \<in> {1, 2, 3, 4, 5, 6, 7} then
            (case DecodeString (SuData d) of
               Inl e \<Rightarrow> io_ret ()
             | Inr dataBytes \<Rightarrow>
                 io_bind (io_try (outside (io_call (Fetch env (map (\<lambda>b. char_of (unat b)) dataBytes))))) (\<lambda>r.
                   case r of
                     Inl e \<Rightarrow> io_ret ()
                   | Inr ipfsData \<Rightarrow>
                       (case complete_submission d ipfsData of
                          None \<Rightarrow> io_panic
                        | Some d' \<Rightarrow> record_submission env d' (case ActionData ipfsData of None \<Rightarrow> [] | Some a \<Rightarrow> StorageUpdates a))))
          else io_ret ())"

definition processEvent :: "'w listener_env \<Rightarrow> ChainEvent \<Rightarrow> ('w monitor, unit) io" where
  "processEvent env event =
     (if CvContractType event = ContractTypeAttestationCenter then ProcessTaskEvent env event else io_ret ())"

section \<open>The listener\<close>

text \<open>Whether it runs, whether its context is cancelled, how many pollers and workers it has started, and its queue.\<close>

record listener =
  isRunning :: bool
  LsCancelled :: bool
  Pollers :: "ChainConfig list"
  Workers :: nat
  EventChan :: "ChainEvent chan"

definition NewContractEventListener :: "nat \<Rightarrow> listener" where
  "NewContractEventListener bufferSize =
     \<lparr>isRunning = False, LsCancelled = False, Pollers = [], Workers = 0, EventChan = make_chan bufferSize\<rparr>"

definition Listener_Start :: "ChainConfig list \<Rightarrow> nat \<Rightarrow> listener \<Rightarrow> (go_error + unit) \<times> listener" where
  "Listener_Start chainConfigs processingWorkers l =
     (if isRunning l then (Inl (GoErr ''event listener is already running''), l)
      else (Inr (), l\<lparr>isRunning := True, Pollers := Pollers l @ filter CcEnabled chainConfigs, Workers := Workers l + processingWorkers\<rparr>))"

text \<open>The goroutines end with the context; what is in the queue stays there.\<close>

definition Listener_Stop :: "listener \<Rightarrow> (go_error + unit) \<times> listener" where
  "Listener_Stop l =
     (if \<not> isRunning l then (Inl (GoErr ''event listener is not running''), l)
      else (Inr (), l\<lparr>isRunning := False, LsCancelled := True, Pollers := [], Workers := 0\<rparr>))"

definition GetStatus :: "nat \<Rightarrow> listener \<Rightarrow> bool \<times> nat \<times> nat \<times> nat" where
  "GetStatus processingWorkers l = (isRunning l, processingWorkers, cap (EventChan l), length (buf (EventChan l)))"

text \<open>A worker's next step, unless its context is cancelled or the queue is empty: \<open>None\<close>.\<close>

definition worker_step :: "'w listener_env \<Rightarrow> listener \<Rightarrow> 'w monitor \<Rightarrow> (listener \<times> (('w monitor) option)) option" where
  "worker_step env l s =
     (if LsCancelled l then None
      else map_option (\<lambda>(event, q). (l\<lparr>EventChan := q\<rparr>, map_option snd (processEvent env event s))) (chan_try_recv (EventChan l)))"

section \<open>Reports of the keepers\<close>

record ReportTaskErrorRequest =
  RqTaskID :: int
  RqKeeperAddress :: string
  RqError :: string
  RqSignature :: string

record ReportTaskErrorResponse =
  ReSuccess :: bool
  ReMessage :: string

datatype rpc_request = TypedRequest ReportTaskErrorRequest | MapRequest json | OtherRequest

text \<open>What is signed: the report without its signature.\<close>

definition j_report :: "ReportTaskErrorRequest \<Rightarrow> json" where
  "j_report req = JObj [(''task_id'', j_int (RqTaskID req)), (''keeper_address'', JStr (RqKeeperAddress req)), (''error'', JStr (RqError req))]"

definition validateSignature :: "('k, 'q) crypto \<Rightarrow> ReportTaskErrorRequest \<Rightarrow> go_error + unit" where
  "validateSignature cr req =
     (case VerifySignatureFromJSON cr (j_report req) (RqSignature req) (RqKeeperAddress req) of
        Inl e \<Rightarrow> Inl (Wrap ''signature verification failed'' e)
      | Inr isValid \<Rightarrow> if isValid then Inr () else Inl (GoErr (''invalid signature for keeper '' @ RqKeeperAddress req)))"

definition ReportTaskError :: "'w listener_env \<Rightarrow> ReportTaskErrorRequest \<Rightarrow> ('w monitor, ReportTaskErrorResponse) io" where
  "ReportTaskError env req =
     io_bind (io_try (outside (UpdateTaskError (MonDb env) (RqTaskID req) (RqError req)))) (\<lambda>r.
       case r of
         Inl e \<Rightarrow> io_ret \<lparr>ReSuccess = False, ReMessage = ''failed to update task error: '' @ error_text e\<rparr>
       | Inr _ \<Rightarrow>
           io_bind (ok_or_log (streams (MarkTaskFailed (MonSv env) (MonCd env) (RqTaskID req) (RqError req)))) (\<lambda>_.
           io_ret \<lparr>ReSuccess = True, ReMessage = ''Task error reported successfully''\<rparr>))"

text \<open>\<open>decode\<close> is the conversion of a map through JSON.\<close>

definition report_request :: "(json \<Rightarrow> go_error + ReportTaskErrorRequest) \<Rightarrow> rpc_request \<Rightarrow> go_error + ReportTaskErrorRequest" where
  "report_request decode request =
     (case request of
        TypedRequest req \<Rightarrow> Inr req
      | MapRequest m \<Rightarrow> (case decode m of Inl e \<Rightarrow> Inl (Wrap ''failed to convert request'' e) | Inr req \<Rightarrow> Inr req)
      | OtherRequest \<Rightarrow> Inl (GoErr ''invalid request type for report-task-error''))"

definition Handle :: "'w listener_env \<Rightarrow> ('k, 'q) crypto \<Rightarrow> (json \<Rightarrow> go_error + ReportTaskErrorRequest) \<Rightarrow> string \<Rightarrow> rpc_request
    \<Rightarrow> ('w monitor, ReportTaskErrorResponse) io" where
  "Handle env cr decode meth request =
     (if meth \<noteq> ''report-task-error'' then io_fail (GoErr (''unknown method: '' @ meth))
      else (case report_request decode request of
         Inl e \<Rightarrow> io_fail e
       | Inr req \<Rightarrow>
           (case validateSignature cr req of
              Inl e \<Rightarrow> io_fail (Wrap ''invalid signature'' e)
            | Inr _ \<Rightarrow> ReportTaskError env req)))"

section \<open>The metrics of the streams\<close>

text \<open>The label under which the length of a stream is shown, if it is.\<close>

definition stream_label :: "string \<Rightarrow> string option" where
  "stream_label stream =
     (if stream = ''tasks:ready'' then Some ''ready'' else if stream = ''tasks:processing'' then Some ''processing''
      else if stream = ''tasks:completed'' then Some ''completed'' else if stream = ''tasks:failed'' then Some ''failed''
      else if stream = ''tasks:retry'' then Some ''retry'' else None)"

definition stream_gauges :: "(string \<times> int) list \<Rightarrow> (string \<times> int) list" where
  "stream_gauges = List.map_filter (\<lambda>(stream, n). map_option (\<lambda>l. (l, n)) (stream_label stream))"

section \<open>Numbers and bytes are read back\<close>

lemma hex_char_digit: "d < 16 \<Longrightarrow> hex_digit (hex_char d) = Some d"
  by (auto simp: hex_digit_def hex_char_def Let_def)

text \<open>What is encoded is decoded again.\<close>

theorem bytes_read_back: "DecodeString (EncodeToString bs) = Inr bs"
proof (induction bs)
  case Nil
  then show ?case by (simp add: EncodeToString_def)
next
  case (Cons b bs)
  have "unat b < 256" using unsigned_less [of b, where 'a = nat] by simp
  then have "unat b div 16 < 16" by (simp add: less_mult_imp_div_less)
  moreover have "16 * (unat b div 16) + unat b mod 16 = unat b" by simp
  ultimately show ?case using Cons by (simp add: EncodeToString_def hex_char_digit)
qed

lemma parse_show_hex: "parse_hex (show_hex n) = Some n"
proof (induction n rule: show_hex.induct)
  case (1 n)
  have d: "hex_digit (hex_char (n mod 16)) = Some (n mod 16)" by (rule hex_char_digit) simp
  show ?case
  proof (cases "n < 16")
    case True
    then show ?thesis using d by (subst show_hex.simps) (simp add: parse_hex_def hex_char_def Let_def)
  next
    case False
    have "show_hex (n div 16) \<noteq> []" by (subst show_hex.simps) (simp add: Let_def)
    then show ?thesis using 1 [OF refl refl False] False d by (subst show_hex.simps) (simp add: parse_hex_def hex_char_def Let_def)
  qed
qed

lemma block_number_read_back: "hexToUint64 (uint64ToHex n) = Inr n"
  using unsigned_less [of n, where 'a = nat] by (simp add: hexToUint64_def uint64ToHex_def parse_show_hex)

text \<open>The two's complement of a topic.\<close>

lemma big_of_bound: "big_of bs < 256 ^ length bs"
proof (induction bs rule: rev_induct)
  case Nil
  then show ?case by (simp add: big_of_def)
next
  case (snoc b bs)
  have "unat b < 256" using unsigned_less [of b, where 'a = nat] by simp
  moreover have "big_of (bs @ [b]) = 256 * big_of bs + unat b" by (simp add: big_of_def)
  ultimately show ?case using snoc by simp
qed

theorem signed_topic:
  assumes "length topic = 32" and "AiType input \<in> {''int256'', ''int128'', ''int64'', ''int32'', ''int16'', ''int8''}"
  shows "parseTopicData env input topic = VStr (show_int (signed_take_bit 255 (int (big_of topic))))"
proof -
  have b: "big_of topic < 2 ^ 256" using big_of_bound [of topic] assms(1) by simp
  let ?n = "int (big_of topic)" and ?m = "int (big_of topic) - 2 ^ 256"
  have bit: "bit (big_of topic) 255 \<longleftrightarrow> 2 ^ 255 \<le> big_of topic"
  proof -
    have "big_of topic div 2 ^ 255 < 2" using b by (simp add: less_mult_imp_div_less)
    moreover have "1 \<le> big_of topic div 2 ^ 255 \<longleftrightarrow> 2 ^ 255 \<le> big_of topic" by (simp add: less_eq_div_iff_mult_less_eq)
    moreover have "odd q \<longleftrightarrow> 1 \<le> q" if "q < 2" for q :: nat using that less_2_cases by auto
    ultimately show ?thesis unfolding bit_iff_odd by metis
  qed
  have "signed_take_bit 255 ?n = signed_take_bit 255 ?m"
    unfolding signed_take_bit_eq_iff_take_bit_eq by (simp add: take_bit_eq_mod mod_eq_dvd_iff)
  moreover have "signed_take_bit 255 ?m = ?m" if "2 ^ 255 \<le> big_of topic"
    using that b by (simp add: signed_take_bit_int_eq_self)
  moreover have "signed_take_bit 255 ?n = ?n" if "\<not> 2 ^ 255 \<le> big_of topic"
    using that by (simp add: signed_take_bit_int_eq_self)
  ultimately have "signed_take_bit 255 ?n = (if bit (big_of topic) 255 then ?m else ?n)"
    using bit by (cases "2 ^ 255 \<le> big_of topic") simp_all
  then show ?thesis using assms(2) by (auto simp: parseTopicData_def Let_def)
qed

section \<open>The polling of ranges\<close>

fun run_ranges :: "'w listener_env \<Rightarrow> ChainConfig \<Rightarrow> pollSubscription \<Rightarrow> (nat \<times> nat) list \<Rightarrow> 'w queue \<Rightarrow> bool \<times> 'w queue" where
  "run_ranges env cc sub [] qw = (False, qw)"
| "run_ranges env cc sub ((a, b) # rs) qw =
     (case poll_range env cc sub (word_of_nat a) (word_of_nat b) qw of
        (stop, qw') \<Rightarrow> if stop then (True, qw') else run_ranges env cc sub rs qw')"

lemma poll_ranges_run:
  assumes "unat c + 10 < 2 ^ 64"
  shows "unat f \<le> Suc (unat c) \<Longrightarrow> poll_ranges env cc sub f c qw = Some (run_ranges env cc sub (chunks 10 (unat f) (unat c)) qw)"
proof (induction "Suc (unat c) - unat f" arbitrary: f qw rule: less_induct)
  case less
  show ?case
  proof (cases "f \<le> c")
    case False
    then have "unat c < unat f" by (simp add: word_le_nat_alt)
    then show ?thesis using False by (simp add: poll_ranges.simps [of env cc sub f c] chunks.simps [of _ _ "unat c"])
  next
    case True
    then have fc: "unat f \<le> unat c" by (simp add: word_le_nat_alt)
    let ?b = "min (unat f + 10 - 1) (unat c)"
    have "unat (f + maxRange) = unat f + 10"
      using assms fc by (simp add: maxRange_def unat_word_ariths)
    then have t: "unat (f + maxRange - 1) = unat f + 10 - 1"
      by (simp add: unat_sub word_le_nat_alt)
    let ?to = "if c < f + maxRange - 1 then c else f + maxRange - 1"
    have to: "unat ?to = ?b" by (simp add: t word_less_nat_alt min_def)
    have ti: "word_of_nat ?b = ?to" unfolding to [symmetric] by simp
    have bc: "?b \<le> unat c" "unat f \<le> ?b" using fc by auto
    have "unat (?to + 1) = Suc ?b"
      using assms bc to by (simp add: unat_word_ariths)
    then have IH: "poll_ranges env cc sub (?to + 1) c qw' = Some (run_ranges env cc sub (chunks 10 (Suc ?b) (unat c)) qw')" for qw'
      using less.hyps [of "?to + 1"] bc fc by simp
    have ch: "chunks 10 (unat f) (unat c) = (unat f, ?b) # chunks 10 (Suc ?b) (unat c)"
      using fc by (subst chunks.simps) (simp add: Let_def)
    have f: "word_of_nat (unat f) = f" by simp
    show ?thesis
      unfolding ch
      by (subst poll_ranges.simps) (simp only: True if_True Let_def run_ranges.simps ti f, simp only: IH split: prod.split if_split, simp)
  qed
qed

text \<open>The events that a poll has to offer, in the order of the subscriptions, the ranges and the logs.\<close>

definition log_events :: "'w listener_env \<Rightarrow> ChainConfig \<Rightarrow> pollSubscription \<Rightarrow> 'w \<Rightarrow> node_log list \<Rightarrow> ChainEvent list" where
  "log_events env cc sub w logs =
     List.map_filter (\<lambda>l. case convertNodeLogToTypesLog env l of Inl e \<Rightarrow> None
       | Inr lg \<Rightarrow> (case chain_event env cc sub (LsClock env w) lg of Inr (Some e) \<Rightarrow> Some e | _ \<Rightarrow> None)) logs"

fun range_events :: "'w listener_env \<Rightarrow> ChainConfig \<Rightarrow> (pollSubscription \<times> nat \<times> nat) list \<Rightarrow> 'w \<Rightarrow> ChainEvent list \<times> 'w" where
  "range_events env cc [] w = ([], w)"
| "range_events env cc ((sub, a, b) # rs) w =
     (case GetLogs env (convertFilterQueryToEthGetLogsParams env [PsContractAddr sub] [[PsEventSig sub]] (word_of_nat a) (word_of_nat b)) w of
        (Inl e, w') \<Rightarrow> range_events env cc rs w'
      | (Inr logs, w') \<Rightarrow> (case range_events env cc rs w' of (es, w'') \<Rightarrow> (log_events env cc sub w' logs @ es, w'')))"

definition tick_ranges :: "64 word \<Rightarrow> 64 word \<Rightarrow> pollSubscription list \<Rightarrow> (pollSubscription \<times> nat \<times> nat) list" where
  "tick_ranges lastBlock currentBlock subs =
     concat (map (\<lambda>sub. map (Pair sub) (chunks 10 (Suc (unat lastBlock)) (unat currentBlock))) subs)"

abbreviation offer :: "ChainEvent list \<Rightarrow> ChainEvent chan \<Rightarrow> ChainEvent chan" where
  "offer \<equiv> fold (send_or_drop chan_try_send)"

lemma range_events_append:
  "range_events env cc (rs @ ss) w = (case range_events env cc rs w of (es, w') \<Rightarrow> (case range_events env cc ss w' of (fs, w'') \<Rightarrow> (es @ fs, w'')))"
  by (induction env cc rs w rule: range_events.induct) (auto split: prod.split sum.split)

lemma emit_offer:
  "snd (emitChainEventFromLog env cc sub t lg q) =
     offer (case chain_event env cc sub t lg of Inr (Some e) \<Rightarrow> [e] | _ \<Rightarrow> []) q"
  by (auto simp: emitChainEventFromLog_def send_or_drop_def split: sum.split option.split)

lemma emit_logs_offer:
  assumes "\<not> Cancelled env w"
  shows "emit_logs env cc sub logs (q, w) = (False, offer (log_events env cc sub w logs) q, w)"
  using assms
  by (induction logs arbitrary: q) (auto simp: log_events_def List.map_filter_simps emit_offer split: sum.split option.split)

lemma run_ranges_offer:
  assumes "\<And>w. \<not> Cancelled env w"
  shows "run_ranges env cc sub rs (q, w) = (case range_events env cc (map (Pair sub) rs) w of (es, w') \<Rightarrow> (False, offer es q, w'))"
  by (induction rs arbitrary: q w) (auto simp: poll_range_def assms emit_logs_offer split: prod.split sum.split)

lemma poll_subs_offer:
  assumes "\<And>w. \<not> Cancelled env w" and "lastBlock < c" and "unat c + 10 < 2 ^ 64"
  shows "poll_subs env cc (lastBlock + 1) c subs (q, w) =
    (case range_events env cc (tick_ranges lastBlock c subs) w of (es, w') \<Rightarrow> Some (False, offer es q, w'))"
proof (induction subs arbitrary: q w)
  case Nil
  then show ?case by (simp add: tick_ranges_def)
next
  case (Cons sub subs)
  have "unat lastBlock < unat c" using assms(2) by (simp add: word_less_nat_alt)
  moreover have n: "unat (lastBlock + 1) = Suc (unat lastBlock)"
    using calculation assms(3) by (simp add: unat_word_ariths)
  ultimately have "poll_ranges env cc sub (lastBlock + 1) c (q, w) =
      Some (run_ranges env cc sub (chunks 10 (Suc (unat lastBlock)) (unat c)) (q, w))"
    using poll_ranges_run [OF assms(3), of "lastBlock + 1" env cc sub] by simp
  moreover have "tick_ranges lastBlock c (sub # subs) = map (Pair sub) (chunks 10 (Suc (unat lastBlock)) (unat c)) @ tick_ranges lastBlock c subs"
    by (simp add: tick_ranges_def)
  ultimately show ?case
    by (simp add: assms(1) run_ranges_offer [OF assms(1)] range_events_append Cons split: prod.split)
qed

lemma tick_ranges_of:
  "distinct subs \<Longrightarrow> sub \<in> set subs \<Longrightarrow>
     filter (\<lambda>r. fst r = sub) (tick_ranges lastBlock c subs) = map (Pair sub) (chunks 10 (Suc (unat lastBlock)) (unat c))"
proof (induction subs)
  case Nil
  then show ?case by simp
next
  case (Cons s subs)
  have none: "filter (\<lambda>r. fst r = sub) (tick_ranges lastBlock c ss) = []" if "sub \<notin> set ss" for ss
    using that by (induction ss) (auto simp: tick_ranges_def filter_empty_conv)
  have step: "tick_ranges lastBlock c (s # subs) = map (Pair s) (chunks 10 (Suc (unat lastBlock)) (unat c)) @ tick_ranges lastBlock c subs"
    by (simp add: tick_ranges_def)
  have own: "filter (\<lambda>r. fst r = sub) (map (Pair s) xs) = (if s = sub then map (Pair s) xs else [])" for s and xs :: "(nat \<times> nat) list"
    by (induction xs) auto
  show ?case unfolding step using Cons none [of subs] by (cases "s = sub") (auto simp: own)
qed

lemma tick_ranges_tile:
  assumes "distinct subs" and "sub \<in> set subs" and "lastBlock < c"
  shows "concat (map (\<lambda>(_, x, y). [x..<Suc y]) (filter (\<lambda>r. fst r = sub) (tick_ranges lastBlock c subs))) = [Suc (unat lastBlock)..<Suc (unat c)]"
proof -
  have "concat (map (\<lambda>(x, y). [x..<Suc y]) (chunks 10 (Suc (unat lastBlock)) (unat c))) = [Suc (unat lastBlock)..<Suc (unat c)]"
    using assms(3) by (intro chunks_tile) (auto simp: word_less_nat_alt)
  then show ?thesis by (simp add: tick_ranges_of [OF assms(1,2)] comp_def del: upt_Suc)
qed

text \<open>
  C27: A tick of the poller asks for every new block once for every subscription and ends, at the current block; the events of the answers
  are offered to the queue in the order of the ranges and the logs, and those that find no room are lost.
\<close>

theorem poll_offers_new_events:
  assumes "\<And>w. \<not> Cancelled env w" and "current_block env w = (Inr c, w1)" and "lastBlock < c" and "unat c + 10 < 2 ^ 64"
    and "chan_ok q" and "distinct subs"
  shows "\<exists>es w2 q'. range_events env cc (tick_ranges lastBlock c subs) w1 = (es, w2) \<and>
      poll_tick env cc subs lastBlock (q, w) = Some (False, c, q', w2) \<and>
      buf q' = buf q @ take (cap q - length (buf q)) es \<and>
      (\<forall>sub. sub \<in> set subs \<longrightarrow>
         concat (map (\<lambda>(_, x, y). [x..<Suc y]) (filter (\<lambda>r. fst r = sub) (tick_ranges lastBlock c subs))) = [Suc (unat lastBlock)..<Suc (unat c)])"
proof -
  obtain es w2 where es: "range_events env cc (tick_ranges lastBlock c subs) w1 = (es, w2)" by fastforce
  have "\<not> c \<le> lastBlock" using assms(3) by simp
  then have "poll_tick env cc subs lastBlock (q, w) = Some (False, c, offer es q, w2)"
    using es by (simp add: poll_tick_def assms(2) poll_subs_offer [OF assms(1,3,4)])
  then show ?thesis
    using es go_chan.send_all_prefix [OF assms(5), of es] tick_ranges_tile [OF assms(6) _ assms(3)] by simp
qed

section \<open>What a completed task leaves behind\<close>

text \<open>The calls that take something out of Redis.\<close>

definition forgets :: "call \<Rightarrow> bool" where
  "forgets c \<longleftrightarrow> (case c of CXAck _ _ _ _ \<Rightarrow> True | CXDel _ _ _ \<Rightarrow> True | CXTrim _ _ _ \<Rightarrow> True | CHDel _ _ _ \<Rightarrow> True
     | CZRem _ _ _ \<Rightarrow> True | CPipeZRem _ _ _ \<Rightarrow> True | _ \<Rightarrow> False)"

abbreviation keeps :: "'a prog \<Rightarrow> bool" where
  "keeps \<equiv> appends (atmost forgets 0)"

lemma keeps_calls:
  "keeps (xadd sv st j)" "keeps (xrange sv st a b)" "keeps (zadd sv k sc m)" "keeps (setTTL sv k t)" "keeps (hget sv k f)"
  unfolding service_defs
  by (intro none.appends_rules atmost_0_ask; simp add: forgets_def)+

lemma keeps_scan: "keeps (scan_messages cd i ms)"
  unfolding scan_messages.simps
  by (induction ms) (auto simp: first_id_def intro!: keeps_calls none.appends_rules split: option.split sum.split)

lemma keeps_completed: "keeps (moveTaskToCompleted sv cd i)"
  unfolding moveTaskToCompleted_def FindTaskInDispatched_def FindTaskByID_def GetTaskMessageID_def findTaskInDispatched_def
    getTaskByMessageID_def addTaskToStream_def AddMessageExpiration_def first_id_def ignore_def
  by (intro none.appends_rules keeps_calls keeps_scan)

definition keeps_entries :: "'w monitor \<Rightarrow> 'w monitor \<Rightarrow> bool" where
  "keeps_entries s s' \<longleftrightarrow> (\<exists>h. history (Streams s') = history (Streams s) @ h \<and> list_all (\<lambda>c. \<not> forgets c) h)"

interpretation entries: state_order keeps_entries
  by unfold_locales (auto simp: keeps_entries_def)

lemma entries_outside: "io_rel keeps_entries (outside m)"
  by (auto simp: io_rel_def outside_def keeps_entries_def)

lemma entries_streams: "keeps m \<Longrightarrow> io_rel keeps_entries (streams m)"
  by (fastforce simp: io_rel_def streams_def keeps_entries_def appends_def atmost_def count_def filter_empty_conv list_all_iff)


lemma entries_ok_or_log: "io_rel keeps_entries m \<Longrightarrow> io_rel keeps_entries (ok_or_log m)"
  unfolding ok_or_log_def by (intro entries.rel_intros)

lemma entries_event: "io_rel keeps_entries (processEvent env event)"
proof -
  have panic: "io_rel keeps_entries io_panic" by (simp add: io_rel_def io_panic_def)
  show ?thesis
    unfolding processEvent_def ProcessTaskEvent_def record_submission_def
    by (intro entries.rel_intros entries_ok_or_log entries_outside entries_streams keeps_completed panic)
qed

text \<open>
  C28: Recording a task that was submitted on chain only adds to the streams: no event makes the monitor acknowledge or delete a message, or take the
  task out of the index or the timeouts, so a completed task is left to the timeout worker, which treats it as failed.
\<close>

theorem completed_task_never_acknowledged:
  "processEvent env event s = Some (r, s') \<Longrightarrow>
     \<exists>h. history (Streams s') = history (Streams s) @ h \<and> list_all (\<lambda>c. \<not> forgets c) h"
  using io_relD [OF entries_event] unfolding keeps_entries_def .

section \<open>Operations that return\<close>

lemma answers_scan [answers_intros]: "answers (scan msg q)"
  by (auto simp: answers_def scan_def split: prod.split option.split)

lemma answers_outside [answers_intros]: "answers m \<Longrightarrow> answers (outside m)"
  by (simp add: answers_def outside_def)

lemma answers_ok_or_log [answers_intros]: "answers m \<Longrightarrow> answers (ok_or_log m)"
  unfolding ok_or_log_def by (intro answers_intros)

lemma answers_ids [answers_intros]: "answers (GetKeeperIds db as)"
  by (induction as) (auto intro!: answers_intros)

lemma answers_attesters [answers_intros]: "answers (credit_attesters db cost ids)"
  by (induction ids) (auto simp: credit_attester_def intro!: answers_intros)

lemma answers_store [answers_intros]: "answers (store_keys db jobID kvs)"
  by (induction db jobID kvs rule: store_keys.induct) (auto intro!: answers_intros)

lemma answers_database [answers_intros]:
  "answers (UpdateTaskSubmissionData db d)" "answers (UpdateKeeperPointsInDatabase db d)" "answers (UpdateTaskError db i msg)"
  "answers (Monitor_Database.UpdateTaskFailed db i)" "answers (UpdateScriptStorage db jobID kvs)" "answers (GetUserEmailByJobID db jobID)"
  "answers (Monitor_Database.GetUserEmailByTaskID db i)" "answers (GetJobIDByTaskID db i)"
  unfolding UpdateTaskSubmissionData_def UpdateKeeperPointsInDatabase_def UpdateTaskError_def Monitor_Database.UpdateTaskFailed_def
    UpdateScriptStorage_def GetUserEmailByJobID_def Monitor_Database.GetUserEmailByTaskID_def GetJobIDByTaskID_def existing_status_def
    credit_performer_def charge_user_def
  by (intro answers_intros)+

lemma answers_after_move [answers_intros]: "answers (update_storage env d kvs)" "answers (notify_user env d)"
  unfolding update_storage_def notify_user_def composite_notify_def webhook_notify_def notify_all.simps
  by (intro answers_intros)+

section \<open>Events that are passed over, and events that panic\<close>

lemma internal_task_skipped:
  assumes "ParsedData (CvData event) ''taskDefinitionId'' = Some (VStr t)" and "ParseInt_0 t = Some i" and "i \<in> {10001, 10002}"
  shows "ProcessTaskEvent env event = io_ret ()"
  using assms by (auto simp: ProcessTaskEvent_def event_submission_def parseTaskSubmissionData_def zero_submission_def)

theorem missing_fee_panics:
  assumes "event_submission event = Inr d" and "SuTaskDefinitionID d \<in> {1, 2, 3, 4, 5, 6, 7}" and "DecodeString (SuData d) = Inr cid"
    and "Fetch env (map (\<lambda>b. char_of (unat b)) cid) (Outside s) = (Inr ipfs, w)"
    and "ActionData ipfs = None \<or> Proof ipfs = None \<or> (\<exists>a. ActionData ipfs = Some a \<and> TotalFee a = None)"
  shows "ProcessTaskEvent env event s = None"
proof -
  have "complete_submission d ipfs = None" using assms(5) by (auto simp: complete_submission_def split: option.split)
  then show ?thesis
    using assms(1-4) by (simp add: ProcessTaskEvent_def io_bind_def io_try_def outside_def io_call_def io_panic_def)
qed

section \<open>Reports\<close>

text \<open>
  C29: A report is acted on when its signature is one of the address it names itself, for whatever task: the holder of any key can report any
  task as failed. A report whose text differs from what was signed is refused without an effect.
\<close>

theorem any_key_reports_any_task:
  assumes "SignJSONMessage cr (j_report told) key = Inr (RqSignature req)" and "key_of cr key (RqKeeperAddress req)"
    and "binding cr key (RqKeeperAddress req)"
  shows "(canonical (j_report req) = canonical (j_report told) \<longrightarrow>
        Handle env cr decode ''report-task-error'' (TypedRequest req) = ReportTaskError env req) \<and>
      (digest cr (j_report req) \<noteq> digest cr (j_report told) \<longrightarrow>
        (\<forall>s. \<exists>e. Handle env cr decode ''report-task-error'' (TypedRequest req) s = Some (Inl e, s)))"
proof (intro conjI impI allI)
  show "Handle env cr decode ''report-task-error'' (TypedRequest req) = ReportTaskError env req"
    if "canonical (j_report req) = canonical (j_report told)"
    using sign_verify [OF assms(1,2) that] by (simp add: Handle_def report_request_def validateSignature_def)
  show "\<exists>e. Handle env cr decode ''report-task-error'' (TypedRequest req) s = Some (Inl e, s)"
    if "digest cr (j_report req) \<noteq> digest cr (j_report told)" for s
    using sign_verify_other [OF assms that]
    by (auto simp: Handle_def report_request_def validateSignature_def io_fail_def split: sum.split)
qed

section \<open>The streams are not measured\<close>

theorem no_stream_is_measured:
  assumes "GetStreamInfo sv s = Some (Inr (lengths, n), s')"
  shows "stream_gauges lengths = []"
proof -
  have names: "map fst ls = ss" if "stream_lengths sv ss s = Some (Inr ls, s')" for ss ls s s'
    using that
  proof (induction ss arbitrary: ls s)
    case Nil
    then show ?case by (simp add: io_ret_def)
  next
    case (Cons st ss)
    then show ?case by (auto simp: io_bind_Some io_ret_def)
  qed
  obtain s1 where "stream_lengths sv [StreamTaskDispatched, StreamTaskRetry, StreamTaskCompleted, StreamTaskFailed] s = Some (Inr lengths, s1)"
    using assms by (auto simp: GetStreamInfo_def io_bind_Some io_get_def)
  then have "map fst lengths = [StreamTaskDispatched, StreamTaskRetry, StreamTaskCompleted, StreamTaskFailed]" by (rule names)
  then have "\<forall>x \<in> set lengths. stream_label (fst x) = None"
    by (auto simp: stream_label_def StreamTaskDispatched_def StreamTaskRetry_def StreamTaskCompleted_def StreamTaskFailed_def map_eq_Cons_conv)
  then show ?thesis by (induction lengths) (auto simp: stream_gauges_def List.map_filter_simps)
qed

section \<open>A small instance\<close>

text \<open>A node with one log at block 21, IPFS with the result of task 5, and a database that keeps its tables.\<close>

definition demo_log :: node_log where
  "demo_log = \<lparr>NlRemoved = False, NlLogIndex = ''0x0'', NlTransactionIndex = ''0x0'', NlTransactionHash = [], NlBlockHash = [],
     NlBlockNumber = ''0x15'', NlAddress = [], NlData = ''0x'', NlTopics = []\<rparr>"

definition demo_action :: PerformerActionData where
  "demo_action = \<lparr>AcTaskID = 5, ActionTxHash = [], GasUsed = [], AcStatus = True, MemoryUsage = 0, CPUPercentage = 0, NetworkRx = 0,
     NetworkTx = 0, BlockRead = 0, BlockWrite = 0, BandwidthRate = 0, TotalFee = Some 0, StaticComplexity = 0, DynamicComplexity = 0,
     ComplexityIndex = 0, ExecutionTimestamp = 0, ConvertedArguments = [], StorageUpdates = [], ScriptTargetContract = [],
     ScriptCalldata = []\<rparr>"

definition demo_ipfs :: "PerformerActionData option \<Rightarrow> IPFSData" where
  "demo_ipfs a = \<lparr>TaskData = None, ActionData = a,
     Proof = Some \<lparr>PrTaskID = 5, ProofOfTask = [], CertificateHash = [], CertificateTimestamp = 0\<rparr>, Signature = None\<rparr>"

definition demo_listener :: "PerformerActionData option \<Rightarrow> tables listener_env" where
  "demo_listener a = \<lparr>BlockNumber = \<lambda>w. (Inr ''0x16'', w),
     GetLogs = \<lambda>p w. (if LqFromBlock p = ''0x13'' then Inr [demo_log] else Inl (GoErr ''timeout''), w), Cancelled = \<lambda>_. False,
     LsClock = \<lambda>_. 0, LsHexToAddress = \<lambda>_. [], LsHexToHash = \<lambda>_. [], AddressHex = \<lambda>_. [], AttestationABI = Inr (\<lambda>_. Some ([], [])),
     UnpackIntoMap = \<lambda>_ _. Inr Map.empty, Fetch = \<lambda>_ w. (Inr (demo_ipfs a), w), PostWebhook = \<lambda>_ _ _ w. (Inr 200, w),
     WebhookURL = [], WebhookToken = [], SendMail = \<lambda>_ _ w. (Inr (), w), MonDb = table_db [1, 2], MonSv = one_task,
     MonCd = demo_codec\<rparr>"

definition demo_chain :: ChainConfig where
  "demo_chain = \<lparr>CcChainID = ''8453'', CcName = ''Base'', RPCURL = [], CcEnabled = True\<rparr>"

definition demo_sub :: pollSubscription where
  "demo_sub = \<lparr>PsContractAddr = [], PsContractType = ContractTypeAttestationCenter, PsEventName = ''TaskSubmitted'', PsEventSig = []\<rparr>"

definition demo_fields :: "string \<rightharpoonup> abi_value" where
  "demo_fields = [''taskDefinitionId'' \<mapsto> VStr ''1'', ''taskNumber'' \<mapsto> VUint32 3, ''proofOfTask'' \<mapsto> VStr [], ''data'' \<mapsto> VBytes [],
     ''operator'' \<mapsto> VStr ''0xbb'', ''attestersIds'' \<mapsto> VBigs [7, 8]]"

definition demo_chain_event :: ChainEvent where
  "demo_chain_event = \<lparr>ChainID = ''8453'', ChainName = ''Base'', CvContractAddr = [], CvContractType = ContractTypeAttestationCenter,
     CvEventName = ''TaskSubmitted'', CvBlockNumber = 21, CvTxHash = [], CvLogIndex = 0,
     CvData = \<lparr>CeEventType = ''TaskSubmitted'', CeContractType = ContractTypeAttestationCenter, ParsedData = demo_fields, CeRawData = [],
       CeTopics = [], CeBlockNumber = 21, CeTxHash = [], CeLogIndex = 0\<rparr>,
     RawLog = \<lparr>TlAddress = [], TlTopics = [], TlData = [], TlBlockNumber = 21, TlTxHash = [], TlTxIndex = 0, TlBlockHash = [], TlIndex = 0,
       TlRemoved = False\<rparr>, ProcessedAt = 0\<rparr>"

definition demo_monitor_state :: "tables monitor" where
  "demo_monitor_state = \<lparr>Outside = demo_tables, Streams = fresh\<rparr>"

lemma demo_current: "current_block (demo_listener a) w = (Inr 22, w)"
proof -
  have "parse_hex ''16'' = Some 22" by code_simp
  then show ?thesis by (simp add: current_block_def demo_listener_def hexToUint64_def)
qed

theorem poll_offers_new_events_witness:
  "\<exists>es w2 q'. range_events (demo_listener None) demo_chain (tick_ranges 18 22 [demo_sub]) demo_tables = (es, w2) \<and>
      poll_tick (demo_listener None) demo_chain [demo_sub] 18 (make_chan 1, demo_tables) = Some (False, 22, q', w2) \<and>
      buf q' = buf (make_chan 1) @ take (cap (make_chan 1 :: ChainEvent chan) - length (buf (make_chan 1 :: ChainEvent chan))) es \<and>
      (\<forall>sub. sub \<in> set [demo_sub] \<longrightarrow>
         concat (map (\<lambda>(_, x, y). [x..<Suc y]) (filter (\<lambda>r. fst r = sub) (tick_ranges 18 22 [demo_sub]))) =
           [Suc (unat (18 :: 64 word))..<Suc (unat (22 :: 64 word))])"
proof (rule poll_offers_new_events [OF _ demo_current])
  show "\<not> Cancelled (demo_listener None) w" for w by (simp add: demo_listener_def)
  show "unat (22 :: 64 word) + 10 < 2 ^ 64" by simp
  show "(18 :: 64 word) < 22" by simp
  show "chan_ok (make_chan 1)" by (rule chan_ok_make)
  show "distinct [demo_sub]" by simp
qed

lemma demo_submission_of: "event_submission demo_chain_event = Inr (zero_submission\<lparr>TaskNumber := 3, SuTaskDefinitionID := 1, IsAccepted := True,
     PerformerAddress := ''0xbb'', AttesterIds := [7, 8]\<rparr>)"
proof -
  have p: "ParseInt_0 ''1'' = Some 1" and i: "i64 7 = 7" "i64 8 = 8" by code_simp+
  show ?thesis
    by (simp add: event_submission_def demo_chain_event_def parseTaskSubmissionData_def demo_fields_def p i task_number_def attesters_of_def
      attester_ids_def EncodeToString_def zero_submission_def)
qed

lemma demo_moved: "\<exists>h. moveTaskToCompleted one_task demo_codec 5 fresh = Some (Inr (), fresh\<lparr>history := h\<rparr>)"
  by (simp add: moveTaskToCompleted_def FindTaskInDispatched_def run_defs addTaskToStream_def AddMessageExpiration_def ignore_def now_def
    one_task_def idle_services_def demo_codec_def demo_task_def fresh_def)

lemma io_bind_returns: "m s = Some (Inr a, s') \<Longrightarrow> f a s' \<noteq> None \<Longrightarrow> io_bind m f s \<noteq> None"
  by (simp add: io_bind_def)

theorem completed_task_never_acknowledged_witness:
  "\<exists>r s'. processEvent (demo_listener (Some demo_action)) demo_chain_event demo_monitor_state = Some (r, s') \<and>
     (\<exists>h. history (Streams s') = history (Streams demo_monitor_state) @ h \<and> list_all (\<lambda>c. \<not> forgets c) h)"
proof -
  let ?env = "demo_listener (Some demo_action)" and ?ipfs = "demo_ipfs (Some demo_action)"
  obtain d where d: "event_submission demo_chain_event = Inr d" "SuTaskDefinitionID d = 1" "DecodeString (SuData d) = Inr []"
    by (simp add: demo_submission_of zero_submission_def)
  obtain d' where d': "complete_submission d ?ipfs = Some d'" "SuTaskID d' = 5"
    by (simp add: complete_submission_def demo_ipfs_def demo_action_def)
  have fetch: "outside (io_call (Fetch ?env [])) demo_monitor_state = Some (Inr ?ipfs, demo_monitor_state)"
    by (simp add: outside_def io_call_def demo_listener_def)
  obtain h where h: "moveTaskToCompleted one_task demo_codec 5 fresh = Some (Inr (), fresh\<lparr>history := h\<rparr>)" using demo_moved by blast
  have moved: "ok_or_log (streams (moveTaskToCompleted (MonSv ?env) (MonCd ?env) (SuTaskID d'))) demo_monitor_state =
      Some (Inr (), demo_monitor_state\<lparr>Streams := fresh\<lparr>history := h\<rparr>\<rparr>)"
    using h d'(2) by (simp add: ok_or_log_def streams_def io_defs demo_listener_def demo_monitor_state_def)
  have rest: "answers (io_bind (ok_or_log (outside (UpdateTaskSubmissionData (MonDb ?env) d'))) (\<lambda>_.
     io_bind (outside (update_storage ?env d' [])) (\<lambda>_.
     io_bind (io_try (outside (UpdateKeeperPointsInDatabase (MonDb ?env) d'))) (\<lambda>r.
       case r of Inl e \<Rightarrow> io_ret () | Inr _ \<Rightarrow> outside (notify_user ?env d')))))"
    by (intro answers_intros)
  have "record_submission ?env d' [] demo_monitor_state \<noteq> None"
    unfolding record_submission_def by (rule io_bind_returns, rule moved, rule rest [unfolded answers_def, rule_format])
  then have "processEvent ?env demo_chain_event demo_monitor_state \<noteq> None"
    using d fetch d'(1) by (simp add: processEvent_def ProcessTaskEvent_def io_bind_def io_try_def) (simp add: demo_chain_event_def demo_ipfs_def demo_action_def)
  then obtain r s' where run: "processEvent ?env demo_chain_event demo_monitor_state = Some (r, s')" by fastforce
  then show ?thesis using completed_task_never_acknowledged [OF run] by blast
qed

theorem missing_fee_panics_witness: "ProcessTaskEvent (demo_listener None) demo_chain_event demo_monitor_state = None"
  by (rule missing_fee_panics [OF demo_submission_of, where ipfs = "demo_ipfs None"]) (simp_all add: zero_submission_def demo_listener_def demo_ipfs_def)

definition demo_report :: "string \<Rightarrow> ReportTaskErrorRequest" where
  "demo_report sig = \<lparr>RqTaskID = 5, RqKeeperAddress = ''0x01'', RqError = ''out of gas'', RqSignature = sig\<rparr>"

theorem any_key_reports_any_task_witness:
  "\<exists>sig. SignJSONMessage demo_crypto (j_report (demo_report [])) ''key'' = Inr sig \<and>
     Handle (demo_listener None) demo_crypto (\<lambda>_. Inl (GoErr [])) ''report-task-error'' (TypedRequest (demo_report sig)) =
       ReportTaskError (demo_listener None) (demo_report sig)"
proof -
  obtain sig where sig: "SignJSONMessage demo_crypto (j_report (demo_report [])) ''key'' = Inr sig"
    by (simp add: SignJSONMessage_def SignMessage_def demo_crypto_def)
  have same: "j_report (demo_report x) = j_report (demo_report [])" for x by (simp add: j_report_def demo_report_def)
  have "SignJSONMessage demo_crypto (j_report (demo_report [])) ''key'' = Inr (RqSignature (demo_report sig))"
    using sig by (simp add: demo_report_def)
  from any_key_reports_any_task [OF this demo_key] show ?thesis using sig same [of sig] by auto
qed

end
