(* ===== verification/Http_Client.thy ===== *)
theory Http_Client
  imports Retry Prelude
begin

text \<open>
  The HTTP client of the backend (\<open>pkg/http/http.go\<close>), a client of \<open>Retry\<close>. What a server does with one attempt is the field \<open>Do\<close>: it is
  given the method, the URL and the body, and answers with an error or a response and with the number of bytes that it has read from the body.
  A body is rewindable when \<open>net/http\<close> can produce it again; any other reader is read once. The timeouts of the transport are part of \<open>Do\<close>.
\<close>

section \<open>Requests and responses\<close>

record response =
  StatusCode :: int
  Body :: string
  BodyError :: "go_error option"

datatype request_body = NoBody | Rewindable string | OneShot "go_error + string"

datatype http_error = HTTPError int string | Transport go_error

record HTTPRetryConfig =
  Policy :: "http_error RetryConfig"
  Timeout :: int
  IdleConnTimeout :: int
  MaxResponseSize :: int

record 'w http_env =
  Do :: "string \<Rightarrow> string \<Rightarrow> string \<Rightarrow> 'w \<Rightarrow> (go_error + response) \<times> nat \<times> 'w"
  InvalidRequest :: "string \<Rightarrow> string \<Rightarrow> go_error option"
  HttpRetry :: "('w, http_error) retry_env"
  Quote :: "string \<Rightarrow> string"

fun http_text :: "http_error \<Rightarrow> go_error" where
  "http_text (HTTPError status message) = GoErr (''HTTP '' @ show_int status @ '': '' @ message)"
| "http_text (Transport e) = e"

section \<open>The client\<close>

definition DefaultHTTPRetryConfig :: HTTPRetryConfig where
  "DefaultHTTPRetryConfig =
     \<lparr>Policy = DefaultRetryConfig, Timeout = 10 * second, IdleConnTimeout = 30 * second, MaxResponseSize = 4096\<rparr>"

definition ValidateHTTP :: "HTTPRetryConfig \<Rightarrow> go_error option" where
  "ValidateHTTP c =
     (if Timeout c \<le> 0 then Some (GoErr ''timeout must be positive'')
      else if IdleConnTimeout c \<le> 0 then Some (GoErr ''idleConnTimeout must be positive'')
      else if MaxResponseSize c < 0 then Some (GoErr ''maxResponseSize must be >= 0'')
      else None)"

definition retryable_status :: "int \<Rightarrow> bool" where
  "retryable_status s \<longleftrightarrow> 500 \<le> s \<or> s = 429"

fun retry_http_error :: "http_error \<Rightarrow> int \<Rightarrow> bool" where
  "retry_http_error (HTTPError s m) a = retryable_status s"
| "retry_http_error (Transport e) a = True"

text \<open>A client is its configuration, with a predicate for the retries.\<close>

definition NewHTTPClient :: "HTTPRetryConfig option \<Rightarrow> go_error + HTTPRetryConfig" where
  "NewHTTPClient config =
     (let c = (case config of None \<Rightarrow> DefaultHTTPRetryConfig | Some c \<Rightarrow> c) in
      (case ValidateHTTP c of
         Some e \<Rightarrow> Inl (Wrap ''invalid HTTP retry config'' e)
       | None \<Rightarrow>
           (case ShouldRetry (Policy c) of
              None \<Rightarrow> Inr (c\<lparr>Policy := (Policy c)\<lparr>ShouldRetry := Some retry_http_error\<rparr>\<rparr>)
            | Some _ \<Rightarrow> Inr c)))"

definition truncate_text :: "string \<Rightarrow> nat \<Rightarrow> string" where
  "truncate_text s maxLen = (if length s \<le> maxLen then s else take maxLen s @ ''...'')"

text \<open>What an attempt sends: the rest of a reader that is read once is part of the state.\<close>

fun sent_body :: "request_body \<Rightarrow> string \<Rightarrow> string" where
  "sent_body NoBody rest = []"
| "sent_body (Rewindable b) rest = b"
| "sent_body (OneShot b) rest = rest"

definition attempt_request :: "'w http_env \<Rightarrow> HTTPRetryConfig \<Rightarrow> string \<Rightarrow> string \<Rightarrow> request_body \<Rightarrow> 'w \<times> string
    \<Rightarrow> (http_error + response) \<times> ('w \<times> string)" where
  "attempt_request env c method url body s =
     (case s of (w, rest) \<Rightarrow>
        (case Do env method url (sent_body body rest) w of
           (Inl e, n, w') \<Rightarrow> (Inl (Transport e), (w', drop n rest))
         | (Inr resp, n, w') \<Rightarrow>
             (if retryable_status (StatusCode resp) \<and> may_retry (Policy c) (HTTPError (StatusCode resp) ''test error for retry check'') 1
              then Inl (HTTPError (StatusCode resp) (''received retryable status code, body: '' @
                     Quote env (truncate_text (take (nat (MaxResponseSize c)) (Body resp)) 200)))
              else Inr resp, (w', drop n rest))))"

definition with_body :: "('w, 'e) retry_env \<Rightarrow> ('w \<times> string, 'e) retry_env" where
  "with_body env =
     \<lparr>ctx_err = \<lambda>(w, rest). ctx_err env w,
      wait_timer = \<lambda>d (w, rest). (case wait_timer env d w of (e, w') \<Rightarrow> (e, (w', rest))),
      rand_source = \<lambda>(w, rest). (case rand_source env w of (u, w') \<Rightarrow> (u, (w', rest)))\<rparr>"

definition retry_request :: "'w http_env \<Rightarrow> HTTPRetryConfig \<Rightarrow> string \<Rightarrow> string \<Rightarrow> request_body \<Rightarrow> string \<Rightarrow> 'w \<Rightarrow> (go_error + response) \<times> 'w" where
  "retry_request env c method url body rest w =
     (case Retry (with_body (HttpRetry env)) (attempt_request env c method url body) (Some (Policy c)) (w, rest) of
        (Inl e, (w', _)) \<Rightarrow> (Inl (retry_cause (map_retry_error http_text e)), w')
      | (Inr resp, (w', _)) \<Rightarrow> (Inr resp, w'))"

definition DoWithRetry :: "'w http_env \<Rightarrow> HTTPRetryConfig \<Rightarrow> string \<Rightarrow> string \<Rightarrow> request_body \<Rightarrow> 'w \<Rightarrow> (go_error + response) \<times> 'w" where
  "DoWithRetry env c method url body w =
     (case body of
        OneShot (Inl e) \<Rightarrow> (Inl (Wrap ''error reading request body for retry'' e), w)
      | OneShot (Inr b) \<Rightarrow> retry_request env c method url body b w
      | _ \<Rightarrow> retry_request env c method url body [] w)"

definition send_request :: "'w http_env \<Rightarrow> HTTPRetryConfig \<Rightarrow> string \<Rightarrow> string \<Rightarrow> request_body \<Rightarrow> 'w \<Rightarrow> (go_error + response) \<times> 'w" where
  "send_request env c method url body w =
     (case InvalidRequest env method url of
        Some e \<Rightarrow> (Inl (Wrap (''failed to create '' @ method @ '' request'') e), w)
      | None \<Rightarrow> DoWithRetry env c method url body w)"

definition Get :: "'w http_env \<Rightarrow> HTTPRetryConfig \<Rightarrow> string \<Rightarrow> 'w \<Rightarrow> (go_error + response) \<times> 'w" where
  "Get env c url = send_request env c ''GET'' url NoBody"

definition Post :: "'w http_env \<Rightarrow> HTTPRetryConfig \<Rightarrow> string \<Rightarrow> request_body \<Rightarrow> 'w \<Rightarrow> (go_error + response) \<times> 'w" where
  "Post env c url body = send_request env c ''POST'' url body"

definition Put :: "'w http_env \<Rightarrow> HTTPRetryConfig \<Rightarrow> string \<Rightarrow> request_body \<Rightarrow> 'w \<Rightarrow> (go_error + response) \<times> 'w" where
  "Put env c url body = send_request env c ''PUT'' url body"

definition Delete :: "'w http_env \<Rightarrow> HTTPRetryConfig \<Rightarrow> string \<Rightarrow> 'w \<Rightarrow> (go_error + response) \<times> 'w" where
  "Delete env c url = send_request env c ''DELETE'' url NoBody"

section \<open>What is returned\<close>

definition default_policy :: "HTTPRetryConfig \<Rightarrow> bool" where
  "default_policy c \<longleftrightarrow> (\<exists>config. (\<forall>d. config = Some d \<longrightarrow> ShouldRetry (Policy d) = None) \<and> NewHTTPClient config = Inr c)"

lemma default_policy_retries: "default_policy c \<Longrightarrow> may_retry (Policy c) (HTTPError s m) a \<longleftrightarrow> retryable_status s"
  by (auto simp: default_policy_def NewHTTPClient_def Let_def may_retry_def DefaultHTTPRetryConfig_def DefaultRetryConfig_def split: option.splits)

text \<open>Whatever the world of a request keeps through an attempt and a pause, it keeps through all of them.\<close>

definition http_keeps :: "('w \<Rightarrow> 'p) \<Rightarrow> 'w http_env \<Rightarrow> bool" where
  "http_keeps p env \<longleftrightarrow>
     (\<forall>m u b w. p (snd (snd (Do env m u b w))) = p w) \<and>
     (\<forall>d w. p (snd (wait_timer (HttpRetry env) d w)) = p w) \<and> (\<forall>w. p (snd (rand_source (HttpRetry env) w)) = p w)"

lemma http_keepsD:
  assumes "http_keeps p env"
  shows "Do env m u b w = (x, n, w') \<Longrightarrow> p w' = p w" "wait_timer (HttpRetry env) d w = (y, w') \<Longrightarrow> p w' = p w"
    "rand_source (HttpRetry env) w = (z, w') \<Longrightarrow> p w' = p w"
  using assms unfolding http_keeps_def by (metis snd_conv)+

lemma attempt_result:
  "default_policy c \<Longrightarrow> attempt_request env c m u b s = (Inr resp, s') \<Longrightarrow> \<not> retryable_status (StatusCode resp)"
  by (auto simp: attempt_request_def default_policy_retries split: prod.splits sum.splits if_splits)

lemma attempt_keeps: "http_keeps p env \<Longrightarrow> attempt_request env c m u b (w, rest) = (r, (w', rest')) \<Longrightarrow> p w' = p w"
  by (auto simp: attempt_request_def split: prod.splits sum.splits if_splits dest: http_keepsD)

lemma http_client:
  assumes "default_policy c"
  shows "retry_client (with_body (HttpRetry env)) (attempt_request env c m u b) (\<lambda>_. True) (\<lambda>resp _. \<not> retryable_status (StatusCode resp))"
  by unfold_locales (auto dest: attempt_result [OF assms])

lemma http_frame:
  assumes "http_keeps p env"
  shows "retry_client (with_body (HttpRetry env)) (attempt_request env c m u b) (\<lambda>s. p (fst s) = v) (\<lambda>_ _. True)"
  by unfold_locales (use attempt_keeps [OF assms] http_keepsD [OF assms] in \<open>auto simp: with_body_def split: prod.splits\<close>)

lemma DoWithRetry_cases:
  "DoWithRetry env c m u b w = (Inr resp, w') \<Longrightarrow> \<exists>rest rest'. Retry (with_body (HttpRetry env)) (attempt_request env c m u b) (Some (Policy c)) (w, rest) = (Inr resp, (w', rest'))"
  by (auto simp: DoWithRetry_def retry_request_def split: request_body.splits sum.splits prod.splits)

lemma DoWithRetry_keeps:
  assumes "http_keeps p env"
  shows "p (snd (DoWithRetry env c m u b w)) = p w"
proof -
  have "p (snd (retry_request env c m u b rest w)) = p w" for b rest
  proof -
    obtain r w' rest' where R: "Retry (with_body (HttpRetry env)) (attempt_request env c m u b) (Some (Policy c)) (w, rest) = (r, (w', rest'))"
      by (metis prod.exhaust)
    then have "p w' = p w"
      using retry_client.Retry_inv [OF http_frame [OF assms] _ R, of "p w"] by simp
    then show ?thesis by (simp add: retry_request_def R split: sum.split)
  qed
  then show ?thesis by (simp add: DoWithRetry_def split: request_body.split sum.split)
qed

lemma send_keeps: "http_keeps p env \<Longrightarrow> p (snd (send_request env c m u b w)) = p w"
  by (simp add: send_request_def DoWithRetry_keeps split: option.split)

section \<open>Properties\<close>

text \<open>
  A client with the default predicate never returns a response with a status of 500 or more, or 429: after the last attempt the
  caller gets an error.
\<close>

theorem retryable_status_never_returned:
  assumes "default_policy c" and "DoWithRetry env c method url body w = (Inr resp, w')"
  shows "StatusCode resp < 500 \<and> StatusCode resp \<noteq> 429"
proof -
  obtain rest rest' where "Retry (with_body (HttpRetry env)) (attempt_request env c method url body) (Some (Policy c)) (w, rest) = (Inr resp, (w', rest'))"
    using DoWithRetry_cases [OF assms(2)] by blast
  then have "\<not> retryable_status (StatusCode resp)"
    using retry_client.Retry_inv [OF http_client [OF assms(1)]] by blast
  then show ?thesis by (simp add: retryable_status_def)
qed

end
