(* ===== verification/Job_Code.thy ===== *)
theory Job_Code
  imports Json Queries
begin

text \<open>
  The validation of the code of a job (\<open>internal/dbserver/handlers/validate_code.go\<close>): the code is run in a container, and the first element that it
  prints is compared with the safe wallet. Verdicts are kept in Redis. The container, the cache and the JSON library are the fields of \<open>code_env\<close>, over a
  world of any type.
\<close>

section \<open>Data\<close>

record ValidateCodeRequest =
  VcCode :: string
  VcLanguage :: string
  SelectedSafe :: string
  VcTargetFunction :: string
  VcTaskDefinitionID :: int
  VcIsSafe :: bool

record ValidateCodeResponse =
  Executable :: bool
  VcOutput :: string
  VcError :: string
  SafeMatch :: bool

text \<open>The result of a run is its success, its output and its error. \<open>ParseArray\<close> gives the elements of an array; \<open>null\<close> has none.\<close>

record 'w code_env =
  ExecuteCode :: "string \<Rightarrow> string \<Rightarrow> 'w \<Rightarrow> (go_error + bool \<times> string \<times> go_error option) \<times> 'w"
  HasCache :: bool
  CacheGet :: "string \<Rightarrow> 'w \<Rightarrow> (go_error + string) \<times> 'w"
  CacheSet :: "string \<Rightarrow> string \<Rightarrow> 'w \<Rightarrow> (go_error + unit) \<times> 'w"
  KeyHash :: "string \<Rightarrow> string"
  EncodeResponse :: "ValidateCodeResponse \<Rightarrow> go_error + string"
  DecodeResponse :: "string \<Rightarrow> go_error + ValidateCodeResponse"
  ParseArray :: "string \<Rightarrow> json list option"

section \<open>The cache\<close>

definition bool_text :: "bool \<Rightarrow> string" where
  "bool_text b = (if b then ''true'' else ''false'')"

definition generateCacheKey :: "'w code_env \<Rightarrow> string \<Rightarrow> ValidateCodeRequest \<Rightarrow> string" where
  "generateCacheKey env ipfsUrl req = ''ipfs:validation:'' @ KeyHash env (ipfsUrl @ '':'' @ VcLanguage req @ '':'' @ SelectedSafe req @ '':'' @
     VcTargetFunction req @ '':'' @ bool_text (VcIsSafe req))"

definition cached_response :: "'w code_env \<Rightarrow> string \<Rightarrow> ValidateCodeRequest \<Rightarrow> ('w, ValidateCodeResponse option) io" where
  "cached_response env ipfsUrl req =
     (if HasCache env \<and> ipfsUrl \<noteq> [] then
        io_bind (io_try (io_call (CacheGet env (generateCacheKey env ipfsUrl req)))) (\<lambda>r.
        io_ret (case r of
            Inl _ \<Rightarrow> None
          | Inr text \<Rightarrow> if text = [] then None else (case DecodeResponse env text of Inl _ \<Rightarrow> None | Inr resp \<Rightarrow> Some resp)))
      else io_ret None)"

definition cache_response :: "'w code_env \<Rightarrow> string \<Rightarrow> ValidateCodeRequest \<Rightarrow> ValidateCodeResponse \<Rightarrow> ('w, unit) io" where
  "cache_response env ipfsUrl req resp =
     (if HasCache env \<and> ipfsUrl \<noteq> [] then
        (case EncodeResponse env resp of
           Inl _ \<Rightarrow> io_ret ()
         | Inr text \<Rightarrow> io_bind (io_try (io_call (CacheSet env (generateCacheKey env ipfsUrl req) text))) (\<lambda>_. io_ret ()))
      else io_ret ())"

section \<open>The verdict\<close>

definition first_token :: "string \<Rightarrow> string" where
  "first_token output =
     (case find (\<lambda>line. TrimSpace line \<noteq> []) (split_at_char (CHR 0x0A) (TrimSpace output)) of
        None \<Rightarrow> []
      | Some line \<Rightarrow> Trim (takeWhile (\<lambda>c. \<not> is_white c) (TrimSpace line)) '',[]\" '')"

definition first_field :: "'w code_env \<Rightarrow> string \<Rightarrow> string" where
  "first_field env output =
     (if output = [] then []
      else (case ParseArray env output of
              Some (JStr s # _) \<Rightarrow> s
            | Some _ \<Rightarrow> []
            | None \<Rightarrow> first_token output))"

definition verdict :: "'w code_env \<Rightarrow> ValidateCodeRequest \<Rightarrow> go_error + bool \<times> string \<times> go_error option \<Rightarrow> ValidateCodeResponse" where
  "verdict env req result =
     (case result of
        Inl e \<Rightarrow> \<lparr>Executable = False, VcOutput = [], VcError = error_text e, SafeMatch = \<not> VcIsSafe req\<rparr>
      | Inr (success, output, err) \<Rightarrow>
          \<lparr>Executable = success, VcOutput = output, VcError = (case err of None \<Rightarrow> [] | Some e \<Rightarrow> error_text e),
           SafeMatch = (if VcIsSafe req then EqualFold (first_field env output) (SelectedSafe req) else True)\<rparr>)"

definition ValidateCodeInternal :: "'w code_env \<Rightarrow> ValidateCodeRequest \<Rightarrow> string \<Rightarrow> ('w, ValidateCodeResponse) io" where
  "ValidateCodeInternal env req ipfsUrl =
     io_bind (cached_response env ipfsUrl req) (\<lambda>cached.
     case cached of
       Some resp \<Rightarrow> io_ret resp
     | None \<Rightarrow>
         io_bind (io_try (io_call (ExecuteCode env (VcCode req) (VcLanguage req)))) (\<lambda>result.
         let resp = verdict env req result in
         io_bind (cache_response env ipfsUrl req resp) (\<lambda>_. io_ret resp)))"

text \<open>The handler for code that is given in the request: it has no URL, so nothing is kept.\<close>

definition ValidateCodeExecutable :: "'w code_env \<Rightarrow> go_error + ValidateCodeRequest \<Rightarrow> ('w, int \<times> (string + ValidateCodeResponse)) io" where
  "ValidateCodeExecutable env body =
     (case body of
        Inl e \<Rightarrow> io_ret (400, Inl (error_text e))
      | Inr req \<Rightarrow> io_bind (ValidateCodeInternal env req []) (\<lambda>resp. io_ret (200, Inr resp)))"

section \<open>What the cache promises\<close>

definition lawful_cache :: "('w \<Rightarrow> string \<rightharpoonup> string) \<Rightarrow> 'w code_env \<Rightarrow> bool" where
  "lawful_cache entries env \<longleftrightarrow>
     (\<forall>k w. \<exists>e. CacheGet env k w = (case entries w k of None \<Rightarrow> Inl e | Some v \<Rightarrow> Inr v, w)) \<and>
     (\<forall>k v w r w'. CacheSet env k v w = (r, w') \<longrightarrow> entries w' = entries w \<or> entries w' = (entries w)(k \<mapsto> v)) \<and>
     (\<forall>c l w. entries (snd (ExecuteCode env c l w)) = entries w)"

definition codec :: "'w code_env \<Rightarrow> bool" where
  "codec env \<longleftrightarrow> (\<forall>resp text. EncodeResponse env resp = Inr text \<longrightarrow> text \<noteq> [] \<and> DecodeResponse env text = Inr resp)"

lemma cached_hit:
  assumes "lawful_cache entries env" and "codec env" and "HasCache env" and "url \<noteq> []"
    and "entries w (generateCacheKey env url req) = Some text" and "EncodeResponse env resp = Inr text"
  shows "ValidateCodeInternal env req url w = Some (Inr resp, w)"
proof -
  obtain e where "CacheGet env (generateCacheKey env url req) w = (case entries w (generateCacheKey env url req) of None \<Rightarrow> Inl e | Some v \<Rightarrow> Inr v, w)"
    using assms(1) unfolding lawful_cache_def by blast
  then have "CacheGet env (generateCacheKey env url req) w = (Inr text, w)" using assms(5) by simp
  moreover have "text \<noteq> []" "DecodeResponse env text = Inr resp" using assms(2,6) by (auto simp: codec_def)
  ultimately show ?thesis
    using assms(3,4) by (simp add: ValidateCodeInternal_def cached_response_def io_defs)
qed

section \<open>Properties\<close>

text \<open>
  The verdict on a URL is kept and given again, without a run, for every request with the same language, wallet, function and flag, whatever the code behind
  the URL, or the state of the container, is by then; a run that has failed is a verdict like any other.
\<close>

theorem verdict_remembered:
  assumes "lawful_cache entries env" and "codec env" and "HasCache env" and "url \<noteq> []"
    and "entries w (generateCacheKey env url req) = None"
    and "ValidateCodeInternal env req url w = Some (Inr resp, w')"
    and "entries w' (generateCacheKey env url req) = Some text" and "entries w2 (generateCacheKey env url req) = Some text"
    and "VcLanguage req2 = VcLanguage req" and "SelectedSafe req2 = SelectedSafe req" and "VcTargetFunction req2 = VcTargetFunction req"
    and "VcIsSafe req2 = VcIsSafe req"
  shows "ValidateCodeInternal env req2 url w2 = Some (Inr resp, w2)"
proof -
  let ?k = "generateCacheKey env url req"
  have k: "generateCacheKey env url req2 = ?k" using assms(9-12) by (simp add: generateCacheKey_def)
  obtain e where miss: "CacheGet env ?k w = (Inl e, w)"
    using assms(1,5) unfolding lawful_cache_def by (metis option.simps(4))
  obtain result w1 where run: "ExecuteCode env (VcCode req) (VcLanguage req) w = (result, w1)" by force
  then have w1: "entries w1 ?k = None" using assms(1,5) unfolding lawful_cache_def by (metis snd_conv)
  have resp: "resp = verdict env req result" and w': "cache_response env url req resp w1 = Some (Inr (), w')"
    using assms(6) miss run assms(3,4)
    by (auto simp: ValidateCodeInternal_def cached_response_def Let_def io_bind_Some io_try_Some io_call_def io_ret_def)
  have "EncodeResponse env resp = Inr text"
  proof (cases "EncodeResponse env resp")
    case (Inl e)
    then show ?thesis using w' w1 assms(7) by (auto simp: cache_response_def assms(3,4) io_ret_def)
  next
    case (Inr t)
    obtain r w3 where "CacheSet env ?k t w1 = (r, w3)" by force
    moreover from this have "w3 = w'" using w' Inr by (auto simp: cache_response_def assms(3,4) io_defs)
    ultimately have "entries w' = entries w1 \<or> entries w' = (entries w1)(?k \<mapsto> t)"
      using assms(1) unfolding lawful_cache_def by blast
    then show ?thesis using w1 assms(7) Inr by auto
  qed
  then show ?thesis using assms(8) cached_hit [OF assms(1-4), where req = req2] by (simp add: k)
qed

end
