(* ===== verification/Job_Handlers.thy ===== *)
theory Job_Handlers
  imports Handlers Job_Code Http_Client Time_Jobs Condition_Scheduler
begin

text \<open>
  The jobs of the users (\<open>internal/dbserver/handlers\<close>: \<open>job_create.go\<close>, \<open>job_update.go\<close>, \<open>schedulers_notify.go\<close>, with the repositories of
  users, jobs and safe wallets). A query is a field of \<open>handler_env\<close>, over a world of any type; a query for one row tells an error from a row that
  is not there. \<open>job_tables\<close> is what the database holds and \<open>implements_jobs\<close> the documented behaviour of the queries. A request
  that fails early has an answer of its own, \<open>Inl\<close>. The columns with the time of creation, and metrics, are left out.
\<close>

section \<open>Data\<close>

record CreateJobData =
  RqJobID :: string
  RqUserAddress :: string
  RqEtherBalance :: "int option"
  RqTokenBalance :: "int option"
  RqJobTitle :: string
  RqTaskDefinitionID :: int
  RqCustom :: bool
  RqLanguage :: string
  RqTimeFrame :: int
  RqRecurring :: bool
  RqJobCostPrediction :: float64
  RqTimezone :: string
  RqCreatedChainID :: string
  RqIsSafe :: bool
  RqSafeAddress :: string
  RqSafeName :: string
  RqTimeInterval :: int
  RqCronExpression :: string
  RqSpecificSchedule :: string
  RqEvent :: EventWorkerData
  RqCondition :: ConditionWorkerData
  RqTarget :: TaskTargetData
  RqIsImua :: bool

text \<open>
  The fields of the request for the event, the condition and the target are grouped as in the records of the scheduler; ids, times and flags in them are not
  read.
\<close>

record UserData =
  UsUserID :: int
  UsUserAddress :: string
  UsJobIDs :: "int list"
  UsEtherBalance :: "int option"
  UsTokenBalance :: "int option"
  UsUserPoints :: float64
  UsTotalJobs :: int
  UsTotalTasks :: int

record JobData =
  JdJobID :: int
  JdJobTitle :: string
  JdTaskDefinitionID :: int
  JdUserID :: int
  JdLinkJobID :: "int option"
  JdChainStatus :: int
  JdCustom :: bool
  JdTimeFrame :: int
  JdRecurring :: bool
  JdStatus :: string
  JdJobCostPrediction :: float64
  JdTimezone :: string
  JdIsImua :: bool
  JdCreatedChainID :: string
  JdSafeAddress :: string

record TimeJobData =
  TjTaskDefinitionID :: int
  TjExpirationTime :: int
  TjNextExecutionTimestamp :: int
  TjScheduleType :: string
  TjTimeInterval :: int
  TjCronExpression :: string
  TjSpecificSchedule :: string
  TjTimezone :: string
  TjTarget :: TaskTargetData
  TjIsCompleted :: bool
  TjIsActive :: bool

record EventJobData =
  EjTaskDefinitionID :: int
  EjEvent :: EventWorkerData
  EjTarget :: TaskTargetData
  EjIsCompleted :: bool
  EjIsActive :: bool

record ConditionJobData =
  CdTaskDefinitionID :: int
  CdCondition :: ConditionWorkerData
  CdTarget :: TaskTargetData
  CdIsCompleted :: bool
  CdIsActive :: bool

text \<open>A custom job with the fields that the poll for due jobs does not read.\<close>

record NewCustomJob = CustomJobData +
  CjTaskDefinitionID :: int
  CjRecurring :: bool

record UpdateJobDataFromUserRequest =
  UpJobID :: string
  UpJobTitle :: string
  UpRecurring :: bool
  UpStatus :: string
  UpTimeFrame :: int
  UpJobCostPrediction :: float64
  UpTimeInterval :: int

record 'w handler_env =
  Code :: "'w code_env"
  Http :: "'w http_env"
  Client :: HTTPRetryConfig
  SchedulerURL :: string
  EncodeJob :: "int option \<times> ScheduleConditionJobData \<Rightarrow> go_error + string"
  Database :: "'w jobs_db"
  UserIDByAddress :: "string \<Rightarrow> 'w \<Rightarrow> (go_error + int option) \<times> 'w"
  UserByID :: "int \<Rightarrow> 'w \<Rightarrow> (go_error + UserData option) \<times> 'w"
  MaxUserID :: "'w \<Rightarrow> (go_error + int) \<times> 'w"
  InsertUser :: "UserData \<Rightarrow> 'w \<Rightarrow> (go_error + unit) \<times> 'w"
  SetUserJobs :: "int list \<Rightarrow> int \<Rightarrow> int \<Rightarrow> 'w \<Rightarrow> (go_error + unit) \<times> 'w"
  SetUserTasks :: "int \<Rightarrow> float64 \<Rightarrow> int \<Rightarrow> 'w \<Rightarrow> (go_error + unit) \<times> 'w"
  InsertJob :: "JobData \<Rightarrow> 'w \<Rightarrow> (go_error + unit) \<times> 'w"
  SetJobFromUser :: "UpdateJobDataFromUserRequest \<Rightarrow> int \<Rightarrow> int \<Rightarrow> 'w \<Rightarrow> (go_error + unit) \<times> 'w"
  SetJobStatus :: "string \<Rightarrow> int \<Rightarrow> int \<Rightarrow> 'w \<Rightarrow> (go_error + unit) \<times> 'w"
  JobDefinition :: "int \<Rightarrow> 'w \<Rightarrow> (go_error + int) \<times> 'w"
  JobUpdated :: "int \<Rightarrow> 'w \<Rightarrow> (go_error + int \<times> int) \<times> 'w"
  InsertTimeJob :: "int \<Rightarrow> TimeJobData \<Rightarrow> 'w \<Rightarrow> (go_error + unit) \<times> 'w"
  InsertEventJob :: "int \<Rightarrow> EventJobData \<Rightarrow> 'w \<Rightarrow> (go_error + unit) \<times> 'w"
  InsertConditionJob :: "int \<Rightarrow> ConditionJobData \<Rightarrow> 'w \<Rightarrow> (go_error + unit) \<times> 'w"
  InsertCustomJob :: "NewCustomJob \<Rightarrow> 'w \<Rightarrow> (go_error + unit) \<times> 'w"
  SetEventJobActive :: "int \<Rightarrow> bool \<Rightarrow> 'w \<Rightarrow> (go_error + unit) \<times> 'w"
  SetConditionJobActive :: "int \<Rightarrow> bool \<Rightarrow> 'w \<Rightarrow> (go_error + unit) \<times> 'w"
  SetTimeInterval :: "int \<Rightarrow> int \<Rightarrow> 'w \<Rightarrow> (go_error + unit) \<times> 'w"
  FindSafe :: "string \<Rightarrow> string \<Rightarrow> 'w \<Rightarrow> (go_error + unit) \<times> 'w"
  InsertSafe :: "string \<Rightarrow> string \<Rightarrow> string \<Rightarrow> 'w \<Rightarrow> (go_error + unit) \<times> 'w"
  JobTaskIDs :: "int \<Rightarrow> 'w \<Rightarrow> (go_error + int list) \<times> 'w"
  SetLastExecuted :: "int list \<Rightarrow> float64 \<Rightarrow> int \<Rightarrow> 'w \<Rightarrow> (go_error + unit) \<times> 'w"

section \<open>Answers\<close>

record CreateJobResponse =
  CrUserID :: int
  AccountBalance :: "int option"
  TokenBalance :: "int option"
  JobIDs :: "int list"
  TaskDefinitionIDs :: "int list"
  TimeFrames :: "int list"

datatype answer_body = Failure string | ValidationFailed string bool bool string | Created CreateJobResponse | Done string

type_synonym answer = "int \<times> answer_body"

definition internal_error :: "go_error \<Rightarrow> answer" where
  "internal_error e = (500, Failure ''Internal server error'')"

section \<open>Users\<close>

text \<open>\<open>None\<close> stands for \<open>gocql.ErrNotFound\<close>, which either query may give.\<close>

definition GetUserDataByAddress :: "'w handler_env \<Rightarrow> string \<Rightarrow> ('w, UserData option) io" where
  "GetUserDataByAddress env a =
     io_bind (io_call (UserIDByAddress env a)) (\<lambda>r.
     case r of None \<Rightarrow> io_ret None | Some userID \<Rightarrow> io_call (UserByID env userID))"

definition new_user :: "int \<Rightarrow> CreateJobData \<Rightarrow> UserData" where
  "new_user userID rq = \<lparr>UsUserID = userID, UsUserAddress = lower (RqUserAddress rq), UsJobIDs = [], UsEtherBalance = RqEtherBalance rq,
     UsTokenBalance = RqTokenBalance rq, UsUserPoints = 0, UsTotalJobs = 0, UsTotalTasks = 0\<rparr>"

definition CreateNewUser :: "'w handler_env \<Rightarrow> CreateJobData \<Rightarrow> ('w, UserData) io" where
  "CreateNewUser env rq =
     io_bind (io_call (MaxUserID env)) (\<lambda>m.
     let u = new_user (i64 (m + 1)) rq in
     io_bind (io_call (InsertUser env u)) (\<lambda>_. io_ret u))"

section \<open>The condition scheduler\<close>

definition sendDataToScheduler :: "'w handler_env \<Rightarrow> string \<Rightarrow> int option \<times> ScheduleConditionJobData \<Rightarrow> ('w, bool) io" where
  "sendDataToScheduler env route data =
     (case EncodeJob env data of
        Inl e \<Rightarrow> io_fail (GoErr (''error marshaling data: '' @ error_text e))
      | Inr body \<Rightarrow>
          (case NewHTTPClient (Some DefaultHTTPRetryConfig) of
             Inl e \<Rightarrow> io_fail (GoErr (''error creating HTTP client: '' @ error_text e))
           | Inr client \<Rightarrow>
               (case InvalidRequest (Http env) ''POST'' (SchedulerURL env @ route) of
                  Some e \<Rightarrow> io_fail (GoErr (''error creating request: '' @ error_text e))
                | None \<Rightarrow>
                    io_bind (io_try (io_call (DoWithRetry (Http env) client ''POST'' (SchedulerURL env @ route) (Rewindable body)))) (\<lambda>r.
                    case r of
                      Inl e \<Rightarrow> io_fail (GoErr (''error sending data to condition scheduler: '' @ error_text e))
                    | Inr resp \<Rightarrow>
                        if StatusCode resp \<noteq> 200
                        then io_fail (GoErr (''condition scheduler service error (status='' @ show_int (StatusCode resp) @ ''): '' @ Body resp))
                        else io_ret True))))"

definition no_event :: EventWorkerData where
  "no_event = \<lparr>EwJobID = None, EwExpirationTime = 0, EwRecurring = False, TriggerChainID = [], TriggerContractAddress = [],
     TriggerEvent = [], EventFilterParaName = [], EventFilterValue = []\<rparr>"

definition no_condition :: ConditionWorkerData where
  "no_condition = \<lparr>CwJobID = None, CwExpirationTime = 0, CwRecurring = False, ConditionType = [], SelectedKeyRoute = [],
     UpperLimit = 0, LowerLimit = 0, ValueSourceType = [], ValueSourceUrl = []\<rparr>"

text \<open>The job id travels beside the data; the pointer of the scheduler is made when it decodes the body.\<close>

definition empty_job :: ScheduleConditionJobData where
  "empty_job = \<lparr>JobID = None, JbTaskDefinitionID = 0, JbLastExecutedAt = 0, TaskTarget = zero_target, EventData = no_event,
     ConditionData = no_condition, JbIsImua = False\<rparr>"

definition notifyConditionScheduler :: "'w handler_env \<Rightarrow> int \<Rightarrow> ScheduleConditionJobData \<Rightarrow> ('w, bool) io" where
  "notifyConditionScheduler env i data =
     io_bind (sendDataToScheduler env ''/api/v1/job/schedule'' (Some i, data)) (\<lambda>success.
     if success then io_ret True else io_fail (GoErr (''failed to notify condition scheduler for job '' @ show_int i)))"

definition notifyPauseToConditionScheduler :: "'w handler_env \<Rightarrow> int \<Rightarrow> ('w, bool) io" where
  "notifyPauseToConditionScheduler env i =
     io_bind (sendDataToScheduler env ''/api/v1/job/pause'' (Some i, empty_job)) (\<lambda>success.
     if success then io_ret True else io_fail (GoErr (''failed to notify event scheduler for job '' @ show_int i)))"

section \<open>Creation\<close>

definition job_data :: "UserData \<Rightarrow> bool \<Rightarrow> int option \<Rightarrow> CreateJobData \<Rightarrow> int \<Rightarrow> string \<Rightarrow> JobData" where
  "job_data user first link rq i safe =
     \<lparr>JdJobID = i, JdJobTitle = RqJobTitle rq, JdTaskDefinitionID = RqTaskDefinitionID rq, JdUserID = UsUserID user, JdLinkJobID = link,
      JdChainStatus = (if first then 0 else 1), JdCustom = RqCustom rq, JdTimeFrame = RqTimeFrame rq, JdRecurring = RqRecurring rq,
      JdStatus = ''pending'', JdJobCostPrediction = RqJobCostPrediction rq, JdTimezone = RqTimezone rq, JdIsImua = RqIsImua rq,
      JdCreatedChainID = RqCreatedChainID rq, JdSafeAddress = safe\<rparr>"

text \<open>The script of a job is fetched and run before the job is stored.\<close>

definition code_request :: "CreateJobData \<Rightarrow> string \<Rightarrow> ValidateCodeRequest" where
  "code_request rq code = \<lparr>VcCode = code, VcLanguage = RqLanguage rq, SelectedSafe = RqSafeAddress rq,
     VcTargetFunction = TargetFunction (RqTarget rq), VcTaskDefinitionID = RqTaskDefinitionID rq, VcIsSafe = RqIsSafe rq\<rparr>"

definition rejection :: "ValidateCodeResponse \<Rightarrow> answer_body" where
  "rejection v = ValidationFailed (''IPFS code validation failed: '' @
     (if VcError v \<noteq> [] then VcError v
      else if \<not> SafeMatch v then ''SafeAddress does not match code output.'' else ''Code not executable.''))
     (Executable v) (SafeMatch v) (VcOutput v)"

definition needs_code :: "CreateJobData \<Rightarrow> bool" where
  "needs_code rq \<longleftrightarrow> RqTaskDefinitionID rq \<in> {2, 4, 6, 7} \<and> DynamicArgumentsScriptUrl (RqTarget rq) \<noteq> []"

definition check_code :: "'w handler_env \<Rightarrow> CreateJobData \<Rightarrow> ('w, answer + unit) io" where
  "check_code env rq =
     (let url = DynamicArgumentsScriptUrl (RqTarget rq) in
      if \<not> needs_code rq then go_on ()
      else
        continue (or_answer (\<lambda>e. (400, Failure (''Failed to download file: '' @ error_text e))) (io_call (Get (Http env) (Client env) url))) (\<lambda>resp.
        if StatusCode resp \<noteq> 200 then stop_with 400 (Failure (''Unexpected status code: '' @ show_int (StatusCode resp)))
        else
          (case BodyError resp of
             Some e \<Rightarrow> stop_with 400 (Failure (''Failed to read response body: '' @ error_text e))
           | None \<Rightarrow>
               io_bind (ValidateCodeInternal (Code env) (code_request rq (Body resp)) url) (\<lambda>v.
               if \<not> Executable v \<or> \<not> SafeMatch v then stop_with 200 (rejection v) else go_on ()))))"

definition store_safe :: "'w handler_env \<Rightarrow> CreateJobData \<Rightarrow> ('w, answer + string) io" where
  "store_safe env rq =
     (let user = lower (RqUserAddress rq); safe = lower (RqSafeAddress rq) in
      if \<not> RqIsSafe rq then go_on []
      else if RqSafeAddress rq = [] then stop_with 400 (Failure ''SafeAddress is required when IsSafe is true'')
      else
        io_bind (io_try (io_call (FindSafe env user safe))) (\<lambda>r.
        case r of
          Inr _ \<Rightarrow> go_on safe
        | Inl _ \<Rightarrow> continue (logged (io_call (InsertSafe env user safe (RqSafeName rq)))) (\<lambda>_. go_on safe)))"

definition next_or_interval :: "int \<Rightarrow> CreateJobData \<Rightarrow> string \<Rightarrow> string \<Rightarrow> int" where
  "next_or_interval now rq cron specific =
     (case CalculateNextExecutionTime now ''interval'' (RqTimeInterval rq) cron specific of
        Inl _ \<Rightarrow> now + i64 (RqTimeInterval rq * second)
      | Inr t \<Rightarrow> t)"

definition stored_target :: "CreateJobData \<Rightarrow> int \<Rightarrow> TaskTargetData" where
  "stored_target rq i =
     (let t = RqTarget rq in
      zero_target\<lparr>TgJobID := Some i, TgTaskDefinitionID := RqTaskDefinitionID rq, TargetChainID := TargetChainID t,
        TargetContractAddress := TargetContractAddress t, TargetFunction := TargetFunction t, ABI := ABI t, ArgType := ArgType t,
        Arguments := Arguments t, DynamicArgumentsScriptUrl := DynamicArgumentsScriptUrl t\<rparr>)"

definition time_job :: "int \<Rightarrow> int \<Rightarrow> CreateJobData \<Rightarrow> int \<Rightarrow> TimeJobData" where
  "time_job expiration now rq i =
     \<lparr>TjTaskDefinitionID = RqTaskDefinitionID rq, TjExpirationTime = expiration,
      TjNextExecutionTimestamp = next_or_interval now rq (RqCronExpression rq) (RqSpecificSchedule rq), TjScheduleType = ''interval'',
      TjTimeInterval = RqTimeInterval rq, TjCronExpression = RqCronExpression rq, TjSpecificSchedule = RqSpecificSchedule rq,
      TjTimezone = [], TjTarget = stored_target rq i, TjIsCompleted = False, TjIsActive = True\<rparr>"

definition event_data :: "int \<Rightarrow> CreateJobData \<Rightarrow> int \<Rightarrow> EventWorkerData" where
  "event_data expiration rq i = (RqEvent rq)\<lparr>EwJobID := Some i, EwExpirationTime := expiration, EwRecurring := RqRecurring rq\<rparr>"

definition condition_data :: "int \<Rightarrow> CreateJobData \<Rightarrow> int \<Rightarrow> ConditionWorkerData" where
  "condition_data expiration rq i = (RqCondition rq)\<lparr>CwJobID := Some i, CwExpirationTime := expiration, CwRecurring := RqRecurring rq\<rparr>"

definition custom_job :: "int \<Rightarrow> int \<Rightarrow> CreateJobData \<Rightarrow> int \<Rightarrow> NewCustomJob" where
  "custom_job expiration now rq i =
     \<lparr>CjJobID = i, CjCustomScriptUrl = DynamicArgumentsScriptUrl (RqTarget rq), CjTimeInterval = RqTimeInterval rq,
      CjTargetChainID = TargetChainID (RqTarget rq), CjIsCompleted = False, CjIsActive = True, CjLastExecutedAt = now,
      CjExpirationTime = expiration, CjScriptLanguage = RqLanguage rq, CjNextExecutionTime = next_or_interval now rq [] [],
      CjTaskDefinitionID = 7, CjRecurring = RqRecurring rq\<rparr>"

text \<open>What the condition scheduler is told: the flag for Imua is not set.\<close>

definition scheduled_job :: "int \<Rightarrow> int \<Rightarrow> CreateJobData \<Rightarrow> int \<Rightarrow> ScheduleConditionJobData" where
  "scheduled_job expiration now rq i =
     (let job = empty_job\<lparr>JbTaskDefinitionID := RqTaskDefinitionID rq, JbLastExecutedAt := now, TaskTarget := stored_target rq i\<rparr> in
      if RqTaskDefinitionID rq \<in> {3, 4} then job\<lparr>EventData := event_data expiration rq i\<rparr>
      else job\<lparr>ConditionData := condition_data expiration rq i\<rparr>)"

definition insert_kind :: "'w handler_env \<Rightarrow> int \<Rightarrow> int \<Rightarrow> CreateJobData \<Rightarrow> int \<Rightarrow> ('w, answer + unit) io" where
  "insert_kind env expiration now rq i =
     (let d = RqTaskDefinitionID rq in
      if d \<in> {1, 2} then or_answer internal_error (io_call (InsertTimeJob env i (time_job expiration now rq i)))
      else if d \<in> {3, 4} then or_answer internal_error (io_call (InsertEventJob env i
        \<lparr>EjTaskDefinitionID = d, EjEvent = event_data expiration rq i, EjTarget = stored_target rq i, EjIsCompleted = False, EjIsActive = True\<rparr>))
      else if d \<in> {5, 6} then or_answer internal_error (io_call (InsertConditionJob env i
        \<lparr>CdTaskDefinitionID = d, CdCondition = condition_data expiration rq i, CdTarget = stored_target rq i, CdIsCompleted = False, CdIsActive = True\<rparr>))
      else if d = 7 then or_answer internal_error (io_call (InsertCustomJob env (custom_job expiration now rq i)))
      else stop_with 400 (Failure ''Invalid task definition ID''))"

definition notify_scheduler :: "'w handler_env \<Rightarrow> int \<Rightarrow> int \<Rightarrow> CreateJobData \<Rightarrow> int \<Rightarrow> ('w, answer + unit) io" where
  "notify_scheduler env expiration now rq i =
     (if RqTaskDefinitionID rq \<in> {3, 4, 5, 6} then logged (notifyConditionScheduler env i (scheduled_job expiration now rq i)) else go_on ())"

definition new_points :: "UserData \<Rightarrow> CreateJobData \<Rightarrow> float64" where
  "new_points user rq = f64_add (UsUserPoints user) (if RqCustom rq then 20 else 10)"

text \<open>The body of the loop; \<open>link\<close> is the job after this one, which has been created before.\<close>

definition create_job :: "'w handler_env \<Rightarrow> UserData \<Rightarrow> bool \<Rightarrow> int option \<Rightarrow> CreateJobData \<Rightarrow> ('w, answer + int) io" where
  "create_job env user first link rq =
     (case parse_big (RqJobID rq) of
        None \<Rightarrow> stop_with 400 (Failure ''Invalid job_id format'')
      | Some i \<Rightarrow>
          continue (check_code env rq) (\<lambda>_.
          continue (store_safe env rq) (\<lambda>safe.
          continue (or_answer internal_error (io_call (InsertJob env (job_data user first link rq i safe)))) (\<lambda>_.
          io_bind (io_get (DbClock (Database env))) (\<lambda>now.
          let expiration = now + i64 (RqTimeFrame rq * second) in
          continue (insert_kind env expiration now rq i) (\<lambda>_.
          continue (notify_scheduler env expiration now rq i) (\<lambda>_.
          continue (or_answer internal_error (io_call (SetUserTasks env 0 (new_points user rq) (UsUserID user)))) (\<lambda>_.
          go_on i))))))))"

text \<open>The loop runs from the last job to the first: the argument is the reversed request, \<open>ids\<close> the jobs that have been created.\<close>

fun create_jobs :: "'w handler_env \<Rightarrow> UserData \<Rightarrow> CreateJobData list \<Rightarrow> int list \<Rightarrow> ('w, answer + int list) io" where
  "create_jobs env user [] ids = go_on ids"
| "create_jobs env user (rq # rqs) ids =
     continue (create_job env user (rqs = []) (case ids of [] \<Rightarrow> None | i # _ \<Rightarrow> Some i) rq) (\<lambda>i. create_jobs env user rqs (i # ids))"

definition user_of_request :: "'w handler_env \<Rightarrow> CreateJobData \<Rightarrow> ('w, answer + UserData) io" where
  "user_of_request env rq =
     continue (or_answer internal_error (GetUserDataByAddress env (lower (RqUserAddress rq)))) (\<lambda>r.
     case r of Some user \<Rightarrow> go_on user | None \<Rightarrow> or_answer internal_error (CreateNewUser env rq))"

definition create_response :: "UserData \<Rightarrow> CreateJobData list \<Rightarrow> int list \<Rightarrow> CreateJobResponse" where
  "create_response user rqs ids =
     \<lparr>CrUserID = UsUserID user, AccountBalance = UsEtherBalance user, TokenBalance = UsTokenBalance user, JobIDs = ids,
      TaskDefinitionIDs = map RqTaskDefinitionID rqs, TimeFrames = map RqTimeFrame rqs\<rparr>"

text \<open>After the loop: the jobs are added to those of the user.\<close>

definition record_jobs :: "'w handler_env \<Rightarrow> CreateJobData list \<Rightarrow> UserData \<Rightarrow> int list \<Rightarrow> ('w, answer + answer) io" where
  "record_jobs env rqs user ids =
     (let allJobIDs = UsJobIDs user @ ids in
      continue (or_answer internal_error (io_bind (io_get (DbClock (Database env))) (\<lambda>now.
        io_call (SetUserJobs env allJobIDs now (UsUserID user))))) (\<lambda>_.
      go_on (200, Created (create_response user rqs ids))))"

definition CreateJobs :: "'w handler_env \<Rightarrow> go_error + CreateJobData list \<Rightarrow> ('w, answer) io" where
  "CreateJobs env body =
     (case body of
        Inl _ \<Rightarrow> io_ret (400, Failure ''Invalid request format'')
      | Inr rqs \<Rightarrow>
          if rqs = [] then io_ret (400, Failure ''No jobs provided'')
          else
            answer_of (
              continue (user_of_request env (hd rqs)) (\<lambda>user.
              continue (create_jobs env user (rev rqs) []) (record_jobs env rqs user))))"

section \<open>Updates\<close>

definition UpdateStatus :: "'w handler_env \<Rightarrow> int \<Rightarrow> string \<Rightarrow> ('w, unit) io" where
  "UpdateStatus env i status =
     io_bind (io_get (DbClock (Database env))) (\<lambda>now.
     replace_error ''failed to update job status'' (io_call (SetJobStatus env status now i)))"

definition UpdateEventJobStatus :: "'w handler_env \<Rightarrow> int \<Rightarrow> bool \<Rightarrow> ('w, unit) io" where
  "UpdateEventJobStatus env i isActive = replace_error ''failed to update event job status'' (io_call (SetEventJobActive env i isActive))"

definition UpdateConditionJobStatus :: "'w handler_env \<Rightarrow> int \<Rightarrow> bool \<Rightarrow> ('w, unit) io" where
  "UpdateConditionJobStatus env i isActive = replace_error ''failed to update condition job status'' (io_call (SetConditionJobActive env i isActive))"

definition failing :: "string \<Rightarrow> go_error \<Rightarrow> answer" where
  "failing msg e = (500, Failure (msg @ '': '' @ error_text e))"

text \<open>What is deactivated depends on the definition; a definition without a case is left alone.\<close>

definition deactivate :: "'w handler_env \<Rightarrow> int \<Rightarrow> int \<Rightarrow> ('w, answer + unit) io" where
  "deactivate env d i =
     (if d \<in> {1, 2} then or_answer (failing ''Error updating time job status'') (UpdateTimeJobStatus (Database env) i False)
      else if d \<in> {3, 4} then
        continue (or_answer (failing ''Error updating event job status'') (UpdateEventJobStatus env i False)) (\<lambda>_.
        continue (or_answer (failing ''Error sending pause to event scheduler'') (notifyPauseToConditionScheduler env i)) (\<lambda>_. go_on ()))
      else if d \<in> {5, 6} then
        continue (or_answer (failing ''Error updating condition job status'') (UpdateConditionJobStatus env i False)) (\<lambda>_.
        continue (or_answer (failing ''Error sending pause to condition scheduler'') (notifyPauseToConditionScheduler env i)) (\<lambda>_. go_on ()))
      else go_on ())"

definition DeleteJobData :: "'w handler_env \<Rightarrow> string \<Rightarrow> ('w, answer) io" where
  "DeleteJobData env jobID =
     (if jobID = [] then io_ret (400, Failure ''No job ID provided'')
      else
        (case parse_big jobID of
           None \<Rightarrow> io_ret (400, Failure ''Invalid job ID format'')
         | Some i \<Rightarrow>
             answer_of (
               continue (or_answer (\<lambda>_. (404, Failure ''Job not found'')) (io_call (JobDefinition env i))) (\<lambda>d.
               continue (or_answer (failing ''Error updating job status'') (UpdateStatus env i ''deleted'')) (\<lambda>_.
               continue (deactivate env d i) (\<lambda>_.
               go_on (200, Done ''Job deleted successfully'')))))))"

definition UpdateTimeJobInterval :: "'w handler_env \<Rightarrow> int \<Rightarrow> int \<Rightarrow> ('w, unit) io" where
  "UpdateTimeJobInterval env i interval =
     replace_error ''failed to update time_interval in time_job_data'' (io_call (SetTimeInterval env i interval))"

text \<open>After the row of the job its schedule is moved; what fails there is only logged.\<close>

definition move_schedule :: "'w handler_env \<Rightarrow> int \<Rightarrow> int \<Rightarrow> ('w, answer + unit) io" where
  "move_schedule env i interval =
     io_bind (io_try (io_call (JobUpdated env i))) (\<lambda>r.
     case r of
       Inl _ \<Rightarrow> go_on ()
     | Inr (d, updatedAt) \<Rightarrow>
         if d \<in> {1, 2} then
           continue (logged (UpdateTimeJobInterval env i interval)) (\<lambda>_.
           logged (UpdateTimeJobNextExecutionTimestamp (Database env) i (updatedAt + i64 (interval * second))))
         else go_on ())"

definition UpdateJobDataFromUser :: "'w handler_env \<Rightarrow> go_error + UpdateJobDataFromUserRequest \<Rightarrow> ('w, answer) io" where
  "UpdateJobDataFromUser env body =
     (case body of
        Inl _ \<Rightarrow> io_ret (400, Failure ''Invalid request format'')
      | Inr d \<Rightarrow>
          (case parse_big (UpJobID d) of
             None \<Rightarrow> io_ret (400, Failure ''Invalid job_id format'')
           | Some i \<Rightarrow>
               answer_of (
                 io_bind (io_get (DbClock (Database env))) (\<lambda>now.
                 continue (or_answer (\<lambda>_. (404, Failure ''Job not found or update failed'')) (io_call (SetJobFromUser env d now i))) (\<lambda>_.
                 continue (move_schedule env i (UpTimeInterval d)) (\<lambda>_.
                 go_on (200, Done ''Job updated successfully'')))))))"

definition validStatuses :: "string set" where
  "validStatuses = {''pending'', ''in-queue'', ''running''}"

definition UpdateJobStatus :: "'w handler_env \<Rightarrow> string \<Rightarrow> string \<Rightarrow> ('w, answer) io" where
  "UpdateJobStatus env jobID status =
     (if status \<notin> validStatuses then io_ret (400, Failure ''Invalid status. Must be one of: pending, in-queue, running'')
      else
        (case parse_big jobID of
           None \<Rightarrow> io_ret (400, Failure ''Invalid job ID format'')
         | Some i \<Rightarrow>
             answer_of (
               continue (or_answer (\<lambda>e. (500, Failure (error_text e))) (UpdateStatus env i status)) (\<lambda>_.
               go_on (200, Done ''Job status updated successfully'')))))"

text \<open>The statement has a place for the id of the job, which is not given: \<open>SetLastExecuted\<close> gets three values.\<close>

definition RecordLastExecution :: "'w handler_env \<Rightarrow> int \<Rightarrow> int \<Rightarrow> float64 \<Rightarrow> int \<Rightarrow> ('w, unit) io" where
  "RecordLastExecution env i taskID cost time =
     io_bind (replace_error ''failed to get task ids by job id'' (io_call (JobTaskIDs env i))) (\<lambda>ids.
     replace_error ''failed to update job last executed at'' (io_call (SetLastExecuted env (ids @ [taskID]) cost time)))"

definition UpdateJobLastExecutedAt :: "'w handler_env \<Rightarrow> go_error + (int \<times> int \<times> float64 \<times> int) \<Rightarrow> ('w, answer) io" where
  "UpdateJobLastExecutedAt env body =
     (case body of
        Inl e \<Rightarrow> io_ret (400, Failure (error_text e))
      | Inr (i, taskID, cost, time) \<Rightarrow>
          answer_of (
            continue (or_answer (failing ''Error updating job data'') (RecordLastExecution env i taskID cost time)) (\<lambda>_.
            go_on (200, Done ''Last executed time updated successfully''))))"

section \<open>What the database holds\<close>

record job_tables =
  Users :: "int \<rightharpoonup> UserData"
  JobRows :: "int \<rightharpoonup> JobData"
  TimeRows :: "int \<rightharpoonup> TimeJobData"
  EventRows :: "int \<rightharpoonup> EventJobData"
  ConditionRows :: "int \<rightharpoonup> ConditionJobData"
  CustomJobRows :: "int \<rightharpoonup> NewCustomJob"

text \<open>A row that an update has made holds zero values.\<close>

definition blank_user :: "int \<Rightarrow> UserData" where
  "blank_user u = \<lparr>UsUserID = u, UsUserAddress = [], UsJobIDs = [], UsEtherBalance = None, UsTokenBalance = None, UsUserPoints = 0,
     UsTotalJobs = 0, UsTotalTasks = 0\<rparr>"

definition blank_job :: "int \<Rightarrow> JobData" where
  "blank_job i = \<lparr>JdJobID = i, JdJobTitle = [], JdTaskDefinitionID = 0, JdUserID = 0, JdLinkJobID = None, JdChainStatus = 0, JdCustom = False,
     JdTimeFrame = 0, JdRecurring = False, JdStatus = [], JdJobCostPrediction = 0, JdTimezone = [], JdIsImua = False, JdCreatedChainID = [],
     JdSafeAddress = []\<rparr>"

definition put_user :: "int \<Rightarrow> (UserData \<Rightarrow> UserData) \<Rightarrow> job_tables \<Rightarrow> job_tables" where
  "put_user u f t = t\<lparr>Users := upsert (blank_user u) u f (Users t)\<rparr>"

definition put_job :: "int \<Rightarrow> (JobData \<Rightarrow> JobData) \<Rightarrow> job_tables \<Rightarrow> job_tables" where
  "put_job i f t = t\<lparr>JobRows := upsert (blank_job i) i f (JobRows t)\<rparr>"

definition set_user_jobs :: "int list \<Rightarrow> UserData \<Rightarrow> UserData" where
  "set_user_jobs ids r = r\<lparr>UsJobIDs := ids, UsTotalJobs := int (length ids)\<rparr>"

definition set_user_tasks :: "int \<Rightarrow> float64 \<Rightarrow> UserData \<Rightarrow> UserData" where
  "set_user_tasks n p r = r\<lparr>UsTotalTasks := n, UsUserPoints := p\<rparr>"

text \<open>The documented behaviour of the statements; the sandbox, the cache, the web and the safe wallets are elsewhere.\<close>

definition implements_jobs :: "('w \<Rightarrow> job_tables) \<Rightarrow> 'w handler_env \<Rightarrow> bool" where
  "implements_jobs view env \<longleftrightarrow>
     (\<forall>a. finds view (UserIDByAddress env a) (\<lambda>t r. \<forall>u. r = Some u \<longrightarrow> (\<exists>row. Users t u = Some row \<and> UsUserAddress row = a))) \<and>
     (\<forall>u. finds view (UserByID env u) (\<lambda>t r. \<forall>row. r = Some row \<longrightarrow> Users t u = Some row \<and> UsUserID row = u)) \<and>
     finds view (MaxUserID env) (\<lambda>t m. \<forall>u \<in> dom (Users t). u \<le> m) \<and>
     (\<forall>u. writes view (InsertUser env u) (\<lambda>t. t\<lparr>Users := (Users t)(UsUserID u \<mapsto> u)\<rparr>)) \<and>
     (\<forall>ids now u. writes view (SetUserJobs env ids now u) (put_user u (set_user_jobs ids))) \<and>
     (\<forall>n p u. writes view (SetUserTasks env n p u) (put_user u (set_user_tasks n p))) \<and>
     (\<forall>d. writes view (InsertJob env d) (\<lambda>t. t\<lparr>JobRows := (JobRows t)(JdJobID d \<mapsto> d)\<rparr>)) \<and>
     (\<forall>s now i. writes view (SetJobStatus env s now i) (put_job i (\<lambda>r. r\<lparr>JdStatus := s\<rparr>))) \<and>
     (\<forall>i. finds view (JobDefinition env i) (\<lambda>t d. \<exists>row. JobRows t i = Some row \<and> JdTaskDefinitionID row = d)) \<and>
     (\<forall>i d. writes view (InsertTimeJob env i d) (\<lambda>t. t\<lparr>TimeRows := (TimeRows t)(i \<mapsto> d)\<rparr>)) \<and>
     (\<forall>i d. writes view (InsertEventJob env i d) (\<lambda>t. t\<lparr>EventRows := (EventRows t)(i \<mapsto> d)\<rparr>)) \<and>
     (\<forall>i d. writes view (InsertConditionJob env i d) (\<lambda>t. t\<lparr>ConditionRows := (ConditionRows t)(i \<mapsto> d)\<rparr>)) \<and>
     (\<forall>d. writes view (InsertCustomJob env d) (\<lambda>t. t\<lparr>CustomJobRows := (CustomJobRows t)(CjJobID d \<mapsto> d)\<rparr>)) \<and>
     (\<forall>u s. keeps view (FindSafe env u s)) \<and> (\<forall>u s n. keeps view (InsertSafe env u s n)) \<and>
     (\<forall>c l. keeps view (ExecuteCode (Code env) c l)) \<and> (\<forall>k. keeps view (CacheGet (Code env) k)) \<and>
     (\<forall>k v. keeps view (CacheSet (Code env) k v)) \<and> http_keeps view (Http env)"

section \<open>What a created job leaves in the tables\<close>

definition safe_of :: "CreateJobData \<Rightarrow> string" where
  "safe_of rq = (if RqIsSafe rq then lower (RqSafeAddress rq) else [])"

definition kind_rows :: "int \<Rightarrow> CreateJobData \<Rightarrow> int \<Rightarrow> job_tables \<Rightarrow> job_tables" where
  "kind_rows now rq i t =
     (let d = RqTaskDefinitionID rq; expiration = now + i64 (RqTimeFrame rq * second) in
      if d \<in> {1, 2} then t\<lparr>TimeRows := (TimeRows t)(i \<mapsto> time_job expiration now rq i)\<rparr>
      else if d \<in> {3, 4} then t\<lparr>EventRows := (EventRows t)(i \<mapsto>
        \<lparr>EjTaskDefinitionID = d, EjEvent = event_data expiration rq i, EjTarget = stored_target rq i, EjIsCompleted = False, EjIsActive = True\<rparr>)\<rparr>
      else if d \<in> {5, 6} then t\<lparr>ConditionRows := (ConditionRows t)(i \<mapsto>
        \<lparr>CdTaskDefinitionID = d, CdCondition = condition_data expiration rq i, CdTarget = stored_target rq i, CdIsCompleted = False, CdIsActive = True\<rparr>)\<rparr>
      else t\<lparr>CustomJobRows := (CustomJobRows t)(i \<mapsto> custom_job expiration now rq i)\<rparr>)"

definition job_effect :: "UserData \<Rightarrow> bool \<Rightarrow> int option \<Rightarrow> CreateJobData \<Rightarrow> int \<Rightarrow> int \<Rightarrow> job_tables \<Rightarrow> job_tables" where
  "job_effect user first link rq i now t =
     put_user (UsUserID user) (set_user_tasks 0 (new_points user rq))
       (kind_rows now rq i (t\<lparr>JobRows := (JobRows t)(i \<mapsto> job_data user first link rq i (safe_of rq))\<rparr>))"

lemma implements_keeps:
  assumes "implements_jobs view env"
  shows "keeps view (FindSafe env u s)" "keeps view (InsertSafe env u s n)" "keeps view (ExecuteCode (Code env) c l)" "keeps view (CacheGet (Code env) k)"
    "keeps view (CacheSet (Code env) k v)" "http_keeps view (Http env)"
  using assms by (simp_all add: implements_jobs_def)

lemma implements_writes:
  assumes "implements_jobs view env"
  shows "writes view (InsertUser env r) (\<lambda>t. t\<lparr>Users := (Users t)(UsUserID r \<mapsto> r)\<rparr>)"
    "writes view (SetUserJobs env ids now u) (put_user u (set_user_jobs ids))"
    "writes view (SetUserTasks env n p u) (put_user u (set_user_tasks n p))"
    "writes view (InsertJob env d) (\<lambda>t. t\<lparr>JobRows := (JobRows t)(JdJobID d \<mapsto> d)\<rparr>)"
    "writes view (SetJobStatus env s now i) (put_job i (\<lambda>r. r\<lparr>JdStatus := s\<rparr>))"
    "writes view (InsertTimeJob env i td) (\<lambda>t. t\<lparr>TimeRows := (TimeRows t)(i \<mapsto> td)\<rparr>)"
    "writes view (InsertEventJob env i ed) (\<lambda>t. t\<lparr>EventRows := (EventRows t)(i \<mapsto> ed)\<rparr>)"
    "writes view (InsertConditionJob env i cd) (\<lambda>t. t\<lparr>ConditionRows := (ConditionRows t)(i \<mapsto> cd)\<rparr>)"
    "writes view (InsertCustomJob env j) (\<lambda>t. t\<lparr>CustomJobRows := (CustomJobRows t)(CjJobID j \<mapsto> j)\<rparr>)"
  using assms by (simp_all only: implements_jobs_def)

lemma implements_finds:
  assumes "implements_jobs view env"
  shows "finds view (UserIDByAddress env a) (\<lambda>t r. \<forall>u. r = Some u \<longrightarrow> (\<exists>row. Users t u = Some row \<and> UsUserAddress row = a))"
    "finds view (UserByID env u) (\<lambda>t r. \<forall>row. r = Some row \<longrightarrow> Users t u = Some row \<and> UsUserID row = u)"
    "finds view (MaxUserID env) (\<lambda>t m. \<forall>u \<in> dom (Users t). u \<le> m)"
    "finds view (JobDefinition env i) (\<lambda>t d. \<exists>row. JobRows t i = Some row \<and> JdTaskDefinitionID row = d)"
  using assms by (simp_all only: implements_jobs_def)

lemma keeps_get: "http_keeps p henv \<Longrightarrow> keeps p (Get henv c url)"
  by (simp add: keeps_def Get_def send_keeps)

lemma keeps_validate:
  assumes "implements_jobs view env"
  shows "io_keeps view (ValidateCodeInternal (Code env) req url)"
proof -
  note [io_keeps_intros] = implements_keeps(1-5) [OF assms]
  have "io_keeps view (cached_response (Code env) url req)"
    unfolding cached_response_def by (intro io_keeps_intros)
  moreover have "io_keeps view (cache_response (Code env) url req resp)" for resp
    unfolding cache_response_def by (intro io_keeps_intros)
  ultimately show ?thesis
    unfolding ValidateCodeInternal_def Let_def by (intro io_keeps_intros)
qed

lemma keeps_check:
  assumes "implements_jobs view env"
  shows "io_keeps view (check_code env rq)"
  unfolding check_code_def Let_def
  by (intro io_keeps_intros keeps_validate [OF assms] keeps_get implements_keeps(6) [OF assms])

lemma keeps_send: "http_keeps view (Http env) \<Longrightarrow> io_keeps view (sendDataToScheduler env route data)"
  unfolding sendDataToScheduler_def
  by (intro io_keeps_intros) (simp add: keeps_def DoWithRetry_keeps)

lemma keeps_notify:
  assumes "implements_jobs view env"
  shows "io_keeps view (notify_scheduler env expiration now rq i)"
  unfolding notify_scheduler_def notifyConditionScheduler_def
  by (intro io_keeps_intros keeps_send implements_keeps(6) [OF assms])

lemma yields_bind:
  "io_triple P m (\<lambda>r w. \<forall>x. r = Inr x \<longrightarrow> R x w) \<Longrightarrow> (\<And>x. yields (R x) (f x) Q) \<Longrightarrow> yields P (io_bind m f) Q"
  unfolding yields_def by (rule io_triple_bind, erule io_triple_mono) (auto split: sum.split)

lemma yields_frame: "yields (\<lambda>w. view w = T) m (\<lambda>a w. view w = U) \<Longrightarrow> yields (\<lambda>w. view w = T \<and> B) m (\<lambda>a w. view w = U \<and> B)"
  by (cases B) (simp_all add: yields_def io_triple_def)

lemma safe_value:
  assumes "implements_jobs view env"
  shows "yields (\<lambda>w. view w = T) (io_bind (io_try (io_call (FindSafe env u safe))) (\<lambda>r. case r of Inr _ \<Rightarrow> go_on safe
        | Inl _ \<Rightarrow> continue (logged (io_call (InsertSafe env u safe n))) (\<lambda>_. go_on safe))) (\<lambda>s w. view w = T \<and> s = safe)"
proof -
  note [io_keeps_intros] = implements_keeps(1,2) [OF assms]
  have insert: "yields (\<lambda>w. view w = T) (continue (logged (io_call (InsertSafe env u safe n))) (\<lambda>_. go_on safe)) (\<lambda>s w. view w = T \<and> s = safe)"
    by (rule yields_continue [OF yields_keeps yields_go_on]) (auto intro!: io_keeps_intros)
  have there: "yields (\<lambda>w. view w = T) (go_on safe) (\<lambda>s w. view w = T \<and> s = safe)" by (rule yields_go_on) simp
  have "io_keeps view (io_try (io_call (FindSafe env u safe)))" by (intro io_keeps_intros)
  then have "io_triple (\<lambda>w. view w = T) (io_try (io_call (FindSafe env u safe))) (\<lambda>r w. \<forall>x. r = Inr x \<longrightarrow> view w = T)"
    by (auto simp: io_triple_def dest: io_keepsD)
  then show ?thesis
    by (rule yields_bind) (use insert there in \<open>auto split: sum.split\<close>)
qed

lemma yields_safe:
  assumes "implements_jobs view env"
  shows "yields (\<lambda>w. view w = T) (store_safe env rq) (\<lambda>safe w. view w = T \<and> safe = safe_of rq)"
  unfolding store_safe_def Let_def
  by (auto simp: safe_of_def yields_stop intro!: yields_go_on safe_value [OF assms])

lemma custom_job_id [simp]: "CjJobID (custom_job expiration now rq i) = i"
  by (simp add: custom_job_def)

lemma job_data_id [simp]: "JdJobID (job_data user first link rq i safe) = i"
  by (simp add: job_data_def)

lemma yields_kind:
  assumes "implements_jobs view env"
  shows "yields (\<lambda>w. view w = T) (insert_kind env (now + i64 (RqTimeFrame rq * second)) now rq i)
    (\<lambda>_ w. view w = kind_rows now rq i T \<and> RqTaskDefinitionID rq \<in> {1..7})"
proof -
  note w = implements_writes(6-9) [OF assms]
  let ?d = "RqTaskDefinitionID rq"
  consider "?d \<in> {1, 2}" | "?d \<in> {3, 4}" | "?d \<in> {5, 6}" | "?d = 7" | "?d \<notin> {1..7}"
    unfolding atLeastAtMost_iff insert_iff by linarith
  then show ?thesis
  proof cases
    case 1
    then show ?thesis unfolding insert_kind_def Let_def
      by (auto simp: kind_rows_def Let_def intro!: yields_mono [OF yields_write [OF w(1)]])
  next
    case 2
    then show ?thesis unfolding insert_kind_def Let_def
      by (auto simp: kind_rows_def Let_def intro!: yields_mono [OF yields_write [OF w(2)]])
  next
    case 3
    then show ?thesis unfolding insert_kind_def Let_def
      by (auto simp: kind_rows_def Let_def intro!: yields_mono [OF yields_write [OF w(3)]])
  next
    case 4
    let ?j = "custom_job (now + i64 (RqTimeFrame rq * second)) now rq i"
    have "yields (\<lambda>w. view w = T) (or_answer internal_error (io_call (InsertCustomJob env ?j)))
        (\<lambda>_ w. view w = T\<lparr>CustomJobRows := (CustomJobRows T)(CjJobID ?j \<mapsto> ?j)\<rparr>)"
      by (rule yields_write [OF w(4)])
    with 4 show ?thesis by (simp add: insert_kind_def kind_rows_def Let_def)
  next
    case 5
    then have "insert_kind env (now + i64 (RqTimeFrame rq * second)) now rq i = stop_with 400 (Failure ''Invalid task definition ID'')"
      by (auto simp: insert_kind_def Let_def)
    then show ?thesis by (simp add: yields_stop)
  qed
qed

lemma yields_create:
  assumes "implements_jobs view env"
  shows "yields (\<lambda>w. view w = T) (create_job env user first link rq)
    (\<lambda>i w. parse_big (RqJobID rq) = Some i \<and> RqTaskDefinitionID rq \<in> {1..7} \<and> (\<exists>now. view w = job_effect user first link rq i now T))"
proof (cases "parse_big (RqJobID rq)")
  case None
  then show ?thesis by (simp add: create_job_def yields_stop)
next
  case (Some i)
  let ?T1 = "T\<lparr>JobRows := (JobRows T)(i \<mapsto> job_data user first link rq i (safe_of rq))\<rparr>"
  have job: "yields (\<lambda>w. view w = T \<and> safe = safe_of rq) (or_answer internal_error (io_call (InsertJob env (job_data user first link rq i safe))))
      (\<lambda>_ w. view w = ?T1)" for safe
  proof (cases "safe = safe_of rq")
    case True
    have "yields (\<lambda>w. view w = T) (or_answer internal_error (io_call (InsertJob env (job_data user first link rq i safe))))
        (\<lambda>_ w. view w = T\<lparr>JobRows := (JobRows T)(JdJobID (job_data user first link rq i safe) \<mapsto> job_data user first link rq i safe)\<rparr>)"
      by (rule yields_write [OF implements_writes(4) [OF assms]])
    with True show ?thesis by simp
  qed (simp add: yields_def io_triple_def)
  have notify: "yields (\<lambda>w. view w = T' \<and> B) (notify_scheduler env e now rq i) (\<lambda>_ w. view w = T' \<and> B)" for T' B e now
    by (rule yields_frame [OF yields_keeps [OF keeps_notify [OF assms]]])
  have tasks: "yields (\<lambda>w. view w = T' \<and> B) (or_answer internal_error (io_call (SetUserTasks env 0 p u))) (\<lambda>_ w. view w = put_user u (set_user_tasks 0 p) T' \<and> B)" for T' B p u
    by (rule yields_frame [OF yields_write [OF implements_writes(3) [OF assms]]])
  show ?thesis
    unfolding create_job_def Some option.case
    by (rule yields_continue [OF yields_keeps [OF keeps_check [OF assms]]], rule yields_continue [OF yields_safe [OF assms]],
        rule yields_continue [OF job], rule yields_clock, simp only: Let_def, rule yields_continue [OF yields_kind [OF assms]],
        rule yields_continue [OF notify], rule yields_continue [OF tasks], rule yields_go_on) (auto simp: job_effect_def)
qed

section \<open>All the jobs of a request\<close>

text \<open>
  What is to be found in the tables for a job of a request: a row that says whose it is and which job comes next, and an active row of its kind
  with the call, the trigger and the times that the request asks for. The first job of a request starts, the others wait for the one before them.
\<close>

definition call_asked :: "CreateJobData \<Rightarrow> TaskTargetData \<Rightarrow> bool" where
  "call_asked rq tg \<longleftrightarrow>
     TargetChainID tg = TargetChainID (RqTarget rq) \<and> TargetContractAddress tg = TargetContractAddress (RqTarget rq) \<and>
     TargetFunction tg = TargetFunction (RqTarget rq) \<and> ABI tg = ABI (RqTarget rq) \<and> ArgType tg = ArgType (RqTarget rq) \<and>
     Arguments tg = Arguments (RqTarget rq) \<and> DynamicArgumentsScriptUrl tg = DynamicArgumentsScriptUrl (RqTarget rq)"

definition job_stored :: "job_tables \<Rightarrow> UserData \<Rightarrow> bool \<Rightarrow> int option \<Rightarrow> CreateJobData \<Rightarrow> int \<Rightarrow> bool" where
  "job_stored t user first link rq i \<longleftrightarrow>
     (\<exists>row. JobRows t i = Some row \<and> JdJobID row = i \<and> JdUserID row = UsUserID user \<and> JdLinkJobID row = link \<and>
       JdChainStatus row = (if first then 0 else 1) \<and> JdStatus row = ''pending'' \<and> JdTaskDefinitionID row = RqTaskDefinitionID rq \<and>
       JdRecurring row = RqRecurring rq \<and> JdTimeFrame row = RqTimeFrame rq \<and> JdSafeAddress row = safe_of rq)"

definition kind_stored :: "job_tables \<Rightarrow> CreateJobData \<Rightarrow> int \<Rightarrow> bool" where
  "kind_stored t rq i \<longleftrightarrow>
     (\<exists>now. let d = RqTaskDefinitionID rq; expires = now + i64 (RqTimeFrame rq * second); next = now + i64 (RqTimeInterval rq * second) in
        if d \<in> {1, 2} then \<exists>row. TimeRows t i = Some row \<and> TjIsActive row \<and> \<not> TjIsCompleted row \<and> TjExpirationTime row = expires \<and>
          TjNextExecutionTimestamp row = next \<and> TjTimeInterval row = RqTimeInterval rq \<and> call_asked rq (TjTarget row)
        else if d \<in> {3, 4} then \<exists>row. EventRows t i = Some row \<and> EjIsActive row \<and> \<not> EjIsCompleted row \<and> call_asked rq (EjTarget row) \<and>
          EjEvent row = (RqEvent rq)\<lparr>EwJobID := Some i, EwExpirationTime := expires, EwRecurring := RqRecurring rq\<rparr>
        else if d \<in> {5, 6} then \<exists>row. ConditionRows t i = Some row \<and> CdIsActive row \<and> \<not> CdIsCompleted row \<and> call_asked rq (CdTarget row) \<and>
          CdCondition row = (RqCondition rq)\<lparr>CwJobID := Some i, CwExpirationTime := expires, CwRecurring := RqRecurring rq\<rparr>
        else \<exists>row. CustomJobRows t i = Some row \<and> CjIsActive row \<and> \<not> CjIsCompleted row \<and> CjExpirationTime row = expires \<and>
          CjNextExecutionTime row = next \<and> CjTimeInterval row = RqTimeInterval rq \<and>
          CjCustomScriptUrl row = DynamicArgumentsScriptUrl (RqTarget rq) \<and> CjScriptLanguage row = RqLanguage rq)"

fun stored :: "job_tables \<Rightarrow> UserData \<Rightarrow> bool \<Rightarrow> CreateJobData list \<Rightarrow> int list \<Rightarrow> bool" where
  "stored t user first [] [] \<longleftrightarrow> True"
| "stored t user first (rq # rqs) (i # ids) \<longleftrightarrow>
     parse_big (RqJobID rq) = Some i \<and> RqTaskDefinitionID rq \<in> {1..7} \<and>
     job_stored t user first (case ids of [] \<Rightarrow> None | j # _ \<Rightarrow> Some j) rq i \<and> kind_stored t rq i \<and> stored t user False rqs ids"
| "stored t user first _ _ \<longleftrightarrow> False"

definition same_rows :: "int \<Rightarrow> job_tables \<Rightarrow> job_tables \<Rightarrow> bool" where
  "same_rows j t t' \<longleftrightarrow> JobRows t' j = JobRows t j \<and> TimeRows t' j = TimeRows t j \<and> EventRows t' j = EventRows t j \<and>
     ConditionRows t' j = ConditionRows t j \<and> CustomJobRows t' j = CustomJobRows t j"

lemma effect_other: "j \<noteq> i \<Longrightarrow> same_rows j t (job_effect user first link rq i now t)"
  by (simp add: same_rows_def job_effect_def kind_rows_def put_user_def Let_def)

lemma rows_other: "same_rows j t t' \<Longrightarrow> job_stored t' user first link rq j = job_stored t user first link rq j"
  "same_rows j t t' \<Longrightarrow> kind_stored t' rq j = kind_stored t rq j"
  by (simp_all add: same_rows_def job_stored_def kind_stored_def)

lemma next_stored: "next_or_interval now rq cron specific = now + i64 (RqTimeInterval rq * second)"
  by (simp add: next_or_interval_def CalculateNextExecutionTime_def)

lemma stored_target_asked: "call_asked rq (stored_target rq i)"
  by (simp add: call_asked_def stored_target_def Let_def)

lemma effect_this:
  "job_stored (job_effect user first link rq i now t) user first link rq i"
  "kind_stored (job_effect user first link rq i now t) rq i"
  unfolding kind_stored_def Let_def
  by (simp add: job_stored_def job_data_def job_effect_def kind_rows_def put_user_def Let_def, rule exI [of _ now])
    (simp add: job_effect_def kind_rows_def put_user_def time_job_def event_data_def condition_data_def custom_job_def next_stored stored_target_asked Let_def)

lemma stored_other: "\<forall>j \<in> set ids. same_rows j t t' \<Longrightarrow> stored t' user first rqs ids = stored t user first rqs ids"
  by (induction t user first rqs ids rule: stored.induct) (auto simp: rows_other)

lemma effect_user:
  "Users t (UsUserID user) = Some r \<Longrightarrow>
     Users (job_effect user first link rq i now t) (UsUserID user) = Some (set_user_tasks 0 (new_points user rq) r)"
  by (simp add: job_effect_def kind_rows_def put_user_def upsert_def Let_def)

definition last_points :: "UserData \<Rightarrow> CreateJobData list \<Rightarrow> UserData \<Rightarrow> UserData" where
  "last_points user rqs r = (case rqs of [] \<Rightarrow> r | rq # _ \<Rightarrow> set_user_tasks 0 (new_points user rq) r)"

lemma last_points_step [simp]:
  "set_user_tasks 0 (new_points user rq) (last_points user rqs r) = last_points user (rq # rqs) r"
  by (cases rqs) (simp_all add: last_points_def set_user_tasks_def)

text \<open>The loop goes backwards over the jobs \<open>xs\<close> while those of \<open>ys\<close> are there already.\<close>

definition so_far :: "UserData \<Rightarrow> UserData \<Rightarrow> CreateJobData list \<Rightarrow> CreateJobData list \<Rightarrow> int list \<Rightarrow> job_tables \<Rightarrow> bool" where
  "so_far user r xs ys ids t \<longleftrightarrow> length ids = length ys \<and> Users t (UsUserID user) = Some (last_points user ys r) \<and>
     (distinct ids \<longrightarrow> stored t user (xs = []) ys ids)"

lemma so_far_step:
  assumes "so_far user r (xs @ [rq]) ys ids t" and "parse_big (RqJobID rq) = Some i" and "RqTaskDefinitionID rq \<in> {1..7}"
  shows "so_far user r xs (rq # ys) (i # ids)
    (job_effect user (xs = []) (case ids of [] \<Rightarrow> None | j # _ \<Rightarrow> Some j) rq i now t)"
proof -
  let ?link = "case ids of [] \<Rightarrow> None | j # _ \<Rightarrow> Some j"
  have "stored (job_effect user (xs = []) ?link rq i now t) user False ys ids" if "distinct (i # ids)"
  proof -
    have "\<forall>j \<in> set ids. same_rows j t (job_effect user (xs = []) ?link rq i now t)"
      using that by (auto intro!: effect_other)
    moreover have "stored t user False ys ids" using assms(1) that by (simp add: so_far_def)
    ultimately show ?thesis by (simp add: stored_other)
  qed
  with assms show ?thesis
    by (simp add: so_far_def effect_this effect_user)
qed

lemma yields_jobs:
  assumes "implements_jobs view env"
  shows "yields (\<lambda>w. so_far user r xs ys ids (view w)) (create_jobs env user (rev xs) ids)
    (\<lambda>ids' w. so_far user r [] (xs @ ys) ids' (view w))"
proof (induction xs arbitrary: ys ids rule: rev_induct)
  case Nil
  then show ?case by (simp add: yields_go_on)
next
  case (snoc rq xs)
  let ?link = "case ids of [] \<Rightarrow> None | j # _ \<Rightarrow> Some j"
  have "yields (\<lambda>w. view w = T) (create_job env user (rev xs = []) ?link rq) (\<lambda>i w. so_far user r xs (rq # ys) (i # ids) (view w))"
    if "so_far user r (xs @ [rq]) ys ids T" for T
    by (rule yields_mono [OF yields_create [OF assms]]) (use so_far_step [OF that] in auto)
  then have "yields (\<lambda>w. so_far user r (xs @ [rq]) ys ids (view w)) (create_job env user (rev xs = []) ?link rq)
      (\<lambda>i w. so_far user r xs (rq # ys) (i # ids) (view w))"
    by (auto simp: yields_def io_triple_def)
  from yields_continue [OF this snoc.IH] show ?case by simp
qed

text \<open>The user of a request: the one with its address, or a new one.\<close>

definition user_for :: "CreateJobData \<Rightarrow> job_tables \<Rightarrow> UserData \<Rightarrow> job_tables \<Rightarrow> bool" where
  "user_for rq t user t' \<longleftrightarrow>
     (Users t (UsUserID user) = Some user \<and> UsUserAddress user = lower (RqUserAddress rq) \<and> t' = t) \<or>
     (\<exists>u. user = new_user u rq \<and> t' = t\<lparr>Users := (Users t)(u \<mapsto> user)\<rparr>)"

lemma get_user_triple:
  assumes "implements_jobs view env"
  shows "io_triple (\<lambda>w. view w = T) (GetUserDataByAddress env a)
    (\<lambda>r w. \<forall>x. r = Inr x \<longrightarrow> view w = T \<and> (\<forall>user. x = Some user \<longrightarrow> Users T (UsUserID user) = Some user \<and> UsUserAddress user = a))"
  unfolding GetUserDataByAddress_def
proof (rule io_triple_bind [OF io_triple_mono [OF find_triple [OF implements_finds(1) [OF assms]]]])
  fix r w
  assume "\<forall>x. r = Inr x \<longrightarrow> view w = T \<and> (\<forall>u. x = Some u \<longrightarrow> (\<exists>row. Users T u = Some row \<and> UsUserAddress row = a))"
  then show "case r of Inl e \<Rightarrow> \<forall>x. Inl e = Inr x \<longrightarrow> view w = T \<and> (\<forall>user. x = Some user \<longrightarrow> Users T (UsUserID user) = Some user \<and> UsUserAddress user = a)
      | Inr x \<Rightarrow> view w = T \<and> (\<forall>u. x = Some u \<longrightarrow> (\<exists>row. Users T u = Some row \<and> UsUserAddress row = a))"
    by (auto split: sum.split)
next
  fix x
  show "io_triple (\<lambda>w. view w = T \<and> (\<forall>u. x = Some u \<longrightarrow> (\<exists>row. Users T u = Some row \<and> UsUserAddress row = a)))
      (case x of None \<Rightarrow> io_ret None | Some userID \<Rightarrow> io_call (UserByID env userID))
      (\<lambda>r w. \<forall>x. r = Inr x \<longrightarrow> view w = T \<and> (\<forall>user. x = Some user \<longrightarrow> Users T (UsUserID user) = Some user \<and> UsUserAddress user = a))"
  proof (cases x)
    case None
    then show ?thesis by (simp add: io_triple_def io_ret_def)
  next
    case (Some u)
    note found = io_triple_mono [OF find_triple [OF implements_finds(2) [OF assms], of T u]]
    show ?thesis
    proof (cases "\<exists>row. Users T u = Some row \<and> UsUserAddress row = a")
      case True
      then show ?thesis by (simp add: Some) (rule found, auto)
    qed (auto simp: Some io_triple_def)
  qed
qed

lemma new_user_triple:
  assumes "implements_jobs view env"
  shows "io_triple (\<lambda>w. view w = T) (CreateNewUser env rq)
    (\<lambda>r w. \<forall>user. r = Inr user \<longrightarrow> (\<exists>u. user = new_user u rq \<and> view w = T\<lparr>Users := (Users T)(u \<mapsto> user)\<rparr>))"
proof -
  have "view w' = T" if "MaxUserID env w = (x, w')" "view w = T" for x w w'
    using implements_finds(3) [OF assms] that unfolding finds_def by blast
  moreover have "view w' = (view w)\<lparr>Users := (Users (view w))(UsUserID u \<mapsto> u)\<rparr>" if "InsertUser env u w = (Inr y, w')" for y u w w'
    using implements_writes(1) [OF assms, of u] that unfolding writes_def by auto
  ultimately show ?thesis
    by (fastforce simp: io_triple_def CreateNewUser_def Let_def io_bind_Some io_call_def io_ret_def new_user_def)
qed

lemma yields_found:
  assumes "implements_jobs view env"
  shows "yields (\<lambda>w. view w = T) (user_of_request env rq) (\<lambda>user w. user_for rq T user (view w))"
  unfolding user_of_request_def
proof (rule yields_continue [OF yields_or_answer [OF get_user_triple [OF assms]]])
  fix r
  show "yields (\<lambda>w. view w = T \<and> (\<forall>user. r = Some user \<longrightarrow> Users T (UsUserID user) = Some user \<and> UsUserAddress user = lower (RqUserAddress rq)))
      (case r of None \<Rightarrow> or_answer internal_error (CreateNewUser env rq) | Some user \<Rightarrow> go_on user) (\<lambda>user w. user_for rq T user (view w))"
  proof (cases r)
    case None
    have "yields (\<lambda>w. view w = T) (or_answer internal_error (CreateNewUser env rq)) (\<lambda>user w. user_for rq T user (view w))"
      by (rule yields_or_answer, rule io_triple_mono [OF new_user_triple [OF assms]]) (auto simp: user_for_def)
    then show ?thesis by (simp add: None)
  next
    case (Some user)
    then show ?thesis by (auto simp: user_for_def intro: yields_go_on)
  qed
qed

lemma yields_pure: "(B \<Longrightarrow> yields P m Q) \<Longrightarrow> yields (\<lambda>w. P w \<and> B) m (\<lambda>a w. Q a w \<and> B)"
  by (cases B) (simp_all add: yields_def io_triple_def)

lemma yields_pre: "yields P m Q \<Longrightarrow> (\<And>w. P' w \<Longrightarrow> P w) \<Longrightarrow> yields P' m Q"
  by (auto simp: yields_def io_triple_def)

lemma yields_at: "(\<And>T. P T \<Longrightarrow> yields (\<lambda>w. view w = T) m Q) \<Longrightarrow> yields (\<lambda>w. P (view w)) m Q"
  by (simp add: yields_def io_triple_def)

lemma yields_clock_write: "(\<And>now. writes view (e now) u) \<Longrightarrow> yields (\<lambda>w. view w = T) (or_answer g (io_bind (io_get c) (\<lambda>now. io_call (e now)))) (\<lambda>_ w. view w = u T)"
  by (rule yields_or_answer, rule clock_triple, rule io_triple_mono [OF write_triple]) auto

lemma same_rows_user [simp]: "same_rows j t (put_user u f t)"
  by (simp add: same_rows_def put_user_def)

lemma user_for_there: "user_for rq T user t \<Longrightarrow> Users t (UsUserID user) = Some user"
  by (auto simp: user_for_def new_user_def)

text \<open>Only the last step answers with created jobs.\<close>

definition early :: "('w, answer + 'a) io \<Rightarrow> bool" where
  "early m \<longleftrightarrow> (\<forall>w a w'. m w = Some (Inr (Inl a), w') \<longrightarrow> (\<forall>resp. snd a \<noteq> Created resp))"

named_theorems early_intros \<open>steps whose early answers are not created jobs\<close>

lemma early_stop [early_intros]: "(\<And>resp. b \<noteq> Created resp) \<Longrightarrow> early (stop_with s b)"
  by (simp add: early_def stop_with_def io_ret_def)

lemma early_go_on [early_intros]: "early (go_on a)"
  by (simp add: early_def go_on_def io_ret_def)

lemma early_bind [early_intros]: "(\<And>y. early (h y)) \<Longrightarrow> early (io_bind k h)"
  by (fastforce simp: early_def io_bind_Some)

lemma early_logged [early_intros]: "early (logged k)"
  unfolding logged_def by (intro early_intros)

lemma early_or_answer [early_intros]:
  assumes "\<And>e resp. snd (g e) \<noteq> Created resp"
  shows "early (or_answer g m)"
proof -
  have "\<exists>e. a = g e" if "or_answer g m w = Some (Inr (Inl a), w')" for w a w'
    using that by (cases "m w") (auto simp: or_answer_def io_defs split: sum.splits)
  with assms show ?thesis unfolding early_def by blast
qed

lemma early_continue [early_intros]:
  assumes "early m" and "\<And>x. early (f x)"
  shows "early (continue m f)"
proof -
  have "m w = Some (Inr (Inl a), w') \<or> (\<exists>x w1. f x w1 = Some (Inr (Inl a), w'))" if "continue m f w = Some (Inr (Inl a), w')" for w a w'
    using that by (cases "m w") (auto simp: continue_def io_defs split: sum.splits)
  with assms show ?thesis unfolding early_def by blast
qed

lemma early_cases [early_intros]:
  "early n \<Longrightarrow> early n' \<Longrightarrow> early (if b then n else n')"
  "early n \<Longrightarrow> (\<And>x. early (g x)) \<Longrightarrow> early (case v of None \<Rightarrow> n | Some x \<Rightarrow> g x)"
  "(\<And>x. early (e x)) \<Longrightarrow> (\<And>x. early (g' x)) \<Longrightarrow> early (case u of Inl x \<Rightarrow> e x | Inr x \<Rightarrow> g' x)"
  by (simp_all split: option.split sum.split)

lemma early_create: "early (create_job env user first link rq)"
  unfolding create_job_def check_code_def store_safe_def insert_kind_def notify_scheduler_def Let_def
  by (intro early_intros) (simp_all add: internal_error_def rejection_def)

lemma early_jobs: "early (create_jobs env user rqs ids)"
  by (induction rqs arbitrary: ids) (auto intro!: early_intros early_create)

lemma early_user: "early (user_of_request env rq)"
  unfolding user_of_request_def by (intro early_intros) (auto simp: internal_error_def)

lemma early_record: "early (record_jobs env rqs user ids)"
  unfolding record_jobs_def Let_def by (intro early_intros) (simp_all add: internal_error_def)

text \<open>What an answer with created jobs says of the tables.\<close>

definition recorded :: "CreateJobData list \<Rightarrow> job_tables \<Rightarrow> answer \<Rightarrow> job_tables \<Rightarrow> bool" where
  "recorded rqs t a t' \<longleftrightarrow>
     (\<exists>user ids t1 t2. a = (200, Created (create_response user rqs ids)) \<and> user_for (hd rqs) t user t1 \<and> so_far user user [] rqs ids t2 \<and>
       t' = put_user (UsUserID user) (set_user_jobs (UsJobIDs user @ ids)) t2)"

lemma yields_record:
  assumes "implements_jobs view env" and "user_for (hd rqs) t user t1" and "so_far user user [] rqs ids T"
  shows "yields (\<lambda>w. view w = T) (record_jobs env rqs user ids) (\<lambda>a w. recorded rqs t a (view w))"
  unfolding record_jobs_def Let_def recorded_def
  by (rule yields_continue [OF yields_clock_write [OF implements_writes(2) [OF assms(1)]] yields_go_on]) (use assms in blast)

lemma yields_request:
  assumes "implements_jobs view env" and "rqs \<noteq> []" and "user_for (hd rqs) t user t1"
  shows "yields (\<lambda>w. view w = t1) (continue (create_jobs env user (rev rqs) []) (record_jobs env rqs user)) (\<lambda>a w. recorded rqs t a (view w))"
proof (rule yields_continue)
  show "yields (\<lambda>w. view w = t1) (create_jobs env user (rev rqs) []) (\<lambda>ids w. so_far user user [] rqs ids (view w))"
    by (rule yields_pre [OF yields_jobs [OF assms(1), where ys = "[]", simplified]])
      (use user_for_there [OF assms(3)] assms(2) in \<open>simp add: so_far_def last_points_def\<close>)
  show "yields (\<lambda>w. so_far user user [] rqs ids (view w)) (record_jobs env rqs user ids) (\<lambda>a w. recorded rqs t a (view w))" for ids
    by (rule yields_at, rule yields_record [OF assms(1,3)])
qed

lemma answer_of_created:
  assumes "early m" and "answer_of m w = Some (Inr a, w')" and "snd a = Created resp"
  shows "m w = Some (Inr (Inr a), w')"
proof -
  have "m w = Some (Inr (Inl a), w') \<or> m w = Some (Inr (Inr a), w')"
    using assms(2) by (cases "m w") (auto simp: answer_of_def io_defs split: sum.splits)
  with assms(1,3) show ?thesis unfolding early_def by blast
qed

lemma created_recorded:
  assumes "implements_jobs view env" and "CreateJobs env (Inr rqs) w = Some (Inr (status, Created resp), w')"
  shows "rqs \<noteq> [] \<and> recorded rqs (view w) (status, Created resp) (view w')"
proof -
  have ne: "rqs \<noteq> []" using assms(2) by (auto simp: CreateJobs_def io_ret_def)
  let ?body = "continue (user_of_request env (hd rqs)) (\<lambda>user. continue (create_jobs env user (rev rqs) []) (record_jobs env rqs user))"
  have "yields (\<lambda>v. view v = view w) ?body (\<lambda>a v. recorded rqs (view w) a (view v))" (is "yields ?P _ ?Q")
    by (rule yields_continue [OF yields_found [OF assms(1)] yields_at [OF yields_request [OF assms(1) ne]]])
  moreover have "?body w = Some (Inr (Inr (status, Created resp)), w')"
  proof (rule answer_of_created)
    show "early ?body" by (intro early_intros early_user early_jobs early_record)
    show "answer_of ?body w = Some (Inr (status, Created resp), w')" using assms(2) ne by (simp add: CreateJobs_def)
  qed simp
  ultimately have "?Q (status, Created resp) w'" by (rule yieldsD [of ?P _ ?Q w, OF _ refl])
  with ne show ?thesis by simp
qed

section \<open>Properties\<close>


text \<open>The active row of a job is among those that the poll for custom jobs gets.\<close>

definition lists_custom :: "('w \<Rightarrow> job_tables) \<Rightarrow> 'w handler_env \<Rightarrow> int \<Rightarrow> bool" where
  "lists_custom view env i \<longleftrightarrow>
     (\<forall>v rows err v' j. CustomRows (Database env) v = ((rows, err), v') \<longrightarrow> CustomJobRows (view v) i = Some j \<longrightarrow> CjIsActive j \<longrightarrow>
       CustomJobData.truncate j \<in> set rows)"

lemma findsD: "finds view q found \<Longrightarrow> q w = (Inr a, w') \<Longrightarrow> view w' = view w \<and> found (view w) a"
  by (simp add: finds_def)

lemma status_update:
  assumes "implements_jobs view env" and "UpdateStatus env i st w = Some (r, w')"
  shows "view w' = view w \<or> view w' = put_job i (\<lambda>row. row\<lparr>JdStatus := st\<rparr>) (view w)" and
    "r = Inr x \<Longrightarrow> view w' = put_job i (\<lambda>row. row\<lparr>JdStatus := st\<rparr>) (view w)"
proof -
  obtain now y where "SetJobStatus env st now i w = (y, w')" and "r = Inr x \<Longrightarrow> y = Inr ()" for x
    using assms(2) by (auto simp: UpdateStatus_def replace_error_def io_defs split: sum.splits prod.splits)
  then show "view w' = view w \<or> view w' = put_job i (\<lambda>row. row\<lparr>JdStatus := st\<rparr>) (view w)" and
    "r = Inr x \<Longrightarrow> view w' = put_job i (\<lambda>row. row\<lparr>JdStatus := st\<rparr>) (view w)"
    using implements_writes(5) [OF assms(1), of st now i] unfolding writes_def by blast+
qed


text \<open>
  The world of the dbserver with the condition scheduler behind its URL: a request is lost, or the route of the scheduler handles it and
  gives its status. Nothing else that the dbserver does for a deletion touches the scheduler.
\<close>

definition serves :: "'v scheduler_env \<Rightarrow> (string \<Rightarrow> go_error + (int option \<times> ScheduleConditionJobData)) \<Rightarrow> ('w \<Rightarrow> 'v ConditionBasedScheduler)
    \<Rightarrow> 'w handler_env \<Rightarrow> bool" where
  "serves senv decode sched env \<longleftrightarrow>
     (\<forall>path body w r n w'. Do (Http env) ''POST'' (SchedulerURL env @ path) body w = (r, n, w') \<longrightarrow>
        (case r of
           Inl _ \<Rightarrow> sched w' = sched w \<or> (\<exists>x. job_route senv decode path body (sched w) = Some (x, sched w'))
         | Inr resp \<Rightarrow> job_route senv decode path body (sched w) = Some (Inr (StatusCode resp), sched w'))) \<and>
     (\<forall>d w. sched (snd (wait_timer (HttpRetry (Http env)) d w)) = sched w) \<and> (\<forall>w. sched (snd (rand_source (HttpRetry (Http env)) w)) = sched w)"

definition deletes_locally :: "('w \<Rightarrow> 's) \<Rightarrow> 'w handler_env \<Rightarrow> bool" where
  "deletes_locally sched env \<longleftrightarrow>
     (\<forall>i. keeps sched (JobDefinition env i)) \<and> (\<forall>s n i. keeps sched (SetJobStatus env s n i)) \<and>
     (\<forall>i b. keeps sched (SetEventJobActive env i b)) \<and> (\<forall>i b. keeps sched (SetConditionJobActive env i b))"

lemma pause_route: "job_route senv decode ''/api/v1/job/pause'' body s = Some (Inr 400, s)"
  by (simp add: job_route_def unschedule_handler_def parse_big_def io_ret_def)

lemma pause_attempt:
  assumes "serves senv decode sched env"
    and "attempt_request (Http env) c ''POST'' (SchedulerURL env @ ''/api/v1/job/pause'') (Rewindable b) (w, rest) = (r, (w', rest'))"
  shows "sched w' = sched w \<and> (\<forall>resp. r = Inr resp \<longrightarrow> StatusCode resp = 400)"
proof -
  obtain x n v where x: "Do (Http env) ''POST'' (SchedulerURL env @ ''/api/v1/job/pause'') b w = (x, n, v)" by (metis prod.exhaust)
  then have "case x of Inl _ \<Rightarrow> sched v = sched w | Inr resp \<Rightarrow> StatusCode resp = 400 \<and> sched v = sched w"
    using assms(1) by (fastforce simp: serves_def pause_route split: sum.splits)
  then show ?thesis
    using assms(2) x by (auto simp: attempt_request_def split: sum.splits if_splits)
qed

lemma pause_client:
  assumes "serves senv decode sched env"
  shows "retry_client (with_body (HttpRetry (Http env))) (attempt_request (Http env) c ''POST'' (SchedulerURL env @ ''/api/v1/job/pause'') (Rewindable b))
    (\<lambda>s. sched (fst s) = v) (\<lambda>resp _. StatusCode resp = 400)"
proof
  show "\<And>s r s'. sched (fst s) = v \<Longrightarrow> attempt_request (Http env) c ''POST'' (SchedulerURL env @ ''/api/v1/job/pause'') (Rewindable b) s = (r, s') \<Longrightarrow> sched (fst s') = v"
    using pause_attempt [OF assms] by (metis prod.collapse)
  show "\<And>s x s'. sched (fst s) = v \<Longrightarrow> attempt_request (Http env) c ''POST'' (SchedulerURL env @ ''/api/v1/job/pause'') (Rewindable b) s = (Inr x, s') \<Longrightarrow> StatusCode x = 400"
    using pause_attempt [OF assms] by (metis prod.collapse)
qed (use assms in \<open>auto simp: with_body_def serves_def split: prod.splits\<close>, (metis snd_conv)+)

lemma pause_request:
  assumes "serves senv decode sched env"
    and "DoWithRetry (Http env) c ''POST'' (SchedulerURL env @ ''/api/v1/job/pause'') (Rewindable b) w = (x, w')"
  shows "sched w' = sched w \<and> (\<forall>resp. x = Inr resp \<longrightarrow> StatusCode resp = 400)"
proof -
  let ?m = "attempt_request (Http env) c ''POST'' (SchedulerURL env @ ''/api/v1/job/pause'') (Rewindable b)"
  obtain y v rest where R: "Retry (with_body (HttpRetry (Http env))) ?m (Some (Policy c)) (w, []) = (y, (v, rest))"
    by (metis prod.exhaust)
  have "sched v = sched w \<and> (\<forall>resp. y = Inr resp \<longrightarrow> StatusCode resp = 400)"
    using retry_client.Retry_inv [OF pause_client [OF assms(1)] _ R, of "sched w"] by simp
  then show ?thesis
    using assms(2) R by (auto simp: DoWithRetry_def retry_request_def split: sum.splits)
qed

lemma pause_fails:
  assumes "serves senv decode sched env" and "notifyPauseToConditionScheduler env i w = Some (r, w')"
  shows "sched w' = sched w \<and> (\<exists>e. r = Inl e)"
proof -
  obtain x v where x: "sendDataToScheduler env ''/api/v1/job/pause'' (Some i, empty_job) w = Some (x, v)"
    using assms(2) by (auto simp: notifyPauseToConditionScheduler_def io_bind_Some)
  have "sched v = sched w \<and> (\<exists>e. x = Inl e)"
    using x pause_request [OF assms(1)]
    by (auto simp: sendDataToScheduler_def io_defs split: sum.splits option.splits prod.splits if_splits)
  then show ?thesis
    using assms(2) x by (auto simp: notifyPauseToConditionScheduler_def io_bind_def)
qed

lemma keeps_replace [io_keeps_intros]: "io_keeps p m \<Longrightarrow> io_keeps p (replace_error msg m)"
  by (auto simp: io_keeps_def replace_error_def)

lemma deletes_keep:
  assumes "deletes_locally sched env"
  shows "io_keeps sched (UpdateStatus env i st)" "io_keeps sched (UpdateEventJobStatus env i b)" "io_keeps sched (UpdateConditionJobStatus env i b)"
    "keeps sched (JobDefinition env i)"
  using assms unfolding UpdateStatus_def UpdateEventJobStatus_def UpdateConditionJobStatus_def deletes_locally_def
  by (auto intro!: io_keeps_intros)

lemma deactivate_fails:
  assumes "serves senv decode sched env" and "deletes_locally sched env" and "d \<in> {3..6}" and "deactivate env d i w = Some (r, w')"
  shows "sched w' = sched w \<and> (\<exists>b. r = Inr (Inl (500, b)))"
proof -
  have step: "sched w' = sched w \<and> (\<exists>b. r = Inr (Inl (500, b)))"
    if "continue (or_answer (failing m) n) (\<lambda>_. continue (or_answer (failing m') (notifyPauseToConditionScheduler env i)) (\<lambda>_. go_on ())) w = Some (r, w')"
      "io_keeps sched n" for m m' n
    using that pause_fails [OF assms(1)] by (fastforce simp: continue_Some or_answer_Some failing_def dest: io_keepsD)
  consider "d \<in> {3, 4}" | "d \<in> {5, 6}" using assms(3) by fastforce
  then show ?thesis
  proof cases
    case 1
    then show ?thesis using step [OF _ deletes_keep(2) [OF assms(2)]] assms(4) by (auto simp: deactivate_def)
  next
    case 2
    then show ?thesis using step [OF _ deletes_keep(3) [OF assms(2)]] assms(4) by (auto simp: deactivate_def)
  qed
qed


section \<open>Every request is answered\<close>

lemma answers_send [answers_intros]: "answers (sendDataToScheduler env route data)"
  unfolding sendDataToScheduler_def by (intro answers_intros)

lemma answers_notify [answers_intros]: "answers (notifyConditionScheduler env i job)" "answers (notifyPauseToConditionScheduler env i)"
  unfolding notifyConditionScheduler_def notifyPauseToConditionScheduler_def by (intro answers_intros)+

lemma answers_updates [answers_intros]:
  "answers (UpdateStatus env i st)" "answers (UpdateEventJobStatus env i b)" "answers (UpdateConditionJobStatus env i b)"
  "answers (UpdateTimeJobInterval env i n)" "answers (UpdateTimeJobStatus db i b)" "answers (UpdateTimeJobNextExecutionTimestamp db i n)"
  "answers (RecordLastExecution env i k c n)"
  unfolding UpdateStatus_def UpdateEventJobStatus_def UpdateConditionJobStatus_def UpdateTimeJobInterval_def UpdateTimeJobStatus_def
    UpdateTimeJobNextExecutionTimestamp_def RecordLastExecution_def
  by (intro answers_intros)+

lemma answers_users [answers_intros]: "answers (GetUserDataByAddress env a)" "answers (CreateNewUser env rq)"
  unfolding GetUserDataByAddress_def CreateNewUser_def Let_def by (intro answers_intros)+

lemma delivers_code [delivers_intros]: "delivers (ValidateCodeInternal cenv req url)"
  unfolding ValidateCodeInternal_def cached_response_def cache_response_def Let_def by (intro delivers_intros answers_intros)

lemma delivers_create [delivers_intros]: "delivers (create_job env user first link rq)"
  unfolding create_job_def check_code_def store_safe_def insert_kind_def notify_scheduler_def Let_def
  by (intro delivers_intros answers_intros)

lemma delivers_jobs [delivers_intros]: "delivers (create_jobs env user rqs ids)"
  by (induction rqs arbitrary: ids) (auto intro!: delivers_intros)


section \<open>A database for examples\<close>

definition read_row :: "(job_tables \<Rightarrow> 'a option) \<Rightarrow> job_tables \<times> 's \<Rightarrow> (go_error + 'a) \<times> job_tables \<times> 's" where
  "read_row f w = (case f (fst w) of None \<Rightarrow> Inl (GoErr ''not found'') | Some a \<Rightarrow> Inr a, w)"

definition write_rows :: "(job_tables \<Rightarrow> job_tables) \<Rightarrow> job_tables \<times> 's \<Rightarrow> (go_error + unit) \<times> job_tables \<times> 's" where
  "write_rows f w = (Inr (), (f (fst w), snd w))"

definition demo_web :: "string \<Rightarrow> string \<Rightarrow> string \<Rightarrow> job_tables \<times> bool ConditionBasedScheduler \<Rightarrow>
    (go_error + response) \<times> nat \<times> job_tables \<times> bool ConditionBasedScheduler" where
  "demo_web method url body w =
     (case job_route demo_scheduler (\<lambda>_. Inl (GoErr ''EOF'')) url body (snd w) of
        Some (Inr status, s) \<Rightarrow> (Inr \<lparr>StatusCode = status, Body = [], BodyError = None\<rparr>, 0, (fst w, s))
      | _ \<Rightarrow> (Inl (GoErr ''timeout''), 0, w))"

definition demo_http :: "(job_tables \<times> bool ConditionBasedScheduler) http_env" where
  "demo_http = \<lparr>Do = demo_web, InvalidRequest = \<lambda>_ _. None,
     HttpRetry = \<lparr>ctx_err = \<lambda>_. None, wait_timer = \<lambda>_ w. (None, w), rand_source = \<lambda>w. ((Some 0, 0), w)\<rparr>, Quote = id\<rparr>"

definition demo_code :: "(job_tables \<times> 's) code_env" where
  "demo_code = \<lparr>ExecuteCode = \<lambda>_ _ w. (Inr (True, ''[]'', None), w), HasCache = False, CacheGet = \<lambda>_ w. (Inl (GoErr ''nil''), w),
     CacheSet = \<lambda>_ _ w. (Inr (), w), KeyHash = id, EncodeResponse = \<lambda>_. Inl (GoErr ''EOF''), DecodeResponse = \<lambda>_. Inl (GoErr ''EOF''),
     ParseArray = \<lambda>_. None\<rparr>"

definition demo_jobs_db :: "(job_tables \<times> 's) jobs_db" where
  "demo_jobs_db = \<lparr>DueRows = \<lambda>_ _ w. (([], None), w), IsJobImua = \<lambda>_ w. (Inr False, w), SetTimeJobCompleted = \<lambda>_ w. (Inr (), w),
     SetJobCompleted = \<lambda>_ w. (Inr (), w), SetTimeJobActive = \<lambda>_ _ w. (Inr (), w), SetNextExecution = \<lambda>_ _ w. (Inr (), w),
     CustomRows = \<lambda>w. ((case CustomJobRows (fst w) 6 of None \<Rightarrow> [] | Some j \<Rightarrow> [CustomJobData.truncate j], None), w),
     GetStorage = \<lambda>_ w. (Inr [], w), MaxTaskID = \<lambda>w. (Inr 3, w), InsertTask = \<lambda>_ _ _ w. (Inr (), w), TaskIDRows = \<lambda>_ w. (([], None), w),
     SetTaskIDs = \<lambda>_ _ w. (Inr (), w), DbClock = \<lambda>_. 0\<rparr>"

definition tables_env :: "(job_tables \<times> bool ConditionBasedScheduler) handler_env" where
  "tables_env = \<lparr>Code = demo_code, Http = demo_http, Client = DefaultHTTPRetryConfig, SchedulerURL = [], EncodeJob = \<lambda>_. Inr [], Database = demo_jobs_db,
     UserIDByAddress = \<lambda>a. read_row (\<lambda>t. Some (case Users t 1 of Some r \<Rightarrow> if UsUserAddress r = a then Some 1 else None | None \<Rightarrow> None)),
     UserByID = \<lambda>u. read_row (\<lambda>t. Some (case Users t u of Some r \<Rightarrow> if UsUserID r = u then Some r else None | None \<Rightarrow> None)),
     MaxUserID = \<lambda>w. (Inl (GoErr ''timeout''), w),
     InsertUser = \<lambda>r. write_rows (\<lambda>t. t\<lparr>Users := (Users t)(UsUserID r \<mapsto> r)\<rparr>),
     SetUserJobs = \<lambda>ids now u. write_rows (put_user u (set_user_jobs ids)),
     SetUserTasks = \<lambda>n p u. write_rows (put_user u (set_user_tasks n p)),
     InsertJob = \<lambda>d. write_rows (\<lambda>t. t\<lparr>JobRows := (JobRows t)(JdJobID d \<mapsto> d)\<rparr>),
     SetJobFromUser = \<lambda>d now i w. (Inr (), w), SetJobStatus = \<lambda>s now i. write_rows (put_job i (\<lambda>r. r\<lparr>JdStatus := s\<rparr>)),
     JobDefinition = \<lambda>i. read_row (\<lambda>t. map_option JdTaskDefinitionID (JobRows t i)), JobUpdated = \<lambda>i w. (Inr (1, 0), w),
     InsertTimeJob = \<lambda>i d. write_rows (\<lambda>t. t\<lparr>TimeRows := (TimeRows t)(i \<mapsto> d)\<rparr>),
     InsertEventJob = \<lambda>i d. write_rows (\<lambda>t. t\<lparr>EventRows := (EventRows t)(i \<mapsto> d)\<rparr>),
     InsertConditionJob = \<lambda>i d. write_rows (\<lambda>t. t\<lparr>ConditionRows := (ConditionRows t)(i \<mapsto> d)\<rparr>),
     InsertCustomJob = \<lambda>j. write_rows (\<lambda>t. t\<lparr>CustomJobRows := (CustomJobRows t)(CjJobID j \<mapsto> j)\<rparr>),
     SetEventJobActive = \<lambda>_ _ w. (Inr (), w), SetConditionJobActive = \<lambda>_ _ w. (Inr (), w), SetTimeInterval = \<lambda>_ _ w. (Inr (), w),
     FindSafe = \<lambda>_ _ w. (Inr (), w), InsertSafe = \<lambda>_ _ _ w. (Inr (), w), JobTaskIDs = \<lambda>_ w. (Inr [], w),
     SetLastExecuted = \<lambda>_ _ _ w. (Inl (GoErr ''expected 4 values''), w)\<rparr>"

lemma read_row_finds: "(\<And>t a. f t = Some a \<Longrightarrow> found t a) \<Longrightarrow> finds fst (read_row f) found"
  by (auto simp: finds_def read_row_def split: option.splits)

lemma write_rows_writes: "writes fst (write_rows f) f"
  by (simp add: writes_def write_rows_def)

lemma demo_keeps: "http_keeps fst demo_http"
  by (auto simp: http_keeps_def demo_http_def demo_web_def split: option.split sum.split)

lemma tables_env_implements: "implements_jobs fst tables_env"
  unfolding implements_jobs_def tables_env_def handler_env.select_convs
  by (intro conjI allI read_row_finds write_rows_writes demo_keeps)
    (auto simp: keeps_def finds_def demo_code_def split: option.splits if_splits)

lemma tables_env_serves: "serves demo_scheduler (\<lambda>_. Inl (GoErr ''EOF'')) snd tables_env"
  by (auto simp: serves_def tables_env_def demo_http_def demo_web_def split: option.splits sum.splits)

lemma tables_env_deletes: "deletes_locally snd tables_env"
  by (simp add: deletes_locally_def keeps_def tables_env_def read_row_def write_rows_def)

definition demo_request :: "string \<Rightarrow> int \<Rightarrow> CreateJobData" where
  "demo_request i d = \<lparr>RqJobID = i, RqUserAddress = ''0xa'', RqEtherBalance = Some 0, RqTokenBalance = Some 0, RqJobTitle = ''job'',
     RqTaskDefinitionID = d, RqCustom = (d = 7), RqLanguage = ''go'', RqTimeFrame = 60, RqRecurring = False, RqJobCostPrediction = 1,
     RqTimezone = ''UTC'', RqCreatedChainID = ''1'', RqIsSafe = False, RqSafeAddress = [], RqSafeName = [], RqTimeInterval = 60,
     RqCronExpression = [], RqSpecificSchedule = [], RqEvent = no_event, RqCondition = no_condition, RqTarget = zero_target, RqIsImua = False\<rparr>"

definition demo_user :: UserData where
  "demo_user = (blank_user 1)\<lparr>UsUserAddress := ''0xa'', UsJobIDs := [3], UsTotalTasks := 8\<rparr>"

definition demo_tables :: job_tables where
  "demo_tables = \<lparr>Users = [1 \<mapsto> demo_user], JobRows = [3 \<mapsto> (blank_job 3)\<lparr>JdTaskDefinitionID := 5\<rparr>, 6 \<mapsto> (blank_job 6)\<lparr>JdTaskDefinitionID := 7\<rparr>],
     TimeRows = Map.empty, EventRows = Map.empty, ConditionRows = Map.empty,
     CustomJobRows = [6 \<mapsto> custom_job 100 0 (demo_request ''6'' 7) 6]\<rparr>"

lemma demo_numbers: "parse_big ''3'' = Some 3" "parse_big ''5'' = Some 5" "parse_big ''6'' = Some 6"
  by (simp_all add: parse_big_def parse_nat_def is_digit_def digits_val_def)



lemma demo_address: "lower ''0xa'' = ''0xa''"
  by (simp add: lower_def Let_def)


end
