(* ===== verification/WebSocket_Client.thy ===== *)
theory WebSocket_Client
  imports Retry "HOL-Library.Multiset"
begin

text \<open>
  The WebSocket client that reconnects (\<open>pkg/websocket/websocket.go\<close>). Its goroutines run at the same time and share the client under a mutex, so the running client is
  a step relation: the record \<open>ws_client\<close> holds what the mutex protects, the channels, and the goroutines that the wait group counts, each at the place where it is in
  its loop. A step is what a goroutine does while it holds the mutex, or one call of the connection. A connection is a number; the network may fail it at any time. The
  time of the last message, which is only reported, and the contents of control frames are left out.
\<close>

section \<open>Configuration\<close>

record ReconnectConfig =
  MaxReconnects :: int
  BaseDelay :: int
  MaxReconnectDelay :: int
  ReconnectFactor :: float64
  Jitter :: bool

definition DefaultReconnectConfig :: ReconnectConfig where
  "DefaultReconnectConfig = \<lparr>MaxReconnects = 0, BaseDelay = 5 * second, MaxReconnectDelay = 5 * 60 * second, ReconnectFactor = 2, Jitter = True\<rparr>"

record 'e WebSocketRetryConfig =
  DialRetry :: "'e RetryConfig"
  Reconnects :: ReconnectConfig
  HandshakeTimeout :: int
  ReadDeadline :: int
  WriteDeadline :: int
  PingInterval :: int
  PongWait :: int
  MaxMessageSize :: int
  EnableCompression :: bool

definition DefaultWebSocketRetryConfig :: "'e WebSocketRetryConfig" where
  "DefaultWebSocketRetryConfig = \<lparr>DialRetry = DefaultRetryConfig, Reconnects = DefaultReconnectConfig, HandshakeTimeout = 10 * second, ReadDeadline = 60 * second,
     WriteDeadline = 10 * second, PingInterval = 30 * second, PongWait = 60 * second, MaxMessageSize = 512 * 1024, EnableCompression = False\<rparr>"

definition ValidateWebSocket :: "'e WebSocketRetryConfig \<Rightarrow> string option" where
  "ValidateWebSocket c =
     (if HandshakeTimeout c \<le> 0 then Some ''handshakeTimeout must be positive''
      else if ReadDeadline c \<le> 0 then Some ''readDeadline must be positive''
      else if WriteDeadline c \<le> 0 then Some ''writeDeadline must be positive''
      else if PingInterval c \<le> 0 then Some ''pingInterval must be positive''
      else if PongWait c \<le> 0 then Some ''pongWait must be positive''
      else if PongWait c \<le> PingInterval c then Some ''pongWait must be greater than pingInterval''
      else if MaxMessageSize c < 0 then Some ''maxMessageSize must be >= 0''
      else None)"

section \<open>Dialing\<close>

text \<open>A server that answers the handshake with something else than an upgrade gives a status; every other failure has none.\<close>

datatype dial_error = WebSocketError int string | DialError string

definition CloseGoingAway :: int where "CloseGoingAway = 1001"
definition CloseAbnormalClosure :: int where "CloseAbnormalClosure = 1006"
definition CloseInternalServerErr :: int where "CloseInternalServerErr = 1011"

definition shouldRetryDial :: "dial_error \<Rightarrow> int \<Rightarrow> bool" where
  "shouldRetryDial err attempt =
     (case err of
        WebSocketError code _ \<Rightarrow> code = CloseAbnormalClosure \<or> code = CloseGoingAway \<or> code = CloseInternalServerErr
      | DialError _ \<Rightarrow> True)"

definition NewWebSocketClient :: "dial_error WebSocketRetryConfig option \<Rightarrow> string + dial_error WebSocketRetryConfig" where
  "NewWebSocketClient config =
     (let c = (case config of None \<Rightarrow> DefaultWebSocketRetryConfig | Some c \<Rightarrow> c) in
      case ValidateWebSocket c of
        Some e \<Rightarrow> Inl (''invalid WebSocket retry config: '' @ e)
      | None \<Rightarrow>
          Inr (case ShouldRetry (DialRetry c) of
                 None \<Rightarrow> c\<lparr>DialRetry := (DialRetry c)\<lparr>ShouldRetry := Some shouldRetryDial\<rparr>\<rparr>
               | Some _ \<Rightarrow> c))"

text \<open>\<open>DialContext\<close> gives a connection, or an error with the response of the server if there was one.\<close>

definition dial_operation :: "('w \<Rightarrow> (string \<times> int option + nat) \<times> 'w) \<Rightarrow> string \<Rightarrow> 'w \<Rightarrow> (dial_error + nat) \<times> 'w" where
  "dial_operation dial url w =
     (case dial w of
        (Inl (err, Some status), w') \<Rightarrow> (Inl (WebSocketError status (''failed to connect: '' @ err)), w')
      | (Inl (err, None), w') \<Rightarrow> (Inl (DialError (''failed to connect to WebSocket '' @ url @ '': '' @ err)), w')
      | (Inr conn, w') \<Rightarrow> (Inr conn, w'))"

definition dial_with_retry ::
    "('w, dial_error) retry_env \<Rightarrow> ('w \<Rightarrow> (string \<times> int option + nat) \<times> 'w) \<Rightarrow> string \<Rightarrow> dial_error WebSocketRetryConfig \<Rightarrow> 'w \<Rightarrow>
       (dial_error retry_error + nat) \<times> 'w" where
  "dial_with_retry env dial url config = Retry env (dial_operation dial url) (Some (DialRetry config))"

section \<open>Delays between reconnections\<close>

definition f64_sub :: "float64 \<Rightarrow> float64 \<Rightarrow> float64" where
  "f64_sub x y = f64 (x - y)"

definition rem_go :: "int \<Rightarrow> int \<Rightarrow> int" where
  "rem_go a b = sgn a * (\<bar>a\<bar> mod \<bar>b\<bar>)"

text \<open>\<open>nanos\<close> is the clock. The remainder by zero is a panic.\<close>

definition calculateReconnectDelay :: "int \<Rightarrow> ReconnectConfig \<Rightarrow> int \<Rightarrow> int option" where
  "calculateReconnectDelay currentDelay cfg nanos =
     (let grown = f64_to_i64 (f64_mult (f64_of_i64 currentDelay) (ReconnectFactor cfg));
          delay = (if grown > MaxReconnectDelay cfg then MaxReconnectDelay cfg else grown)
      in if Jitter cfg then
           let jitterRange = f64_mult (f64_of_i64 delay) (1 / 4);
               modulus = f64_to_i64 (f64_mult jitterRange 2)
           in if modulus = 0 then None
              else
                let jitter = f64_to_i64 (f64_sub (f64_of_i64 (rem_go nanos modulus)) jitterRange);
                    delay' = i64 (delay + jitter)
                in Some (if delay' < BaseDelay cfg then BaseDelay cfg else delay')
         else Some delay)"

section \<open>The bounds of a delay\<close>

lemma round_even_minus: "round_even (- x) = - round_even x"
proof (cases "x = of_int \<lfloor>x\<rfloor>")
  case True
  then obtain n where "x = of_int n" by blast
  then show ?thesis by (metis of_int_minus round_even_of_int)
next
  case False
  define f where "f = \<lfloor>x\<rfloor>"
  have e: "\<lfloor>- x\<rfloor> = - f - 1"
  proof (rule floor_unique)
    have "x < of_int f + 1" "of_int f < x" using False floor_correct [of x] by (auto simp: f_def order_less_le)
    then show "of_int (- f - 1) \<le> - x" "- x < of_int (- f - 1) + 1" by auto
  qed
  show ?thesis unfolding round_even_def Let_def e f_def [symmetric] by (auto simp: field_simps)
qed

lemma f64_minus: "f64 (- x) = - f64 x"
  by (simp add: f64_def Let_def round_even_minus flip: minus_divide_left)

lemma f64_abs_le:
  assumes "\<bar>x\<bar> \<le> of_int n" and "n \<le> 2 ^ 53"
  shows "\<bar>f64 x\<bar> \<le> of_int n"
proof -
  have n: "0 \<le> n" using assms(1) by (metis abs_ge_zero of_int_0_le_iff order_trans)
  have "f64 \<bar>x\<bar> \<le> f64 (of_int n)" using assms by (intro f64_mono) auto
  then have "f64 \<bar>x\<bar> \<le> of_int n" using f64_of_int_exact [OF n assms(2)] by simp
  moreover have "\<bar>f64 x\<bar> = f64 \<bar>x\<bar>"
    using f64_nonneg [of x] f64_nonneg [of "- x"] by (cases "0 \<le> x") (auto simp: f64_minus)
  ultimately show ?thesis by simp
qed

lemma f64_to_i64_abs_le:
  assumes "\<bar>x\<bar> \<le> of_int n" and "n \<le> 2 ^ 53"
  shows "\<bar>f64_to_i64 x\<bar> \<le> n"
proof (cases "0 \<le> x")
  case True
  then have f: "0 \<le> \<lfloor>x\<rfloor>" "\<lfloor>x\<rfloor> \<le> n" using assms(1) by (auto simp: floor_le_iff)
  moreover have "n < 2 ^ 63" using assms(2) by simp
  ultimately have "in_i64 \<lfloor>x\<rfloor>" unfolding in_i64_def by linarith
  then show ?thesis using f True by (simp add: f64_to_i64_def)
next
  case False
  then have f: "\<lceil>x\<rceil> \<le> 0" "- n \<le> \<lceil>x\<rceil>" using assms(1) by (auto simp: le_ceiling_iff)
  moreover have "n < 2 ^ 63" using assms(2) by simp
  ultimately have "in_i64 \<lceil>x\<rceil>" unfolding in_i64_def by linarith
  then show ?thesis using f False by (simp add: f64_to_i64_def)
qed

lemma rem_go_range: "0 \<le> a \<Longrightarrow> 0 < b \<Longrightarrow> 0 \<le> rem_go a b \<and> rem_go a b < b"
  by (auto simp: rem_go_def sgn_if)

text \<open>The jitter is at most a quarter of the delay, rounded up.\<close>

lemma jitter_le_quarter:
  assumes "4 \<le> delay" and "delay \<le> 2 ^ 50" and "0 \<le> nanos"
  defines "q \<equiv> f64_mult (f64_of_i64 delay) (1 / 4)"
  shows "0 < f64_to_i64 (f64_mult q 2)"
    and "\<bar>f64_to_i64 (f64_sub (f64_of_i64 (rem_go nanos (f64_to_i64 (f64_mult q 2)))) q)\<bar> \<le> delay div 4 + 1"
proof -
  define c where "c = delay div 4 + 1"
  have c: "2 \<le> c" "2 * c \<le> 2 ^ 53" using assms(1,2) by (auto simp: c_def)
  have d: "f64_of_i64 delay = of_int delay" using assms(1,2) by (simp add: f64_of_i64_def f64_of_int_exact)
  have real: "(of_int (c - 1) :: rat) \<le> of_int delay * (1 / 4)" "(of_int delay * (1 / 4) :: rat) \<le> of_int c"
  proof -
    have "4 * (c - 1) \<le> delay" "delay \<le> 4 * c" by (auto simp: c_def)
    then have "(of_int (4 * (c - 1)) :: rat) \<le> of_int delay" "(of_int delay :: rat) \<le> of_int (4 * c)" by (simp_all only: of_int_le_iff)
    then show "(of_int (c - 1) :: rat) \<le> of_int delay * (1 / 4)" "(of_int delay * (1 / 4) :: rat) \<le> of_int c" by simp_all
  qed
  have q: "of_int (c - 1) \<le> q" "q \<le> of_int c"
  proof -
    have "f64 (of_int (c - 1)) \<le> q" "q \<le> f64 (of_int c)"
      using real c assms(1) unfolding q_def f64_mult_def d by (auto intro!: f64_mono)
    then show "of_int (c - 1) \<le> q" "q \<le> of_int c"
      using f64_of_int_exact [of "c - 1"] f64_of_int_exact [of c] c by simp_all
  qed
  have q2: "2 \<le> f64_mult q 2" "f64_mult q 2 \<le> of_int (2 * c)"
  proof -
    have "1 \<le> q" using q(1) c by (simp add: order_trans [of 1 "of_int (c - 1)"])
    then have "f64 (of_int 2) \<le> f64 (q * 2)" "f64 (q * 2) \<le> f64 (of_int (2 * c))"
      using q by (auto intro!: f64_mono)
    then show "2 \<le> f64_mult q 2" "f64_mult q 2 \<le> of_int (2 * c)"
      using f64_of_int_exact [of 2] f64_of_int_exact [of "2 * c"] c by (simp_all add: f64_mult_def)
  qed
  have "f64_mult q 2 < 2 ^ 63"
    by (rule order_le_less_trans [OF q2(2)]) (use c in \<open>simp add: order_le_less_trans [of _ "2 ^ 53"]\<close>)
  then have m: "f64_to_i64 (f64_mult q 2) = \<lfloor>f64_mult q 2\<rfloor>" using q2(1) by (intro f64_to_i64_nonneg) auto
  then have m': "2 \<le> f64_to_i64 (f64_mult q 2)" "f64_to_i64 (f64_mult q 2) \<le> 2 * c"
    using q2 by (simp_all add: le_floor_iff floor_le_iff order_le_less_trans)
  then show "0 < f64_to_i64 (f64_mult q 2)" by simp
  define r where "r = rem_go nanos (f64_to_i64 (f64_mult q 2))"
  have r: "0 \<le> r" "r \<le> 2 * c - 1"
    using rem_go_range [OF assms(3), of "f64_to_i64 (f64_mult q 2)"] m' by (auto simp: r_def)
  have fr: "f64_of_i64 r = of_int r" using r c by (simp add: f64_of_i64_def f64_of_int_exact)
  have "(of_int r :: rat) \<le> of_int (2 * c - 1)" using r(2) by (simp only: of_int_le_iff)
  then have "of_int r - q \<le> of_int c" "- of_int c \<le> of_int r - q" using q r(1) by (auto simp: le_diff_eq)
  then have "\<bar>of_int r - q\<bar> \<le> of_int c" by simp
  then have "\<bar>f64_sub (f64_of_i64 r) q\<bar> \<le> of_int c"
    unfolding f64_sub_def fr by (rule f64_abs_le) (use c in simp)
  then show "\<bar>f64_to_i64 (f64_sub (f64_of_i64 (rem_go nanos (f64_to_i64 (f64_mult q 2)))) q)\<bar> \<le> delay div 4 + 1"
    unfolding r_def [symmetric] c_def [symmetric] by (rule f64_to_i64_abs_le) (use c in simp)
qed


text \<open>Delays for which the arithmetic makes sense: the default configuration has them.\<close>

definition delays_ok :: "ReconnectConfig \<Rightarrow> bool" where
  "delays_ok cfg \<longleftrightarrow> 4 \<le> BaseDelay cfg \<and> BaseDelay cfg \<le> MaxReconnectDelay cfg \<and> MaxReconnectDelay cfg \<le> 2 ^ 50 \<and>
     1 \<le> ReconnectFactor cfg \<and> ReconnectFactor cfg \<le> 1000"

definition delay_in_range :: "ReconnectConfig \<Rightarrow> int \<Rightarrow> bool" where
  "delay_in_range cfg d \<longleftrightarrow> BaseDelay cfg \<le> d \<and> d \<le> MaxReconnectDelay cfg + MaxReconnectDelay cfg div 4 + 1"

lemma default_delays_ok: "delays_ok DefaultReconnectConfig"
  by (simp add: delays_ok_def DefaultReconnectConfig_def second_def)

text \<open>
  The delay never falls below the base delay and never exceeds the limit by more than a quarter, which the jitter may add to it.
\<close>

theorem reconnect_delay_bounds:
  assumes "delays_ok cfg" and "delay_in_range cfg d" and "0 \<le> nanos"
  shows "\<exists>d'. calculateReconnectDelay d cfg nanos = Some d' \<and> delay_in_range cfg d'"
proof -
  define M where "M = MaxReconnectDelay cfg"
  have M: "4 \<le> M" "M \<le> 2 ^ 50" "BaseDelay cfg \<le> M" "4 \<le> BaseDelay cfg" using assms(1) by (auto simp: delays_ok_def M_def)
  have d: "BaseDelay cfg \<le> d" "d \<le> 2 ^ 51" "0 \<le> d" using assms(2) M by (auto simp: delay_in_range_def simp flip: M_def)
  define x where "x = f64_mult (f64_of_i64 d) (ReconnectFactor cfg)"
  have fd: "f64_of_i64 d = of_int d" using d by (simp add: f64_of_i64_def f64_of_int_exact)
  have "x < 2 ^ 63"
  proof -
    have "of_int d * ReconnectFactor cfg \<le> of_int (2 ^ 51) * 1000"
      using d assms(1) by (intro mult_mono) (auto simp: delays_ok_def simp del: of_int_power)
    also have "\<dots> \<le> of_int (2 ^ 61)" by simp
    finally have "x \<le> f64 (2 ^ 61)"
      using d assms(1) unfolding x_def f64_mult_def fd by (intro f64_mono) (auto simp: delays_ok_def)
    also have "f64 (2 ^ 61) = 2 ^ 61" by code_simp
    finally show ?thesis by simp
  qed
  then have grown: "d \<le> f64_to_i64 x"
    unfolding x_def using d assms(1) by (intro f64_scale_ge) (auto simp: delays_ok_def)
  define e where "e = (if f64_to_i64 x > M then M else f64_to_i64 x)"
  have e: "BaseDelay cfg \<le> e" "4 \<le> e" "e \<le> M" "e \<le> 2 ^ 50" using grown d M by (auto simp: e_def)
  note j = jitter_le_quarter [OF e(2,4) assms(3)]
  let ?j = "f64_to_i64 (f64_sub (f64_of_i64 (rem_go nanos (f64_to_i64 (f64_mult (f64_mult (f64_of_i64 e) (1 / 4)) 2)))) (f64_mult (f64_of_i64 e) (1 / 4)))"
  have div4: "0 \<le> e div 4" "e div 4 \<le> e" using e by auto
  have "in_i64 (e + k)" if "\<bar>k\<bar> \<le> e div 4 + 1" for k
  proof -
    have "e \<le> 1125899906842624" using e(4) by simp
    with that e(2) div4 have "- 9223372036854775808 \<le> e + k" "e + k < 9223372036854775808" by linarith+
    then show ?thesis by (simp add: in_i64_def)
  qed
  then have "in_i64 (e + ?j)" using j(2) by blast
  moreover have "e + ?j \<le> M + M div 4 + 1"
  proof -
    have "e div 4 \<le> M div 4" using e by (intro zdiv_mono1) auto
    with j(2) e show ?thesis by linarith
  qed
  moreover have "calculateReconnectDelay d cfg nanos = Some (if Jitter cfg then if i64 (e + ?j) < BaseDelay cfg then BaseDelay cfg else i64 (e + ?j) else e)"
    using j(1) unfolding calculateReconnectDelay_def Let_def x_def [symmetric] M_def [symmetric] e_def [symmetric] by simp
  ultimately show ?thesis
    using e M by (auto simp: delay_in_range_def simp flip: M_def)
qed

theorem reconnect_delay_bounds_witness:
  "\<exists>d'. calculateReconnectDelay (5 * second) DefaultReconnectConfig 17 = Some d' \<and> delay_in_range DefaultReconnectConfig d'"
  by (rule reconnect_delay_bounds [OF default_delays_ok])
    (simp_all add: delay_in_range_def DefaultReconnectConfig_def second_def)

section \<open>The running client\<close>

text \<open>
  Where a goroutine is: the ping loop waits for its ticker or writes to the connection it has read; the read loop looks at its context, reads the field \<open>conn\<close>, waits for
  a message, or hands it over; the reconnect loop looks at its context, counts, waits, and goes through \<open>Connect\<close>. A number is the connection that the goroutine
  holds. A caller of \<open>Connect\<close> from outside is in no wait group.
\<close>

datatype loop =
  PingWait | Pinging nat
| ReadTop | ReadConn | Reading nat | Forward string
| ReconnectTop int int | ReconnectCount int int | ReconnectWait int int | ReconnectCall int int | ReconnectDial int int
| ReconnectConfigure int int nat | Reconnected

datatype caller = CallDial | CallConfigure nat

record ws_client =
  Conn :: "nat option"
  LiveConns :: "nat set"
  NextConn :: nat
  ConnFlag :: bool
  CtxCancelled :: bool
  Attempts :: int
  Messages :: "string list"
  Errors :: "string list"
  ChansClosed :: bool
  Closers :: nat
  Loops :: "loop multiset"
  Callers :: "caller multiset"
  Panicked :: bool

definition messageCap :: nat where "messageCap = 100"
definition errorCap :: nat where "errorCap = 10"

definition new_client :: ws_client where
  "new_client = \<lparr>Conn = None, LiveConns = {}, NextConn = 0, ConnFlag = False, CtxCancelled = False, Attempts = 0, Messages = [], Errors = [],
     ChansClosed = False, Closers = 0, Loops = {#}, Callers = {#}, Panicked = False\<rparr>"

definition IsConnected :: "ws_client \<Rightarrow> bool" where
  "IsConnected s = ConnFlag s"

text \<open>The first lines of \<open>Connect\<close>.\<close>

definition already_connected :: "ws_client \<Rightarrow> bool" where
  "already_connected s \<longleftrightarrow> ConnFlag s \<and> Conn s \<noteq> None"

text \<open>The new connection replaces the old one, which is closed.\<close>

definition install :: "ws_client \<Rightarrow> ws_client" where
  "install s = s\<lparr>LiveConns := insert (NextConn s) (LiveConns s - set_option (Conn s)), Conn := Some (NextConn s), ConnFlag := True, NextConn := Suc (NextConn s)\<rparr>"

text \<open>The connection is configured, which fails when another goroutine has closed it meanwhile; then the loops are started.\<close>

definition start_loops :: "ws_client \<Rightarrow> ws_client" where
  "start_loops s = s\<lparr>Loops := Loops s + {#PingWait, ReadTop#}\<rparr>"

definition handleDisconnection :: "ReconnectConfig \<Rightarrow> ws_client \<Rightarrow> ws_client" where
  "handleDisconnection cfg s =
     (if \<not> ConnFlag s then s
      else s\<lparr>ConnFlag := False, LiveConns := LiveConns s - set_option (Conn s), Conn := None,
             Loops := add_mset (ReconnectTop 0 (BaseDelay cfg)) (Loops s)\<rparr>)"

text \<open>The reconnect loop after a failed attempt.\<close>

definition next_attempt :: "ReconnectConfig \<Rightarrow> int \<Rightarrow> int \<Rightarrow> int \<Rightarrow> ws_client \<Rightarrow> ws_client" where
  "next_attempt cfg attempt delay nanos s =
     (case calculateReconnectDelay delay cfg nanos of
        None \<Rightarrow> s\<lparr>Panicked := True\<rparr>
      | Some d \<Rightarrow> s\<lparr>Loops := add_mset (ReconnectTop attempt d) (Loops s)\<rparr>)"

definition give_up :: "ws_client \<Rightarrow> ws_client" where
  "give_up s =
     (if ChansClosed s then s\<lparr>Panicked := True\<rparr>
      else if length (Errors s) < errorCap then s\<lparr>Errors := Errors s @ [''max reconnection attempts reached'']\<rparr>
      else s)"

text \<open>
  \<open>Close\<close> cancels the context, waits until no goroutine is left, and takes the mutex: \<open>Closers\<close> counts the calls that have waited. The connection is closed
  and the channels too, once.
\<close>

definition finish_close :: "ws_client \<Rightarrow> ws_client" where
  "finish_close s =
     (if ChansClosed s then s
      else s\<lparr>LiveConns := LiveConns s - set_option (Conn s), Conn := None, ConnFlag := False, ChansClosed := True\<rparr>)"

text \<open>
  \<open>select\<close> takes any case that is ready. In each rule \<open>L\<close> are the other goroutines.
\<close>

inductive client_step :: "ReconnectConfig \<Rightarrow> ws_client \<Rightarrow> ws_client \<Rightarrow> bool" for cfg where
  \<comment> \<open>a caller of \<open>Connect\<close>\<close>
  call: "\<not> already_connected s \<Longrightarrow> client_step cfg s (s\<lparr>Callers := add_mset CallDial (Callers s)\<rparr>)"
| call_failed: "Callers s = add_mset CallDial C \<Longrightarrow> client_step cfg s (s\<lparr>Callers := C\<rparr>)"
| call_dialed: "Callers s = add_mset CallDial C \<Longrightarrow> client_step cfg s (install (s\<lparr>Callers := add_mset (CallConfigure (NextConn s)) C\<rparr>))"
| call_done: "Callers s = add_mset (CallConfigure c) C \<Longrightarrow>
      client_step cfg s (if c \<in> LiveConns s then start_loops (s\<lparr>Callers := C\<rparr>) else s\<lparr>Callers := C\<rparr>)"
  \<comment> \<open>the ping loop\<close>
| ping_stop: "Loops s = add_mset PingWait L \<Longrightarrow> CtxCancelled s \<Longrightarrow> client_step cfg s (s\<lparr>Loops := L\<rparr>)"
| ping_tick: "Loops s = add_mset PingWait L \<Longrightarrow> ConnFlag s \<Longrightarrow> Conn s = Some c \<Longrightarrow> client_step cfg s (s\<lparr>Loops := add_mset (Pinging c) L\<rparr>)"
| ping_sent: "Loops s = add_mset (Pinging c) L \<Longrightarrow> c \<in> LiveConns s \<Longrightarrow> client_step cfg s (s\<lparr>Loops := add_mset PingWait L\<rparr>)"
| ping_failed: "Loops s = add_mset (Pinging c) L \<Longrightarrow> client_step cfg s (handleDisconnection cfg (s\<lparr>Loops := L\<rparr>))"
  \<comment> \<open>the read loop\<close>
| read_stop: "Loops s = add_mset ReadTop L \<Longrightarrow> CtxCancelled s \<Longrightarrow> client_step cfg s (s\<lparr>Loops := L\<rparr>)"
| read_go_on: "Loops s = add_mset ReadTop L \<Longrightarrow> \<not> CtxCancelled s \<Longrightarrow> client_step cfg s (s\<lparr>Loops := add_mset ReadConn L\<rparr>)"
| read_conn: "Loops s = add_mset ReadConn L \<Longrightarrow> Conn s = Some c \<Longrightarrow> client_step cfg s (s\<lparr>Loops := add_mset (Reading c) L\<rparr>)"
| read_none: "Loops s = add_mset ReadConn L \<Longrightarrow> Conn s = None \<Longrightarrow> client_step cfg s (handleDisconnection cfg (s\<lparr>Loops := L\<rparr>))"
| read_message: "Loops s = add_mset (Reading c) L \<Longrightarrow> c \<in> LiveConns s \<Longrightarrow> client_step cfg s (s\<lparr>Loops := add_mset (Forward m) L\<rparr>)"
| read_other: "Loops s = add_mset (Reading c) L \<Longrightarrow> c \<in> LiveConns s \<Longrightarrow> client_step cfg s (s\<lparr>Loops := add_mset ReadTop L\<rparr>)"
| read_failed: "Loops s = add_mset (Reading c) L \<Longrightarrow> client_step cfg s (handleDisconnection cfg (s\<lparr>Loops := L\<rparr>))"
| forward: "Loops s = add_mset (Forward m) L \<Longrightarrow> \<not> ChansClosed s \<Longrightarrow> length (Messages s) < messageCap \<Longrightarrow>
      client_step cfg s (s\<lparr>Messages := Messages s @ [m], Loops := add_mset ReadTop L\<rparr>)"
| forward_closed: "Loops s = add_mset (Forward m) L \<Longrightarrow> ChansClosed s \<Longrightarrow> client_step cfg s (s\<lparr>Panicked := True\<rparr>)"
| forward_stop: "Loops s = add_mset (Forward m) L \<Longrightarrow> CtxCancelled s \<Longrightarrow> client_step cfg s (s\<lparr>Loops := L\<rparr>)"
| forward_drop: "Loops s = add_mset (Forward m) L \<Longrightarrow> \<not> CtxCancelled s \<Longrightarrow> \<not> length (Messages s) < messageCap \<Longrightarrow>
      client_step cfg s (s\<lparr>Loops := add_mset ReadTop L\<rparr>)"
  \<comment> \<open>the reconnect loop\<close>
| reconnect_stop: "Loops s = add_mset (ReconnectTop a d) L \<Longrightarrow> CtxCancelled s \<Longrightarrow> client_step cfg s (s\<lparr>Loops := L\<rparr>)"
| reconnect_go_on: "Loops s = add_mset (ReconnectTop a d) L \<Longrightarrow> \<not> CtxCancelled s \<Longrightarrow> client_step cfg s (s\<lparr>Loops := add_mset (ReconnectCount a d) L\<rparr>)"
| reconnect_give_up: "Loops s = add_mset (ReconnectCount a d) L \<Longrightarrow> 0 < MaxReconnects cfg \<Longrightarrow> MaxReconnects cfg \<le> a \<Longrightarrow>
      client_step cfg s (give_up (s\<lparr>Loops := L\<rparr>))"
| reconnect_count: "Loops s = add_mset (ReconnectCount a d) L \<Longrightarrow> \<not> (0 < MaxReconnects cfg \<and> MaxReconnects cfg \<le> a) \<Longrightarrow>
      client_step cfg s (s\<lparr>Attempts := a + 1, Loops := add_mset (ReconnectWait (a + 1) d) L\<rparr>)"
| reconnect_cancelled: "Loops s = add_mset (ReconnectWait a d) L \<Longrightarrow> CtxCancelled s \<Longrightarrow> client_step cfg s (s\<lparr>Loops := L\<rparr>)"
| reconnect_waited: "Loops s = add_mset (ReconnectWait a d) L \<Longrightarrow> client_step cfg s (s\<lparr>Loops := add_mset (ReconnectCall a d) L\<rparr>)"
| reconnect_already: "Loops s = add_mset (ReconnectCall a d) L \<Longrightarrow> already_connected s \<Longrightarrow> client_step cfg s (s\<lparr>Loops := add_mset Reconnected L\<rparr>)"
| reconnect_call: "Loops s = add_mset (ReconnectCall a d) L \<Longrightarrow> \<not> already_connected s \<Longrightarrow> client_step cfg s (s\<lparr>Loops := add_mset (ReconnectDial a d) L\<rparr>)"
| reconnect_failed: "Loops s = add_mset (ReconnectDial a d) L \<Longrightarrow> 0 \<le> nanos \<Longrightarrow> client_step cfg s (next_attempt cfg a d nanos (s\<lparr>Loops := L\<rparr>))"
| reconnect_dialed: "Loops s = add_mset (ReconnectDial a d) L \<Longrightarrow>
      client_step cfg s (install (s\<lparr>Loops := add_mset (ReconnectConfigure a d (NextConn s)) L\<rparr>))"
| reconnect_broken: "Loops s = add_mset (ReconnectConfigure a d c) L \<Longrightarrow> c \<notin> LiveConns s \<Longrightarrow> 0 \<le> nanos \<Longrightarrow>
      client_step cfg s (next_attempt cfg a d nanos (s\<lparr>Loops := L\<rparr>))"
| reconnect_configured: "Loops s = add_mset (ReconnectConfigure a d c) L \<Longrightarrow> c \<in> LiveConns s \<Longrightarrow>
      client_step cfg s (start_loops (s\<lparr>Loops := add_mset Reconnected L\<rparr>))"
| reconnect_done: "Loops s = add_mset Reconnected L \<Longrightarrow> client_step cfg s (s\<lparr>Attempts := 0, Loops := L\<rparr>)"
  \<comment> \<open>the users\<close>
| receive: "Messages s = m # ms \<Longrightarrow> client_step cfg s (s\<lparr>Messages := ms\<rparr>)"
| receive_error: "Errors s = e # es \<Longrightarrow> client_step cfg s (s\<lparr>Errors := es\<rparr>)"
| cancel: "client_step cfg s (s\<lparr>CtxCancelled := True\<rparr>)"
| close_waited: "CtxCancelled s \<Longrightarrow> Loops s = {#} \<Longrightarrow> client_step cfg s (s\<lparr>Closers := Suc (Closers s)\<rparr>)"
| close: "Closers s = Suc n \<Longrightarrow> client_step cfg s (finish_close (s\<lparr>Closers := n\<rparr>))"
| close_failed: "Closers s = Suc n \<Longrightarrow> client_step cfg s (s\<lparr>Closers := n, LiveConns := LiveConns s - set_option (Conn s)\<rparr>)"

inductive client_reachable :: "ReconnectConfig \<Rightarrow> ws_client \<Rightarrow> bool" for cfg where
  new: "client_reachable cfg new_client"
| step: "client_reachable cfg s \<Longrightarrow> client_step cfg s t \<Longrightarrow> client_reachable cfg t"

section \<open>What always holds\<close>

text \<open>A goroutine that was started after \<open>Close\<close> has waited goes no further than its look at the context.\<close>

fun late :: "loop \<Rightarrow> bool" where
  "late PingWait = True"
| "late (Pinging _) = True"
| "late ReadTop = True"
| "late (ReconnectTop _ _) = True"
| "late _ = False"

definition close_ok :: "ws_client \<Rightarrow> bool" where
  "close_ok s \<longleftrightarrow> (0 < Closers s \<or> ChansClosed s \<longrightarrow> CtxCancelled s \<and> (\<forall>l \<in># Loops s. late l))"

definition conn_ok :: "ws_client \<Rightarrow> bool" where
  "conn_ok s \<longleftrightarrow> (case Conn s of
      None \<Rightarrow> \<not> ConnFlag s \<and> LiveConns s = {}
    | Some c \<Rightarrow> ConnFlag s \<and> c < NextConn s \<and> LiveConns s \<subseteq> {c} \<and> (\<not> CtxCancelled s \<longrightarrow> LiveConns s = {c}))"

fun loop_delay :: "loop \<Rightarrow> int option" where
  "loop_delay (ReconnectTop _ d) = Some d"
| "loop_delay (ReconnectCount _ d) = Some d"
| "loop_delay (ReconnectWait _ d) = Some d"
| "loop_delay (ReconnectCall _ d) = Some d"
| "loop_delay (ReconnectDial _ d) = Some d"
| "loop_delay (ReconnectConfigure _ d _) = Some d"
| "loop_delay _ = None"

definition delays_in_range :: "ReconnectConfig \<Rightarrow> ws_client \<Rightarrow> bool" where
  "delays_in_range cfg s \<longleftrightarrow> (\<forall>l \<in># Loops s. case loop_delay l of None \<Rightarrow> True | Some d \<Rightarrow> delay_in_range cfg d)"

lemma base_in_range: "delays_ok cfg \<Longrightarrow> delay_in_range cfg (BaseDelay cfg)"
  by (auto simp: delays_ok_def delay_in_range_def)

lemma next_attempt_go_on:
  assumes "delays_ok cfg" and "delay_in_range cfg d" and "0 \<le> nanos"
  obtains d' where "delay_in_range cfg d'" and "next_attempt cfg a d nanos s = s\<lparr>Loops := add_mset (ReconnectTop a d') (Loops s)\<rparr>"
  using reconnect_delay_bounds [OF assms] by (auto simp: next_attempt_def)

lemmas client_defs = install_def start_loops_def handleDisconnection_def give_up_def finish_close_def already_connected_def

lemma close_step:
  assumes "client_step cfg s t" and "close_ok s"
  shows "close_ok t"
  using assms
  by cases (auto simp: close_ok_def client_defs next_attempt_def split: option.splits if_splits)

text \<open>Most steps do not touch the connection.\<close>

lemma conn_ok_updates [simp]:
  "conn_ok (s\<lparr>Loops := L\<rparr>) = conn_ok s" "conn_ok (s\<lparr>Callers := C\<rparr>) = conn_ok s" "conn_ok (s\<lparr>Messages := m\<rparr>) = conn_ok s"
  "conn_ok (s\<lparr>Errors := e\<rparr>) = conn_ok s" "conn_ok (s\<lparr>Attempts := n\<rparr>) = conn_ok s" "conn_ok (s\<lparr>Panicked := b\<rparr>) = conn_ok s"
  "conn_ok (s\<lparr>Closers := k\<rparr>) = conn_ok s"
  by (simp_all add: conn_ok_def cong: option.case_cong)

lemma conn_ok_cancel: "conn_ok s \<Longrightarrow> conn_ok (s\<lparr>CtxCancelled := True\<rparr>)"
  by (auto simp: conn_ok_def split: option.splits)

lemma conn_ok_ops:
  "conn_ok s \<Longrightarrow> conn_ok (install s)" "conn_ok (start_loops s) = conn_ok s" "conn_ok s \<Longrightarrow> conn_ok (handleDisconnection cfg s)"
  "conn_ok (next_attempt cfg a d n s) = conn_ok s" "conn_ok (give_up s) = conn_ok s" "conn_ok s \<Longrightarrow> conn_ok (finish_close s)"
  "conn_ok s \<Longrightarrow> CtxCancelled s \<Longrightarrow> conn_ok (s\<lparr>LiveConns := LiveConns s - set_option (Conn s)\<rparr>)"
        apply (auto simp: conn_ok_def install_def split: option.splits) [1]
       apply (simp add: start_loops_def)
      apply (auto simp: conn_ok_def handleDisconnection_def split: option.splits) [1]
     apply (simp add: next_attempt_def split: option.splits)
    apply (simp add: give_up_def)
   apply (auto simp: conn_ok_def finish_close_def split: option.splits) [1]
  apply (auto simp: conn_ok_def split: option.splits)
  done

lemma conn_step:
  assumes "client_step cfg s t" and "conn_ok s" and "close_ok s"
  shows "conn_ok t"
  using assms(1)
proof cases
  case (close_failed n)
  then have "CtxCancelled s" using assms(3) by (simp add: close_ok_def)
  then show ?thesis using conn_ok_ops(7) [of "s\<lparr>Closers := n\<rparr>"] assms(2) by (simp add: close_failed)
qed (use assms(2) in \<open>simp_all add: conn_ok_ops conn_ok_cancel\<close>)

lemma next_attempt_delays:
  assumes "Loops s = add_mset l L" and "loop_delay l = Some d" and "delays_in_range cfg s" and "delays_ok cfg" and "0 \<le> nanos"
  shows "delays_in_range cfg (next_attempt cfg a d nanos (s\<lparr>Loops := L\<rparr>))"
proof -
  have "delay_in_range cfg d" using assms(1-3) by (auto simp: delays_in_range_def)
  then obtain d' where "delay_in_range cfg d'"
    "next_attempt cfg a d nanos (s\<lparr>Loops := L\<rparr>) = s\<lparr>Loops := L\<rparr>\<lparr>Loops := add_mset (ReconnectTop a d') (Loops (s\<lparr>Loops := L\<rparr>))\<rparr>"
    using next_attempt_go_on [OF assms(4) _ assms(5)] by blast
  then show ?thesis using assms(1,3) by (auto simp: delays_in_range_def)
qed

lemma delays_step:
  assumes "client_step cfg s t" and "delays_ok cfg" and "delays_in_range cfg s"
  shows "delays_in_range cfg t"
  using assms(1)
proof cases
  case (reconnect_failed a d L nanos)
  then show ?thesis using next_attempt_delays [OF _ _ assms(3,2)] by simp
next
  case (reconnect_broken a d c L nanos)
  then show ?thesis using next_attempt_delays [OF _ _ assms(3,2)] by simp
qed (use assms(3) base_in_range [OF assms(2)] in \<open>simp_all add: delays_in_range_def client_defs\<close>)

lemma panic_step:
  assumes "client_step cfg s t" and "delays_ok cfg" and "delays_in_range cfg s" and "close_ok s" and "\<not> Panicked s"
  shows "\<not> Panicked t"
  using assms(1)
proof cases
  case (reconnect_failed a d L nanos)
  then have "delay_in_range cfg d" using assms(3) by (simp add: delays_in_range_def)
  from reconnect_delay_bounds [OF assms(2) this reconnect_failed(3)] assms(5) reconnect_failed(1) show ?thesis
    by (auto simp: next_attempt_def)
next
  case (reconnect_broken a d c L nanos)
  then have "delay_in_range cfg d" using assms(3) by (simp add: delays_in_range_def)
  from reconnect_delay_bounds [OF assms(2) this reconnect_broken(4)] assms(5) reconnect_broken(1) show ?thesis
    by (auto simp: next_attempt_def)
qed (use assms(4,5) in \<open>simp_all add: close_ok_def client_defs\<close>)

definition client_inv :: "ReconnectConfig \<Rightarrow> ws_client \<Rightarrow> bool" where
  "client_inv cfg s \<longleftrightarrow> close_ok s \<and> conn_ok s \<and> delays_in_range cfg s \<and> \<not> Panicked s"

lemma client_reachable_inv:
  assumes "client_reachable cfg s" and "delays_ok cfg"
  shows "client_inv cfg s"
  using assms(1)
proof induction
  case new
  show ?case by (simp add: client_inv_def new_client_def close_ok_def conn_ok_def delays_in_range_def)
next
  case (step s t)
  then show ?case
    using close_step conn_step delays_step [OF _ assms(2)] panic_step [OF _ assms(2)] unfolding client_inv_def by blast
qed


section \<open>A lost connection is noticed and replaced\<close>

fun reads :: "loop \<Rightarrow> bool" where
  "reads ReadTop = True"
| "reads ReadConn = True"
| "reads (Reading _) = True"
| "reads (Forward _) = True"
| "reads _ = False"

definition reconnects :: "loop \<Rightarrow> bool" where
  "reconnects l \<longleftrightarrow> loop_delay l \<noteq> None"

lemma reconnects_simps [simp]:
  "reconnects (ReconnectTop a d)" "reconnects (ReconnectCount a d)" "reconnects (ReconnectWait a d)" "reconnects (ReconnectCall a d)"
  "reconnects (ReconnectDial a d)" "reconnects (ReconnectConfigure a d c)"
  "\<not> reconnects PingWait" "\<not> reconnects (Pinging c)" "\<not> reconnects ReadTop" "\<not> reconnects ReadConn" "\<not> reconnects (Reading c)"
  "\<not> reconnects (Forward m)" "\<not> reconnects Reconnected"
  by (simp_all add: reconnects_def)

text \<open>Somebody is about to start the loops of the connection.\<close>

definition configures :: "nat \<Rightarrow> ws_client \<Rightarrow> bool" where
  "configures c s \<longleftrightarrow> CallConfigure c \<in># Callers s \<or> (\<exists>a d. ReconnectConfigure a d c \<in># Loops s)"

definition attended :: "ws_client \<Rightarrow> bool" where
  "attended s \<longleftrightarrow>
     CtxCancelled s \<or>
     (if ConnFlag s then (\<exists>l \<in># Loops s. reads l) \<or> (\<exists>c. Conn s = Some c \<and> configures c s)
      else NextConn s = 0 \<or> (\<exists>l \<in># Loops s. reconnects l))"

lemma next_attempt_eq:
  assumes "Loops s = add_mset l L" and "loop_delay l = Some d" and "delays_in_range cfg s" and "delays_ok cfg" and "0 \<le> nanos"
  obtains d' where "next_attempt cfg a d nanos (s\<lparr>Loops := L\<rparr>) = s\<lparr>Loops := add_mset (ReconnectTop a d') L\<rparr>"
proof -
  have "delay_in_range cfg d" using assms(1-3) by (auto simp: delays_in_range_def)
  from reconnect_delay_bounds [OF assms(4) this assms(5)] obtain d' where "calculateReconnectDelay d cfg nanos = Some d'" by blast
  then show thesis by (intro that [of d']) (simp add: next_attempt_def)
qed

lemma attended_next_attempt:
  assumes "Loops s = add_mset l L" and "loop_delay l = Some d" and "delays_in_range cfg s" and "delays_ok cfg" and "0 \<le> nanos"
    and "attended s" and "\<And>c. Conn s = Some c \<Longrightarrow> ConnFlag s \<Longrightarrow> \<not> CtxCancelled s \<Longrightarrow> \<forall>x y. l \<noteq> ReconnectConfigure x y c"
  shows "attended (next_attempt cfg a d nanos (s\<lparr>Loops := L\<rparr>))"
proof -
  have "\<not> reads l" using assms(2) by (cases l) auto
  obtain d' where e: "next_attempt cfg a d nanos (s\<lparr>Loops := L\<rparr>) = s\<lparr>Loops := add_mset (ReconnectTop a d') L\<rparr>"
    using next_attempt_eq [OF assms(1-5)] .
  show ?thesis
    using assms(1,6,7) \<open>\<not> reads l\<close> unfolding e by (auto simp: attended_def configures_def)
qed

lemma attended_disconnection: "attended (handleDisconnection cfg (s\<lparr>Loops := L\<rparr>))"
  if "Loops s = add_mset l L" "attended s" "\<not> reconnects l"
  using that by (auto simp: attended_def handleDisconnection_def configures_def)

lemma attended_step:
  assumes "client_step cfg s t" and "delays_ok cfg" and "client_inv cfg s" and "MaxReconnects cfg \<le> 0" and "attended s"
  shows "attended t"
proof -
  have inv: "close_ok s" "conn_ok s" "delays_in_range cfg s" using assms(3) by (auto simp: client_inv_def)
  have live: "c \<in> LiveConns s" if "Conn s = Some c" "\<not> CtxCancelled s" for c
    using inv(2) that by (simp add: conn_ok_def)
  have conn: "c \<in> LiveConns s \<Longrightarrow> ConnFlag s" for c
    using inv(2) by (auto simp: conn_ok_def split: option.splits)
  from assms(1) show ?thesis
  proof cases
    case (ping_failed c L)
    then show ?thesis using attended_disconnection [OF _ assms(5)] by simp
  next
    case (read_none L)
    then show ?thesis using attended_disconnection [OF _ assms(5)] by simp
  next
    case (read_failed c L)
    then show ?thesis using attended_disconnection [OF _ assms(5)] by simp
  next
    case (reconnect_failed a d L nanos)
    then show ?thesis using attended_next_attempt [OF _ _ inv(3) assms(2) _ assms(5)] by simp
  next
    case (reconnect_broken a d c L nanos)
    have "\<forall>x y. ReconnectConfigure a d c \<noteq> ReconnectConfigure x y c'" if "Conn s = Some c'" "\<not> CtxCancelled s" for c'
      using live [OF that] reconnect_broken(3) by auto
    then show ?thesis
      unfolding reconnect_broken(1) using reconnect_broken(4)
      by (intro attended_next_attempt [OF reconnect_broken(2) _ inv(3) assms(2) _ assms(5)]) auto
  next
    case (close n)
    then have "CtxCancelled s" using inv(1) by (simp add: close_ok_def)
    then show ?thesis using close(1) by (simp add: attended_def finish_close_def)
  next
    case (close_failed n)
    then have "CtxCancelled s" using inv(1) by (simp add: close_ok_def)
    then show ?thesis using close_failed(1) by (simp add: attended_def)
  next
    case (reconnect_configured a d c L)
    then show ?thesis using conn [of c] by (simp add: attended_def start_loops_def)
  next
    case (call_done c C)
    show ?thesis
    proof (cases "c \<in> LiveConns s")
      case True
      then show ?thesis using conn [of c] call_done by (simp add: attended_def start_loops_def)
    next
      case False
      then show ?thesis using live call_done assms(5) by (auto simp: attended_def configures_def)
    qed
  next
    case (reconnect_give_up a d L)
    then show ?thesis using assms(4) by simp
  next
    case (reconnect_already a d L)
    then show ?thesis using assms(5) by (auto simp: attended_def configures_def already_connected_def)
  next
    case (read_conn L c)
    then show ?thesis using assms(5) by (auto simp: attended_def configures_def)
  qed (use assms(5) in \<open>auto simp: attended_def configures_def install_def split: if_splits\<close>)
qed

text \<open>
  C24: A client that has once been connected, has no limit of attempts and is not closed, is always connected and read from, or about to be, or reconnecting: it never stays
  silent for ever because a disconnection was overlooked.
\<close>

theorem lost_connection_attended:
  assumes "client_reachable cfg s" and "delays_ok cfg" and "MaxReconnects cfg \<le> 0" and "\<not> CtxCancelled s" and "0 < NextConn s"
  shows "if IsConnected s then (\<exists>l \<in># Loops s. reads l) \<or> (\<exists>c. Conn s = Some c \<and> configures c s) else \<exists>l \<in># Loops s. reconnects l"
proof -
  have "attended s"
    using assms(1)
  proof induction
    case new
    show ?case by (simp add: attended_def new_client_def)
  next
    case (step s t)
    then show ?case using attended_step [OF _ assms(2) client_reachable_inv [OF _ assms(2)] assms(3)] by blast
  qed
  then show ?thesis using assms(4,5) by (auto simp: attended_def IsConnected_def split: if_splits)
qed

section \<open>Ping loops are left behind\<close>

text \<open>The client with a connection and \<open>n + 1\<close> ping loops that wait.\<close>

definition healthy :: "nat \<Rightarrow> nat \<Rightarrow> loop multiset \<Rightarrow> ws_client" where
  "healthy c n R = new_client\<lparr>Conn := Some c, LiveConns := {c}, NextConn := Suc c, ConnFlag := True, Loops := R + replicate_mset (Suc n) PingWait\<rparr>"

definition unhealthy :: "nat \<Rightarrow> nat \<Rightarrow> loop \<Rightarrow> int \<Rightarrow> ws_client" where
  "unhealthy c n l a = new_client\<lparr>NextConn := Suc c, Attempts := a, Loops := add_mset l (replicate_mset (Suc n) PingWait)\<rparr>"

lemma reachable_to: "client_reachable cfg s \<Longrightarrow> client_step cfg s t \<Longrightarrow> t = u \<Longrightarrow> client_reachable cfg u"
  by (auto intro: client_reachable.step)

lemma healthy_loops [simp]: "Loops (healthy c n {#l#}) = add_mset l (replicate_mset (Suc n) PingWait)"
  by (simp add: healthy_def)

lemma unhealthy_loops [simp]: "Loops (unhealthy c n l a) = add_mset l (replicate_mset (Suc n) PingWait)"
  by (simp add: unhealthy_def)

lemmas health_defs = healthy_def unhealthy_def new_client_def client_defs

lemma reconnected_once:
  assumes "client_reachable cfg (healthy c n {#ReadTop#})"
  shows "client_reachable cfg (healthy (Suc c) (Suc n) {#ReadTop#})"
proof -
  let ?d = "BaseDelay cfg"
  have "client_reachable cfg (healthy c n {#ReadConn#})"
    by (rule reachable_to [OF assms client_step.read_go_on]) (auto simp: health_defs)
  then have "client_reachable cfg (healthy c n {#Reading c#})"
    by (rule reachable_to [OF _ client_step.read_conn]) (auto simp: health_defs)
  then have "client_reachable cfg (unhealthy c n (ReconnectTop 0 ?d) 0)"
    by (rule reachable_to [OF _ client_step.read_failed]) (auto simp: health_defs)
  then have "client_reachable cfg (unhealthy c n (ReconnectCount 0 ?d) 0)"
    by (rule reachable_to [OF _ client_step.reconnect_go_on]) (auto simp: health_defs)
  then have "client_reachable cfg (unhealthy c n (ReconnectWait 1 ?d) 1)"
    by (rule reachable_to [OF _ client_step.reconnect_count]) (auto simp: health_defs)
  then have "client_reachable cfg (unhealthy c n (ReconnectCall 1 ?d) 1)"
    by (rule reachable_to [OF _ client_step.reconnect_waited]) (auto simp: health_defs)
  then have "client_reachable cfg (unhealthy c n (ReconnectDial 1 ?d) 1)"
    by (rule reachable_to [OF _ client_step.reconnect_call]) (auto simp: health_defs)
  then have "client_reachable cfg ((healthy (Suc c) n {#ReconnectConfigure 1 ?d (Suc c)#})\<lparr>Attempts := 1\<rparr>)"
    by (rule reachable_to [OF _ client_step.reconnect_dialed]) (auto simp: health_defs)
  then have "client_reachable cfg ((healthy (Suc c) (Suc n) {#Reconnected, ReadTop#})\<lparr>Attempts := 1\<rparr>)"
    by (rule reachable_to [OF _ client_step.reconnect_configured]) (auto simp: health_defs)
  then show ?thesis
    by (rule reachable_to [OF _ client_step.reconnect_done [where L = "add_mset ReadTop (replicate_mset (Suc (Suc n)) PingWait)"]]) (auto simp: health_defs)
qed

lemma first_connection: "client_reachable cfg (healthy 0 0 {#ReadTop#})"
proof -
  have "client_reachable cfg (new_client\<lparr>Callers := {#CallDial#}\<rparr>)"
    by (rule reachable_to [OF client_reachable.new client_step.call]) (auto simp: health_defs)
  then have "client_reachable cfg (new_client\<lparr>Conn := Some 0, LiveConns := {0}, NextConn := 1, ConnFlag := True, Callers := {#CallConfigure 0#}\<rparr>)"
    by (rule reachable_to [OF _ client_step.call_dialed]) (auto simp: health_defs)
  then show ?thesis
    by (rule reachable_to [OF _ client_step.call_done [of _ 0 "{#}"]]) (auto simp: health_defs)
qed

text \<open>
  A read that fails ends the read loop, but not the ping loop of the connection, and the new connection brings another one: after \<open>n\<close> reconnections a client with one
  connection and one reader has \<open>n + 1\<close> ping loops.
\<close>

theorem ping_loops_accumulate:
  "\<exists>s. client_reachable cfg s \<and> IsConnected s \<and> filter_mset reads (Loops s) = {#ReadTop#} \<and> count (Loops s) PingWait = n + 1"
proof -
  have "client_reachable cfg (healthy n n {#ReadTop#})"
    by (induction n) (auto intro: first_connection reconnected_once)
  moreover have "filter_mset reads (replicate_mset k PingWait) = {#}" for k
    by (induction k) auto
  ultimately show ?thesis
    by (intro exI [of _ "healthy n n {#ReadTop#}"]) (simp add: IsConnected_def healthy_def)
qed


theorem lost_connection_attended_witness:
  "client_reachable DefaultReconnectConfig (healthy 0 0 {#ReadTop#}) \<and> (\<exists>l \<in># Loops (healthy 0 0 {#ReadTop#}). reads l)"
  using lost_connection_attended [OF first_connection default_delays_ok] first_connection
  by (force simp: DefaultReconnectConfig_def IsConnected_def health_defs configures_def)

section \<open>A refused handshake\<close>

text \<open>
  The predicate compares the status of a refused handshake with the codes of closed connections, which no status equals: a server that answers, if only that it is
  busy, is not asked again.
\<close>

theorem refused_handshake_not_retried:
  assumes "dial w = (Inl (err, Some status), w')" and "status < 1000" and "NewWebSocketClient None = Inr config" and "ctx_err env w = None"
  shows "dial_with_retry env dial url config w = (Inl (OpError (WebSocketError status (''failed to connect: '' @ err))), w')"
proof -
  have config: "DialRetry config = DefaultRetryConfig\<lparr>ShouldRetry := Some shouldRetryDial\<rparr>"
    using assms(3)
    by (auto simp: NewWebSocketClient_def DefaultWebSocketRetryConfig_def ValidateWebSocket_def DefaultRetryConfig_def second_def Let_def)
  show ?thesis
    unfolding dial_with_retry_def Retry_def config
    using assms(1,2,4)
    by (simp add: Let_def Retry_loop.simps DefaultRetryConfig_def Validate_def second_def dial_operation_def may_retry_def shouldRetryDial_def
        CloseAbnormalClosure_def CloseGoingAway_def CloseInternalServerErr_def)
qed

theorem refused_handshake_not_retried_witness:
  "\<exists>config. dial_with_retry \<lparr>ctx_err = \<lambda>_. None, wait_timer = \<lambda>_ n. (None, n), rand_source = \<lambda>n. ((None, 0), n)\<rparr>
     (\<lambda>n :: nat. (Inl (''bad handshake'', Some 503), Suc n)) ''ws://node'' config 0 = (Inl (OpError (WebSocketError 503 ''failed to connect: bad handshake'')), 1)"
proof -
  obtain config where c: "NewWebSocketClient None = Inr config"
    by (auto simp: NewWebSocketClient_def DefaultWebSocketRetryConfig_def ValidateWebSocket_def second_def Let_def)
  show ?thesis
    by (rule exI [of _ config], subst refused_handshake_not_retried [OF _ _ c]) (simp_all)
qed

end
