(* ===== verification/Spec2Isabelle.thy ===== *)
theory Spec2Isabelle
  imports Access_Control Redis_Client Prelude Exchange_Sort Float64 Decimal Json Task_Types Retry WebSocket_Hub Container_Pool File_Cache Nonce_Manager Redis_Store Task_Streams Task_Dispatch
    Signing Keeper_Validation Keeper_Arguments Dispatcher Keeper_Execution Condition_Worker Condition_Scheduler Event_Registry
    Event_Worker Time_Jobs Time_Scheduler Keeper_Health Gas_Fees Execution_Pipeline Execution_Monitor Code_Files Monitor_Database Monitor_Events
    Http_Client Job_Code Job_Handlers WebSocket_Client
begin

text \<open>
  The TriggerX backend is a set of Go services. Schedulers find tasks: the time scheduler polls the dbserver for jobs that are due, the
  condition scheduler watches values and, through the event monitor, contracts. The task dispatcher signs a task, sends it to an
  aggregator and records it in Redis streams. A keeper, the performer, executes it in docker and on chain and
  uploads a proof; other keepers, the attesters, check what it has done. The task monitor follows the outcome, the health service knows which
  keepers are active, and the dbserver shows everything to users over WebSockets.

  The theories, and what they model:

  \<^item> \<open>Prelude\<close>, \<open>Float64\<close>, \<open>Decimal\<close>, \<open>Json\<close>: what Go gives: errors with their wrapping, computations with a state, an error and panics (\<open>io\<close>),
    64-bit integers that wrap around, \<open>float64\<close> as rounded rationals, texts of numbers, JSON values, buffered channels, ranging over
    maps. The locales \<open>bounded_queue\<close>, \<open>step_system\<close> and \<open>state_order\<close> are here: the last one says what every operation of
    a component leaves alone, and is interpreted by the components.
  \<^item> \<open>Task_Types\<close>: the records that the services exchange, with their JSON (\<open>pkg/types\<close>).
  \<^item> \<open>Retry\<close>: \<open>pkg/retry/retry.go\<close>. \<open>Retry\<close> runs an operation on a state of any type; C37 bounds its calls. The locale
    \<open>retry_client\<close> is its contract with a client.
  \<^item> \<open>WebSocket_Hub\<close>: \<open>hub.go\<close>, \<open>client.go\<close> and \<open>message.go\<close> of \<open>internal/dbserver/websocket\<close>. The state is the record \<open>Hub\<close>;
    \<open>ws_step\<close> is the running server. C13, \<open>slow_client_panics\<close>.
  \<^item> \<open>Container_Pool\<close>: \<open>pkg/dockerexecutor/container/pool.go\<close>, a record \<open>pool\<close> and one definition per
    method. C3 is the invariant over any sequence of requests; \<open>created_container_handed_out_twice\<close>.
  \<^item> \<open>File_Cache\<close>: \<open>pkg/dockerexecutor/file/cache.go\<close>. C12 is the invariant, C38 the eviction, \<open>shared_path_serves_other_file\<close> a collision.
  \<^item> \<open>Execution_Pipeline\<close>, \<open>Gas_Fees\<close>, \<open>Code_Files\<close>, \<open>Execution_Monitor\<close>: the rest of \<open>pkg/dockerexecutor\<close>. The container manager holds a pool per language
    and the pipeline runs files in their containers; C30 carries the budget of the pools through every sequence of executions,
    C14 and C32 say what never comes back or is never run, \<open>failures_count_as_successes\<close> and \<open>close_waits_for_timeout\<close> what statistics and shutdown
    do. The fees are sums of an estimate, a share of the aggregator and a price in dollars: C31, \<open>percentile_rank\<close>, \<open>history_stops_early\<close>; C33 compares the
    call that is estimated with the one that the keeper sends. The sort of the alerts and that of the cache are two instances of the locale \<open>exchange_sort\<close> (\<open>Exchange_Sort\<close>).
  \<^item> \<open>Signing\<close>, \<open>Keeper_Validation\<close>: \<open>pkg/cryptography/ecdsa.go\<close>, \<open>pkg/proof/proof.go\<close> and \<open>internal/keeper/core/validation\<close>: what a keeper
    checks before it acts and what an attester checks afterwards.
  \<^item> \<open>Nonce_Manager\<close>, \<open>Keeper_Arguments\<close>, \<open>Keeper_Execution\<close>: \<open>internal/keeper/core/execution\<close>. The nonce manager is a client of \<open>Retry\<close>: the
    interpretations \<open>client_call\<close>, \<open>submit_call\<close> and \<open>confirm_call\<close> of \<open>retry_client\<close> carry its invariant through the
    retried calls (C4, C40). The arguments of a job become values of the contract's types (C2). \<open>ExecuteTask\<close> composes the
    validation, the nonces, docker and the proof: C1 says that an honest result is attested, \<open>missing_proof_refused\<close> and \<open>failed_action_leaves_nonce_gap\<close> what happens on failures.
  \<^item> \<open>Redis_Store\<close>: the services that the streams talk to, as functions of the history of calls, and a logic for
    what a program appends to the history, stated once in the locale \<open>history_property\<close>.
  \<^item> \<open>Task_Streams\<close>: \<open>internal/taskmonitor/tasks\<close>: the index, the expirations, the life cycle of a task and the upkeep
    of the streams. C5, \<open>completed_lost\<close> and \<open>expirations_read_back\<close> hold for all services, whatever they answer.
  \<^item> \<open>Monitor_Database\<close>, \<open>Monitor_Events\<close>: the rest of \<open>internal/taskmonitor\<close>: the pollers of the chain (C27), what an event does to the streams, to the database and to
    its user (C28, \<open>missing_fee_panics\<close>), and the reports of keepers (C29). The database is a record of queries; \<open>implements\<close> relates
    it to the tables it stands for, over which C26 and \<open>failure_of_created_task_not_recorded\<close> are stated.
  \<^item> \<open>Task_Dispatch\<close>, \<open>Dispatcher\<close>: \<open>internal/taskdispatcher\<close>: the other writer of the same streams (\<open>accepted_before_dispatched\<close>), and the service that signs a task or
    a batch. C11 and C35 compose the signature with the keeper's check: a single task passes, the tasks of a batch do not.
  \<^item> \<open>Condition_Worker\<close>, \<open>Condition_Scheduler\<close>: \<open>internal/schedulers/condition\<close>: a worker reads a value and compares it, the scheduler
    keeps the workers and the jobs, and submits tasks. The relation \<open>sched_step\<close> is the running scheduler; C34, \<open>event_job_stays\<close> and C39 hold in all its
    reachable states.
  \<^item> \<open>Event_Registry\<close>, \<open>Event_Worker\<close>: \<open>internal/eventmonitor\<close>: the entries, their subscribers and workers, whose invariant is C7 (\<open>reregistered_event_unwatched\<close>), and the blocks
    that a worker asks for (C8, \<open>failed_chunk_is_skipped\<close>, \<open>negative_topic_panics\<close>).
  \<^item> \<open>Time_Jobs\<close>, \<open>Time_Scheduler\<close>: the jobs that the dbserver says are due (\<open>unsupported_schedule_blocks_poll\<close>, \<open>failed_task_loses_poll\<close>), and the batches that
    the time scheduler makes of them (C9).
  \<^item> \<open>Queries\<close>, \<open>Handlers\<close>, \<open>Http_Client\<close>, \<open>Job_Code\<close>, \<open>Job_Handlers\<close>: what a query does to the tables it stands for, \<open>pkg/http\<close>, and the handlers of
    \<open>internal/dbserver\<close> that create, update and delete jobs, with their repositories. \<open>implements_jobs\<close> relates the queries to the tables \<open>job_tables\<close>;
    the rules of \<open>yields\<close> carry a description of the tables through a handler that may answer early. C15 says what a request leaves there, C17 and
    C16 what a deletion does not do, C18 that every request is answered; \<open>verdict_remembered\<close> is about the cache of the sandbox.
  \<^item> \<open>Access_Control\<close>: the keys of the API, the middleware that checks them, and the limits of \<open>internal/dbserver\<close>. \<open>traffic\<close> is the server with a log of the requests that were granted:
    C20 bounds them; \<open>socket_step\<close> is the server of the WebSockets, for which C21 is the invariant. C22 and \<open>one_key_deleted\<close> are about the
    requests that change keys.
  \<^item> \<open>Redis_Client\<close>: \<open>pkg/client/redis\<close>. Its own retry loop is that of \<open>Retry\<close> with counts and another predicate (C23), so the laws of \<open>retry_client\<close> hold for
    it. The lock is twice a client of the loops: C19 carries mutual exclusion through lost replies and repeated commands, over the relation \<open>lock_run\<close> of any number of holders;
    \<open>lost_reply_blocks_lock\<close> is what a lost reply costs.
  \<^item> \<open>WebSocket_Client\<close>: \<open>pkg/websocket\<close>. Its goroutines interleave: \<open>ws_client\<close> holds them as a multiset of the places where they are, and \<open>client_step\<close> is one
    of them taking the mutex. C25 and C24 hold in all reachable states; \<open>ping_loops_accumulate\<close> and \<open>refused_handshake_not_retried\<close> are what it
    does wrong, \<open>reconnect_delay_bounds\<close> bounds its delays.
  \<^item> \<open>Keeper_Health\<close>: \<open>internal/health\<close>: the active keepers (\<open>active_after_cleanup\<close>) and the check-in (C36).
  \<^item> This theory composes services: C6 says that the monitor finds what the dispatcher has written, C10 and \<open>lower_limit_trigger_refused\<close> which triggers of
    the condition scheduler a keeper accepts.

  A state is a record, an operation a function that returns the new state. An error is a value:
  \<open>Inl\<close> of a \<open>go_error\<close>, or \<open>None\<close> where the process panics, waits for a lock that is never released, or runs a
  loop that does not return. Loops that may run for ever are partial functions without fuel (\<open>exec_wait\<close>, \<open>verify_wait\<close>,
  \<open>submitWithRetry\<close>, \<open>poll_chunks\<close>, \<open>batches\<close>); C8, C9, C39 and C40 say when they return. Everything that is not in the repository is a
  parameter: docker (\<open>docker_api\<close>, \<open>manager_env\<close>), the file system and JSON texts (\<open>fs_api\<close>, \<open>codec\<close>), the Ethereum
  client (\<open>eth_api\<close>, \<open>node_env\<close>, \<open>gas_env\<close>), the ABI (\<open>arg_env\<close>), curve and hashes (\<open>crypto\<close>), Redis, the database and the aggregator (\<open>services\<close>,
  \<open>jobs_db\<close>, \<open>handler_env\<close>, \<open>health_env\<close>), go-redis (\<open>redis_api\<close>), the sandbox and HTTP (\<open>code_env\<close>, \<open>http_env\<close>), the limiter and the table of the keys (\<open>access_env\<close>, \<open>key_env\<close>), the calls between services (\<open>scheduler_env\<close>, \<open>time_env\<close>, \<open>executor_env\<close>), contexts, clocks and random sources
  (\<open>retry_env\<close>). Their fields act on a world of any type or answer from the history, so the theorems hold for
  every behaviour unless a hypothesis restricts it: \<open>lawful\<close> in C6 is the documented behaviour of Redis
  hashes and streams, \<open>key_of\<close> and \<open>binding\<close> are that of signatures. The order in which Go ranges over a map is an argument.

  A method runs as one step where it holds its mutex; interleavings within methods that do not hold it are
  modelled for the reconnecting client only, and goroutines that a method starts for its own work run one after another. Not modelled either: logging and metrics,
  the sockets and timers of the WebSocket pumps, the ticker goroutines that call the modelled operations, start-up and configuration. The
  rpc framework, the subscriptions of \<open>pkg/client/nodeclient\<close>, which no service uses, and the http handlers of the dbserver that only print rows have no model here. The streams are written over \<open>services\<close>, which
  stands for Redis with its client: a call in their history is one that the client has brought to an end.
\<close>

section \<open>From the dispatcher to the monitor\<close>

text \<open>After the index has been written, the dispatcher only touches sorted sets and times to live.\<close>

definition bookkeeping :: "call \<Rightarrow> bool" where
  "bookkeeping c \<longleftrightarrow> (case c of CSetTTL k t r \<Rightarrow> True | CZAdd k t m r \<Rightarrow> True | _ \<Rightarrow> False)"

abbreviation keeps_books :: "'a prog \<Rightarrow> bool" where
  "keeps_books \<equiv> appends (only bookkeeping)"

lemma keeps_books_ask: "(\<And>r. bookkeeping (lg r)) \<Longrightarrow> keeps_books (ask f lg)"
  by (rule only.appends_ask) (simp add: only_def)

lemma keeps_books_rules:
  "keeps_books (setTTL sv k t)" "keeps_books (zadd sv k t m)" "keeps_books p \<Longrightarrow> keeps_books (ignore p)"
  "keeps_books (first_id task)"
  unfolding service_defs ignore_def first_id_def
  by (intro only.appends_rules keeps_books_ask; simp add: bookkeeping_def)+

lemma io_bind_start: "m s = m' s' \<Longrightarrow> io_bind m f s = io_bind m' f s'"
  by (simp add: io_bind_def)

lemma ignore_start: "m s = m' s' \<Longrightarrow> ignore m s = ignore m' s'"
  by (simp add: ignore_def io_bind_def io_try_def)

lemma track_dispatched_history:
  assumes "track_dispatched sv task m s = Some (r, s')" and "\<forall>h k f v. HSet sv h k f v = Inr ()"
    and "TaskID (SendTaskData task) = i # is"
  shows "\<exists>h'. history s' = history s @ CHSet TaskIndexKey (show_int i) m (Inr ()) # h' \<and> only bookkeeping h'"
proof -
  let ?s = "s\<lparr>history := history s @ [CHSet TaskIndexKey (show_int i) m (Inr ())]\<rparr>"
  let ?ttl = "ignore (setTTL sv TaskIndexKey (2 * hour))"
  let ?k = "io_bind (ignore ?ttl) (\<lambda>_. ignore (addTaskToTimeoutTracking sv i))"
  have "storeTaskIndex sv i m s = ?ttl ?s"
    using assms(2) by (simp add: storeTaskIndex_def TaskIndexKey_def io_bind_def [of "io_wrap _ _"] io_wrap_def hset_def ask_def Let_def)
  then have "io_bind (ignore (storeTaskIndex sv i m)) (\<lambda>_. ignore (addTaskToTimeoutTracking sv i)) s = ?k ?s"
    by (intro io_bind_start ignore_start)
  then have "?k ?s = Some (r, s')"
    using assms(1,3) by (simp add: track_dispatched_def first_id_def io_bind_def [of "io_ret _"] io_ret_def [of i])
  moreover have "keeps_books ?k"
    unfolding addTaskToTimeoutTracking_def by (intro only.appends_rules keeps_books_rules)
  ultimately show ?thesis unfolding appends_def by fastforce
qed

lemma dispatch_history:
  assumes "AddTaskToDispatchedStream sv cd task s = Some (Inr b, s')" and "\<forall>h k f v. HSet sv h k f v = Inr ()"
    and i: "TaskID (SendTaskData task) = i # is"
  obtains json t m h h' where "MarshalTask cd task = Inr json" and "only bookkeeping h'"
    and "history s' = h @ [CXAdd StreamTaskDispatched json t (Inr m), CHSet TaskIndexKey (show_int i) m (Inr ())] @ h'"
proof -
  obtain s1 where add: "addTaskToStreamD sv cd StreamTaskDispatched task s1 = Some (Inr True, s')"
    using assms(1) by (auto simp: AddTaskToDispatchedStream_def io_bind_Some io_fail_def io_ret_def split: if_splits)
  then obtain json where json: "MarshalTask cd task = Inr json"
    by (auto simp: addTaskToStreamD_def io_bind_Some io_fail_def split: sum.splits)
  let ?t = "unix (services.Now sv (history s1))"
  define m where "m = XAdd sv (history s1) StreamTaskDispatched json ?t"
  obtain i' where m: "m = Inr i'"
    using add json
    by (cases m) (auto simp: addTaskToStreamD_def xadd_def now_def ask_def Let_def io_bind_def io_try_def m_def
      io_fail_def first_id_def i io_ret_def)
  let ?s = "s1\<lparr>history := history s1 @ [CXAdd StreamTaskDispatched json ?t (Inr i')]\<rparr>"
  obtain x s2 where t: "track_dispatched sv task i' ?s = Some (x, s2)"
    and rest: "io_bind (track_expiration sv StreamTaskDispatched i') (\<lambda>_. io_bind (first_id task) (\<lambda>_. io_ret True)) s2 = Some (Inr True, s')"
    using add json m
    by (auto simp: addTaskToStreamD_def xadd_def now_def ask_def Let_def io_bind_def [of "io_try _"] io_try_def
        io_bind_def [of "now sv"] m_def io_bind_Some [of "track_dispatched sv task i'"])
  obtain h1 where h1: "history s2 = history ?s @ CHSet TaskIndexKey (show_int i) i' (Inr ()) # h1" "only bookkeeping h1"
    using track_dispatched_history [OF t assms(2) i] by blast
  have "keeps_books (io_bind (track_expiration sv StreamTaskDispatched i') (\<lambda>_. io_bind (first_id task) (\<lambda>_. io_ret True)))"
    unfolding track_expiration_def by (intro only.appends_rules keeps_books_rules)
  then obtain h2 where "history s' = history s2 @ h2" "only bookkeeping h2"
    using rest unfolding appends_def by blast
  then show ?thesis
    using that [of json "h1 @ h2" "history s1" ?t i'] json h1 by (simp add: only.ok_append)
qed

lemma books_keep_hash: "only bookkeeping h \<Longrightarrow> hash_rev k f (rev h @ g) = hash_rev k f g"
  by (induction h rule: rev_induct) (auto simp: only_def bookkeeping_def split: call.splits)

lemma books_keep_stream: "only bookkeeping h \<Longrightarrow> stream_rev st i (rev h @ g) = stream_rev st i g"
  by (induction h rule: rev_induct) (auto simp: only_def bookkeeping_def split: call.splits)

section \<open>A Redis for the witness\<close>

definition kept_services :: services where
  "kept_services = idle_services\<lparr>HGetWithExists := \<lambda>h k f. Inr (hash_rev k f (rev h)),
     XRange := \<lambda>h st i j. Inr (case stream_rev st i (rev h) of None \<Rightarrow> [] | Some json \<Rightarrow> [\<lparr>ID = i, TaskField = Some json\<rparr>])\<rparr>"

lemma lawful_kept: "lawful kept_services"
  by (simp add: lawful_def kept_services_def idle_services_def)

lemma demo_dispatch:
  "\<exists>s'. AddTaskToDispatchedStream kept_services demo_codec demo_task fresh = Some (Inr True, s') \<and> length (history s') = 8 \<and>
    (\<forall>c \<in> set (history s'). case c of CXTrim st n r \<Rightarrow> False | _ \<Rightarrow> True)"
  by (simp add: AddTaskToDispatchedStream_def send_to_performer_def first_target_def addTaskToStreamD_def track_dispatched_def
      track_expiration_def storeTaskIndex_def addTaskToTimeoutTracking_def ignore_def now_def run_defs demo_codec_def
      demo_task_def fresh_def kept_services_def idle_services_def)

section \<open>Properties\<close>

text \<open>
  C6: A task that the dispatcher has dispatched is found by the task monitor: with a Redis that keeps what is
  written, the monitor's lookup of the task id right after the dispatch returns the same task (but for
  the field the monitor does not read) and the message under which it was added.
\<close>

theorem dispatched_task_is_found:
  assumes "lawful sv" and "AddTaskToDispatchedStream sv cdD task s = Some (Inr b, s')"
    and "TaskID (SendTaskData task) = i # is" and "length (history s') < 9999"
    and "\<forall>c \<in> set (history s'). case c of CXTrim st n r \<Rightarrow> False | _ \<Rightarrow> True"
    and json: "\<forall>j. MarshalTask cdD task = Inr j \<longrightarrow> UnmarshalTask cdM j = Inr (task\<lparr>IsMainnet := False\<rparr>)"
  shows "\<exists>m s'' j t. FindTaskByID sv cdM i s' = Some (Inr (task\<lparr>IsMainnet := False\<rparr>, m), s'') \<and>
    CXAdd StreamTaskDispatched j t (Inr m) \<in> set (history s')"
proof -
  have hset: "\<forall>h k f v. HSet sv h k f v = Inr ()" using assms(1) by (simp add: lawful_def)
  obtain j t m h h' where j: "MarshalTask cdD task = Inr j" and books: "only bookkeeping h'"
    and h: "history s' = h @ [CXAdd StreamTaskDispatched j t (Inr m), CHSet TaskIndexKey (show_int i) m (Inr ())] @ h'"
    using dispatch_history [OF assms(2) hset assms(3)] .
  let ?g = "CHGet TaskIndexKey (show_int i) (Inr (Some m))"
  have get: "HGetWithExists sv (history s') TaskIndexKey (show_int i) = Inr (Some m)"
    using assms(1) by (simp add: lawful_def h books_keep_hash [OF books])
  have "untrimmed (history s' @ [?g])" using assms(4,5) by (auto simp: untrimmed_def)
  then have range: "XRange sv (history s' @ [?g]) StreamTaskDispatched m m = Inr [\<lparr>ID = m, TaskField = Some j\<rparr>]"
    using assms(1) by (simp add: lawful_def h books_keep_stream [OF books])
  have "FindTaskByID sv cdM i s' = Some (Inr (task\<lparr>IsMainnet := False\<rparr>, m),
      s'\<lparr>history := history s' @ [?g, CXRange StreamTaskDispatched m m (Inr [\<lparr>ID = m, TaskField = Some j\<rparr>])]\<rparr>)"
    using get range json j assms(3) by (simp add: run_defs)
  then show ?thesis using h by auto
qed

theorem dispatched_task_is_found_witness:
  "\<exists>s' m s'' j t. AddTaskToDispatchedStream kept_services demo_codec demo_task fresh = Some (Inr True, s') \<and>
    FindTaskByID kept_services demo_codec 9 s' = Some (Inr (demo_task\<lparr>IsMainnet := False\<rparr>, m), s'') \<and>
    CXAdd StreamTaskDispatched j t (Inr m) \<in> set (history s')"
proof -
  obtain s' where s: "AddTaskToDispatchedStream kept_services demo_codec demo_task fresh = Some (Inr True, s')"
    "length (history s') = 8" "\<forall>c \<in> set (history s'). case c of CXTrim st n r \<Rightarrow> False | _ \<Rightarrow> True"
    using demo_dispatch by blast
  have "TaskID (SendTaskData demo_task) = 9 # []" "length (history s') < 9999"
    "\<forall>j. MarshalTask demo_codec demo_task = Inr j \<longrightarrow> UnmarshalTask demo_codec j = Inr (demo_task\<lparr>IsMainnet := False\<rparr>)"
    using s(2) by (simp_all add: demo_task_def demo_codec_def)
  then show ?thesis
    using dispatched_task_is_found [OF lawful_kept s(1) _ _ s(3), of 9 "[]" demo_codec] s(1) by blast
qed

section \<open>Condition triggers from scheduler to keeper\<close>

text \<open>The numbers of a condition lose their fractions on the way; in range the order is kept.\<close>

definition fits :: "float64 \<Rightarrow> bool" where
  "fits x \<longleftrightarrow> \<bar>x\<bar> < 2 ^ 63"

lemma f64_to_i64_fits:
  assumes "fits x"
  shows "f64_to_i64 x = (if 0 \<le> x then \<lfloor>x\<rfloor> else \<lceil>x\<rceil>)"
proof -
  have "- (2 ^ 63) \<le> \<lceil>x\<rceil>" "\<lfloor>x\<rfloor> < 2 ^ 63" if "\<bar>x\<bar> < 2 ^ 63"
    using that by (auto simp: le_ceiling_iff floor_less_iff abs_less_iff)
  moreover have "0 \<le> x \<Longrightarrow> 0 \<le> \<lfloor>x\<rfloor>" "x < 0 \<Longrightarrow> \<lceil>x\<rceil> \<le> 0"
    by (auto simp: ceiling_le_zero)
  ultimately show ?thesis
    using assms by (auto simp: f64_to_i64_def Let_def in_i64_def fits_def)
qed

lemma f64_to_i64_mono: "fits x \<Longrightarrow> fits y \<Longrightarrow> x \<le> y \<Longrightarrow> f64_to_i64 x \<le> f64_to_i64 y"
  by (auto simp: f64_to_i64_fits floor_mono ceiling_mono intro: order_trans [of _ 0])

text \<open>What the scheduler sends about a value that it has found.\<close>

definition condition_trigger :: "ScheduleConditionJobData \<Rightarrow> float64 \<Rightarrow> int \<Rightarrow> TaskTriggerData" where
  "condition_trigger job v t = createTriggerDataFromNotification job (notification (ConditionData job) v t)"

lemma condition_trigger_simps:
  assumes "JbTaskDefinitionID job \<in> {5, 6}"
  shows "TrExpirationTime (condition_trigger job v t) = CwExpirationTime (ConditionData job)"
    "NextTriggerTimestamp (condition_trigger job v t) = 0"
    "TrConditionType (condition_trigger job v t) = ConditionType (ConditionData job)"
    "ConditionSatisfiedValue (condition_trigger job v t) = f64_to_i64 v"
    "ConditionUpperLimit (condition_trigger job v t) = f64_to_i64 (UpperLimit (ConditionData job))"
    "ConditionLowerLimit (condition_trigger job v t) = f64_to_i64 (LowerLimit (ConditionData job))"
    "TrTaskDefinitionID (condition_trigger job v t) = JbTaskDefinitionID job"
  using assms
  by (auto simp: condition_trigger_def createTriggerDataFromNotification_def notification_def zero_trigger_def Let_def)

text \<open>
  C10: A keeper accepts a trigger that the scheduler has found with \<open>between\<close> or \<open>less_equal\<close>, when its numbers are in the range of
  an \<open>int64\<close>, although both sides have lost their fractions.
\<close>

theorem range_trigger_accepted:
  assumes "JbTaskDefinitionID job \<in> {5, 6}" and "0 \<le> CwExpirationTime (ConditionData job)"
    and "ConditionType (ConditionData job) \<in> {''between'', ''less_equal''}" and "evaluateCondition (ConditionData job) v = Inr True"
    and "fits v" and "fits (UpperLimit (ConditionData job))" and "fits (LowerLimit (ConditionData job))"
  shows "ValidateTrigger env (condition_trigger job v t) w = Some (Inr True, w)"
  using assms f64_to_i64_mono
  by (auto simp: ValidateTrigger_def io_lift_def IsValidConditionBasedTrigger_def condition_trigger_simps evaluateCondition_def)

text \<open>
  A keeper refuses every trigger that the scheduler has found with \<open>greater_than\<close> at a value that is not above the upper limit: the scheduler
  compares with the lower limit of the job, the keeper with the upper one. The same holds for \<open>equals\<close> as soon as the two limits differ after rounding.
\<close>

theorem lower_limit_trigger_refused:
  assumes "JbTaskDefinitionID job \<in> {5, 6}" and "0 \<le> CwExpirationTime (ConditionData job)"
    and "evaluateCondition (ConditionData job) v = Inr True"
    and "fits v" and "fits (UpperLimit (ConditionData job))"
    and "(ConditionType (ConditionData job) = ''greater_than'' \<and> v \<le> UpperLimit (ConditionData job)) \<or>
      (ConditionType (ConditionData job) = ''equals'' \<and> f64_to_i64 (LowerLimit (ConditionData job)) \<noteq> f64_to_i64 (UpperLimit (ConditionData job)))"
  shows "ValidateTrigger env (condition_trigger job v t) w = Some (Inr False, w)"
  using assms(6)
proof
  assume "ConditionType (ConditionData job) = ''greater_than'' \<and> v \<le> UpperLimit (ConditionData job)"
  then show ?thesis
    using assms(1,2) f64_to_i64_mono [OF assms(4,5)]
    by (auto simp: ValidateTrigger_def io_lift_def IsValidConditionBasedTrigger_def condition_trigger_simps)
next
  assume "ConditionType (ConditionData job) = ''equals'' \<and> f64_to_i64 (LowerLimit (ConditionData job)) \<noteq> f64_to_i64 (UpperLimit (ConditionData job))"
  then show ?thesis
    using assms(1-3)
    by (auto simp: ValidateTrigger_def io_lift_def IsValidConditionBasedTrigger_def condition_trigger_simps evaluateCondition_def)
qed

theorem range_trigger_accepted_witness:
  "ValidateTrigger demo_keeper (condition_trigger (demo_job 5) 7 1) () = Some (Inr True, ())"
  by (rule range_trigger_accepted) (simp_all add: demo_job_def demo_condition_def evaluateCondition_def fits_def)

theorem lower_limit_trigger_refused_witness:
  "ValidateTrigger demo_keeper (condition_trigger (demo_job 5\<lparr>ConditionData := demo_condition\<lparr>ConditionType := ''greater_than''\<rparr>\<rparr>) 7 1) () =
     Some (Inr False, ())"
  by (rule lower_limit_trigger_refused) (simp_all add: demo_job_def demo_condition_def evaluateCondition_def fits_def)

end
